(* ===== verification/Prelude.thy ===== *)
theory Prelude
  imports Main "HOL-Library.Monad_Syntax"
begin

text \<open>
  What the component theories share: the procedures of the model (computations that read and
  extend a state and may stop with an error), a small calculus of their pre- and postconditions,
  and generic facts on lists and options.  A procedure is a function from the state to the
  outcome and the next state; \<open>Inl\<close> is the error a Go function returns, \<open>Inr\<close> its result.
\<close>

named_theorems proc_defs \<open>definitions of the sequencing operations\<close>
named_theorems go_simps \<open>rewrite rules for the modelled standard library\<close>

section \<open>Procedures\<close>

type_synonym ('s, 'e, 'a) proc = "'s \<Rightarrow> ('e + 'a) \<times> 's"

definition returnP :: "'a \<Rightarrow> ('s, 'e, 'a) proc" where
  [proc_defs]: "returnP x s = (Inr x, s)"

definition throwP :: "'e \<Rightarrow> ('s, 'e, 'a) proc" where
  [proc_defs]: "throwP e s = (Inl e, s)"

definition bindP :: "('s, 'e, 'a) proc \<Rightarrow> ('a \<Rightarrow> ('s, 'e, 'b) proc) \<Rightarrow> ('s, 'e, 'b) proc" where
  [proc_defs]: "bindP m k s = (case m s of (Inl e, s') \<Rightarrow> (Inl e, s') | (Inr x, s') \<Rightarrow> k x s')"

definition handleP ::
    "('s, 'e, 'a) proc \<Rightarrow> ('e \<Rightarrow> ('s, 'e2, 'b) proc) \<Rightarrow> ('a \<Rightarrow> ('s, 'e2, 'b) proc) \<Rightarrow> ('s, 'e2, 'b) proc" where
  [proc_defs]: "handleP m h k s = (case m s of (Inl e, s') \<Rightarrow> h e s' | (Inr x, s') \<Rightarrow> k x s')"

definition whenP :: "bool \<Rightarrow> 'e \<Rightarrow> ('s, 'e, unit) proc" where
  [proc_defs]: "whenP b e s = (if b then (Inl e, s) else (Inr (), s))"

definition getsP :: "('s \<Rightarrow> 'a) \<Rightarrow> ('s, 'e, 'a) proc" where
  [proc_defs]: "getsP f s = (Inr (f s), s)"

definition modifyP :: "('s \<Rightarrow> 's) \<Rightarrow> ('s, 'e, unit) proc" where
  [proc_defs]: "modifyP f s = (Inr (), f s)"

text \<open>
  \<open>triple P m Q E\<close>: started in a state with \<open>P\<close>, the procedure ends with \<open>Q\<close> of its result and
  state, or with \<open>E\<close> of its error and state.  Procedures are total, so this is total correctness.
\<close>

definition triple ::
    "('s \<Rightarrow> bool) \<Rightarrow> ('s, 'e, 'a) proc \<Rightarrow> ('a \<Rightarrow> 's \<Rightarrow> bool) \<Rightarrow> ('e \<Rightarrow> 's \<Rightarrow> bool) \<Rightarrow> bool" where
  "triple P m Q E \<longleftrightarrow>
     (\<forall>s. P s \<longrightarrow> (case m s of (Inl e, s') \<Rightarrow> E e s' | (Inr x, s') \<Rightarrow> Q x s'))"

lemma tripleI:
  assumes "\<And>s x s'. P s \<Longrightarrow> m s = (Inr x, s') \<Longrightarrow> Q x s'"
    and "\<And>s e s'. P s \<Longrightarrow> m s = (Inl e, s') \<Longrightarrow> E e s'"
  shows "triple P m Q E"
  unfolding triple_def using assms by (auto split: prod.splits sum.splits)

lemma triple_resultD: "triple P m Q E \<Longrightarrow> P s \<Longrightarrow> m s = (Inr x, s') \<Longrightarrow> Q x s'"
  by (force simp: triple_def)

lemma triple_errorD: "triple P m Q E \<Longrightarrow> P s \<Longrightarrow> m s = (Inl e, s') \<Longrightarrow> E e s'"
  by (force simp: triple_def)

lemma triple_return: "(\<And>s. P s \<Longrightarrow> Q x s) \<Longrightarrow> triple P (returnP x) Q E"
  by (simp add: triple_def returnP_def)

lemma triple_throw: "(\<And>s. P s \<Longrightarrow> E e s) \<Longrightarrow> triple P (throwP e) Q E"
  by (simp add: triple_def throwP_def)

lemma triple_bind:
  assumes "triple P m R E" and "\<And>x. triple (R x) (k x) Q E"
  shows "triple P (bindP m k) Q E"
  using assms unfolding triple_def bindP_def by (fastforce split: prod.splits sum.splits)

lemma triple_handle:
  assumes "triple P m R F" and "\<And>x. triple (R x) (k x) Q E" and "\<And>e. triple (F e) (h e) Q E"
  shows "triple P (handleP m h k) Q E"
  using assms unfolding triple_def handleP_def by (fastforce split: prod.splits sum.splits)

lemma triple_when:
  assumes "\<And>s. P s \<Longrightarrow> b \<Longrightarrow> E e s" and "\<And>s. P s \<Longrightarrow> \<not> b \<Longrightarrow> Q () s"
  shows "triple P (whenP b e) Q E"
  using assms by (auto simp: triple_def whenP_def)

lemma triple_gets: "(\<And>s. P s \<Longrightarrow> Q (f s) s) \<Longrightarrow> triple P (getsP f) Q E"
  by (simp add: triple_def getsP_def)

lemma triple_modify: "(\<And>s. P s \<Longrightarrow> Q () (f s)) \<Longrightarrow> triple P (modifyP f) Q E"
  by (simp add: triple_def modifyP_def)

lemma triple_weaken:
  assumes "triple P' m Q' E'"
    and "\<And>s. P s \<Longrightarrow> P' s" and "\<And>x s. Q' x s \<Longrightarrow> Q x s" and "\<And>e s. E' e s \<Longrightarrow> E e s"
  shows "triple P m Q E"
  using assms unfolding triple_def by (fastforce split: prod.splits sum.splits)

lemma triple_conj:
  assumes "triple P m Q E" and "triple P' m Q' E'"
  shows "triple (\<lambda>s. P s \<and> P' s) m (\<lambda>x s. Q x s \<and> Q' x s) (\<lambda>e s. E e s \<and> E' e s)"
  using assms unfolding triple_def by (auto split: prod.splits sum.splits)

lemma triple_if:
  assumes "b \<Longrightarrow> triple P m Q E" and "\<not> b \<Longrightarrow> triple P n Q E"
  shows "triple P (if b then m else n) Q E"
  using assms by simp

lemma triple_False: "triple (\<lambda>_. False) m Q E"
  by (simp add: triple_def)

lemmas triple_basic = triple_return triple_throw triple_when triple_gets triple_modify

section \<open>Lists and options\<close>

lemma list_all_take: "list_all P xs \<Longrightarrow> list_all P (take n xs)"
  by (auto simp: list_all_iff dest: in_set_takeD)

lemma list_all_drop: "list_all P xs \<Longrightarrow> list_all P (drop n xs)"
  by (auto simp: list_all_iff dest: in_set_dropD)

lemma find_Some_set: "find P xs = Some x \<Longrightarrow> x \<in> set xs \<and> P x"
  by (induction xs) (auto split: if_splits)

lemma find_None_iff_all: "find P xs = None \<longleftrightarrow> (\<forall>x \<in> set xs. \<not> P x)"
  by (induction xs) auto

text \<open>A check that stops a computation in the option monad.\<close>

definition require :: "bool \<Rightarrow> unit option" where
  "require b = (if b then Some () else None)"

lemma require_Some [simp]: "require b = Some u \<longleftrightarrow> b"
  by (simp add: require_def)

lemma require_None [simp]: "require b = None \<longleftrightarrow> \<not> b"
  by (simp add: require_def)

text \<open>Keeping the first occurrence of every element, as a loop with a \<open>seen\<close> set does.\<close>

fun dedup_seen :: "('a \<Rightarrow> 'k) \<Rightarrow> 'k list \<Rightarrow> 'a list \<Rightarrow> 'a list" where
  "dedup_seen key seen [] = []"
| "dedup_seen key seen (x # xs) =
     (if List.member seen (key x) then dedup_seen key seen xs
      else x # dedup_seen key (key x # seen) xs)"

lemma dedup_seen_subset: "set (dedup_seen key seen xs) \<subseteq> set xs"
  by (induction key seen xs rule: dedup_seen.induct) auto

lemma dedup_seen_fresh: "x \<in> set (dedup_seen key seen xs) \<Longrightarrow> key x \<notin> set seen"
  by (induction key seen xs rule: dedup_seen.induct) (auto split: if_splits)

lemma dedup_seen_distinct: "distinct (map key (dedup_seen key seen xs))"
proof (induction key seen xs rule: dedup_seen.induct)
  case (2 key seen x xs)
  then show ?case by (auto dest: dedup_seen_fresh)
qed simp

lemma dedup_seen_keys: "key ` set (dedup_seen key seen xs) = key ` set xs - set seen"
  by (induction key seen xs rule: dedup_seen.induct) auto

lemma dedup_seen_id: "distinct (map key xs) \<Longrightarrow> key ` set xs \<inter> set seen = {} \<Longrightarrow> dedup_seen key seen xs = xs"
  by (induction xs arbitrary: seen) auto

end
