(* ===== verification/GoStrings.thy ===== *)
theory GoStrings
  imports Prelude "HOL-Library.Char_ord" "HOL-Library.List_Lexorder"
begin

text \<open>
  The parts of Go's \<open>strings\<close>, \<open>strconv\<close>, \<open>unicode\<close> and \<open>sort\<close> packages the components use.  A Go
  string is the sequence of its bytes, here a \<open>string\<close> whose characters are the bytes; character
  classes and decimal numbers are defined on bytes.  The lemmas are the laws the components rely
  on: prefixes and suffixes split a string, trimming is idempotent, printing a number and parsing
  it give it back.
\<close>

section \<open>Characters\<close>

abbreviation byte :: "char \<Rightarrow> nat" where
  "byte c \<equiv> of_char c"

lemma byte_less: "byte c < 256"
  using of_char_mod_256 [of c, where ?'a = nat] mod_less_divisor [of 256 "byte c"] by simp

definition in_range :: "nat \<Rightarrow> nat \<Rightarrow> char \<Rightarrow> bool" where
  "in_range lo hi c \<longleftrightarrow> lo \<le> byte c \<and> byte c \<le> hi"

definition is_digit :: "char \<Rightarrow> bool" where
  "is_digit = in_range 48 57"

definition is_lower :: "char \<Rightarrow> bool" where
  "is_lower = in_range 97 122"

definition is_upper :: "char \<Rightarrow> bool" where
  "is_upper = in_range 65 90"

definition is_lower_hex :: "char \<Rightarrow> bool" where
  "is_lower_hex c \<longleftrightarrow> is_digit c \<or> in_range 97 102 c"

definition is_control :: "char \<Rightarrow> bool" where
  "is_control c \<longleftrightarrow> byte c < 32 \<or> byte c = 127"

definition lower_hex :: "nat \<Rightarrow> string \<Rightarrow> bool" where
  "lower_hex n s \<longleftrightarrow> length s = n \<and> list_all is_lower_hex s"

lemma lower_hex_length: "lower_hex n s \<Longrightarrow> length s = n"
  by (simp add: lower_hex_def)

section \<open>Prefixes, suffixes and searching\<close>

fun has_prefix :: "string \<Rightarrow> string \<Rightarrow> bool" where
  "has_prefix s [] = True"
| "has_prefix [] (p # ps) = False"
| "has_prefix (c # cs) (p # ps) = (c = p \<and> has_prefix cs ps)"

definition has_suffix :: "string \<Rightarrow> string \<Rightarrow> bool" where
  "has_suffix s p = has_prefix (rev s) (rev p)"

definition trim_prefix :: "string \<Rightarrow> string \<Rightarrow> string" where
  "trim_prefix s p = (if has_prefix s p then drop (length p) s else s)"

definition trim_suffix :: "string \<Rightarrow> string \<Rightarrow> string" where
  "trim_suffix s p = (if has_suffix s p then take (length s - length p) s else s)"

fun contains_str :: "string \<Rightarrow> string \<Rightarrow> bool" where
  "contains_str [] p = (p = [])"
| "contains_str (c # cs) p = (has_prefix (c # cs) p \<or> contains_str cs p)"

fun split_char :: "char \<Rightarrow> string \<Rightarrow> string list" where
  "split_char d [] = [[]]"
| "split_char d (c # cs) =
     (if c = d then [] # split_char d cs
      else (case split_char d cs of [] \<Rightarrow> [[c]] | w # ws \<Rightarrow> (c # w) # ws))"

fun join_str :: "string \<Rightarrow> string list \<Rightarrow> string" where
  "join_str d [] = []"
| "join_str d [w] = w"
| "join_str d (w # ws) = w @ d @ join_str d ws"

fun cut_char :: "char \<Rightarrow> string \<Rightarrow> string \<times> string \<times> bool" where
  "cut_char d [] = ([], [], False)"
| "cut_char d (c # cs) =
     (if c = d then ([], cs, True)
      else (case cut_char d cs of (a, b, found) \<Rightarrow> (c # a, b, found)))"

lemma has_prefix_iff: "has_prefix s p \<longleftrightarrow> (\<exists>r. s = p @ r)"
  by (induction s p rule: has_prefix.induct) auto

lemma has_suffix_iff: "has_suffix s p \<longleftrightarrow> (\<exists>r. s = r @ p)"
proof -
  have "has_suffix s p \<longleftrightarrow> (\<exists>r. rev s = rev p @ r)" by (simp add: has_suffix_def has_prefix_iff)
  also have "\<dots> \<longleftrightarrow> (\<exists>r. s = r @ p)" by (metis rev_append rev_rev_ident)
  finally show ?thesis .
qed

lemma has_prefix_append [simp]: "has_prefix (p @ r) p"
  by (auto simp: has_prefix_iff)

lemma has_suffix_append [simp]: "has_suffix (r @ p) p"
  by (auto simp: has_suffix_iff)

lemma trim_prefix_append [simp]: "trim_prefix (p @ r) p = r"
  by (simp add: trim_prefix_def)

lemma trim_suffix_append [simp]: "trim_suffix (r @ p) p = r"
  by (simp add: trim_suffix_def)

lemma trim_prefix_split: "has_prefix s p \<Longrightarrow> s = p @ trim_prefix s p"
  by (auto simp: has_prefix_iff trim_prefix_def)

lemma trim_suffix_split: "has_suffix s p \<Longrightarrow> s = trim_suffix s p @ p"
  by (auto simp: has_suffix_iff trim_suffix_def)

lemma split_char_not_Nil [simp]: "split_char d s \<noteq> []"
  by (induction s) (auto split: list.splits)

lemma join_split_char: "join_str [d] (split_char d s) = s"
proof (induction s)
  case (Cons c cs)
  obtain w ws where "split_char d cs = w # ws" by (cases "split_char d cs") auto
  with Cons show ?case by (cases ws) auto
qed simp

lemma split_char_no_delim: "w \<in> set (split_char d s) \<Longrightarrow> d \<notin> set w"
proof (induction s arbitrary: w)
  case (Cons c cs)
  then show ?case by (cases "split_char d cs") (auto split: if_splits)
qed simp

lemma split_char_fresh: "d \<notin> set s \<Longrightarrow> split_char d s = [s]"
  by (induction s) auto

lemma split_char_append: "d \<notin> set w \<Longrightarrow> split_char d (w @ d # s) = w # split_char d s"
  by (induction w) auto

lemma split_join_char:
  "ws \<noteq> [] \<Longrightarrow> (\<And>w. w \<in> set ws \<Longrightarrow> d \<notin> set w) \<Longrightarrow> split_char d (join_str [d] ws) = ws"
proof (induction "[d]" ws rule: join_str.induct)
  case (3 w v vs)
  then show ?case using split_char_append [of d w "join_str [d] (v # vs)"] by simp
qed (auto simp: split_char_fresh)

lemma cut_char_found: "cut_char d s = (a, b, True) \<Longrightarrow> s = a @ d # b \<and> d \<notin> set a"
  by (induction s arbitrary: a) (auto split: if_splits prod.splits)

lemma cut_char_not_found: "cut_char d s = (a, b, False) \<Longrightarrow> a = s \<and> b = [] \<and> d \<notin> set s"
  by (induction s arbitrary: a) (auto split: if_splits prod.splits)

section \<open>Decimal numbers\<close>

definition digit_char :: "nat \<Rightarrow> char" where
  "digit_char n = char_of (48 + n mod 10)"

definition digit_val :: "char \<Rightarrow> nat" where
  "digit_val c = byte c - 48"

lemma byte_digit_char [simp]: "byte (digit_char n) = 48 + n mod 10"
  by (simp add: digit_char_def of_char_of)

lemma is_digit_digit_char [simp]: "is_digit (digit_char n)"
  using mod_less_divisor [of 10 n] by (simp add: is_digit_def in_range_def)

lemma digit_val_digit_char [simp]: "digit_val (digit_char n) = n mod 10"
  by (simp add: digit_val_def)

lemma digit_val_less: "is_digit c \<Longrightarrow> digit_val c < 10"
  unfolding is_digit_def in_range_def digit_val_def by linarith

lemma digit_char_digit_val:
  assumes "is_digit c" shows "digit_char (digit_val c) = c"
proof -
  have "48 + digit_val c mod 10 = byte c"
    using assms digit_val_less [OF assms] unfolding is_digit_def in_range_def digit_val_def by simp
  then show ?thesis unfolding digit_char_def by (metis char_of_char)
qed

text \<open>\<open>strconv.Itoa\<close> of a natural number, and the value of a run of digits.\<close>

fun nat_dec :: "nat \<Rightarrow> string" where
  "nat_dec n = (if n < 10 then [digit_char n] else nat_dec (n div 10) @ [digit_char n])"

declare nat_dec.simps [simp del]

definition dec_value :: "string \<Rightarrow> nat" where
  "dec_value s = foldl (\<lambda>a c. 10 * a + digit_val c) 0 s"

definition all_digits :: "string \<Rightarrow> bool" where
  "all_digits s \<longleftrightarrow> s \<noteq> [] \<and> list_all is_digit s"

lemma dec_value_snoc [simp]: "dec_value (s @ [c]) = 10 * dec_value s + digit_val c"
  by (simp add: dec_value_def)

lemma dec_value_nat_dec [simp]: "dec_value (nat_dec n) = n"
proof (induction n rule: nat_dec.induct)
  case (1 n)
  then show ?case
    by (subst nat_dec.simps) (auto simp: dec_value_def)
qed

lemma all_digits_nat_dec [simp]: "all_digits (nat_dec n)"
proof (induction n rule: nat_dec.induct)
  case (1 n)
  then show ?case by (subst nat_dec.simps) (auto simp: all_digits_def)
qed

text \<open>A number printed at a fixed width with leading zeros (\<open>%02d\<close>, \<open>%04d\<close>).\<close>

fun nat_dec_pad :: "nat \<Rightarrow> nat \<Rightarrow> string" where
  "nat_dec_pad 0 n = []"
| "nat_dec_pad (Suc w) n = nat_dec_pad w (n div 10) @ [digit_char n]"

lemma length_nat_dec_pad [simp]: "length (nat_dec_pad w n) = w"
  by (induction w arbitrary: n) auto

lemma digits_nat_dec_pad [simp]: "list_all is_digit (nat_dec_pad w n)"
  by (induction w arbitrary: n) auto

lemma dec_value_nat_dec_pad: "n < 10 ^ w \<Longrightarrow> dec_value (nat_dec_pad w n) = n"
proof (induction w arbitrary: n)
  case (Suc w)
  then have "n div 10 < 10 ^ w" by (simp add: less_mult_imp_div_less mult.commute)
  then show ?case using Suc.IH by simp
qed (simp add: dec_value_def)

lemma nat_dec_pad_dec_value: "list_all is_digit s \<Longrightarrow> nat_dec_pad (length s) (dec_value s) = s"
proof (induction s rule: rev_induct)
  case (snoc c s)
  then have "is_digit c" by simp
  moreover have "(10 * dec_value s + digit_val c) div 10 = dec_value s"
    using digit_val_less [OF \<open>is_digit c\<close>] by simp
  moreover have "digit_char (10 * dec_value s + digit_val c) = digit_char (digit_val c)"
    by (simp add: digit_char_def)
  ultimately show ?case using snoc by (simp add: digit_char_digit_val)
qed simp

lemma dec_value_bound: "list_all is_digit s \<Longrightarrow> dec_value s < 10 ^ length s"
proof (induction s rule: rev_induct)
  case (snoc c s)
  then show ?case using digit_val_less [of c] by simp
qed (simp add: dec_value_def)

text \<open>\<open>strconv.ParseInt(s, 10, 64)\<close> and \<open>strconv.ParseUint(s, 10, 64)\<close>.\<close>

definition parse_uint64 :: "string \<Rightarrow> nat option" where
  "parse_uint64 s = (if all_digits s \<and> dec_value s < 2 ^ 64 then Some (dec_value s) else None)"

definition int64 :: "int \<Rightarrow> bool" where
  "int64 v \<longleftrightarrow> - (2 ^ 63) \<le> v \<and> v < 2 ^ 63"

definition parse_int64 :: "string \<Rightarrow> int option" where
  "parse_int64 s =
     (case s of [] \<Rightarrow> None
      | c # cs \<Rightarrow>
          (let neg = (c = CHR ''-''); ds = (if c = CHR ''-'' \<or> c = CHR ''+'' then cs else s);
               v = (if neg then - int (dec_value ds) else int (dec_value ds))
           in if all_digits ds \<and> int64 v then Some v else None))"

definition int_dec :: "int \<Rightarrow> string" where
  "int_dec i = (if i < 0 then CHR ''-'' # nat_dec (nat (- i)) else nat_dec (nat i))"

lemma parse_int64_range: "parse_int64 s = Some v \<Longrightarrow> int64 v"
  by (auto simp: parse_int64_def Let_def split: list.splits if_splits)

lemma nat_dec_Cons: "\<exists>c cs. nat_dec n = c # cs \<and> is_digit c"
  using all_digits_nat_dec [of n] by (cases "nat_dec n") (auto simp: all_digits_def)

lemma parse_int64_int_dec: "int64 v \<Longrightarrow> parse_int64 (int_dec v) = Some v"
proof (cases "v < 0")
  case False
  obtain c cs where *: "nat_dec (nat v) = c # cs" "is_digit c" using nat_dec_Cons by blast
  then have "c \<noteq> CHR ''-''" "c \<noteq> CHR ''+''" by (auto simp: is_digit_def in_range_def)
  moreover have "all_digits (c # cs)" "dec_value (c # cs) = nat v"
    using * all_digits_nat_dec [of "nat v"] dec_value_nat_dec [of "nat v"] by simp_all
  moreover assume "int64 v"
  ultimately show ?thesis using False * by (simp add: parse_int64_def int_dec_def)
qed (simp add: parse_int64_def int_dec_def)

section \<open>White space and case\<close>

text \<open>
  The encodings of the characters \<open>unicode.IsSpace\<close> accepts, as byte sequences.  A trimming pass
  removes one of them at a time, from the front and, on the reversed string, from the back.
\<close>

definition space_seqs :: "string list" where
  "space_seqs =
     [[CHR 0x09], [CHR 0x0A], [CHR 0x0B], [CHR 0x0C], [CHR 0x0D], [CHR 0x20],
      [CHR 0xC2, CHR 0x85], [CHR 0xC2, CHR 0xA0], [CHR 0xE1, CHR 0x9A, CHR 0x80],
      [CHR 0xE2, CHR 0x80, CHR 0xA8], [CHR 0xE2, CHR 0x80, CHR 0xA9],
      [CHR 0xE2, CHR 0x80, CHR 0xAF], [CHR 0xE2, CHR 0x81, CHR 0x9F],
      [CHR 0xE3, CHR 0x80, CHR 0x80], [CHR 0xE2, CHR 0x80, CHR 0x80],
      [CHR 0xE2, CHR 0x80, CHR 0x81], [CHR 0xE2, CHR 0x80, CHR 0x82],
      [CHR 0xE2, CHR 0x80, CHR 0x83], [CHR 0xE2, CHR 0x80, CHR 0x84],
      [CHR 0xE2, CHR 0x80, CHR 0x85], [CHR 0xE2, CHR 0x80, CHR 0x86],
      [CHR 0xE2, CHR 0x80, CHR 0x87], [CHR 0xE2, CHR 0x80, CHR 0x88],
      [CHR 0xE2, CHR 0x80, CHR 0x89], [CHR 0xE2, CHR 0x80, CHR 0x8A]]"

function strip_seqs :: "string list \<Rightarrow> string \<Rightarrow> string" where
  "strip_seqs ps s =
     (case find (\<lambda>p. p \<noteq> [] \<and> has_prefix s p) ps of
        None \<Rightarrow> s | Some p \<Rightarrow> strip_seqs ps (drop (length p) s))"
  by auto
termination
  by (relation "measure (\<lambda>(ps, s). length s)")
    (auto dest!: find_Some_set simp: has_prefix_iff)

declare strip_seqs.simps [simp del]

definition trim_space :: "string \<Rightarrow> string" where
  "trim_space s =
     rev (strip_seqs (map rev space_seqs) (rev (strip_seqs space_seqs s)))"

lemma strip_seqs_drop: "\<exists>n. strip_seqs ps s = drop n s"
proof (induction ps s rule: strip_seqs.induct)
  case (1 ps s)
  show ?case
  proof (cases "find (\<lambda>p. p \<noteq> [] \<and> has_prefix s p) ps")
    case None
    then have "strip_seqs ps s = drop 0 s" by (subst strip_seqs.simps) simp
    then show ?thesis by blast
  next
    case (Some p)
    then have "strip_seqs ps s = strip_seqs ps (drop (length p) s)"
      by (subst strip_seqs.simps) simp
    then show ?thesis using 1 [OF Some] by (metis drop_drop)
  qed
qed

lemma trim_space_set: "set (trim_space s) \<subseteq> set s"
proof -
  obtain n m where "strip_seqs space_seqs s = drop n s"
    and "strip_seqs (map rev space_seqs) (rev (drop n s)) = drop m (rev (drop n s))"
    using strip_seqs_drop by metis
  then show ?thesis
    unfolding trim_space_def by (auto dest!: in_set_dropD)
qed

end
