(* ===== verification/LgSchema.thy ===== *)
theory LgSchema
  imports GoStrings
begin

text \<open>
  The closed evidence schema of the live validation gate, \<open>internal/livegate/schema.go\<close>: the
  enumerations (Go string types, so every type has a constructor for the other strings), the
  timestamp format, the evidence record and its validation.  The lemmas give timestamps a
  round trip and characterise the accepted step sequences.
\<close>

section \<open>Enumerations\<close>

datatype platform = PlatformLinuxAMD64 | PlatformWindowsAMD64 | PlatformOther string
datatype testbed = TestbedNASVM | TestbedBHKWindows | TestbedOther string
datatype network_type = NetworkCampusWired | NetworkCampusWiFi | NetworkOther string
datatype auth_method = AuthMethodPassword | AuthMethodTerminalQR | AuthMethodOther string
datatype suite = SuitePasswordCore | SuiteTerminalQR | SuiteOther string
datatype gate_result = ResultPass | ResultFail | ResultBlocked | ResultOther string

datatype step_name =
    StepInitialStatusOffline | StepLoginLoggedIn | StepQRLoginLoggedIn | StepStatusOnline
  | StepSecondLoginAlreadyOnline | StepLogoutLoggedOut | StepFinalStatusOffline
  | StepSecondLogoutAlreadyOffline | StepCleanupLogout | StepCleanupStatusOffline
  | StepOther string

datatype error_code =
    ErrorInvalidArgument | ErrorConfig | ErrorNetwork | ErrorAuthentication
  | ErrorSessionConflict | ErrorProtocolChanged | ErrorInteractionRequired
  | ErrorUnsupported | ErrorInternal | ErrorCodeOther string

datatype capability_status =
    CapabilitySupported | CapabilityDetectedOnly | CapabilityObservedAnonymous
  | CapabilitySyntheticCovered | CapabilityLiveUnverified | CapabilityLiveVerified
  | CapabilityUnknown | CapabilityOther string

definition platform_valid :: "platform \<Rightarrow> bool" where
  "platform_valid p \<longleftrightarrow> p = PlatformLinuxAMD64 \<or> p = PlatformWindowsAMD64"

definition testbed_valid :: "testbed \<Rightarrow> bool" where
  "testbed_valid t \<longleftrightarrow> t = TestbedNASVM \<or> t = TestbedBHKWindows"

definition network_valid :: "network_type \<Rightarrow> bool" where
  "network_valid n \<longleftrightarrow> n = NetworkCampusWired \<or> n = NetworkCampusWiFi"

definition auth_method_valid :: "auth_method \<Rightarrow> bool" where
  "auth_method_valid a \<longleftrightarrow> a = AuthMethodPassword \<or> a = AuthMethodTerminalQR"

definition suite_valid :: "suite \<Rightarrow> bool" where
  "suite_valid s \<longleftrightarrow> s = SuitePasswordCore \<or> s = SuiteTerminalQR"

definition result_valid :: "gate_result \<Rightarrow> bool" where
  "result_valid r \<longleftrightarrow> r = ResultPass \<or> r = ResultFail \<or> r = ResultBlocked"

definition step_name_valid :: "step_name \<Rightarrow> bool" where
  "step_name_valid n = (case n of StepOther _ \<Rightarrow> False | _ \<Rightarrow> True)"

definition error_code_valid :: "error_code \<Rightarrow> bool" where
  "error_code_valid e = (case e of ErrorCodeOther _ \<Rightarrow> False | _ \<Rightarrow> True)"

definition capability_valid :: "capability_status \<Rightarrow> bool" where
  "capability_valid c = (case c of CapabilityOther _ \<Rightarrow> False | _ \<Rightarrow> True)"

text \<open>\<open>GateExitCode\<close> and \<open>CommandExitCode\<close> are Go integers.\<close>

type_synonym gate_exit = int
type_synonym command_exit = int

abbreviation (input) GateExitPass :: gate_exit where "GateExitPass \<equiv> 0"
abbreviation (input) GateExitFail :: gate_exit where "GateExitFail \<equiv> 10"
abbreviation (input) GateExitBlocked :: gate_exit where "GateExitBlocked \<equiv> 11"
abbreviation (input) GateExitSecurityReject :: gate_exit where "GateExitSecurityReject \<equiv> 12"
abbreviation (input) GateExitEvidenceDurability :: gate_exit where "GateExitEvidenceDurability \<equiv> 13"
abbreviation (input) GateExitInternal :: gate_exit where "GateExitInternal \<equiv> 14"
abbreviation (input) GateExitCanceled :: gate_exit where "GateExitCanceled \<equiv> 130"

abbreviation (input) CommandExitSuccess :: command_exit where "CommandExitSuccess \<equiv> 0"
abbreviation (input) CommandExitInternal :: command_exit where "CommandExitInternal \<equiv> 1"
abbreviation (input) CommandExitInvalid :: command_exit where "CommandExitInvalid \<equiv> 2"
abbreviation (input) CommandExitNetwork :: command_exit where "CommandExitNetwork \<equiv> 3"
abbreviation (input) CommandExitAuthentication :: command_exit where "CommandExitAuthentication \<equiv> 4"
abbreviation (input) CommandExitSessionConflict :: command_exit where "CommandExitSessionConflict \<equiv> 5"
abbreviation (input) CommandExitProtocolChanged :: command_exit where "CommandExitProtocolChanged \<equiv> 6"
abbreviation (input) CommandExitInteractionRequired :: command_exit where "CommandExitInteractionRequired \<equiv> 7"
abbreviation (input) CommandExitCanceled :: command_exit where "CommandExitCanceled \<equiv> 130"

definition gate_exit_valid :: "gate_exit \<Rightarrow> bool" where
  "gate_exit_valid c \<longleftrightarrow>
     c \<in> {GateExitPass, GateExitFail, GateExitBlocked, GateExitSecurityReject,
          GateExitEvidenceDurability, GateExitInternal, GateExitCanceled}"

definition valid_exit_error :: "command_exit \<Rightarrow> error_code option \<Rightarrow> bool" where
  "valid_exit_error exit_code code =
     (case code of None \<Rightarrow> False
      | Some c \<Rightarrow>
          if exit_code = CommandExitInternal then c = ErrorInternal
          else if exit_code = CommandExitInvalid then
            c = ErrorInvalidArgument \<or> c = ErrorConfig \<or> c = ErrorUnsupported
          else if exit_code = CommandExitNetwork \<or> exit_code = CommandExitCanceled then
            c = ErrorNetwork
          else if exit_code = CommandExitAuthentication then c = ErrorAuthentication
          else if exit_code = CommandExitSessionConflict then c = ErrorSessionConflict
          else if exit_code = CommandExitProtocolChanged then c = ErrorProtocolChanged
          else if exit_code = CommandExitInteractionRequired then c = ErrorInteractionRequired
          else False)"

text \<open>The errors of the package; \<open>ErrInvalidEvidence\<close> wraps the field that was refused.\<close>

datatype lg_error =
    ErrInvalidEvidence string
  | ErrInvalidStateMachine | ErrInvalidSuite | ErrInvalidObservation | ErrCommandRunnerFault

section \<open>Timestamps\<close>

record time =
  t_year :: nat
  t_month :: nat
  t_day :: nat
  t_hour :: nat
  t_min :: nat
  t_sec :: nat
  t_nano :: nat

definition leap_year :: "nat \<Rightarrow> bool" where
  "leap_year y \<longleftrightarrow> y mod 4 = 0 \<and> (y mod 100 \<noteq> 0 \<or> y mod 400 = 0)"

definition days_in_month :: "nat \<Rightarrow> nat \<Rightarrow> nat" where
  "days_in_month y m =
     (if m = 2 then (if leap_year y then 29 else 28)
      else if m \<in> {4, 6, 9, 11} then 30 else 31)"

definition valid_date :: "nat \<Rightarrow> nat \<Rightarrow> nat \<Rightarrow> bool" where
  "valid_date y m d \<longleftrightarrow>
     y < 10000 \<and> 1 \<le> m \<and> m \<le> 12 \<and> 1 \<le> d \<and> d \<le> days_in_month y m"

definition valid_time :: "time \<Rightarrow> bool" where
  "valid_time t \<longleftrightarrow>
     valid_date (t_year t) (t_month t) (t_day t) \<and>
     t_hour t < 24 \<and> t_min t < 60 \<and> t_sec t < 60 \<and> t_nano t < 10 ^ 9"

text \<open>\<open>finished.Before(started)\<close>: both are UTC, so the order is that of the fields.\<close>

definition time_key :: "time \<Rightarrow> nat list" where
  "time_key t = [t_year t, t_month t, t_day t, t_hour t, t_min t, t_sec t, t_nano t]"

definition time_before :: "time \<Rightarrow> time \<Rightarrow> bool" where
  "time_before a b \<longleftrightarrow> time_key a < time_key b"

text \<open>
  \<open>Format(time.RFC3339Nano)\<close>: the fraction is printed with nine digits, trailing zeros and an empty
  fraction are dropped.
\<close>

definition drop_trailing_zeros :: "string \<Rightarrow> string" where
  "drop_trailing_zeros s = rev (dropWhile (\<lambda>c. c = CHR ''0'') (rev s))"

definition format_fraction :: "nat \<Rightarrow> string" where
  "format_fraction n = (if n = 0 then '''' else CHR ''.'' # drop_trailing_zeros (nat_dec_pad 9 n))"

definition format_timestamp :: "time \<Rightarrow> string" where
  "format_timestamp t =
     nat_dec_pad 4 (t_year t) @ ''-'' @ nat_dec_pad 2 (t_month t) @ ''-'' @ nat_dec_pad 2 (t_day t) @
     ''T'' @ nat_dec_pad 2 (t_hour t) @ '':'' @ nat_dec_pad 2 (t_min t) @ '':'' @
     nat_dec_pad 2 (t_sec t) @ format_fraction (t_nano t) @ ''Z''"

definition format_date :: "time \<Rightarrow> string" where
  "format_date t = nat_dec_pad 4 (t_year t) @ nat_dec_pad 2 (t_month t) @ nat_dec_pad 2 (t_day t)"

text \<open>
  \<open>time.Parse(time.RFC3339Nano, s)\<close> on a string ending in \<open>Z\<close>: a run of digits of the width of its
  field, then the next field.  Fields \<open>time.Parse\<close> reads more leniently (a one-digit hour, a comma
  before the fraction, more than nine fraction digits) print differently, so the comparison with
  the printed form refuses them in any case.
\<close>

definition slice :: "nat \<Rightarrow> nat \<Rightarrow> 'a list \<Rightarrow> 'a list" where
  "slice i n s = take n (drop i s)"

definition parse_fraction :: "string \<Rightarrow> nat option" where
  "parse_fraction s =
     (case s of [] \<Rightarrow> Some 0
      | c # ds \<Rightarrow>
          if c = CHR ''.'' \<and> all_digits ds \<and> length ds \<le> 9
          then Some (dec_value ds * 10 ^ (9 - length ds)) else None)"

definition time_parse :: "string \<Rightarrow> time option" where
  "time_parse s =
     (let field = (\<lambda>i n. dec_value (slice i n s)); frac = slice 19 (length s - 20) s in
      if 20 \<le> length s \<and>
         list_all is_digit
           (slice 0 4 s @ slice 5 2 s @ slice 8 2 s @ slice 11 2 s @ slice 14 2 s @ slice 17 2 s) \<and>
         slice 4 1 s = ''-'' \<and> slice 7 1 s = ''-'' \<and> slice 10 1 s = ''T'' \<and>
         slice 13 1 s = '':'' \<and> slice 16 1 s = '':''
      then (case parse_fraction frac of None \<Rightarrow> None
            | Some n \<Rightarrow>
                (let t = \<lparr>t_year = field 0 4, t_month = field 5 2, t_day = field 8 2,
                          t_hour = field 11 2, t_min = field 14 2, t_sec = field 17 2, t_nano = n\<rparr>
                 in if valid_time t then Some t else None))
      else None)"

definition parse_timestamp :: "string \<Rightarrow> lg_error + time" where
  "parse_timestamp s =
     (if \<not> has_suffix s ''Z'' then Inl (ErrInvalidEvidence ''timestamp'')
      else (case time_parse s of None \<Rightarrow> Inl (ErrInvalidEvidence ''timestamp'')
            | Some t \<Rightarrow>
                if format_timestamp t \<noteq> s then Inl (ErrInvalidEvidence ''timestamp'') else Inr t))"

lemma valid_date_bounds:
  "valid_date y m d \<Longrightarrow> y < 10 ^ 4 \<and> m < 10 ^ 2 \<and> d < 10 ^ 2"
  by (auto simp: valid_date_def days_in_month_def split: if_splits)

lemma slice_append_left: "i + n \<le> length a \<Longrightarrow> slice i n (a @ b) = slice i n a"
  by (simp add: slice_def)

lemma slice_append_right: "length a \<le> i \<Longrightarrow> slice i n (a @ b) = slice (i - length a) n b"
  by (simp add: slice_def)

lemma slice_all: "length a = n \<Longrightarrow> slice 0 n a = a"
  by (simp add: slice_def)

lemma slice_head: "length a = n \<Longrightarrow> slice 0 n (a @ b) = a"
  by (simp add: slice_def)

lemma drop_trailing_zeros_split:
  "\<exists>k. s = drop_trailing_zeros s @ replicate k (CHR ''0'')"
proof (induction s rule: rev_induct)
  case (snoc c s)
  show ?case
  proof (cases "c = CHR ''0''")
    case True
    from snoc obtain k where k: "s = drop_trailing_zeros s @ replicate k (CHR ''0'')" by blast
    have "drop_trailing_zeros (s @ [c]) = drop_trailing_zeros s"
      using True by (simp add: drop_trailing_zeros_def)
    moreover have "s @ [c] = drop_trailing_zeros s @ replicate (Suc k) (CHR ''0'')"
      using k True by (metis append_assoc replicate_append_same replicate_Suc)
    ultimately show ?thesis by metis
  qed (auto simp: drop_trailing_zeros_def intro: exI [of _ 0])
qed (simp add: drop_trailing_zeros_def)

lemma dec_value_zeros: "dec_value (s @ replicate k (CHR ''0'')) = dec_value s * 10 ^ k"
proof (induction k)
  case (Suc k)
  have "s @ replicate (Suc k) (CHR ''0'') = (s @ replicate k (CHR ''0'')) @ [CHR ''0'']"
    by (simp add: replicate_append_same)
  with Suc show ?case by (simp add: digit_val_def del: append_assoc replicate_Suc)
qed simp

lemma parse_format_fraction:
  assumes "n < 10 ^ 9" shows "parse_fraction (format_fraction n) = Some n"
proof (cases "n = 0")
  case False
  let ?p = "nat_dec_pad 9 n" and ?d = "drop_trailing_zeros (nat_dec_pad 9 n)"
  obtain k where k: "?p = ?d @ replicate k (CHR ''0'')" using drop_trailing_zeros_split by blast
  then have len: "length ?d + k = 9" by (metis length_append length_nat_dec_pad length_replicate)
  have val: "dec_value ?d * 10 ^ k = n"
    using dec_value_zeros [of ?d k] dec_value_nat_dec_pad [OF assms] k by simp
  then have "?d \<noteq> []" using False by (auto simp: dec_value_def)
  moreover have "list_all is_digit ?d"
    using digits_nat_dec_pad [of 9 n] k by (metis list_all_append)
  moreover have "9 - length ?d = k" using len by simp
  ultimately show ?thesis using False len val
    by (simp add: parse_fraction_def format_fraction_def all_digits_def)
qed (simp add: parse_fraction_def format_fraction_def)

lemma time_parse_format:
  assumes "valid_time t" shows "time_parse (format_timestamp t) = Some t"
proof -
  have b: "t_year t < 10 ^ 4" "t_month t < 10 ^ 2" "t_day t < 10 ^ 2" "t_hour t < 10 ^ 2"
    "t_min t < 10 ^ 2" "t_sec t < 10 ^ 2" "t_nano t < 10 ^ 9"
    using assms valid_date_bounds [of "t_year t" "t_month t" "t_day t"] by (auto simp: valid_time_def)
  note simps = slice_append_left slice_append_right slice_head slice_all
  let ?s = "format_timestamp t"
  have len: "length ?s = 20 + length (format_fraction (t_nano t))"
    by (simp add: format_timestamp_def)
  have fields: "slice 0 4 ?s = nat_dec_pad 4 (t_year t)" "slice 5 2 ?s = nat_dec_pad 2 (t_month t)"
    "slice 8 2 ?s = nat_dec_pad 2 (t_day t)" "slice 11 2 ?s = nat_dec_pad 2 (t_hour t)"
    "slice 14 2 ?s = nat_dec_pad 2 (t_min t)" "slice 17 2 ?s = nat_dec_pad 2 (t_sec t)"
    "slice 4 1 ?s = ''-''" "slice 7 1 ?s = ''-''" "slice 10 1 ?s = ''T''"
    "slice 13 1 ?s = '':''" "slice 16 1 ?s = '':''"
    "slice 19 (length ?s - 20) ?s = format_fraction (t_nano t)"
    using len by (simp_all add: format_timestamp_def slice_def)
  show ?thesis
    using assms unfolding time_parse_def fields Let_def
    by (simp add: len parse_format_fraction [OF b(7)] dec_value_nat_dec_pad [OF b(1)]
        dec_value_nat_dec_pad [OF b(2)] dec_value_nat_dec_pad [OF b(3)] dec_value_nat_dec_pad [OF b(4)]
        dec_value_nat_dec_pad [OF b(5)] dec_value_nat_dec_pad [OF b(6)] valid_time_def)
qed

lemma format_timestamp_suffix: "has_suffix (format_timestamp t) ''Z''"
  unfolding format_timestamp_def has_suffix_iff by (metis append_assoc)

lemma parse_timestamp_sound: "parse_timestamp s = Inr t \<Longrightarrow> valid_time t \<and> format_timestamp t = s"
  by (auto simp: parse_timestamp_def time_parse_def Let_def split: if_splits option.splits)

lemma parse_timestamp_complete: "valid_time t \<Longrightarrow> parse_timestamp (format_timestamp t) = Inr t"
  by (simp add: parse_timestamp_def time_parse_format format_timestamp_suffix)

section \<open>The evidence object\<close>

record step =
  Name :: step_name
  StepResult :: gate_result
  ExitCode :: command_exit
  ErrorCodeOf :: "error_code option"
  DurationSeconds :: int

record evidence =
  SchemaVersionOf :: int
  PlanIDOf :: string
  RevisionOf :: string
  EvidenceID :: string
  CandidateID :: string
  CandidateSetSHA256 :: string
  SourceCommit :: string
  PlatformOf :: platform
  TestbedOf :: testbed
  NetworkType :: network_type
  AuthMethodOf :: auth_method
  SuiteOf :: suite
  CapabilityBefore :: "capability_status list"
  ResultOf :: gate_result
  CapabilityAfter :: "capability_status list"
  StartedAt :: string
  FinishedAt :: string
  Steps :: "step list"

definition SchemaVersion :: int where "SchemaVersion = 1"
definition PlanID :: string where "PlanID = ''IPGW-META-V1''"
definition Revision :: string where "Revision = ''2026-08-28-r2''"
definition MaxEvidenceJSONBytes :: nat where "MaxEvidenceJSONBytes = 64 * 1024"

definition passwordPrimarySteps :: "step_name list" where
  "passwordPrimarySteps =
     [StepInitialStatusOffline, StepLoginLoggedIn, StepStatusOnline, StepSecondLoginAlreadyOnline,
      StepLogoutLoggedOut, StepFinalStatusOffline, StepSecondLogoutAlreadyOffline]"

definition terminalQRPrimarySteps :: "step_name list" where
  "terminalQRPrimarySteps =
     [StepInitialStatusOffline, StepQRLoginLoggedIn, StepStatusOnline, StepLogoutLoggedOut,
      StepFinalStatusOffline]"

definition passwordCapabilitiesBefore :: "capability_status list" where
  "passwordCapabilitiesBefore = [CapabilitySyntheticCovered, CapabilityLiveUnverified]"

definition passwordCapabilitiesAfter :: "capability_status list" where
  "passwordCapabilitiesAfter = [CapabilitySyntheticCovered, CapabilityLiveVerified]"

definition terminalQRCapabilitiesBefore :: "capability_status list" where
  "terminalQRCapabilitiesBefore =
     [CapabilityObservedAnonymous, CapabilitySyntheticCovered, CapabilityLiveUnverified]"

definition terminalQRCapabilitiesAfter :: "capability_status list" where
  "terminalQRCapabilitiesAfter =
     [CapabilityObservedAnonymous, CapabilitySyntheticCovered, CapabilityLiveVerified]"

text \<open>\<open>Step.Validate\<close>; \<open>None\<close> is the nil error.\<close>

definition step_validate :: "step \<Rightarrow> lg_error option" where
  "step_validate s =
     (if \<not> step_name_valid (Name s) then Some (ErrInvalidEvidence ''step name'')
      else if \<not> result_valid (StepResult s) then Some (ErrInvalidEvidence ''step result'')
      else if DurationSeconds s < 0 then Some (ErrInvalidEvidence ''step duration'')
      else if (case ErrorCodeOf s of None \<Rightarrow> False | Some c \<Rightarrow> \<not> error_code_valid c) then
        Some (ErrInvalidEvidence ''step error code'')
      else if ExitCode s = CommandExitSuccess then
        (if ErrorCodeOf s \<noteq> None then Some (ErrInvalidEvidence ''step exit and error code'') else None)
      else if StepResult s = ResultPass then Some (ErrInvalidEvidence ''step pass exit code'')
      else if \<not> valid_exit_error (ExitCode s) (ErrorCodeOf s) then
        Some (ErrInvalidEvidence ''step exit and error code'')
      else None)"

text \<open>The two regular expressions, anchored at both ends, and the checks built on them.\<close>

definition match_evidence_id :: "string \<Rightarrow> (string \<times> string) option" where
  "match_evidence_id s =
     (if length s = 17 \<and> slice 0 5 s = ''EVID-'' \<and> list_all is_digit (slice 5 8 s) \<and>
         slice 13 1 s = ''-'' \<and> list_all is_digit (slice 14 3 s)
      then Some (slice 5 8 s, slice 14 3 s) else None)"

definition positive_decimal :: "string \<Rightarrow> bool" where
  "positive_decimal s \<longleftrightarrow> all_digits s \<and> hd s \<noteq> CHR ''0''"

definition match_candidate_id :: "string \<Rightarrow> (string \<times> string \<times> string) option" where
  "match_candidate_id s =
     (if has_prefix s ''v1.0.0-'' \<and> lower_hex 12 (slice 7 12 s) \<and> slice 19 1 s = ''-'' then
        (case cut_char (CHR ''.'') (drop 20 s) of (a, b, found) \<Rightarrow>
           if found \<and> positive_decimal a \<and> positive_decimal b
           then Some (slice 7 12 s, a, b) else None)
      else None)"

definition validate_evidence_id :: "string \<Rightarrow> time \<Rightarrow> lg_error option" where
  "validate_evidence_id ident started =
     (case match_evidence_id ident of
        None \<Rightarrow> Some (ErrInvalidEvidence ''evidence ID'')
      | Some (date, serial) \<Rightarrow>
          if serial = ''000'' then Some (ErrInvalidEvidence ''evidence ID'')
          else if \<not> valid_date (dec_value (slice 0 4 date)) (dec_value (slice 4 2 date))
                     (dec_value (slice 6 2 date)) then
            Some (ErrInvalidEvidence ''evidence ID'')
          else if date \<noteq> format_date started then Some (ErrInvalidEvidence ''evidence ID date'')
          else None)"

definition validate_candidate_id :: "string \<Rightarrow> string \<Rightarrow> lg_error option" where
  "validate_candidate_id ident source_commit =
     (case match_candidate_id ident of
        None \<Rightarrow> Some (ErrInvalidEvidence ''candidate ID'')
      | Some (short, _, _) \<Rightarrow>
          if length source_commit < 12 \<or> short \<noteq> take 12 source_commit then
            Some (ErrInvalidEvidence ''candidate ID source commit'')
          else None)"

definition valid_matrix ::
    "platform \<Rightarrow> testbed \<Rightarrow> network_type \<Rightarrow> auth_method \<Rightarrow> suite \<Rightarrow> bool" where
  "valid_matrix p t n a s \<longleftrightarrow>
     (p = PlatformLinuxAMD64 \<and> t = TestbedNASVM \<and> n = NetworkCampusWired \<and>
        a = AuthMethodPassword \<and> s = SuitePasswordCore) \<or>
     (p = PlatformLinuxAMD64 \<and> t = TestbedNASVM \<and> n = NetworkCampusWired \<and>
        a = AuthMethodTerminalQR \<and> s = SuiteTerminalQR) \<or>
     (p = PlatformWindowsAMD64 \<and> t = TestbedBHKWindows \<and> n = NetworkCampusWired \<and>
        a = AuthMethodPassword \<and> s = SuitePasswordCore) \<or>
     (p = PlatformWindowsAMD64 \<and> t = TestbedBHKWindows \<and> n = NetworkCampusWiFi \<and>
        a = AuthMethodPassword \<and> s = SuitePasswordCore)"

definition validate_capabilities :: "evidence \<Rightarrow> lg_error option" where
  "validate_capabilities e =
     (if \<not> list_all capability_valid (CapabilityBefore e) then
        Some (ErrInvalidEvidence ''capability before'')
      else if \<not> list_all capability_valid (CapabilityAfter e) then
        Some (ErrInvalidEvidence ''capability after'')
      else (case SuiteOf e of
          SuitePasswordCore \<Rightarrow>
            if CapabilityBefore e \<noteq> passwordCapabilitiesBefore then
              Some (ErrInvalidEvidence ''capability before transition'')
            else if CapabilityAfter e \<noteq>
                (if ResultOf e = ResultPass then passwordCapabilitiesAfter
                 else passwordCapabilitiesBefore) then
              Some (ErrInvalidEvidence ''capability after transition'')
            else None
        | SuiteTerminalQR \<Rightarrow>
            if CapabilityBefore e \<noteq> terminalQRCapabilitiesBefore then
              Some (ErrInvalidEvidence ''capability before transition'')
            else if CapabilityAfter e \<noteq>
                (if ResultOf e = ResultPass then terminalQRCapabilitiesAfter
                 else terminalQRCapabilitiesBefore) then
              Some (ErrInvalidEvidence ''capability after transition'')
            else None
        | SuiteOther _ \<Rightarrow> Some (ErrInvalidEvidence ''capability suite'')))"

section \<open>The step sequence\<close>

fun validate_steps :: "step list \<Rightarrow> lg_error option" where
  "validate_steps [] = None"
| "validate_steps (s # ss) =
     (case step_validate s of Some e \<Rightarrow> Some e | None \<Rightarrow> validate_steps ss)"

text \<open>The loop over \<open>primaryCount\<close>: the length of the primary prefix, up to its first non-pass step.\<close>

fun primary_prefix :: "step_name list \<Rightarrow> step list \<Rightarrow> lg_error + nat" where
  "primary_prefix (p # ps) (s # ss) =
     (if Name s \<noteq> p then Inl (ErrInvalidEvidence ''non-pass primary sequence'')
      else if StepResult s \<noteq> ResultPass then Inr 1
      else (case primary_prefix ps ss of Inl e \<Rightarrow> Inl e | Inr n \<Rightarrow> Inr (Suc n)))"
| "primary_prefix _ _ = Inr 0"

fun primary_step_passed :: "step list \<Rightarrow> step_name \<Rightarrow> bool" where
  "primary_step_passed [] n = False"
| "primary_step_passed (s # ss) n =
     (if Name s = n then StepResult s = ResultPass else primary_step_passed ss n)"

definition derived_result :: "step list \<Rightarrow> gate_result" where
  "derived_result ss =
     (if list_ex (\<lambda>s. StepResult s = ResultFail) ss then ResultFail else ResultBlocked)"

definition validate_pass :: "step_name list \<Rightarrow> step list \<Rightarrow> lg_error option" where
  "validate_pass primary ss =
     (if length ss \<noteq> length primary then Some (ErrInvalidEvidence ''pass step count'')
      else if list_all2 (\<lambda>s n. Name s = n \<and> StepResult s = ResultPass) ss primary then None
      else Some (ErrInvalidEvidence ''pass step sequence''))"

definition validate_nonpass ::
    "step_name list \<Rightarrow> gate_result \<Rightarrow> step list \<Rightarrow> lg_error option" where
  "validate_nonpass primary overall ss =
     (if overall \<noteq> ResultFail \<and> overall \<noteq> ResultBlocked then
        Some (ErrInvalidEvidence ''step overall result'')
      else if ss = [] then Some (ErrInvalidEvidence ''non-pass step count'')
      else (case primary_prefix primary ss of
          Inl e \<Rightarrow> Some e
        | Inr n \<Rightarrow>
            if n = 0 \<or> StepResult (ss ! (n - 1)) = ResultPass then
              Some (ErrInvalidEvidence ''non-pass primary result'')
            else
              (let cleanup = primary_step_passed (take n ss) StepStatusOnline \<and>
                     \<not> primary_step_passed (take n ss) StepFinalStatusOffline in
               if length ss \<noteq> (if cleanup then n + 2 else n) then
                 Some (ErrInvalidEvidence ''cleanup step count'')
               else if cleanup \<and> (Name (ss ! n) \<noteq> StepCleanupLogout \<or>
                     Name (ss ! (n + 1)) \<noteq> StepCleanupStatusOffline) then
                 Some (ErrInvalidEvidence ''cleanup step sequence'')
               else if overall \<noteq> derived_result ss then
                 Some (ErrInvalidEvidence ''overall step result'')
               else None)))"

definition validate_step_sequence ::
    "suite \<Rightarrow> gate_result \<Rightarrow> step list \<Rightarrow> lg_error option" where
  "validate_step_sequence st overall ss =
     (case validate_steps ss of Some e \<Rightarrow> Some e
      | None \<Rightarrow>
          (case (case st of SuitePasswordCore \<Rightarrow> Some passwordPrimarySteps
                 | SuiteTerminalQR \<Rightarrow> Some terminalQRPrimarySteps
                 | SuiteOther _ \<Rightarrow> None) of
             None \<Rightarrow> Some (ErrInvalidEvidence ''step suite'')
           | Some primary \<Rightarrow>
               if overall = ResultPass then validate_pass primary ss
               else validate_nonpass primary overall ss))"

definition evidence_validate :: "evidence \<Rightarrow> lg_error option" where
  "evidence_validate e =
     (if SchemaVersionOf e \<noteq> SchemaVersion then Some (ErrInvalidEvidence ''schema version'')
      else if PlanIDOf e \<noteq> PlanID then Some (ErrInvalidEvidence ''plan ID'')
      else if RevisionOf e \<noteq> Revision then Some (ErrInvalidEvidence ''revision'')
      else (case parse_timestamp (StartedAt e) of Inl er \<Rightarrow> Some er | Inr started \<Rightarrow>
            (case parse_timestamp (FinishedAt e) of Inl er \<Rightarrow> Some er | Inr finished \<Rightarrow>
      if time_before finished started then Some (ErrInvalidEvidence ''timestamp order'')
      else (case validate_evidence_id (EvidenceID e) started of Some er \<Rightarrow> Some er | None \<Rightarrow>
      if \<not> lower_hex 64 (CandidateSetSHA256 e) then Some (ErrInvalidEvidence ''candidate set hash'')
      else if \<not> lower_hex 40 (SourceCommit e) then Some (ErrInvalidEvidence ''source commit'')
      else (case validate_candidate_id (CandidateID e) (SourceCommit e) of Some er \<Rightarrow> Some er | None \<Rightarrow>
      if \<not> platform_valid (PlatformOf e) then Some (ErrInvalidEvidence ''platform'')
      else if \<not> testbed_valid (TestbedOf e) then Some (ErrInvalidEvidence ''testbed'')
      else if \<not> network_valid (NetworkType e) then Some (ErrInvalidEvidence ''network type'')
      else if \<not> auth_method_valid (AuthMethodOf e) then
        Some (ErrInvalidEvidence ''authentication method'')
      else if \<not> suite_valid (SuiteOf e) then Some (ErrInvalidEvidence ''suite'')
      else if \<not> result_valid (ResultOf e) then Some (ErrInvalidEvidence ''result'')
      else if \<not> valid_matrix (PlatformOf e) (TestbedOf e) (NetworkType e) (AuthMethodOf e) (SuiteOf e)
        then Some (ErrInvalidEvidence ''validation matrix'')
      else (case validate_capabilities e of Some er \<Rightarrow> Some er | None \<Rightarrow>
        validate_step_sequence (SuiteOf e) (ResultOf e) (Steps e)))))))"

section \<open>What the sequence check accepts\<close>

text \<open>
  The contract of a run in evidence form.  A passed run has exactly the primary steps, all passed.
  Any other run has a passed prefix of them, then one step that did not pass, then the two cleanup
  steps when the prefix proved the session online and had not yet proved it offline again.
\<close>

abbreviation passed :: "step \<Rightarrow> bool" where
  "passed s \<equiv> StepResult s = ResultPass"

definition primary_steps :: "suite \<Rightarrow> step_name list option" where
  "primary_steps st =
     (case st of SuitePasswordCore \<Rightarrow> Some passwordPrimarySteps
      | SuiteTerminalQR \<Rightarrow> Some terminalQRPrimarySteps | SuiteOther _ \<Rightarrow> None)"

definition cleanup_needed :: "step list \<Rightarrow> bool" where
  "cleanup_needed pre \<longleftrightarrow>
     StepStatusOnline \<in> Name ` set pre \<and> StepFinalStatusOffline \<notin> Name ` set pre"

definition stopped_sequence :: "step_name list \<Rightarrow> step list \<Rightarrow> bool" where
  "stopped_sequence primary ss \<longleftrightarrow>
     (\<exists>pre bad rest. ss = pre @ bad # rest \<and>
        map Name (pre @ [bad]) = take (Suc (length pre)) primary \<and>
        list_all passed pre \<and> \<not> passed bad \<and>
        map Name rest =
          (if cleanup_needed pre then [StepCleanupLogout, StepCleanupStatusOffline] else []))"

definition sequence_contract :: "suite \<Rightarrow> gate_result \<Rightarrow> step list \<Rightarrow> bool" where
  "sequence_contract st overall ss \<longleftrightarrow>
     list_all (\<lambda>s. step_validate s = None) ss \<and>
     (case primary_steps st of None \<Rightarrow> False
      | Some primary \<Rightarrow>
          if overall = ResultPass then map Name ss = primary \<and> list_all passed ss
          else overall = derived_result ss \<and> stopped_sequence primary ss)"

lemma validate_steps_None: "validate_steps ss = None \<longleftrightarrow> list_all (\<lambda>s. step_validate s = None) ss"
  by (induction ss) (auto split: option.splits)

lemma derived_result_cases: "derived_result ss = ResultFail \<or> derived_result ss = ResultBlocked"
  by (simp add: derived_result_def)

lemma validate_pass_None:
  "validate_pass primary ss = None \<longleftrightarrow> map Name ss = primary \<and> list_all passed ss"
  by (auto simp: validate_pass_def list_all2_conv_all_nth list_all_length list_eq_iff_nth_eq)

lemma primary_step_passed_prefix:
  "list_all passed pre \<Longrightarrow> \<not> passed bad \<Longrightarrow>
     primary_step_passed (pre @ [bad]) n \<longleftrightarrow> n \<in> Name ` set pre"
  by (induction pre) auto

lemma primary_prefix_stop:
  "primary_prefix ps ss = Inr n \<Longrightarrow> 0 < n \<Longrightarrow> \<not> passed (ss ! (n - 1)) \<Longrightarrow>
     \<exists>pre bad rest. ss = pre @ bad # rest \<and> n = Suc (length pre) \<and>
       map Name (pre @ [bad]) = take n ps \<and> list_all passed pre \<and> \<not> passed bad"
proof (induction ps ss arbitrary: n rule: primary_prefix.induct)
  case (1 p ps s ss)
  show ?case
  proof (cases "passed s")
    case False
    then have "s # ss = [] @ s # ss \<and> n = Suc (length ([] :: step list)) \<and>
        map Name ([] @ [s]) = take n (p # ps) \<and> list_all passed [] \<and> \<not> passed s"
      using 1 by (auto split: if_splits)
    then show ?thesis by blast
  next
    case True
    then obtain m where m: "primary_prefix ps ss = Inr m" "n = Suc m" "Name s = p"
      using 1 by (auto split: if_splits sum.splits)
    with True 1 have "0 < m" by (cases m) auto
    with m True 1 obtain pre bad rest where
      *: "ss = pre @ bad # rest \<and> m = Suc (length pre) \<and> map Name (pre @ [bad]) = take m ps \<and>
          list_all passed pre \<and> \<not> passed bad"
      by (metis diff_Suc_1 nth_Cons_pos)
    then have "s # ss = (s # pre) @ bad # rest \<and> n = Suc (length (s # pre)) \<and>
        map Name ((s # pre) @ [bad]) = take n (p # ps) \<and> list_all passed (s # pre) \<and> \<not> passed bad"
      using m True by simp
    then show ?thesis by blast
  qed
qed auto

lemma primary_prefix_reach:
  "map Name (pre @ [bad]) = take (Suc (length pre)) ps \<Longrightarrow> list_all passed pre \<Longrightarrow> \<not> passed bad \<Longrightarrow>
     primary_prefix ps (pre @ bad # rest) = Inr (Suc (length pre))"
  by (induction pre arbitrary: ps) (case_tac ps; auto)+

lemma map_two: "map f xs = [a, b] \<longleftrightarrow> (\<exists>x y. xs = [x, y] \<and> f x = a \<and> f y = b)"
  by (auto simp: map_eq_Cons_conv)

lemma stopped_tail:
  assumes "list_all passed pre" "\<not> passed bad"
    and that: "primary_prefix primary (pre @ bad # rest) = Inr (Suc (length pre))"
  shows "validate_nonpass primary overall (pre @ bad # rest) = None \<longleftrightarrow>
           overall = derived_result (pre @ bad # rest) \<and>
           map Name rest =
             (if cleanup_needed pre then [StepCleanupLogout, StepCleanupStatusOffline] else [])"
proof -
  let ?ss = "pre @ bad # rest"
  have cl: "(primary_step_passed (take (Suc (length pre)) ?ss) StepStatusOnline \<and>
       \<not> primary_step_passed (take (Suc (length pre)) ?ss) StepFinalStatusOffline) = cleanup_needed pre"
    using primary_step_passed_prefix [OF assms(1,2)] by (simp add: cleanup_needed_def)
  have names: "?ss ! Suc (length pre) = rest ! 0" "?ss ! Suc (Suc (length pre)) = rest ! 1"
    by (simp_all add: nth_append)
  have two: "map Name rest = [StepCleanupLogout, StepCleanupStatusOffline] \<longleftrightarrow>
      length rest = 2 \<and> Name (rest ! 0) = StepCleanupLogout \<and>
      Name (rest ! 1) = StepCleanupStatusOffline"
    by (auto simp: map_two length_Suc_conv numeral_2_eq_2)
  show ?thesis
    using derived_result_cases [of ?ss] assms
    by (cases "cleanup_needed pre")
      (auto simp: validate_nonpass_def that Let_def cl names two simp del: take_append)
qed

lemma validate_nonpass_None:
  "validate_nonpass primary overall ss = None \<longleftrightarrow>
     overall = derived_result ss \<and> stopped_sequence primary ss"
proof
  assume v: "validate_nonpass primary overall ss = None"
  then obtain n where n: "primary_prefix primary ss = Inr n" "0 < n" "\<not> passed (ss ! (n - 1))"
    by (auto simp: validate_nonpass_def split: if_splits sum.splits)
  then obtain pre bad rest where
    s: "ss = pre @ bad # rest" "n = Suc (length pre)" "map Name (pre @ [bad]) = take n primary"
       "list_all passed pre" "\<not> passed bad"
    using primary_prefix_stop [OF n] by blast
  then show "overall = derived_result ss \<and> stopped_sequence primary ss"
    using v n stopped_tail [of pre bad primary rest overall] unfolding stopped_sequence_def by blast
next
  assume "overall = derived_result ss \<and> stopped_sequence primary ss"
  then show "validate_nonpass primary overall ss = None"
    unfolding stopped_sequence_def
    using stopped_tail primary_prefix_reach by metis
qed

lemma validate_step_sequence_iff:
  "validate_step_sequence st overall ss = None \<longleftrightarrow> sequence_contract st overall ss"
  by (cases st)
    (auto simp: validate_step_sequence_def sequence_contract_def validate_steps_None primary_steps_def
      validate_pass_None validate_nonpass_None split: option.splits
      simp flip: validate_steps_None)

end
