(* ===== verification/LgRunner.thy ===== *)
theory LgRunner
  imports LgSchema "HOL-Library.Sublist"
begin

text \<open>
  The state machine of the live validation gate, \<open>internal/livegate/runner.go\<close>.  A run talks to
  its surroundings through the command executor, the clock and the contexts; every such
  interaction is an event of the history, and the surroundings are a \<open>world\<close> that answers from
  the history so far, so that an answer may differ every time it is asked for.  Once a context has
  reported an error it keeps reporting it, as \<open>context.Context\<close> documents.
\<close>

section \<open>Actions and observations\<close>

datatype action =
    ActionInitialStatus | ActionPasswordLogin | ActionQRLogin | ActionStatusOnline
  | ActionSecondPasswordLogin | ActionLogout | ActionFinalStatus | ActionSecondLogout
  | ActionCleanupLogout | ActionCleanupStatus

datatype session_state =
  SessionNone | SessionOffline | SessionOnline | SessionUnknown | SessionOther string

datatype outcome =
    OutcomeNone | OutcomeLoggedIn | OutcomeAlreadyOnline | OutcomeLoggedOut
  | OutcomeAlreadyOffline | OutcomeOther string

record observation =
  ObsExitCode :: command_exit
  ObsErrorCode :: "error_code option"
  Session :: session_state
  OutcomeOf :: outcome
  IdentityMatches :: bool
  RunnerFault :: bool

definition zero_observation :: observation where
  "zero_observation =
     \<lparr>ObsExitCode = 0, ObsErrorCode = None, Session = SessionNone, OutcomeOf = OutcomeNone,
      IdentityMatches = False, RunnerFault = False\<rparr>"

record action_step =
  spec_action :: action
  spec_name :: step_name

abbreviation mk_spec :: "action \<Rightarrow> step_name \<Rightarrow> action_step" where
  "mk_spec a n \<equiv> \<lparr>spec_action = a, spec_name = n\<rparr>"

definition passwordPrimaryActions :: "action_step list" where
  "passwordPrimaryActions =
     [mk_spec ActionInitialStatus StepInitialStatusOffline,
      mk_spec ActionPasswordLogin StepLoginLoggedIn,
      mk_spec ActionStatusOnline StepStatusOnline,
      mk_spec ActionSecondPasswordLogin StepSecondLoginAlreadyOnline,
      mk_spec ActionLogout StepLogoutLoggedOut,
      mk_spec ActionFinalStatus StepFinalStatusOffline,
      mk_spec ActionSecondLogout StepSecondLogoutAlreadyOffline]"

definition terminalQRPrimaryActions :: "action_step list" where
  "terminalQRPrimaryActions =
     [mk_spec ActionInitialStatus StepInitialStatusOffline,
      mk_spec ActionQRLogin StepQRLoginLoggedIn,
      mk_spec ActionStatusOnline StepStatusOnline,
      mk_spec ActionLogout StepLogoutLoggedOut,
      mk_spec ActionFinalStatus StepFinalStatusOffline]"

definition cleanupActions :: "action_step list" where
  "cleanupActions =
     [mk_spec ActionCleanupLogout StepCleanupLogout,
      mk_spec ActionCleanupStatus StepCleanupStatusOffline]"

definition primary_actions :: "suite \<Rightarrow> action_step list option" where
  "primary_actions st =
     (case st of SuitePasswordCore \<Rightarrow> Some passwordPrimaryActions
      | SuiteTerminalQR \<Rightarrow> Some terminalQRPrimaryActions | SuiteOther _ \<Rightarrow> None)"

section \<open>Classification\<close>

definition classify_command_failure :: "observation \<Rightarrow> gate_result" where
  "classify_command_failure obs =
     (if ObsExitCode obs = CommandExitCanceled then ResultBlocked
      else (case ObsErrorCode obs of
          None \<Rightarrow> ResultFail
        | Some ErrorNetwork \<Rightarrow> ResultBlocked
        | Some ErrorInteractionRequired \<Rightarrow> ResultBlocked
        | Some ErrorConfig \<Rightarrow> ResultBlocked
        | Some _ \<Rightarrow> ResultFail))"

definition valid_observation_enums :: "observation \<Rightarrow> bool" where
  "valid_observation_enums obs \<longleftrightarrow>
     (case Session obs of SessionOther _ \<Rightarrow> False | _ \<Rightarrow> True) \<and>
     (case OutcomeOf obs of OutcomeOther _ \<Rightarrow> False | _ \<Rightarrow> True)"

text \<open>The result is \<open>None\<close> where the code answers \<open>(ResultBlocked, false)\<close>: not classified.\<close>

definition classify_login :: "outcome \<Rightarrow> observation \<Rightarrow> gate_result option" where
  "classify_login expected obs =
     (if OutcomeOf obs = OutcomeNone \<or> Session obs = SessionUnknown then Some ResultBlocked
      else if OutcomeOf obs = expected \<and> Session obs = SessionOnline \<and> IdentityMatches obs
        then Some ResultPass
      else Some ResultFail)"

definition classify_logout :: "outcome set \<Rightarrow> observation \<Rightarrow> gate_result option" where
  "classify_logout expected obs =
     (if OutcomeOf obs = OutcomeNone then Some ResultBlocked
      else if OutcomeOf obs \<in> expected then
        (if Session obs = SessionUnknown then Some ResultBlocked
         else if Session obs \<noteq> SessionOffline then Some ResultFail else Some ResultPass)
      else Some ResultFail)"

definition classify_successful :: "action \<Rightarrow> observation \<Rightarrow> gate_result option" where
  "classify_successful act obs =
     (if RunnerFault obs \<or> ObsErrorCode obs \<noteq> None \<or> \<not> valid_observation_enums obs then None
      else (case act of
          ActionInitialStatus \<Rightarrow>
            (case Session obs of SessionOffline \<Rightarrow> Some ResultPass
             | SessionOnline \<Rightarrow> Some ResultBlocked | SessionUnknown \<Rightarrow> Some ResultBlocked
             | _ \<Rightarrow> None)
        | ActionPasswordLogin \<Rightarrow> classify_login OutcomeLoggedIn obs
        | ActionQRLogin \<Rightarrow>
            (case OutcomeOf obs of OutcomeLoggedIn \<Rightarrow> Some ResultPass
             | OutcomeNone \<Rightarrow> Some ResultBlocked | OutcomeOther _ \<Rightarrow> None | _ \<Rightarrow> Some ResultFail)
        | ActionStatusOnline \<Rightarrow>
            (case Session obs of SessionUnknown \<Rightarrow> Some ResultBlocked
             | SessionOffline \<Rightarrow> Some ResultFail
             | SessionOnline \<Rightarrow> Some (if IdentityMatches obs then ResultPass else ResultFail)
             | _ \<Rightarrow> None)
        | ActionSecondPasswordLogin \<Rightarrow> classify_login OutcomeAlreadyOnline obs
        | ActionLogout \<Rightarrow> classify_logout {OutcomeLoggedOut} obs
        | ActionFinalStatus \<Rightarrow>
            (case Session obs of SessionOffline \<Rightarrow> Some ResultPass
             | SessionOnline \<Rightarrow> Some ResultFail | SessionUnknown \<Rightarrow> Some ResultBlocked | _ \<Rightarrow> None)
        | ActionCleanupStatus \<Rightarrow>
            (case Session obs of SessionOffline \<Rightarrow> Some ResultPass
             | SessionOnline \<Rightarrow> Some ResultFail | SessionUnknown \<Rightarrow> Some ResultBlocked | _ \<Rightarrow> None)
        | ActionSecondLogout \<Rightarrow> classify_logout {OutcomeAlreadyOffline} obs
        | ActionCleanupLogout \<Rightarrow>
            classify_logout {OutcomeLoggedOut, OutcomeAlreadyOffline} obs))"

definition step_from_observation :: "action_step \<Rightarrow> observation \<Rightarrow> int \<Rightarrow> lg_error + step" where
  "step_from_observation spec obs duration =
     (let build = (\<lambda>r. \<lparr>Name = spec_name spec, StepResult = r, ExitCode = ObsExitCode obs,
                        ErrorCodeOf = ObsErrorCode obs, DurationSeconds = duration\<rparr>);
          checked = (\<lambda>s. if step_validate s \<noteq> None then Inl ErrInvalidObservation else Inr s)
      in if ObsExitCode obs \<noteq> CommandExitSuccess then checked (build (classify_command_failure obs))
         else (case classify_successful (spec_action spec) obs of
             None \<Rightarrow> Inl ErrInvalidObservation
           | Some r \<Rightarrow> checked (build r)))"

text \<open>
  Instants are counted in nanoseconds; a \<open>time.Duration\<close> saturates at the largest \<open>int64\<close> and
  \<open>elapsedSeconds\<close> divides it by a second.
\<close>

definition elapsed_seconds :: "int \<Rightarrow> int \<Rightarrow> int" where
  "elapsed_seconds started finished =
     (if finished < started then 0 else min (finished - started) (2 ^ 63 - 1) div 10 ^ 9)"

section \<open>Interactions\<close>

datatype event =
    EvNow int
  | EvCtx bool
  | EvExec action observation
  | EvCleanupContext action
  | EvDeadline bool

type_synonym history = "event list"

record world =
  w_now :: "history \<Rightarrow> int"
  w_ctx :: "history \<Rightarrow> bool"
  w_exec :: "history \<Rightarrow> action \<Rightarrow> observation"
  w_deadline :: "int \<Rightarrow> history \<Rightarrow> bool"

type_synonym 'a interaction = "history \<Rightarrow> 'a \<times> history"

text \<open>The history is kept newest event first.\<close>

definition ask_now :: "world \<Rightarrow> int interaction" where
  "ask_now w h = (let t = w_now w h in (t, EvNow t # h))"

definition ctx_err :: "world \<Rightarrow> bool interaction" where
  "ctx_err w h = (let b = EvCtx True \<in> set h \<or> w_ctx w h in (b, EvCtx b # h))"

definition exec_action :: "world \<Rightarrow> action \<Rightarrow> observation interaction" where
  "exec_action w a h = (let obs = w_exec w h a in (obs, EvExec a obs # h))"

definition deadline_exceeded :: "world \<Rightarrow> int \<Rightarrow> bool interaction" where
  "deadline_exceeded w timeout h = (let b = w_deadline w timeout h in (b, EvDeadline b # h))"

definition observe_action :: "world \<Rightarrow> action \<Rightarrow> (observation \<times> int) interaction" where
  "observe_action w a h =
     (let (started, h1) = ask_now w h;
          (c1, h2) = ctx_err w h1
      in if c1 then ((zero_observation, 0), h2)
         else let (obs, h3) = exec_action w a h2;
                  (c2, h4) = ctx_err w h3
              in if c2 then ((zero_observation, 0), h4)
                 else let (finished, h5) = ask_now w h4;
                          (c3, h6) = ctx_err w h5
                      in if c3 then ((zero_observation, 0), h6)
                         else ((obs, elapsed_seconds started finished), h6))"

definition cleanup_timeout_observation :: observation where
  "cleanup_timeout_observation =
     zero_observation\<lparr>ObsExitCode := CommandExitCanceled, ObsErrorCode := Some ErrorNetwork\<rparr>"

definition observe_cleanup_action :: "world \<Rightarrow> int \<Rightarrow> action \<Rightarrow> (observation \<times> int) interaction" where
  "observe_cleanup_action w timeout a h =
     (let (started, h1) = ask_now w h;
          (d1, h2) = deadline_exceeded w timeout h1
      in if d1 then ((cleanup_timeout_observation, 0), h2)
         else let (obs, h3) = exec_action w a h2;
                  (finished, h4) = ask_now w h3;
                  (d2, h5) = deadline_exceeded w timeout h4
              in ((if d2 then cleanup_timeout_observation else obs,
                   elapsed_seconds started finished), h5))"

definition execute_step :: "world \<Rightarrow> action_step \<Rightarrow> (lg_error + step) interaction" where
  "execute_step w spec h =
     (let ((obs, duration), h1) = observe_action w (spec_action spec) h
      in (if RunnerFault obs then Inl ErrCommandRunnerFault
          else step_from_observation spec obs duration, h1))"

definition execute_cleanup_step :: "world \<Rightarrow> int \<Rightarrow> action_step \<Rightarrow> (lg_error + step) interaction" where
  "execute_cleanup_step w timeout spec h =
     (let ((obs, duration), h1) = observe_cleanup_action w timeout (spec_action spec) h
      in (if RunnerFault obs then Inl ErrCommandRunnerFault
          else step_from_observation spec obs duration, h1))"

text \<open>
  \<open>executeQRPair\<close> returns the steps, whether they passed, whether the run was canceled, or an error.
\<close>

datatype pair_outcome =
    PairCanceled
  | PairError lg_error
  | PairStopped "step list"
  | PairPassed "step list"

definition qr_spec :: action_step where
  "qr_spec = mk_spec ActionQRLogin StepQRLoginLoggedIn"

definition status_spec :: action_step where
  "status_spec = mk_spec ActionStatusOnline StepStatusOnline"

definition finish_qr_pair :: "observation \<Rightarrow> step \<Rightarrow> int \<Rightarrow> pair_outcome" where
  "finish_qr_pair status_obs status_step0 qr_duration =
     (let status_step =
            (if ObsExitCode status_obs = CommandExitSuccess \<and> Session status_obs = SessionOnline \<and>
                \<not> IdentityMatches status_obs
             then status_step0\<lparr>StepResult := ResultBlocked\<rparr> else status_step0);
          qr_step = \<lparr>Name = StepQRLoginLoggedIn, StepResult = ResultOther '''',
                     ExitCode = CommandExitSuccess, ErrorCodeOf = None,
                     DurationSeconds = qr_duration\<rparr>
      in if StepResult status_step = ResultPass then
           PairPassed [qr_step\<lparr>StepResult := ResultPass\<rparr>, status_step]
         else
           let merged = qr_step\<lparr>StepResult := StepResult status_step,
                                DurationSeconds := qr_duration + DurationSeconds status_step\<rparr>;
               merged' = (if ExitCode status_step \<noteq> CommandExitSuccess
                 then merged\<lparr>ExitCode := ExitCode status_step,
                             ErrorCodeOf := ErrorCodeOf status_step\<rparr> else merged)
           in if step_validate merged' \<noteq> None then PairError ErrInvalidObservation
              else PairStopped [merged'])"

definition execute_qr_pair :: "world \<Rightarrow> pair_outcome interaction" where
  "execute_qr_pair w h =
     (let ((qr_obs, qr_duration), h1) = observe_action w ActionQRLogin h;
          (c1, h2) = ctx_err w h1
      in if c1 then (PairCanceled, h2)
         else if RunnerFault qr_obs then (PairError ErrCommandRunnerFault, h2)
         else if ObsExitCode qr_obs \<noteq> CommandExitSuccess then
           (case step_from_observation qr_spec qr_obs qr_duration of
              Inl e \<Rightarrow> PairError e | Inr s \<Rightarrow> PairStopped [s], h2)
         else if ObsErrorCode qr_obs \<noteq> None \<or> Session qr_obs \<noteq> SessionNone \<or>
             OutcomeOf qr_obs \<noteq> OutcomeNone \<or> IdentityMatches qr_obs then
           (PairError ErrInvalidObservation, h2)
         else
           let ((status_obs, status_duration), h3) = observe_action w ActionStatusOnline h2;
               (c2, h4) = ctx_err w h3
           in if c2 then (PairCanceled, h4)
              else if RunnerFault status_obs then (PairError ErrCommandRunnerFault, h4)
              else (case step_from_observation status_spec status_obs status_duration of
                      Inl e \<Rightarrow> PairError e
                    | Inr s \<Rightarrow> finish_qr_pair status_obs s qr_duration, h4))"

section \<open>The run\<close>

record loop =
  l_steps :: "step list"
  cleanup_owned :: bool
  final_offline :: bool
  primary_complete :: bool
  l_canceled :: bool
  l_err :: "lg_error option"

definition init_loop :: loop where
  "init_loop =
     \<lparr>l_steps = [], cleanup_owned = False, final_offline = False, primary_complete = True,
      l_canceled = False, l_err = None\<rparr>"

fun run_primary :: "world \<Rightarrow> suite \<Rightarrow> action_step list \<Rightarrow> loop \<Rightarrow> loop interaction" where
  "run_primary w st [] l h = (l, h)"
| "run_primary w st (spec # rest) l h =
     (let (c, h1) = ctx_err w h
      in if c then (l\<lparr>l_canceled := True, primary_complete := False\<rparr>, h1)
         else if st = SuiteTerminalQR \<and> spec_action spec = ActionQRLogin then
           (let (pair, h2) = execute_qr_pair w h1;
                (c2, h3) = (if pair = PairCanceled then (True, h2) else ctx_err w h2)
            in if c2 then (l\<lparr>l_canceled := True, primary_complete := False\<rparr>, h3)
               else (case pair of
                   PairCanceled \<Rightarrow> (l\<lparr>l_canceled := True, primary_complete := False\<rparr>, h3)
                 | PairError e \<Rightarrow> (l\<lparr>primary_complete := False, l_err := Some e\<rparr>, h3)
                 | PairStopped ss \<Rightarrow>
                     (l\<lparr>l_steps := l_steps l @ ss, primary_complete := False\<rparr>, h3)
                 | PairPassed ss \<Rightarrow>
                     run_primary w st (drop 1 rest)
                       (l\<lparr>l_steps := l_steps l @ ss, cleanup_owned := True\<rparr>) h3))
         else
           (let (res, h2) = execute_step w spec h1;
                (c2, h3) = ctx_err w h2
            in if c2 then (l\<lparr>l_canceled := True, primary_complete := False\<rparr>, h3)
               else (case res of
                   Inl e \<Rightarrow> (l\<lparr>primary_complete := False, l_err := Some e\<rparr>, h3)
                 | Inr s \<Rightarrow>
                     (let l1 = l\<lparr>l_steps := l_steps l @ [s],
                                 cleanup_owned := cleanup_owned l \<or>
                                   (spec_action spec = ActionStatusOnline \<and> StepResult s = ResultPass),
                                 final_offline := final_offline l \<or>
                                   (spec_action spec = ActionFinalStatus \<and> StepResult s = ResultPass)\<rparr>
                      in if StepResult s \<noteq> ResultPass then (l1\<lparr>primary_complete := False\<rparr>, h3)
                         else run_primary w st rest l1 h3))))"

fun run_cleanup :: "world \<Rightarrow> int \<Rightarrow> action_step list \<Rightarrow> loop \<Rightarrow> loop interaction" where
  "run_cleanup w timeout [] l h = (l, h)"
| "run_cleanup w timeout (spec # rest) l h =
     (let (res, h1) = execute_cleanup_step w timeout spec (EvCleanupContext (spec_action spec) # h)
      in case res of
           Inl e \<Rightarrow> run_cleanup w timeout rest
                     (if l_err l = None then l\<lparr>l_err := Some e\<rparr> else l) h1
         | Inr s \<Rightarrow> run_cleanup w timeout rest (l\<lparr>l_steps := l_steps l @ [s]\<rparr>) h1)"

definition default_cleanup_timeout :: int where
  "default_cleanup_timeout = 30 * 10 ^ 9"

record state_machine =
  executor_set :: bool
  cleanup_timeout :: int

definition run_timeout :: "state_machine \<Rightarrow> int" where
  "run_timeout sm = (if cleanup_timeout sm \<le> 0 then default_cleanup_timeout else cleanup_timeout sm)"

record run_result =
  r_steps :: "step list"
  r_result :: gate_result
  r_canceled :: bool
  r_err :: "lg_error option"

definition cleanup_due :: "loop \<Rightarrow> bool" where
  "cleanup_due l \<longleftrightarrow>
     cleanup_owned l \<and> \<not> final_offline l \<and>
     (\<not> primary_complete l \<or> l_canceled l \<or> l_err l \<noteq> None)"

definition finish_run :: "loop \<Rightarrow> run_result" where
  "finish_run l =
     (if primary_complete l \<and> \<not> l_canceled l \<and> l_err l = None
      then \<lparr>r_steps = l_steps l, r_result = ResultPass, r_canceled = False, r_err = None\<rparr>
      else \<lparr>r_steps = l_steps l, r_result = derived_result (l_steps l),
            r_canceled = l_canceled l, r_err = l_err l\<rparr>)"

definition run :: "bool \<Rightarrow> state_machine \<Rightarrow> world \<Rightarrow> suite \<Rightarrow> run_result interaction" where
  "run ctx_set sm w st h =
     (if \<not> ctx_set \<or> \<not> executor_set sm then
        (\<lparr>r_steps = [], r_result = ResultBlocked, r_canceled = False,
          r_err = Some ErrInvalidStateMachine\<rparr>, h)
      else (case primary_actions st of
          None \<Rightarrow> (\<lparr>r_steps = [], r_result = ResultBlocked, r_canceled = False,
                   r_err = Some ErrInvalidSuite\<rparr>, h)
        | Some primary \<Rightarrow>
            (let (l, h1) = run_primary w st primary init_loop h;
                 (l2, h2) = (if cleanup_due l
                             then run_cleanup w (run_timeout sm) cleanupActions l h1 else (l, h1))
             in (finish_run l2, h2))))"

section \<open>What a step of the run does\<close>

text \<open>The commands executed so far with what was observed, oldest first.\<close>

fun exec_log :: "history \<Rightarrow> (action \<times> observation) list" where
  "exec_log [] = []"
| "exec_log (e # h) = exec_log h @ (case e of EvExec a obs \<Rightarrow> [(a, obs)] | _ \<Rightarrow> [])"

text \<open>
  An executed command whose observation counts as the success of its step: for the terminal QR
  login, whose human-readable output is not parsed, the bare exit status.
\<close>

definition confirmed :: "suite \<Rightarrow> action \<times> observation \<Rightarrow> bool" where
  "confirmed st ao =
     (case ao of (a, obs) \<Rightarrow>
        \<not> RunnerFault obs \<and> ObsExitCode obs = CommandExitSuccess \<and> ObsErrorCode obs = None \<and>
        (if st = SuiteTerminalQR \<and> a = ActionQRLogin
         then Session obs = SessionNone \<and> OutcomeOf obs = OutcomeNone \<and> \<not> IdentityMatches obs
         else classify_successful a obs = Some ResultPass))"

lemma elapsed_seconds_nonneg: "0 \<le> elapsed_seconds a b"
  by (simp add: elapsed_seconds_def pos_imp_zdiv_nonneg_iff)

lemma ctx_errD: "ctx_err w h = (c, h') \<Longrightarrow> h' = EvCtx c # h \<and> (\<not> c \<longrightarrow> EvCtx True \<notin> set h')"
  by (auto simp: ctx_err_def Let_def)

lemma observe_actionD:
  assumes "observe_action w a h = ((obs, d), h')"
  shows "0 \<le> d"
    and "exec_log h' = exec_log h \<or> (\<exists>o'. exec_log h' = exec_log h @ [(a, o')])"
    and "EvCtx True \<notin> set h' \<Longrightarrow> exec_log h' = exec_log h @ [(a, obs)]"
  using assms
  by (auto simp: observe_action_def ask_now_def ctx_err_def exec_action_def Let_def
      elapsed_seconds_nonneg split: if_splits)

lemma step_from_observationD:
  assumes "step_from_observation spec obs d = Inr s"
  shows "Name s = spec_name spec \<and> step_validate s = None \<and>
    (StepResult s = ResultPass \<longrightarrow> ObsExitCode obs = CommandExitSuccess \<and>
       classify_successful (spec_action spec) obs = Some ResultPass)"
  using assms
  by (auto simp: step_from_observation_def Let_def classify_command_failure_def
      split: if_splits option.splits error_code.splits)

lemma classify_successful_clean:
  "classify_successful a obs = Some r \<Longrightarrow> \<not> RunnerFault obs \<and> ObsErrorCode obs = None"
  by (auto simp: classify_successful_def split: if_splits)

lemma execute_stepD:
  assumes "execute_step w spec h = (res, h')"
  shows "exec_log h' = exec_log h \<or> (\<exists>o'. exec_log h' = exec_log h @ [(spec_action spec, o')])"
    and "EvCtx True \<notin> set h' \<Longrightarrow>
      \<exists>obs. exec_log h' = exec_log h @ [(spec_action spec, obs)] \<and>
        (\<forall>s. res = Inr s \<longrightarrow> Name s = spec_name spec \<and> step_validate s = None \<and>
          (StepResult s = ResultPass \<longrightarrow>
             \<not> RunnerFault obs \<and> ObsExitCode obs = CommandExitSuccess \<and> ObsErrorCode obs = None \<and>
             classify_successful (spec_action spec) obs = Some ResultPass))"
proof -
  obtain obs d where o: "observe_action w (spec_action spec) h = ((obs, d), h')"
    and r: "res = (if RunnerFault obs then Inl ErrCommandRunnerFault
                   else step_from_observation spec obs d)"
    using assms by (auto simp: execute_step_def Let_def split: prod.splits)
  show "exec_log h' = exec_log h \<or> (\<exists>o'. exec_log h' = exec_log h @ [(spec_action spec, o')])"
    using observe_actionD(2) [OF o] .
  assume "EvCtx True \<notin> set h'"
  then have "exec_log h' = exec_log h @ [(spec_action spec, obs)]" by (rule observe_actionD(3) [OF o])
  with r show "\<exists>obs. exec_log h' = exec_log h @ [(spec_action spec, obs)] \<and>
        (\<forall>s. res = Inr s \<longrightarrow> Name s = spec_name spec \<and> step_validate s = None \<and>
          (StepResult s = ResultPass \<longrightarrow>
             \<not> RunnerFault obs \<and> ObsExitCode obs = CommandExitSuccess \<and> ObsErrorCode obs = None \<and>
             classify_successful (spec_action spec) obs = Some ResultPass))"
    by (auto dest: step_from_observationD classify_successful_clean split: if_splits)
qed

definition valid_step :: "step \<Rightarrow> bool" where
  "valid_step s \<longleftrightarrow> step_validate s = None"

lemma finish_qr_pair_passed:
  assumes "finish_qr_pair obs s d = PairPassed ss" "0 \<le> d"
  shows "\<exists>q. ss = [q, s] \<and> Name q = StepQRLoginLoggedIn \<and> passed q \<and> valid_step q \<and> passed s"
proof -
  let ?q = "\<lparr>Name = StepQRLoginLoggedIn, StepResult = ResultPass, ExitCode = 0,
             ErrorCodeOf = None, DurationSeconds = d\<rparr>"
  have "ss = [?q, s] \<and> passed s"
    using assms(1) unfolding finish_qr_pair_def Let_def by (cases s) (simp split: if_split_asm)
  moreover have "valid_step ?q"
    using assms(2) by (simp add: valid_step_def step_validate_def step_name_valid_def result_valid_def)
  ultimately show ?thesis by (intro exI [of _ ?q]) simp
qed

lemma finish_qr_pair_stopped:
  assumes "finish_qr_pair obs s d = PairStopped ss"
  shows "\<exists>q. ss = [q] \<and> Name q = StepQRLoginLoggedIn \<and> \<not> passed q \<and> valid_step q"
  using assms by (auto simp: finish_qr_pair_def Let_def valid_step_def split: if_splits)

lemma finish_qr_pair_not_canceled: "finish_qr_pair obs s d \<noteq> PairCanceled"
  by (simp add: finish_qr_pair_def Let_def)

lemma qr_first_stopped:
  assumes "step_from_observation qr_spec obs d = Inr s" "ObsExitCode obs \<noteq> 0"
  shows "Name s = StepQRLoginLoggedIn \<and> \<not> passed s \<and> valid_step s"
  using step_from_observationD [OF assms(1)] assms(2) by (auto simp: qr_spec_def valid_step_def)

text \<open>The state of knowledge after \<open>executeQRPair\<close>: the commands it ran and what its steps claim.\<close>

definition qr_pair_post :: "history \<Rightarrow> pair_outcome \<Rightarrow> history \<Rightarrow> bool" where
  "qr_pair_post h pair h' \<longleftrightarrow>
     (\<exists>ex k. exec_log h' = exec_log h @ ex \<and>
        map fst ex = take k [ActionQRLogin, ActionStatusOnline] \<and>
        (case pair of
           PairStopped ss \<Rightarrow>
             \<exists>q. ss = [q] \<and> Name q = StepQRLoginLoggedIn \<and> \<not> passed q \<and> valid_step q
         | PairPassed ss \<Rightarrow> k = 2 \<and> list_all (confirmed SuiteTerminalQR) ex \<and>
             (\<exists>q s. ss = [q, s] \<and> Name q = StepQRLoginLoggedIn \<and> Name s = StepStatusOnline \<and>
                list_all passed ss \<and> list_all valid_step ss)
         | _ \<Rightarrow> True))"

lemma qr_pair_postI:
  "exec_log h' = exec_log h @ ex \<Longrightarrow> map fst ex = take k [ActionQRLogin, ActionStatusOnline] \<Longrightarrow>
   (case pair of
           PairStopped ss \<Rightarrow>
             \<exists>q. ss = [q] \<and> Name q = StepQRLoginLoggedIn \<and> \<not> passed q \<and> valid_step q
         | PairPassed ss \<Rightarrow> k = 2 \<and> list_all (confirmed SuiteTerminalQR) ex \<and>
             (\<exists>q s. ss = [q, s] \<and> Name q = StepQRLoginLoggedIn \<and> Name s = StepStatusOnline \<and>
                list_all passed ss \<and> list_all valid_step ss)
         | _ \<Rightarrow> True) \<Longrightarrow> qr_pair_post h pair h'"
  unfolding qr_pair_post_def by blast

lemma exec_log_suffixE:
  assumes "exec_log h' = exec_log h \<or> (\<exists>o'. exec_log h' = exec_log h @ [(a, o')])"
  obtains ex k where "exec_log h' = exec_log h @ ex" "map fst ex = take k [a]" "k \<le> 1"
proof (cases "exec_log h' = exec_log h")
  case True
  then show ?thesis using that [of "[]" 0] by simp
next
  case False
  then obtain o' where "exec_log h' = exec_log h @ [(a, o')]" using assms by blast
  then show ?thesis using that [of "[(a, o')]" 1] by simp
qed

lemma execute_qr_pair_post:
  assumes "execute_qr_pair w h = (pair, h')" shows "qr_pair_post h pair h'"
proof -
  obtain qo qd h1 where 1: "observe_action w ActionQRLogin h = ((qo, qd), h1)"
    by (metis surj_pair)
  obtain c1 h2 where 2: "ctx_err w h1 = (c1, h2)" by (metis surj_pair)
  obtain so sd h3 where 3: "observe_action w ActionStatusOnline h2 = ((so, sd), h3)"
    by (metis surj_pair)
  obtain c2 h4 where 4: "ctx_err w h3 = (c2, h4)" by (metis surj_pair)
  note eq = assms [unfolded execute_qr_pair_def 1 2 3 4 Let_def prod.case]
  have l2: "exec_log h2 = exec_log h1" and l4: "exec_log h4 = exec_log h3"
    using ctx_errD [OF 2] ctx_errD [OF 4] by auto
  have n1: "\<not> c1 \<Longrightarrow> exec_log h2 = exec_log h @ [(ActionQRLogin, qo)]"
    using ctx_errD [OF 2] observe_actionD(3) [OF 1] by auto
  have n3: "\<not> c2 \<Longrightarrow> exec_log h4 = exec_log h2 @ [(ActionStatusOnline, so)]"
    using ctx_errD [OF 4] observe_actionD(3) [OF 3] by auto
  obtain e1 k1 where e1: "exec_log h2 = exec_log h @ e1" "map fst e1 = take k1 [ActionQRLogin]" "k1 \<le> 1"
    using observe_actionD(2) [OF 1] l2 by (metis exec_log_suffixE)
  obtain e3 k3 where e3: "exec_log h4 = exec_log h2 @ e3" "map fst e3 = take k3 [ActionStatusOnline]" "k3 \<le> 1"
    using observe_actionD(2) [OF 3] l4 by (metis exec_log_suffixE)
  have first: "qr_pair_post h p h2"
    if "\<And>ss. p \<noteq> PairPassed ss"
      "\<And>ss. p = PairStopped ss \<Longrightarrow>
         \<exists>q. ss = [q] \<and> Name q = StepQRLoginLoggedIn \<and> \<not> passed q \<and> valid_step q" for p
    using that e1 by (intro qr_pair_postI [of h2 h e1 k1]) (cases k1; auto split: pair_outcome.splits)+
  consider "c1" | "\<not> c1" "RunnerFault qo" | "\<not> c1" "\<not> RunnerFault qo" "ObsExitCode qo \<noteq> 0"
    | "\<not> c1" "\<not> RunnerFault qo" "ObsExitCode qo = 0"
      "ObsErrorCode qo \<noteq> None \<or> Session qo \<noteq> SessionNone \<or> OutcomeOf qo \<noteq> OutcomeNone \<or>
       IdentityMatches qo"
    | "\<not> c1" "\<not> RunnerFault qo" "ObsExitCode qo = 0"
      "\<not> (ObsErrorCode qo \<noteq> None \<or> Session qo \<noteq> SessionNone \<or> OutcomeOf qo \<noteq> OutcomeNone \<or>
       IdentityMatches qo)" by blast
  then show ?thesis
  proof cases
    case 5
    have whole: "exec_log h4 = exec_log h @ ((ActionQRLogin, qo) # e3)" using n1 5 e3 by simp
    have acts: "map fst ((ActionQRLogin, qo) # e3) = take (Suc k3) [ActionQRLogin, ActionStatusOnline]"
      using e3 by simp
    have second: "qr_pair_post h p h4"
      if "\<And>ss. p \<noteq> PairPassed ss"
        "\<And>ss. p = PairStopped ss \<Longrightarrow>
           \<exists>q. ss = [q] \<and> Name q = StepQRLoginLoggedIn \<and> \<not> passed q \<and> valid_step q" for p
      using that whole acts by (intro qr_pair_postI [OF whole acts]) (auto split: pair_outcome.splits)
    have qc: "confirmed SuiteTerminalQR (ActionQRLogin, qo)" using 5 by (simp add: confirmed_def)
    consider "c2" | "\<not> c2" "RunnerFault so" | e where "\<not> c2" "\<not> RunnerFault so"
        "step_from_observation status_spec so sd = Inl e"
      | s where "\<not> c2" "\<not> RunnerFault so" "step_from_observation status_spec so sd = Inr s"
      by (cases "step_from_observation status_spec so sd") auto
    then show ?thesis
    proof cases
      case (4 s)
      then have r: "pair = finish_qr_pair so s qd" "h' = h4" using eq 5 by auto
      have sd: "Name s = StepStatusOnline" "valid_step s"
        "passed s \<Longrightarrow> confirmed SuiteTerminalQR (ActionStatusOnline, so)"
        using step_from_observationD [OF 4(3)] classify_successful_clean 4(2)
        by (auto simp: status_spec_def valid_step_def confirmed_def)
      show ?thesis
      proof (cases pair)
        case (PairPassed ss)
        then have q: "\<exists>q. ss = [q, s] \<and> Name q = StepQRLoginLoggedIn \<and> passed q \<and> valid_step q \<and> passed s"
          using r finish_qr_pair_passed observe_actionD(1) [OF 1] by metis
        have "exec_log h' = exec_log h @ [(ActionQRLogin, qo), (ActionStatusOnline, so)]"
          using n1 n3 5 4 r by simp
        then show ?thesis using q sd qc PairPassed by (intro qr_pair_postI [where k = 2]) auto
      qed (use second r finish_qr_pair_stopped finish_qr_pair_not_canceled in \<open>metis pair_outcome.distinct pair_outcome.inject\<close>)+
    qed (use eq 5 second in auto)
  next
    case 3
    show ?thesis
    proof (cases "step_from_observation qr_spec qo qd")
      case (Inr s)
      have "qr_pair_post h (PairStopped [s]) h2"
        by (rule first) (use qr_first_stopped [OF Inr 3(3)] in auto)
      then show ?thesis using eq 3 Inr by simp
    qed (use eq 3 first in auto)
  qed (use eq first in auto)
qed

section \<open>The primary loop\<close>

text \<open>
  What the lists of primary actions have in common: status actions and status steps correspond,
  and in the terminal suite the QR login is followed by the status that proves it.
\<close>

fun specs_ok :: "suite \<Rightarrow> action_step list \<Rightarrow> bool" where
  "specs_ok st [] = True"
| "specs_ok st (spec # rest) =
     ((spec_action spec = ActionStatusOnline) = (spec_name spec = StepStatusOnline) \<and>
      (spec_action spec = ActionFinalStatus) = (spec_name spec = StepFinalStatusOffline) \<and>
      (st = SuiteTerminalQR \<and> spec_action spec = ActionQRLogin \<longrightarrow>
         spec = qr_spec \<and> rest \<noteq> [] \<and> hd rest = status_spec) \<and>
      specs_ok st rest)"

definition step_passed_named :: "step_name \<Rightarrow> step list \<Rightarrow> bool" where
  "step_passed_named n ss \<longleftrightarrow> list_ex (\<lambda>s. Name s = n \<and> passed s) ss"

lemma step_passed_named_append [simp]:
  "step_passed_named n (xs @ ys) \<longleftrightarrow> step_passed_named n xs \<or> step_passed_named n ys"
  by (simp add: step_passed_named_def)

lemma step_passed_named_passed:
  "list_all passed ss \<Longrightarrow> step_passed_named n ss \<longleftrightarrow> n \<in> Name ` set ss"
  by (induction ss) (auto simp: step_passed_named_def)

definition stopped_at :: "step list \<Rightarrow> bool" where
  "stopped_at ss \<longleftrightarrow> ss \<noteq> [] \<and> list_all passed (butlast ss) \<and> \<not> passed (last ss)"

definition running :: "loop \<Rightarrow> bool" where
  "running l \<longleftrightarrow> primary_complete l \<and> \<not> l_canceled l \<and> l_err l = None"

definition online_proof :: "suite \<Rightarrow> (action \<times> observation) list \<Rightarrow> bool" where
  "online_proof st ex \<longleftrightarrow> list_ex (\<lambda>ao. fst ao = ActionStatusOnline \<and> confirmed st ao) ex"

definition primary_post ::
    "suite \<Rightarrow> action_step list \<Rightarrow> loop \<Rightarrow> history \<Rightarrow> loop \<Rightarrow> history \<Rightarrow> step list \<Rightarrow>
       (action \<times> observation) list \<Rightarrow> bool" where
  "primary_post st specs l h l' h' ss ex \<longleftrightarrow>
     l_steps l' = l_steps l @ ss \<and> exec_log h' = exec_log h @ ex \<and>
     map fst ex = take (length ex) (map spec_action specs) \<and> length ex \<le> length specs \<and>
     map Name ss = take (length ss) (map spec_name specs) \<and> length ss \<le> length specs \<and>
     list_all valid_step ss \<and>
     cleanup_owned l' = (cleanup_owned l \<or> step_passed_named StepStatusOnline ss) \<and>
     final_offline l' = (final_offline l \<or> step_passed_named StepFinalStatusOffline ss) \<and>
     (step_passed_named StepStatusOnline ss \<longrightarrow> online_proof st ex) \<and>
     (if running l' then length ss = length specs \<and> length ex = length specs \<and>
           list_all passed ss \<and> list_all (confirmed st) ex
      else \<not> primary_complete l' \<and>
        (if l_canceled l' \<or> l_err l' \<noteq> None then list_all passed ss else stopped_at ss))"

lemma primary_post_prepend:
  assumes post: "primary_post st rest l1 h1 l' h' ss ex"
    and l1: "l_steps l1 = l_steps l @ ss1"
      "cleanup_owned l1 = (cleanup_owned l \<or> step_passed_named StepStatusOnline ss1)"
      "final_offline l1 = (final_offline l \<or> step_passed_named StepFinalStatusOffline ss1)"
    and h1: "exec_log h1 = exec_log h @ ex1" "map fst ex1 = map spec_action specs1"
    and c: "list_all (confirmed st) ex1"
    and s1: "map Name ss1 = map spec_name specs1" "list_all passed ss1" "list_all valid_step ss1"
    and pr: "step_passed_named StepStatusOnline ss1 \<Longrightarrow> online_proof st ex1"
  shows "primary_post st (specs1 @ rest) l h l' h' (ss1 @ ss) (ex1 @ ex)"
proof -
  have len: "length ex1 = length specs1" "length ss1 = length specs1"
    using h1(2) s1(1) by (metis length_map)+
  have st: "stopped_at ss \<Longrightarrow> stopped_at (ss1 @ ss)"
    using s1 by (auto simp: stopped_at_def butlast_append)
  have op: "online_proof st (ex1 @ ex) \<longleftrightarrow> online_proof st ex1 \<or> online_proof st ex"
    by (simp add: online_proof_def)
  show ?thesis
    using post l1 h1 c s1 pr len st op
    unfolding primary_post_def by (auto split: if_splits)
qed

lemma primary_post_cut:
  assumes "ss = [] \<or> (\<exists>q. ss = [q] \<and> \<not> passed q \<and> valid_step q \<and>
       specs \<noteq> [] \<and> Name q = spec_name (hd specs) \<and> \<not> l_canceled l' \<and> l_err l' = None)"
    and "ss = [] \<Longrightarrow> l_canceled l' \<or> l_err l' \<noteq> None"
    and "exec_log h' = exec_log h @ ex" "map fst ex = take k (map spec_action specs)"
    and "\<not> primary_complete l'" "l_steps l' = l_steps l @ ss"
    and "cleanup_owned l' = cleanup_owned l" "final_offline l' = final_offline l"
  shows "primary_post st specs l h l' h' ss ex"
proof -
  have "length ex = min k (length specs)" using assms(4) by (metis length_map length_take min.commute)
  then have "map fst ex = take (length ex) (map spec_action specs)" "length ex \<le> length specs"
    using assms(4) by (auto simp: min_def)
  moreover from assms(1) have "map Name ss = take (length ss) (map spec_name specs)"
    "length ss \<le> length specs" "list_all valid_step ss"
    "\<not> step_passed_named n ss" for n
    by (cases specs; auto simp: step_passed_named_def)+
  moreover have "ss \<noteq> [] \<Longrightarrow> stopped_at ss \<and> \<not> l_canceled l' \<and> l_err l' = None"
    using assms(1) by (auto simp: stopped_at_def)
  ultimately show ?thesis
    using assms(2-) unfolding primary_post_def running_def by (cases "ss = []") auto
qed

lemma execute_step_log:
  assumes "execute_step w spec h = (res, h')"
  obtains ex k where "exec_log h' = exec_log h @ ex" "map fst ex = take k [spec_action spec]" "k \<le> 1"
  using execute_stepD(1) [OF assms] exec_log_suffixE by metis

lemma primary_post_empty: "running l \<Longrightarrow> primary_post st [] l h l h [] []"
  by (simp add: primary_post_def step_passed_named_def)

lemma run_primary_cancel:
  assumes "running l" "l' = l\<lparr>l_canceled := True, primary_complete := False\<rparr>"
    and "exec_log h' = exec_log h @ ex" "map fst ex = take k (map spec_action specs)"
  shows "\<exists>ss ex. primary_post st specs l h l' h' ss ex"
  by (rule exI [of _ "[]"], rule exI [of _ ex], rule primary_post_cut [where k = k])
    (use assms in \<open>auto simp: running_def\<close>)

lemma run_primary_error:
  assumes "running l" "l' = l\<lparr>primary_complete := False, l_err := Some e\<rparr>"
    and "exec_log h' = exec_log h @ ex" "map fst ex = take k (map spec_action specs)"
  shows "\<exists>ss ex. primary_post st specs l h l' h' ss ex"
  by (rule exI [of _ "[]"], rule exI [of _ ex], rule primary_post_cut [where k = k])
    (use assms in \<open>auto simp: running_def\<close>)

lemma take_Suc_acts: "map fst ex = take k [a] \<Longrightarrow> k \<le> 1 \<Longrightarrow> map fst ex = take k (a # as)"
  by (cases k) auto

text \<open>One turn of the loop, for the QR pair and for a single action; \<open>IH\<close> speaks of the remaining turns.\<close>

definition loop_post :: "world \<Rightarrow> suite \<Rightarrow> action_step list \<Rightarrow> bool" where
  "loop_post w st specs \<longleftrightarrow>
     (\<forall>l h l' h'. running l \<longrightarrow> run_primary w st specs l h = (l', h') \<longrightarrow>
        (\<exists>ss ex. primary_post st specs l h l' h' ss ex))"

lemma loop_postD:
  "loop_post w st specs \<Longrightarrow> running l \<Longrightarrow> run_primary w st specs l h = (l', h') \<Longrightarrow>
     \<exists>ss ex. primary_post st specs l h l' h' ss ex"
  unfolding loop_post_def by blast

lemma qr_pair_passed_post:
  assumes IH: "loop_post w st rest" and st: "st = SuiteTerminalQR" and run: "running l"
    and eq: "run_primary w st rest (l\<lparr>l_steps := l_steps l @ ss, cleanup_owned := True\<rparr>) h3 = (l', h')"
    and ex: "exec_log h3 = exec_log h @ ex" "map fst ex = [ActionQRLogin, ActionStatusOnline]"
      "list_all (confirmed SuiteTerminalQR) ex"
    and ss: "ss = [q, s]" "Name q = StepQRLoginLoggedIn" "Name s = StepStatusOnline"
      "list_all passed ss" "list_all valid_step ss"
  shows "\<exists>ss ex. primary_post st (qr_spec # status_spec # rest) l h l' h' ss ex"
proof -
  let ?l1 = "l\<lparr>l_steps := l_steps l @ ss, cleanup_owned := True\<rparr>"
  have "running ?l1" using run by (simp add: running_def)
  then obtain ss2 ex2 where p2: "primary_post st rest ?l1 h3 l' h' ss2 ex2"
    using loop_postD [OF IH _ eq] by blast
  have "online_proof st ex"
    using ex(2,3) st by (auto simp: online_proof_def map_eq_Cons_conv)
  then have "primary_post st ([qr_spec, status_spec] @ rest) l h l' h' (ss @ ss2) (ex @ ex2)"
    using ex ss st
    by (intro primary_post_prepend [OF p2])
      (simp_all add: step_passed_named_def qr_spec_def status_spec_def)
  then show ?thesis by auto
qed

lemma run_primary_pair:
  assumes IH: "loop_post w st rest" and st: "st = SuiteTerminalQR" and run: "running l"
    and nc: "ctx_err w h = (False, h1)"
    and eq: "run_primary w st (qr_spec # status_spec # rest) l h = (l', h')"
  shows "\<exists>ss ex. primary_post st (qr_spec # status_spec # rest) l h l' h' ss ex"
proof -
  let ?specs = "qr_spec # status_spec # rest"
  obtain pair h2 where p: "execute_qr_pair w h1 = (pair, h2)" by (metis surj_pair)
  obtain c2 h3 where c2: "(if pair = PairCanceled then (True, h2) else ctx_err w h2) = (c2, h3)"
    by (metis surj_pair)
  have logs: "exec_log h1 = exec_log h" "exec_log h3 = exec_log h2"
    using ctx_errD [OF nc] c2 ctx_errD [of w h2] by (auto split: if_splits)
  obtain ex k where ex: "exec_log h3 = exec_log h @ ex"
      "map fst ex = take k [ActionQRLogin, ActionStatusOnline]"
    and post: "case pair of
           PairStopped ss \<Rightarrow>
             \<exists>q. ss = [q] \<and> Name q = StepQRLoginLoggedIn \<and> \<not> passed q \<and> valid_step q
         | PairPassed ss \<Rightarrow> k = 2 \<and> list_all (confirmed SuiteTerminalQR) ex \<and>
             (\<exists>q s. ss = [q, s] \<and> Name q = StepQRLoginLoggedIn \<and> Name s = StepStatusOnline \<and>
                list_all passed ss \<and> list_all valid_step ss)
         | _ \<Rightarrow> True"
    using execute_qr_pair_post [OF p] logs unfolding qr_pair_post_def by auto
  have exk: "map fst ex = take (min k 2) (map spec_action ?specs)"
    using ex(2) by (cases k rule: nat.exhaust; cases "k - 1") (auto simp: qr_spec_def status_spec_def)
  have act: "spec_action qr_spec = ActionQRLogin" by (simp add: qr_spec_def)
  note eq' = eq [simplified run_primary.simps nc Let_def prod.case p c2 st act]
  show ?thesis
  proof (cases "c2 \<or> pair = PairCanceled")
    case True
    then have "l' = l\<lparr>l_canceled := True, primary_complete := False\<rparr>" "h' = h3"
      using eq' c2 by (auto split: if_splits)
    then show ?thesis using run_primary_cancel [OF run _ _ exk] ex(1) by blast
  next
    case False
    show ?thesis
    proof (cases pair)
      case (PairError e)
      then have "l' = l\<lparr>primary_complete := False, l_err := Some e\<rparr>" "h' = h3"
        using eq' False c2 by auto
      then show ?thesis using run_primary_error [OF run _ _ exk] ex(1) by blast
    next
      case (PairStopped ss)
      then have "l' = l\<lparr>l_steps := l_steps l @ ss, primary_complete := False\<rparr>" "h' = h3"
        using eq' False c2 by auto
      moreover obtain q where "ss = [q]" "Name q = StepQRLoginLoggedIn" "\<not> passed q" "valid_step q"
        using post PairStopped by auto
      ultimately show ?thesis
        using run ex(1) exk
        by (intro exI [of _ ss] exI [of _ ex] primary_post_cut [where k = "min k 2"])
          (simp_all add: running_def qr_spec_def)
    next
      case (PairPassed ss)
      then have "run_primary w st rest (l\<lparr>l_steps := l_steps l @ ss, cleanup_owned := True\<rparr>) h3 = (l', h')"
        using eq' False c2 st by auto
      then show ?thesis
        using post PairPassed ex
        by (auto intro!: qr_pair_passed_post [OF IH st run _ ex(1)])
    qed (use False in simp)
  qed
qed

lemma run_primary_single:
  assumes IH: "loop_post w st rest" and run: "running l" and ok: "specs_ok st (spec # rest)"
    and nc: "ctx_err w h = (False, h1)"
    and nqr: "\<not> (st = SuiteTerminalQR \<and> spec_action spec = ActionQRLogin)"
    and eq: "run_primary w st (spec # rest) l h = (l', h')"
  shows "\<exists>ss ex. primary_post st (spec # rest) l h l' h' ss ex"
proof -
  let ?specs = "spec # rest"
  obtain res h2 where x: "execute_step w spec h1 = (res, h2)" by (metis surj_pair)
  obtain c2 h3 where c2: "ctx_err w h2 = (c2, h3)" by (metis surj_pair)
  have logs: "exec_log h1 = exec_log h" "exec_log h3 = exec_log h2"
    using ctx_errD [OF nc] ctx_errD [OF c2] by auto
  obtain ex k where ex: "exec_log h3 = exec_log h @ ex" "map fst ex = take k [spec_action spec]" "k \<le> 1"
    using execute_step_log [OF x] logs by metis
  have exk: "map fst ex = take k (map spec_action ?specs)" using take_Suc_acts [OF ex(2,3)] by simp
  note eq' = eq [simplified run_primary.simps nc Let_def prod.case x c2]
  show ?thesis
  proof (cases "c2")
    case True
    then have "l' = l\<lparr>l_canceled := True, primary_complete := False\<rparr>" "h' = h3"
      using eq' nqr by auto
    then show ?thesis using run_primary_cancel [OF run _ _ exk] ex(1) by blast
  next
    case False
    then have "EvCtx True \<notin> set h2" using ctx_errD [OF c2] by auto
    from execute_stepD(2) [OF x this] obtain obs where
      obs: "exec_log h3 = exec_log h @ [(spec_action spec, obs)]"
        "\<And>s. res = Inr s \<Longrightarrow> Name s = spec_name spec \<and> valid_step s \<and> (passed s \<longrightarrow>
           confirmed st (spec_action spec, obs))"
      using nqr logs unfolding valid_step_def confirmed_def by auto
    show ?thesis
    proof (cases res)
      case (Inl e)
      then have "l' = l\<lparr>primary_complete := False, l_err := Some e\<rparr>" "h' = h3"
        using eq' nqr False by auto
      then show ?thesis using run_primary_error [OF run _ _ exk] ex(1) by blast
    next
      case (Inr s)
      let ?l1 = "l\<lparr>l_steps := l_steps l @ [s],
         cleanup_owned := cleanup_owned l \<or> (spec_action spec = ActionStatusOnline \<and> passed s),
         final_offline := final_offline l \<or> (spec_action spec = ActionFinalStatus \<and> passed s)\<rparr>"
      note s = obs(2) [OF Inr]
      show ?thesis
      proof (cases "passed s")
        case np: False
        then have "l' = ?l1\<lparr>primary_complete := False\<rparr>" "h' = h3" using eq' nqr Inr False by auto
        then show ?thesis
          using run ex(1) exk s np
          by (intro exI [of _ "[s]"] exI [of _ ex] primary_post_cut [where k = k])
            (auto simp: running_def)
      next
        case True
        have "run_primary w st rest ?l1 h3 = (l', h')" using eq' nqr Inr False True by simp
        moreover have "running ?l1" using run by (simp add: running_def)
        ultimately obtain ss2 ex2 where p2: "primary_post st rest ?l1 h3 l' h' ss2 ex2"
          using loop_postD [OF IH] by blast
        have "primary_post st ([spec] @ rest) l h l' h' ([s] @ ss2) ([(spec_action spec, obs)] @ ex2)"
          using obs(1) s True ok
          by (intro primary_post_prepend [OF p2]) (auto simp: step_passed_named_def online_proof_def)
        then show ?thesis by auto
      qed
    qed
  qed
qed

lemma run_primary_loop_post: "specs_ok st specs \<Longrightarrow> loop_post w st specs"
proof (induction specs rule: length_induct)
  case (1 specs)
  show ?case unfolding loop_post_def
  proof (intro allI impI)
    fix l h l' h' assume run: "running l" and eq: "run_primary w st specs l h = (l', h')"
    show "\<exists>ss ex. primary_post st specs l h l' h' ss ex"
    proof (cases specs)
      case Nil
      then show ?thesis using eq run primary_post_empty by fastforce
    next
      case (Cons spec rest)
      obtain c h1 where c: "ctx_err w h = (c, h1)" by (metis surj_pair)
      show ?thesis
      proof (cases "c")
        case True
        then have "l' = l\<lparr>l_canceled := True, primary_complete := False\<rparr>" "h' = h1"
          using eq Cons c by auto
        then show ?thesis
          using run_primary_cancel [OF run, of l' h' h "[]" 0 specs st] ctx_errD [OF c] by simp
      next
        case False
        then have nc: "ctx_err w h = (False, h1)" using c by simp
        show ?thesis
        proof (cases "st = SuiteTerminalQR \<and> spec_action spec = ActionQRLogin")
          case True
          then obtain rest' where r: "specs = qr_spec # status_spec # rest'"
            using "1.prems" Cons by (cases rest) auto
          then have "loop_post w st rest'" using 1 by auto
          then show ?thesis using run_primary_pair True run nc eq r by blast
        next
          case nqr: False
          have "loop_post w st rest" using 1 Cons by auto
          then show ?thesis using run_primary_single nqr run nc eq Cons "1.prems" by blast
        qed
      qed
    qed
  qed
qed

section \<open>The cleanup\<close>

fun cleanup_log :: "history \<Rightarrow> action list" where
  "cleanup_log [] = []"
| "cleanup_log (e # h) = cleanup_log h @ (case e of EvCleanupContext a \<Rightarrow> [a] | _ \<Rightarrow> [])"

definition no_deadline :: "history \<Rightarrow> bool" where
  "no_deadline h \<longleftrightarrow> EvDeadline True \<notin> set h"

lemma observe_cleanup_actionD:
  assumes "observe_cleanup_action w t a h = ((obs, d), h')"
  shows "cleanup_log h' = cleanup_log h"
    and "\<exists>ex. exec_log h' = exec_log h @ ex \<and> map fst ex = take (length ex) [a] \<and>
           (no_deadline h' \<longrightarrow> map fst ex = [a])"
    and "set h \<subseteq> set h'"
  using assms
  by (auto simp: observe_cleanup_action_def ask_now_def deadline_exceeded_def exec_action_def
      Let_def no_deadline_def split: if_splits)

lemma execute_cleanup_stepD:
  assumes "execute_cleanup_step w t spec h = (res, h')"
  shows "cleanup_log h' = cleanup_log h"
    and "\<exists>ex. exec_log h' = exec_log h @ ex \<and> map fst ex = take (length ex) [spec_action spec] \<and>
           (no_deadline h' \<longrightarrow> map fst ex = [spec_action spec])"
    and "set h \<subseteq> set h'"
    and "res = Inr s \<Longrightarrow> Name s = spec_name spec \<and> valid_step s"
proof -
  obtain obs d where o: "observe_cleanup_action w t (spec_action spec) h = ((obs, d), h')"
    and r: "res = (if RunnerFault obs then Inl ErrCommandRunnerFault
                   else step_from_observation spec obs d)"
    using assms by (auto simp: execute_cleanup_step_def Let_def split: prod.splits)
  show "cleanup_log h' = cleanup_log h" "set h \<subseteq> set h'"
    "\<exists>ex. exec_log h' = exec_log h @ ex \<and> map fst ex = take (length ex) [spec_action spec] \<and>
           (no_deadline h' \<longrightarrow> map fst ex = [spec_action spec])"
    using observe_cleanup_actionD [OF o] by blast+
  show "res = Inr s \<Longrightarrow> Name s = spec_name spec \<and> valid_step s"
    using r by (auto dest: step_from_observationD simp: valid_step_def split: if_splits)
qed

text \<open>
  Every cleanup command is attempted, under a context of its own, whatever became of the one
  before; the commands executed are a subset of them, all of them unless a deadline was exceeded.
\<close>

definition cleanup_post ::
    "action_step list \<Rightarrow> loop \<Rightarrow> history \<Rightarrow> loop \<Rightarrow> history \<Rightarrow> step list \<Rightarrow>
       (action \<times> observation) list \<Rightarrow> bool" where
  "cleanup_post specs l h l' h' ss ex \<longleftrightarrow>
     l_steps l' = l_steps l @ ss \<and> list_all valid_step ss \<and>
     exec_log h' = exec_log h @ ex \<and> subseq (map fst ex) (map spec_action specs) \<and>
     (no_deadline h' \<longrightarrow> map fst ex = map spec_action specs) \<and>
     cleanup_log h' = cleanup_log h @ map spec_action specs \<and> set h \<subseteq> set h' \<and>
     primary_complete l' = primary_complete l \<and> l_canceled l' = l_canceled l \<and>
     (l_err l \<noteq> None \<longrightarrow> l_err l' = l_err l) \<and>
     set (map Name ss) \<subseteq> set (map spec_name specs) \<and>
     (l_err l' = None \<longrightarrow> map Name ss = map spec_name specs)"

lemma run_cleanup_post:
  "run_cleanup w t specs l h = (l', h') \<Longrightarrow> \<exists>ss ex. cleanup_post specs l h l' h' ss ex"
proof (induction specs arbitrary: l h)
  case Nil
  then show ?case by (intro exI [of _ "[]"]) (auto simp: cleanup_post_def)
next
  case (Cons spec rest)
  let ?a = "spec_action spec"
  obtain res h1 where x: "execute_cleanup_step w t spec (EvCleanupContext ?a # h) = (res, h1)"
    by (metis surj_pair)
  obtain ex1 where e1: "exec_log h1 = exec_log h @ ex1" "map fst ex1 = take (length ex1) [?a]"
      "no_deadline h1 \<longrightarrow> map fst ex1 = [?a]"
    using execute_cleanup_stepD(2) [OF x] by auto
  then have sub: "subseq (map fst ex1) [?a]" by (metis list_emb_Nil list_emb_prefix list_emb_refl append_take_drop_id)
  have log: "cleanup_log h1 = cleanup_log h @ [?a]" "set h \<subseteq> set h1"
    using execute_cleanup_stepD(1,3) [OF x] by auto
  define l1 where "l1 = (case res of
      Inl e \<Rightarrow> (if l_err l = None then l\<lparr>l_err := Some e\<rparr> else l)
    | Inr s \<Rightarrow> l\<lparr>l_steps := l_steps l @ [s]\<rparr>)"
  define ss1 where "ss1 = (case res of Inl e \<Rightarrow> [] | Inr s \<Rightarrow> [s])"
  have "run_cleanup w t rest l1 h1 = (l', h')"
    using Cons.prems x by (auto simp: l1_def Let_def split: sum.splits)
  then obtain ss2 ex2 where p: "cleanup_post rest l1 h1 l' h' ss2 ex2" using Cons.IH by blast
  have nd: "no_deadline h' \<Longrightarrow> no_deadline h1"
    using p by (auto simp: cleanup_post_def no_deadline_def)
  have sub2: "subseq (map fst (ex1 @ ex2)) (map spec_action (spec # rest))"
    using list_emb_append_mono [OF sub, of "map fst ex2" "map spec_action rest"] p
    by (simp add: cleanup_post_def)
  have ss1: "list_all valid_step ss1" "res = Inr s \<Longrightarrow> map Name ss1 = [spec_name spec]" for s
    using execute_cleanup_stepD(4) [OF x] by (auto simp: ss1_def split: sum.splits)
  have "cleanup_post (spec # rest) l h l' h' (ss1 @ ss2) (ex1 @ ex2)"
  proof (cases res)
    case (Inl e)
    then show ?thesis
      using p e1 log nd sub2 by (auto simp: cleanup_post_def l1_def ss1_def)
  next
    case (Inr s)
    then show ?thesis
      using p e1 log nd sub2 ss1 by (auto simp: cleanup_post_def l1_def ss1_def)
  qed
  then show ?case by blast
qed

text \<open>The primary loop opens no cleanup context.\<close>

lemma observe_action_quiet: "observe_action w a h = (x, h') \<Longrightarrow> cleanup_log h' = cleanup_log h"
  by (auto simp: observe_action_def ask_now_def ctx_err_def exec_action_def Let_def split: if_splits)

lemma ctx_err_quiet: "ctx_err w h = (c, h') \<Longrightarrow> cleanup_log h' = cleanup_log h"
  by (auto simp: ctx_err_def Let_def)

lemma execute_step_quiet: "execute_step w spec h = (x, h') \<Longrightarrow> cleanup_log h' = cleanup_log h"
  by (auto simp: execute_step_def Let_def split: prod.splits dest: observe_action_quiet)

lemma execute_qr_pair_quiet: "execute_qr_pair w h = (x, h') \<Longrightarrow> cleanup_log h' = cleanup_log h"
  by (auto simp: execute_qr_pair_def Let_def split: prod.splits if_splits sum.splits
      dest!: observe_action_quiet ctx_err_quiet)

lemmas quiet = ctx_err_quiet execute_step_quiet execute_qr_pair_quiet

lemma run_primary_quiet: "run_primary w st specs l h = (l', h') \<Longrightarrow> cleanup_log h' = cleanup_log h"
proof (induction specs arbitrary: st l h rule: length_induct)
  case (1 specs)
  show ?case
  proof (cases specs)
    case (Cons spec rest)
    then have "length rest < length specs" "length (drop (Suc 0) rest) < length specs" by auto
    then have IH: "run_primary w st1 rest l1 h1 = (l', h') \<Longrightarrow> cleanup_log h' = cleanup_log h1"
      "run_primary w st1 (drop (Suc 0) rest) l1 h1 = (l', h') \<Longrightarrow> cleanup_log h' = cleanup_log h1" for st1 l1 h1
      using 1(1) by blast+
    show ?thesis
      using 1(2) unfolding Cons
      by (auto simp: Let_def split: prod.splits if_splits sum.splits pair_outcome.splits
          dest!: quiet IH)
  qed (use 1(2) in simp)
qed

section \<open>The run\<close>

lemma primary_actions_ok: "primary_actions st = Some primary \<Longrightarrow> specs_ok st primary"
  by (cases st)
    (auto simp: primary_actions_def passwordPrimaryActions_def terminalQRPrimaryActions_def
      qr_spec_def status_spec_def)

lemma primary_actions_names:
  "primary_actions st = Some primary \<Longrightarrow> primary_steps st = Some (map spec_name primary)"
  by (cases st)
    (auto simp: primary_actions_def primary_steps_def passwordPrimaryActions_def
      terminalQRPrimaryActions_def passwordPrimarySteps_def terminalQRPrimarySteps_def)

text \<open>A run is refused at once, or is the primary loop followed by the cleanup when it is due.\<close>

lemma run_cases:
  assumes "run ctx sm w st h = (r, h')"
  obtains (refused) e where "r = \<lparr>r_steps = [], r_result = ResultBlocked, r_canceled = False, r_err = Some e\<rparr>"
      "h' = h"
  | (ran) primary l h1 ss ex l2 where "primary_actions st = Some primary"
      "primary_post st primary init_loop h l h1 ss ex" "cleanup_log h1 = cleanup_log h"
      "if cleanup_due l then run_cleanup w (run_timeout sm) cleanupActions l h1 = (l2, h')
       else l2 = l \<and> h' = h1"
      "r = finish_run l2"
proof (cases "ctx \<and> executor_set sm \<and> primary_actions st \<noteq> None")
  case False
  then show ?thesis using assms refused by (auto simp: run_def split: if_splits)
next
  case True
  then obtain primary where pr: "primary_actions st = Some primary" by blast
  obtain l h1 where l: "run_primary w st primary init_loop h = (l, h1)" by (metis surj_pair)
  have "running init_loop" by (simp add: running_def init_loop_def)
  then obtain ss ex where "primary_post st primary init_loop h l h1 ss ex"
    using loop_postD [OF run_primary_loop_post [OF primary_actions_ok [OF pr]] _ l] by blast
  moreover note run_primary_quiet [OF l]
  moreover obtain l2 h2 where l2: "(if cleanup_due l
      then run_cleanup w (run_timeout sm) cleanupActions l h1 else (l, h1)) = (l2, h2)"
    by (metis surj_pair)
  moreover have "r = finish_run l2 \<and> h' = h2"
    using assms True pr l l2 by (auto simp: run_def Let_def run_timeout_def split: prod.splits)
  ultimately show ?thesis using ran pr by (metis prod.inject)
qed

lemma stopped_at_sequence:
  assumes "stopped_at ss1" "map Name ss1 = take (length ss1) names"
    and "map Name rest =
      (if step_passed_named StepStatusOnline ss1 \<and> \<not> step_passed_named StepFinalStatusOffline ss1
       then [StepCleanupLogout, StepCleanupStatusOffline] else [])"
  shows "stopped_sequence names (ss1 @ rest)"
proof -
  obtain pre bad where s: "ss1 = pre @ [bad]" "list_all passed pre" "\<not> passed bad"
    using assms(1) unfolding stopped_at_def by (metis append_butlast_last_id)
  then have "step_passed_named n ss1 \<longleftrightarrow> n \<in> Name ` set pre" for n
    by (simp add: step_passed_named_passed) (simp add: step_passed_named_def)
  then have "map Name rest =
      (if cleanup_needed pre then [StepCleanupLogout, StepCleanupStatusOffline] else [])"
    using assms(3) by (simp add: cleanup_needed_def)
  then show ?thesis
    using s assms(2) unfolding stopped_sequence_def by (intro exI [of _ pre] exI [of _ bad] exI [of _ rest]) simp
qed

lemma cleanup_names: "map spec_name cleanupActions = [StepCleanupLogout, StepCleanupStatusOffline]"
  "map spec_action cleanupActions = [ActionCleanupLogout, ActionCleanupStatus]"
  by (simp_all add: cleanupActions_def)

lemma finish_run_running: "r_result (finish_run l) = ResultPass \<longleftrightarrow> running l"
  using derived_result_cases [of "l_steps l"] by (auto simp: finish_run_def running_def)

lemma finish_run_quiet:
  "r_err (finish_run l) = None \<Longrightarrow> \<not> r_canceled (finish_run l) \<Longrightarrow> l_err l = None \<and> \<not> l_canceled l"
  by (auto simp: finish_run_def split: if_splits)

lemma list_all_valid: "list_all valid_step ss \<longleftrightarrow> list_all (\<lambda>s. step_validate s = None) ss"
  by (simp add: valid_step_def [abs_def])

lemma run_sequence_contract:
  assumes run: "run ctx sm w st h = (r, h')" and ok: "r_err r = None" "\<not> r_canceled r"
  shows "sequence_contract st (r_result r) (r_steps r)"
  using run
proof (cases rule: run_cases)
  case (refused e)
  then show ?thesis using ok by simp
next
  case (ran primary l h1 ss ex l2)
  note names = primary_actions_names [OF ran(1)]
  have q: "l_err l2 = None \<and> \<not> l_canceled l2" using finish_run_quiet ok ran(5) by simp
  note post = ran(2) [unfolded primary_post_def]
  show ?thesis
  proof (cases "running l")
    case True
    then have "l2 = l" using ran(4) by (simp add: cleanup_due_def running_def)
    then show ?thesis
      using post True ran(5) names
      by (auto simp: sequence_contract_def finish_run_def running_def list_all_valid init_loop_def)
  next
    case False
    obtain cs where cs: "l_steps l2 = l_steps l @ cs" "list_all valid_step cs"
        "l_err l = None" "\<not> l_canceled l" "\<not> primary_complete l2"
        "map Name cs = (if cleanup_due l then map spec_name cleanupActions else [])"
    proof (cases "cleanup_due l")
      case True
      then obtain cs ex2 where c: "cleanup_post cleanupActions l h1 l2 h' cs ex2"
        using ran(4) run_cleanup_post by (metis (full_types))
      then show ?thesis
        using that [of cs] True post False q by (auto simp: cleanup_post_def)
    next
      case nd: False
      then show ?thesis using that [of "[]"] ran(4) post False q by auto
    qed
    have due: "cleanup_due l \<longleftrightarrow>
        step_passed_named StepStatusOnline ss \<and> \<not> step_passed_named StepFinalStatusOffline ss"
      using post cs False by (auto simp: cleanup_due_def init_loop_def)
    have "stopped_sequence (map spec_name primary) (ss @ cs)"
      by (rule stopped_at_sequence) (use post False cs due cleanup_names in auto)
    then show ?thesis
      using post cs False names ran(5) derived_result_cases [of "ss @ cs"]
      by (auto simp: sequence_contract_def finish_run_def list_all_valid init_loop_def q)
  qed
qed

text \<open>C1: the evidence a run produces is always accepted by the evidence validation: when
  \<open>StateMachine.Run\<close> ends without an error and without being canceled, \<open>validateStepSequence\<close> accepts
  its suite, result and steps, whatever the commands, the clock and the contexts answered.\<close>

theorem run_yields_valid_sequence:
  assumes "run ctx sm w st h = (r, h')" and "r_err r = None" and "\<not> r_canceled r"
  shows "validate_step_sequence st (r_result r) (r_steps r) = None"
  using run_sequence_contract [OF assms] by (simp add: validate_step_sequence_iff)

lemma run_pass_steps:
  assumes "run ctx sm w st [] = (r, h)" and "r_result r = ResultPass"
  shows "\<exists>primary. primary_actions st = Some primary \<and>
           map fst (exec_log h) = map spec_action primary \<and> list_all (confirmed st) (exec_log h) \<and>
           r_err r = None \<and> \<not> r_canceled r"
  using assms(1)
proof (cases rule: run_cases)
  case (refused e)
  then show ?thesis using assms(2) by simp
next
  case (ran primary l h1 ss ex l2)
  have r2: "running l2" using assms(2) ran(5) finish_run_running by simp
  have r1: "running l"
  proof (cases "cleanup_due l")
    case True
    then obtain cs ex2 where "cleanup_post cleanupActions l h1 l2 h cs ex2"
      using ran(4) run_cleanup_post by (metis (full_types))
    then show ?thesis using r2 by (auto simp: cleanup_post_def running_def)
  qed (use ran(4) r2 in simp)
  then have "l2 = l" "h = h1" using ran(4) by (auto simp: cleanup_due_def running_def)
  then show ?thesis
    using ran(1,2,5) r1 by (auto simp: primary_post_def finish_run_def running_def)
qed

text \<open>C2: a run passes only on proof.  When the result is \<open>pass\<close>, the commands executed are exactly
  the primary actions of the suite, in order and once each, every one of them observed as the
  success of its step, and there is neither an error nor a cancellation.\<close>

theorem run_pass_proves_every_step:
  assumes "run ctx sm w st [] = (r, h)" and "r_result r = ResultPass"
  shows "\<exists>primary. primary_actions st = Some primary \<and>
           map fst (exec_log h) = map spec_action primary \<and> list_all (confirmed st) (exec_log h) \<and>
           r_err r = None \<and> \<not> r_canceled r"
  by (rule run_pass_steps [OF assms])

lemma step_passed_named_names: "step_passed_named n ss \<Longrightarrow> n \<in> Name ` set ss"
  by (induction ss) (auto simp: step_passed_named_def)

text \<open>
  The whole course of a run: a prefix of the primary actions, then, when the session was proved
  online and not proved offline again, the cleanup.
\<close>

lemma run_course:
  assumes "run ctx sm w st [] = (r, h)"
  obtains ex cl where "exec_log h = ex @ cl" "subseq (map fst cl) [ActionCleanupLogout, ActionCleanupStatus]"
    "\<exists>primary. (primary_actions st = Some primary \<or> primary = []) \<and>
        map fst ex = take (length ex) (map spec_action primary)"
    "if step_passed_named StepStatusOnline (r_steps r) \<and>
        \<not> step_passed_named StepFinalStatusOffline (r_steps r)
     then cleanup_log h = [ActionCleanupLogout, ActionCleanupStatus] \<and> online_proof st ex \<and>
          (no_deadline h \<longrightarrow> map fst cl = [ActionCleanupLogout, ActionCleanupStatus])
     else cl = [] \<and> cleanup_log h = []"
  using assms
proof (cases rule: run_cases)
  case (refused e)
  then show ?thesis by (intro that [of "[]" "[]"]) (auto simp: step_passed_named_def)
next
  case (ran primary l h1 ss ex l2)
  note post = ran(2) [unfolded primary_post_def]
  have steps: "r_steps r = l_steps l2" using ran(5) by (simp add: finish_run_def)
  have pre: "\<exists>primary. (primary_actions st = Some primary \<or> primary = []) \<and>
        map fst ex = take (length ex) (map spec_action primary)"
    using ran(1) post by blast
  show ?thesis
  proof (cases "cleanup_due l")
    case True
    then obtain cs cl where c: "cleanup_post cleanupActions l h1 l2 h cs cl"
      using ran(4) run_cleanup_post by (metis (full_types))
    then have "\<not> step_passed_named n cs" if "n \<notin> {StepCleanupLogout, StepCleanupStatusOffline}" for n
      using that step_passed_named_names [of n cs] cleanup_names by (auto simp: cleanup_post_def)
    then show ?thesis
      using True post c pre steps cleanup_names ran(3)
      by (intro that [of ex cl]) (auto simp: cleanup_post_def cleanup_due_def init_loop_def)
  next
    case False
    have all: "running l \<Longrightarrow> step_passed_named StepFinalStatusOffline ss"
      using post ran(1) by (cases st) (auto simp: step_passed_named_passed primary_actions_def
          passwordPrimaryActions_def terminalQRPrimaryActions_def simp flip: set_map)
    have "\<not> (step_passed_named StepStatusOnline ss \<and> \<not> step_passed_named StepFinalStatusOffline ss)"
      using False post all by (auto simp: cleanup_due_def init_loop_def split: if_splits)
    then show ?thesis
      using False ran(3,4) post pre steps by (intro that [of ex "[]"]) (auto simp: init_loop_def)
  qed
qed

text \<open>C3: an account the gate has proved online is always logged out again.  When a passed
  \<open>status_online\<close> step is among the steps and no passed \<open>final_status_offline\<close> step is, the cleanup
  logout and the cleanup status were both attempted in this order, each under a fresh context, also
  when the run was canceled or failed; unless a cleanup deadline ran out they were executed, as the
  last two commands.\<close>

theorem run_cleans_up:
  assumes "run ctx sm w st [] = (r, h)"
    and "step_passed_named StepStatusOnline (r_steps r)"
    and "\<not> step_passed_named StepFinalStatusOffline (r_steps r)"
  shows "cleanup_log h = [ActionCleanupLogout, ActionCleanupStatus] \<and>
    (no_deadline h \<longrightarrow>
       (\<exists>ex. map fst (exec_log h) = ex @ [ActionCleanupLogout, ActionCleanupStatus]))"
  using assms(1) by (rule run_course) (use assms(2,3) in auto)

text \<open>C4: the gate runs no command out of order.  The commands executed are a prefix of the primary
  actions of the suite followed by some of the two cleanup commands in order, and a cleanup command
  is executed only after a status command has proved the expected identity online.\<close>

theorem run_executes_in_order:
  assumes "run ctx sm w st [] = (r, h)"
  shows "\<exists>primary ex cl. (primary_actions st = Some primary \<or> primary = []) \<and>
           exec_log h = ex @ cl \<and> map fst ex = take (length ex) (map spec_action primary) \<and>
           subseq (map fst cl) [ActionCleanupLogout, ActionCleanupStatus] \<and>
           (cl = [] \<or> list_ex (\<lambda>ao. fst ao = ActionStatusOnline \<and> confirmed st ao) ex)"
  using assms
proof (rule run_course)
  fix ex cl
  assume *: "exec_log h = ex @ cl" "subseq (map fst cl) [ActionCleanupLogout, ActionCleanupStatus]"
    "\<exists>primary. (primary_actions st = Some primary \<or> primary = []) \<and>
        map fst ex = take (length ex) (map spec_action primary)"
    "if step_passed_named StepStatusOnline (r_steps r) \<and>
        \<not> step_passed_named StepFinalStatusOffline (r_steps r)
     then cleanup_log h = [ActionCleanupLogout, ActionCleanupStatus] \<and> online_proof st ex \<and>
          (no_deadline h \<longrightarrow> map fst cl = [ActionCleanupLogout, ActionCleanupStatus])
     else cl = [] \<and> cleanup_log h = []"
  then have "cl = [] \<or> list_ex (\<lambda>ao. fst ao = ActionStatusOnline \<and> confirmed st ao) ex"
    by (auto simp: online_proof_def split: if_splits)
  with * show ?thesis by blast
qed

section \<open>Runs on concrete inputs\<close>

definition nominal_observation :: "action \<Rightarrow> observation" where
  "nominal_observation a =
     (case a of
        ActionInitialStatus \<Rightarrow> zero_observation\<lparr>Session := SessionOffline\<rparr>
      | ActionPasswordLogin \<Rightarrow>
          zero_observation\<lparr>Session := SessionOnline, OutcomeOf := OutcomeLoggedIn, IdentityMatches := True\<rparr>
      | ActionQRLogin \<Rightarrow> zero_observation
      | ActionStatusOnline \<Rightarrow> zero_observation\<lparr>Session := SessionOnline, IdentityMatches := True\<rparr>
      | ActionSecondPasswordLogin \<Rightarrow>
          zero_observation\<lparr>Session := SessionOnline, OutcomeOf := OutcomeAlreadyOnline, IdentityMatches := True\<rparr>
      | ActionLogout \<Rightarrow> zero_observation\<lparr>Session := SessionOffline, OutcomeOf := OutcomeLoggedOut\<rparr>
      | ActionFinalStatus \<Rightarrow> zero_observation\<lparr>Session := SessionOffline\<rparr>
      | ActionSecondLogout \<Rightarrow>
          zero_observation\<lparr>Session := SessionOffline, OutcomeOf := OutcomeAlreadyOffline\<rparr>
      | ActionCleanupLogout \<Rightarrow>
          zero_observation\<lparr>Session := SessionOffline, OutcomeOf := OutcomeLoggedOut\<rparr>
      | ActionCleanupStatus \<Rightarrow> zero_observation\<lparr>Session := SessionOffline\<rparr>)"

definition nominal_world :: world where
  "nominal_world =
     \<lparr>w_now = (\<lambda>h. int (length h) * 10 ^ 9), w_ctx = (\<lambda>h. False),
      w_exec = (\<lambda>h. nominal_observation), w_deadline = (\<lambda>t h. False)\<rparr>"

text \<open>The network breaks down at the logout of the primary sequence.\<close>

definition broken_world :: world where
  "broken_world = nominal_world\<lparr>w_exec := (\<lambda>h a.
     if a = ActionLogout
     then zero_observation\<lparr>ObsExitCode := CommandExitNetwork, ObsErrorCode := Some ErrorNetwork\<rparr>
     else nominal_observation a)\<rparr>"

definition nominal_machine :: state_machine where
  "nominal_machine = \<lparr>executor_set = True, cleanup_timeout = 0\<rparr>"

abbreviation run_on :: "world \<Rightarrow> suite \<Rightarrow> run_result \<times> history" where
  "run_on w st \<equiv> run True nominal_machine w st []"

lemma nominal_run:
  "r_result (fst (run_on nominal_world SuitePasswordCore)) = ResultPass"
  "r_result (fst (run_on nominal_world SuiteTerminalQR)) = ResultPass"
  by code_simp+

lemma broken_run:
  "r_result (fst (run_on broken_world SuitePasswordCore)) = ResultBlocked"
  "r_err (fst (run_on broken_world SuitePasswordCore)) = None"
  "\<not> r_canceled (fst (run_on broken_world SuitePasswordCore))"
  "step_passed_named StepStatusOnline (r_steps (fst (run_on broken_world SuitePasswordCore)))"
  "\<not> step_passed_named StepFinalStatusOffline (r_steps (fst (run_on broken_world SuitePasswordCore)))"
  by code_simp+

theorem run_yields_valid_sequence_witness:
  "validate_step_sequence SuitePasswordCore
     (r_result (fst (run_on broken_world SuitePasswordCore)))
     (r_steps (fst (run_on broken_world SuitePasswordCore))) = None"
  by (rule run_yields_valid_sequence [OF prod.collapse [symmetric]]) (simp_all add: broken_run)

theorem run_pass_proves_every_step_witness:
  "\<exists>primary. primary_actions SuiteTerminalQR = Some primary \<and>
     map fst (exec_log (snd (run_on nominal_world SuiteTerminalQR))) = map spec_action primary"
  using run_pass_proves_every_step [OF prod.collapse [symmetric] nominal_run(2)] by auto

theorem run_cleans_up_witness:
  "cleanup_log (snd (run_on broken_world SuitePasswordCore)) = [ActionCleanupLogout, ActionCleanupStatus]"
  using run_cleans_up [OF prod.collapse [symmetric] broken_run(4,5)] by simp

theorem run_executes_in_order_witness:
  "\<exists>primary ex cl. (primary_actions SuitePasswordCore = Some primary \<or> primary = []) \<and>
     exec_log (snd (run_on broken_world SuitePasswordCore)) = ex @ cl \<and>
     map fst ex = take (length ex) (map spec_action primary) \<and>
     subseq (map fst cl) [ActionCleanupLogout, ActionCleanupStatus] \<and>
     (cl = [] \<or> list_ex (\<lambda>ao. fst ao = ActionStatusOnline \<and> confirmed SuitePasswordCore ao) ex)"
  by (rule run_executes_in_order [OF prod.collapse [symmetric]])

end
