(* ===== verification/GoJson.thy ===== *)
theory GoJson
  imports GoStrings
begin

text \<open>
  What the components use of \<open>encoding/json\<close>: the strict grammar of the scanner as a parser from
  bytes to a tree that keeps the order of members, duplicate keys and the text of numbers; the
  unquoting of strings with its replacement of invalid UTF-8 and lone surrogates; the nesting
  limit; and the rules by which \<open>json.Unmarshal\<close> stores a value in a Go string or bool.  The parser
  recurses on fuel; a byte of input is worth at most two units, and \<open>json_fuel\<close> shows that it never
  runs out.
\<close>

section \<open>UTF-8\<close>

definition is_cont :: "char \<Rightarrow> bool" where
  "is_cont = in_range 128 191"

text \<open>The length of the encoding at the head of the string, 0 when it is not a valid one.\<close>

definition utf8_len :: "string \<Rightarrow> nat" where
  "utf8_len s =
     (case s of [] \<Rightarrow> 0
      | a # r \<Rightarrow>
          (let n = byte a;
               cont = (\<lambda>i. i < length r \<and> is_cont (r ! i));
               snd_in = (\<lambda>lo hi. r \<noteq> [] \<and> in_range lo hi (hd r))
           in if n < 128 then 1
              else if 194 \<le> n \<and> n \<le> 223 then (if cont 0 then 2 else 0)
              else if n = 224 then (if snd_in 160 191 \<and> cont 1 then 3 else 0)
              else if n = 237 then (if snd_in 128 159 \<and> cont 1 then 3 else 0)
              else if 225 \<le> n \<and> n \<le> 239 then (if cont 0 \<and> cont 1 then 3 else 0)
              else if n = 240 then (if snd_in 144 191 \<and> cont 1 \<and> cont 2 then 4 else 0)
              else if 241 \<le> n \<and> n \<le> 243 then (if cont 0 \<and> cont 1 \<and> cont 2 then 4 else 0)
              else if n = 244 then (if snd_in 128 143 \<and> cont 1 \<and> cont 2 then 4 else 0)
              else 0))"

definition replacement :: string where
  "replacement = [CHR 0xEF, CHR 0xBF, CHR 0xBD]"

definition utf8_encode :: "nat \<Rightarrow> string" where
  "utf8_encode c =
     (if c < 128 then [char_of c]
      else if c < 2048 then [char_of (192 + c div 64), char_of (128 + c mod 64)]
      else if 55296 \<le> c \<and> c \<le> 57343 \<or> 1114111 < c then replacement
      else if c < 65536 then
        [char_of (224 + c div 4096), char_of (128 + c div 64 mod 64), char_of (128 + c mod 64)]
      else [char_of (240 + c div 262144), char_of (128 + c div 4096 mod 64),
            char_of (128 + c div 64 mod 64), char_of (128 + c mod 64)])"

section \<open>Strings and numbers\<close>

definition hex_val :: "char \<Rightarrow> nat option" where
  "hex_val c =
     (if is_digit c then Some (byte c - 48)
      else if in_range 97 102 c then Some (byte c - 87)
      else if in_range 65 70 c then Some (byte c - 55) else None)"

text \<open>The value of the four hexadecimal digits at the head of the string.\<close>

definition hex4 :: "string \<Rightarrow> nat option" where
  "hex4 s =
     (if length s < 4 \<or> list_ex (\<lambda>c. hex_val c = None) (take 4 s) then None
      else Some (foldl (\<lambda>a c. 16 * a + the (hex_val c)) 0 (take 4 s)))"

definition backslash :: char where "backslash = CHR 0x5C"
definition dquote :: char where "dquote = CHR 0x22"

definition escape_char :: "char \<Rightarrow> char option" where
  "escape_char c =
     (if c = dquote \<or> c = backslash \<or> c = CHR ''/'' then Some c
      else if c = CHR ''b'' then Some (CHR 0x08)
      else if c = CHR ''f'' then Some (CHR 0x0C)
      else if c = CHR ''n'' then Some (CHR 0x0A)
      else if c = CHR ''r'' then Some (CHR 0x0D)
      else if c = CHR ''t'' then Some (CHR 0x09) else None)"

text \<open>The second half of a surrogate pair: the escape that follows a high surrogate.\<close>

definition low_surrogate :: "nat \<Rightarrow> string \<Rightarrow> nat option" where
  "low_surrogate hi s =
     (case s of a # b # r \<Rightarrow>
        (if a = backslash \<and> b = CHR ''u'' \<and> 55296 \<le> hi \<and> hi < 56320 then
           (case hex4 r of Some lo \<Rightarrow>
              if 56320 \<le> lo \<and> lo < 57344
              then Some ((hi - 55296) * 1024 + (lo - 56320) + 65536) else None
            | None \<Rightarrow> None)
         else None)
      | _ \<Rightarrow> None)"

definition prepend :: "string \<Rightarrow> (string \<times> string) option \<Rightarrow> (string \<times> string) option" where
  "prepend p o' = (case o' of None \<Rightarrow> None | Some (s, r) \<Rightarrow> Some (p @ s, r))"

text \<open>The contents of a string literal after its opening quote, and what follows the closing one.\<close>

function json_string :: "string \<Rightarrow> (string \<times> string) option" where
  "json_string [] = None"
| "json_string (c # cs) =
     (if c = dquote then Some ([], cs)
      else if byte c < 32 then None
      else if c = backslash then
        (case cs of [] \<Rightarrow> None
         | e # r \<Rightarrow>
             (case escape_char e of Some d \<Rightarrow> prepend [d] (json_string r)
              | None \<Rightarrow>
                  if e \<noteq> CHR ''u'' then None
                  else (case hex4 r of None \<Rightarrow> None
                    | Some u \<Rightarrow>
                        (case low_surrogate u (drop 4 r) of
                           Some p \<Rightarrow> prepend (utf8_encode p) (json_string (drop 10 r))
                         | None \<Rightarrow> prepend (utf8_encode u) (json_string (drop 4 r))))))
      else (let n = utf8_len (c # cs) in
            if n = 0 then prepend replacement (json_string cs)
            else prepend (take n (c # cs)) (json_string (drop (n - 1) cs))))"
  by pat_completeness auto
termination by (relation "measure length") auto

definition span_digits :: "string \<Rightarrow> string \<times> string" where
  "span_digits s = (takeWhile is_digit s, dropWhile is_digit s)"

text \<open>
  The number literal at the head of the string: sign, integer part without leading zeros, fraction,
  exponent.  Every part is the text it takes and the rest.
\<close>

definition number_sign :: "string \<Rightarrow> string \<times> string" where
  "number_sign s = (if has_prefix s ''-'' then (''-'', drop 1 s) else ('''', s))"

definition number_whole :: "string \<Rightarrow> (string \<times> string) option" where
  "number_whole s =
     (if has_prefix s ''0'' then Some (''0'', drop 1 s)
      else (case span_digits s of (ds, r) \<Rightarrow> if ds = [] then None else Some (ds, r)))"

definition number_fraction :: "string \<Rightarrow> (string \<times> string) option" where
  "number_fraction s =
     (if has_prefix s ''.'' then
        (case span_digits (drop 1 s) of (ds, r) \<Rightarrow>
           if ds = [] then None else Some (CHR ''.'' # ds, r))
      else Some ('''', s))"

definition number_exponent :: "string \<Rightarrow> (string \<times> string) option" where
  "number_exponent s =
     (if has_prefix s ''e'' \<or> has_prefix s ''E'' then
        (let sg = (if has_prefix (drop 1 s) ''+'' \<or> has_prefix (drop 1 s) ''-'' then 2 else 1) in
         case span_digits (drop sg s) of (ds, r) \<Rightarrow>
           if ds = [] then None else Some (take sg s @ ds, r))
      else Some ('''', s))"

definition json_number :: "string \<Rightarrow> (string \<times> string) option" where
  "json_number s =
     (case number_sign s of (sign, s1) \<Rightarrow>
        (case number_whole s1 of None \<Rightarrow> None
         | Some (whole, s2) \<Rightarrow>
             (case number_fraction s2 of None \<Rightarrow> None
              | Some (frac, s3) \<Rightarrow>
                  (case number_exponent s3 of None \<Rightarrow> None
                   | Some (expo, s4) \<Rightarrow> Some (sign @ whole @ frac @ expo, s4)))))"

section \<open>Values\<close>

datatype json =
    JNull | JBool bool | JNum string | JStr string
  | JArr "json list"
  | JObj "(string \<times> json) list"

datatype 'a pres = PFuel | PBad | POk 'a string

definition is_json_space :: "char \<Rightarrow> bool" where
  "is_json_space c \<longleftrightarrow> byte c \<in> {32, 9, 10, 13}"

definition skip_ws :: "string \<Rightarrow> string" where
  "skip_ws = dropWhile is_json_space"

definition map_pres :: "('a \<Rightarrow> 'b) \<Rightarrow> 'a pres \<Rightarrow> 'b pres" where
  "map_pres f p = (case p of PFuel \<Rightarrow> PFuel | PBad \<Rightarrow> PBad | POk x r \<Rightarrow> POk (f x) r)"

definition json_scalar :: "string \<Rightarrow> json pres" where
  "json_scalar s =
     (if has_prefix s ''null'' then POk JNull (drop 4 s)
      else if has_prefix s ''true'' then POk (JBool True) (drop 4 s)
      else if has_prefix s ''false'' then POk (JBool False) (drop 5 s)
      else if has_prefix s [dquote] then
        (case json_string (drop 1 s) of None \<Rightarrow> PBad | Some (t, r) \<Rightarrow> POk (JStr t) r)
      else (case json_number s of None \<Rightarrow> PBad | Some (t, r) \<Rightarrow> POk (JNum t) r))"

fun json_value :: "nat \<Rightarrow> string \<Rightarrow> json pres"
  and json_members :: "nat \<Rightarrow> string \<Rightarrow> (string \<times> json) list pres"
  and json_elements :: "nat \<Rightarrow> string \<Rightarrow> json list pres"
where
  "json_value 0 s = PFuel"
| "json_value (Suc n) s =
     (case skip_ws s of [] \<Rightarrow> PBad
      | c # cs \<Rightarrow>
          if c = CHR ''{'' then
            (case skip_ws cs of [] \<Rightarrow> PBad
             | d # r \<Rightarrow> if d = CHR ''}'' then POk (JObj []) r
                       else map_pres JObj (json_members n (d # r)))
          else if c = CHR ''['' then
            (case skip_ws cs of [] \<Rightarrow> PBad
             | d # r \<Rightarrow> if d = CHR '']'' then POk (JArr []) r
                       else map_pres JArr (json_elements n (d # r)))
          else json_scalar (c # cs))"
| "json_members 0 s = PFuel"
| "json_members (Suc n) s =
     (case skip_ws s of [] \<Rightarrow> PBad
      | c # cs \<Rightarrow>
          if c \<noteq> dquote then PBad
          else (case json_string cs of None \<Rightarrow> PBad
            | Some (k, r) \<Rightarrow>
                (case skip_ws r of [] \<Rightarrow> PBad
                 | c2 # r2 \<Rightarrow>
                     if c2 \<noteq> CHR '':'' then PBad
                     else (case json_value n r2 of PFuel \<Rightarrow> PFuel | PBad \<Rightarrow> PBad
                       | POk v r3 \<Rightarrow>
                           (case skip_ws r3 of [] \<Rightarrow> PBad
                            | c4 # r4 \<Rightarrow>
                                if c4 = CHR ''}'' then POk [(k, v)] r4
                                else if c4 = CHR '','' then
                                  map_pres (\<lambda>ms. (k, v) # ms) (json_members n r4)
                                else PBad)))))"
| "json_elements 0 s = PFuel"
| "json_elements (Suc n) s =
     (case json_value n s of PFuel \<Rightarrow> PFuel | PBad \<Rightarrow> PBad
      | POk v r \<Rightarrow>
          (case skip_ws r of [] \<Rightarrow> PBad
           | c # r2 \<Rightarrow>
               if c = CHR '']'' then POk [v] r2
               else if c = CHR '','' then map_pres (\<lambda>vs. v # vs) (json_elements n r2)
               else PBad))"

definition json_limit :: "string \<Rightarrow> nat" where
  "json_limit s = 2 * length s + 2"

definition parse_json :: "string \<Rightarrow> json option" where
  "parse_json s =
     (case json_value (json_limit s) s of
        POk v r \<Rightarrow> if skip_ws r = [] then Some v else None
      | _ \<Rightarrow> None)"

section \<open>The fuel is enough\<close>

lemma length_skip_ws: "length (skip_ws s) \<le> length s"
  by (simp add: skip_ws_def length_dropWhile_le)

lemma skip_ws_Cons: "skip_ws s = c # cs \<Longrightarrow> length cs < length s"
  using length_skip_ws [of s] by simp

lemma prepend_Some: "prepend p o' = Some (t, r) \<Longrightarrow> \<exists>t'. o' = Some (t', r)"
  by (auto simp: prepend_def split: option.splits)

lemma json_string_shorter: "json_string s = Some (t, r) \<Longrightarrow> length r < length s"
proof (induction s arbitrary: t r rule: json_string.induct)
  case (2 c cs)
  show ?case
  proof (cases "c = dquote \<or> byte c < 32")
    case True
    then show ?thesis using "2.prems" by (auto split: if_splits)
  next
    case no: False
    show ?thesis
    proof (cases "c = backslash")
      case bs: True
      then obtain e r1 where cs: "cs = e # r1" using "2.prems" no by (auto split: list.splits)
      have IH: "json_string r1 = Some (t', r) \<Longrightarrow> length r < length r1"
        "json_string (drop 10 r1) = Some (t', r) \<Longrightarrow> length r < length r1"
        "json_string (drop 4 r1) = Some (t', r) \<Longrightarrow> length r < length r1" for t'
        using 2(1-3) no bs cs "2.prems" by (fastforce split: option.splits if_splits dest: prepend_Some)+
      show ?thesis
        using "2.prems" no bs cs IH
        by (auto split: option.splits if_splits dest!: prepend_Some)
    next
      case False
      then show ?thesis
        using "2.prems" no 2(4,5)
        by (auto simp: Let_def split: if_splits dest!: prepend_Some) (meson 2 less_Suc_eq less_imp_le_nat less_le_trans diff_le_self length_drop)+
    qed
  qed
qed simp

lemma span_digits_split: "span_digits s = (a, b) \<Longrightarrow> s = a @ b"
  unfolding span_digits_def by (metis Pair_inject takeWhile_dropWhile_id)

lemma number_parts:
  "number_sign s = (t, r) \<Longrightarrow> s = t @ r"
  "number_whole s = Some (t, r) \<Longrightarrow> s = t @ r \<and> t \<noteq> []"
  "number_fraction s = Some (t, r) \<Longrightarrow> s = t @ r"
  by (auto simp: number_sign_def number_whole_def number_fraction_def has_prefix_iff
      split: if_splits prod.splits dest!: span_digits_split)

lemma number_exponent_split: "number_exponent s = Some (t, r) \<Longrightarrow> s = t @ r"
  unfolding number_exponent_def Let_def
  by (auto split: if_splits prod.splits dest!: span_digits_split) (metis append_take_drop_id)+

lemma json_number_split: "json_number s = Some (t, r) \<Longrightarrow> s = t @ r \<and> t \<noteq> []"
  unfolding json_number_def
  by (fastforce split: prod.splits option.splits dest!: number_parts number_exponent_split)

lemma json_number_shorter: "json_number s = Some (t, r) \<Longrightarrow> length r < length s"
  by (auto dest!: json_number_split)

lemma json_scalar_total: "json_scalar s \<noteq> PFuel"
  by (auto simp: json_scalar_def split: option.splits)

lemma json_scalar_shorter: "json_scalar s = POk v r \<Longrightarrow> length r < length s"
  by (auto simp: json_scalar_def has_prefix_iff split: option.splits if_splits
      dest!: json_string_shorter json_number_shorter)

lemma map_pres_simps [simp]:
  "map_pres f p = PFuel \<longleftrightarrow> p = PFuel"
  "map_pres f p = POk y r \<longleftrightarrow> (\<exists>x. p = POk x r \<and> y = f x)"
  by (cases p; auto simp: map_pres_def)+

lemma json_shorter_all:
  "(json_value n s = POk v r \<longrightarrow> length r < length s) \<and>
   (json_members n s = POk ms r \<longrightarrow> length r < length s) \<and>
   (json_elements n s = POk vs r \<longrightarrow> length r < length s)"
proof (induction n arbitrary: s v ms vs r)
  case (Suc n)
  then have IH: "json_value n s = POk v r \<Longrightarrow> length r < length s"
    "json_members n s = POk ms r \<Longrightarrow> length r < length s"
    "json_elements n s = POk vs r \<Longrightarrow> length r < length s" for s v ms vs r by blast+
  have "json_value (Suc n) s = POk v r \<Longrightarrow> length r < length s"
    by (auto split: list.splits if_splits dest!: skip_ws_Cons json_scalar_shorter IH)
  moreover have "json_members (Suc n) s = POk ms r \<Longrightarrow> length r < length s"
    by (auto split: list.splits if_splits option.splits pres.splits
        dest!: skip_ws_Cons json_string_shorter IH)
  moreover have "json_elements (Suc n) s = POk vs r \<Longrightarrow> length r < length s"
    by (auto split: list.splits if_splits pres.splits dest!: skip_ws_Cons IH)
  ultimately show ?case by blast
qed simp

lemmas json_shorter = json_shorter_all [THEN conjunct1, rule_format]
  json_shorter_all [THEN conjunct2, THEN conjunct1, rule_format]
  json_shorter_all [THEN conjunct2, THEN conjunct2, rule_format]

lemma json_fuel:
  "(2 * length s < n \<longrightarrow> json_value n s \<noteq> PFuel) \<and>
   (2 * length s < n \<longrightarrow> json_members n s \<noteq> PFuel) \<and>
   (2 * length s + 1 < n \<longrightarrow> json_elements n s \<noteq> PFuel)"
proof (induction n arbitrary: s)
  case (Suc n)
  then have IH: "json_value n s = PFuel \<Longrightarrow> n \<le> 2 * length s"
    "json_members n s = PFuel \<Longrightarrow> n \<le> 2 * length s"
    "json_elements n s = PFuel \<Longrightarrow> n \<le> 2 * length s + 1" for s
    by (meson not_le_imp_less)+
  have "json_value (Suc n) s = PFuel \<Longrightarrow> Suc n \<le> 2 * length s"
    by (auto simp: json_scalar_total split: list.splits if_splits dest!: skip_ws_Cons IH)
  moreover have "json_members (Suc n) s = PFuel \<Longrightarrow> Suc n \<le> 2 * length s"
    by (auto split: list.splits if_splits option.splits pres.splits
        dest!: skip_ws_Cons json_string_shorter json_shorter IH)
  moreover have "json_elements (Suc n) s = PFuel \<Longrightarrow> Suc n \<le> 2 * length s + 1"
    by (auto split: list.splits if_splits pres.splits dest!: skip_ws_Cons json_shorter IH)
  ultimately show ?case by fastforce
qed simp

lemma parse_json_total: "json_value (json_limit s) s \<noteq> PFuel"
  using json_fuel [of s "json_limit s"] by (simp add: json_limit_def)

section \<open>Unmarshalling\<close>

text \<open>
  \<open>json.Unmarshal\<close> refuses a text nested more than 10000 deep.  Stored into a Go string or bool,
  \<open>null\<close> leaves the zero value in place and is no error.
\<close>

fun json_depth :: "json \<Rightarrow> nat" where
  "json_depth (JArr vs) = Suc (foldr (\<lambda>v d. max (json_depth v) d) vs 0)"
| "json_depth (JObj ms) = Suc (foldr (\<lambda>m d. max (json_depth (snd m)) d) ms 0)"
| "json_depth _ = 0"

definition json_unmarshal :: "string \<Rightarrow> json option" where
  "json_unmarshal s =
     (case parse_json s of None \<Rightarrow> None | Some v \<Rightarrow> if json_depth v \<le> 10000 then Some v else None)"

definition unmarshal_string :: "json \<Rightarrow> string option" where
  "unmarshal_string v = (case v of JStr s \<Rightarrow> Some s | JNull \<Rightarrow> Some '''' | _ \<Rightarrow> None)"

definition unmarshal_bool :: "json \<Rightarrow> bool option" where
  "unmarshal_bool v = (case v of JBool b \<Rightarrow> Some b | JNull \<Rightarrow> Some False | _ \<Rightarrow> None)"

text \<open>No object of the tree has a duplicate key.\<close>

fun json_distinct :: "json \<Rightarrow> bool" where
  "json_distinct (JArr vs) = list_all json_distinct vs"
| "json_distinct (JObj ms) = (distinct (map fst ms) \<and> list_all (\<lambda>m. json_distinct (snd m)) ms)"
| "json_distinct _ = True"

end
