(* ===== verification/Wirejson.thy ===== *)
theory Wirejson
  imports GoJson
begin

text \<open>
  \<open>internal/wirejson/object.go\<close>: the JSON and JSONP envelopes of the gateway and of the CAS.  An
  \<open>Object\<close> is the member list of the decoded object; the code checks it with the token reader
  (\<open>validateObject\<close>, \<open>validateValue\<close>: one object, nothing behind it, no duplicate key at any depth)
  and then decodes it with \<open>json.Unmarshal\<close>.  A raw field is represented by the tree of its value.
\<close>

type_synonym wire_object = "(string \<times> json) list"

definition callback_initial :: "char \<Rightarrow> bool" where
  "callback_initial c \<longleftrightarrow> c = CHR ''_'' \<or> c = CHR ''$'' \<or> is_lower c \<or> is_upper c"

definition valid_callback :: "string \<Rightarrow> bool" where
  "valid_callback s =
     (case s of [] \<Rightarrow> False
      | c # cs \<Rightarrow> callback_initial c \<and> list_all (\<lambda>d. callback_initial d \<or> is_digit d) cs)"

text \<open>The text before the first \<open>(\<close> and the text between it and the last \<open>)\<close>, if that ends the string.\<close>

definition split_call :: "string \<Rightarrow> (string \<times> string) option" where
  "split_call s =
     (case cut_char (CHR ''('') s of (callback, rest, found) \<Rightarrow>
        if found \<and> callback \<noteq> [] \<and> rest \<noteq> [] \<and> last rest = CHR '')''
        then Some (callback, butlast rest) else None)"

definition object_payload :: "string \<Rightarrow> string option" where
  "object_payload data =
     (let trimmed = trim_space data in
      if trimmed = [] then None
      else if hd trimmed = CHR ''{'' then Some trimmed
      else
        (let body = (if last trimmed = CHR '';'' then trim_space (butlast trimmed) else trimmed) in
         if last trimmed = CHR '';'' \<and> (body = [] \<or> last body = CHR '';'') then None
         else (case split_call body of None \<Rightarrow> None
           | Some (callback, argument) \<Rightarrow>
               if \<not> valid_callback (trim_space callback) then None
               else
                 (let payload = trim_space argument in
                  if payload = [] \<or> hd payload \<noteq> CHR ''{'' then None else Some payload))))"

definition decode_object_or_jsonp :: "string \<Rightarrow> wire_object option" where
  "decode_object_or_jsonp data =
     (case object_payload data of None \<Rightarrow> None
      | Some payload \<Rightarrow>
          (case json_unmarshal payload of
             Some (JObj ms) \<Rightarrow> if json_distinct (JObj ms) then Some ms else None
           | _ \<Rightarrow> None))"

text \<open>\<open>Object.Raw\<close> and \<open>Object.Names\<close>.\<close>

definition raw :: "wire_object \<Rightarrow> string \<Rightarrow> json option" where
  "raw obj name = map_of obj name"

definition names :: "wire_object \<Rightarrow> string list" where
  "names obj = sort (map fst obj)"

lemma decode_distinct: "decode_object_or_jsonp data = Some obj \<Longrightarrow> distinct (map fst obj)"
  by (auto simp: decode_object_or_jsonp_def split: option.splits json.splits if_splits)

lemma raw_iff_member:
  assumes "decode_object_or_jsonp data = Some obj"
  shows "raw obj name = Some v \<longleftrightarrow> (name, v) \<in> set obj"
  unfolding raw_def using decode_distinct [OF assms] by (simp add: map_of_eq_Some_iff)

lemma set_names: "set (names obj) = {n. raw obj n \<noteq> None}"
  by (auto simp: names_def raw_def map_of_eq_None_iff)

lemma sorted_names: "sorted (names obj)"
  by (simp add: names_def)

end
