(* ===== verification/Srun.thy ===== *)
theory Srun
  imports Wirejson
begin

text \<open>
  \<open>internal/srun\<close>: the status and business responses of the Srun gateway (\<open>status.go\<close>,
  \<open>business.go\<close>, \<open>types.go\<close>).  Every parser answers \<open>None\<close> for \<open>ErrUnrecognized\<close>.  The lemmas show
  that a response is read as online only with a valid identity and address, as offline only on the
  explicit marker, and that balances are exact to the cent.
\<close>

section \<open>Addresses\<close>

type_synonym ipv4 = "nat \<times> nat \<times> nat \<times> nat"

text \<open>\<open>netip.ParseAddr\<close> on the dotted form: four decimal fields below 256 without leading zeros.\<close>

definition octet :: "string \<Rightarrow> nat option" where
  "octet s =
     (if all_digits s \<and> (length s = 1 \<or> hd s \<noteq> CHR ''0'') \<and> dec_value s < 256
      then Some (dec_value s) else None)"

definition parse_ipv4 :: "string \<Rightarrow> ipv4 option" where
  "parse_ipv4 s =
     (case map octet (split_char (CHR ''.'') s) of
        [Some a, Some b, Some c, Some d] \<Rightarrow> Some (a, b, c, d)
      | _ \<Rightarrow> None)"

definition is_unspecified :: "ipv4 \<Rightarrow> bool" where
  "is_unspecified ip \<longleftrightarrow> ip = (0, 0, 0, 0)"

definition is_loopback :: "ipv4 \<Rightarrow> bool" where
  "is_loopback ip \<longleftrightarrow> fst ip = 127"

definition is_multicast :: "ipv4 \<Rightarrow> bool" where
  "is_multicast ip \<longleftrightarrow> 224 \<le> fst ip \<and> fst ip \<le> 239"

definition is_link_local :: "ipv4 \<Rightarrow> bool" where
  "is_link_local ip \<longleftrightarrow> (case ip of (a, b, _) \<Rightarrow> a = 169 \<and> b = 254)"

definition is_global_unicast :: "ipv4 \<Rightarrow> bool" where
  "is_global_unicast ip \<longleftrightarrow>
     \<not> is_unspecified ip \<and> ip \<noteq> (255, 255, 255, 255) \<and> \<not> is_loopback ip \<and>
     \<not> is_multicast ip \<and> \<not> is_link_local ip"

section \<open>Scalars\<close>

record summary =
  TrafficBytes :: int
  SummaryDuration :: int
  BalanceMinor :: "int option"

record srun_status =
  Online :: bool
  Username :: string
  OnlineIP :: "ipv4 option"
  SummaryOf :: "summary option"

definition offline_status :: srun_status where
  "offline_status = \<lparr>Online = False, Username = '''', OnlineIP = None, SummaryOf = None\<rparr>"

definition username_char :: "char \<Rightarrow> bool" where
  "username_char c \<longleftrightarrow> is_upper c \<or> is_lower c \<or> is_digit c \<or> c \<in> set ''._@-''"

definition valid_username :: "string \<Rightarrow> bool" where
  "valid_username s \<longleftrightarrow> 1 \<le> length s \<and> length s \<le> 128 \<and> list_all username_char s"

definition parse_online_ipv4_text :: "string \<Rightarrow> ipv4 option" where
  "parse_online_ipv4_text s =
     (case parse_ipv4 s of None \<Rightarrow> None
      | Some ip \<Rightarrow>
          if \<not> is_global_unicast ip \<or> is_unspecified ip \<or> is_loopback ip \<or> is_link_local ip \<or>
             is_multicast ip
          then None else Some ip)"

definition parse_non_negative_text :: "string \<Rightarrow> int option" where
  "parse_non_negative_text s = (if all_digits s then parse_int64 s else None)"

text \<open>\<open>balanceDecimal\<close>, then the exact conversion to minor units.\<close>

definition balance_decimal :: "string \<Rightarrow> bool" where
  "balance_decimal s =
     (case cut_char (CHR ''.'') (trim_prefix s ''-'') of (a, b, found) \<Rightarrow>
        all_digits a \<and> (found \<longrightarrow> all_digits b))"

definition pad_fraction :: "string \<Rightarrow> string" where
  "pad_fraction f = f @ replicate (2 - length f) (CHR ''0'')"

definition parse_balance_text :: "string \<Rightarrow> int option" where
  "parse_balance_text s =
     (if \<not> balance_decimal s then None
      else
        (let negative = has_prefix s ''-'';
             (whole, fraction, _) = cut_char (CHR ''.'') (trim_prefix s ''-'')
         in if list_ex (\<lambda>c. c \<noteq> CHR ''0'') (drop 2 fraction) then None
            else
              (let stripped = dropWhile (\<lambda>c. c = CHR ''0'') (whole @ pad_fraction (take 2 fraction));
                   digits = (if stripped = [] then ''0'' else stripped)
               in parse_int64 (if negative \<and> digits \<noteq> ''0'' then CHR ''-'' # digits else digits))))"

definition raw_number :: "json \<Rightarrow> string option" where
  "raw_number v = (case v of JNum t \<Rightarrow> Some t | JNull \<Rightarrow> Some '''' |
     JStr t \<Rightarrow> if json_number t = Some (t, '''') then Some t else None | _ \<Rightarrow> None)"

definition decimal_scalar :: "json \<Rightarrow> string option" where
  "decimal_scalar v = (case unmarshal_string v of Some s \<Rightarrow> Some s | None \<Rightarrow> raw_number v)"

definition parse_username :: "json \<Rightarrow> string option" where
  "parse_username v =
     (case unmarshal_string v of Some s \<Rightarrow> Some s
      | None \<Rightarrow>
          (case raw_number v of None \<Rightarrow> None
           | Some t \<Rightarrow> if \<not> all_digits t then None
                       else (case parse_uint64 t of None \<Rightarrow> None | Some n \<Rightarrow> Some (nat_dec n))))"

definition parse_online_ipv4 :: "json \<Rightarrow> ipv4 option" where
  "parse_online_ipv4 v =
     (case unmarshal_string v of None \<Rightarrow> None | Some s \<Rightarrow> parse_online_ipv4_text s)"

definition parse_non_negative :: "json \<Rightarrow> int option" where
  "parse_non_negative v =
     (case decimal_scalar v of None \<Rightarrow> None | Some s \<Rightarrow> parse_non_negative_text s)"

definition parse_balance :: "json \<Rightarrow> int option" where
  "parse_balance v = (case decimal_scalar v of None \<Rightarrow> None | Some s \<Rightarrow> parse_balance_text s)"

section \<open>Status objects\<close>

text \<open>
  \<open>aliased\<close>: all the names that are present must parse and agree.  \<open>None\<close> is the error,
  \<open>Some None\<close> an absent value.
\<close>

fun aliased_from :: "wire_object \<Rightarrow> (json \<Rightarrow> 'a option) \<Rightarrow> 'a option \<Rightarrow> string list \<Rightarrow> 'a option option" where
  "aliased_from obj parse result [] = Some result"
| "aliased_from obj parse result (n # ns) =
     (case raw obj n of None \<Rightarrow> aliased_from obj parse result ns
      | Some v \<Rightarrow>
          (case parse v of None \<Rightarrow> None
           | Some x \<Rightarrow>
               if result \<noteq> None \<and> result \<noteq> Some x then None
               else aliased_from obj parse (Some x) ns))"

definition aliased :: "wire_object \<Rightarrow> (json \<Rightarrow> 'a option) \<Rightarrow> string list \<Rightarrow> 'a option option" where
  "aliased obj parse ns = aliased_from obj parse None ns"

definition summary_names :: "string list" where
  "summary_names =
     [''sum_bytes'', ''used_bytes'', ''traffic'', ''sum_seconds'', ''used_seconds'', ''duration'',
      ''user_balance'', ''balance'']"

definition offline_identity_present :: "wire_object \<Rightarrow> bool option" where
  "offline_identity_present obj = do {
     user \<leftarrow> aliased obj parse_username [''user_name'', ''username'', ''user''];
     if user \<noteq> None \<and> user \<noteq> Some '''' then Some True
     else do {
       ip \<leftarrow> aliased obj unmarshal_string [''online_ip''];
       if ip \<noteq> None \<and> ip \<noteq> Some '''' then Some True
       else Some (list_ex (\<lambda>n. raw obj n \<noteq> None) summary_names)
     }
   }"

definition build_summary :: "int option \<Rightarrow> int option \<Rightarrow> int option \<Rightarrow> summary option" where
  "build_summary traffic dur balance =
     (case (traffic, dur) of
        (Some t, Some d) \<Rightarrow> Some \<lparr>TrafficBytes = t, SummaryDuration = d, BalanceMinor = balance\<rparr>
      | _ \<Rightarrow> None)"

definition parse_online_object :: "wire_object \<Rightarrow> srun_status option" where
  "parse_online_object obj = do {
     present_user \<leftarrow> aliased obj parse_username [''user_name'', ''username'', ''user''];
     user \<leftarrow> present_user;
     require (valid_username user);
     present_ip \<leftarrow> aliased obj parse_online_ipv4 [''online_ip''];
     ip \<leftarrow> present_ip;
     traffic \<leftarrow> aliased obj parse_non_negative [''sum_bytes'', ''used_bytes'', ''traffic''];
     dur \<leftarrow> aliased obj parse_non_negative [''sum_seconds'', ''used_seconds'', ''duration''];
     balance \<leftarrow> aliased obj parse_balance [''user_balance'', ''balance''];
     require (\<not> ((traffic \<noteq> None) \<noteq> (dur \<noteq> None) \<or> balance \<noteq> None \<and> traffic = None));
     Some \<lparr>Online = True, Username = user, OnlineIP = Some ip,
           SummaryOf = build_summary traffic dur balance\<rparr>
   }"

definition parse_status_object :: "wire_object \<Rightarrow> srun_status option" where
  "parse_status_object obj = do {
     present_marker \<leftarrow> aliased obj unmarshal_string [''error'', ''error_code'', ''res''];
     marker \<leftarrow> present_marker;
     if marker = ''not_online_error'' then do {
       identity \<leftarrow> offline_identity_present obj;
       require (\<not> identity);
       Some offline_status
     }
     else if marker = ''ok'' then parse_online_object obj
     else None
   }"

section \<open>The legacy comma-separated form\<close>

text \<open>
  One line of \<open>encoding/csv\<close>: a field is bare, and then has no quote, or quoted, where two quotes
  stand for one and only a comma or the end may follow the closing quote.
\<close>

fun csv_quoted :: "string \<Rightarrow> (string \<times> string option) option" where
  "csv_quoted [] = None"
| "csv_quoted (c # cs) =
     (if c \<noteq> dquote then
        (case csv_quoted cs of None \<Rightarrow> None | Some (f, r) \<Rightarrow> Some (c # f, r))
      else (case cs of [] \<Rightarrow> Some ('''', None)
          | d # ds \<Rightarrow>
              if d = CHR '','' then Some ('''', Some ds)
              else if d = dquote then
                (case csv_quoted ds of None \<Rightarrow> None | Some (f, r) \<Rightarrow> Some (dquote # f, r))
              else None))"

definition csv_field :: "string \<Rightarrow> (string \<times> string option) option" where
  "csv_field s =
     (if has_prefix s [dquote] then csv_quoted (drop 1 s)
      else (case cut_char (CHR '','') s of (f, r, found) \<Rightarrow>
              if dquote \<in> set f then None else Some (f, if found then Some r else None)))"

lemma csv_quoted_shorter: "csv_quoted s = Some (f, Some r) \<Longrightarrow> length r < length s"
proof (induction s arbitrary: f rule: length_induct)
  case (1 s)
  then have IH: "csv_quoted s' = Some (g, Some r) \<Longrightarrow> length s' < length s \<Longrightarrow> length r < length s'" for s' g
    by blast
  obtain c cs where s: "s = c # cs" using 1(2) by (cases s) auto
  show ?case
    using 1(2) unfolding s
    by (auto simp: s csv_quoted.simps(2) [of c cs] simp del: csv_quoted.simps
        split: if_splits option.splits list.splits dest!: IH)
qed

lemma cut_char_length: "cut_char d s = (a, b, True) \<Longrightarrow> length b < length s"
  by (auto dest: cut_char_found)

lemma csv_field_shorter: "csv_field s = Some (f, Some r) \<Longrightarrow> length r < length s"
  by (auto simp: csv_field_def has_prefix_iff split: if_splits prod.splits
      dest!: csv_quoted_shorter cut_char_length)

function csv_line :: "string \<Rightarrow> string list option" where
  "csv_line s =
     (case csv_field s of None \<Rightarrow> None
      | Some (f, None) \<Rightarrow> Some [f]
      | Some (f, Some r) \<Rightarrow> (case csv_line r of None \<Rightarrow> None | Some fs \<Rightarrow> Some (f # fs)))"
  by pat_completeness auto
termination by (relation "measure length") (auto dest: csv_field_shorter)

declare csv_line.simps [simp del]

definition csv_summary :: "string list \<Rightarrow> summary option" where
  "csv_summary record =
     (case (parse_non_negative_text (trim_space (record ! 6)),
            parse_non_negative_text (trim_space (record ! 7))) of
        (Some traffic, Some dur) \<Rightarrow>
          if 11 < length record \<and> trim_space (record ! 11) \<noteq> '''' then
            (case parse_balance_text (trim_space (record ! 11)) of
               None \<Rightarrow> None
             | Some b \<Rightarrow> build_summary (Some traffic) (Some dur) (Some b))
          else build_summary (Some traffic) (Some dur) None
      | _ \<Rightarrow> None)"

definition parse_status_csv :: "string \<Rightarrow> srun_status option" where
  "parse_status_csv s = do {
     require (\<not> list_ex (\<lambda>c. byte c = 10 \<or> byte c = 13) s);
     record \<leftarrow> csv_line s;
     require (9 \<le> length record);
     require (valid_username (trim_space (record ! 0)));
     ip \<leftarrow> parse_online_ipv4_text (trim_space (record ! 8));
     Some \<lparr>Online = True, Username = trim_space (record ! 0), OnlineIP = Some ip,
           SummaryOf = csv_summary record\<rparr>
   }"

definition parse_status :: "string \<Rightarrow> srun_status option" where
  "parse_status data =
     (let trimmed = trim_space data in
      if trimmed = ''not_online_error'' then Some offline_status
      else (case decode_object_or_jsonp data of
          Some obj \<Rightarrow> parse_status_object obj
        | None \<Rightarrow>
            if trimmed = '''' \<or> list_ex (\<lambda>c. c \<in> set ''<>{}()[]'') trimmed then None
            else parse_status_csv trimmed))"

section \<open>Business responses\<close>

definition strict_json_integer :: "string \<Rightarrow> bool" where
  "strict_json_integer s =
     (let ds = trim_prefix s ''-'' in all_digits ds \<and> (length ds = 1 \<or> hd ds \<noteq> CHR ''0''))"

definition required_integer :: "wire_object \<Rightarrow> string \<Rightarrow> int option" where
  "required_integer obj name =
     (case raw obj name of
        Some (JNum t) \<Rightarrow> if strict_json_integer t then parse_int64 t else None
      | _ \<Rightarrow> None)"

definition required_string :: "wire_object \<Rightarrow> string \<Rightarrow> string option" where
  "required_string obj name =
     (case raw obj name of None \<Rightarrow> None | Some v \<Rightarrow> unmarshal_string v)"

definition consistent_optional_success :: "wire_object \<Rightarrow> bool \<Rightarrow> bool" where
  "consistent_optional_success obj expected =
     (case raw obj ''success'' of None \<Rightarrow> True | Some v \<Rightarrow> unmarshal_bool v = Some expected)"

definition parse_activation_success :: "string \<Rightarrow> bool option" where
  "parse_activation_success data = do {
     obj \<leftarrow> decode_object_or_jsonp data;
     code \<leftarrow> required_integer obj ''code'';
     message \<leftarrow> required_string obj ''message'';
     require ((code = 0) = (message = ''success''));
     require (consistent_optional_success obj (code = 0));
     Some (code = 0)
   }"

definition parse_logout_success :: "string \<Rightarrow> bool option" where
  "parse_logout_success data = do {
     obj \<leftarrow> decode_object_or_jsonp data;
     ecode \<leftarrow> required_integer obj ''ecode'';
     require (consistent_optional_success obj (ecode = 0));
     Some (ecode = 0)
   }"

section \<open>What an accepted status means\<close>

definition summary_ok :: "summary option \<Rightarrow> bool" where
  "summary_ok s =
     (case s of None \<Rightarrow> True
      | Some x \<Rightarrow> 0 \<le> TrafficBytes x \<and> int64 (TrafficBytes x) \<and>
                  0 \<le> SummaryDuration x \<and> int64 (SummaryDuration x) \<and>
                  (case BalanceMinor x of None \<Rightarrow> True | Some b \<Rightarrow> int64 b))"

definition online_ok :: "srun_status \<Rightarrow> bool" where
  "online_ok st \<longleftrightarrow>
     valid_username (Username st) \<and>
     (case OnlineIP st of None \<Rightarrow> False | Some ip \<Rightarrow> is_global_unicast ip) \<and>
     summary_ok (SummaryOf st)"

lemma parse_int64_digits: "all_digits s \<Longrightarrow> parse_int64 s = Some v \<Longrightarrow> v = int (dec_value s)"
  by (cases s) (auto simp: parse_int64_def all_digits_def is_digit_def in_range_def Let_def split: if_splits)

lemma parse_non_negative_text_range: "parse_non_negative_text s = Some v \<Longrightarrow> 0 \<le> v \<and> int64 v"
  by (auto simp: parse_non_negative_text_def dest: parse_int64_digits parse_int64_range split: if_splits)

lemma parse_non_negative_range: "parse_non_negative j = Some v \<Longrightarrow> 0 \<le> v \<and> int64 v"
  unfolding parse_non_negative_def by (simp split: option.splits add: parse_non_negative_text_range)

lemma parse_balance_text_range: "parse_balance_text s = Some v \<Longrightarrow> int64 v"
  unfolding parse_balance_text_def Let_def
  by (cases "cut_char (CHR ''.'') (trim_prefix s ''-'')")
    (auto split: if_split_asm dest: parse_int64_range)

lemma parse_balance_range: "parse_balance j = Some v \<Longrightarrow> int64 v"
  unfolding parse_balance_def by (simp split: option.splits add: parse_balance_text_range)

lemma aliased_from_result:
  "aliased_from obj parse r ns = Some (Some x) \<Longrightarrow> r = Some x \<or> (\<exists>j. parse j = Some x)"
  by (induction ns arbitrary: r) (auto split: option.splits if_splits)

lemma aliased_result: "aliased obj parse ns = Some (Some x) \<Longrightarrow> \<exists>j. parse j = Some x"
  unfolding aliased_def using aliased_from_result [of obj parse None ns x] by simp

lemma aliased_from_keep: "aliased_from obj parse (Some x) ns = Some res \<Longrightarrow> res = Some x"
  by (induction ns arbitrary: x) (auto split: option.splits if_splits)

lemma aliased_from_agree:
  "aliased_from obj parse r ns = Some res \<Longrightarrow> n \<in> set ns \<Longrightarrow> raw obj n = Some j \<Longrightarrow>
     parse j = res \<and> res \<noteq> None"
  by (induction ns arbitrary: r) (auto split: option.splits if_splits dest: aliased_from_keep)

lemma aliased_agree:
  "aliased obj parse ns = Some res \<Longrightarrow> n \<in> set ns \<Longrightarrow> raw obj n = Some j \<Longrightarrow> parse j = res \<and> res \<noteq> None"
  unfolding aliased_def by (rule aliased_from_agree)

lemma parse_online_ipv4_text_global: "parse_online_ipv4_text s = Some ip \<Longrightarrow> is_global_unicast ip"
  by (auto simp: parse_online_ipv4_text_def split: option.splits if_splits)

lemma parse_online_ipv4_global: "parse_online_ipv4 j = Some ip \<Longrightarrow> is_global_unicast ip"
  by (auto simp: parse_online_ipv4_def parse_online_ipv4_text_global split: option.splits)

lemma build_summary_ok:
  assumes "\<And>t. traffic = Some t \<Longrightarrow> 0 \<le> t \<and> int64 t" "\<And>d. dur = Some d \<Longrightarrow> 0 \<le> d \<and> int64 d"
    "\<And>b. balance = Some b \<Longrightarrow> int64 b"
  shows "summary_ok (build_summary traffic dur balance)"
  using assms by (auto simp: summary_ok_def build_summary_def split: option.splits)

lemma aliased_address: "aliased obj parse_online_ipv4 ns = Some (Some ip) \<Longrightarrow> is_global_unicast ip"
  by (drule aliased_result) (erule exE, erule parse_online_ipv4_global)

lemma aliased_count: "aliased obj parse_non_negative ns = Some (Some v) \<Longrightarrow> 0 \<le> v \<and> int64 v"
  using aliased_result [of obj parse_non_negative ns v] parse_non_negative_range by auto

lemma aliased_balance: "aliased obj parse_balance ns = Some (Some v) \<Longrightarrow> int64 v"
  using aliased_result [of obj parse_balance ns v] parse_balance_range by auto

lemma aliased_summary_ok:
  assumes "aliased obj parse_non_negative ns = Some traffic"
    and "aliased obj parse_non_negative ms = Some dur" and "aliased obj parse_balance bs = Some balance"
  shows "summary_ok (build_summary traffic dur balance)"
  by (rule build_summary_ok) (use assms aliased_count aliased_balance in auto)

lemma parse_online_object_ok: "parse_online_object obj = Some st \<Longrightarrow> Online st \<and> online_ok st"
  unfolding parse_online_object_def
  by (auto simp: bind_eq_Some_conv online_ok_def aliased_address aliased_summary_ok)

lemma csv_summary_ok: "summary_ok (csv_summary record)"
proof (cases "csv_summary record")
  case (Some x)
  then obtain t d b where "parse_non_negative_text (trim_space (record ! 6)) = Some t"
      "parse_non_negative_text (trim_space (record ! 7)) = Some d"
      "csv_summary record = build_summary (Some t) (Some d) b"
      "\<And>v. b = Some v \<Longrightarrow> parse_balance_text (trim_space (record ! 11)) = Some v"
    by (auto simp: csv_summary_def split: option.splits if_splits)
  then show ?thesis
    using build_summary_ok parse_non_negative_text_range parse_balance_text_range
    by (metis option.inject)
qed (simp add: summary_ok_def)

lemma parse_status_csv_ok: "parse_status_csv s = Some st \<Longrightarrow> Online st \<and> online_ok st"
  unfolding parse_status_csv_def
  by (auto simp: online_ok_def csv_summary_ok parse_online_ipv4_text_global bind_eq_Some_conv)

lemma parse_status_object_cases:
  assumes "parse_status_object obj = Some st"
  shows "(Online st \<and> online_ok st) \<or>
         (st = offline_status \<and> offline_identity_present obj = Some False \<and>
          aliased obj unmarshal_string [''error'', ''error_code'', ''res''] = Some (Some ''not_online_error''))"
  using assms parse_online_object_ok
  by (auto simp: parse_status_object_def bind_eq_Some_conv split: if_splits)

text \<open>C11: the gateway status is never guessed.  A response that \<open>ParseStatus\<close> reads as online carries a
  valid user name, a global unicast IPv4 address and, if it has a summary, traffic and duration that
  are not negative and fit 64 bits; a response read as offline is the bare marker or an object whose
  marker fields all say \<open>not_online_error\<close> and that carries no identity, address or accounting.\<close>

theorem parse_status_sound:
  assumes "parse_status data = Some st"
  shows "if Online st then online_ok st
         else st = offline_status \<and>
           (trim_space data = ''not_online_error'' \<or>
            (\<exists>obj. decode_object_or_jsonp data = Some obj \<and>
               aliased obj unmarshal_string [''error'', ''error_code'', ''res''] = Some (Some ''not_online_error'') \<and>
               offline_identity_present obj = Some False))"
proof (cases "trim_space data = ''not_online_error''")
  case True
  then show ?thesis using assms by (auto simp: parse_status_def offline_status_def)
next
  case False
  show ?thesis
  proof (cases "decode_object_or_jsonp data")
    case None
    then show ?thesis
      using False assms parse_status_csv_ok [of "trim_space data" st]
      by (auto simp: parse_status_def Let_def split: if_splits)
  next
    case (Some obj)
    then have "parse_status_object obj = Some st" using False assms by (simp add: parse_status_def)
    from parse_status_object_cases [OF this] Some show ?thesis
      by (elim disjE) (auto simp: offline_status_def)
  qed
qed

theorem parse_status_sound_witness:
  "online_ok \<lparr>Online = True, Username = ''alice'', OnlineIP = Some (10, 0, 0, 8), SummaryOf = None\<rparr>"
proof -
  have "parse_status ''alice,a,b,c,d,e,,,10.0.0.8'' =
      Some \<lparr>Online = True, Username = ''alice'', OnlineIP = Some (10, 0, 0, 8), SummaryOf = None\<rparr>"
    by code_simp
  from parse_status_sound [OF this] show ?thesis by simp
qed

section \<open>Balances are exact\<close>

lemma foldl_dec: "foldl (\<lambda>a c. 10 * a + digit_val c) k f = k * 10 ^ length f + dec_value f"
proof (induction f arbitrary: k rule: rev_induct)
  case (snoc c f)
  then show ?case by simp
qed (simp add: dec_value_def)

lemma dec_value_append: "dec_value (w @ f) = dec_value w * 10 ^ length f + dec_value f"
  using foldl_dec [of "dec_value w" f] by (simp add: dec_value_def)

lemma dec_value_Cons_zero: "dec_value (CHR ''0'' # s) = dec_value s"
  using dec_value_append [of "''0''" s] by (simp add: dec_value_def digit_val_def)

lemma dec_value_drop_zeros: "dec_value (dropWhile (\<lambda>c. c = CHR ''0'') s) = dec_value s"
  by (induction s) (auto simp: dec_value_Cons_zero)

lemma dec_value_all_zeros: "\<not> list_ex (\<lambda>c. c \<noteq> CHR ''0'') s \<Longrightarrow> dec_value s = 0"
  by (induction s) (auto simp: dec_value_Cons_zero, simp add: dec_value_def)

lemma dec_value_zeros_right: "dec_value (s @ replicate k (CHR ''0'')) = dec_value s * 10 ^ k"
proof -
  have "dec_value (replicate k (CHR ''0'')) = 0" by (rule dec_value_all_zeros) (simp add: list_ex_iff)
  then show ?thesis by (simp add: dec_value_append)
qed

lemma pad_fraction_value:
  assumes "\<not> list_ex (\<lambda>c. c \<noteq> CHR ''0'') (drop 2 f)"
  shows "dec_value (pad_fraction (take 2 f)) * 10 ^ length f = dec_value f * 100"
    and "length (pad_fraction (take 2 f)) = 2"
proof -
  show "length (pad_fraction (take 2 f)) = 2" by (auto simp: pad_fraction_def)
  have f: "dec_value f = dec_value (take 2 f) * 10 ^ (length f - 2)"
    using dec_value_append [of "take 2 f" "drop 2 f"] dec_value_all_zeros [OF assms] by simp
  have p: "dec_value (pad_fraction (take 2 f)) = dec_value (take 2 f) * 10 ^ (2 - length (take 2 f))"
    unfolding pad_fraction_def by (rule dec_value_zeros_right)
  have "(10::nat) ^ (2 - length (take 2 f)) * 10 ^ length f = 10 ^ (length f - 2) * 100"
  proof -
    consider "length f = 0" | "length f = 1" | k where "length f = 2 + k"
      using le_Suc_ex [of 2 "length f"] by (cases "length f") (auto simp: not_less_eq_eq, force)
    then show ?thesis by cases (simp_all add: power_add)
  qed
  with f p show "dec_value (pad_fraction (take 2 f)) * 10 ^ length f = dec_value f * 100"
    by (simp add: mult.assoc)
qed

lemma parse_int64_signed:
  assumes "all_digits ds" "parse_int64 (if neg then CHR ''-'' # ds else ds) = Some v"
  shows "v = (if neg then - 1 else 1) * int (dec_value ds)"
  using assms parse_int64_digits [of ds v]
  by (cases neg) (auto simp: parse_int64_def Let_def split: if_splits)

lemma balance_exact:
  assumes "parse_balance_text s = Some v" and cut: "cut_char (CHR ''.'') (trim_prefix s ''-'') = (w, f, found)"
  shows "v * 10 ^ length f = (if has_prefix s ''-'' then - 1 else 1) * int (dec_value (w @ f)) * 100"
proof -
  let ?neg = "has_prefix s ''-''" and ?d = "w @ pad_fraction (take 2 f)"
  let ?st = "dropWhile (\<lambda>c. c = CHR ''0'') ?d"
  define ds where "ds = (if ?st = [] then ''0'' else ?st)"
  have zero: "dec_value ''0'' = 0" "dec_value [] = 0" by (simp_all add: dec_value_def digit_val_def)
  have bd: "balance_decimal s" and z: "\<not> list_ex (\<lambda>c. c \<noteq> CHR ''0'') (drop 2 f)"
    and v: "parse_int64 (if ?neg \<and> ds \<noteq> ''0'' then CHR ''-'' # ds else ds) = Some v"
    using assms by (auto simp: parse_balance_text_def Let_def ds_def split: if_splits)
  have f: "found \<longrightarrow> all_digits f" "\<not> found \<longrightarrow> f = []" "all_digits w"
    using bd cut by (auto simp: balance_decimal_def dest: cut_char_not_found)
  then have "list_all is_digit f" by (cases found) (auto simp: all_digits_def)
  then have dig: "list_all is_digit ?d"
    using f(3) by (auto simp: all_digits_def pad_fraction_def list_all_iff dest: in_set_takeD)
      (simp add: is_digit_def in_range_def)
  have "list_all is_digit ?st"
    using dig by (auto simp: list_all_iff dest: set_dropWhileD)
  then have ads: "all_digits ds" by (auto simp: ds_def all_digits_def is_digit_def in_range_def)
  have val: "dec_value ds = dec_value ?d"
  proof (cases "?st = []")
    case True
    then have "dec_value ?d = 0" using dec_value_drop_zeros [of ?d] zero by metis
    then show ?thesis using zero unfolding ds_def if_P [OF True] by simp
  next
    case False
    show ?thesis unfolding ds_def if_not_P [OF False] by (rule dec_value_drop_zeros)
  qed
  have "v = (if ?neg \<and> ds \<noteq> ''0'' then - 1 else 1) * int (dec_value ds)"
    using parse_int64_signed [OF ads v] .
  then have "v = (if ?neg then - 1 else 1) * int (dec_value ?d)"
    using val zero by (cases "ds = ''0''") simp_all
  moreover have "dec_value ?d * 10 ^ length f = dec_value (w @ f) * 100"
    using pad_fraction_value [OF z] by (simp add: dec_value_append algebra_simps)
  then have "int (dec_value ?d * 10 ^ length f) = int (dec_value (w @ f) * 100)" by (simp only:)
  then have "int (dec_value ?d) * 10 ^ length f = int (dec_value (w @ f)) * 100" by simp
  ultimately show ?thesis by simp
qed

text \<open>C12: a balance is the exact decimal amount in cents.  When \<open>parseBalanceText\<close> accepts a text with
  whole part \<open>w\<close> and fraction \<open>f\<close>, the result scaled by the digits of the fraction is a hundred times the
  number the digits spell, with the sign of the text; nothing is rounded, and the result fits 64 bits.\<close>

theorem parse_balance_exact:
  assumes "parse_balance_text s = Some v"
  shows "case cut_char (CHR ''.'') (trim_prefix s ''-'') of (w, f, _) \<Rightarrow>
           v * 10 ^ length f = (if has_prefix s ''-'' then - 1 else 1) * int (dec_value (w @ f)) * 100 \<and>
           int64 v"
  using balance_exact [OF assms] parse_balance_text_range [OF assms] by (simp split: prod.split)

theorem parse_balance_exact_witness:
  "(- 1234 :: int) * 10 ^ 4 = (- 1) * int (dec_value ''123400'') * 100"
proof -
  have "parse_balance_text ''-12.3400'' = Some (- 1234)"
    "cut_char (CHR ''.'') (trim_prefix ''-12.3400'' ''-'') = (''12'', ''3400'', True)"
    "has_prefix ''-12.3400'' ''-''" by code_simp+
  with parse_balance_exact [of "''-12.3400''" "- 1234"] show ?thesis by simp
qed

lemma required_integerD:
  "required_integer obj n = Some v \<Longrightarrow> \<exists>t. raw obj n = Some (JNum t) \<and> parse_int64 t = Some v"
  by (auto simp: required_integer_def split: option.splits json.splits if_splits)

lemma required_stringD:
  "required_string obj n = Some v \<Longrightarrow> \<exists>m. raw obj n = Some m \<and> unmarshal_string m = Some v"
  by (auto simp: required_string_def split: option.splits)

lemma consistent_successD:
  "consistent_optional_success obj True \<Longrightarrow> raw obj ''success'' \<in> {None, Some (JBool True)}"
  by (auto simp: consistent_optional_success_def unmarshal_bool_def split: option.splits json.splits)

text \<open>C13: an activation counts as successful only on agreeing evidence: the response is one object
  whose \<open>code\<close> is the integer zero, whose \<open>message\<close> is exactly \<open>success\<close>, and whose optional
  \<open>success\<close> field does not contradict them.\<close>

theorem activation_success_evidence:
  assumes "parse_activation_success data = Some True"
  shows "\<exists>obj t m. decode_object_or_jsonp data = Some obj \<and>
           raw obj ''code'' = Some (JNum t) \<and> parse_int64 t = Some 0 \<and>
           raw obj ''message'' = Some m \<and> unmarshal_string m = Some ''success'' \<and>
           raw obj ''success'' \<in> {None, Some (JBool True)}"
proof -
  obtain obj code message where d: "decode_object_or_jsonp data = Some obj"
    and "required_integer obj ''code'' = Some code" "required_string obj ''message'' = Some message"
      "(code = 0) = (message = ''success'')" "consistent_optional_success obj (code = 0)" "code = 0"
    using assms unfolding parse_activation_success_def bind_eq_Some_conv require_Some by fast
  then have "required_integer obj ''code'' = Some 0" "required_string obj ''message'' = Some ''success''"
    "consistent_optional_success obj True" by simp_all
  then show ?thesis using d required_integerD required_stringD consistent_successD by metis
qed

theorem activation_success_evidence_witness:
  "\<exists>obj t m. decode_object_or_jsonp ''cb({\"code\":0,\"message\":\"success\"});'' = Some obj \<and>
     raw obj ''code'' = Some (JNum t) \<and> parse_int64 t = Some 0 \<and>
     raw obj ''message'' = Some m \<and> unmarshal_string m = Some ''success'' \<and>
     raw obj ''success'' \<in> {None, Some (JBool True)}"
proof -
  have "parse_activation_success ''cb({\"code\":0,\"message\":\"success\"});'' = Some True" by code_simp
  from activation_success_evidence [OF this] show ?thesis .
qed

end
