(* ===== verification/ConfigTypes.thy ===== *)
theory ConfigTypes
  imports Srun "HOL-Library.AList"
begin

text \<open>
  \<open>internal/config/types.go\<close> and \<open>paths.go\<close>: the secret-free configuration and its validation, and
  the paths of the configuration directory.  File paths are Unix paths, as \<open>path/filepath\<close> treats them
  there.  A Go map is an association list; its updates keep the keys distinct.
\<close>

section \<open>Paths\<close>

definition path_is_abs :: "string \<Rightarrow> bool" where
  "path_is_abs p = has_prefix p ''/''"

text \<open>\<open>filepath.Clean\<close>: the cleaned components, last first.\<close>

fun clean_step :: "bool \<Rightarrow> string list \<Rightarrow> string \<Rightarrow> string list" where
  "clean_step rooted st w =
     (if w = '''' \<or> w = ''.'' then st
      else if w = ''..'' then
        (case st of [] \<Rightarrow> if rooted then [] else [w]
         | t # ts \<Rightarrow> if t = ''..'' then w # st else ts)
      else w # st)"

definition path_parts :: "string \<Rightarrow> string list" where
  "path_parts p = rev (foldl (clean_step (path_is_abs p)) [] (split_char (CHR ''/'') p))"

definition path_clean :: "string \<Rightarrow> string" where
  "path_clean p =
     (if path_is_abs p then CHR ''/'' # join_str ''/'' (path_parts p)
      else if path_parts p = [] then ''.'' else join_str ''/'' (path_parts p))"

text \<open>The text up to the last slash, and behind it.\<close>

definition path_split :: "string \<Rightarrow> string \<times> string" where
  "path_split p =
     (rev (dropWhile (\<lambda>c. c \<noteq> CHR ''/'') (rev p)), rev (takeWhile (\<lambda>c. c \<noteq> CHR ''/'') (rev p)))"

definition path_dir :: "string \<Rightarrow> string" where
  "path_dir p = path_clean (fst (path_split p))"

definition path_base :: "string \<Rightarrow> string" where
  "path_base p =
     (if p = '''' then ''.''
      else (let q = rev (dropWhile (\<lambda>c. c = CHR ''/'') (rev p)) in
            if q = '''' then ''/'' else snd (path_split q)))"

definition path_join :: "string list \<Rightarrow> string" where
  "path_join ps =
     (let qs = filter (\<lambda>p. p \<noteq> '''') ps in if qs = [] then '''' else path_clean (join_str ''/'' qs))"

fun strip_common :: "string list \<Rightarrow> string list \<Rightarrow> string list \<times> string list" where
  "strip_common (a # as) (b # bs) = (if a = b then strip_common as bs else (a # as, b # bs))"
| "strip_common as bs = (as, bs)"

text \<open>\<open>filepath.Rel\<close>; \<open>None\<close> when only one of the paths is absolute or the base climbs out with \<open>..\<close>.\<close>

definition path_rel :: "string \<Rightarrow> string \<Rightarrow> string option" where
  "path_rel base target =
     (if path_is_abs base \<noteq> path_is_abs target then None
      else (case strip_common (path_parts base) (path_parts target) of
          (up, down) \<Rightarrow>
            if List.member up ''..'' then None
            else (let parts = map (\<lambda>_. ''..'') up @ down in
                  Some (if parts = [] then ''.'' else join_str ''/'' parts))))"

text \<open>
  A cleaned absolute path is \<open>abs_path ws\<close> for names \<open>ws\<close> that are neither empty nor dots and contain no
  slash; the functions above are what one expects on such paths.
\<close>

definition plain_name :: "string \<Rightarrow> bool" where
  "plain_name w \<longleftrightarrow> w \<notin> {'''', ''.'', ''..''} \<and> CHR ''/'' \<notin> set w"

definition abs_path :: "string list \<Rightarrow> string" where
  "abs_path ws = CHR ''/'' # join_str ''/'' ws"

lemma abs_path_is_abs [simp]: "path_is_abs (abs_path ws)"
  by (simp add: path_is_abs_def abs_path_def)

lemma foldl_clean_plain: "list_all plain_name ws \<Longrightarrow> foldl (clean_step r) st ws = rev ws @ st"
  by (induction ws arbitrary: st) (auto simp: plain_name_def)

lemma split_abs_path:
  assumes "list_all plain_name ws"
  shows "split_char (CHR ''/'') (abs_path ws) = '''' # (if ws = [] then [''''] else ws)"
  using assms split_join_char [of ws "CHR ''/''"]
  by (auto simp: abs_path_def list_all_iff plain_name_def)

lemma path_parts_abs_path:
  assumes "list_all plain_name ws" shows "path_parts (abs_path ws) = ws"
  using assms by (simp add: path_parts_def split_abs_path foldl_clean_plain)

lemma path_clean_abs_path: "list_all plain_name ws \<Longrightarrow> path_clean (abs_path ws) = abs_path ws"
  by (simp add: path_clean_def path_parts_abs_path) (simp add: abs_path_def)

lemma clean_step_plain:
  "list_all plain_name st \<Longrightarrow> CHR ''/'' \<notin> set w \<Longrightarrow> list_all plain_name (clean_step True st w)"
  by (auto simp: plain_name_def split: list.splits)

lemma foldl_clean_step_plain:
  "list_all plain_name st \<Longrightarrow> (\<And>w. w \<in> set ws \<Longrightarrow> CHR ''/'' \<notin> set w) \<Longrightarrow>
     list_all plain_name (foldl (clean_step True) st ws)"
proof (induction ws arbitrary: st)
  case (Cons w ws)
  show ?case unfolding foldl_Cons by (rule Cons.IH [OF clean_step_plain]) (use Cons.prems in auto)
qed simp

lemma path_parts_plain: "path_is_abs p \<Longrightarrow> list_all plain_name (path_parts p)"
  using foldl_clean_step_plain [of "[]" "split_char (CHR ''/'') p"] split_char_no_delim [of _ "CHR ''/''" p]
  by (simp add: path_parts_def)

lemma path_clean_abs: "path_is_abs p \<Longrightarrow> path_clean p = abs_path (path_parts p)"
  by (simp add: path_clean_def abs_path_def)

text \<open>Hence cleaning is idempotent.\<close>

lemma path_clean_idem: "path_is_abs p \<Longrightarrow> path_clean (path_clean p) = path_clean p"
  by (simp add: path_clean_abs [of p] path_clean_abs_path path_parts_plain)

lemma join_str_snoc: "join_str d (ws @ [w]) = (if ws = [] then w else join_str d ws @ d @ w)"
  by (induction d ws rule: join_str.induct) auto

lemma abs_path_snoc:
  "abs_path (ws @ [w]) = (if ws = [] then ''/'' @ w else abs_path ws @ ''/'' @ w)"
  by (simp add: abs_path_def join_str_snoc)

lemma path_split_snoc:
  assumes "plain_name w"
  shows "path_split (abs_path (ws @ [w])) = (if ws = [] then ''/'' else abs_path ws @ ''/'', w)"
proof -
  let ?P = "\<lambda>c. c \<noteq> CHR ''/''"
  have fresh: "\<And>c. c \<in> set (rev w) \<Longrightarrow> ?P c" using assms by (auto simp: plain_name_def)
  have "takeWhile ?P (rev w @ CHR ''/'' # q) = rev w @ takeWhile ?P (CHR ''/'' # q)"
    "dropWhile ?P (rev w @ CHR ''/'' # q) = dropWhile ?P (CHR ''/'' # q)" for q
    by (rule takeWhile_append2 dropWhile_append2; erule fresh)+
  then have *: "path_split (p @ ''/'' @ w) = (p @ ''/'', w)" for p
    by (simp add: path_split_def)
  show ?thesis
    using * [of "[]"] * [of "abs_path ws"] by (cases "ws = []") (simp add: abs_path_def, simp add: abs_path_snoc)
qed

lemma path_parts_slash:
  assumes "list_all plain_name ws" "ws \<noteq> []" shows "path_parts (abs_path ws @ ''/'') = ws"
proof -
  have slash: "abs_path ws @ ''/'' = abs_path (ws @ [''''])"
    using assms(2) by (simp add: abs_path_def join_str_snoc)
  have "split_char (CHR ''/'') (join_str ''/'' (ws @ [''''])) = ws @ ['''']"
  proof (rule split_join_char)
    fix w assume "w \<in> set (ws @ [''''])"
    then consider "w \<in> set ws" | "w = ''''" by auto
    then show "CHR ''/'' \<notin> set w"
      using assms(1) by cases (simp_all add: list_all_iff plain_name_def)
  qed simp
  then have "split_char (CHR ''/'') (abs_path (ws @ [''''])) = '''' # ws @ ['''']"
    by (simp only: abs_path_def split_char.simps refl if_True)
  then show ?thesis
    unfolding slash path_parts_def using assms(1) by (simp add: foldl_clean_plain)
qed

lemma path_dir_snoc:
  assumes "list_all plain_name ws" "plain_name w"
  shows "path_dir (abs_path (ws @ [w])) = abs_path ws"
proof (cases "ws = []")
  case False
  have "path_is_abs (abs_path ws @ ''/'')" by (simp add: abs_path_def path_is_abs_def)
  with False assms show ?thesis
    by (simp add: path_dir_def path_split_snoc path_clean_abs path_parts_slash)
next
  case True
  have "path_clean ''/'' = abs_path []" by (simp add: path_clean_def path_is_abs_def path_parts_def abs_path_def)
  with True assms show ?thesis by (simp add: path_dir_def path_split_snoc del: append.simps)
qed

lemma path_join_snoc:
  assumes "list_all plain_name ws" "ws \<noteq> []" "plain_name w"
  shows "path_join [abs_path ws, w] = abs_path (ws @ [w])"
proof -
  have "abs_path ws \<noteq> ''''" "w \<noteq> ''''" using assms(3) by (simp_all add: abs_path_def plain_name_def)
  moreover have "abs_path ws @ ''/'' @ w = abs_path (ws @ [w])" using assms(2) by (simp add: abs_path_snoc)
  ultimately show ?thesis
    using assms by (simp add: path_join_def path_clean_abs_path)
qed

record config_paths =
  BaseDir :: string
  ConfigFile :: string
  ProtocolCacheDir :: string
  MigrationMarker :: string
  MigrationJournal :: string
  MigrationConfigRecovery :: string
  MigrationMarkerRecovery :: string
  LegacyMetaYAML :: string
  LegacyUpstream :: string

definition migration_paths :: "string \<Rightarrow> config_paths \<Rightarrow> config_paths" where
  "migration_paths base paths =
     paths\<lparr>ProtocolCacheDir := path_join [base, ''protocol-cache''],
           MigrationMarker := path_join [base, ''migration-v1.yaml''],
           MigrationJournal := path_join [base, ''migration-v1.pending.yaml''],
           MigrationConfigRecovery := path_join [base, ''migration-v1.config.before''],
           MigrationMarkerRecovery := path_join [base, ''migration-v1.marker.before'']\<rparr>"

text \<open>\<open>os.UserConfigDir\<close> and \<open>os.UserHomeDir\<close> are inputs.\<close>

definition default_paths :: "string option \<Rightarrow> string option \<Rightarrow> config_paths option" where
  "default_paths config_dir home = do {
     cd \<leftarrow> config_dir;
     hd \<leftarrow> home;
     let base = path_join [cd, ''ipgw-meta''];
     Some (migration_paths base
       \<lparr>BaseDir = base, ConfigFile = path_join [base, ''config.yaml''], ProtocolCacheDir = '''',
        MigrationMarker = '''', MigrationJournal = '''', MigrationConfigRecovery = '''',
        MigrationMarkerRecovery = '''', LegacyMetaYAML = path_join [cd, ''ipgw'', ''config.yaml''],
        LegacyUpstream = path_join [hd, ''.ipgw'']\<rparr>)
   }"

definition with_config_path :: "config_paths \<Rightarrow> string \<Rightarrow> config_paths" where
  "with_config_path paths path =
     (if path = '''' then paths
      else migration_paths (path_dir path) (paths\<lparr>ConfigFile := path, BaseDir := path_dir path\<rparr>))"

section \<open>Configuration\<close>

definition SchemaVersion :: int where "SchemaVersion = 1"

datatype credential_provider =
  ProviderKeyring | ProviderEnv | ProviderFile | ProviderPrompt | ProviderOther string

datatype profile_switch = SwitchUnset | ProfileSwitchRefuse | SwitchLogoutCurrent | ProfileSwitchOther string

record credential_ref =
  Provider :: credential_provider
  Reference :: string

record profile =
  ProfileUsername :: string
  ProfileCredential :: credential_ref
  BindIP :: string
  ProfileSwitch :: profile_switch

record config =
  ConfigSchema :: int
  DefaultProfile :: string
  Profiles :: "(string \<times> profile) list"

definition default_config :: config where
  "default_config = \<lparr>ConfigSchema = SchemaVersion, DefaultProfile = '''', Profiles = []\<rparr>"

definition alnum :: "char \<Rightarrow> bool" where
  "alnum c \<longleftrightarrow> is_digit c \<or> is_lower c \<or> is_upper c"

definition profile_name_ok :: "string \<Rightarrow> bool" where
  "profile_name_ok s =
     (case s of [] \<Rightarrow> False
      | c # cs \<Rightarrow> alnum c \<and> length cs \<le> 63 \<and>
          list_all (\<lambda>d. alnum d \<or> d \<in> {CHR ''.'', CHR ''_'', CHR ''-''}) cs)"

definition env_name_ok :: "string \<Rightarrow> bool" where
  "env_name_ok s =
     (case s of [] \<Rightarrow> False
      | c # cs \<Rightarrow> (is_lower c \<or> is_upper c \<or> c = CHR ''_'') \<and>
          list_all (\<lambda>d. alnum d \<or> d = CHR ''_'') cs)"

definition credential_ref_valid :: "credential_ref \<Rightarrow> bool" where
  "credential_ref_valid r =
     (case Provider r of
        ProviderEnv \<Rightarrow> env_name_ok (Reference r)
      | ProviderFile \<Rightarrow> trim_space (Reference r) \<noteq> ''''
      | ProviderKeyring \<Rightarrow> trim_space (Reference r) \<noteq> ''''
      | ProviderPrompt \<Rightarrow> Reference r = ''''
      | ProviderOther _ \<Rightarrow> False)"

definition bind_ip_ok :: "string \<Rightarrow> bool" where
  "bind_ip_ok s =
     (case parse_ipv4 s of None \<Rightarrow> False | Some ip \<Rightarrow> \<not> is_unspecified ip \<and> \<not> is_multicast ip)"

definition profile_valid :: "profile \<Rightarrow> bool" where
  "profile_valid p \<longleftrightarrow>
     ProfileUsername p \<noteq> '''' \<and> trim_space (ProfileUsername p) = ProfileUsername p \<and>
     credential_ref_valid (ProfileCredential p) \<and>
     ProfileSwitch p \<in> {SwitchUnset, ProfileSwitchRefuse, SwitchLogoutCurrent} \<and>
     (BindIP p = '''' \<or> bind_ip_ok (BindIP p))"

definition config_valid :: "config \<Rightarrow> bool" where
  "config_valid c \<longleftrightarrow>
     ConfigSchema c = SchemaVersion \<and>
     (DefaultProfile c \<noteq> '''' \<longrightarrow> map_of (Profiles c) (DefaultProfile c) \<noteq> None) \<and>
     list_all (\<lambda>(name, p). profile_name_ok name \<and> profile_valid p) (Profiles c)"

text \<open>\<open>Config.Profile\<close>: the profile with its name.\<close>

definition config_profile :: "config \<Rightarrow> string \<Rightarrow> (profile \<times> string) option" where
  "config_profile c name0 =
     (let name = (if name0 = '''' then DefaultProfile c else name0) in
      if name = '''' then None
      else map_option (\<lambda>p. (p, name)) (map_of (Profiles c) name))"

lemma config_profile_valid:
  assumes "config_valid c" and "config_profile c name = Some (p, found)"
  shows "profile_valid p \<and> profile_name_ok found \<and> map_of (Profiles c) found = Some p"
proof -
  have "map_of (Profiles c) found = Some p"
    using assms(2) by (auto simp: config_profile_def Let_def split: if_splits)
  then show ?thesis
    using assms(1) map_of_SomeD by (fastforce simp: config_valid_def list_all_iff)
qed

lemma config_profile_default:
  assumes "config_valid c" shows "config_profile c '''' = None \<longleftrightarrow> DefaultProfile c = ''''"
  using assms by (auto simp: config_profile_def config_valid_def Let_def)

text \<open>The names beside a clean path.\<close>

lemma path_clean_suffix:
  assumes "path_is_abs p" "path_clean p = p" "path_dir p \<noteq> p" "length x \<ge> 3" "CHR ''/'' \<notin> set x"
  shows "path_clean (p @ x) = p @ x"
proof -
  obtain ws where ws: "p = abs_path ws" "list_all plain_name ws"
    using assms path_clean_abs path_parts_plain by metis
  have "ws \<noteq> []"
  proof
    assume "ws = []"
    then have "p = ''/''" using ws by (simp add: abs_path_def)
    then have "path_dir p = p" by (simp add: path_dir_def path_split_def path_clean_def path_is_abs_def path_parts_def)
    then show False using assms(3) by simp
  qed
  then obtain vs v where v: "ws = vs @ [v]" by (metis rev_exhaust)
  have "length (v @ x) \<ge> 3" using assms(4) by simp
  then have "v @ x \<noteq> '''' \<and> v @ x \<noteq> ''.'' \<and> v @ x \<noteq> ''..''"
    by (auto dest!: arg_cong [where f = length])
  then have "plain_name (v @ x)" using ws(2) v assms(5) by (auto simp: plain_name_def)
  then have "list_all plain_name (vs @ [v @ x])" using ws(2) v by simp
  moreover have "p @ x = abs_path (vs @ [v @ x])" using ws(1) v by (simp add: abs_path_def join_str_snoc)
  ultimately show ?thesis using path_clean_abs_path by metis
qed

end
