(* ===== verification/ConfigFs.thy ===== *)
theory ConfigFs
  imports ConfigTypes
begin

text \<open>
  The file operations of \<open>internal/config\<close>: exclusive creation and bounded reads of private files
  (\<open>migration_journal.go\<close>), atomic replacement (\<open>store.go\<close>).  The disk maps paths to files; the
  directories are not represented, nor are the temporary files, whose names are fresh.  Every
  system call may fail or be the last one the process makes: the \<open>faults\<close> decide, call by call.
  A file is \<open>Private\<close> when only its owner may access it, \<open>Guarded\<close> when nobody else may write it, and
  \<open>Shared\<close> otherwise; \<open>OtherNode\<close> says whether it is a directory.
  A failing or interrupted call may have had its effect, and a write may have written any part of
  its data.
\<close>

section \<open>Disk and faults\<close>

datatype access = Private | Guarded | Shared

datatype node = PlainFile access string | OtherNode bool

record disk =
  d_files :: "string \<Rightarrow> node option"
  d_keyring :: "string \<Rightarrow> string option"
  d_calls :: nat

datatype fault = Works | Fails nat | Crashes nat

datatype config_error = Crashed | Failure string | PublishedAt string | DurabilityUnknown

type_synonym 'a fsop = "(disk, config_error, 'a) proc"

definition failure :: "string \<Rightarrow> 'a fsop" where
  "failure message = throwP (Failure message)"

text \<open>One system call with its effect, and its effect when it is cut short after \<open>n\<close>.\<close>

definition syscall :: "(nat \<Rightarrow> fault) \<Rightarrow> (disk \<Rightarrow> disk) \<Rightarrow> (nat \<Rightarrow> disk \<Rightarrow> disk) \<Rightarrow> unit fsop" where
  "syscall faults effect partial d =
     (let d1 = d\<lparr>d_calls := Suc (d_calls d)\<rparr> in
      case faults (d_calls d) of
        Works \<Rightarrow> (Inr (), effect d1)
      | Fails n \<Rightarrow> (Inl (Failure ''system call failed''), partial n d1)
      | Crashes n \<Rightarrow> (Inl Crashed, partial n d1))"

text \<open>A call without an effect on files or keyring.\<close>

definition plain_call :: "(nat \<Rightarrow> fault) \<Rightarrow> unit fsop" where
  "plain_call faults = syscall faults id (\<lambda>_. id)"

text \<open>
  Creation, removal and renaming of a file: a failing call has no effect; when the process ends in it,
  the effect has happened as a whole or not at all.
\<close>

definition atomic_call :: "(nat \<Rightarrow> fault) \<Rightarrow> (disk \<Rightarrow> disk) \<Rightarrow> unit fsop" where
  "atomic_call faults effect d =
     (let d1 = d\<lparr>d_calls := Suc (d_calls d)\<rparr> in
      case faults (d_calls d) of
        Works \<Rightarrow> (Inr (), effect d1)
      | Fails _ \<Rightarrow> (Inl (Failure ''system call failed''), d1)
      | Crashes n \<Rightarrow> (Inl Crashed, if n = 0 then d1 else effect d1))"

fun plain_calls :: "(nat \<Rightarrow> fault) \<Rightarrow> nat \<Rightarrow> unit fsop" where
  "plain_calls faults 0 = returnP ()"
| "plain_calls faults (Suc n) = bindP (plain_call faults) (\<lambda>_. plain_calls faults n)"

definition put_file :: "string \<Rightarrow> node option \<Rightarrow> disk \<Rightarrow> disk" where
  "put_file path node d = d\<lparr>d_files := (d_files d)(path := node)\<rparr>"

definition file_at :: "string \<Rightarrow> node option fsop" where
  "file_at path = getsP (\<lambda>d. d_files d path)"

text \<open>A crash is not an error the code can handle.\<close>

definition on_failure :: "'a fsop \<Rightarrow> (config_error \<Rightarrow> 'b fsop) \<Rightarrow> ('a \<Rightarrow> 'b fsop) \<Rightarrow> 'b fsop" where
  "on_failure m handler k = handleP m (\<lambda>e. if e = Crashed then throwP Crashed else handler e) k"

definition ignore_failure :: "unit fsop \<Rightarrow> unit fsop" where
  "ignore_failure m = on_failure m (\<lambda>_. returnP ()) returnP"

definition maxConfigBytes :: nat where "maxConfigBytes = 1048576"

section \<open>Reading and removing\<close>

text \<open>\<open>readBoundedRegularMigrationFile\<close>: \<open>None\<close> when there is no file.\<close>

definition read_regular :: "(nat \<Rightarrow> fault) \<Rightarrow> string \<Rightarrow> string option fsop" where
  "read_regular faults path =
     bindP (plain_call faults) (\<lambda>_.
     bindP (file_at path) (\<lambda>node.
     case node of
       None \<Rightarrow> returnP None
     | Some (OtherNode _) \<Rightarrow> failure ''migration artifact is not a regular file''
     | Some (PlainFile _ data) \<Rightarrow>
         if maxConfigBytes < length data then failure ''migration artifact exceeds the limit''
         else bindP (plain_calls faults 3) (\<lambda>_. returnP (Some data))))"

text \<open>\<open>readBoundedPrivateMigrationFile\<close>.\<close>

definition read_private :: "(nat \<Rightarrow> fault) \<Rightarrow> string \<Rightarrow> string fsop" where
  "read_private faults path =
     bindP (plain_call faults) (\<lambda>_.
     bindP (file_at path) (\<lambda>node.
     case node of
       Some (PlainFile Private data) \<Rightarrow>
         if maxConfigBytes < length data then failure ''private migration file exceeds the limit''
         else bindP (plain_calls faults 2) (\<lambda>_. returnP data)
     | _ \<Rightarrow> failure ''private migration file cannot be opened''))"

text \<open>\<open>os.Lstat\<close>: whether something is there.\<close>

definition path_exists :: "(nat \<Rightarrow> fault) \<Rightarrow> string \<Rightarrow> bool fsop" where
  "path_exists faults path =
     bindP (plain_call faults) (\<lambda>_. bindP (file_at path) (\<lambda>node. returnP (node \<noteq> None)))"

text \<open>\<open>removeRegularMigrationFile\<close>.\<close>

definition remove_regular :: "(nat \<Rightarrow> fault) \<Rightarrow> string \<Rightarrow> bool \<Rightarrow> unit fsop" where
  "remove_regular faults path allow_missing =
     bindP (plain_call faults) (\<lambda>_.
     bindP (file_at path) (\<lambda>node.
     case node of
       None \<Rightarrow> if allow_missing then returnP () else failure ''file does not exist''
     | Some (OtherNode _) \<Rightarrow> failure ''migration path is not a regular file''
     | Some (PlainFile _ _) \<Rightarrow>
         bindP (atomic_call faults (put_file path None)) (\<lambda>_. plain_call faults)))"

section \<open>Writing\<close>

text \<open>
  \<open>writeExclusiveMigrationFile\<close>: directory and its permissions, exclusive creation, mode and
  permissions, write, flush, close; a failure after the creation removes the file again, a failure
  of the last directory flush does not.
\<close>

definition fill_exclusive :: "(nat \<Rightarrow> fault) \<Rightarrow> string \<Rightarrow> string \<Rightarrow> unit fsop" where
  "fill_exclusive faults path data =
     bindP (plain_calls faults 2) (\<lambda>_.
     bindP (syscall faults (put_file path (Some (PlainFile Private data)))
              (\<lambda>n. put_file path (Some (PlainFile Private (take n data))))) (\<lambda>_.
     plain_calls faults 2))"

definition discard_exclusive :: "(nat \<Rightarrow> fault) \<Rightarrow> string \<Rightarrow> unit fsop" where
  "discard_exclusive faults path =
     bindP (ignore_failure (atomic_call faults (put_file path None)))
       (\<lambda>_. ignore_failure (plain_call faults))"

definition write_exclusive :: "(nat \<Rightarrow> fault) \<Rightarrow> string \<Rightarrow> string \<Rightarrow> unit fsop" where
  "write_exclusive faults path data =
     (if maxConfigBytes < length data then failure ''private migration file exceeds the limit''
      else
        bindP (plain_calls faults 2) (\<lambda>_.
        bindP (file_at path) (\<lambda>node.
        if node \<noteq> None then failure ''file exists''
        else
          bindP (atomic_call faults (put_file path (Some (PlainFile Private '''')))) (\<lambda>_.
          on_failure (fill_exclusive faults path data)
            (\<lambda>e. bindP (discard_exclusive faults path) (\<lambda>_. throwP e))
            (\<lambda>_. plain_call faults)))))"

text \<open>
  \<open>atomicWriteFile\<close>: eight calls prepare the temporary file (directory, permissions, create, mode,
  permissions, write, flush, close), one renames it over the target, one flushes the directory.
  With \<open>preserve\<close> an existing file is first copied to \<open>.lkg\<close> in the same way.
\<close>

definition replace_with :: "(nat \<Rightarrow> fault) \<Rightarrow> string \<Rightarrow> string \<Rightarrow> unit fsop" where
  "replace_with faults path data =
     bindP (atomic_call faults (put_file path (Some (PlainFile Private data)))) (\<lambda>_.
     on_failure (plain_call faults) (\<lambda>_. throwP (PublishedAt path)) returnP)"

definition atomic_write_plain :: "(nat \<Rightarrow> fault) \<Rightarrow> string \<Rightarrow> string \<Rightarrow> unit fsop" where
  "atomic_write_plain faults path data =
     bindP (plain_calls faults 8) (\<lambda>_. replace_with faults path data)"

definition preserve_last_known_good :: "(nat \<Rightarrow> fault) \<Rightarrow> string \<Rightarrow> unit fsop" where
  "preserve_last_known_good faults path =
     bindP (plain_call faults) (\<lambda>_.
     bindP (file_at path) (\<lambda>node.
     case node of
       None \<Rightarrow> returnP ()
     | Some (OtherNode _) \<Rightarrow> failure ''existing private file is not a regular file''
     | Some (PlainFile _ data) \<Rightarrow>
         if maxConfigBytes < length data then failure ''existing private file exceeds the limit''
         else bindP (plain_calls faults 3) (\<lambda>_. atomic_write_plain faults (path @ ''.lkg'') data)))"

definition atomic_write :: "(nat \<Rightarrow> fault) \<Rightarrow> string \<Rightarrow> string \<Rightarrow> bool \<Rightarrow> unit fsop" where
  "atomic_write faults path data preserve =
     bindP (plain_calls faults 8) (\<lambda>_.
     bindP (if preserve then preserve_last_known_good faults path else returnP ()) (\<lambda>_.
     replace_with faults path data))"

section \<open>Rules\<close>

text \<open>
  A predicate is \<open>quiet\<close> when it does not read the call counter.  The rules give, for every operation,
  what holds when it returns, and that a failure or crash leaves one of the states on the way.
\<close>

definition uncounted :: "(disk \<Rightarrow> bool) \<Rightarrow> bool" where
  "uncounted P \<longleftrightarrow> (\<forall>d n. P (d\<lparr>d_calls := n\<rparr>) = P d)"

lemma uncounted_files [intro]: "uncounted (\<lambda>d. Q (d_files d) (d_keyring d))"
  by (simp add: uncounted_def)

lemma triple_syscall:
  assumes "uncounted P" and "\<And>d. P d \<Longrightarrow> Q (effect d)"
    and "\<And>d n m. P d \<Longrightarrow> E (Failure m) (partial n d)" and "\<And>d n. P d \<Longrightarrow> E Crashed (partial n d)"
  shows "triple P (syscall faults effect partial) (\<lambda>_. Q) E"
  using assms unfolding triple_def syscall_def uncounted_def Let_def
  by (auto split: fault.splits)

lemma triple_atomic_call:
  assumes "uncounted P" and "\<And>d. P d \<Longrightarrow> Q (effect d)"
    and "\<And>d m. P d \<Longrightarrow> E (Failure m) d" and "\<And>d. P d \<Longrightarrow> E Crashed d" and "\<And>d. Q d \<Longrightarrow> E Crashed d"
  shows "triple P (atomic_call faults effect) (\<lambda>_. Q) E"
  using assms unfolding triple_def atomic_call_def uncounted_def Let_def
  by (auto split: fault.splits)

text \<open>
  A step that may stop the procedure without changing anything ends in \<open>P\<close>; \<open>stops P E\<close> says that the
  postcondition for errors allows this.
\<close>

definition stops :: "(disk \<Rightarrow> bool) \<Rightarrow> (config_error \<Rightarrow> disk \<Rightarrow> bool) \<Rightarrow> bool" where
  "stops P E \<longleftrightarrow> (\<forall>d m. P d \<longrightarrow> E (Failure m) d) \<and> (\<forall>d. P d \<longrightarrow> E Crashed d)"

lemma stopsI [intro]: "(\<And>d m. P d \<Longrightarrow> E (Failure m) d) \<Longrightarrow> (\<And>d. P d \<Longrightarrow> E Crashed d) \<Longrightarrow> stops P E"
  by (simp add: stops_def)

lemma stops_failure: "stops P E \<Longrightarrow> P d \<Longrightarrow> E (Failure m) d"
  and stops_crash: "stops P E \<Longrightarrow> P d \<Longrightarrow> E Crashed d"
  by (simp_all add: stops_def)

lemma stops_weaken: "stops P E \<Longrightarrow> (\<And>d. P' d \<Longrightarrow> P d) \<Longrightarrow> stops P' E"
  by (simp add: stops_def)

lemma triple_plain_call:
  assumes "uncounted P" and "stops P E"
  shows "triple P (plain_call faults) (\<lambda>_. P) E"
  unfolding plain_call_def by (rule triple_syscall) (use assms in \<open>auto simp: stops_def\<close>)

lemma triple_plain_calls:
  assumes "uncounted P" and "stops P E"
  shows "triple P (plain_calls faults n) (\<lambda>_. P) E"
proof (induction n)
  case (Suc n)
  show ?case unfolding plain_calls.simps by (rule triple_bind [OF triple_plain_call [OF assms] Suc])
qed (simp add: triple_return)

lemma triple_file_at: "(\<And>d. P d \<Longrightarrow> Q (d_files d path) d) \<Longrightarrow> triple P (file_at path) Q E"
  unfolding file_at_def by (rule triple_gets)

lemma triple_file_at_eq: "triple P (file_at path) (\<lambda>node d. P d \<and> d_files d path = node) E"
  by (rule triple_file_at) simp

lemma triple_failure: "stops P E \<Longrightarrow> triple P (failure m) Q E"
  unfolding failure_def by (rule triple_throw) (rule stops_failure)

lemma triple_on_failure:
  assumes "triple P m R F" and "\<And>x. triple (R x) (k x) Q E"
    and "\<And>e. e \<noteq> Crashed \<Longrightarrow> triple (F e) (handler e) Q E" and "\<And>d. F Crashed d \<Longrightarrow> E Crashed d"
  shows "triple P (on_failure m handler k) Q E"
  unfolding on_failure_def
  by (rule triple_handle [OF assms(1,2)]) (auto intro!: triple_throw assms)

lemma triple_ignore_failure:
  assumes "triple P m (\<lambda>_. Q) F" and "\<And>e d. e \<noteq> Crashed \<Longrightarrow> F e d \<Longrightarrow> Q d" and "\<And>d. F Crashed d \<Longrightarrow> E Crashed d"
  shows "triple P (ignore_failure m) (\<lambda>_. Q) E"
  unfolding ignore_failure_def
  by (rule triple_on_failure [OF assms(1)]) (auto intro!: triple_return assms)

text \<open>Operations that only look.\<close>

lemma triple_read_regular:
  assumes "uncounted P" and "stops P E"
  shows "triple P (read_regular faults path)
    (\<lambda>r d. P d \<and> (case r of None \<Rightarrow> d_files d path = None
       | Some s \<Rightarrow> \<exists>a. d_files d path = Some (PlainFile a s) \<and> length s \<le> maxConfigBytes)) E"
proof -
  let ?R = "\<lambda>node d. P d \<and> d_files d path = node"
  have u: "uncounted (?R node)" for node using assms(1) by (simp add: uncounted_def)
  have s: "stops (?R node) E" for node using assms(2) by (simp add: stops_def)
  show ?thesis
    unfolding read_regular_def
    apply (rule triple_bind [OF triple_plain_call [OF assms]])
    apply (rule triple_bind [OF triple_file_at_eq])
    apply (auto split: option.splits node.splits intro!: triple_return triple_failure s
        triple_bind [OF triple_plain_calls [OF u]])
    done
qed

lemma triple_read_private:
  assumes "uncounted P" and "stops P E"
  shows "triple P (read_private faults path)
    (\<lambda>s d. P d \<and> d_files d path = Some (PlainFile Private s) \<and> length s \<le> maxConfigBytes) E"
proof -
  let ?R = "\<lambda>node d. P d \<and> d_files d path = node"
  have u: "uncounted (?R node)" for node using assms(1) by (simp add: uncounted_def)
  have s: "stops (?R node) E" for node using assms(2) by (simp add: stops_def)
  show ?thesis
    unfolding read_private_def
    apply (rule triple_bind [OF triple_plain_call [OF assms]])
    apply (rule triple_bind [OF triple_file_at_eq])
    apply (auto split: option.splits node.splits access.splits intro!: triple_return triple_failure s
        triple_bind [OF triple_plain_calls [OF u]])
    done
qed

lemma triple_path_exists:
  assumes "uncounted P" and "stops P E"
  shows "triple P (path_exists faults path) (\<lambda>b d. P d \<and> (b \<longleftrightarrow> d_files d path \<noteq> None)) E"
  unfolding path_exists_def
  by (rule triple_bind [OF triple_plain_call [OF assms]], rule triple_bind [OF triple_file_at_eq])
    (auto intro!: triple_return)

text \<open>
  Removal and creation of a file.  \<open>preserved path P\<close>: the predicate does not depend on the file.
\<close>

definition preserved :: "string \<Rightarrow> (disk \<Rightarrow> bool) \<Rightarrow> bool" where
  "preserved path P \<longleftrightarrow> (\<forall>d node. P (put_file path node d) = P d)"

lemma triple_remove_regular:
  assumes "uncounted P" and "stops P E" and "stops Q E" "uncounted Q"
    and "\<And>d. P d \<Longrightarrow> Q (put_file path None d)"
  shows "triple P (remove_regular faults path allow_missing)
    (\<lambda>_ d. Q d \<or> P d \<and> d_files d path = None) E"
proof -
  let ?R = "\<lambda>node d. P d \<and> d_files d path = node"
  have u: "uncounted (?R node)" for node using assms(1) by (simp add: uncounted_def)
  have s: "stops (?R node) E" for node using assms(2) by (simp add: stops_def)
  have f: "triple (?R node) (atomic_call faults (put_file path None)) (\<lambda>_. Q) E" for node
    by (rule triple_atomic_call) (use u s assms in \<open>auto simp: stops_def\<close>)
  have p: "triple Q (plain_call faults) (\<lambda>_ d. Q d \<or> P d \<and> d_files d path = None) E"
    by (rule triple_weaken [OF triple_plain_call [where P = Q and E = E]]) (use assms in auto)
  show ?thesis
    unfolding remove_regular_def
    apply (rule triple_bind [OF triple_plain_call [OF assms(1,2)]])
    apply (rule triple_bind [OF triple_file_at_eq])
    apply (auto split: option.splits node.splits intro!: triple_return triple_failure s
        triple_bind [OF f p])
    done
qed

text \<open>
  Replacement: \<open>P\<close> holds before the rename and \<open>Q\<close> after it; only a crash or a failing directory flush
  can end the procedure in \<open>Q\<close> with an error.
\<close>

lemma triple_replace_with:
  assumes "uncounted P" "stops P E" "uncounted Q"
    and "\<And>d. P d \<Longrightarrow> Q (put_file path (Some (PlainFile Private data)) d)"
    and "\<And>d. Q d \<Longrightarrow> E Crashed d" "\<And>d. Q d \<Longrightarrow> E (PublishedAt path) d"
  shows "triple P (replace_with faults path data) (\<lambda>_. Q) E"
proof -
  let ?F = "\<lambda>(_ :: config_error) d. Q d"
  have r: "triple P (atomic_call faults (put_file path (Some (PlainFile Private data)))) (\<lambda>_. Q) E"
    by (rule triple_atomic_call) (use assms in \<open>auto simp: stops_def\<close>)
  have s: "triple Q (plain_call faults) (\<lambda>_. Q) ?F"
    by (rule triple_plain_call) (auto simp: assms)
  show ?thesis
    unfolding replace_with_def
    by (rule triple_bind [OF r triple_on_failure [OF s]]) (auto intro!: triple_throw triple_return assms)
qed

lemma triple_atomic_write_plain:
  assumes "uncounted P" "stops P E" "uncounted Q"
    and "\<And>d. P d \<Longrightarrow> Q (put_file path (Some (PlainFile Private data)) d)"
    and "\<And>d. Q d \<Longrightarrow> E Crashed d" "\<And>d. Q d \<Longrightarrow> E (PublishedAt path) d"
  shows "triple P (atomic_write_plain faults path data) (\<lambda>_. Q) E"
  unfolding atomic_write_plain_def
  by (rule triple_bind [OF triple_plain_calls [OF assms(1,2)] triple_replace_with [OF assms]])

lemma triple_preserve:
  assumes "uncounted P" "stops P E" "uncounted R" "stops R E"
    and "\<And>d a s. P d \<Longrightarrow> d_files d path = Some (PlainFile a s) \<Longrightarrow>
           R (put_file (path @ ''.lkg'') (Some (PlainFile Private s)) d)"
    and "\<And>d. P d \<Longrightarrow> d_files d path = None \<Longrightarrow> R d"
    and "\<And>d. R d \<Longrightarrow> E (PublishedAt (path @ ''.lkg'')) d"
  shows "triple P (preserve_last_known_good faults path) (\<lambda>_. R) E"
proof -
  let ?R = "\<lambda>node d. P d \<and> d_files d path = node"
  have u: "uncounted (?R node)" for node using assms(1) by (simp add: uncounted_def)
  have s: "stops (?R node) E" for node using assms(2) by (simp add: stops_def)
  have w: "triple (?R (Some (PlainFile a t))) (atomic_write_plain faults (path @ ''.lkg'') t) (\<lambda>_. R) E"
    for a t
    by (rule triple_atomic_write_plain) (use u s assms in \<open>auto simp: stops_def\<close>)
  show ?thesis
    unfolding preserve_last_known_good_def
    apply (rule triple_bind [OF triple_plain_call [OF assms(1,2)]])
    apply (rule triple_bind [OF triple_file_at_eq])
    apply (auto split: option.splits node.splits intro!: triple_return triple_failure s assms(6)
        triple_bind [OF triple_plain_calls [OF u s] w])
    done
qed

lemma triple_atomic_write:
  assumes "uncounted P" "stops P E" "uncounted R" "stops R E" "uncounted Q"
    and "triple P (if preserve then preserve_last_known_good faults path else returnP ()) (\<lambda>_. R) E"
    and "\<And>d. R d \<Longrightarrow> Q (put_file path (Some (PlainFile Private data)) d)"
    and "\<And>d. Q d \<Longrightarrow> E Crashed d" "\<And>d. Q d \<Longrightarrow> E (PublishedAt path) d"
  shows "triple P (atomic_write faults path data preserve) (\<lambda>_. Q) E"
  unfolding atomic_write_def
  by (rule triple_bind [OF triple_plain_calls [OF assms(1,2)]], rule triple_bind [OF assms(6)],
      rule triple_replace_with) (use assms in auto)

lemma triple_write_exclusive:
  assumes "uncounted P" "stops P E"
    and gone: "\<And>d. P d \<Longrightarrow> P (put_file path None d)"
    and part: "\<And>d n. P d \<Longrightarrow> P (put_file path (Some (PlainFile Private (take n data))) d)"
  shows "triple P (write_exclusive faults path data)
    (\<lambda>_ d. P d \<and> d_files d path = Some (PlainFile Private data)) E"
proof -
  let ?Q = "\<lambda>d. P d \<and> d_files d path = Some (PlainFile Private data)"
  have uQ: "uncounted ?Q" using assms(1) by (simp add: uncounted_def)
  have sQ: "stops ?Q E" using assms(2) by (simp add: stops_def)
  have whole: "P (put_file path (Some (PlainFile Private data)) d)" if "P d" for d
    using part [OF that, of "length data"] by simp
  have empty: "P (put_file path (Some (PlainFile Private '''')) d)" if "P d" for d
    using part [OF that, of 0] by simp
  have p: "triple P (plain_calls faults n) (\<lambda>_. P) F" if "stops P F" for n F
    by (rule triple_plain_calls [OF assms(1) that])
  have create: "triple P (atomic_call faults (put_file path (Some (PlainFile Private '''')))) (\<lambda>_. P) E"
    by (rule triple_atomic_call) (use assms(1,2) empty in \<open>auto simp: stops_def\<close>)
  have fill: "triple P (fill_exclusive faults path data) (\<lambda>_. ?Q) (\<lambda>e d. P d \<and> (e = Crashed \<or> (\<exists>m. e = Failure m)))"
    unfolding fill_exclusive_def
    apply (rule triple_bind [OF p])
     apply (auto simp: stops_def)[1]
    apply (rule triple_bind [where R = "\<lambda>_. ?Q"])
     apply (rule triple_syscall [OF assms(1)])
       apply (auto intro: whole part, simp_all add: put_file_def)[3]
    apply (rule triple_plain_calls [OF uQ])
    apply (auto simp: stops_def)
    done
  have discard: "triple P (discard_exclusive faults path) (\<lambda>_. P) E"
    unfolding discard_exclusive_def
    apply (rule triple_bind)
     apply (rule triple_ignore_failure [where Q = P and F = "\<lambda>_. P"])
       apply (rule triple_atomic_call)
           apply (use assms(1,2) gone in \<open>auto simp: stops_def\<close>)[7]
    apply (rule triple_ignore_failure [where Q = P and F = "\<lambda>_. P"])
      apply (rule triple_plain_call)
       apply (use assms(1,2) in \<open>auto simp: stops_def\<close>)
    done
  have undo: "triple (\<lambda>d. P d \<and> (e = Crashed \<or> (\<exists>m. e = Failure m)))
      (bindP (discard_exclusive faults path) (\<lambda>_. throwP e)) (\<lambda>_. ?Q) E" for e
  proof (cases "e = Crashed \<or> (\<exists>m. e = Failure m)")
    case True
    then have "triple P (bindP (discard_exclusive faults path) (\<lambda>_. throwP e)) (\<lambda>_. ?Q) E"
      using assms(2) by (intro triple_bind [OF discard] triple_throw) (auto simp: stops_def)
    then show ?thesis by (rule triple_weaken) simp_all
  qed (simp add: triple_def)
  show ?thesis
    unfolding write_exclusive_def
    apply (rule triple_if)
     apply (rule triple_failure [OF assms(2)])
    apply (rule triple_bind [OF p [OF assms(2)]])
    apply (rule triple_bind [OF triple_file_at_eq])
    apply (rule triple_if)
     apply (rule triple_failure, use assms(2) in \<open>simp add: stops_def\<close>)
    apply (rule triple_weaken [where P' = P and Q' = "\<lambda>_. ?Q" and E' = E])
       apply (rule triple_bind [OF create])
       apply (rule triple_on_failure [OF fill])
         apply (rule triple_plain_call [OF uQ sQ])
        apply (rule undo)
       apply (use assms(2) in \<open>auto simp: stops_def\<close>)
    done
qed

end
