(* ===== verification/ConfigStore.thy ===== *)
theory ConfigStore
  imports ConfigFs
begin

text \<open>
  \<open>internal/config/store.go\<close> and \<open>store_lock_unix.go\<close>: loading and replacing the configuration under
  the cross-process lock.  YAML is a library: its strict decoder and its encoder are functions of the
  \<open>config_env\<close>, as are the digest, the lower-case mapping of paths, the working directory and what a
  keyring keeps of a secret stored under a reference.
\<close>

section \<open>Environment\<close>

record config_env =
  decode_config :: "string \<Rightarrow> config option"
  marshal_config :: "config \<Rightarrow> string option"
  digest :: "string \<Rightarrow> string"
  lower_case :: "string \<Rightarrow> string"
  working_dir :: "string option"
  stored_as :: "string \<Rightarrow> string \<Rightarrow> string"

text \<open>Decoding gives back what was encoded.\<close>

definition config_codec :: "'a config_env_scheme \<Rightarrow> bool" where
  "config_codec en \<longleftrightarrow> (\<forall>c data. marshal_config en c = Some data \<longrightarrow> decode_config en data = Some c)"

section \<open>Loading and encoding\<close>

text \<open>\<open>openVerifiedStoreConfig\<close>: \<open>None\<close> when there is no file.\<close>

definition open_verified :: "(nat \<Rightarrow> fault) \<Rightarrow> string \<Rightarrow> string option fsop" where
  "open_verified faults path =
     bindP (plain_calls faults 3) (\<lambda>_.
     bindP (file_at path) (\<lambda>node.
     case node of
       None \<Rightarrow> returnP None
     | Some (OtherNode _) \<Rightarrow> failure ''config path is not a regular file''
     | Some (PlainFile a data) \<Rightarrow>
         if a = Shared then failure ''config file is open to other users''
         else bindP (plain_call faults) (\<lambda>_. returnP (Some data))))"

definition decode_valid :: "'a config_env_scheme \<Rightarrow> string \<Rightarrow> config option" where
  "decode_valid en data =
     (if maxConfigBytes < length data then None
      else (case decode_config en data of None \<Rightarrow> None
        | Some c \<Rightarrow> if config_valid c then Some c else None))"

text \<open>\<open>loadConfigFile\<close>: the configuration and whether there is a file.\<close>

definition load_config_file ::
    "(nat \<Rightarrow> fault) \<Rightarrow> 'a config_env_scheme \<Rightarrow> string \<Rightarrow> (config \<times> bool) fsop" where
  "load_config_file faults en path =
     bindP (open_verified faults path) (\<lambda>found.
     case found of
       None \<Rightarrow> returnP (default_config, False)
     | Some data \<Rightarrow>
         bindP (plain_call faults) (\<lambda>_.
         case decode_valid en data of
           None \<Rightarrow> failure ''config is invalid''
         | Some c \<Rightarrow> returnP (c, True)))"

definition encode_config :: "'a config_env_scheme \<Rightarrow> config \<Rightarrow> string option" where
  "encode_config en c =
     (if \<not> config_valid c then None
      else (case marshal_config en c of None \<Rightarrow> None
        | Some data \<Rightarrow> if maxConfigBytes < length data then None else Some data))"

section \<open>Store\<close>

record store =
  StorePath :: string
  StoreJournal :: string

definition path_abs :: "'a config_env_scheme \<Rightarrow> string \<Rightarrow> string option" where
  "path_abs en path =
     (if path_is_abs path then Some (path_clean path)
      else map_option (\<lambda>dir. path_join [dir, path]) (working_dir en))"

definition resolved_path :: "'a config_env_scheme \<Rightarrow> store \<Rightarrow> string option" where
  "resolved_path en st =
     (if StorePath st = '''' then None
      else (case path_abs en (StorePath st) of None \<Rightarrow> None
        | Some p \<Rightarrow>
            let path = path_clean p in if path_dir path = path then None else Some path))"

text \<open>\<open>resolveOptionalStorePath\<close>, with the default the caller puts for an empty path.\<close>

definition resolved_journal :: "'a config_env_scheme \<Rightarrow> store \<Rightarrow> string \<Rightarrow> string option" where
  "resolved_journal en st path =
     (if StoreJournal st = '''' then Some (path_join [path_dir path, ''migration-v1.pending.yaml''])
      else map_option path_clean (path_abs en (StoreJournal st)))"

definition lock_path :: "string \<Rightarrow> string" where
  "lock_path path = path @ ''.lock''"

text \<open>
  \<open>acquireStoreMutationLock\<close>: the directory is opened and verified, the lock file opened or created,
  verified, locked and verified again.  Other processes wait meanwhile, so that the disk of the model
  only changes by the steps of the holder.
\<close>

definition acquire_lock :: "(nat \<Rightarrow> fault) \<Rightarrow> string \<Rightarrow> unit fsop" where
  "acquire_lock faults path =
     bindP (plain_calls faults 3) (\<lambda>_.
     bindP (file_at (lock_path path)) (\<lambda>node.
     case node of
       None \<Rightarrow>
         bindP (atomic_call faults (put_file (lock_path path) (Some (PlainFile Private ''''))))
           (\<lambda>_. plain_calls faults 3)
     | Some (PlainFile Private _) \<Rightarrow> plain_calls faults 4
     | Some _ \<Rightarrow> failure ''config lock is not private''))"

definition release_lock :: "(nat \<Rightarrow> fault) \<Rightarrow> unit fsop" where
  "release_lock faults = ignore_failure (plain_call faults)"

definition with_lock :: "(nat \<Rightarrow> fault) \<Rightarrow> string \<Rightarrow> 'a fsop \<Rightarrow> 'a fsop" where
  "with_lock faults path m =
     bindP (acquire_lock faults path) (\<lambda>_.
     on_failure m
       (\<lambda>e. bindP (release_lock faults) (\<lambda>_. throwP e))
       (\<lambda>x. bindP (release_lock faults) (\<lambda>_. returnP x)))"

text \<open>\<open>Store.withMutationLock\<close>; the callback gets the paths of the \<open>lockedStore\<close>.\<close>

definition with_mutation_lock ::
    "(nat \<Rightarrow> fault) \<Rightarrow> 'e config_env_scheme \<Rightarrow> store \<Rightarrow> (string \<Rightarrow> string \<Rightarrow> 'a fsop) \<Rightarrow> 'a fsop" where
  "with_mutation_lock faults en st mutate =
     (case resolved_path en st of
        None \<Rightarrow> failure ''config path is required''
      | Some path \<Rightarrow>
          (case resolved_journal en st path of
             None \<Rightarrow> failure ''resolve migration journal path''
           | Some journal \<Rightarrow> with_lock faults path (mutate path journal)))"

definition reject_pending :: "(nat \<Rightarrow> fault) \<Rightarrow> string \<Rightarrow> unit fsop" where
  "reject_pending faults journal =
     bindP (path_exists faults journal) (\<lambda>pending.
     if pending then failure ''pending migration journal exists'' else returnP ())"

text \<open>\<open>classifyConfigWriteError\<close>.\<close>

definition classify_write :: "string \<Rightarrow> config_error \<Rightarrow> config_error" where
  "classify_write path e =
     (case e of
        PublishedAt p \<Rightarrow> if path_clean p = path_clean path then DurabilityUnknown else e
      | _ \<Rightarrow> e)"

definition replace_prepared :: "(nat \<Rightarrow> fault) \<Rightarrow> string \<Rightarrow> string \<Rightarrow> bool \<Rightarrow> unit fsop" where
  "replace_prepared faults path data preserve =
     bindP (open_verified faults path) (\<lambda>_.
     on_failure (atomic_write faults path data preserve) (\<lambda>e. throwP (classify_write path e)) returnP)"

definition store_save :: "(nat \<Rightarrow> fault) \<Rightarrow> 'e config_env_scheme \<Rightarrow> store \<Rightarrow> config \<Rightarrow> unit fsop" where
  "store_save faults en st cfg =
     (case encode_config en cfg of
        None \<Rightarrow> failure ''validate config''
      | Some data \<Rightarrow>
          with_mutation_lock faults en st (\<lambda>path journal.
            bindP (reject_pending faults journal) (\<lambda>_. replace_prepared faults path data True)))"

text \<open>\<open>Store.Update\<close>; the callback changes the configuration or refuses.\<close>

definition store_update ::
    "(nat \<Rightarrow> fault) \<Rightarrow> 'e config_env_scheme \<Rightarrow> store \<Rightarrow> (config \<Rightarrow> config option) \<Rightarrow> unit fsop" where
  "store_update faults en st change =
     with_mutation_lock faults en st (\<lambda>path journal.
       bindP (reject_pending faults journal) (\<lambda>_.
       bindP (load_config_file faults en path) (\<lambda>(cfg, _).
       case change cfg of
         None \<Rightarrow> failure ''update refused''
       | Some cfg' \<Rightarrow>
           (case encode_config en cfg' of
              None \<Rightarrow> failure ''validate config''
            | Some data \<Rightarrow> replace_prepared faults path data True))))"

definition store_load :: "(nat \<Rightarrow> fault) \<Rightarrow> 'e config_env_scheme \<Rightarrow> store \<Rightarrow> (config \<times> bool) fsop" where
  "store_load faults en st =
     (case resolved_path en st of
        None \<Rightarrow> failure ''config path is required''
      | Some path \<Rightarrow> load_config_file faults en path)"

section \<open>Saving\<close>

text \<open>
  \<open>keeps X f k\<close>: outside the paths \<open>X\<close> the files are \<open>f\<close>, and the keyring is \<open>k\<close>.
\<close>

definition keeps :: "string set \<Rightarrow> (string \<Rightarrow> node option) \<Rightarrow> (string \<Rightarrow> string option) \<Rightarrow> disk \<Rightarrow> bool" where
  "keeps X f k d \<longleftrightarrow> (\<forall>p. p \<notin> X \<longrightarrow> d_files d p = f p) \<and> d_keyring d = k"

lemma uncounted_keeps [simp]: "uncounted (keeps X f k)"
  by (simp add: uncounted_def keeps_def)

lemma keeps_put [simp]: "p \<in> X \<Longrightarrow> keeps X f k (put_file p node d) = keeps X f k d"
  by (auto simp: keeps_def put_file_def)

lemma keeps_self [simp]: "keeps X (d_files d) (d_keyring d) d"
  by (simp add: keeps_def)

lemma keeps_mono: "keeps X f k d \<Longrightarrow> X \<subseteq> Y \<Longrightarrow> keeps Y f k d"
  by (auto simp: keeps_def)

lemma keepsD: "keeps X f k d \<Longrightarrow> p \<notin> X \<Longrightarrow> d_files d p = f p"
  by (simp add: keeps_def)

lemma uncounted_conj: "uncounted P \<Longrightarrow> uncounted Q \<Longrightarrow> uncounted (\<lambda>d. P d \<and> Q d)"
  by (simp add: uncounted_def)

lemma uncounted_const [simp]: "uncounted (\<lambda>_. b)"
  by (simp add: uncounted_def)

lemma uncounted_file [simp]: "uncounted (\<lambda>d. P (d_files d path))"
  by (simp add: uncounted_def)

lemma files_put [simp]: "d_files (put_file p node d) q = (if q = p then node else d_files d q)"
  and keyring_put [simp]: "d_keyring (put_file p node d) = d_keyring d"
  by (simp_all add: put_file_def)

lemma side_paths [simp]:
  "path @ ''.lkg'' \<noteq> path" "path \<noteq> path @ ''.lkg''" "lock_path path \<noteq> path" "path \<noteq> lock_path path"
  "lock_path path \<noteq> path @ ''.lkg''" "path @ ''.lkg'' \<noteq> lock_path path"
  by (simp_all add: lock_path_def)

text \<open>Taking the lock leads from \<open>P\<close> to \<open>L\<close>: its file may be new.\<close>

lemma triple_acquire_lock:
  assumes "uncounted P" "stops P E" "uncounted L" "stops L E"
    "\<And>d s. P d \<Longrightarrow> d_files d (lock_path path) = Some (PlainFile Private s) \<Longrightarrow> L d"
    and "\<And>d. P d \<Longrightarrow> d_files d (lock_path path) = None \<Longrightarrow>
           L (put_file (lock_path path) (Some (PlainFile Private '''')) d)"
  shows "triple P (acquire_lock faults path) (\<lambda>_. L) E"
proof -
  let ?R = "\<lambda>node d. P d \<and> d_files d (lock_path path) = node"
  have u: "uncounted (?R node)" for node using assms(1) by (simp add: uncounted_def)
  have s: "stops (?R node) E" for node using assms(2) by (simp add: stops_def)
  have c: "triple (?R (Some (PlainFile Private s))) (plain_calls faults n) (\<lambda>_. L) E" for s n
    by (rule triple_weaken [OF triple_plain_calls [OF u s]]) (auto intro: assms(5))
  have create: "triple (?R None) (atomic_call faults (put_file (lock_path path) (Some (PlainFile Private ''''))))
      (\<lambda>_. L) E"
    by (rule triple_atomic_call) (use u s assms in \<open>auto simp: stops_def\<close>)
  show ?thesis
    unfolding acquire_lock_def
    apply (rule triple_bind [OF triple_plain_calls [OF assms(1,2)]])
    apply (rule triple_bind [OF triple_file_at_eq])
    apply (auto split: option.splits node.splits access.splits intro!: triple_failure s c
        triple_bind [OF create triple_plain_calls [OF assms(3,4)]])
    done
qed

text \<open>The lock is released whatever the locked procedure returns.\<close>

lemma triple_with_lock_from:
  assumes "uncounted P" "stops P E" "uncounted L" "stops L E"
    "\<And>d s. P d \<Longrightarrow> d_files d (lock_path path) = Some (PlainFile Private s) \<Longrightarrow> L d"
    and "\<And>d. P d \<Longrightarrow> d_files d (lock_path path) = None \<Longrightarrow>
           L (put_file (lock_path path) (Some (PlainFile Private '''')) d)"
    and body: "triple L m Q E" and "\<And>x. uncounted (Q x)" "\<And>x d. Q x d \<Longrightarrow> E Crashed d"
    and "\<And>e. uncounted (E e)" "\<And>e d. E e d \<Longrightarrow> E Crashed d"
  shows "triple P (with_lock faults path m) Q E"
proof -
  have r: "triple R (release_lock faults) (\<lambda>_. R) E" if "uncounted R" "\<And>d. R d \<Longrightarrow> E Crashed d" for R
    unfolding release_lock_def
    by (rule triple_ignore_failure [where Q = R and F = "\<lambda>_. R"])
      (use that in \<open>auto intro!: triple_plain_call\<close>)
  show ?thesis
    unfolding with_lock_def
    apply (rule triple_bind [OF triple_acquire_lock [OF assms(1-6)]], assumption, assumption, assumption, assumption)
    apply (rule triple_on_failure [OF body])
      apply (rule triple_bind [OF r])
        apply (use assms(8-) in \<open>auto intro!: triple_return\<close>)[3]
     apply (rule triple_bind [OF r])
       apply (use assms(8-) in \<open>auto intro!: triple_throw\<close>)
    done
qed

lemma triple_with_lock:
  assumes "uncounted P" "preserved (lock_path path) P" "stops P E"
    and "triple P m Q E" and "\<And>x. uncounted (Q x)" "\<And>x d. Q x d \<Longrightarrow> E Crashed d"
    and "\<And>e. uncounted (E e)" "\<And>e d. E e d \<Longrightarrow> E Crashed d"
  shows "triple P (with_lock faults path m) Q E"
  by (rule triple_with_lock_from [OF assms(1,3,1,3) _ _ assms(4)]) (use assms in \<open>auto simp: preserved_def\<close>)

lemma triple_reject_pending:
  assumes "uncounted P" "stops P E"
  shows "triple P (reject_pending faults journal) (\<lambda>_ d. P d \<and> d_files d journal = None) E"
  unfolding reject_pending_def
  apply (rule triple_bind [OF triple_path_exists [OF assms]])
  apply (rule triple_if)
   apply (rule triple_failure, use assms(2) in \<open>simp add: stops_def\<close>)
  apply (auto intro!: triple_return)
  done

lemma triple_open_verified:
  assumes "uncounted P" "stops P E"
  shows "triple P (open_verified faults path)
    (\<lambda>r d. P d \<and> (case r of None \<Rightarrow> d_files d path = None
       | Some s \<Rightarrow> \<exists>a. a \<noteq> Shared \<and> d_files d path = Some (PlainFile a s))) E"
proof -
  let ?R = "\<lambda>node d. P d \<and> d_files d path = node"
  have u: "uncounted (?R node)" for node using assms(1) by (simp add: uncounted_def)
  have s: "stops (?R node) E" for node using assms(2) by (simp add: stops_def)
  show ?thesis
    unfolding open_verified_def
    apply (rule triple_bind [OF triple_plain_calls [OF assms]])
    apply (rule triple_bind [OF triple_file_at_eq])
    apply (auto split: option.splits node.splits intro!: triple_return triple_failure s
        triple_bind [OF triple_plain_call [OF u]])
    done
qed

lemma triple_load_config_file:
  assumes "uncounted P" "stops P E"
  shows "triple P (load_config_file faults en path)
    (\<lambda>r d. P d \<and> (if snd r then \<exists>a s. a \<noteq> Shared \<and> d_files d path = Some (PlainFile a s) \<and>
                              decode_valid en s = Some (fst r)
                  else d_files d path = None \<and> fst r = default_config)) E"
proof -
  let ?R = "\<lambda>r d. P d \<and> (case r of None \<Rightarrow> d_files d path = None
       | Some s \<Rightarrow> \<exists>a. a \<noteq> Shared \<and> d_files d path = Some (PlainFile a s))"
  have u: "uncounted (?R r)" for r using assms(1) by (cases r) (simp_all add: uncounted_def)
  have s: "stops (?R r) E" for r using assms(2) by (simp add: stops_def)
  show ?thesis
    unfolding load_config_file_def
    apply (rule triple_bind [OF triple_open_verified [OF assms]])
    subgoal for r
      using u [of r] s [of r]
      by (cases r) (auto split: option.splits intro!: triple_return triple_failure
          triple_bind [OF triple_plain_call])
    done
qed

text \<open>
  What saving \<open>data\<close> at \<open>path\<close> may leave: the configuration is replaced as a whole and the earlier one is
  kept beside it, or it is untouched.
\<close>

definition saved :: "string \<Rightarrow> string \<Rightarrow> (string \<Rightarrow> node option) \<Rightarrow> (string \<Rightarrow> string option) \<Rightarrow> disk \<Rightarrow> bool" where
  "saved path data f k d \<longleftrightarrow>
     keeps {path, path @ ''.lkg'', lock_path path} f k d \<and>
     d_files d path = Some (PlainFile Private data) \<and>
     (\<forall>a old. f path = Some (PlainFile a old) \<longrightarrow>
        d_files d (path @ ''.lkg'') = Some (PlainFile Private old))"

definition unsaved :: "string \<Rightarrow> (string \<Rightarrow> node option) \<Rightarrow> (string \<Rightarrow> string option) \<Rightarrow> disk \<Rightarrow> bool" where
  "unsaved path f k d \<longleftrightarrow> keeps {path @ ''.lkg'', lock_path path} f k d"

definition save_error ::
    "string \<Rightarrow> string \<Rightarrow> (string \<Rightarrow> node option) \<Rightarrow> (string \<Rightarrow> string option) \<Rightarrow>
       config_error \<Rightarrow> disk \<Rightarrow> bool" where
  "save_error path data f k e d \<longleftrightarrow>
     (case e of
        Crashed \<Rightarrow> unsaved path f k d \<or> saved path data f k d
      | DurabilityUnknown \<Rightarrow> saved path data f k d
      | _ \<Rightarrow> unsaved path f k d)"

lemma uncounted_saved [simp]: "uncounted (saved path data f k)"
  and uncounted_unsaved [simp]: "uncounted (unsaved path f k)"
  by (simp_all add: uncounted_def saved_def unsaved_def keeps_def)

lemma uncounted_save_error [simp]: "uncounted (save_error path data f k e)"
  by (cases e) (simp_all add: save_error_def uncounted_def saved_def unsaved_def keeps_def)

lemma save_error_crash: "save_error path data f k e d \<Longrightarrow> save_error path data f k Crashed d"
  by (cases e) (simp_all add: save_error_def)

lemma stops_unsaved [simp]: "stops (unsaved path f k) (save_error path data f k)"
  by (auto simp: save_error_def)

lemma stops_locked [simp]: "stops (keeps {lock_path path} f k) (save_error path data f k)"
  by (rule stops_weaken [OF stops_unsaved]) (auto simp: unsaved_def keeps_def)

text \<open>The working directory is an absolute path, and so is every resolved path; it is clean and names a file.\<close>

definition absolute_cwd :: "'a config_env_scheme \<Rightarrow> bool" where
  "absolute_cwd en \<longleftrightarrow> (\<forall>dir. working_dir en = Some dir \<longrightarrow> path_is_abs dir)"

definition file_path :: "string \<Rightarrow> bool" where
  "file_path path \<longleftrightarrow> path_is_abs path \<and> path_clean path = path \<and> path_dir path \<noteq> path"

lemma path_clean_is_abs: "path_is_abs p \<Longrightarrow> path_is_abs (path_clean p)"
  by (simp add: path_clean_abs)

lemma path_join_is_abs: "path_is_abs dir \<Longrightarrow> path_is_abs (path_join [dir, p])"
  using path_clean_is_abs [of dir] path_clean_is_abs [of "dir @ ''/'' @ p"]
  by (cases dir) (auto simp: path_join_def path_is_abs_def)

lemma resolved_path_file:
  assumes "resolved_path en st = Some path" "absolute_cwd en"
  shows "file_path path"
  using assms
  by (auto simp: resolved_path_def path_abs_def absolute_cwd_def file_path_def Let_def
      intro: path_clean_is_abs path_join_is_abs path_clean_idem split: if_splits option.splits)

lemma triple_replace_prepared:
  assumes "file_path path"
  shows "triple (keeps {lock_path path} f k) (replace_prepared faults path data True)
     (\<lambda>_. saved path data f k) (save_error path data f k)"
proof -
  have lkg: "path_clean (path @ ''.lkg'') = path @ ''.lkg''" "path_clean path = path"
    using assms by (simp_all add: file_path_def path_clean_suffix)
  let ?P = "keeps {lock_path path} f k"
  let ?R = "\<lambda>d. unsaved path f k d \<and> (\<forall>a old. f path = Some (PlainFile a old) \<longrightarrow>
        d_files d (path @ ''.lkg'') = Some (PlainFile Private old))"
  let ?F = "\<lambda>e d. case e of
        Crashed \<Rightarrow> unsaved path f k d \<or> saved path data f k d
      | PublishedAt p \<Rightarrow> p = path \<and> saved path data f k d \<or> p = path @ ''.lkg'' \<and> unsaved path f k d
      | Failure _ \<Rightarrow> unsaved path f k d
      | DurabilityUnknown \<Rightarrow> False"
  have sP: "stops ?P ?F" by (auto simp: stops_def unsaved_def keeps_def)
  have sR: "stops ?R ?F" by (auto simp: stops_def)
  have uR: "uncounted ?R" by (simp add: uncounted_def unsaved_def keeps_def)
  have keep: "triple ?P (preserve_last_known_good faults path) (\<lambda>_. ?R) ?F"
    by (rule triple_preserve [OF uncounted_keeps sP uR sR])
      (auto simp: unsaved_def keeps_def dest: spec [of _ path])
  have replace: "triple ?P (atomic_write faults path data True) (\<lambda>_. saved path data f k) ?F"
    by (rule triple_atomic_write [OF uncounted_keeps sP uR sR uncounted_saved])
      (use keep in \<open>auto simp: saved_def unsaved_def keeps_def\<close>)
  have look: "triple ?P (open_verified faults path) (\<lambda>_. ?P) (save_error path data f k)"
    by (rule triple_weaken [OF triple_open_verified [OF uncounted_keeps stops_locked]]) auto
  have handler: "triple (?F e) (throwP (classify_write path e)) Q (save_error path data f k)"
    if "e \<noteq> Crashed" for e and Q :: "unit \<Rightarrow> disk \<Rightarrow> bool"
  proof (rule triple_throw)
    fix d assume f: "?F e d"
    have c: "classify_write path (PublishedAt path) = DurabilityUnknown"
      "classify_write path (PublishedAt (path @ ''.lkg'')) = PublishedAt (path @ ''.lkg'')"
      by (simp_all add: classify_write_def lkg)
    show "save_error path data f k (classify_write path e) d"
    proof (cases e)
      case (PublishedAt p)
      then show ?thesis using f c by (auto simp: save_error_def)
    qed (use f that in \<open>simp_all add: save_error_def classify_write_def\<close>)
  qed
  show ?thesis
    unfolding replace_prepared_def
    by (rule triple_bind [OF look triple_on_failure [OF replace]])
      (auto intro!: triple_return handler simp: save_error_def)
qed

lemma preserved_locked [simp]: "preserved (lock_path path) (keeps {lock_path path} f k)"
  by (simp add: preserved_def)

text \<open>A locked procedure that may replace the configuration, from the disk found under the lock.\<close>

lemma triple_locked:
  assumes "triple (keeps {lock_path path} f k) m (\<lambda>_ d. G d \<and> saved path data f k d) (save_error path data f k)"
    and "uncounted G"
  shows "triple (keeps {lock_path path} f k) (with_lock faults path m)
    (\<lambda>_ d. G d \<and> saved path data f k d) (save_error path data f k)"
  by (rule triple_with_lock [OF _ _ _ assms(1)])
    (auto simp: save_error_crash intro: uncounted_conj assms(2), simp add: save_error_def)

lemma store_save_outcome_aux:
  assumes "encode_config en cfg = Some data" "resolved_path en st = Some path"
    "resolved_journal en st path = Some journal" "journal \<noteq> lock_path path" "absolute_cwd en"
  shows "triple (keeps {lock_path path} f k) (store_save faults en st cfg)
    (\<lambda>_ d. f journal = None \<and> saved path data f k d) (save_error path data f k)"
proof -
  let ?P = "keeps {lock_path path} f k"
  have body: "triple ?P (bindP (reject_pending faults journal) (\<lambda>_. replace_prepared faults path data True))
      (\<lambda>_ d. f journal = None \<and> saved path data f k d) (save_error path data f k)"
  proof (cases "f journal = None")
    case True
    show ?thesis
      by (rule triple_bind [OF triple_reject_pending [OF uncounted_keeps stops_locked]],
          rule triple_weaken [OF triple_replace_prepared [OF resolved_path_file [OF assms(2,5)]]])
        (auto simp: True)
  next
    case False
    show ?thesis
      by (rule triple_bind [OF triple_reject_pending [OF uncounted_keeps stops_locked]],
          rule triple_weaken [OF triple_False])
        (use False assms(4) in \<open>auto simp: keeps_def\<close>)
  qed
  show ?thesis
    using triple_locked [OF body] assms by (simp add: store_save_def with_mutation_lock_def uncounted_def)
qed

text \<open>C18: Saving a configuration under any pattern of failing system calls either leaves the file as it
  was or replaces it by the complete encoding of a valid configuration, with the earlier one kept as
  \<open>.lkg\<close>: a plain error means nothing was published, \<open>ErrConfigPublishedDurabilityUnknown\<close> that it was,
  and a save beside a pending migration journal changes nothing.  No other file is touched.\<close>

theorem store_save_outcome:
  assumes "store_save faults en st cfg d = (r, d')" "resolved_path en st = Some path"
    "resolved_journal en st path = Some journal" "journal \<noteq> lock_path path" "absolute_cwd en"
  defines "published \<equiv> \<lambda>d1. \<exists>data. encode_config en cfg = Some data \<and>
             saved path data (d_files d) (d_keyring d) d1"
    and "untouched \<equiv> unsaved path (d_files d) (d_keyring d)"
  shows "case r of
           Inr _ \<Rightarrow> published d' \<and> d_files d journal = None
         | Inl Crashed \<Rightarrow> untouched d' \<or> published d'
         | Inl DurabilityUnknown \<Rightarrow> published d'
         | Inl (Failure _) \<Rightarrow> untouched d'
         | Inl (PublishedAt _) \<Rightarrow> untouched d'"
proof (cases "encode_config en cfg")
  case None
  then have "d' = d" "\<exists>m. r = Inl (Failure m)"
    using assms(1) by (auto simp: store_save_def failure_def throwP_def)
  then show ?thesis by (auto simp: untouched_def unsaved_def)
next
  case (Some data)
  note t = store_save_outcome_aux [OF Some assms(2-5), of "d_files d" "d_keyring d" faults]
  show ?thesis
  proof (cases r)
    case (Inr u)
    with triple_resultD [OF t _ assms(1) [unfolded Inr]] show ?thesis
      by (simp add: published_def Some)
  next
    case (Inl e)
    with triple_errorD [OF t _ assms(1) [unfolded Inl]] show ?thesis
      by (cases e) (auto simp: published_def untouched_def Some save_error_def)
  qed
qed

text \<open>
  A small world for the witnesses: the encoding of a configuration is the name of its default profile,
  behind a mark.
\<close>

definition demo_profile :: profile where
  "demo_profile =
     \<lparr>ProfileUsername = ''u'', ProfileCredential = \<lparr>Provider = ProviderPrompt, Reference = ''''\<rparr>, BindIP = '''',
      ProfileSwitch = SwitchUnset\<rparr>"

definition demo_config :: "string \<Rightarrow> config" where
  "demo_config name =
     \<lparr>ConfigSchema = 1, DefaultProfile = name, Profiles = (if name = '''' then [] else [(name, demo_profile)])\<rparr>"

definition demo_env :: config_env where
  "demo_env =
     \<lparr>decode_config = (\<lambda>s. if has_prefix s ''c:'' then Some (demo_config (drop 2 s)) else None),
      marshal_config = (\<lambda>c. if c = demo_config (DefaultProfile c) then Some (''c:'' @ DefaultProfile c) else None),
      digest = id, lower_case = id, working_dir = Some ''/'', stored_as = (\<lambda>_ secret. secret)\<rparr>"

definition demo_store :: store where
  "demo_store = \<lparr>StorePath = ''/d/c'', StoreJournal = ''''\<rparr>"

definition demo_disk :: disk where
  "demo_disk =
     \<lparr>d_files = [''/d/c'' \<mapsto> PlainFile Guarded ''c:a''], d_keyring = Map.empty, d_calls = 0\<rparr>"

lemma demo_codec: "config_codec demo_env"
  by (auto simp: config_codec_def demo_env_def split: if_splits)

lemma demo_cwd [simp]: "absolute_cwd demo_env"
  by (simp add: absolute_cwd_def demo_env_def path_is_abs_def)

lemma demo_path: "''/d/c'' = abs_path [''d'', ''c'']" "list_all plain_name [''d'', ''c'']"
  by (simp_all add: abs_path_def plain_name_def)

lemma demo_resolved [simp]: "resolved_path demo_env demo_store = Some ''/d/c''"
  "resolved_journal demo_env demo_store ''/d/c'' = Some ''/d/migration-v1.pending.yaml''"
  by code_simp+

lemma demo_valid [simp]: "config_valid (demo_config ''a'')" "config_valid (demo_config ''b'')"
  by code_simp+

lemma demo_encode [simp]: "encode_config demo_env (demo_config ''b'') = Some ''c:b''"
  by (simp add: encode_config_def demo_env_def maxConfigBytes_def) (simp add: demo_config_def)

lemma demo_decode [simp]: "decode_valid demo_env ''c:a'' = Some (demo_config ''a'')"
  by (simp add: decode_valid_def demo_env_def maxConfigBytes_def)

lemmas proc_run = bindP_def handleP_def returnP_def throwP_def getsP_def modifyP_def on_failure_def
  failure_def ignore_failure_def

lemma plain_calls_numeral:
  "plain_calls faults (numeral k) = bindP (plain_call faults) (\<lambda>_. plain_calls faults (pred_numeral k))"
  by (simp add: numeral_eq_Suc)

lemmas fs_run = syscall_def plain_call_def atomic_call_def file_at_def put_file_def path_exists_def
  plain_calls.simps plain_calls_numeral

lemma demo_save: "fst (store_save (\<lambda>_. Works) demo_env demo_store (demo_config ''b'') demo_disk) = Inr ()"
  by (simp add: store_save_def with_mutation_lock_def with_lock_def acquire_lock_def release_lock_def
      reject_pending_def replace_prepared_def open_verified_def atomic_write_def replace_with_def
      preserve_last_known_good_def atomic_write_plain_def proc_run fs_run lock_path_def demo_disk_def maxConfigBytes_def)

theorem store_save_outcome_witness:
  "\<exists>d'. store_save (\<lambda>_. Works) demo_env demo_store (demo_config ''b'') demo_disk = (Inr (), d') \<and>
     saved ''/d/c'' ''c:b'' (d_files demo_disk) (d_keyring demo_disk) d'"
proof -
  obtain d' where d': "store_save (\<lambda>_. Works) demo_env demo_store (demo_config ''b'') demo_disk = (Inr (), d')"
    using demo_save by (metis prod.collapse)
  from store_save_outcome [OF this demo_resolved(1) demo_resolved(2) _ demo_cwd]
  show ?thesis using d' by (simp add: lock_path_def)
qed

section \<open>Updating\<close>

text \<open>The configuration a load finds, and what a failing update may leave.\<close>

definition found_config :: "'a config_env_scheme \<Rightarrow> string \<Rightarrow> (string \<Rightarrow> node option) \<Rightarrow> config \<Rightarrow> bool" where
  "found_config en path f cfg \<longleftrightarrow>
     (case f path of
        None \<Rightarrow> cfg = default_config
      | Some (PlainFile a s) \<Rightarrow> a \<noteq> Shared \<and> decode_valid en s = Some cfg
      | Some (OtherNode _) \<Rightarrow> False)"

definition updated ::
    "'a config_env_scheme \<Rightarrow> string \<Rightarrow> (config \<Rightarrow> config option) \<Rightarrow> (string \<Rightarrow> node option) \<Rightarrow>
       (string \<Rightarrow> string option) \<Rightarrow> disk \<Rightarrow> bool" where
  "updated en path change f k d \<longleftrightarrow>
     (\<exists>cfg cfg' data. found_config en path f cfg \<and> change cfg = Some cfg' \<and>
        encode_config en cfg' = Some data \<and> saved path data f k d)"

definition update_error ::
    "'a config_env_scheme \<Rightarrow> string \<Rightarrow> (config \<Rightarrow> config option) \<Rightarrow> (string \<Rightarrow> node option) \<Rightarrow>
       (string \<Rightarrow> string option) \<Rightarrow> config_error \<Rightarrow> disk \<Rightarrow> bool" where
  "update_error en path change f k e d \<longleftrightarrow>
     (case e of
        Crashed \<Rightarrow> unsaved path f k d \<or> updated en path change f k d
      | DurabilityUnknown \<Rightarrow> updated en path change f k d
      | _ \<Rightarrow> unsaved path f k d)"

lemma uncounted_updated [simp]: "uncounted (updated en path change f k)"
  by (simp add: uncounted_def updated_def saved_def keeps_def)

lemma uncounted_update_error [simp]: "uncounted (update_error en path change f k e)"
  by (cases e) (simp_all add: update_error_def uncounted_def updated_def saved_def unsaved_def keeps_def)

lemma update_error_crash: "update_error en path change f k e d \<Longrightarrow> update_error en path change f k Crashed d"
  by (cases e) (simp_all add: update_error_def)

lemma stops_update [simp]: "stops (keeps {lock_path path} f k) (update_error en path change f k)"
  by (auto simp: update_error_def unsaved_def keeps_def)

lemma triple_found_config:
  "triple (keeps {lock_path path} f k) (load_config_file faults en path)
     (\<lambda>r d. keeps {lock_path path} f k d \<and> found_config en path f (fst r)) (update_error en path change f k)"
  by (rule triple_weaken [OF triple_load_config_file [OF uncounted_keeps stops_update]])
    (auto simp: keeps_def found_config_def split: if_splits)

lemma triple_changed_config:
  assumes "file_path path" "found_config en path f cfg"
  shows "triple (keeps {lock_path path} f k)
     (case change cfg of
         None \<Rightarrow> failure ''update refused''
       | Some cfg' \<Rightarrow>
           (case encode_config en cfg' of
              None \<Rightarrow> failure ''validate config''
            | Some data \<Rightarrow> replace_prepared faults path data True))
     (\<lambda>_. updated en path change f k) (update_error en path change f k)"
proof (cases "change cfg")
  case (Some cfg')
  show ?thesis
  proof (cases "encode_config en cfg'")
    case data: (Some data)
    have up: "saved path data f k d \<Longrightarrow> updated en path change f k d" for d
      using assms(2) Some data by (auto simp: updated_def)
    show ?thesis
      unfolding Some data option.case
      by (rule triple_weaken [OF triple_replace_prepared [OF assms(1)]])
        (auto simp: up save_error_def update_error_def split: config_error.splits)
  qed (simp add: Some triple_failure)
qed (simp add: triple_failure)

lemma triple_store_update:
  assumes "resolved_path en st = Some path" "resolved_journal en st path = Some journal"
    "journal \<noteq> lock_path path" "absolute_cwd en"
  shows "triple (keeps {lock_path path} f k) (store_update faults en st change)
    (\<lambda>_ d. f journal = None \<and> updated en path change f k d) (update_error en path change f k)"
proof -
  let ?P = "keeps {lock_path path} f k" and ?E = "update_error en path change f k"
  let ?body = "bindP (reject_pending faults journal) (\<lambda>_.
       bindP (load_config_file faults en path) (\<lambda>(cfg, _).
       case change cfg of
         None \<Rightarrow> failure ''update refused''
       | Some cfg' \<Rightarrow>
           (case encode_config en cfg' of
              None \<Rightarrow> failure ''validate config''
            | Some data \<Rightarrow> replace_prepared faults path data True)))"
  have body: "triple ?P ?body (\<lambda>_ d. f journal = None \<and> updated en path change f k d) ?E"
  proof (cases "f journal = None")
    case True
    have load: "triple (\<lambda>d. ?P d \<and> d_files d journal = None) (load_config_file faults en path)
        (\<lambda>r d. ?P d \<and> found_config en path f (fst r)) ?E"
      by (rule triple_weaken [OF triple_found_config]) auto
    have change: "triple (\<lambda>d. ?P d \<and> found_config en path f (fst r)) (case r of (cfg, _) \<Rightarrow>
         case change cfg of
           None \<Rightarrow> failure ''update refused''
         | Some cfg' \<Rightarrow>
             (case encode_config en cfg' of
                None \<Rightarrow> failure ''validate config''
              | Some data \<Rightarrow> replace_prepared faults path data True))
        (\<lambda>_ d. f journal = None \<and> updated en path change f k d) ?E" for r
    proof (cases "found_config en path f (fst r)")
      case found: True
      show ?thesis
        unfolding split_beta
        by (rule triple_weaken [OF triple_changed_config [OF resolved_path_file [OF assms(1,4)] found]])
          (simp_all add: True)
    qed (simp add: triple_False)
    show ?thesis
      by (rule triple_bind [OF triple_reject_pending [OF uncounted_keeps stops_update]
            triple_bind [OF load change]])
  next
    case False
    show ?thesis
      by (rule triple_bind [OF triple_reject_pending [OF uncounted_keeps stops_update]],
          rule triple_weaken [OF triple_False])
        (use False assms(3) in \<open>auto simp: keeps_def\<close>)
  qed
  have "triple ?P (with_lock faults path ?body) (\<lambda>_ d. f journal = None \<and> updated en path change f k d) ?E"
    by (rule triple_with_lock [OF uncounted_keeps preserved_locked stops_update body])
      (simp_all add: uncounted_conj update_error_crash, simp add: update_error_def)
  then show ?thesis by (simp add: store_update_def with_mutation_lock_def assms)
qed

text \<open>C19: An update that succeeds has applied the change to exactly the configuration it found under the
  lock (the default one when there was no file) and published the result; one that fails with a plain
  error has changed nothing.\<close>

theorem store_update_applies_change:
  assumes "store_update faults en st change d = (r, d')" "resolved_path en st = Some path"
    "resolved_journal en st path = Some journal" "journal \<noteq> lock_path path" "absolute_cwd en"
  shows "case r of
           Inr _ \<Rightarrow> d_files d journal = None \<and> updated en path change (d_files d) (d_keyring d) d'
         | Inl e \<Rightarrow> update_error en path change (d_files d) (d_keyring d) e d'"
proof (cases r)
  case (Inr u)
  from triple_resultD [OF triple_store_update [OF assms(2-5)] keeps_self assms(1) [unfolded Inr]] Inr
  show ?thesis by simp
next
  case (Inl e)
  with triple_errorD [OF triple_store_update [OF assms(2-5)] _ assms(1) [unfolded Inl]] show ?thesis by simp
qed

definition rename_default :: "config \<Rightarrow> config option" where
  "rename_default c = (if DefaultProfile c = ''a'' then Some (demo_config ''b'') else None)"

lemma demo_update: "fst (store_update (\<lambda>_. Works) demo_env demo_store rename_default demo_disk) = Inr ()"
  by (simp add: store_update_def with_mutation_lock_def with_lock_def acquire_lock_def release_lock_def
      reject_pending_def replace_prepared_def open_verified_def atomic_write_def replace_with_def
      load_config_file_def preserve_last_known_good_def atomic_write_plain_def proc_run fs_run lock_path_def
      demo_disk_def maxConfigBytes_def rename_default_def)
    (simp add: demo_config_def)

theorem store_update_applies_change_witness:
  "\<exists>d'. store_update (\<lambda>_. Works) demo_env demo_store rename_default demo_disk = (Inr (), d') \<and>
     updated demo_env ''/d/c'' rename_default (d_files demo_disk) (d_keyring demo_disk) d'"
proof -
  obtain d' where d': "store_update (\<lambda>_. Works) demo_env demo_store rename_default demo_disk = (Inr (), d')"
    using demo_update by (metis prod.collapse)
  from store_update_applies_change [OF this demo_resolved(1) demo_resolved(2) _ demo_cwd]
  show ?thesis using d' by (simp add: lock_path_def)
qed

section \<open>The file always loads\<close>

text \<open>The steps of processes that save or update the configuration, under any faults.\<close>

inductive store_step :: "'e config_env_scheme \<Rightarrow> store \<Rightarrow> disk \<Rightarrow> disk \<Rightarrow> bool" for en st where
  step_save: "store_save faults en st cfg d = (r, d') \<Longrightarrow> store_step en st d d'"
| step_update: "store_update faults en st change d = (r, d') \<Longrightarrow> store_step en st d d'"

inductive_cases store_stepE: "store_step en st d d'"

definition loadable :: "'e config_env_scheme \<Rightarrow> string \<Rightarrow> disk \<Rightarrow> bool" where
  "loadable en path d \<longleftrightarrow> (\<exists>cfg. found_config en path (d_files d) cfg)"

lemma unsaved_file: "unsaved path f k d \<Longrightarrow> d_files d path = f path"
  by (simp add: unsaved_def keeps_def)

lemma encode_decode: "config_codec en \<Longrightarrow> encode_config en cfg = Some data \<Longrightarrow> decode_valid en data = Some cfg"
  by (auto simp: encode_config_def config_codec_def decode_valid_def split: if_splits option.splits)

lemma saved_loadable:
  assumes "config_codec en" "encode_config en cfg = Some data" "saved path data f k d"
  shows "loadable en path d"
  using assms encode_decode by (auto simp: loadable_def found_config_def saved_def)

lemma updated_loadable: "config_codec en \<Longrightarrow> updated en path change f k d \<Longrightarrow> loadable en path d"
  by (auto simp: updated_def intro: saved_loadable)

lemma unsaved_loadable: "unsaved path (d_files d) k d' \<Longrightarrow> loadable en path d \<Longrightarrow> loadable en path d'"
  by (simp add: loadable_def found_config_def unsaved_file)

lemma triple_always: "triple P m (\<lambda>_. Q) (\<lambda>_. Q) \<Longrightarrow> P d \<Longrightarrow> m d = (r, d') \<Longrightarrow> Q d'"
  by (cases r) (auto dest: triple_resultD triple_errorD)

lemma store_step_loadable:
  assumes "store_step en st d d'" "loadable en path d" "config_codec en"
    "resolved_path en st = Some path" "resolved_journal en st path = Some journal"
    "journal \<noteq> lock_path path" "absolute_cwd en"
  shows "loadable en path d'"
proof -
  consider (saving) faults cfg r where "store_save faults en st cfg d = (r, d')"
    | (updating) faults change r where "store_update faults en st change d = (r, d')"
    using assms(1) by (blast elim: store_stepE)
  then show ?thesis
proof cases
  case saving
  show ?thesis
  proof (cases "encode_config en cfg")
    case None
    with saving assms(2) show ?thesis by (auto simp: store_save_def failure_def throwP_def)
  next
    case (Some data)
    have "triple (keeps {lock_path path} (d_files d) (d_keyring d)) (store_save faults en st cfg)
        (\<lambda>_. loadable en path) (\<lambda>_. loadable en path)"
      by (rule triple_weaken [OF store_save_outcome_aux [OF Some assms(4-7)]])
        (auto simp: save_error_def split: config_error.splits
          intro: unsaved_loadable [OF _ assms(2)] saved_loadable [OF assms(3) Some])
    from triple_always [OF this, of d] saving show ?thesis by simp
  qed
next
  case updating
  have "triple (keeps {lock_path path} (d_files d) (d_keyring d)) (store_update faults en st change)
      (\<lambda>_. loadable en path) (\<lambda>_. loadable en path)"
    by (rule triple_weaken [OF triple_store_update [OF assms(4-7)]])
      (auto simp: update_error_def split: config_error.splits
        intro: unsaved_loadable [OF _ assms(2)] updated_loadable [OF assms(3)])
  from triple_always [OF this, of d] updating show ?thesis by simp
qed
qed

text \<open>C20: Whatever processes save or update the configuration, and whatever system calls of theirs fail
  or end them, a file that could be loaded at first can be loaded at the end, so that a crash never
  leaves a torn configuration.\<close>

theorem config_always_loads:
  assumes "(store_step en st)\<^sup>*\<^sup>* d d'" "loadable en path d" "config_codec en"
    "resolved_path en st = Some path" "resolved_journal en st path = Some journal"
    "journal \<noteq> lock_path path" "absolute_cwd en"
  shows "\<exists>cfg found d2. store_load (\<lambda>_. Works) en st d' = (Inr (cfg, found), d2) \<and> found_config en path (d_files d') cfg"
proof -
  have "loadable en path d'"
    using assms(1,2) by (induction) (auto intro: store_step_loadable [OF _ _ assms(3-7)])
  then show ?thesis
    using assms(4)
    by (auto simp: loadable_def found_config_def store_load_def load_config_file_def open_verified_def
        proc_run fs_run split: option.splits node.splits)
qed

theorem config_always_loads_witness:
  "\<exists>d' cfg found d2. store_step demo_env demo_store demo_disk d' \<and>
     store_load (\<lambda>_. Works) demo_env demo_store d' = (Inr (cfg, found), d2)"
proof -
  obtain r d' where s: "store_update (\<lambda>_. Crashes 0) demo_env demo_store rename_default demo_disk = (r, d')"
    by fastforce
  then have "store_step demo_env demo_store demo_disk d'" by (rule step_update)
  moreover have "loadable demo_env ''/d/c'' demo_disk"
    by (simp add: loadable_def found_config_def demo_disk_def)
  ultimately show ?thesis
    using config_always_loads [OF r_into_rtranclp, of demo_env demo_store demo_disk d' "''/d/c''"]
      demo_codec demo_cwd demo_resolved by (fastforce simp: lock_path_def)
qed

end
