(* ===== verification/Credentials.thy ===== *)
theory Credentials
  imports ConfigStore
begin

text \<open>
  \<open>internal/config/credentials.go\<close>: the password providers and the provisioning of keyring entries.
  A keyring is represented by what \<open>Get\<close> returns for each reference; a failing \<open>Set\<close> or \<open>Delete\<close>
  may have had its effect, and \<open>stored_as\<close> says what the backend keeps of a secret.
\<close>

section \<open>Keyring\<close>

definition put_keyring :: "string \<Rightarrow> string option \<Rightarrow> disk \<Rightarrow> disk" where
  "put_keyring ref secret d = d\<lparr>d_keyring := (d_keyring d)(ref := secret)\<rparr>"

definition keyring_call :: "(nat \<Rightarrow> fault) \<Rightarrow> (disk \<Rightarrow> disk) \<Rightarrow> unit fsop" where
  "keyring_call faults effect = syscall faults effect (\<lambda>n. if n = 0 then id else effect)"

text \<open>\<open>None\<close> is \<open>ErrNotFound\<close>.\<close>

definition keyring_get :: "(nat \<Rightarrow> fault) \<Rightarrow> string \<Rightarrow> string option fsop" where
  "keyring_get faults ref = bindP (plain_call faults) (\<lambda>_. getsP (\<lambda>d. d_keyring d ref))"

definition keyring_set ::
    "(nat \<Rightarrow> fault) \<Rightarrow> 'e config_env_scheme \<Rightarrow> string \<Rightarrow> string \<Rightarrow> unit fsop" where
  "keyring_set faults en ref secret =
     keyring_call faults (put_keyring ref (Some (stored_as en ref secret)))"

text \<open>The callers of \<open>Delete\<close> accept \<open>ErrNotFound\<close>.\<close>

definition keyring_delete :: "(nat \<Rightarrow> fault) \<Rightarrow> string \<Rightarrow> unit fsop" where
  "keyring_delete faults ref = keyring_call faults (put_keyring ref None)"

definition cleanup_incomplete :: "string list" where
  "cleanup_incomplete =
     [''keyring credential storage failed and cleanup is incomplete'',
      ''keyring credential verification failed and cleanup is incomplete'']"

text \<open>\<open>SetFreshKeyringPassword\<close>.\<close>

definition set_fresh ::
    "(nat \<Rightarrow> fault) \<Rightarrow> 'e config_env_scheme \<Rightarrow> credential_ref \<Rightarrow> string \<Rightarrow> unit fsop" where
  "set_fresh faults en ref password =
     (if Provider ref \<noteq> ProviderKeyring \<or> \<not> credential_ref_valid ref
      then failure ''a keyring credential reference is required''
      else if password = '''' then failure ''password is empty''
      else
        on_failure (keyring_get faults (Reference ref))
          (\<lambda>_. failure ''keyring is unavailable for credential provisioning'')
          (\<lambda>found. if found \<noteq> None then failure ''keyring credential reference is already occupied''
            else
              on_failure (keyring_set faults en (Reference ref) password)
                (\<lambda>_. on_failure (keyring_delete faults (Reference ref))
                   (\<lambda>_. failure ''keyring credential storage failed and cleanup is incomplete'')
                   (\<lambda>_. failure ''keyring credential could not be stored''))
                (\<lambda>_. on_failure
                   (bindP (keyring_get faults (Reference ref)) (\<lambda>stored.
                      if stored = Some password then returnP () else failure ''mismatch''))
                   (\<lambda>_. on_failure (keyring_delete faults (Reference ref))
                      (\<lambda>_. failure ''keyring credential verification failed and cleanup is incomplete'')
                      (\<lambda>_. failure ''keyring credential verification failed''))
                   returnP)))"

text \<open>\<open>SetKeyringPassword\<close> and \<open>DeleteKeyringPassword\<close>.\<close>

definition set_keyring_password ::
    "(nat \<Rightarrow> fault) \<Rightarrow> 'e config_env_scheme \<Rightarrow> credential_ref \<Rightarrow> string \<Rightarrow> unit fsop" where
  "set_keyring_password faults en ref password =
     (if Provider ref \<noteq> ProviderKeyring \<or> Reference ref = ''''
      then failure ''a keyring credential reference is required''
      else if password = '''' then failure ''password is empty''
      else keyring_set faults en (Reference ref) password)"

definition delete_keyring_password :: "(nat \<Rightarrow> fault) \<Rightarrow> credential_ref \<Rightarrow> unit fsop" where
  "delete_keyring_password faults ref =
     (if Provider ref \<noteq> ProviderKeyring \<or> Reference ref = '''' then returnP ()
      else keyring_delete faults (Reference ref))"

text \<open>\<open>NewOpaqueKeyringReference\<close>; the random bytes are an input.\<close>

definition hex_bytes :: "string \<Rightarrow> string" where
  "hex_bytes bs = concat (map (\<lambda>c. [''0123456789abcdef'' ! (byte c div 16), ''0123456789abcdef'' ! (byte c mod 16)]) bs)"

definition new_opaque_reference :: "string \<Rightarrow> string option \<Rightarrow> string option" where
  "new_opaque_reference prefix random =
     (if prefix = '''' \<or> \<not> list_all (\<lambda>c. is_lower c \<or> c = CHR ''-'') prefix then None
      else map_option (\<lambda>bs. prefix @ hex_bytes bs) random)"

section \<open>Providers\<close>

definition maxCredentialBytes :: nat where "maxCredentialBytes = 16384"

text \<open>
  \<open>readRestrictedPassword\<close>: a private file (opened without following links), of bounded size, without
  its final line end.
\<close>

definition password_text :: "string \<Rightarrow> string" where
  "password_text data = trim_suffix (trim_suffix data [CHR 0x0A]) [CHR 0x0D]"

definition read_restricted_password :: "(nat \<Rightarrow> fault) \<Rightarrow> string \<Rightarrow> string fsop" where
  "read_restricted_password faults path =
     bindP (plain_call faults) (\<lambda>_.
     bindP (file_at path) (\<lambda>node.
     case node of
       Some (PlainFile Private data) \<Rightarrow>
         bindP (plain_call faults) (\<lambda>_.
         if maxCredentialBytes < length data then failure ''credential file exceeds the limit''
         else if password_text data = '''' then failure ''credential file is empty''
         else if CHR 0x00 \<in> set (password_text data) then failure ''credential file contains a NUL byte''
         else returnP (password_text data))
     | _ \<Rightarrow> failure ''open credential file''))"

record provider_options =
  OptionsBaseDir :: string
  InputIsTerminal :: bool
  TypedPassword :: "string option"
  LookupEnv :: "string \<Rightarrow> string option"

datatype password_provider =
    FromEnv string | FromFile string | FromTerminal | FromKeyring string

text \<open>\<open>NewPasswordProvider\<close> and the functions it returns.\<close>

definition new_password_provider :: "credential_ref \<Rightarrow> provider_options \<Rightarrow> password_provider option" where
  "new_password_provider ref options =
     (if \<not> credential_ref_valid ref then None
      else (case Provider ref of
          ProviderEnv \<Rightarrow> Some (FromEnv (Reference ref))
        | ProviderFile \<Rightarrow>
            Some (FromFile (if path_is_abs (Reference ref) then Reference ref
                            else path_join [OptionsBaseDir options, Reference ref]))
        | ProviderPrompt \<Rightarrow> if InputIsTerminal options then Some FromTerminal else None
        | ProviderKeyring \<Rightarrow> Some (FromKeyring (Reference ref))
        | ProviderOther _ \<Rightarrow> None))"

definition provide_password ::
    "(nat \<Rightarrow> fault) \<Rightarrow> provider_options \<Rightarrow> bool \<Rightarrow> password_provider \<Rightarrow> string fsop" where
  "provide_password faults options canceled provider =
     (if canceled then failure ''context canceled''
      else (case provider of
          FromEnv name \<Rightarrow>
            (case LookupEnv options name of
               None \<Rightarrow> failure ''credential environment variable is unset or empty''
             | Some v \<Rightarrow> if v = '''' then failure ''credential environment variable is unset or empty''
                        else returnP v)
        | FromFile path \<Rightarrow> read_restricted_password faults path
        | FromTerminal \<Rightarrow>
            (case TypedPassword options of
               None \<Rightarrow> failure ''read password''
             | Some v \<Rightarrow> if v = '''' then failure ''password is empty'' else returnP v)
        | FromKeyring ref \<Rightarrow>
            bindP (keyring_get faults ref) (\<lambda>found.
            case found of
              None \<Rightarrow> failure ''read keyring credential''
            | Some v \<Rightarrow> if v = '''' then failure ''keyring credential is empty'' else returnP v)))"

definition prompt_password :: "(nat \<Rightarrow> fault) \<Rightarrow> provider_options \<Rightarrow> bool \<Rightarrow> string fsop" where
  "prompt_password faults options canceled =
     (case new_password_provider \<lparr>Provider = ProviderPrompt, Reference = ''''\<rparr> options of
        None \<Rightarrow> failure ''interactive prompt requires a terminal''
      | Some p \<Rightarrow> provide_password faults options canceled p)"

section \<open>Provisioning never overwrites\<close>

lemma keyring_put_keyring [simp]:
  "d_keyring (put_keyring ref secret d) = (d_keyring d)(ref := secret)"
  "d_files (put_keyring ref secret d) = d_files d"
  by (simp_all add: put_keyring_def)

lemma triple_keyring_get:
  assumes "uncounted P" "stops P E"
  shows "triple P (keyring_get faults ref) (\<lambda>found d. P d \<and> d_keyring d ref = found) E"
  unfolding keyring_get_def
  by (rule triple_bind [OF triple_plain_call [OF assms]]) (auto intro: triple_gets)

lemma triple_keyring_call:
  assumes "uncounted P" "\<And>d. P d \<Longrightarrow> Q (effect d)" "stops P E" "stops Q E"
  shows "triple P (keyring_call faults effect) (\<lambda>_. Q) E"
  unfolding keyring_call_def
  by (rule triple_syscall) (use assms in \<open>auto simp: stops_def\<close>)

text \<open>\<open>only_ref ref f k d\<close>: the files are \<open>f\<close>, and the keyring differs from \<open>k\<close> at most at \<open>ref\<close>.\<close>

definition only_ref :: "string \<Rightarrow> (string \<Rightarrow> node option) \<Rightarrow> (string \<Rightarrow> string option) \<Rightarrow> disk \<Rightarrow> bool" where
  "only_ref ref f k d \<longleftrightarrow> d_files d = f \<and> (\<forall>r. r \<noteq> ref \<longrightarrow> d_keyring d r = k r)"

definition fresh_error ::
    "string \<Rightarrow> (string \<Rightarrow> node option) \<Rightarrow> (string \<Rightarrow> string option) \<Rightarrow> config_error \<Rightarrow> disk \<Rightarrow> bool" where
  "fresh_error ref f k e d \<longleftrightarrow>
     d_files d = f \<and>
     (d_keyring d = k \<or>
      only_ref ref f k d \<and> k ref = None \<and> (e = Crashed \<or> e \<in> Failure ` set cleanup_incomplete))"

lemma uncounted_only_ref [simp]: "uncounted (only_ref ref f k)"
  by (simp add: uncounted_def only_ref_def)

lemma triple_set_fresh:
  "triple (\<lambda>d. d_files d = f \<and> d_keyring d = k) (set_fresh faults en ref password)
     (\<lambda>_ d. k (Reference ref) = None \<and> d_files d = f \<and> d_keyring d = k(Reference ref \<mapsto> password))
     (fresh_error (Reference ref) f k)"
proof -
  let ?P = "\<lambda>d. d_files d = f \<and> d_keyring d = k" and ?r = "Reference ref"
  let ?E = "fresh_error ?r f k"
  let ?O = "\<lambda>d. only_ref ?r f k d \<and> k ?r = None"
  let ?F = "\<lambda>e d. ?O d \<and> (e = Crashed \<or> (\<exists>m. e = Failure m))"
  have uP: "uncounted ?P" and uO: "uncounted ?O" by (simp_all add: uncounted_def only_ref_def)
  have sP: "stops ?P ?E" by (auto simp: fresh_error_def)
  have cleanup: "triple ?O (on_failure (keyring_delete faults ?r) (\<lambda>_. failure m) (\<lambda>_. failure n)) Q ?E"
    if "m \<in> set cleanup_incomplete" for m n and Q :: "unit \<Rightarrow> disk \<Rightarrow> bool"
    unfolding keyring_delete_def
    by (rule triple_on_failure [OF triple_keyring_call [where Q = "\<lambda>d. ?P d \<and> k ?r = None" and E = ?F]])
      (use that in \<open>auto simp: uO only_ref_def fresh_error_def failure_def fun_eq_iff intro!: triple_throw\<close>)
  have free: "triple (\<lambda>d. ?P d \<and> d_keyring d ?r = None) (keyring_set faults en ?r password) (\<lambda>_. ?O) ?F"
    unfolding keyring_set_def
    by (rule triple_keyring_call) (auto simp: uP uncounted_def only_ref_def stops_def)
  have verify: "triple ?O (bindP (keyring_get faults ?r) (\<lambda>stored.
       if stored = Some password then returnP () else failure ''mismatch''))
     (\<lambda>_ d. ?O d \<and> d_keyring d ?r = Some password) ?F"
    by (rule triple_bind [OF triple_keyring_get [OF uO]])
      (auto simp: stops_def failure_def intro!: triple_if triple_return triple_throw)
  have all: "?O d \<Longrightarrow> d_keyring d ?r = Some password \<Longrightarrow> d_keyring d = k(?r \<mapsto> password)" for d
    by (auto simp: only_ref_def fun_eq_iff)
  have stop: "triple P (failure m) Q ?E" if "\<And>d. P d \<Longrightarrow> ?P d" for m P and Q :: "unit \<Rightarrow> disk \<Rightarrow> bool"
    by (rule triple_failure [OF stops_weaken [OF sP]]) (rule that)
  have undo: "triple (?F e) (on_failure (keyring_delete faults ?r) (\<lambda>_. failure m) (\<lambda>_. failure n)) Q ?E"
    if "m \<in> set cleanup_incomplete" for e m n and Q :: "unit \<Rightarrow> disk \<Rightarrow> bool"
    by (rule triple_weaken [OF cleanup [OF that]]) auto
  have listed: "''keyring credential storage failed and cleanup is incomplete'' \<in> set cleanup_incomplete"
    "''keyring credential verification failed and cleanup is incomplete'' \<in> set cleanup_incomplete"
    by (simp_all add: cleanup_incomplete_def)
  have crash: "?F Crashed d \<Longrightarrow> ?E Crashed d" for d
    by (auto simp: fresh_error_def only_ref_def)
  have check: "triple ?O (on_failure (bindP (keyring_get faults ?r) (\<lambda>stored.
       if stored = Some password then returnP () else failure ''mismatch''))
       (\<lambda>_. on_failure (keyring_delete faults ?r)
          (\<lambda>_. failure ''keyring credential verification failed and cleanup is incomplete'')
          (\<lambda>_. failure ''keyring credential verification failed'')) returnP)
     (\<lambda>_ d. k ?r = None \<and> d_files d = f \<and> d_keyring d = k(?r \<mapsto> password)) ?E"
    by (rule triple_on_failure [OF verify _ undo [OF listed(2)] crash], rule triple_return)
      (auto simp: all, auto simp: only_ref_def)
  have store: "triple (\<lambda>d. ?P d \<and> d_keyring d ?r = None)
     (on_failure (keyring_set faults en ?r password)
        (\<lambda>_. on_failure (keyring_delete faults ?r)
           (\<lambda>_. failure ''keyring credential storage failed and cleanup is incomplete'')
           (\<lambda>_. failure ''keyring credential could not be stored''))
        (\<lambda>_. on_failure (bindP (keyring_get faults ?r) (\<lambda>stored.
             if stored = Some password then returnP () else failure ''mismatch''))
           (\<lambda>_. on_failure (keyring_delete faults ?r)
              (\<lambda>_. failure ''keyring credential verification failed and cleanup is incomplete'')
              (\<lambda>_. failure ''keyring credential verification failed'')) returnP))
     (\<lambda>_ d. k ?r = None \<and> d_files d = f \<and> d_keyring d = k(?r \<mapsto> password)) ?E"
    by (rule triple_on_failure [OF free check undo [OF listed(1)] crash])
  show ?thesis
    unfolding set_fresh_def
    apply (intro triple_if stop; assumption?)
    apply (rule triple_on_failure [OF triple_keyring_get [OF uP, where E = "\<lambda>_. ?P"]])
      apply (rule stopsI, assumption, assumption)
     apply (rule triple_if, rule stop, simp)
     apply (rule triple_weaken [OF store], simp_all add: stop fresh_error_def)
    apply auto
    done
qed

text \<open>C21: Provisioning a keyring entry never changes an entry that exists, and never a file.  On success
  the fresh reference holds exactly the password, also when the backend stores something else than it
  was given; on an error nothing is left in the keyring unless the error says that the cleanup is
  incomplete.\<close>

theorem set_fresh_never_overwrites:
  assumes "set_fresh faults en ref password d = (r, d')"
  shows "d_files d' = d_files d \<and>
    (\<forall>other secret. d_keyring d other = Some secret \<longrightarrow> d_keyring d' other = Some secret) \<and>
    (case r of
       Inr _ \<Rightarrow> d_keyring d (Reference ref) = None \<and> d_keyring d' = (d_keyring d)(Reference ref \<mapsto> password)
     | Inl (Failure m) \<Rightarrow> m \<notin> set cleanup_incomplete \<longrightarrow> d_keyring d' = d_keyring d
     | Inl _ \<Rightarrow> True)"
proof (cases r)
  case (Inr u)
  with triple_resultD [OF triple_set_fresh _ assms [unfolded Inr], of "d_files d" "d_keyring d"]
  show ?thesis by auto
next
  case (Inl e)
  have e: "fresh_error (Reference ref) (d_files d) (d_keyring d) e d'"
    using triple_errorD [OF triple_set_fresh _ assms [unfolded Inl], of "d_files d" "d_keyring d"] by simp
  then have "d_keyring d other = Some secret \<Longrightarrow> d_keyring d' other = Some secret" for other secret
    by (cases "other = Reference ref") (auto simp: fresh_error_def only_ref_def)
  with e Inl show ?thesis by (cases e) (auto simp: fresh_error_def)
qed

definition demo_ref :: credential_ref where
  "demo_ref = \<lparr>Provider = ProviderKeyring, Reference = ''r''\<rparr>"

lemma demo_ref_valid: "credential_ref_valid demo_ref"
  by code_simp

theorem set_fresh_never_overwrites_witness:
  "\<exists>d'. set_fresh (\<lambda>_. Works) demo_env demo_ref ''p'' demo_disk = (Inr (), d') \<and>
     d_keyring d' = [''r'' \<mapsto> ''p''] \<and> d_files d' = d_files demo_disk"
proof -
  have ok: "fst (set_fresh (\<lambda>_. Works) demo_env demo_ref ''p'' demo_disk) = Inr ()"
    using demo_ref_valid
    by (simp add: set_fresh_def keyring_get_def keyring_set_def keyring_call_def put_keyring_def proc_run fs_run
        demo_disk_def demo_ref_def demo_env_def)
  then obtain d' where d': "set_fresh (\<lambda>_. Works) demo_env demo_ref ''p'' demo_disk = (Inr (), d')"
    by (metis prod.collapse)
  from set_fresh_never_overwrites [OF this] d' show ?thesis
    by (auto simp: demo_disk_def demo_ref_def)
qed

section \<open>Providers give a usable password\<close>

lemma triple_read_restricted:
  "triple (\<lambda>d. d_files d = f \<and> d_keyring d = k) (read_restricted_password faults path)
     (\<lambda>v d. d_files d = f \<and> d_keyring d = k \<and> v \<noteq> '''' \<and> CHR 0x00 \<notin> set v \<and>
       (\<exists>data. f path = Some (PlainFile Private data) \<and> length data \<le> maxCredentialBytes \<and>
          v = password_text data))
     (\<lambda>_ d. d_files d = f \<and> d_keyring d = k)"
proof -
  let ?P = "\<lambda>d. d_files d = f \<and> d_keyring d = k"
  let ?R = "\<lambda>node d. ?P d \<and> d_files d path = node"
  have s: "stops P (\<lambda>_. ?P)" if "\<And>d. P d \<Longrightarrow> ?P d" for P using that by (auto simp: stops_def)
  have look: "triple P (plain_call faults) (\<lambda>_. P) (\<lambda>_. ?P)" if "uncounted P" "\<And>d. P d \<Longrightarrow> ?P d" for P
    by (rule triple_plain_call [OF that(1) s]) (rule that(2))
  have checks: "triple (?R (Some (PlainFile Private data)))
      (bindP (plain_call faults) (\<lambda>_.
         if maxCredentialBytes < length data then failure ''credential file exceeds the limit''
         else if password_text data = '''' then failure ''credential file is empty''
         else if CHR 0x00 \<in> set (password_text data) then failure ''credential file contains a NUL byte''
         else returnP (password_text data)))
      (\<lambda>v d. ?P d \<and> v \<noteq> '''' \<and> CHR 0x00 \<notin> set v \<and>
       (\<exists>data. f path = Some (PlainFile Private data) \<and> length data \<le> maxCredentialBytes \<and>
          v = password_text data)) (\<lambda>_. ?P)" for data
    by (rule triple_bind [OF look]) (auto simp: uncounted_def intro!: triple_if triple_failure s triple_return)
  show ?thesis
    unfolding read_restricted_password_def
    apply (rule triple_bind [OF look])
      apply (simp_all add: uncounted_def)
    apply (rule triple_bind [OF triple_file_at_eq])
    subgoal for node
      apply (cases "\<exists>data. node = Some (PlainFile Private data)")
       apply (elim exE, simp only: option.case node.case access.case, rule triple_weaken [OF checks], auto)[1]
      apply (auto split: option.splits node.splits access.splits intro!: triple_failure s)
      done
    done
qed

lemma triple_provide_password:
  "triple (\<lambda>d. d_files d = f \<and> d_keyring d = k) (provide_password faults options canceled p)
     (\<lambda>v d. d_files d = f \<and> d_keyring d = k \<and> \<not> canceled \<and> v \<noteq> '''' \<and>
       (case p of
          FromEnv name \<Rightarrow> LookupEnv options name = Some v
        | FromFile path \<Rightarrow> CHR 0x00 \<notin> set v \<and>
            (\<exists>data. f path = Some (PlainFile Private data) \<and> length data \<le> maxCredentialBytes \<and>
               v = password_text data)
        | FromTerminal \<Rightarrow> TypedPassword options = Some v
        | FromKeyring ref \<Rightarrow> k ref = Some v))
     (\<lambda>_ d. d_files d = f \<and> d_keyring d = k)"
proof -
  let ?P = "\<lambda>d. d_files d = f \<and> d_keyring d = k"
  have s: "stops P (\<lambda>_. ?P)" if "\<And>d. P d \<Longrightarrow> ?P d" for P using that by (auto simp: stops_def)
  have get: "triple ?P (keyring_get faults ref) (\<lambda>found d. ?P d \<and> d_keyring d ref = found) (\<lambda>_. ?P)" for ref
    by (rule triple_keyring_get) (auto simp: uncounted_def intro: s)
  show ?thesis
    unfolding provide_password_def
    apply (rule triple_if)
     apply (rule triple_failure, rule s, assumption)
    apply (cases p; simp)
       apply (auto split: option.splits intro!: triple_failure triple_return s)[1]
      apply (rule triple_weaken [OF triple_read_restricted], auto)[1]
     apply (auto split: option.splits intro!: triple_failure triple_return s)[1]
    apply (rule triple_bind [OF get])
    apply (auto split: option.splits intro!: triple_failure triple_return s triple_if)
    done
qed

text \<open>C22: Whatever the provider, a password it returns is not empty, and one from a file comes from a
  private file within the size limit and has no NUL byte; a provider never changes files or keyring.\<close>

theorem provided_password_usable:
  assumes "provide_password faults options canceled p d = (r, d')"
  shows "d_files d' = d_files d \<and> d_keyring d' = d_keyring d \<and>
    (case r of Inl _ \<Rightarrow> True
     | Inr v \<Rightarrow> \<not> canceled \<and> v \<noteq> '''' \<and>
       (case p of
          FromEnv name \<Rightarrow> LookupEnv options name = Some v
        | FromFile path \<Rightarrow> CHR 0x00 \<notin> set v \<and>
            (\<exists>data. d_files d path = Some (PlainFile Private data) \<and> length data \<le> maxCredentialBytes \<and>
               v = password_text data)
        | FromTerminal \<Rightarrow> TypedPassword options = Some v
        | FromKeyring ref \<Rightarrow> d_keyring d ref = Some v))"
proof (cases r)
  case (Inr v)
  from triple_resultD [OF triple_provide_password _ assms [unfolded Inr], of "d_files d" "d_keyring d"] Inr
  show ?thesis by simp
next
  case (Inl e)
  from triple_errorD [OF triple_provide_password _ assms [unfolded Inl], of "d_files d" "d_keyring d"] Inl
  show ?thesis by simp
qed

definition secret_disk :: disk where
  "secret_disk = \<lparr>d_files = [''/s'' \<mapsto> PlainFile Private [CHR ''p'', CHR 0x0D, CHR 0x0A]], d_keyring = Map.empty, d_calls = 0\<rparr>"

definition no_options :: provider_options where
  "no_options = \<lparr>OptionsBaseDir = ''/'', InputIsTerminal = False, TypedPassword = None, LookupEnv = Map.empty\<rparr>"

theorem provided_password_usable_witness:
  "\<exists>d'. provide_password (\<lambda>_. Works) no_options False (FromFile ''/s'') secret_disk = (Inr ''p'', d') \<and>
     d_files d' = d_files secret_disk"
proof -
  have "fst (provide_password (\<lambda>_. Works) no_options False (FromFile ''/s'') secret_disk) = Inr ''p''"
    by (simp add: provide_password_def read_restricted_password_def password_text_def trim_suffix_def
        has_suffix_def proc_run fs_run secret_disk_def maxCredentialBytes_def)
  then obtain d' where d': "provide_password (\<lambda>_. Works) no_options False (FromFile ''/s'') secret_disk = (Inr ''p'', d')"
    by (metis prod.collapse)
  from provided_password_usable [OF this] d' show ?thesis by auto
qed

end
