(* ===== verification/MigJournal.thy ===== *)
theory MigJournal
  imports Credentials
begin

text \<open>
  \<open>internal/config/migration_journal.go\<close>: the journal of a migration transaction, its validation and its
  phases, and the snapshots of the files the transaction replaces.
\<close>

section \<open>Data\<close>

definition migrationJournalSchemaVersion :: int where "migrationJournalSchemaVersion = 1"

datatype phase =
    PhasePrepared | PhaseBackups | PhaseKeyring | PhaseConfig | PhaseMarkerVerified | PhaseOther string

datatype source_kind = MetaYAML | NeucnJSON | KindOther string

record source_stamp =
  StampKind :: source_kind
  LocationHash :: string
  RedactedDigest :: string

record snapshot =
  Existed :: bool
  SnapshotPath :: string
  SnapshotDigest :: string

record artifact =
  TargetPath :: string
  Before :: snapshot
  AfterDigest :: string

record backup_record =
  SourceLocationHash :: string
  BackupPath :: string

record journal =
  JournalSchema :: int
  TransactionID :: string
  Phase :: phase
  TargetSchema :: int
  ToolVersion :: string
  Sources :: "source_stamp list"
  ConfigArtifact :: artifact
  MarkerArtifact :: artifact
  Backups :: "backup_record list"
  NewKeyringRefs :: "string list"

record marker =
  MarkerSchema :: int
  MarkerTransaction :: string
  MarkerTarget :: int
  MarkerTool :: string
  CompletedAt :: int
  CompletedOffset :: int
  MarkerSources :: "source_stamp list"
  ConfigDigest :: string
  MarkerProfiles :: "string list"
  MarkerBackups :: "backup_record list"

text \<open>The YAML documents of the transaction, decoded strictly.\<close>

record migration_env = config_env +
  decode_journal :: "string \<Rightarrow> journal option"
  marshal_journal :: "journal \<Rightarrow> string option"
  decode_marker :: "string \<Rightarrow> marker option"
  marshal_marker :: "marker \<Rightarrow> string option"

definition journal_codec :: "'e migration_env_scheme \<Rightarrow> bool" where
  "journal_codec en \<longleftrightarrow> (\<forall>j data. marshal_journal en j = Some data \<longrightarrow> decode_journal en data = Some j)"

definition marker_codec :: "'e migration_env_scheme \<Rightarrow> bool" where
  "marker_codec en \<longleftrightarrow> (\<forall>m data. marshal_marker en m = Some data \<longrightarrow> decode_marker en data = Some m)"

section \<open>Validation\<close>

text \<open>\<open>utf8.ValidString\<close>.\<close>

function valid_utf8 :: "string \<Rightarrow> bool" where
  "valid_utf8 s =
     (if s = '''' then True else if utf8_len s = 0 then False else valid_utf8 (drop (utf8_len s) s))"
  by auto
termination
  by (relation "measure length") auto

declare valid_utf8.simps [simp del]

definition valid_journal_text :: "string \<Rightarrow> nat \<Rightarrow> bool" where
  "valid_journal_text v limit \<longleftrightarrow>
     v \<noteq> '''' \<and> length v \<le> limit \<and> valid_utf8 v \<and> trim_space v = v \<and>
     list_all (\<lambda>c. 32 \<le> byte c \<and> byte c \<noteq> 127) v"

definition valid_transaction_id :: "string \<Rightarrow> bool" where
  "valid_transaction_id = lower_hex 32"

definition valid_sha256 :: "string \<Rightarrow> bool" where
  "valid_sha256 = lower_hex 64"

definition clean_file_path :: "string \<Rightarrow> bool" where
  "clean_file_path p \<longleftrightarrow> p \<noteq> '''' \<and> path_is_abs p \<and> path_clean p = p \<and> path_base p \<noteq> ''.''"

definition inside_base :: "string \<Rightarrow> string \<Rightarrow> bool" where
  "inside_base p base \<longleftrightarrow>
     clean_file_path p \<and>
     (case path_rel base p of None \<Rightarrow> False
      | Some rel \<Rightarrow> rel \<noteq> ''.'' \<and> \<not> path_is_abs rel \<and> rel \<noteq> ''..'' \<and> \<not> has_prefix rel ''../'')"

definition path_key :: "'e config_env_scheme \<Rightarrow> string \<Rightarrow> string" where
  "path_key en p = lower_case en (path_clean p)"

definition add_path :: "'e config_env_scheme \<Rightarrow> string \<Rightarrow> string \<Rightarrow> string list \<Rightarrow> string list option" where
  "add_path en p base seen =
     (if inside_base p base \<and> path_key en p \<notin> set seen then Some (path_key en p # seen) else None)"

definition validate_artifact ::
    "'e config_env_scheme \<Rightarrow> artifact \<Rightarrow> string \<Rightarrow> string list \<Rightarrow> string list option" where
  "validate_artifact en a base seen = do {
     require (valid_sha256 (AfterDigest a));
     seen1 \<leftarrow> add_path en (TargetPath a) base seen;
     if \<not> Existed (Before a)
     then (if SnapshotPath (Before a) = '''' \<and> SnapshotDigest (Before a) = '''' then Some seen1 else None)
     else do {
       require (valid_sha256 (SnapshotDigest (Before a)));
       add_path en (SnapshotPath (Before a)) base seen1
     }
   }"

definition valid_stamp :: "source_stamp \<Rightarrow> bool" where
  "valid_stamp s \<longleftrightarrow>
     StampKind s \<in> {MetaYAML, NeucnJSON} \<and> valid_sha256 (LocationHash s) \<and> valid_sha256 (RedactedDigest s)"

fun validate_backups ::
    "'e config_env_scheme \<Rightarrow> string list \<Rightarrow> string \<Rightarrow> string list \<Rightarrow> string list \<Rightarrow>
       backup_record list \<Rightarrow> string list option" where
  "validate_backups en sources base seen_backups seen [] = Some seen"
| "validate_backups en sources base seen_backups seen (b # bs) =
     (if SourceLocationHash b \<in> set sources \<and> SourceLocationHash b \<notin> set seen_backups
      then (case add_path en (BackupPath b) base seen of None \<Rightarrow> None
        | Some seen1 \<Rightarrow> validate_backups en sources base (SourceLocationHash b # seen_backups) seen1 bs)
      else None)"

definition journal_paths_ok :: "'e config_env_scheme \<Rightarrow> journal \<Rightarrow> string \<Rightarrow> bool" where
  "journal_paths_ok en j path =
     (let base = path_dir path in
      case validate_artifact en (ConfigArtifact j) base [path_key en path] of None \<Rightarrow> False
      | Some seen1 \<Rightarrow>
          (case validate_artifact en (MarkerArtifact j) base seen1 of None \<Rightarrow> False
           | Some seen2 \<Rightarrow>
               validate_backups en (map LocationHash (Sources j)) base [] seen2 (Backups j) \<noteq> None))"

definition validate_journal :: "'e config_env_scheme \<Rightarrow> journal \<Rightarrow> string \<Rightarrow> bool" where
  "validate_journal en j path \<longleftrightarrow>
     clean_file_path path \<and>
     JournalSchema j = migrationJournalSchemaVersion \<and>
     valid_transaction_id (TransactionID j) \<and>
     Phase j \<in> {PhasePrepared, PhaseBackups, PhaseKeyring, PhaseConfig, PhaseMarkerVerified} \<and>
     TargetSchema j = SchemaVersion \<and>
     valid_journal_text (ToolVersion j) 128 \<and>
     Sources j \<noteq> [] \<and> list_all valid_stamp (Sources j) \<and> distinct (map LocationHash (Sources j)) \<and>
     length (Backups j) = length (Sources j) \<and>
     journal_paths_ok en j path \<and>
     list_all (\<lambda>r. valid_journal_text r 256) (NewKeyringRefs j) \<and> distinct (NewKeyringRefs j)"

fun phase_next :: "phase \<Rightarrow> phase option" where
  "phase_next PhasePrepared = Some PhaseBackups"
| "phase_next PhaseBackups = Some PhaseKeyring"
| "phase_next PhaseKeyring = Some PhaseConfig"
| "phase_next PhaseConfig = Some PhaseMarkerVerified"
| "phase_next _ = None"

section \<open>Journal\<close>

definition encode_journal :: "'e migration_env_scheme \<Rightarrow> journal \<Rightarrow> string option" where
  "encode_journal en j =
     (case marshal_journal en j of None \<Rightarrow> None
      | Some data \<Rightarrow> if maxConfigBytes < length data then None else Some data)"

definition begin_journal :: "(nat \<Rightarrow> fault) \<Rightarrow> 'e migration_env_scheme \<Rightarrow> string \<Rightarrow> journal \<Rightarrow> unit fsop" where
  "begin_journal faults en path j =
     (if \<not> validate_journal en j path then failure ''validate migration journal''
      else (case encode_journal en j of
          None \<Rightarrow> failure ''encode migration journal''
        | Some data \<Rightarrow> write_exclusive faults path data))"

definition load_journal :: "(nat \<Rightarrow> fault) \<Rightarrow> 'e migration_env_scheme \<Rightarrow> string \<Rightarrow> journal fsop" where
  "load_journal faults en path =
     (if \<not> clean_file_path path then failure ''load migration journal: invalid path''
      else
        bindP (read_private faults path) (\<lambda>data.
        case decode_journal en data of
          None \<Rightarrow> failure ''load migration journal: invalid strict YAML document''
        | Some j \<Rightarrow> if validate_journal en j path then returnP j else failure ''validate migration journal''))"

definition advance_journal ::
    "(nat \<Rightarrow> fault) \<Rightarrow> 'e migration_env_scheme \<Rightarrow> string \<Rightarrow> string \<Rightarrow> phase \<Rightarrow> journal fsop" where
  "advance_journal faults en path txid nextp =
     (if \<not> valid_transaction_id txid then failure ''advance migration journal: invalid transaction ID''
      else
        bindP (load_journal faults en path) (\<lambda>j.
        if TransactionID j \<noteq> txid then failure ''advance migration journal: transaction ID mismatch''
        else if phase_next (Phase j) \<noteq> Some nextp then failure ''advance migration journal: invalid phase transition''
        else (case encode_journal en (j\<lparr>Phase := nextp\<rparr>) of
            None \<Rightarrow> failure ''encode migration journal''
          | Some data \<Rightarrow>
              bindP (atomic_write faults path data False) (\<lambda>_.
              bindP (load_journal faults en path) (\<lambda>stored.
              if TransactionID stored \<noteq> txid \<or> Phase stored \<noteq> nextp
              then failure ''verify migration journal update: persisted state mismatch''
              else returnP stored)))))"

section \<open>Snapshots and artifacts\<close>

text \<open>\<open>prepareMigrationSnapshot\<close>: the metadata of the snapshot and its contents.\<close>

definition no_snapshot :: snapshot where
  "no_snapshot = \<lparr>Existed = False, SnapshotPath = '''', SnapshotDigest = ''''\<rparr>"

definition prepare_snapshot ::
    "(nat \<Rightarrow> fault) \<Rightarrow> 'e config_env_scheme \<Rightarrow> string \<Rightarrow> string \<Rightarrow> (snapshot \<times> string) fsop" where
  "prepare_snapshot faults en source recovery =
     (if \<not> clean_file_path source \<or> \<not> clean_file_path recovery \<or> path_dir source \<noteq> path_dir recovery
         \<or> source = recovery
      then failure ''prepare migration snapshot: invalid path''
      else
        bindP (path_exists faults recovery) (\<lambda>there.
        if there then failure ''prepare migration snapshot: recovery path already exists''
        else
          bindP (read_regular faults source) (\<lambda>found.
          case found of
            None \<Rightarrow> returnP (no_snapshot, '''')
          | Some data \<Rightarrow>
              returnP (\<lparr>Existed = True, SnapshotPath = recovery, SnapshotDigest = digest en data\<rparr>, data))))"

definition absent_ok :: "snapshot \<Rightarrow> bool" where
  "absent_ok s \<longleftrightarrow> SnapshotPath s = '''' \<and> SnapshotDigest s = ''''"

definition write_snapshot ::
    "(nat \<Rightarrow> fault) \<Rightarrow> 'e config_env_scheme \<Rightarrow> snapshot \<Rightarrow> string \<Rightarrow> unit fsop" where
  "write_snapshot faults en s data =
     (if \<not> Existed s then
        (if absent_ok s \<and> data = '''' then returnP ()
         else failure ''write migration snapshot: invalid absent snapshot metadata'')
      else if digest en data \<noteq> SnapshotDigest s then failure ''write migration snapshot: digest mismatch''
      else write_exclusive faults (SnapshotPath s) data)"

definition create_snapshot ::
    "(nat \<Rightarrow> fault) \<Rightarrow> 'e config_env_scheme \<Rightarrow> string \<Rightarrow> string \<Rightarrow> snapshot fsop" where
  "create_snapshot faults en source recovery =
     bindP (prepare_snapshot faults en source recovery) (\<lambda>(s, data).
     bindP (write_snapshot faults en s data) (\<lambda>_. returnP s))"

definition load_snapshot :: "(nat \<Rightarrow> fault) \<Rightarrow> 'e config_env_scheme \<Rightarrow> snapshot \<Rightarrow> string option fsop" where
  "load_snapshot faults en s =
     (if \<not> Existed s then
        (if absent_ok s then returnP None else failure ''load migration snapshot: invalid absent snapshot metadata'')
      else if \<not> clean_file_path (SnapshotPath s) \<or> \<not> valid_sha256 (SnapshotDigest s)
      then failure ''load migration snapshot: invalid metadata''
      else
        bindP (read_private faults (SnapshotPath s)) (\<lambda>data.
        if digest en data \<noteq> SnapshotDigest s then failure ''load migration snapshot: digest mismatch''
        else returnP (Some data)))"

definition remove_snapshot :: "(nat \<Rightarrow> fault) \<Rightarrow> 'e config_env_scheme \<Rightarrow> snapshot \<Rightarrow> unit fsop" where
  "remove_snapshot faults en s =
     (if \<not> Existed s then (if absent_ok s then returnP () else failure ''invalid absent snapshot metadata'')
      else
        bindP (path_exists faults (SnapshotPath s)) (\<lambda>there.
        if \<not> there then returnP ()
        else bindP (load_snapshot faults en s) (\<lambda>_. remove_regular faults (SnapshotPath s) False)))"

definition verify_artifact :: "(nat \<Rightarrow> fault) \<Rightarrow> 'e config_env_scheme \<Rightarrow> string \<Rightarrow> string \<Rightarrow> unit fsop" where
  "verify_artifact faults en path expected =
     bindP (read_regular faults path) (\<lambda>found.
     case found of
       None \<Rightarrow> failure ''artifact is missing''
     | Some data \<Rightarrow> if digest en data \<noteq> expected then failure ''artifact digest mismatch'' else returnP ())"

definition complete_journal ::
    "(nat \<Rightarrow> fault) \<Rightarrow> 'e migration_env_scheme \<Rightarrow> string \<Rightarrow> string \<Rightarrow> unit fsop" where
  "complete_journal faults en path txid =
     bindP (load_journal faults en path) (\<lambda>j.
     if \<not> valid_transaction_id txid \<or> TransactionID j \<noteq> txid
     then failure ''complete migration journal: transaction ID mismatch''
     else if Phase j \<noteq> PhaseMarkerVerified
     then failure ''complete migration journal: transaction is not marker-verified''
     else
       bindP (verify_artifact faults en (TargetPath (ConfigArtifact j)) (AfterDigest (ConfigArtifact j))) (\<lambda>_.
       bindP (verify_artifact faults en (TargetPath (MarkerArtifact j)) (AfterDigest (MarkerArtifact j))) (\<lambda>_.
       bindP (remove_snapshot faults en (Before (ConfigArtifact j))) (\<lambda>_.
       bindP (remove_snapshot faults en (Before (MarkerArtifact j))) (\<lambda>_.
       remove_regular faults path False)))))"

end
