(* ===== verification/LgProcess.thy ===== *)
theory LgProcess
  imports LgRunner MigJournal
begin

text \<open>
  How the live validation gate runs the program under test: \<open>internal/livegate/stream_json.go\<close>, the walk over one
  JSON document that reports every node with its path, and \<open>internal/livegate/process.go\<close>, which starts the program,
  projects the document into a closed set of fields and turns them into an observation of the state machine.

  The program is a parameter: from its arguments and whether it gets the terminal as its standard input, it answers with
  its standard output, its exit status, whether the start or the wait reported an error, and whether the context was
  canceled by then.  A standard stream of the executor is only known to be there or not.  The document is parsed before it
  is walked; a document that is refused half way is refused, so the walk returns the nodes or nothing.
\<close>

section \<open>The nodes of a document\<close>

definition MaxCandidateJSONBytes :: nat where "MaxCandidateJSONBytes = 64 * 1024"
definition MaxCandidateJSONDepth :: nat where "MaxCandidateJSONDepth = 64"

datatype candidate_node = NodeScalar json | NodeObject | NodeArray

text \<open>\<open>strings.ContainsRune(text, utf8.RuneError)\<close> on a decoded string.\<close>

definition has_replacement :: "string \<Rightarrow> bool" where
  "has_replacement s \<longleftrightarrow> contains_str s replacement"

text \<open>\<open>projectCandidateJSONValue\<close>, \<open>projectCandidateJSONObject\<close> and \<open>projectCandidateJSONArray\<close>.\<close>

fun project_value :: "string list \<Rightarrow> nat \<Rightarrow> json \<Rightarrow> (string list \<times> candidate_node) list option"
  and project_members ::
    "string list \<Rightarrow> nat \<Rightarrow> string list \<Rightarrow> (string \<times> json) list \<Rightarrow> (string list \<times> candidate_node) list option"
  and project_elements :: "string list \<Rightarrow> nat \<Rightarrow> nat \<Rightarrow> json list \<Rightarrow> (string list \<times> candidate_node) list option"
where
  "project_value path depth (JObj ms) =
     (if MaxCandidateJSONDepth \<le> depth then None
      else map_option ((#) (path, NodeObject)) (project_members path (Suc depth) [] ms))"
| "project_value path depth (JArr vs) =
     (if MaxCandidateJSONDepth \<le> depth then None
      else map_option ((#) (path, NodeArray)) (project_elements path (Suc depth) 0 vs))"
| "project_value path depth (JStr s) = (if has_replacement s then None else Some [(path, NodeScalar (JStr s))])"
| "project_value path depth (JNum n) = Some [(path, NodeScalar (JNum n))]"
| "project_value path depth (JBool b) = Some [(path, NodeScalar (JBool b))]"
| "project_value path depth JNull = Some [(path, NodeScalar JNull)]"
| "project_members path depth seen [] = Some []"
| "project_members path depth seen ((key, v) # ms) =
     (if has_replacement key \<or> key \<in> set seen then None
      else (case project_value (path @ [key]) depth v of None \<Rightarrow> None
        | Some ns \<Rightarrow> map_option ((@) ns) (project_members path depth (key # seen) ms)))"
| "project_elements path depth index [] = Some []"
| "project_elements path depth index (v # vs) =
     (case project_value (path @ [nat_dec index]) depth v of None \<Rightarrow> None
      | Some ns \<Rightarrow> map_option ((@) ns) (project_elements path depth (Suc index) vs))"

text \<open>\<open>projectCandidateJSONNodes\<close> and \<open>ProjectCandidateJSON\<close>, which reports only the scalars.\<close>

definition project_candidate_nodes :: "string \<Rightarrow> (string list \<times> candidate_node) list option" where
  "project_candidate_nodes text =
     (if MaxCandidateJSONBytes < length text \<or> \<not> valid_utf8 text then None
      else (case parse_json text of None \<Rightarrow> None | Some v \<Rightarrow> project_value [] 0 v))"

text \<open>For evaluation the limit is compared as an integer.\<close>

lemma project_candidate_nodes_code [code]:
  "project_candidate_nodes text =
     (if 64 * 1024 < int (length text) \<or> \<not> valid_utf8 text then None
      else (case parse_json text of None \<Rightarrow> None | Some v \<Rightarrow> project_value [] 0 v))"
  by (auto simp: project_candidate_nodes_def MaxCandidateJSONBytes_def)

definition project_candidate_json :: "string \<Rightarrow> (string list \<times> json) list option" where
  "project_candidate_json text =
     map_option (\<lambda>ns. concat (map (\<lambda>(path, n). case n of NodeScalar v \<Rightarrow> [(path, v)] | _ \<Rightarrow> []) ns))
       (project_candidate_nodes text)"

section \<open>The projection\<close>

text \<open>A text of the projection with its \<open>Seen\<close> and \<open>Invalid\<close> flags.\<close>

record text_field =
  tf_text :: string
  tf_seen :: bool
  tf_invalid :: bool

definition no_field :: text_field where
  "no_field = \<lparr>tf_text = '''', tf_seen = False, tf_invalid = False\<rparr>"

record candidate_projection =
  cp_root_object :: bool
  cp_invalid :: bool
  cp_schema_seen :: bool
  cp_schema :: string
  cp_command :: string
  cp_command_set :: bool
  cp_ok :: bool
  cp_ok_set :: bool
  cp_data_seen :: bool
  cp_data_object :: bool
  cp_error_seen :: bool
  cp_error_object :: bool
  cp_error_code :: text_field
  cp_outcome :: text_field
  cp_status_session :: text_field
  cp_status_username :: text_field
  cp_final_status_seen :: bool
  cp_final_status_object :: bool
  cp_final_session :: text_field
  cp_final_username :: text_field
  cp_profile_seen :: bool
  cp_profile_object :: bool
  cp_profile_username :: text_field
  cp_credential_seen :: bool
  cp_credential_object :: bool
  cp_provider :: text_field
  cp_reference :: text_field

definition no_projection :: candidate_projection where
  "no_projection = \<lparr>cp_root_object = False, cp_invalid = False, cp_schema_seen = False, cp_schema = '''',
     cp_command = '''', cp_command_set = False, cp_ok = False, cp_ok_set = False, cp_data_seen = False,
     cp_data_object = False, cp_error_seen = False, cp_error_object = False, cp_error_code = no_field,
     cp_outcome = no_field, cp_status_session = no_field, cp_status_username = no_field,
     cp_final_status_seen = False, cp_final_status_object = False, cp_final_session = no_field,
     cp_final_username = no_field, cp_profile_seen = False, cp_profile_object = False,
     cp_profile_username = no_field, cp_credential_seen = False, cp_credential_object = False,
     cp_provider = no_field, cp_reference = no_field\<rparr>"

definition candidate_number_text :: "json \<Rightarrow> string \<times> bool" where
  "candidate_number_text v = (case v of JNum n \<Rightarrow> (n, False) | _ \<Rightarrow> ('''', True))"

definition candidate_string_value :: "json \<Rightarrow> string \<times> bool" where
  "candidate_string_value v = (case v of JStr s \<Rightarrow> (s, False) | _ \<Rightarrow> ('''', True))"

definition candidate_nullable_string_value :: "json \<Rightarrow> string \<times> bool" where
  "candidate_nullable_string_value v = (if v = JNull then ('''', False) else candidate_string_value v)"

definition candidate_bool_value :: "json \<Rightarrow> bool \<times> bool" where
  "candidate_bool_value v = (case v of JBool b \<Rightarrow> (b, False) | _ \<Rightarrow> (False, True))"

text \<open>The common body of the cases of \<open>project\<close> that read a text.\<close>

definition set_field :: "(json \<Rightarrow> string \<times> bool) \<Rightarrow> candidate_node \<Rightarrow> text_field \<Rightarrow> text_field" where
  "set_field read n f =
     (case n of
        NodeScalar v \<Rightarrow> \<lparr>tf_text = fst (read v), tf_seen = True, tf_invalid = (tf_invalid f \<or> snd (read v))\<rparr>
      | _ \<Rightarrow> f\<lparr>tf_seen := True, tf_invalid := True\<rparr>)"

definition project_node :: "string list \<Rightarrow> candidate_node \<Rightarrow> candidate_projection \<Rightarrow> candidate_projection" where
  "project_node path n p =
     (if path = [] then
        p\<lparr>cp_root_object := (n = NodeObject), cp_invalid := (cp_invalid p \<or> n \<noteq> NodeObject)\<rparr>
      else if path = [''schema_version''] then
        (case n of
           NodeScalar v \<Rightarrow> p\<lparr>cp_schema_seen := True, cp_schema := fst (candidate_number_text v),
             cp_invalid := (cp_invalid p \<or> snd (candidate_number_text v))\<rparr>
         | _ \<Rightarrow> p\<lparr>cp_schema_seen := True, cp_invalid := True\<rparr>)
      else if path = [''command''] then
        (case n of
           NodeScalar v \<Rightarrow> p\<lparr>cp_command_set := True, cp_command := fst (candidate_string_value v),
             cp_invalid := (cp_invalid p \<or> snd (candidate_string_value v))\<rparr>
         | _ \<Rightarrow> p\<lparr>cp_command_set := True, cp_invalid := True\<rparr>)
      else if path = [''ok''] then
        (case n of
           NodeScalar v \<Rightarrow> p\<lparr>cp_ok_set := True, cp_ok := fst (candidate_bool_value v),
             cp_invalid := (cp_invalid p \<or> snd (candidate_bool_value v))\<rparr>
         | _ \<Rightarrow> p\<lparr>cp_ok_set := True, cp_invalid := True\<rparr>)
      else if path = [''data''] then p\<lparr>cp_data_seen := True, cp_data_object := (n = NodeObject)\<rparr>
      else if path = [''error''] then p\<lparr>cp_error_seen := True, cp_error_object := (n = NodeObject)\<rparr>
      else if path = [''error'', ''code''] then
        p\<lparr>cp_error_code := set_field candidate_string_value n (cp_error_code p)\<rparr>
      else if path = [''data'', ''outcome''] then
        p\<lparr>cp_outcome := set_field candidate_string_value n (cp_outcome p)\<rparr>
      else if path = [''data'', ''session''] then
        p\<lparr>cp_status_session := set_field candidate_string_value n (cp_status_session p)\<rparr>
      else if path = [''data'', ''username''] then
        p\<lparr>cp_status_username := set_field candidate_nullable_string_value n (cp_status_username p)\<rparr>
      else if path = [''data'', ''status''] then
        p\<lparr>cp_final_status_seen := True, cp_final_status_object := (n = NodeObject)\<rparr>
      else if path = [''data'', ''status'', ''session''] then
        p\<lparr>cp_final_session := set_field candidate_string_value n (cp_final_session p)\<rparr>
      else if path = [''data'', ''status'', ''username''] then
        p\<lparr>cp_final_username := set_field candidate_nullable_string_value n (cp_final_username p)\<rparr>
      else if path = [''data'', ''profile''] then
        p\<lparr>cp_profile_seen := True, cp_profile_object := (n = NodeObject)\<rparr>
      else if path = [''data'', ''profile'', ''username''] then
        p\<lparr>cp_profile_username := set_field candidate_string_value n (cp_profile_username p)\<rparr>
      else if path = [''data'', ''profile'', ''credential''] then
        p\<lparr>cp_credential_seen := True, cp_credential_object := (n = NodeObject)\<rparr>
      else if path = [''data'', ''profile'', ''credential'', ''provider''] then
        p\<lparr>cp_provider := set_field candidate_string_value n (cp_provider p)\<rparr>
      else if path = [''data'', ''profile'', ''credential'', ''reference''] then
        p\<lparr>cp_reference := set_field candidate_string_value n (cp_reference p)\<rparr>
      else p)"

definition project_nodes :: "(string list \<times> candidate_node) list \<Rightarrow> candidate_projection" where
  "project_nodes ns = foldl (\<lambda>p (path, n). project_node path n p) no_projection ns"

text \<open>The parsing half of \<open>runJSONWithInput\<close>: nothing when its \<open>parseErr\<close> is set.\<close>

definition read_projection :: "string \<Rightarrow> candidate_projection option" where
  "read_projection text =
     (case project_candidate_nodes text of None \<Rightarrow> None
      | Some ns \<Rightarrow> if cp_invalid (project_nodes ns) then None else Some (project_nodes ns))"

definition valid_envelope :: "string \<Rightarrow> bool \<Rightarrow> candidate_projection \<Rightarrow> bool" where
  "valid_envelope command success p \<longleftrightarrow>
     \<not> cp_invalid p \<and> cp_root_object p \<and> cp_schema_seen p \<and> cp_schema p = ''1'' \<and> cp_command_set p \<and>
     cp_command p = command \<and> cp_ok_set p \<and> cp_ok p = success \<and>
     (if success then cp_data_seen p \<and> cp_data_object p \<and> \<not> cp_error_seen p
      else \<not> cp_data_seen p \<and> cp_error_seen p \<and> cp_error_object p)"

definition valid_profile_shape :: "suite \<Rightarrow> candidate_projection \<Rightarrow> bool" where
  "valid_profile_shape st p \<longleftrightarrow>
     cp_profile_seen p \<and> cp_profile_object p \<and> tf_seen (cp_profile_username p) \<and>
     \<not> tf_invalid (cp_profile_username p) \<and>
     (if st \<noteq> SuitePasswordCore then st = SuiteTerminalQR
      else cp_credential_seen p \<and> cp_credential_object p \<and> tf_seen (cp_provider p) \<and>
        \<not> tf_invalid (cp_provider p) \<and> \<not> tf_invalid (cp_reference p))"

section \<open>Observations\<close>

text \<open>The conversions \<open>SessionState(text)\<close>, \<open>CommandOutcome(text)\<close> and \<open>ErrorCode(text)\<close>.\<close>

definition session_named :: "string \<Rightarrow> session_state" where
  "session_named s =
     (if s = '''' then SessionNone else if s = ''offline'' then SessionOffline
      else if s = ''online'' then SessionOnline else if s = ''unknown'' then SessionUnknown else SessionOther s)"

definition outcome_named :: "string \<Rightarrow> outcome" where
  "outcome_named s =
     (if s = '''' then OutcomeNone else if s = ''logged_in'' then OutcomeLoggedIn
      else if s = ''already_online'' then OutcomeAlreadyOnline else if s = ''logged_out'' then OutcomeLoggedOut
      else if s = ''already_offline'' then OutcomeAlreadyOffline else OutcomeOther s)"

definition error_named :: "string \<Rightarrow> error_code" where
  "error_named s =
     (if s = ''invalid_argument'' then ErrorInvalidArgument else if s = ''config'' then ErrorConfig
      else if s = ''network'' then ErrorNetwork else if s = ''authentication'' then ErrorAuthentication
      else if s = ''session_conflict'' then ErrorSessionConflict
      else if s = ''protocol_changed'' then ErrorProtocolChanged
      else if s = ''interaction_required'' then ErrorInteractionRequired
      else if s = ''unsupported'' then ErrorUnsupported else if s = ''internal'' then ErrorInternal
      else ErrorCodeOther s)"

definition valid_process_session :: "session_state \<Rightarrow> bool" where
  "valid_process_session s \<longleftrightarrow> s = SessionOffline \<or> s = SessionOnline \<or> s = SessionUnknown"

definition valid_process_outcome :: "outcome \<Rightarrow> bool" where
  "valid_process_outcome x \<longleftrightarrow>
     x = OutcomeLoggedIn \<or> x = OutcomeAlreadyOnline \<or> x = OutcomeLoggedOut \<or> x = OutcomeAlreadyOffline"

definition field_ok :: "text_field \<Rightarrow> bool" where
  "field_ok f \<longleftrightarrow> tf_seen f \<and> \<not> tf_invalid f"

text \<open>\<open>successObservation\<close>.\<close>

definition final_status_ok :: "candidate_projection \<Rightarrow> bool" where
  "final_status_ok p \<longleftrightarrow>
     field_ok (cp_outcome p) \<and> cp_final_status_seen p \<and> cp_final_status_object p \<and>
     field_ok (cp_final_session p) \<and> field_ok (cp_final_username p) \<and>
     valid_process_outcome (outcome_named (tf_text (cp_outcome p))) \<and>
     valid_process_session (session_named (tf_text (cp_final_session p)))"

definition success_observation :: "string \<Rightarrow> string \<Rightarrow> candidate_projection \<Rightarrow> observation option" where
  "success_observation command expected p =
     (if command = ''status'' then
        (let session = session_named (tf_text (cp_status_session p)) in
         if field_ok (cp_status_session p) \<and> field_ok (cp_status_username p) \<and> valid_process_session session
         then Some (zero_observation\<lparr>Session := session,
           IdentityMatches := (session = SessionOnline \<and> tf_text (cp_status_username p) \<noteq> '''' \<and>
             tf_text (cp_status_username p) = expected)\<rparr>)
         else None)
      else if command = ''login'' then
        (let session = session_named (tf_text (cp_final_session p)) in
         if final_status_ok p
         then Some (zero_observation\<lparr>OutcomeOf := outcome_named (tf_text (cp_outcome p)), Session := session,
           IdentityMatches := (session = SessionOnline \<and> tf_text (cp_final_username p) \<noteq> '''' \<and>
             tf_text (cp_final_username p) = expected)\<rparr>)
         else None)
      else if command = ''logout'' then
        (if final_status_ok p
         then Some (zero_observation\<lparr>OutcomeOf := outcome_named (tf_text (cp_outcome p)),
           Session := session_named (tf_text (cp_final_session p))\<rparr>)
         else None)
      else None)"

definition process_command_exit :: "int \<Rightarrow> command_exit option" where
  "process_command_exit status = (if status \<in> {0, 1, 2, 3, 4, 5, 6, 7, 130} then Some status else None)"

definition default_process_error_code :: "command_exit \<Rightarrow> error_code option" where
  "default_process_error_code status =
     (if status = CommandExitInternal then Some ErrorInternal
      else if status = CommandExitInvalid then Some ErrorUnsupported
      else if status = CommandExitNetwork \<or> status = CommandExitCanceled then Some ErrorNetwork
      else if status = CommandExitAuthentication then Some ErrorAuthentication
      else if status = CommandExitSessionConflict then Some ErrorSessionConflict
      else if status = CommandExitProtocolChanged then Some ErrorProtocolChanged
      else if status = CommandExitInteractionRequired then Some ErrorInteractionRequired
      else None)"

definition runner_fault_observation :: observation where
  "runner_fault_observation = zero_observation\<lparr>RunnerFault := True\<rparr>"

definition canceled_process_observation :: observation where
  "canceled_process_observation =
     zero_observation\<lparr>ObsExitCode := CommandExitCanceled, ObsErrorCode := Some ErrorNetwork\<rparr>"

definition valid_process_configuration :: "string \<Rightarrow> string \<Rightarrow> bool" where
  "valid_process_configuration candidate profile \<longleftrightarrow>
     candidate \<noteq> '''' \<and> path_is_abs candidate \<and> path_clean candidate = candidate \<and>
     profile \<noteq> '''' \<and> trim_space profile = profile"

section \<open>The executor\<close>

record process_executor =
  px_candidate :: string
  px_profile :: string
  px_stdin :: bool
  px_stdout :: bool
  px_stderr :: bool
  px_expected :: string

record process_answer =
  pa_stdout :: string
  pa_exit :: int
  pa_failed :: bool
  pa_canceled :: bool

type_synonym process_run = "string \<Rightarrow> string list \<Rightarrow> bool \<Rightarrow> process_answer"

datatype process_error = ErrProcessProfile | ErrProcessRunnerFault

text \<open>\<open>jsonAction\<close>: the arguments, the command named in the answer and the standard input, if there is such a command.\<close>

definition json_action :: "process_executor \<Rightarrow> action \<Rightarrow> (string list \<times> string \<times> bool) option" where
  "json_action ex act =
     (let prefix = [''--json'', ''--profile'', px_profile ex] in
      if act \<in> {ActionInitialStatus, ActionStatusOnline, ActionFinalStatus, ActionCleanupStatus}
        then Some (prefix @ [''status''], ''status'', False)
      else if act = ActionPasswordLogin then
        (if px_stdin ex then Some (prefix @ [''login'', ''--method'', ''password''], ''login'', True) else None)
      else if act = ActionSecondPasswordLogin
        then Some (prefix @ [''login'', ''--method'', ''password''], ''login'', False)
      else if act \<in> {ActionLogout, ActionSecondLogout, ActionCleanupLogout}
        then Some (prefix @ [''logout''], ''logout'', False)
      else None)"

text \<open>A reported failure: the documented code for the exit status, in a valid envelope.\<close>

definition failure_code :: "string \<Rightarrow> command_exit \<Rightarrow> candidate_projection \<Rightarrow> error_code option" where
  "failure_code command status p =
     (let code = error_named (tf_text (cp_error_code p)) in
      if valid_envelope command False p \<and> \<not> tf_invalid (cp_error_code p) \<and> tf_seen (cp_error_code p) \<and>
         tf_text (cp_error_code p) \<noteq> '''' \<and> error_code_valid code \<and> valid_exit_error status (Some code)
      then Some code else None)"

definition prepare_profile :: "process_executor \<Rightarrow> process_run \<Rightarrow> suite \<Rightarrow> process_error option \<times> process_executor" where
  "prepare_profile ex0 start st =
     (let ex = ex0\<lparr>px_expected := ''''\<rparr> in
      if \<not> valid_process_configuration (px_candidate ex) (px_profile ex) \<or> \<not> px_stderr ex \<or>
         (st \<noteq> SuitePasswordCore \<and> st \<noteq> SuiteTerminalQR) then (Some ErrProcessProfile, ex)
      else
        let answer = start (px_candidate ex) [''--json'', ''--profile'', px_profile ex, ''profile'', ''show''] False in
        if pa_canceled answer then (Some ErrProcessRunnerFault, ex)
        else (case (process_command_exit (pa_exit answer), read_projection (pa_stdout answer)) of
            (Some status, Some p) \<Rightarrow>
              if pa_failed answer \<and> status = 0 then (Some ErrProcessRunnerFault, ex)
              else if status \<noteq> 0 then
                (Some (if failure_code ''profile.show'' status p = None then ErrProcessRunnerFault else ErrProcessProfile), ex)
              else if \<not> valid_envelope ''profile.show'' True p \<or> \<not> valid_profile_shape st p then
                (Some ErrProcessRunnerFault, ex)
              else if tf_text (cp_profile_username p) = '''' then (Some ErrProcessProfile, ex)
              else if st = SuitePasswordCore \<and>
                  (tf_text (cp_provider p) \<noteq> ''prompt'' \<or>
                   tf_seen (cp_reference p) \<and> tf_text (cp_reference p) \<noteq> '''') then (Some ErrProcessProfile, ex)
              else (None, ex\<lparr>px_expected := tf_text (cp_profile_username p)\<rparr>)
          | _ \<Rightarrow> (Some ErrProcessRunnerFault, ex)))"

text \<open>\<open>executeQR\<close>: the program talks to the terminal, only its exit status is seen.\<close>

definition execute_qr :: "process_executor \<Rightarrow> process_run \<Rightarrow> observation" where
  "execute_qr ex start =
     (if \<not> px_stdin ex \<or> \<not> px_stdout ex \<or> \<not> px_stderr ex then runner_fault_observation
      else
        let answer = start (px_candidate ex) [''--profile'', px_profile ex, ''login'', ''--method'', ''qr''] True in
        if pa_canceled answer then canceled_process_observation
        else (case process_command_exit (pa_exit answer) of
            None \<Rightarrow> runner_fault_observation
          | Some status \<Rightarrow>
              if pa_failed answer \<and> pa_exit answer = 0 then runner_fault_observation
              else if status = CommandExitSuccess then zero_observation
              else (case default_process_error_code status of
                  None \<Rightarrow> runner_fault_observation
                | Some code \<Rightarrow> zero_observation\<lparr>ObsExitCode := status, ObsErrorCode := Some code\<rparr>)))"

definition observe_answer :: "string \<Rightarrow> string \<Rightarrow> process_answer \<Rightarrow> observation" where
  "observe_answer command expected answer =
     (if pa_canceled answer then canceled_process_observation
      else (case (process_command_exit (pa_exit answer), read_projection (pa_stdout answer)) of
          (Some status, Some p) \<Rightarrow>
            if pa_failed answer \<and> status = 0 then runner_fault_observation
            else if status = 0 then
              (if \<not> valid_envelope command True p then runner_fault_observation
               else (case success_observation command expected p of
                   None \<Rightarrow> runner_fault_observation | Some obs \<Rightarrow> obs))
            else (case failure_code command status p of
                None \<Rightarrow> runner_fault_observation
              | Some code \<Rightarrow> zero_observation\<lparr>ObsExitCode := status, ObsErrorCode := Some code\<rparr>)
        | _ \<Rightarrow> runner_fault_observation))"

text \<open>\<open>Execute\<close>.\<close>

definition process_execute :: "process_executor \<Rightarrow> process_run \<Rightarrow> action \<Rightarrow> observation" where
  "process_execute ex start act =
     (if px_expected ex = '''' \<or> \<not> valid_process_configuration (px_candidate ex) (px_profile ex) \<or> \<not> px_stderr ex
      then runner_fault_observation
      else if act = ActionQRLogin then execute_qr ex start
      else (case json_action ex act of
          None \<Rightarrow> runner_fault_observation
        | Some (args, command, stdin) \<Rightarrow> observe_answer command (px_expected ex) (start (px_candidate ex) args stdin)))"

end
