(* ===== verification/LgReading.thy ===== *)
theory LgReading
  imports LgProcess
begin

text \<open>
  What the executor of the gate reads.  The walk over the document reports every node once, so that the projection is
  the one obtained by looking the members up in the parsed document (\<open>projection_of\<close>), and an observation that is not a
  fault states what the document of the program says.
\<close>

section \<open>The projection reads members of the document\<close>

text \<open>Following a path from the root of a document.\<close>

definition node_of :: "json \<Rightarrow> candidate_node" where
  "node_of v = (case v of JObj _ \<Rightarrow> NodeObject | JArr _ \<Rightarrow> NodeArray | _ \<Rightarrow> NodeScalar v)"

fun element_at :: "nat \<Rightarrow> json list \<Rightarrow> string \<Rightarrow> json option" where
  "element_at index [] key = None"
| "element_at index (v # vs) key = (if key = nat_dec index then Some v else element_at (Suc index) vs key)"

definition child_at :: "json \<Rightarrow> string \<Rightarrow> json option" where
  "child_at v key = (case v of JObj ms \<Rightarrow> map_of ms key | JArr vs \<Rightarrow> element_at 0 vs key | _ \<Rightarrow> None)"

fun value_at :: "json \<Rightarrow> string list \<Rightarrow> json option" where
  "value_at v [] = Some v"
| "value_at v (key # keys) = (case child_at v key of None \<Rightarrow> None | Some w \<Rightarrow> value_at w keys)"

definition found_at :: "json option \<Rightarrow> string list \<Rightarrow> candidate_node list" where
  "found_at w keys = (case w of None \<Rightarrow> [] | Some v \<Rightarrow> (case value_at v keys of None \<Rightarrow> [] | Some x \<Rightarrow> [node_of x]))"

definition nodes_under :: "string list \<Rightarrow> (string list \<times> candidate_node) list \<Rightarrow> candidate_node list" where
  "nodes_under path ns = map snd (filter (\<lambda>x. fst x = path) ns)"

lemma nodes_under_append [simp]: "nodes_under path (xs @ ys) = nodes_under path xs @ nodes_under path ys"
  by (simp add: nodes_under_def)

lemma nodes_under_Nil [simp]: "nodes_under path [] = []"
  by (simp add: nodes_under_def)

lemma nodes_under_Cons [simp]:
  "nodes_under path (x # xs) = (if fst x = path then snd x # nodes_under path xs else nodes_under path xs)"
  by (simp add: nodes_under_def)

lemma nodes_under_other: "(\<And>x. x \<in> set ns \<Longrightarrow> fst x \<noteq> path) \<Longrightarrow> nodes_under path ns = []"
  by (auto simp: nodes_under_def filter_empty_conv)

lemma nat_dec_inject [simp]: "nat_dec a = nat_dec b \<longleftrightarrow> a = b"
  by (metis dec_value_nat_dec)

text \<open>What the walk below one key contributes.\<close>

definition below :: "string list \<Rightarrow> string set \<Rightarrow> (string list \<times> candidate_node) list \<Rightarrow> bool" where
  "below path keys ns \<longleftrightarrow> (\<forall>x\<in>set ns. \<exists>k q. fst x = path @ k # q \<and> k \<in> keys)"

lemma below_append [simp]: "below path keys (xs @ ys) \<longleftrightarrow> below path keys xs \<and> below path keys ys"
  by (auto simp: below_def)

lemma below_mono: "below path keys ns \<Longrightarrow> keys \<subseteq> keys' \<Longrightarrow> below path keys' ns"
  unfolding below_def by blast

lemma below_none: "below path keys ns \<Longrightarrow> k \<notin> keys \<Longrightarrow> nodes_under (path @ k # q) ns = []"
  by (rule nodes_under_other) (auto simp: below_def)

lemma below_root: "below path keys ns \<Longrightarrow> nodes_under path ns = []"
  by (rule nodes_under_other) (auto simp: below_def)

lemma below_extend: "below (path @ [k]) keys ns \<Longrightarrow> below path {k} ns"
  by (auto simp: below_def)

lemma found_at_scalar:
  "(\<And>k. child_at v k = None) \<Longrightarrow> found_at (Some v) q = (if q = [] then [node_of v] else [])"
  by (cases q) (simp_all add: found_at_def)

lemma walk_reads_members:
  "project_value path depth v = Some ns \<Longrightarrow>
     (\<forall>q. nodes_under (path @ q) ns = found_at (Some v) q) \<and>
     (\<forall>x\<in>set ns. \<exists>q. fst x = path @ q)"
  "project_members path depth seen ms = Some ns \<Longrightarrow>
     (\<forall>k q. nodes_under (path @ k # q) ns = found_at (map_of ms k) q) \<and> below path (fst ` set ms) ns \<and>
     fst ` set ms \<inter> set seen = {}"
  "project_elements path depth index vs = Some ns \<Longrightarrow>
     (\<forall>k q. nodes_under (path @ k # q) ns = found_at (element_at index vs k) q) \<and>
     below path {nat_dec i | i. index \<le> i} ns"
proof (induction path depth v and path depth seen ms and path depth index vs arbitrary: ns and ns and ns
    rule: project_value_project_members_project_elements.induct)
  case (1 path depth ms)
  then obtain ms' where ms': "project_members path (Suc depth) [] ms = Some ms'" "ns = (path, NodeObject) # ms'"
      "\<not> MaxCandidateJSONDepth \<le> depth"
    by (auto split: if_splits)
  note ih = "1.IH" [OF ms'(3,1)]
  have "nodes_under (path @ q) ns = found_at (Some (JObj ms)) q" for q
    using ih ms'(2) below_root [of path _ ms']
    by (cases q) (auto simp: found_at_def child_at_def node_of_def split: option.splits)
  moreover have "\<forall>x\<in>set ns. \<exists>q. fst x = path @ q" using ih ms'(2) by (auto simp: below_def)
  ultimately show ?case by blast
next
  case (2 path depth vs)
  then obtain ms' where ms': "project_elements path (Suc depth) 0 vs = Some ms'" "ns = (path, NodeArray) # ms'"
      "\<not> MaxCandidateJSONDepth \<le> depth"
    by (auto split: if_splits)
  note ih = "2.IH" [OF ms'(3,1)]
  have "nodes_under (path @ q) ns = found_at (Some (JArr vs)) q" for q
    using ih ms'(2) below_root [of path _ ms']
    by (cases q) (auto simp: found_at_def child_at_def node_of_def split: option.splits)
  moreover have "\<forall>x\<in>set ns. \<exists>q. fst x = path @ q" using ih ms'(2) by (auto simp: below_def)
  ultimately show ?case by blast
next
  case (8 path depth seen key v ms)
  then obtain n1 n2 where step: "\<not> (has_replacement key \<or> key \<in> set seen)" "project_value (path @ [key]) depth v = Some n1"
      "project_members path depth (key # seen) ms = Some n2" "ns = n1 @ n2"
    by (auto split: if_splits option.splits)
  note v = 8(1) [OF step(1,2)] and rest = 8(2) [OF step(1) step(2) step(3)]
  have n1: "below path {key} n1" using v by (auto simp: below_def)
  have "nodes_under (path @ k # q) ns = found_at (map_of ((key, v) # ms) k) q" for k q
  proof (cases "k = key")
    case True
    have "nodes_under (path @ key # q) n2 = []"
      using rest by (intro below_none [where keys = "fst ` set ms"]) auto
    moreover have "nodes_under (path @ key # q) n1 = found_at (Some v) q"
      using v by (metis append.assoc append_Cons append_Nil)
    ultimately show ?thesis using True step(4) by simp
  next
    case False
    then show ?thesis using rest step(4) below_none [OF n1, of k q] by simp
  qed
  then show ?case using rest step(1,4) n1 below_mono by (auto intro: below_mono)
next
  case (10 path depth index v vs)
  then obtain n1 n2 where step: "project_value (path @ [nat_dec index]) depth v = Some n1"
      "project_elements path depth (Suc index) vs = Some n2" "ns = n1 @ n2"
    by (auto split: option.splits)
  note v = 10(1) [OF step(1)] and rest = 10(2) [OF step(1,2)]
  have n1: "below path {nat_dec index} n1" using v by (auto simp: below_def)
  have "nodes_under (path @ k # q) ns = found_at (element_at index (v # vs) k) q" for k q
  proof (cases "k = nat_dec index")
    case True
    have "nodes_under (path @ nat_dec index # q) n2 = []"
      using rest by (intro below_none [where keys = "{nat_dec i | i. Suc index \<le> i}"]) auto
    moreover have "nodes_under (path @ nat_dec index # q) n1 = found_at (Some v) q"
      using v by (metis append.assoc append_Cons append_Nil)
    ultimately show ?thesis using True step(3) by simp
  next
    case False
    then show ?thesis using rest step(3) below_none [OF n1, of k q] by simp
  qed
  then show ?case using rest step(3) n1 by (auto intro: below_mono)
qed (auto simp: found_at_scalar child_at_def node_of_def below_def found_at_def [of None] split: if_splits)

lemma document_nodes:
  assumes "project_value [] 0 v = Some ns"
  shows "nodes_under path ns = (case value_at v path of None \<Rightarrow> [] | Some x \<Rightarrow> [node_of x])"
  using walk_reads_members(1) [OF assms] by (simp add: found_at_def)

text \<open>The fields of the projection, each read at its own path of the document.\<close>

definition member_of :: "json \<Rightarrow> string list \<Rightarrow> candidate_node option" where
  "member_of v path = map_option node_of (value_at v path)"

definition text_at :: "(json \<Rightarrow> string \<times> bool) \<Rightarrow> json \<Rightarrow> string list \<Rightarrow> text_field" where
  "text_at read v path = (case member_of v path of None \<Rightarrow> no_field | Some n \<Rightarrow> set_field read n no_field)"

text \<open>One path is read once; the other nodes leave the field alone.\<close>

lemma fold_one_path:
  assumes "\<And>p n. f (project_node path n p) = g n (f p)"
    and "\<And>q n p. q \<noteq> path \<Longrightarrow> f (project_node q n p) = f p"
  shows "f (foldl (\<lambda>p (path, n). project_node path n p) p0 ns) = foldl (\<lambda>x n. g n x) (f p0) (nodes_under path ns)"
proof (induction ns arbitrary: p0)
  case (Cons x xs)
  then show ?case using assms by (cases x) auto
qed simp

text \<open>What one node does to each field.\<close>

lemma project_node_texts:
  "cp_error_code (project_node path n p) =
     (if path = [''error'', ''code''] then set_field candidate_string_value n (cp_error_code p) else cp_error_code p)"
  "cp_outcome (project_node path n p) =
     (if path = [''data'', ''outcome''] then set_field candidate_string_value n (cp_outcome p) else cp_outcome p)"
  "cp_status_session (project_node path n p) =
     (if path = [''data'', ''session''] then set_field candidate_string_value n (cp_status_session p) else cp_status_session p)"
  "cp_status_username (project_node path n p) =
     (if path = [''data'', ''username''] then set_field candidate_nullable_string_value n (cp_status_username p) else cp_status_username p)"
  "cp_final_session (project_node path n p) =
     (if path = [''data'', ''status'', ''session''] then set_field candidate_string_value n (cp_final_session p) else cp_final_session p)"
  "cp_final_username (project_node path n p) =
     (if path = [''data'', ''status'', ''username''] then set_field candidate_nullable_string_value n (cp_final_username p) else cp_final_username p)"
  "cp_profile_username (project_node path n p) =
     (if path = [''data'', ''profile'', ''username''] then set_field candidate_string_value n (cp_profile_username p) else cp_profile_username p)"
  "cp_provider (project_node path n p) =
     (if path = [''data'', ''profile'', ''credential'', ''provider''] then set_field candidate_string_value n (cp_provider p) else cp_provider p)"
  "cp_reference (project_node path n p) =
     (if path = [''data'', ''profile'', ''credential'', ''reference''] then set_field candidate_string_value n (cp_reference p) else cp_reference p)"
  by (simp_all add: project_node_def split: candidate_node.split)

lemma project_node_seen:
  "cp_data_seen (project_node path n p) = (if path = [''data''] then True else cp_data_seen p)"
  "cp_error_seen (project_node path n p) = (if path = [''error''] then True else cp_error_seen p)"
  "cp_final_status_seen (project_node path n p) = (if path = [''data'', ''status''] then True else cp_final_status_seen p)"
  "cp_profile_seen (project_node path n p) = (if path = [''data'', ''profile''] then True else cp_profile_seen p)"
  "cp_credential_seen (project_node path n p) = (if path = [''data'', ''profile'', ''credential''] then True else cp_credential_seen p)"
  "cp_data_object (project_node path n p) = (if path = [''data''] then (n = NodeObject) else cp_data_object p)"
  "cp_error_object (project_node path n p) = (if path = [''error''] then (n = NodeObject) else cp_error_object p)"
  "cp_final_status_object (project_node path n p) = (if path = [''data'', ''status''] then (n = NodeObject) else cp_final_status_object p)"
  "cp_profile_object (project_node path n p) = (if path = [''data'', ''profile''] then (n = NodeObject) else cp_profile_object p)"
  "cp_credential_object (project_node path n p) = (if path = [''data'', ''profile'', ''credential''] then (n = NodeObject) else cp_credential_object p)"
  "cp_schema_seen (project_node path n p) = (if path = [''schema_version''] then True else cp_schema_seen p)"
  "cp_command_set (project_node path n p) = (if path = [''command''] then True else cp_command_set p)"
  "cp_ok_set (project_node path n p) = (if path = [''ok''] then True else cp_ok_set p)"
  "cp_root_object (project_node path n p) = (if path = [] then (n = NodeObject) else cp_root_object p)"
  by (simp_all add: project_node_def split: candidate_node.split)

definition scalar_of :: "(json \<Rightarrow> 'a \<times> bool) \<Rightarrow> candidate_node \<Rightarrow> 'a \<Rightarrow> 'a" where
  "scalar_of read n x = (case n of NodeScalar v \<Rightarrow> fst (read v) | _ \<Rightarrow> x)"

definition bad_scalar :: "(json \<Rightarrow> 'a \<times> bool) \<Rightarrow> candidate_node \<Rightarrow> bool" where
  "bad_scalar read n = (case n of NodeScalar v \<Rightarrow> snd (read v) | _ \<Rightarrow> True)"

lemma project_node_scalars:
  "cp_schema (project_node path n p) =
     (if path = [''schema_version''] then scalar_of candidate_number_text n (cp_schema p) else cp_schema p)"
  "cp_command (project_node path n p) =
     (if path = [''command''] then scalar_of candidate_string_value n (cp_command p) else cp_command p)"
  "cp_ok (project_node path n p) =
     (if path = [''ok''] then scalar_of candidate_bool_value n (cp_ok p) else cp_ok p)"
  by (simp_all add: project_node_def scalar_of_def split: candidate_node.split)

lemma project_node_invalid:
  "cp_invalid (project_node path n p) \<longleftrightarrow>
     cp_invalid p \<or> path = [] \<and> n \<noteq> NodeObject \<or>
     path = [''schema_version''] \<and> bad_scalar candidate_number_text n \<or>
     path = [''command''] \<and> bad_scalar candidate_string_value n \<or>
     path = [''ok''] \<and> bad_scalar candidate_bool_value n"
  by (simp add: project_node_def bad_scalar_def split: candidate_node.split)

lemmas project_node_fields = project_node_texts project_node_seen project_node_scalars

text \<open>The same fields looked up in the document.\<close>

definition scalar_at :: "(json \<Rightarrow> 'a \<times> bool) \<Rightarrow> json \<Rightarrow> string list \<Rightarrow> 'a \<Rightarrow> 'a" where
  "scalar_at read v path x = (case member_of v path of None \<Rightarrow> x | Some n \<Rightarrow> scalar_of read n x)"

definition bad_at :: "(json \<Rightarrow> 'a \<times> bool) \<Rightarrow> json \<Rightarrow> string list \<Rightarrow> bool" where
  "bad_at read v path = (case member_of v path of None \<Rightarrow> False | Some n \<Rightarrow> bad_scalar read n)"

definition projection_of :: "json \<Rightarrow> candidate_projection" where
  "projection_of v = \<lparr>cp_root_object = (member_of v [] = Some NodeObject),
     cp_invalid = (member_of v [] \<noteq> Some NodeObject \<or> bad_at candidate_number_text v [''schema_version''] \<or>
       bad_at candidate_string_value v [''command''] \<or> bad_at candidate_bool_value v [''ok'']),
     cp_schema_seen = (member_of v [''schema_version''] \<noteq> None),
     cp_schema = scalar_at candidate_number_text v [''schema_version''] '''',
     cp_command = scalar_at candidate_string_value v [''command''] '''',
     cp_command_set = (member_of v [''command''] \<noteq> None),
     cp_ok = scalar_at candidate_bool_value v [''ok''] False,
     cp_ok_set = (member_of v [''ok''] \<noteq> None),
     cp_data_seen = (member_of v [''data''] \<noteq> None),
     cp_data_object = (member_of v [''data''] = Some NodeObject),
     cp_error_seen = (member_of v [''error''] \<noteq> None),
     cp_error_object = (member_of v [''error''] = Some NodeObject),
     cp_error_code = text_at candidate_string_value v [''error'', ''code''],
     cp_outcome = text_at candidate_string_value v [''data'', ''outcome''],
     cp_status_session = text_at candidate_string_value v [''data'', ''session''],
     cp_status_username = text_at candidate_nullable_string_value v [''data'', ''username''],
     cp_final_status_seen = (member_of v [''data'', ''status''] \<noteq> None),
     cp_final_status_object = (member_of v [''data'', ''status''] = Some NodeObject),
     cp_final_session = text_at candidate_string_value v [''data'', ''status'', ''session''],
     cp_final_username = text_at candidate_nullable_string_value v [''data'', ''status'', ''username''],
     cp_profile_seen = (member_of v [''data'', ''profile''] \<noteq> None),
     cp_profile_object = (member_of v [''data'', ''profile''] = Some NodeObject),
     cp_profile_username = text_at candidate_string_value v [''data'', ''profile'', ''username''],
     cp_credential_seen = (member_of v [''data'', ''profile'', ''credential''] \<noteq> None),
     cp_credential_object = (member_of v [''data'', ''profile'', ''credential''] = Some NodeObject),
     cp_provider = text_at candidate_string_value v [''data'', ''profile'', ''credential'', ''provider''],
     cp_reference = text_at candidate_string_value v [''data'', ''profile'', ''credential'', ''reference'']\<rparr>"

lemma fold_at_member:
  assumes "project_value [] 0 v = Some ns"
  shows "foldl (\<lambda>x n. g n x) x0 (nodes_under path ns) = (case member_of v path of None \<Rightarrow> x0 | Some n \<Rightarrow> g n x0)"
  by (simp add: document_nodes [OF assms] member_of_def split: option.split)

lemma project_nodes_invalid:
  "cp_invalid (foldl (\<lambda>p (path, n). project_node path n p) p0 ns) \<longleftrightarrow>
     cp_invalid p0 \<or> (\<exists>n\<in>set (nodes_under [] ns). n \<noteq> NodeObject) \<or>
     (\<exists>n\<in>set (nodes_under [''schema_version''] ns). bad_scalar candidate_number_text n) \<or>
     (\<exists>n\<in>set (nodes_under [''command''] ns). bad_scalar candidate_string_value n) \<or>
     (\<exists>n\<in>set (nodes_under [''ok''] ns). bad_scalar candidate_bool_value n)"
proof (induction ns arbitrary: p0)
  case (Cons x xs)
  then show ?case by (cases x) (auto simp: project_node_invalid)
qed simp

lemma project_field:
  assumes "project_value [] 0 v = Some ns"
    and "\<And>q n p. f (project_node q n p) = (if q = path then g n (f p) else f p)"
  shows "f (project_nodes ns) = (case member_of v path of None \<Rightarrow> f no_projection | Some n \<Rightarrow> g n (f no_projection))"
  using fold_one_path [of f path g no_projection ns] fold_at_member [OF assms(1), of g "f no_projection" path] assms(2)
  unfolding project_nodes_def by simp

lemma member_of_root: "member_of v [] = Some (node_of v)"
  by (simp add: member_of_def)

lemma project_nodes_projection:
  assumes "project_value [] 0 v = Some ns"
  shows "project_nodes ns = projection_of v"
proof (rule candidate_projection.equality)
  have nodes: "set (nodes_under path ns) = set_option (member_of v path)" for path
    by (cases "value_at v path") (simp_all add: document_nodes [OF assms] member_of_def)
  show "cp_invalid (project_nodes ns) = cp_invalid (projection_of v)"
    unfolding project_nodes_def project_nodes_invalid nodes
    by (auto simp: projection_of_def no_projection_def bad_at_def member_of_root split: option.splits)
qed (simp_all add: project_field [OF assms project_node_texts(1)] project_field [OF assms project_node_texts(2)]
  project_field [OF assms project_node_texts(3)] project_field [OF assms project_node_texts(4)]
  project_field [OF assms project_node_texts(5)] project_field [OF assms project_node_texts(6)]
  project_field [OF assms project_node_texts(7)] project_field [OF assms project_node_texts(8)]
  project_field [OF assms project_node_texts(9)]
  project_field [OF assms project_node_seen(1)] project_field [OF assms project_node_seen(2)]
  project_field [OF assms project_node_seen(3)] project_field [OF assms project_node_seen(4)]
  project_field [OF assms project_node_seen(5)] project_field [OF assms project_node_seen(6)]
  project_field [OF assms project_node_seen(7)] project_field [OF assms project_node_seen(8)]
  project_field [OF assms project_node_seen(9)] project_field [OF assms project_node_seen(10)]
  project_field [OF assms project_node_seen(11)] project_field [OF assms project_node_seen(12)]
  project_field [OF assms project_node_seen(13)] project_field [OF assms project_node_seen(14)]
  project_field [OF assms project_node_scalars(1)] project_field [OF assms project_node_scalars(2)]
  project_field [OF assms project_node_scalars(3)]
  projection_of_def no_projection_def text_at_def scalar_at_def member_of_root split: option.split)

declare value_at.simps(2) [simp del]

section \<open>Which documents are accepted\<close>

text \<open>No key and no text of the tree holds the replacement character.\<close>

fun plain_texts :: "json \<Rightarrow> bool" where
  "plain_texts (JStr s) = (\<not> has_replacement s)"
| "plain_texts (JArr vs) = list_all plain_texts vs"
| "plain_texts (JObj ms) = list_all (\<lambda>m. \<not> has_replacement (fst m) \<and> plain_texts (snd m)) ms"
| "plain_texts _ = True"

lemma foldr_max_le: "foldr (\<lambda>v d. max (f v) d) vs 0 \<le> (n :: nat) \<longleftrightarrow> (\<forall>v\<in>set vs. f v \<le> n)"
  by (induction vs) auto

text \<open>A value at a depth at which the walk may still meet a container.\<close>

definition acceptable_below :: "nat \<Rightarrow> json \<Rightarrow> bool" where
  "acceptable_below depth v \<longleftrightarrow> json_distinct v \<and> plain_texts v \<and> depth + json_depth v \<le> MaxCandidateJSONDepth"

lemma acceptable_object:
  "acceptable_below depth (JObj ms) \<longleftrightarrow>
     \<not> MaxCandidateJSONDepth \<le> depth \<and> distinct (map fst ms) \<and>
     (\<forall>m\<in>set ms. \<not> has_replacement (fst m) \<and> acceptable_below (Suc depth) (snd m))"
proof (cases "MaxCandidateJSONDepth \<le> depth")
  case False
  then have "depth + json_depth (JObj ms) \<le> MaxCandidateJSONDepth \<longleftrightarrow>
      foldr (\<lambda>m d. max (json_depth (snd m)) d) ms 0 \<le> MaxCandidateJSONDepth - Suc depth"
    by simp linarith
  also have "\<dots> \<longleftrightarrow> (\<forall>m\<in>set ms. Suc depth + json_depth (snd m) \<le> MaxCandidateJSONDepth)"
    using False by (subst foldr_max_le) auto
  finally show ?thesis using False by (auto simp: acceptable_below_def list_all_iff)
qed (simp add: acceptable_below_def)

lemma acceptable_array:
  "acceptable_below depth (JArr vs) \<longleftrightarrow>
     \<not> MaxCandidateJSONDepth \<le> depth \<and> (\<forall>v\<in>set vs. acceptable_below (Suc depth) v)"
proof (cases "MaxCandidateJSONDepth \<le> depth")
  case False
  then have "depth + json_depth (JArr vs) \<le> MaxCandidateJSONDepth \<longleftrightarrow>
      foldr (\<lambda>v d. max (json_depth v) d) vs 0 \<le> MaxCandidateJSONDepth - Suc depth"
    by simp linarith
  also have "\<dots> \<longleftrightarrow> (\<forall>v\<in>set vs. Suc depth + json_depth v \<le> MaxCandidateJSONDepth)"
    using False by (subst foldr_max_le) auto
  finally show ?thesis using False by (auto simp: acceptable_below_def list_all_iff)
qed (simp add: acceptable_below_def)

lemma acceptable_scalar:
  "acceptable_below depth (JStr s) \<longleftrightarrow> depth \<le> MaxCandidateJSONDepth \<and> \<not> has_replacement s"
  "acceptable_below depth (JNum s) \<longleftrightarrow> depth \<le> MaxCandidateJSONDepth"
  "acceptable_below depth (JBool b) \<longleftrightarrow> depth \<le> MaxCandidateJSONDepth"
  "acceptable_below depth JNull \<longleftrightarrow> depth \<le> MaxCandidateJSONDepth"
  by (auto simp: acceptable_below_def)

lemma walk_accepts:
  "depth \<le> MaxCandidateJSONDepth \<Longrightarrow> project_value path depth v \<noteq> None \<longleftrightarrow> acceptable_below depth v"
  "depth \<le> MaxCandidateJSONDepth \<Longrightarrow> project_members path depth seen ms \<noteq> None \<longleftrightarrow>
     distinct (map fst ms) \<and> fst ` set ms \<inter> set seen = {} \<and>
     (\<forall>m\<in>set ms. \<not> has_replacement (fst m) \<and> acceptable_below depth (snd m))"
  "depth \<le> MaxCandidateJSONDepth \<Longrightarrow> project_elements path depth index vs \<noteq> None \<longleftrightarrow>
     (\<forall>v\<in>set vs. acceptable_below depth v)"
proof (induction path depth v and path depth seen ms and path depth index vs
    rule: project_value_project_members_project_elements.induct)
  case (8 path depth seen key v ms)
  then show ?case
    by (cases "has_replacement key \<or> key \<in> set seen"; cases "project_value (path @ [key]) depth v") auto
next
  case (10 path depth index v vs)
  then show ?case by (cases "project_value (path @ [nat_dec index]) depth v") auto
qed (auto simp: acceptable_object acceptable_array acceptable_scalar)

definition acceptable_document :: "string \<Rightarrow> json \<Rightarrow> bool" where
  "acceptable_document text v \<longleftrightarrow>
     length text \<le> MaxCandidateJSONBytes \<and> valid_utf8 text \<and> parse_json text = Some v \<and> acceptable_below 0 v"

lemma project_candidate_nodes_iff:
  "project_candidate_nodes text = Some ns \<longleftrightarrow> (\<exists>v. acceptable_document text v \<and> project_value [] 0 v = Some ns)"
  using walk_accepts(1) [of 0 "[]"]
  by (auto simp: project_candidate_nodes_def acceptable_document_def MaxCandidateJSONDepth_def split: option.splits)

lemma acceptable_nodes: "acceptable_document text v \<Longrightarrow> \<exists>ns. project_value [] 0 v = Some ns"
  using walk_accepts(1) [of 0 "[]" v] by (auto simp: acceptable_document_def MaxCandidateJSONDepth_def)

lemma read_projection_iff:
  "read_projection text = Some p \<longleftrightarrow>
     (\<exists>v. acceptable_document text v \<and> \<not> cp_invalid (projection_of v) \<and> p = projection_of v)"
proof
  assume "read_projection text = Some p"
  then obtain ns where ns: "project_candidate_nodes text = Some ns" "\<not> cp_invalid (project_nodes ns)" "p = project_nodes ns"
    by (auto simp: read_projection_def split: option.splits if_splits)
  then obtain v where v: "acceptable_document text v" "project_value [] 0 v = Some ns"
    using project_candidate_nodes_iff by blast
  then show "\<exists>v. acceptable_document text v \<and> \<not> cp_invalid (projection_of v) \<and> p = projection_of v"
    using ns(2,3) project_nodes_projection [OF v(2)] by auto
next
  assume "\<exists>v. acceptable_document text v \<and> \<not> cp_invalid (projection_of v) \<and> p = projection_of v"
  then obtain v where v: "acceptable_document text v" "\<not> cp_invalid (projection_of v)" "p = projection_of v" by blast
  then obtain ns where ns: "project_value [] 0 v = Some ns" using acceptable_nodes by blast
  then have "project_candidate_nodes text = Some ns" using v(1) project_candidate_nodes_iff by blast
  then show "read_projection text = Some p"
    using v project_nodes_projection [OF ns] by (simp add: read_projection_def)
qed

section \<open>Observations state what the document says\<close>

text \<open>The envelope of a document, and the place of the status in the data of a command.\<close>

definition envelope_says :: "json \<Rightarrow> string \<Rightarrow> bool \<Rightarrow> bool" where
  "envelope_says v command success \<longleftrightarrow>
     node_of v = NodeObject \<and> value_at v [''schema_version''] = Some (JNum ''1'') \<and>
     value_at v [''command''] = Some (JStr command) \<and> value_at v [''ok''] = Some (JBool success) \<and>
     (if success then member_of v [''data''] = Some NodeObject \<and> value_at v [''error''] = None
      else value_at v [''data''] = None \<and> member_of v [''error''] = Some NodeObject)"

definition status_path :: "string \<Rightarrow> string list" where
  "status_path command = (if command = ''status'' then [''data''] else [''data'', ''status''])"

text \<open>The observation that a document of the program stands for.\<close>

definition success_says :: "string \<Rightarrow> string \<Rightarrow> json \<Rightarrow> observation \<Rightarrow> bool" where
  "success_says command expected v obs \<longleftrightarrow>
     envelope_says v command True \<and> member_of v (status_path command) = Some NodeObject \<and>
     value_at v (status_path command @ [''session'']) \<in> (\<lambda>s. Some (JStr s)) ` {s. session_named s = Session obs} \<and>
     valid_process_session (Session obs) \<and>
     value_at v (status_path command @ [''username'']) \<in> insert (Some JNull) (range (\<lambda>s. Some (JStr s))) \<and>
     (IdentityMatches obs \<longleftrightarrow> command \<noteq> ''logout'' \<and> Session obs = SessionOnline \<and>
        value_at v (status_path command @ [''username'']) = Some (JStr expected)) \<and>
     (if command = ''status'' then OutcomeOf obs = OutcomeNone
      else valid_process_outcome (OutcomeOf obs) \<and>
        value_at v [''data'', ''outcome''] \<in> (\<lambda>s. Some (JStr s)) ` {s. outcome_named s = OutcomeOf obs})"

definition failure_says :: "string \<Rightarrow> json \<Rightarrow> observation \<Rightarrow> bool" where
  "failure_says command v obs \<longleftrightarrow>
     envelope_says v command False \<and>
     value_at v [''error'', ''code''] \<in> (\<lambda>s. Some (JStr s)) ` {s. Some (error_named s) = ObsErrorCode obs} \<and>
     (case ObsErrorCode obs of None \<Rightarrow> False | Some c \<Rightarrow> error_code_valid c) \<and>
     valid_exit_error (ObsExitCode obs) (ObsErrorCode obs) \<and>
     Session obs = SessionNone \<and> OutcomeOf obs = OutcomeNone \<and> \<not> IdentityMatches obs"

definition observation_says :: "string \<Rightarrow> string \<Rightarrow> json \<Rightarrow> observation \<Rightarrow> bool" where
  "observation_says command expected v obs \<longleftrightarrow>
     \<not> RunnerFault obs \<and>
     (if ObsExitCode obs = CommandExitSuccess then ObsErrorCode obs = None \<and> success_says command expected v obs
      else failure_says command v obs)"

lemma member_of_value: "member_of v path = Some n \<longleftrightarrow> (\<exists>w. value_at v path = Some w \<and> node_of w = n)"
  by (auto simp: member_of_def)

lemma member_of_None: "member_of v path = None \<longleftrightarrow> value_at v path = None"
  by (simp add: member_of_def)

lemma text_at_string:
  "field_ok (text_at candidate_string_value v path) \<longleftrightarrow> (\<exists>s. value_at v path = Some (JStr s))"
  "value_at v path = Some (JStr s) \<Longrightarrow> tf_text (text_at candidate_string_value v path) = s"
  by (auto simp: field_ok_def text_at_def no_field_def member_of_def node_of_def set_field_def candidate_string_value_def
      split: option.splits json.splits)

lemma text_at_nullable:
  "field_ok (text_at candidate_nullable_string_value v path) \<longleftrightarrow>
     value_at v path = Some JNull \<or> (\<exists>s. value_at v path = Some (JStr s))"
  "value_at v path = Some (JStr s) \<Longrightarrow> tf_text (text_at candidate_nullable_string_value v path) = s"
  "value_at v path = Some JNull \<Longrightarrow> tf_text (text_at candidate_nullable_string_value v path) = ''''"
  by (auto simp: field_ok_def text_at_def no_field_def member_of_def node_of_def set_field_def
      candidate_string_value_def candidate_nullable_string_value_def split: option.splits json.splits)

lemma scalar_at_number:
  "value_at v path \<noteq> None \<and> \<not> bad_at candidate_number_text v path \<and> scalar_at candidate_number_text v path x = n \<longleftrightarrow>
     value_at v path = Some (JNum n)"
  by (auto simp: bad_at_def scalar_at_def bad_scalar_def scalar_of_def member_of_def node_of_def candidate_number_text_def
      split: option.splits json.splits)

lemma scalar_at_string:
  "value_at v path \<noteq> None \<and> \<not> bad_at candidate_string_value v path \<and> scalar_at candidate_string_value v path x = n \<longleftrightarrow>
     value_at v path = Some (JStr n)"
  by (auto simp: bad_at_def scalar_at_def bad_scalar_def scalar_of_def member_of_def node_of_def candidate_string_value_def
      split: option.splits json.splits)

lemma scalar_at_bool:
  "value_at v path \<noteq> None \<and> \<not> bad_at candidate_bool_value v path \<and> scalar_at candidate_bool_value v path x = n \<longleftrightarrow>
     value_at v path = Some (JBool n)"
  by (auto simp: bad_at_def scalar_at_def bad_scalar_def scalar_of_def member_of_def node_of_def candidate_bool_value_def
      split: option.splits json.splits)

lemma valid_envelope_says: "valid_envelope command success (projection_of v) \<longleftrightarrow> envelope_says v command success"
proof -
  have "valid_envelope command success (projection_of v) \<longleftrightarrow>
     node_of v = NodeObject \<and>
     (value_at v [''schema_version''] \<noteq> None \<and> \<not> bad_at candidate_number_text v [''schema_version''] \<and>
        scalar_at candidate_number_text v [''schema_version''] '''' = ''1'') \<and>
     (value_at v [''command''] \<noteq> None \<and> \<not> bad_at candidate_string_value v [''command''] \<and>
        scalar_at candidate_string_value v [''command''] '''' = command) \<and>
     (value_at v [''ok''] \<noteq> None \<and> \<not> bad_at candidate_bool_value v [''ok''] \<and>
        scalar_at candidate_bool_value v [''ok''] False = success) \<and>
     (if success then member_of v [''data''] = Some NodeObject \<and> value_at v [''error''] = None
      else value_at v [''data''] = None \<and> member_of v [''error''] = Some NodeObject)"
    by (cases success) (auto simp: valid_envelope_def projection_of_def member_of_None member_of_root member_of_value)
  then show ?thesis unfolding scalar_at_number scalar_at_string scalar_at_bool by (simp add: envelope_says_def)
qed

lemma envelope_not_invalid: "envelope_says v command success \<Longrightarrow> \<not> cp_invalid (projection_of v)"
  using valid_envelope_says [of command success v] by (simp add: valid_envelope_def)

lemma projection_fields:
  "cp_error_code (projection_of v) = text_at candidate_string_value v [''error'', ''code'']"
  "cp_outcome (projection_of v) = text_at candidate_string_value v [''data'', ''outcome'']"
  "cp_status_session (projection_of v) = text_at candidate_string_value v [''data'', ''session'']"
  "cp_status_username (projection_of v) = text_at candidate_nullable_string_value v [''data'', ''username'']"
  "cp_final_session (projection_of v) = text_at candidate_string_value v [''data'', ''status'', ''session'']"
  "cp_final_username (projection_of v) = text_at candidate_nullable_string_value v [''data'', ''status'', ''username'']"
  "cp_final_status_seen (projection_of v) \<longleftrightarrow> member_of v [''data'', ''status''] \<noteq> None"
  "cp_final_status_object (projection_of v) \<longleftrightarrow> member_of v [''data'', ''status''] = Some NodeObject"
  by (simp_all add: projection_of_def)

lemma error_named_empty: "error_code_valid (error_named s) \<Longrightarrow> s \<noteq> ''''"
  by (auto simp: error_named_def error_code_valid_def)

lemma failure_code_says:
  "failure_code command status (projection_of v) = Some c \<longleftrightarrow>
     envelope_says v command False \<and> error_code_valid c \<and> valid_exit_error status (Some c) \<and>
     (\<exists>s. value_at v [''error'', ''code''] = Some (JStr s) \<and> error_named s = c)"
proof -
  have *: "\<not> tf_invalid (cp_error_code (projection_of v)) \<and> tf_seen (cp_error_code (projection_of v)) \<longleftrightarrow>
      (\<exists>s. value_at v [''error'', ''code''] = Some (JStr s))"
    using text_at_string(1) [of v "[''error'', ''code'']"] by (auto simp: projection_fields field_ok_def)
  show ?thesis
    using * text_at_string(2) [of v "[''error'', ''code'']"] error_named_empty
    by (auto simp: failure_code_def Let_def valid_envelope_says projection_fields split: if_splits)
qed

text \<open>The two halves of a status that is read from the document.\<close>

definition session_read :: "json \<Rightarrow> string list \<Rightarrow> session_state \<Rightarrow> bool" where
  "session_read v path s \<longleftrightarrow>
     field_ok (text_at candidate_string_value v path) \<and>
     session_named (tf_text (text_at candidate_string_value v path)) = s \<and> valid_process_session s"

lemma session_read_iff:
  "session_read v path s \<longleftrightarrow>
     value_at v path \<in> (\<lambda>t. Some (JStr t)) ` {t. session_named t = s} \<and> valid_process_session s"
  using text_at_string [of v path] by (auto simp: session_read_def image_iff)

lemma username_read:
  assumes "expected \<noteq> ''''"
  shows "field_ok (text_at candidate_nullable_string_value v path) \<longleftrightarrow>
      value_at v path \<in> insert (Some JNull) (range (\<lambda>s. Some (JStr s)))"
    and "field_ok (text_at candidate_nullable_string_value v path) \<Longrightarrow>
      tf_text (text_at candidate_nullable_string_value v path) \<noteq> '''' \<and>
      tf_text (text_at candidate_nullable_string_value v path) = expected \<longleftrightarrow> value_at v path = Some (JStr expected)"
  using assms text_at_nullable [of v path] by (auto simp: image_iff)

lemma outcome_read:
  "field_ok (text_at candidate_string_value v path) \<and> outcome_named (tf_text (text_at candidate_string_value v path)) = x \<longleftrightarrow>
     value_at v path \<in> (\<lambda>s. Some (JStr s)) ` {s. outcome_named s = x}"
  using text_at_string [of v path] by (auto simp: image_iff)

lemma observation_eq:
  "(obs :: observation) = zero_observation\<lparr>OutcomeOf := w, Session := s, IdentityMatches := b\<rparr> \<longleftrightarrow>
     ObsExitCode obs = 0 \<and> ObsErrorCode obs = None \<and> \<not> RunnerFault obs \<and> OutcomeOf obs = w \<and> Session obs = s \<and>
     (IdentityMatches obs \<longleftrightarrow> b)"
  by (cases obs) (auto simp: zero_observation_def)

lemma success_status_says:
  assumes "expected \<noteq> ''''" "envelope_says v ''status'' True"
  shows "success_observation ''status'' expected (projection_of v) = Some obs \<longleftrightarrow>
     ObsExitCode obs = 0 \<and> ObsErrorCode obs = None \<and> \<not> RunnerFault obs \<and> success_says ''status'' expected v obs"
proof -
  let ?u = "text_at candidate_nullable_string_value v [''data'', ''username'']"
  have "success_observation ''status'' expected (projection_of v) = Some obs \<longleftrightarrow>
      (\<exists>s. session_read v [''data'', ''session''] s \<and> field_ok ?u \<and>
         obs = zero_observation\<lparr>OutcomeOf := OutcomeNone, Session := s,
           IdentityMatches := (s = SessionOnline \<and> tf_text ?u \<noteq> '''' \<and> tf_text ?u = expected)\<rparr>)"
    by (auto simp: success_observation_def Let_def projection_fields session_read_def zero_observation_def)
  also have "\<dots> \<longleftrightarrow> (\<exists>s. session_read v [''data'', ''session''] s \<and> field_ok ?u \<and>
         obs = zero_observation\<lparr>OutcomeOf := OutcomeNone, Session := s,
           IdentityMatches := (s = SessionOnline \<and> value_at v [''data'', ''username''] = Some (JStr expected))\<rparr>)"
    using username_read(2) [OF assms(1), of v "[''data'', ''username'']"] by auto
  also have "\<dots> \<longleftrightarrow> ObsExitCode obs = 0 \<and> ObsErrorCode obs = None \<and> \<not> RunnerFault obs \<and>
      success_says ''status'' expected v obs"
    using assms(2) unfolding observation_eq success_says_def session_read_iff username_read(1) [OF assms(1)]
    by (auto simp: status_path_def envelope_says_def)
  finally show ?thesis .
qed

lemma success_change:
  assumes "command = ''login'' \<or> command = ''logout''"
  shows "success_observation command expected p =
    (if final_status_ok p
     then Some (zero_observation\<lparr>OutcomeOf := outcome_named (tf_text (cp_outcome p)),
       Session := session_named (tf_text (cp_final_session p)),
       IdentityMatches := (command \<noteq> ''logout'' \<and> session_named (tf_text (cp_final_session p)) = SessionOnline \<and>
         tf_text (cp_final_username p) \<noteq> '''' \<and> tf_text (cp_final_username p) = expected)\<rparr>)
     else None)"
  using assms by (elim disjE) (simp_all add: success_observation_def Let_def zero_observation_def)

lemma final_status_ok_read:
  "final_status_ok (projection_of v) \<longleftrightarrow>
     field_ok (text_at candidate_string_value v [''data'', ''outcome'']) \<and>
     valid_process_outcome (outcome_named (tf_text (text_at candidate_string_value v [''data'', ''outcome'']))) \<and>
     member_of v [''data'', ''status''] = Some NodeObject \<and>
     session_read v [''data'', ''status'', ''session'']
       (session_named (tf_text (text_at candidate_string_value v [''data'', ''status'', ''session'']))) \<and>
     field_ok (text_at candidate_nullable_string_value v [''data'', ''status'', ''username''])"
  unfolding final_status_ok_def projection_fields session_read_def by auto

lemma success_change_says:
  assumes "expected \<noteq> ''''" "envelope_says v command True" "command = ''login'' \<or> command = ''logout''"
  shows "success_observation command expected (projection_of v) = Some obs \<longleftrightarrow>
     ObsExitCode obs = 0 \<and> ObsErrorCode obs = None \<and> \<not> RunnerFault obs \<and> success_says command expected v obs"
proof -
  let ?u = "text_at candidate_nullable_string_value v [''data'', ''status'', ''username'']"
  let ?w = "text_at candidate_string_value v [''data'', ''outcome'']"
  let ?t = "text_at candidate_string_value v [''data'', ''status'', ''session'']"
  have other: "command \<noteq> ''status''" using assms(3) by auto
  have path: "status_path command = [''data'', ''status'']" using other by (simp add: status_path_def)
  have says: "success_says command expected v obs \<longleftrightarrow> member_of v [''data'', ''status''] = Some NodeObject \<and>
      session_read v [''data'', ''status'', ''session''] (Session obs) \<and> field_ok ?u \<and>
      (IdentityMatches obs \<longleftrightarrow> command \<noteq> ''logout'' \<and> Session obs = SessionOnline \<and>
        value_at v [''data'', ''status'', ''username''] = Some (JStr expected)) \<and>
      valid_process_outcome (OutcomeOf obs) \<and> (field_ok ?w \<and> outcome_named (tf_text ?w) = OutcomeOf obs)"
    unfolding success_says_def session_read_iff username_read(1) [OF assms(1)] outcome_read path
    using assms(2) other by auto
  have "success_observation command expected (projection_of v) = Some obs \<longleftrightarrow>
      final_status_ok (projection_of v) \<and> ObsExitCode obs = 0 \<and> ObsErrorCode obs = None \<and> \<not> RunnerFault obs \<and>
      OutcomeOf obs = outcome_named (tf_text ?w) \<and> Session obs = session_named (tf_text ?t) \<and>
      (IdentityMatches obs \<longleftrightarrow> command \<noteq> ''logout'' \<and> session_named (tf_text ?t) = SessionOnline \<and>
        tf_text ?u \<noteq> '''' \<and> tf_text ?u = expected)"
    unfolding success_change [OF assms(3)] projection_fields observation_eq [symmetric] by auto
  also have "\<dots> \<longleftrightarrow> ObsExitCode obs = 0 \<and> ObsErrorCode obs = None \<and> \<not> RunnerFault obs \<and>
      success_says command expected v obs"
    unfolding says final_status_ok_read
    using username_read(2) [OF assms(1), of v "[''data'', ''status'', ''username'']"]
    by (auto simp: session_read_def)
  finally show ?thesis .
qed

lemmas success_observation_says = success_status_says success_change_says

lemma process_exit_valid: "process_command_exit status = Some x \<longleftrightarrow> x = status \<and> status \<in> {0, 1, 2, 3, 4, 5, 6, 7, 130}"
  by (auto simp: process_command_exit_def)

lemma valid_exit_error_status: "valid_exit_error status code \<Longrightarrow> status \<in> {1, 2, 3, 4, 5, 6, 7, 130}"
  by (auto simp: valid_exit_error_def split: option.splits if_splits)

lemma process_exit_same: "process_command_exit status = Some x \<Longrightarrow> x = status"
  by (simp add: process_command_exit_def split: if_splits)

lemma observe_answer_fault:
  assumes "\<not> pa_canceled answer"
    and "process_command_exit (pa_exit answer) = None \<or> read_projection (pa_stdout answer) = None \<or>
      pa_failed answer \<and> pa_exit answer = 0"
  shows "observe_answer command expected answer = runner_fault_observation"
proof (cases "process_command_exit (pa_exit answer)"; cases "read_projection (pa_stdout answer)")
  fix status p assume s: "process_command_exit (pa_exit answer) = Some status" "read_projection (pa_stdout answer) = Some p"
  then have "pa_failed answer" "status = 0" using assms(2) process_exit_same [OF s(1)] by auto
  then show ?thesis using s assms(1) by (simp add: observe_answer_def)
qed (use assms in \<open>simp_all add: observe_answer_def\<close>)

lemma observe_answer_read:
  assumes "\<not> pa_canceled answer" "process_command_exit (pa_exit answer) \<noteq> None"
    and "read_projection (pa_stdout answer) = Some (projection_of v)" "\<not> (pa_failed answer \<and> pa_exit answer = 0)"
  shows "observe_answer command expected answer =
    (if pa_exit answer = 0 then
       (if envelope_says v command True then
          (case success_observation command expected (projection_of v) of
             None \<Rightarrow> runner_fault_observation | Some obs \<Rightarrow> obs)
        else runner_fault_observation)
     else
       (case failure_code command (pa_exit answer) (projection_of v) of
          None \<Rightarrow> runner_fault_observation
        | Some c \<Rightarrow> zero_observation\<lparr>ObsExitCode := pa_exit answer, ObsErrorCode := Some c\<rparr>))"
proof -
  have "process_command_exit (pa_exit answer) = Some (pa_exit answer)" using assms(2) process_exit_same by (metis not_None_eq)
  then show ?thesis using assms(1,3,4) by (simp add: observe_answer_def valid_envelope_says)
qed

lemma fault_is_fault: "RunnerFault runner_fault_observation"
  by (simp add: runner_fault_observation_def)

lemma success_read:
  assumes "expected \<noteq> ''''" "command \<in> {''status'', ''login'', ''logout''}"
  shows "(if envelope_says v command True then
          (case success_observation command expected (projection_of v) of
             None \<Rightarrow> runner_fault_observation | Some obs \<Rightarrow> obs)
        else runner_fault_observation) = obs \<and> \<not> RunnerFault obs \<longleftrightarrow>
     ObsExitCode obs = 0 \<and> observation_says command expected v obs"
proof (cases "envelope_says v command True")
  case True
  have says: "success_observation command expected (projection_of v) = Some x \<longleftrightarrow>
     ObsExitCode x = 0 \<and> ObsErrorCode x = None \<and> \<not> RunnerFault x \<and> success_says command expected v x" for x
    using success_status_says [OF assms(1)] success_change_says [OF assms(1) True] assms(2) True by blast
  show ?thesis
  proof (cases "success_observation command expected (projection_of v)")
    case None
    then show ?thesis using True says [of obs] fault_is_fault by (auto simp: observation_says_def)
  next
    case (Some x)
    then show ?thesis using True says [of obs] says [of x] by (auto simp: observation_says_def)
  qed
next
  case False
  then show ?thesis using fault_is_fault by (auto simp: observation_says_def success_says_def)
qed

lemma failure_read:
  assumes "status \<noteq> 0"
  shows "(case failure_code command status (projection_of v) of
          None \<Rightarrow> runner_fault_observation
        | Some c \<Rightarrow> zero_observation\<lparr>ObsExitCode := status, ObsErrorCode := Some c\<rparr>) = obs \<and> \<not> RunnerFault obs \<longleftrightarrow>
     ObsExitCode obs = status \<and> observation_says command expected v obs"
proof -
  have fields: "zero_observation\<lparr>ObsExitCode := status, ObsErrorCode := Some c\<rparr> = obs \<longleftrightarrow>
      ObsExitCode obs = status \<and> ObsErrorCode obs = Some c \<and> \<not> RunnerFault obs \<and> Session obs = SessionNone \<and>
      OutcomeOf obs = OutcomeNone \<and> \<not> IdentityMatches obs" for c
    by (cases obs) (auto simp: zero_observation_def)
  have "(case failure_code command status (projection_of v) of
          None \<Rightarrow> runner_fault_observation
        | Some c \<Rightarrow> zero_observation\<lparr>ObsExitCode := status, ObsErrorCode := Some c\<rparr>) = obs \<and> \<not> RunnerFault obs \<longleftrightarrow>
      (\<exists>c. failure_code command status (projection_of v) = Some c \<and>
         zero_observation\<lparr>ObsExitCode := status, ObsErrorCode := Some c\<rparr> = obs)"
    using fault_is_fault by (cases "failure_code command status (projection_of v)") (auto simp: fields)
  also have "\<dots> \<longleftrightarrow> ObsExitCode obs = status \<and> observation_says command expected v obs"
    unfolding fields failure_code_says observation_says_def failure_says_def using assms
    by (cases "ObsErrorCode obs") (auto simp: image_iff)
  finally show ?thesis .
qed

lemma says_not_invalid: "observation_says command expected v obs \<Longrightarrow> \<not> cp_invalid (projection_of v)"
  using envelope_not_invalid by (auto simp: observation_says_def success_says_def failure_says_def split: if_splits)

lemma says_valid_exit: "observation_says command expected v obs \<Longrightarrow> process_command_exit (ObsExitCode obs) \<noteq> None"
  using valid_exit_error_status [of "ObsExitCode obs" "ObsErrorCode obs"]
  by (auto simp: observation_says_def failure_says_def process_command_exit_def split: if_splits)

lemma observe_answer_says:
  assumes "expected \<noteq> ''''" "command \<in> {''status'', ''login'', ''logout''}" "\<not> pa_canceled answer"
  shows "observe_answer command expected answer = obs \<and> \<not> RunnerFault obs \<longleftrightarrow>
    (\<exists>v. acceptable_document (pa_stdout answer) v \<and> ObsExitCode obs = pa_exit answer \<and>
       (pa_failed answer \<longrightarrow> pa_exit answer \<noteq> 0) \<and> observation_says command expected v obs)"
proof (cases "process_command_exit (pa_exit answer) = None \<or> read_projection (pa_stdout answer) = None \<or>
      pa_failed answer \<and> pa_exit answer = 0")
  case True
  have False if v: "acceptable_document (pa_stdout answer) v" "ObsExitCode obs = pa_exit answer"
      "pa_failed answer \<longrightarrow> pa_exit answer \<noteq> 0" "observation_says command expected v obs" for v
  proof -
    have "read_projection (pa_stdout answer) = Some (projection_of v)"
      using v(1) says_not_invalid [OF v(4)] read_projection_iff by blast
    moreover have "process_command_exit (pa_exit answer) \<noteq> None" using says_valid_exit [OF v(4)] v(2) by simp
    ultimately show False using True v(3) by (metis option.distinct(1))
  qed
  moreover have "observe_answer command expected answer = runner_fault_observation"
    by (rule observe_answer_fault [OF assms(3) True])
  ultimately show ?thesis using fault_is_fault by metis
next
  case False
  then obtain v where v: "acceptable_document (pa_stdout answer) v" "read_projection (pa_stdout answer) = Some (projection_of v)"
    using read_projection_iff by (metis not_None_eq)
  have unique: "acceptable_document (pa_stdout answer) w \<longleftrightarrow> w = v" for w
    using v(1) by (auto simp: acceptable_document_def)
  have eq: "observe_answer command expected answer = obs \<and> \<not> RunnerFault obs \<longleftrightarrow>
      ObsExitCode obs = pa_exit answer \<and> observation_says command expected v obs"
  proof (cases "pa_exit answer = 0")
    case zero: True
    have "observe_answer command expected answer =
       (if envelope_says v command True then
          (case success_observation command expected (projection_of v) of
             None \<Rightarrow> runner_fault_observation | Some obs \<Rightarrow> obs)
        else runner_fault_observation)"
      using observe_answer_read [OF assms(3) _ v(2)] False zero by auto
    then show ?thesis using success_read [OF assms(1,2), of v obs] zero by simp
  next
    case nonzero: False
    have "observe_answer command expected answer =
       (case failure_code command (pa_exit answer) (projection_of v) of
          None \<Rightarrow> runner_fault_observation
        | Some c \<Rightarrow> zero_observation\<lparr>ObsExitCode := pa_exit answer, ObsErrorCode := Some c\<rparr>)"
      using observe_answer_read [OF assms(3) _ v(2)] False nonzero by auto
    then show ?thesis using failure_read [OF nonzero] by simp
  qed
  show ?thesis unfolding eq unique using False by auto
qed

lemma json_action_commands: "json_action ex act = Some (args, command, stdin) \<Longrightarrow> command \<in> {''status'', ''login'', ''logout''}"
  by (auto simp: json_action_def Let_def split: if_splits)

text \<open>C36: An observation of the executor that is not a fault is what the program's document states, and nothing else. With a
  prepared executor and no cancellation, \<open>Execute\<close> gives a proper observation exactly when standard output is one JSON
  document within the bounds (size, depth, UTF-8, no repeated key, no replaced character) whose envelope names the command
  and whose members say the observation: after status 0 the session, the outcome and the user name, which must be the
  expected one for the identity to match; after another status an error code that belongs to the status. Everything else
  is a fault of the runner.\<close>

theorem executor_reports_document:
  assumes "px_expected ex \<noteq> ''''" "valid_process_configuration (px_candidate ex) (px_profile ex)" "px_stderr ex"
    and "json_action ex act = Some (args, command, stdin)" "answer = start (px_candidate ex) args stdin"
    and "\<not> pa_canceled answer"
  shows "process_execute ex start act = obs \<and> \<not> RunnerFault obs \<longleftrightarrow>
    (\<exists>v. acceptable_document (pa_stdout answer) v \<and> ObsExitCode obs = pa_exit answer \<and>
       (pa_failed answer \<longrightarrow> pa_exit answer \<noteq> 0) \<and> observation_says command (px_expected ex) v obs)"
proof -
  have "act \<noteq> ActionQRLogin" using assms(4) by (auto simp: json_action_def Let_def)
  then have "process_execute ex start act = observe_answer command (px_expected ex) answer"
    using assms by (simp add: process_execute_def)
  then show ?thesis
    using observe_answer_says [OF assms(1) json_action_commands [OF assms(4)] assms(6)] by simp
qed

definition demo_executor :: process_executor where
  "demo_executor = \<lparr>px_candidate = ''/c/ipgw-meta'', px_profile = ''gate'', px_stdin = True, px_stdout = True,
     px_stderr = True, px_expected = ''20250001''\<rparr>"

definition demo_status_document :: string where
  "demo_status_document = map (\<lambda>c. if c = CHR 0x27 then dquote else c)
     (concat [''{'', [CHR 0x27], ''schema_version'', [CHR 0x27], '':1,'', [CHR 0x27], ''command'', [CHR 0x27], '':'',
        [CHR 0x27], ''status'', [CHR 0x27], '','', [CHR 0x27], ''ok'', [CHR 0x27], '':true,'', [CHR 0x27], ''data'',
        [CHR 0x27], '':{'', [CHR 0x27], ''session'', [CHR 0x27], '':'', [CHR 0x27], ''online'', [CHR 0x27], '','',
        [CHR 0x27], ''username'', [CHR 0x27], '':'', [CHR 0x27], ''20250001'', [CHR 0x27], ''}}''])"

definition demo_start :: process_run where
  "demo_start path args stdin =
     \<lparr>pa_stdout = (if path = ''/c/ipgw-meta'' \<and> last args = ''status'' then demo_status_document else ''''),
      pa_exit = 0, pa_failed = False, pa_canceled = False\<rparr>"

definition demo_online :: observation where
  "demo_online = zero_observation\<lparr>Session := SessionOnline, IdentityMatches := True\<rparr>"

lemma demo_execute: "process_execute demo_executor demo_start ActionStatusOnline = demo_online"
  by code_simp

theorem executor_reports_document_witness:
  "\<exists>v. acceptable_document demo_status_document v \<and> observation_says ''status'' ''20250001'' v demo_online"
proof -
  have ok: "px_expected demo_executor \<noteq> ''''" "px_stderr demo_executor"
      "valid_process_configuration (px_candidate demo_executor) (px_profile demo_executor)"
      "json_action demo_executor ActionStatusOnline =
         Some ([''--json'', ''--profile'', ''gate'', ''status''], ''status'', False)"
    by code_simp+
  have answer: "demo_start (px_candidate demo_executor) [''--json'', ''--profile'', ''gate'', ''status''] False =
      \<lparr>pa_stdout = demo_status_document, pa_exit = 0, pa_failed = False, pa_canceled = False\<rparr>"
    by (simp add: demo_start_def demo_executor_def)
  have "\<not> RunnerFault demo_online" by (simp add: demo_online_def zero_observation_def)
  then show ?thesis
    using executor_reports_document [OF ok(1,3,2,4), where start = demo_start and obs = demo_online, OF answer [symmetric]] demo_execute
    by (auto simp: demo_executor_def)
qed

end
