(* ===== verification/LgCandidate.thy ===== *)
theory LgCandidate
  imports LgReading
begin

text \<open>
  The candidate that the gate runs: \<open>internal/livegate/manifest.go\<close>, the decoder of its manifest, and
  \<open>internal/livegate/candidate.go\<close>, the checks of both files before and after the run.  Opening a private file is the code
  of the platform and a parameter: it gives the identity of the file, its size, the fingerprint of its protection, its
  content, unless reading fails, and the answer of \<open>snapshotStillNamesOpenFile\<close>, which asks the open file again and
  compares its identity and size with the snapshot; it does not look at the path.  The digest is a parameter.
  The manifest is parsed before it is decoded; every refusal of the decoder is the same error.
\<close>

section \<open>The manifest\<close>

definition CandidateManifestSchemaVersion :: int where "CandidateManifestSchemaVersion = 1"
definition MaxCandidateManifestJSONBytes :: nat where "MaxCandidateManifestJSONBytes = 64 * 1024"
definition MaxCandidateTargetBytes :: int where "MaxCandidateTargetBytes = 64 * 1024 * 1024"
definition candidateVersion :: string where "candidateVersion = ''v1.0.0''"

record candidate_binding =
  cb_candidate_id :: string
  cb_set_sha256 :: string
  cb_source_commit :: string
  cb_platform :: platform
  cb_name :: string
  cb_size :: int
  cb_sha256 :: string

definition candidateManifestRequiredFields :: "string list" where
  "candidateManifestRequiredFields =
     [''schema_version'', ''plan_id'', ''revision'', ''version'', ''candidate_id'', ''source_commit'', ''live_gate_targets'']"

definition candidateTargetFields :: "string list" where
  "candidateTargetFields = [''platform'', ''name'', ''size'', ''sha256'']"

record candidate_target =
  ct_platform :: platform
  ct_name :: string
  ct_size :: int
  ct_sha256 :: string

record manifest_projection =
  mp_schema :: int
  mp_plan :: string
  mp_revision :: string
  mp_version :: string
  mp_candidate_id :: string
  mp_source_commit :: string
  mp_targets :: "candidate_target \<times> candidate_target"

definition platform_named :: "string \<Rightarrow> platform" where
  "platform_named s =
     (if s = ''linux-amd64'' then PlatformLinuxAMD64 else if s = ''windows-amd64'' then PlatformWindowsAMD64
      else PlatformOther s)"

text \<open>\<open>candidateManifestString\<close> and \<open>candidateManifestPositiveInteger\<close> on the next value.\<close>

definition manifest_string :: "json \<Rightarrow> string option" where
  "manifest_string v = (case v of JStr s \<Rightarrow> if has_replacement s then None else Some s | _ \<Rightarrow> None)"

definition manifest_positive_integer :: "json \<Rightarrow> int option" where
  "manifest_positive_integer v =
     (case v of
        JNum text \<Rightarrow>
          if text = '''' \<or> \<not> list_all is_digit text then None
          else (case parse_int64 text of None \<Rightarrow> None | Some n \<Rightarrow> if n < 1 then None else Some n)
      | _ \<Rightarrow> None)"

text \<open>\<open>skipCandidateManifestValue\<close>.\<close>

fun skip_manifest_value :: "nat \<Rightarrow> json \<Rightarrow> bool"
  and skip_manifest_members :: "nat \<Rightarrow> string list \<Rightarrow> (string \<times> json) list \<Rightarrow> bool"
  and skip_manifest_elements :: "nat \<Rightarrow> json list \<Rightarrow> bool"
where
  "skip_manifest_value depth (JObj ms) =
     (if MaxCandidateJSONDepth \<le> depth then False else skip_manifest_members (Suc depth) [] ms)"
| "skip_manifest_value depth (JArr vs) =
     (if MaxCandidateJSONDepth \<le> depth then False else skip_manifest_elements (Suc depth) vs)"
| "skip_manifest_value depth (JStr s) = (\<not> has_replacement s)"
| "skip_manifest_value depth (JNum n) = True"
| "skip_manifest_value depth (JBool b) = True"
| "skip_manifest_value depth JNull = True"
| "skip_manifest_members depth seen [] = True"
| "skip_manifest_members depth seen ((key, v) # ms) =
     (if has_replacement key \<or> key \<in> set seen then False
      else skip_manifest_value depth v \<and> skip_manifest_members depth (key # seen) ms)"
| "skip_manifest_elements depth [] = True"
| "skip_manifest_elements depth (v # vs) = (skip_manifest_value depth v \<and> skip_manifest_elements depth vs)"

definition no_target :: candidate_target where
  "no_target = \<lparr>ct_platform = PlatformOther '''', ct_name = '''', ct_size = 0, ct_sha256 = ''''\<rparr>"

text \<open>The loop of \<open>decodeCandidateTarget\<close>: the keys seen, the target so far and whether it is still valid.\<close>

fun target_members ::
    "string list \<Rightarrow> candidate_target \<Rightarrow> bool \<Rightarrow> (string \<times> json) list \<Rightarrow> (string list \<times> candidate_target \<times> bool) option" where
  "target_members seen t valid [] = Some (seen, t, valid)"
| "target_members seen t valid ((key, v) # ms) =
     (if has_replacement key \<or> key \<in> set seen then None
      else if key = ''platform'' then
        (case manifest_string v of None \<Rightarrow> None
         | Some s \<Rightarrow> target_members (key # seen) (t\<lparr>ct_platform := platform_named s\<rparr>) valid ms)
      else if key = ''name'' then
        (case manifest_string v of None \<Rightarrow> None | Some s \<Rightarrow> target_members (key # seen) (t\<lparr>ct_name := s\<rparr>) valid ms)
      else if key = ''size'' then
        (case manifest_positive_integer v of None \<Rightarrow> None
         | Some n \<Rightarrow> target_members (key # seen) (t\<lparr>ct_size := n\<rparr>) valid ms)
      else if key = ''sha256'' then
        (case manifest_string v of None \<Rightarrow> None | Some s \<Rightarrow> target_members (key # seen) (t\<lparr>ct_sha256 := s\<rparr>) valid ms)
      else if skip_manifest_value 3 v then target_members (key # seen) t False ms
      else None)"

definition expected_target :: "nat \<Rightarrow> (platform \<times> string) option" where
  "expected_target index =
     (if index = 0 then Some (PlatformLinuxAMD64, ''ipgw-meta'')
      else if index = 1 then Some (PlatformWindowsAMD64, ''ipgw-meta.exe'') else None)"

definition decode_candidate_target :: "nat \<Rightarrow> json \<Rightarrow> candidate_target option" where
  "decode_candidate_target index v =
     (case v of
        JObj ms \<Rightarrow>
          (case target_members [] no_target True ms of None \<Rightarrow> None
           | Some (seen, t, valid) \<Rightarrow>
               if valid \<and> set candidateTargetFields \<subseteq> set seen \<and>
                  expected_target index = Some (ct_platform t, ct_name t) \<and>
                  1 \<le> ct_size t \<and> ct_size t \<le> MaxCandidateTargetBytes \<and> lower_hex 64 (ct_sha256 t)
               then Some t else None)
      | _ \<Rightarrow> None)"

definition decode_candidate_targets :: "json \<Rightarrow> (candidate_target \<times> candidate_target) option" where
  "decode_candidate_targets v =
     (case v of
        JArr [a, b] \<Rightarrow>
          (case (decode_candidate_target 0 a, decode_candidate_target 1 b) of
             (Some x, Some y) \<Rightarrow> Some (x, y) | _ \<Rightarrow> None)
      | _ \<Rightarrow> None)"

definition no_manifest :: manifest_projection where
  "no_manifest = \<lparr>mp_schema = 0, mp_plan = '''', mp_revision = '''', mp_version = '''', mp_candidate_id = '''',
     mp_source_commit = '''', mp_targets = (no_target, no_target)\<rparr>"

text \<open>One member of the manifest, and the loop of \<open>decodeCandidateManifestObject\<close>.\<close>

definition manifest_member :: "string \<Rightarrow> json \<Rightarrow> manifest_projection \<Rightarrow> manifest_projection option" where
  "manifest_member key v p =
     (if key = ''schema_version'' then map_option (\<lambda>n. p\<lparr>mp_schema := n\<rparr>) (manifest_positive_integer v)
      else if key = ''plan_id'' then map_option (\<lambda>s. p\<lparr>mp_plan := s\<rparr>) (manifest_string v)
      else if key = ''revision'' then map_option (\<lambda>s. p\<lparr>mp_revision := s\<rparr>) (manifest_string v)
      else if key = ''version'' then map_option (\<lambda>s. p\<lparr>mp_version := s\<rparr>) (manifest_string v)
      else if key = ''candidate_id'' then map_option (\<lambda>s. p\<lparr>mp_candidate_id := s\<rparr>) (manifest_string v)
      else if key = ''source_commit'' then map_option (\<lambda>s. p\<lparr>mp_source_commit := s\<rparr>) (manifest_string v)
      else if key = ''live_gate_targets'' then map_option (\<lambda>t. p\<lparr>mp_targets := t\<rparr>) (decode_candidate_targets v)
      else if skip_manifest_value 1 v then Some p else None)"

fun manifest_members ::
    "string list \<Rightarrow> manifest_projection \<Rightarrow> (string \<times> json) list \<Rightarrow> (string list \<times> manifest_projection) option" where
  "manifest_members seen p [] = Some (seen, p)"
| "manifest_members seen p ((key, v) # ms) =
     (if has_replacement key \<or> key \<in> set seen then None
      else (case manifest_member key v p of None \<Rightarrow> None | Some p' \<Rightarrow> manifest_members (key # seen) p' ms))"

definition decode_manifest_object :: "json \<Rightarrow> manifest_projection option" where
  "decode_manifest_object v =
     (case v of
        JObj ms \<Rightarrow>
          (case manifest_members [] no_manifest ms of None \<Rightarrow> None
           | Some (seen, p) \<Rightarrow> if set candidateManifestRequiredFields \<subseteq> set seen then Some p else None)
      | _ \<Rightarrow> None)"

datatype manifest_error = ErrInvalidCandidateManifest | ErrCandidateManifestRead

text \<open>\<open>DecodeCandidateManifest\<close> on what is read from the open file.\<close>

definition decode_candidate_manifest ::
    "(string \<Rightarrow> string) \<Rightarrow> platform \<Rightarrow> string option \<Rightarrow> manifest_error + candidate_binding" where
  "decode_candidate_manifest sha platform content =
     (case content of None \<Rightarrow> Inl ErrCandidateManifestRead
      | Some data \<Rightarrow>
          if MaxCandidateManifestJSONBytes < length data \<or> \<not> valid_utf8 data \<or> \<not> platform_valid platform
          then Inl ErrInvalidCandidateManifest
          else (case parse_json data of None \<Rightarrow> Inl ErrInvalidCandidateManifest
            | Some v \<Rightarrow>
                (case decode_manifest_object v of None \<Rightarrow> Inl ErrInvalidCandidateManifest
                 | Some p \<Rightarrow>
                     if mp_schema p \<noteq> CandidateManifestSchemaVersion \<or> mp_plan p \<noteq> LgSchema.PlanID \<or>
                        mp_revision p \<noteq> LgSchema.Revision \<or> mp_version p \<noteq> candidateVersion \<or>
                        \<not> lower_hex 40 (mp_source_commit p) \<or>
                        validate_candidate_id (mp_candidate_id p) (mp_source_commit p) \<noteq> None
                     then Inl ErrInvalidCandidateManifest
                     else
                       let t = (if platform = PlatformWindowsAMD64 then snd (mp_targets p) else fst (mp_targets p)) in
                       Inr \<lparr>cb_candidate_id = mp_candidate_id p, cb_set_sha256 = sha data,
                         cb_source_commit = mp_source_commit p, cb_platform = ct_platform t, cb_name = ct_name t,
                         cb_size = ct_size t, cb_sha256 = ct_sha256 t\<rparr>)))"

section \<open>The files\<close>

record private_snapshot =
  ps_identity :: nat
  ps_size :: int
  ps_fingerprint :: string

text \<open>\<open>pf_still_named\<close>: the open file, asked again after it was read, has the identity and the size of the snapshot.\<close>

record private_file =
  pf_snapshot :: private_snapshot
  pf_content :: "string option"
  pf_still_named :: bool

text \<open>The files at one time: a manifest is opened as a regular file, the candidate as an executable one.\<close>

record candidate_env =
  ce_digest :: "string \<Rightarrow> string"
  ce_open_regular :: "string \<Rightarrow> private_file option"
  ce_open_executable :: "string \<Rightarrow> private_file option"
  ce_paths_equal :: "string \<Rightarrow> string \<Rightarrow> bool"

record verified_candidate =
  vc_binding :: candidate_binding
  vc_candidate :: string
  vc_manifest :: string
  vc_candidate_snapshot :: private_snapshot
  vc_manifest_snapshot :: private_snapshot

definition valid_candidate_path :: "string \<Rightarrow> bool" where
  "valid_candidate_path p \<longleftrightarrow> p \<noteq> '''' \<and> path_is_abs p \<and> path_clean p = p"

definition hash_open_candidate :: "candidate_env \<Rightarrow> private_file \<Rightarrow> string option" where
  "hash_open_candidate en f =
     (let size = ps_size (pf_snapshot f) in
      if size < 1 \<or> MaxCandidateTargetBytes < size then None
      else (case pf_content f of None \<Rightarrow> None
        | Some data \<Rightarrow>
            if min (int (length data)) (MaxCandidateTargetBytes + 1) \<noteq> size then None else Some (ce_digest en data)))"

definition verify_candidate_before ::
    "candidate_env \<Rightarrow> string \<Rightarrow> string \<Rightarrow> string \<Rightarrow> platform \<Rightarrow> verified_candidate option" where
  "verify_candidate_before en candidate manifest explicit platform =
     (if \<not> valid_candidate_path candidate \<or> \<not> valid_candidate_path manifest \<or> ce_paths_equal en candidate manifest \<or>
         \<not> lower_hex 64 explicit \<or> \<not> platform_valid platform then None
      else (case ce_open_regular en manifest of None \<Rightarrow> None
        | Some mf \<Rightarrow>
            (case decode_candidate_manifest (ce_digest en) platform (pf_content mf) of Inl _ \<Rightarrow> None
             | Inr binding \<Rightarrow>
                 if \<not> pf_still_named mf then None
                 else (case ce_open_executable en candidate of None \<Rightarrow> None
                   | Some cf \<Rightarrow>
                       if ps_identity (pf_snapshot cf) = ps_identity (pf_snapshot mf) \<or> path_base candidate \<noteq> cb_name binding \<or>
                          ps_size (pf_snapshot cf) \<noteq> cb_size binding \<or> cb_sha256 binding \<noteq> explicit then None
                       else if hash_open_candidate en cf \<noteq> Some (cb_sha256 binding) \<or> \<not> pf_still_named cf then None
                       else Some \<lparr>vc_binding = binding, vc_candidate = candidate, vc_manifest = manifest,
                         vc_candidate_snapshot = pf_snapshot cf, vc_manifest_snapshot = pf_snapshot mf\<rparr>))))"

text \<open>\<open>VerifyAfter\<close>.\<close>

definition verify_candidate_after :: "candidate_env \<Rightarrow> verified_candidate \<Rightarrow> bool" where
  "verify_candidate_after en vc \<longleftrightarrow>
     valid_candidate_path (vc_candidate vc) \<and> valid_candidate_path (vc_manifest vc) \<and>
     \<not> ce_paths_equal en (vc_candidate vc) (vc_manifest vc) \<and> platform_valid (cb_platform (vc_binding vc)) \<and>
     (case ce_open_regular en (vc_manifest vc) of None \<Rightarrow> False
      | Some mf \<Rightarrow>
          decode_candidate_manifest (ce_digest en) (cb_platform (vc_binding vc)) (pf_content mf) = Inr (vc_binding vc) \<and>
          pf_snapshot mf = vc_manifest_snapshot vc \<and> pf_still_named mf \<and>
          (case ce_open_executable en (vc_candidate vc) of None \<Rightarrow> False
           | Some cf \<Rightarrow>
               ps_identity (pf_snapshot cf) \<noteq> ps_identity (pf_snapshot mf) \<and>
               path_base (vc_candidate vc) = cb_name (vc_binding vc) \<and>
               pf_snapshot cf = vc_candidate_snapshot vc \<and> ps_size (pf_snapshot cf) = cb_size (vc_binding vc) \<and>
               hash_open_candidate en cf = Some (cb_sha256 (vc_binding vc)) \<and> pf_still_named cf))"

section \<open>What a verified candidate is\<close>

lemma skip_manifest_acceptable:
  "depth \<le> MaxCandidateJSONDepth \<Longrightarrow> skip_manifest_value depth v \<longleftrightarrow> acceptable_below depth v"
  "depth \<le> MaxCandidateJSONDepth \<Longrightarrow> skip_manifest_members depth seen ms \<longleftrightarrow>
     distinct (map fst ms) \<and> fst ` set ms \<inter> set seen = {} \<and>
     (\<forall>m\<in>set ms. \<not> has_replacement (fst m) \<and> acceptable_below depth (snd m))"
  "depth \<le> MaxCandidateJSONDepth \<Longrightarrow> skip_manifest_elements depth vs \<longleftrightarrow> (\<forall>v\<in>set vs. acceptable_below depth v)"
proof (induction depth v and depth seen ms and depth vs
    rule: skip_manifest_value_skip_manifest_members_skip_manifest_elements.induct)
  case (8 depth seen key v ms)
  then show ?case by (cases "has_replacement key \<or> key \<in> set seen") auto
qed (auto simp: acceptable_object acceptable_array acceptable_scalar)

text \<open>A binding that a manifest can give on a platform.\<close>

definition sound_binding :: "(string \<Rightarrow> string) \<Rightarrow> platform \<Rightarrow> string \<Rightarrow> candidate_binding \<Rightarrow> bool" where
  "sound_binding sha platform data b \<longleftrightarrow>
     cb_set_sha256 b = sha data \<and> length data \<le> MaxCandidateManifestJSONBytes \<and>
     lower_hex 40 (cb_source_commit b) \<and> validate_candidate_id (cb_candidate_id b) (cb_source_commit b) = None \<and>
     cb_platform b = platform \<and>
     cb_name b = (if platform = PlatformWindowsAMD64 then ''ipgw-meta.exe'' else ''ipgw-meta'') \<and>
     1 \<le> cb_size b \<and> cb_size b \<le> MaxCandidateTargetBytes \<and> lower_hex 64 (cb_sha256 b)"

definition sound_target :: "nat \<Rightarrow> candidate_target \<Rightarrow> bool" where
  "sound_target index t \<longleftrightarrow>
     expected_target index = Some (ct_platform t, ct_name t) \<and> 1 \<le> ct_size t \<and> ct_size t \<le> MaxCandidateTargetBytes \<and>
     lower_hex 64 (ct_sha256 t)"

lemma decode_target_sound: "decode_candidate_target index v = Some t \<Longrightarrow> sound_target index t"
  by (auto simp: decode_candidate_target_def sound_target_def split: json.splits option.splits if_splits)

lemma decode_targets_sound:
  "decode_candidate_targets v = Some (a, b) \<Longrightarrow> sound_target 0 a \<and> sound_target 1 b"
  by (auto simp: decode_candidate_targets_def dest!: decode_target_sound split: json.splits list.splits option.splits)

lemma manifest_member_targets:
  assumes "manifest_member key v p = Some p'"
  shows "if key = ''live_gate_targets'' then decode_candidate_targets v = Some (mp_targets p') else mp_targets p' = mp_targets p"
  using assms by (auto simp: manifest_member_def split: if_splits)

lemma manifest_members_targets:
  assumes "manifest_members seen p ms = Some (seen', p')"
    and "''live_gate_targets'' \<in> set seen \<Longrightarrow> sound_target 0 (fst (mp_targets p)) \<and> sound_target 1 (snd (mp_targets p))"
    and "''live_gate_targets'' \<in> set seen'"
  shows "sound_target 0 (fst (mp_targets p')) \<and> sound_target 1 (snd (mp_targets p'))"
  using assms
proof (induction seen p ms rule: manifest_members.induct)
  case (2 seen p key v ms)
  then obtain q where q: "manifest_member key v p = Some q" "manifest_members (key # seen) q ms = Some (seen', p')"
      "\<not> (has_replacement key \<or> key \<in> set seen)"
    by (auto split: if_splits option.splits)
  have "sound_target 0 (fst (mp_targets q)) \<and> sound_target 1 (snd (mp_targets q))"
    if "''live_gate_targets'' \<in> set (key # seen)"
    using manifest_member_targets [OF q(1)] that "2.prems"(2) decode_targets_sound [of v "fst (mp_targets q)" "snd (mp_targets q)"]
    by (auto split: if_splits)
  then show ?case using "2.IH" [OF q(3,1,2)] "2.prems"(3) by blast
qed simp

lemma manifest_object_targets:
  assumes "decode_manifest_object v = Some p"
  shows "sound_target 0 (fst (mp_targets p)) \<and> sound_target 1 (snd (mp_targets p))"
proof -
  obtain ms seen where ms: "manifest_members [] no_manifest ms = Some (seen, p)" "set candidateManifestRequiredFields \<subseteq> set seen"
    using assms by (auto simp: decode_manifest_object_def split: json.splits option.splits if_splits)
  have "''live_gate_targets'' \<in> set seen" using ms(2) by (simp add: candidateManifestRequiredFields_def)
  then show ?thesis by (intro manifest_members_targets [OF ms(1)]) simp_all
qed

lemma decode_manifest_sound:
  assumes "decode_candidate_manifest sha platform content = Inr b"
  obtains data where "content = Some data" "sound_binding sha platform data b"
proof -
  obtain data v p where data: "content = Some data" "length data \<le> MaxCandidateManifestJSONBytes" "platform_valid platform"
      "decode_manifest_object v = Some p" "lower_hex 40 (mp_source_commit p)"
      "validate_candidate_id (mp_candidate_id p) (mp_source_commit p) = None"
    and b: "b = (let t = (if platform = PlatformWindowsAMD64 then snd (mp_targets p) else fst (mp_targets p)) in
       \<lparr>cb_candidate_id = mp_candidate_id p, cb_set_sha256 = sha data, cb_source_commit = mp_source_commit p,
         cb_platform = ct_platform t, cb_name = ct_name t, cb_size = ct_size t, cb_sha256 = ct_sha256 t\<rparr>)"
    using assms by (auto simp: decode_candidate_manifest_def Let_def split: option.splits if_splits)
  have "sound_binding sha platform data b"
    using data(2,3,5,6) manifest_object_targets [OF data(4)] unfolding b
    by (auto simp: sound_binding_def sound_target_def expected_target_def platform_valid_def Let_def)
  then show ?thesis using that data(1) by blast
qed

lemma hash_open_content:
  assumes "hash_open_candidate en f = Some h"
  shows "\<exists>data. pf_content f = Some data \<and> int (length data) = ps_size (pf_snapshot f) \<and> h = ce_digest en data"
  using assms by (auto simp: hash_open_candidate_def Let_def split: option.splits if_splits)

text \<open>C38: The gate tests one candidate. If the checks before the run accept a candidate for a hash given by hand, and the
  checks after the run accept it too, then at both times the file at the path has the named size and a content with exactly
  the given hash, it is the same file with the same protection, and its manifest is the same file with the same digest and
  the same binding: a well-formed candidate of the platform, whose identity matches its source commit.\<close>

theorem candidate_unchanged:
  assumes "verify_candidate_before en candidate manifest explicit platform = Some vc"
    and "verify_candidate_after en' vc"
  shows "\<exists>f f' data data' m m' doc doc'.
    ce_open_executable en candidate = Some f \<and> pf_content f = Some data \<and> ce_digest en data = explicit \<and>
    ce_open_executable en' candidate = Some f' \<and> pf_content f' = Some data' \<and> ce_digest en' data' = explicit \<and>
    pf_snapshot f = pf_snapshot f' \<and> int (length data) = cb_size (vc_binding vc) \<and> length data = length data' \<and>
    ce_open_regular en manifest = Some m \<and> pf_content m = Some doc \<and>
    ce_open_regular en' manifest = Some m' \<and> pf_content m' = Some doc' \<and> pf_snapshot m = pf_snapshot m' \<and>
    sound_binding (ce_digest en) platform doc (vc_binding vc) \<and> sound_binding (ce_digest en') platform doc' (vc_binding vc) \<and>
    path_base candidate = cb_name (vc_binding vc)"
proof -
  obtain m f binding where before: "ce_open_regular en manifest = Some m" "ce_open_executable en candidate = Some f"
      "decode_candidate_manifest (ce_digest en) platform (pf_content m) = Inr binding"
      "path_base candidate = cb_name binding" "ps_size (pf_snapshot f) = cb_size binding" "cb_sha256 binding = explicit"
      "hash_open_candidate en f = Some (cb_sha256 binding)"
      "vc = \<lparr>vc_binding = binding, vc_candidate = candidate, vc_manifest = manifest,
        vc_candidate_snapshot = pf_snapshot f, vc_manifest_snapshot = pf_snapshot m\<rparr>"
    using assms(1) unfolding verify_candidate_before_def by (auto split: if_splits option.splits sum.splits)
  obtain doc where doc: "pf_content m = Some doc" "sound_binding (ce_digest en) platform doc binding"
    using decode_manifest_sound [OF before(3)] by blast
  obtain data where data: "pf_content f = Some data" "int (length data) = cb_size binding" "ce_digest en data = explicit"
    using hash_open_content [OF before(7)] before(5,6) by auto
  have platform: "cb_platform binding = platform" using doc(2) by (simp add: sound_binding_def)
  obtain m' f' where after: "ce_open_regular en' manifest = Some m'" "ce_open_executable en' candidate = Some f'"
      "decode_candidate_manifest (ce_digest en') platform (pf_content m') = Inr binding"
      "pf_snapshot m' = pf_snapshot m" "pf_snapshot f' = pf_snapshot f"
      "hash_open_candidate en' f' = Some (cb_sha256 binding)" "ps_size (pf_snapshot f') = cb_size binding"
    using assms(2) platform unfolding verify_candidate_after_def before(8) by (auto split: option.splits)
  obtain doc' where doc': "pf_content m' = Some doc'" "sound_binding (ce_digest en') platform doc' binding"
    using decode_manifest_sound [OF after(3)] by blast
  obtain data' where data': "pf_content f' = Some data'" "int (length data') = cb_size binding" "ce_digest en' data' = explicit"
    using hash_open_content [OF after(6)] after(7) before(6) by auto
  show ?thesis
    using before(1,2,4) doc data after(1,2,4,5) doc' data' unfolding before(8) by auto
qed

section \<open>A small candidate\<close>

definition demo_sha :: string where
  "demo_sha = replicate 64 (CHR ''a'')"

definition demo_commit :: string where
  "demo_commit = replicate 40 (CHR ''b'')"

definition demo_manifest :: string where
  "demo_manifest = map (\<lambda>c. if c = CHR ''~'' then dquote else c)
     (''{~schema_version~:1,~plan_id~:~IPGW-META-V1~,~revision~:~2026-08-28-r2~,~version~:~v1.0.0~,'' @
      ''~candidate_id~:~v1.0.0-bbbbbbbbbbbb-1.1~,~source_commit~:~'' @ demo_commit @
      ''~,~live_gate_targets~:[{~platform~:~linux-amd64~,~name~:~ipgw-meta~,~size~:3,~sha256~:~'' @ demo_sha @
      ''~},{~platform~:~windows-amd64~,~name~:~ipgw-meta.exe~,~size~:4,~sha256~:~'' @ demo_sha @ ''~}]}'')"

definition demo_manifest_projection :: manifest_projection where
  "demo_manifest_projection =
     \<lparr>mp_schema = 1, mp_plan = ''IPGW-META-V1'', mp_revision = ''2026-08-28-r2'', mp_version = ''v1.0.0'',
      mp_candidate_id = ''v1.0.0-bbbbbbbbbbbb-1.1'', mp_source_commit = demo_commit,
      mp_targets =
        (\<lparr>ct_platform = PlatformLinuxAMD64, ct_name = ''ipgw-meta'', ct_size = 3, ct_sha256 = demo_sha\<rparr>,
         \<lparr>ct_platform = PlatformWindowsAMD64, ct_name = ''ipgw-meta.exe'', ct_size = 4, ct_sha256 = demo_sha\<rparr>)\<rparr>"

definition demo_candidate_binding :: candidate_binding where
  "demo_candidate_binding =
     \<lparr>cb_candidate_id = ''v1.0.0-bbbbbbbbbbbb-1.1'', cb_set_sha256 = demo_sha, cb_source_commit = demo_commit,
      cb_platform = PlatformLinuxAMD64, cb_name = ''ipgw-meta'', cb_size = 3, cb_sha256 = demo_sha\<rparr>"

definition demo_candidate_env :: candidate_env where
  "demo_candidate_env =
     \<lparr>ce_digest = (\<lambda>_. demo_sha),
      ce_open_regular = (\<lambda>_. Some \<lparr>pf_snapshot = \<lparr>ps_identity = 1, ps_size = 500, ps_fingerprint = ''p''\<rparr>,
        pf_content = Some demo_manifest, pf_still_named = True\<rparr>),
      ce_open_executable = (\<lambda>_. Some \<lparr>pf_snapshot = \<lparr>ps_identity = 2, ps_size = 3, ps_fingerprint = ''p''\<rparr>,
        pf_content = Some ''elf'', pf_still_named = True\<rparr>),
      ce_paths_equal = (=)\<rparr>"

lemma demo_manifest_object:
  "map_option decode_manifest_object (parse_json demo_manifest) = Some (Some demo_manifest_projection)"
  by code_simp

lemma demo_manifest_decoded:
  "decode_candidate_manifest (\<lambda>_. demo_sha) PlatformLinuxAMD64 (Some demo_manifest) = Inr demo_candidate_binding"
proof -
  obtain v where v: "parse_json demo_manifest = Some v" "decode_manifest_object v = Some demo_manifest_projection"
    using demo_manifest_object by auto
  have "length demo_manifest < 1000" "valid_utf8 demo_manifest" "lower_hex 40 demo_commit"
      "validate_candidate_id ''v1.0.0-bbbbbbbbbbbb-1.1'' demo_commit = None"
    by code_simp+
  then show ?thesis using v
    by (simp add: decode_candidate_manifest_def MaxCandidateManifestJSONBytes_def platform_valid_def
        demo_manifest_projection_def CandidateManifestSchemaVersion_def LgSchema.PlanID_def LgSchema.Revision_def
        candidateVersion_def demo_candidate_binding_def)
qed

definition demo_verified :: verified_candidate where
  "demo_verified =
     \<lparr>vc_binding = demo_candidate_binding, vc_candidate = ''/c/ipgw-meta'', vc_manifest = ''/c/manifest.json'',
      vc_candidate_snapshot = \<lparr>ps_identity = 2, ps_size = 3, ps_fingerprint = ''p''\<rparr>,
      vc_manifest_snapshot = \<lparr>ps_identity = 1, ps_size = 500, ps_fingerprint = ''p''\<rparr>\<rparr>"

lemma demo_paths:
  "valid_candidate_path ''/c/ipgw-meta''" "valid_candidate_path ''/c/manifest.json''" "lower_hex 64 demo_sha"
  "path_base ''/c/ipgw-meta'' = ''ipgw-meta''"
  by code_simp+

lemma demo_verified_before:
  "verify_candidate_before demo_candidate_env ''/c/ipgw-meta'' ''/c/manifest.json'' demo_sha PlatformLinuxAMD64 = Some demo_verified"
  by (simp add: verify_candidate_before_def demo_paths demo_candidate_env_def demo_manifest_decoded hash_open_candidate_def
      MaxCandidateTargetBytes_def platform_valid_def demo_verified_def)
    (simp add: demo_candidate_binding_def)

lemma demo_verified_after: "verify_candidate_after demo_candidate_env demo_verified"
  by (simp add: verify_candidate_after_def demo_paths demo_candidate_env_def demo_manifest_decoded hash_open_candidate_def
      MaxCandidateTargetBytes_def platform_valid_def demo_verified_def demo_candidate_binding_def)

theorem candidate_unchanged_witness:
  "\<exists>f data m doc. ce_open_executable demo_candidate_env ''/c/ipgw-meta'' = Some f \<and> pf_content f = Some data \<and>
     ce_digest demo_candidate_env data = demo_sha \<and> ce_open_regular demo_candidate_env ''/c/manifest.json'' = Some m \<and>
     pf_content m = Some doc \<and> sound_binding (ce_digest demo_candidate_env) PlatformLinuxAMD64 doc (vc_binding demo_verified)"
  using candidate_unchanged [OF demo_verified_before demo_verified_after] by blast

end
