(* ===== verification/LgExecute.thy ===== *)
theory LgExecute
  imports LgCandidate
begin

text \<open>
  The live validation gate as a whole, \<open>Execute\<close> of \<open>internal/livegate/execute.go\<close>: the command line, the terminal, the
  checks of the candidate around the run, the evidence and its publication, and what is printed.  The surroundings are a
  \<open>gate_world\<close> that answers from the trace of what has happened so far; a context that was canceled stays canceled.  The
  publication of a bundle (\<open>bundle.go\<close>) is a parameter that answers with what it published, or with an error.  An early
  return is an exception with the exit status.
\<close>

section \<open>Options and command line\<close>

datatype gate_stream = GateStdin | GateStdout | GateStderr

record gate_options =
  go_args :: "string list"
  go_stdin :: bool
  go_stdout :: bool
  go_stderr :: bool
  go_tty :: bool

record gate_invocation =
  gi_candidate :: string
  gi_sha256 :: string
  gi_manifest :: string
  gi_suite :: suite
  gi_testbed :: testbed
  gi_network :: network_type
  gi_profile :: string
  gi_output :: string

definition parse_gate_suite :: "string \<Rightarrow> suite option" where
  "parse_gate_suite s =
     (if s = ''password-core'' then Some SuitePasswordCore
      else if s = ''terminal-qr'' then Some SuiteTerminalQR else None)"

definition testbed_named :: "string \<Rightarrow> testbed" where
  "testbed_named s =
     (if s = ''nas_vm'' then TestbedNASVM else if s = ''bhk_windows'' then TestbedBHKWindows else TestbedOther s)"

definition network_named :: "string \<Rightarrow> network_type" where
  "network_named s =
     (if s = ''campus_wired'' then NetworkCampusWired else if s = ''campus_wifi'' then NetworkCampusWiFi
      else NetworkOther s)"

definition gate_flags :: "string list" where
  "gate_flags = [''--candidate'', ''--candidate-sha256'', ''--candidate-manifest'', ''--suite'', ''--testbed'', ''--network'',
     ''--profile'', ''--output-dir'']"

text \<open>The loop of \<open>parseLiveGateInvocation\<close>: pairs of a flag and its value, each flag once.\<close>

fun gate_values :: "(string \<times> string) list \<Rightarrow> string list \<Rightarrow> (string \<times> string) list option" where
  "gate_values vs [] = Some vs"
| "gate_values vs [name] = None"
| "gate_values vs (name # v # rest) =
     (if name \<notin> set gate_flags \<or> v = '''' \<or> map_of vs name \<noteq> None then None else gate_values ((name, v) # vs) rest)"

definition gate_value :: "(string \<times> string) list \<Rightarrow> string \<Rightarrow> string" where
  "gate_value vs name = (case map_of vs name of None \<Rightarrow> '''' | Some v \<Rightarrow> v)"

definition parse_gate_invocation :: "string list \<Rightarrow> gate_invocation option" where
  "parse_gate_invocation args =
     (if length args \<noteq> 17 \<or> hd args \<noteq> ''run'' then None
      else (case gate_values [] (tl args) of None \<Rightarrow> None
        | Some vs \<Rightarrow>
            if length vs \<noteq> 8 then None
            else (case parse_gate_suite (gate_value vs ''--suite'') of None \<Rightarrow> None
              | Some st \<Rightarrow> Some
                  \<lparr>gi_candidate = gate_value vs ''--candidate'', gi_sha256 = gate_value vs ''--candidate-sha256'',
                   gi_manifest = gate_value vs ''--candidate-manifest'', gi_suite = st,
                   gi_testbed = testbed_named (gate_value vs ''--testbed''),
                   gi_network = network_named (gate_value vs ''--network''),
                   gi_profile = gate_value vs ''--profile'', gi_output = gate_value vs ''--output-dir''\<rparr>)))"

section \<open>Preflight\<close>

definition valid_gate_path :: "string \<Rightarrow> bool" where
  "valid_gate_path p \<longleftrightarrow> p \<noteq> '''' \<and> path_is_abs p \<and> path_clean p = p"

definition gate_path_contains :: "string \<Rightarrow> string \<Rightarrow> bool" where
  "gate_path_contains base target =
     (case path_rel base target of None \<Rightarrow> False
      | Some rel \<Rightarrow>
          if path_is_abs rel then False
          else rel = ''.'' \<or> rel \<noteq> ''..'' \<and> \<not> has_prefix rel ''../'')"

definition gate_paths_overlap :: "string \<Rightarrow> string \<Rightarrow> bool" where
  "gate_paths_overlap left right \<longleftrightarrow> gate_path_contains left right \<or> gate_path_contains right left"

text \<open>\<open>validateBundleOutputDir\<close> of \<open>bundle.go\<close>.\<close>

definition valid_bundle_output :: "string \<Rightarrow> bool" where
  "valid_bundle_output p \<longleftrightarrow>
     p \<noteq> '''' \<and> path_is_abs p \<and> path_clean p = p \<and> path_base p = ''live-evidence'' \<and> path_base (path_dir p) = ''build''"

definition gate_profile_ok :: "string \<Rightarrow> bool" where
  "gate_profile_ok s \<longleftrightarrow>
     (case s of [] \<Rightarrow> False
      | c # cs \<Rightarrow>
          alnum c \<and> length cs \<le> 63 \<and>
          list_all (\<lambda>d. alnum d \<or> d \<in> set ''._-'') cs)"

definition gate_auth :: "suite \<Rightarrow> auth_method" where
  "gate_auth st = (if st = SuiteTerminalQR then AuthMethodTerminalQR else AuthMethodPassword)"

definition valid_gate_preflight :: "gate_invocation \<Rightarrow> platform \<Rightarrow> bool" where
  "valid_gate_preflight ivc platform \<longleftrightarrow>
     platform_valid platform \<and> gate_profile_ok (gi_profile ivc) \<and> valid_gate_path (gi_candidate ivc) \<and>
     valid_gate_path (gi_manifest ivc) \<and> valid_gate_path (gi_output ivc) \<and> valid_bundle_output (gi_output ivc) \<and>
     \<not> gate_paths_overlap (gi_output ivc) (gi_candidate ivc) \<and>
     \<not> gate_paths_overlap (gi_output ivc) (gi_manifest ivc) \<and>
     valid_matrix platform (gi_testbed ivc) (gi_network ivc) (gate_auth (gi_suite ivc)) (gi_suite ivc)"

section \<open>Evidence\<close>

definition build_gate_evidence ::
    "candidate_binding \<Rightarrow> gate_invocation \<Rightarrow> time \<Rightarrow> time \<Rightarrow> gate_result \<Rightarrow> step list \<Rightarrow> evidence" where
  "build_gate_evidence b ivc started finished result steps =
     \<lparr>SchemaVersionOf = LgSchema.SchemaVersion, PlanIDOf = LgSchema.PlanID, RevisionOf = LgSchema.Revision,
      EvidenceID = '''', CandidateID = cb_candidate_id b, CandidateSetSHA256 = cb_set_sha256 b,
      SourceCommit = cb_source_commit b, PlatformOf = cb_platform b, TestbedOf = gi_testbed ivc,
      NetworkType = gi_network ivc, AuthMethodOf = gate_auth (gi_suite ivc), SuiteOf = gi_suite ivc,
      CapabilityBefore =
        (if gi_suite ivc = SuiteTerminalQR then terminalQRCapabilitiesBefore else passwordCapabilitiesBefore),
      ResultOf = result,
      CapabilityAfter =
        (if gi_suite ivc = SuiteTerminalQR
         then (if result = ResultPass then terminalQRCapabilitiesAfter else terminalQRCapabilitiesBefore)
         else (if result = ResultPass then passwordCapabilitiesAfter else passwordCapabilitiesBefore)),
      StartedAt = format_timestamp started, FinishedAt = format_timestamp finished, Steps = steps\<rparr>"

definition gate_exit_for_result :: "gate_result \<Rightarrow> gate_exit" where
  "gate_exit_for_result r =
     (case r of ResultPass \<Rightarrow> GateExitPass | ResultFail \<Rightarrow> GateExitFail | ResultBlocked \<Rightarrow> GateExitBlocked
      | ResultOther _ \<Rightarrow> GateExitInternal)"

definition result_text :: "gate_result \<Rightarrow> string" where
  "result_text r =
     (case r of ResultPass \<Rightarrow> ''pass'' | ResultFail \<Rightarrow> ''fail'' | ResultBlocked \<Rightarrow> ''blocked'' | ResultOther s \<Rightarrow> s)"

record published_bundle =
  pb_path :: string
  pb_evidence :: evidence

datatype publish_answer = PublishCanceled | PublishFailed | Published published_bundle

section \<open>The world of a gate\<close>

datatype gate_event =
    GateCtx bool
  | AskedTerminal gate_stream
  | AskedPlatform
  | CheckedBefore
  | PreparedProfile
  | GateNow
  | Ran run_result history
  | CheckedAfter
  | Publishing evidence
  | Invalidated string
  | GateOut string
  | GateErr string

type_synonym gate_trace = "gate_event list"

text \<open>\<open>gt_files\<close> are the private files at a time, \<open>gt_process\<close> is the program during the run, \<open>gt_prepare\<close> before it.\<close>

record gate_world =
  gt_ctx :: "gate_trace \<Rightarrow> bool"
  gt_terminal :: "gate_trace \<Rightarrow> gate_stream \<Rightarrow> bool"
  gt_platform :: "platform option"
  gt_files :: "gate_trace \<Rightarrow> candidate_env"
  gt_prepare :: "gate_trace \<Rightarrow> process_run"
  gt_now :: "gate_trace \<Rightarrow> time"
  gt_clock :: "history \<Rightarrow> int"
  gt_run_ctx :: "history \<Rightarrow> bool"
  gt_deadline :: "int \<Rightarrow> history \<Rightarrow> bool"
  gt_process :: "history \<Rightarrow> process_run"
  gt_publish :: "gate_trace \<Rightarrow> string \<Rightarrow> evidence \<Rightarrow> publish_answer"

text \<open>An early return carries the exit status; only the last one has a result and the identity of the evidence.\<close>

datatype gate_end = GateStops gate_exit | GateResult gate_exit gate_result string

type_synonym 'a gate = "(gate_trace, gate_end, 'a) proc"

definition gate_log :: "gate_event \<Rightarrow> unit gate" where
  "gate_log e = modifyP (\<lambda>tr. tr @ [e])"

definition gate_ctx_err :: "gate_world \<Rightarrow> bool gate" where
  "gate_ctx_err w tr = (let c = GateCtx True \<in> set tr \<or> gt_ctx w tr in (Inr c, tr @ [GateCtx c]))"

text \<open>\<open>if ctx.Err() != nil\<close> with a canceled exit, and \<open>finish\<close>.\<close>

definition stop_if_canceled :: "gate_world \<Rightarrow> unit gate" where
  "stop_if_canceled w = bindP (gate_ctx_err w) (\<lambda>c. if c then throwP (GateStops GateExitCanceled) else returnP ())"

definition gate_finish :: "gate_world \<Rightarrow> gate_exit \<Rightarrow> 'a gate" where
  "gate_finish w code = bindP (gate_ctx_err w) (\<lambda>c. throwP (GateStops (if c then GateExitCanceled else code)))"

definition ask_terminal :: "gate_world \<Rightarrow> gate_stream \<Rightarrow> bool gate" where
  "ask_terminal w s tr = (Inr (gt_terminal w tr s), tr @ [AskedTerminal s])"

definition gate_clock :: "gate_world \<Rightarrow> time gate" where
  "gate_clock w tr = (Inr (gt_now w tr), tr @ [GateNow])"

definition gate_files :: "gate_world \<Rightarrow> gate_event \<Rightarrow> candidate_env gate" where
  "gate_files w e tr = (Inr (gt_files w tr), tr @ [e])"

definition valid_terminal_boundary :: "gate_world \<Rightarrow> gate_options \<Rightarrow> suite \<Rightarrow> bool gate" where
  "valid_terminal_boundary w opts st =
     bindP (stop_if_canceled w) (\<lambda>_.
     if \<not> go_tty opts \<or> \<not> go_stdin opts \<or> \<not> go_stdout opts \<or> \<not> go_stderr opts then returnP False
     else
       bindP (ask_terminal w GateStdin) (\<lambda>stdin_tty.
       bindP (stop_if_canceled w) (\<lambda>_.
       if \<not> stdin_tty then returnP False
       else
         bindP (ask_terminal w GateStderr) (\<lambda>stderr_tty.
         bindP (stop_if_canceled w) (\<lambda>_.
         if \<not> stderr_tty then returnP False
         else if st = SuitePasswordCore then returnP True
         else if st = SuiteTerminalQR then
           bindP (ask_terminal w GateStdout) (\<lambda>stdout_tty. bindP (stop_if_canceled w) (\<lambda>_. returnP stdout_tty))
         else returnP False)))))"

text \<open>\<open>discardPublishedBundle\<close>: the bundle is only touched at the place where it belongs.\<close>

definition discard_published :: "published_bundle \<Rightarrow> unit gate" where
  "discard_published b =
     (let dir = path_dir (pb_path b); out = path_dir dir in
      if pb_path b = '''' \<or> \<not> path_is_abs (pb_path b) \<or> path_clean (pb_path b) \<noteq> pb_path b \<or>
         evidence_validate (pb_evidence b) \<noteq> None \<or> \<not> valid_bundle_output out \<or>
         path_join [out, CandidateID (pb_evidence b), EvidenceID (pb_evidence b)] \<noteq> pb_path b
      then returnP () else gate_log (Invalidated (pb_path b)))"

definition gate_executor :: "gate_options \<Rightarrow> verified_candidate \<Rightarrow> gate_invocation \<Rightarrow> process_executor" where
  "gate_executor opts vc ivc =
     \<lparr>px_candidate = vc_candidate vc, px_profile = gi_profile ivc, px_stdin = go_stdin opts, px_stdout = go_stdout opts,
      px_stderr = go_stderr opts, px_expected = ''''\<rparr>"

definition prepare_gate :: "gate_world \<Rightarrow> process_executor \<Rightarrow> suite \<Rightarrow> (process_error option \<times> process_executor) gate" where
  "prepare_gate w ex st tr = (Inr (prepare_profile ex (gt_prepare w tr) st), tr @ [PreparedProfile])"

definition runner_world :: "gate_world \<Rightarrow> process_executor \<Rightarrow> world" where
  "runner_world w ex =
     \<lparr>w_now = gt_clock w, w_ctx = gt_run_ctx w, w_exec = (\<lambda>h act. process_execute ex (gt_process w h) act),
      w_deadline = gt_deadline w\<rparr>"

definition run_gate :: "gate_world \<Rightarrow> process_executor \<Rightarrow> suite \<Rightarrow> run_result gate" where
  "run_gate w ex st tr =
     (case run True \<lparr>executor_set = True, cleanup_timeout = 0\<rparr> (runner_world w ex) st [] of
        (r, h) \<Rightarrow> (Inr r, tr @ [Ran r h]))"

text \<open>The candidate after the run.\<close>

definition check_after :: "gate_world \<Rightarrow> verified_candidate \<Rightarrow> unit gate" where
  "check_after w vc =
     bindP (gate_files w CheckedAfter) (\<lambda>en.
     bindP (stop_if_canceled w) (\<lambda>_.
     if \<not> verify_candidate_after en vc then gate_finish w GateExitEvidenceDurability else returnP ()))"

text \<open>From the evidence on: the probe, the publication, and the answer.\<close>

definition publish_evidence ::
    "gate_world \<Rightarrow> gate_invocation \<Rightarrow> verified_candidate \<Rightarrow> time \<Rightarrow> gate_result \<Rightarrow> evidence \<Rightarrow> unit gate" where
  "publish_evidence w ivc vc started result ev =
     (if evidence_validate (ev\<lparr>EvidenceID := ''EVID-'' @ format_date started @ ''-001''\<rparr>) \<noteq> None
      then gate_finish w GateExitEvidenceDurability
      else
        bindP (stop_if_canceled w) (\<lambda>_.
        bindP (\<lambda>tr. (Inr (gt_publish w tr (gi_output ivc) ev), tr @ [Publishing ev])) (\<lambda>answer.
        case answer of
          PublishCanceled \<Rightarrow> bindP (gate_ctx_err w) (\<lambda>_. throwP (GateStops GateExitCanceled))
        | PublishFailed \<Rightarrow>
            bindP (gate_ctx_err w) (\<lambda>c. throwP (GateStops (if c then GateExitCanceled else GateExitEvidenceDurability)))
        | Published b \<Rightarrow>
            if evidence_validate (pb_evidence b) \<noteq> None \<or> ResultOf (pb_evidence b) \<noteq> result \<or>
               CandidateID (pb_evidence b) \<noteq> cb_candidate_id (vc_binding vc)
            then bindP (discard_published b) (\<lambda>_. throwP (GateStops GateExitEvidenceDurability))
            else throwP (GateResult (gate_exit_for_result result) result (EvidenceID (pb_evidence b))))))"

definition gate_run :: "gate_world \<Rightarrow> gate_options \<Rightarrow> gate_invocation \<Rightarrow> verified_candidate \<Rightarrow> process_executor \<Rightarrow> unit gate" where
  "gate_run w opts ivc vc ex =
     bindP (gate_clock w) (\<lambda>started.
     bindP (stop_if_canceled w) (\<lambda>_.
     bindP (run_gate w ex (gi_suite ivc)) (\<lambda>r.
     bindP (if r_canceled r then throwP (GateStops GateExitCanceled) else stop_if_canceled w) (\<lambda>_.
     bindP (check_after w vc) (\<lambda>_.
     if r_err r \<noteq> None then gate_finish w GateExitInternal
     else
       bindP (gate_clock w) (\<lambda>finished.
       bindP (stop_if_canceled w) (\<lambda>_.
       if time_before finished started then gate_finish w GateExitEvidenceDurability
       else publish_evidence w ivc vc started (r_result r)
         (build_gate_evidence (vc_binding vc) ivc started finished (r_result r) (r_steps r)))))))))"

definition gate_prepare :: "gate_world \<Rightarrow> gate_options \<Rightarrow> gate_invocation \<Rightarrow> verified_candidate \<Rightarrow> unit gate" where
  "gate_prepare w opts ivc vc =
     bindP (stop_if_canceled w) (\<lambda>_.
     bindP (prepare_gate w (gate_executor opts vc ivc) (gi_suite ivc)) (\<lambda>(err, ex).
     bindP (stop_if_canceled w) (\<lambda>_.
     case err of
       Some e \<Rightarrow>
         bindP (check_after w vc) (\<lambda>_.
         gate_finish w (if e = ErrProcessRunnerFault then GateExitInternal else GateExitSecurityReject))
     | None \<Rightarrow> gate_run w opts ivc vc ex)))"

definition gate_main :: "gate_world \<Rightarrow> gate_options \<Rightarrow> unit gate" where
  "gate_main w opts =
     (case parse_gate_invocation (go_args opts) of
        None \<Rightarrow> gate_finish w GateExitSecurityReject
      | Some ivc \<Rightarrow>
          bindP (stop_if_canceled w) (\<lambda>_.
          bindP (valid_terminal_boundary w opts (gi_suite ivc)) (\<lambda>terminal_ok.
          if \<not> terminal_ok then gate_finish w GateExitSecurityReject
          else
            bindP (gate_log AskedPlatform) (\<lambda>_.
            bindP (stop_if_canceled w) (\<lambda>_.
            case gt_platform w of
              None \<Rightarrow> gate_finish w GateExitSecurityReject
            | Some platform \<Rightarrow>
                if \<not> valid_gate_preflight ivc platform then gate_finish w GateExitSecurityReject
                else
                  bindP (stop_if_canceled w) (\<lambda>_.
                  bindP (gate_files w CheckedBefore) (\<lambda>en.
                  bindP (stop_if_canceled w) (\<lambda>_.
                  case verify_candidate_before en (gi_candidate ivc) (gi_manifest ivc) (gi_sha256 ivc) platform of
                    None \<Rightarrow> gate_finish w GateExitSecurityReject
                  | Some vc \<Rightarrow> gate_prepare w opts ivc vc))))))))"

text \<open>\<open>renderGateExit\<close> and \<open>Execute\<close>.\<close>

definition gate_message :: "gate_options \<Rightarrow> gate_end \<Rightarrow> gate_event list" where
  "gate_message opts ending =
     (let diagnostic = (\<lambda>s. if go_stderr opts then [GateErr (''ipgw-live-gate: '' @ s)] else []);
          line = (\<lambda>result ident. if go_stdout opts
            then [GateOut (''ipgw-live-gate: result='' @ result @ '' evidence_id='' @ ident)] else []);
          (code, result, ident) = (case ending of GateStops c \<Rightarrow> (c, '''', '''') | GateResult c r i \<Rightarrow> (c, result_text r, i))
      in if code \<in> {GateExitPass, GateExitFail, GateExitBlocked} then line result ident
         else if code = GateExitSecurityReject then diagnostic ''security reject''
         else if code = GateExitEvidenceDurability then diagnostic ''evidence durability failure''
         else if code = GateExitCanceled then diagnostic ''canceled''
         else diagnostic ''internal failure'')"

definition gate_status :: "gate_end \<Rightarrow> gate_exit" where
  "gate_status ending = (case ending of GateStops c \<Rightarrow> c | GateResult c _ _ \<Rightarrow> c)"

definition gate_execute :: "gate_world \<Rightarrow> gate_options \<Rightarrow> gate_exit \<times> gate_trace" where
  "gate_execute w opts =
     (case gate_main w opts [] of
        (Inl ending, tr) \<Rightarrow> (gate_status ending, tr @ gate_message opts ending)
      | (Inr (), tr) \<Rightarrow> (GateExitInternal, tr))"

end
