(* ===== verification/LgGate.thy ===== *)
theory LgGate
  imports LgExecute
begin

text \<open>
  What an exit status of the gate means.  Every early return has a status without a result; a run that ends with one was
  started with a verified candidate, ran on the documents of that candidate, found it unchanged and published evidence of
  its result.
\<close>

section \<open>Observations come from the program\<close>

definition answered :: "world \<Rightarrow> history \<Rightarrow> bool" where
  "answered w h \<longleftrightarrow> (\<forall>a obs. EvExec a obs \<in> set h \<longrightarrow> (\<exists>h'. obs = w_exec w h' a))"

lemma answered_Nil: "answered w []"
  by (simp add: answered_def)

lemma answered_quiet [simp]:
  "answered w (EvNow t # h) \<longleftrightarrow> answered w h" "answered w (EvCtx c # h) \<longleftrightarrow> answered w h"
  "answered w (EvCleanupContext a # h) \<longleftrightarrow> answered w h" "answered w (EvDeadline c # h) \<longleftrightarrow> answered w h"
  by (simp_all add: answered_def)

lemma answered_exec: "answered w h \<Longrightarrow> answered w (EvExec a (w_exec w h' a) # h)"
  by (auto simp: answered_def)

lemma exec_log_event: "(a, obs) \<in> set (exec_log h) \<longleftrightarrow> EvExec a obs \<in> set h"
  by (induction h) (auto split: event.splits)

lemma answered_observe: "observe_action w a h = (x, h') \<Longrightarrow> answered w h \<Longrightarrow> answered w h'"
  by (auto simp: observe_action_def ask_now_def ctx_err_def exec_action_def Let_def answered_exec split: if_splits)

lemma answered_observe_cleanup: "observe_cleanup_action w timeout a h = (x, h') \<Longrightarrow> answered w h \<Longrightarrow> answered w h'"
  by (auto simp: observe_cleanup_action_def ask_now_def deadline_exceeded_def exec_action_def Let_def answered_exec
      split: if_splits)

lemma answered_ctx: "ctx_err w h = (c, h') \<Longrightarrow> answered w h \<Longrightarrow> answered w h'"
  by (auto simp: ctx_err_def Let_def)

lemma answered_step: "execute_step w spec h = (x, h') \<Longrightarrow> answered w h \<Longrightarrow> answered w h'"
  by (auto simp: execute_step_def Let_def split: prod.splits dest: answered_observe)

lemma answered_cleanup_step: "execute_cleanup_step w timeout spec h = (x, h') \<Longrightarrow> answered w h \<Longrightarrow> answered w h'"
  by (auto simp: execute_cleanup_step_def Let_def split: prod.splits dest: answered_observe_cleanup)

lemma answered_pair: "execute_qr_pair w h = (x, h') \<Longrightarrow> answered w h \<Longrightarrow> answered w h'"
  by (auto simp: execute_qr_pair_def Let_def split: prod.splits if_splits dest!: answered_observe answered_ctx)

lemma answered_primary: "run_primary w st specs l h = (l', h') \<Longrightarrow> answered w h \<Longrightarrow> answered w h'"
proof (induction w st specs l h arbitrary: l' h' rule: run_primary.induct)
  case (2 w st spec rest l h)
  obtain c h1 where c: "ctx_err w h = (c, h1)" by (cases "ctx_err w h")
  have a1: "answered w h1" by (rule answered_ctx [OF c "2.prems"(2)])
  show ?case
  proof (cases c)
    case True
    then show ?thesis using "2.prems"(1) c a1 by simp
  next
    case no_cancel: False
    show ?thesis
    proof (cases "st = SuiteTerminalQR \<and> spec_action spec = ActionQRLogin")
      case True
      obtain pair h2 where p: "execute_qr_pair w h1 = (pair, h2)" by (cases "execute_qr_pair w h1")
      have a2: "answered w h2" by (rule answered_pair [OF p a1])
      obtain c2 h3 where c2: "(if pair = PairCanceled then (True, h2) else ctx_err w h2) = (c2, h3)"
        by (cases "if pair = PairCanceled then (True, h2) else ctx_err w h2")
      have a3: "answered w h3" using c2 a2 answered_ctx by (auto split: if_splits)
      show ?thesis
        using "2.prems"(1) no_cancel True c p c2 a3 "2.IH"(1) [OF refl c [symmetric] no_cancel True refl p [symmetric] refl c2 [symmetric]]
        by (auto split: if_splits pair_outcome.splits)
    next
      case False
      obtain res h2 where r: "execute_step w spec h1 = (res, h2)" by (cases "execute_step w spec h1")
      have a2: "answered w h2" by (rule answered_step [OF r a1])
      obtain c2 h3 where c2: "ctx_err w h2 = (c2, h3)" by (cases "ctx_err w h2")
      have a3: "answered w h3" by (rule answered_ctx [OF c2 a2])
      show ?thesis
        using "2.prems"(1) no_cancel False c r c2 a3 "2.IH"(2) [OF refl c [symmetric] no_cancel False refl r [symmetric] refl c2 [symmetric]]
        by (auto simp: Let_def split: if_splits sum.splits)
    qed
  qed
qed simp

lemma answered_cleanup: "run_cleanup w timeout specs l h = (l', h') \<Longrightarrow> answered w h \<Longrightarrow> answered w h'"
proof (induction w timeout specs l h arbitrary: l' h' rule: run_cleanup.induct)
  case (2 w timeout spec rest l h)
  obtain res h1 where r: "execute_cleanup_step w timeout spec (EvCleanupContext (spec_action spec) # h) = (res, h1)"
    by (cases "execute_cleanup_step w timeout spec (EvCleanupContext (spec_action spec) # h)")
  have "answered w h1" by (rule answered_cleanup_step [OF r]) (use "2.prems"(2) in simp)
  then show ?case using "2.prems"(1) r "2.IH" [OF refl r [symmetric]] by (auto simp: Let_def split: sum.splits)
qed simp

lemma run_answered:
  assumes "run ctx sm w st [] = (r, h)" "(a, obs) \<in> set (exec_log h)"
  shows "\<exists>h'. obs = w_exec w h' a"
proof -
  have "answered w h"
    using assms(1) answered_Nil
    by (auto simp: run_def Let_def split: if_splits option.splits prod.splits
        dest: answered_primary answered_cleanup)
  then show ?thesis using assms(2) by (simp add: answered_def exec_log_event)
qed

section \<open>Early returns\<close>

definition early_exits :: "gate_exit set" where
  "early_exits = {GateExitSecurityReject, GateExitEvidenceDurability, GateExitInternal, GateExitCanceled}"

definition silent :: "gate_event list \<Rightarrow> bool" where
  "silent xs \<longleftrightarrow> (\<forall>e\<in>set xs. case e of GateOut _ \<Rightarrow> False | GateErr _ \<Rightarrow> False | _ \<Rightarrow> True)"

lemma silent_append [simp]: "silent (xs @ ys) \<longleftrightarrow> silent xs \<and> silent ys"
  by (auto simp: silent_def)

lemma silent_one [simp]:
  "silent []" "silent [GateCtx c]" "silent [AskedTerminal s]" "silent [AskedPlatform]" "silent [CheckedBefore]"
  "silent [PreparedProfile]" "silent [GateNow]" "silent [Ran r h]" "silent [CheckedAfter]" "silent [Publishing ev]"
  "silent [Invalidated p]"
  by (simp_all add: silent_def)

text \<open>A part of the gate prints nothing, and an exception of it is an early return; a whole also ends with a result.\<close>

definition gate_part :: "'a gate \<Rightarrow> bool" where
  "gate_part m \<longleftrightarrow>
     (\<forall>tr r tr'. m tr = (r, tr') \<longrightarrow> (\<exists>xs. tr' = tr @ xs \<and> silent xs) \<and> (\<forall>e. r = Inl e \<longrightarrow> e \<in> GateStops ` early_exits))"

definition gate_whole :: "unit gate \<Rightarrow> bool" where
  "gate_whole m \<longleftrightarrow>
     (\<forall>tr r tr'. m tr = (r, tr') \<longrightarrow> (\<exists>xs. tr' = tr @ xs \<and> silent xs) \<and>
        (\<exists>e. r = Inl e \<and> (e \<in> GateStops ` early_exits \<or> (\<exists>c x i. e = GateResult c x i))))"

named_theorems gate_rules \<open>rules for the parts of the gate\<close>

lemma gate_part_plain:
  assumes "\<And>tr r tr'. m tr = (r, tr') \<Longrightarrow> \<exists>xs. tr' = tr @ xs \<and> silent xs"
    "\<And>tr e tr'. m tr = (Inl e, tr') \<Longrightarrow> e \<in> GateStops ` early_exits"
  shows "gate_part m"
  using assms unfolding gate_part_def by blast

lemma gate_part_return [gate_rules]: "gate_part (returnP x)"
  by (rule gate_part_plain) (auto simp: returnP_def)

lemma gate_part_throw [gate_rules]: "c \<in> early_exits \<Longrightarrow> gate_part (throwP (GateStops c))"
  by (rule gate_part_plain) (auto simp: throwP_def)

lemma gate_part_ctx [gate_rules]: "gate_part (gate_ctx_err w)"
  by (rule gate_part_plain) (auto simp: gate_ctx_err_def Let_def)

lemma gate_part_ask [gate_rules]: "gate_part (ask_terminal w s)"
  by (rule gate_part_plain) (auto simp: ask_terminal_def)

lemma gate_part_clock [gate_rules]: "gate_part (gate_clock w)"
  by (rule gate_part_plain) (auto simp: gate_clock_def)

lemma gate_part_files [gate_rules]: "silent [e] \<Longrightarrow> gate_part (gate_files w e)"
  by (rule gate_part_plain) (auto simp: gate_files_def)

lemma gate_part_log [gate_rules]: "silent [e] \<Longrightarrow> gate_part (gate_log e)"
  by (rule gate_part_plain) (auto simp: gate_log_def modifyP_def)

lemma gate_part_prepare [gate_rules]: "gate_part (prepare_gate w ex st)"
  by (rule gate_part_plain) (auto simp: prepare_gate_def)

lemma gate_part_run [gate_rules]: "gate_part (run_gate w ex st)"
  by (rule gate_part_plain) (auto simp: run_gate_def split: prod.splits)

lemma gate_part_publish [gate_rules]: "gate_part (\<lambda>tr. (Inr (f tr), tr @ [Publishing ev]))"
  by (rule gate_part_plain) auto

lemma gate_partD:
  assumes "gate_part m" "m tr = (r, tr')"
  obtains xs where "tr' = tr @ xs" "silent xs" "\<And>e. r = Inl e \<Longrightarrow> e \<in> GateStops ` early_exits"
  using assms(1) [unfolded gate_part_def, THEN spec, THEN spec, THEN spec, THEN mp, OF assms(2)] that by blast

lemma gate_wholeD:
  assumes "gate_whole m" "m tr = (r, tr')"
  obtains xs e where "tr' = tr @ xs" "silent xs" "r = Inl e"
    "e \<in> GateStops ` early_exits \<or> (\<exists>c x i. e = GateResult c x i)"
  using assms(1) [unfolded gate_whole_def, THEN spec, THEN spec, THEN spec, THEN mp, OF assms(2)] that by blast

lemma gate_part_bind [gate_rules]:
  assumes "gate_part m" "\<And>x. gate_part (k x)"
  shows "gate_part (bindP m k)"
  unfolding gate_part_def
proof (intro allI impI)
  fix tr r tr' assume run: "bindP m k tr = (r, tr')"
  obtain r1 t1 where m: "m tr = (r1, t1)" by (cases "m tr")
  obtain xs where xs: "t1 = tr @ xs" "silent xs" "\<And>e. r1 = Inl e \<Longrightarrow> e \<in> GateStops ` early_exits"
    using gate_partD [OF assms(1) m] by blast
  show "(\<exists>xs. tr' = tr @ xs \<and> silent xs) \<and> (\<forall>e. r = Inl e \<longrightarrow> e \<in> GateStops ` early_exits)"
  proof (cases r1)
    case (Inl e)
    then have "r = Inl e" "tr' = t1" using run m by (auto simp: bindP_def)
    then show ?thesis using xs Inl by auto
  next
    case (Inr x)
    then have k: "k x t1 = (r, tr')" using run m by (simp add: bindP_def)
    obtain ys where "tr' = t1 @ ys" "silent ys" "\<And>e. r = Inl e \<Longrightarrow> e \<in> GateStops ` early_exits"
      using gate_partD [OF assms(2) k] by blast
    then show ?thesis using xs by (intro conjI exI [of _ "xs @ ys"]) auto
  qed
qed

lemma gate_whole_bind [gate_rules]:
  assumes "gate_part m" "\<And>x. gate_whole (k x)"
  shows "gate_whole (bindP m k)"
  unfolding gate_whole_def
proof (intro allI impI)
  fix tr r tr' assume run: "bindP m k tr = (r, tr')"
  obtain r1 t1 where m: "m tr = (r1, t1)" by (cases "m tr")
  obtain xs where xs: "t1 = tr @ xs" "silent xs" "\<And>e. r1 = Inl e \<Longrightarrow> e \<in> GateStops ` early_exits"
    using gate_partD [OF assms(1) m] by blast
  show "(\<exists>xs. tr' = tr @ xs \<and> silent xs) \<and>
      (\<exists>e. r = Inl e \<and> (e \<in> GateStops ` early_exits \<or> (\<exists>c x i. e = GateResult c x i)))"
  proof (cases r1)
    case (Inl e)
    then have "r = Inl e" "tr' = t1" using run m by (auto simp: bindP_def)
    then show ?thesis using xs Inl by auto
  next
    case (Inr x)
    then have k: "k x t1 = (r, tr')" using run m by (simp add: bindP_def)
    obtain ys e where "tr' = t1 @ ys" "silent ys" "r = Inl e" "e \<in> GateStops ` early_exits \<or> (\<exists>c x i. e = GateResult c x i)"
      using gate_wholeD [OF assms(2) k] by blast
    then show ?thesis using xs by (intro conjI exI [of _ "xs @ ys"]) auto
  qed
qed

lemma early_statuses [simp]:
  "GateExitSecurityReject \<in> early_exits" "GateExitEvidenceDurability \<in> early_exits" "GateExitInternal \<in> early_exits"
  "GateExitCanceled \<in> early_exits"
  by (simp_all add: early_exits_def)

lemma gate_part_if [gate_rules]: "(b \<Longrightarrow> gate_part m) \<Longrightarrow> (\<not> b \<Longrightarrow> gate_part n) \<Longrightarrow> gate_part (if b then m else n)"
  by simp

lemma gate_whole_if [gate_rules]: "(b \<Longrightarrow> gate_whole m) \<Longrightarrow> (\<not> b \<Longrightarrow> gate_whole n) \<Longrightarrow> gate_whole (if b then m else n)"
  by simp

lemma gate_part_stop [gate_rules]: "gate_part (stop_if_canceled w)"
  unfolding stop_if_canceled_def by (intro gate_rules) simp_all

lemma gate_part_finish [gate_rules]: "c \<in> early_exits \<Longrightarrow> gate_part (gate_finish w c)"
  unfolding gate_finish_def by (intro gate_rules) auto

lemma gate_whole_throw [gate_rules]: "c \<in> early_exits \<Longrightarrow> gate_whole (throwP (GateStops c))"
  by (auto simp: gate_whole_def throwP_def)

lemma gate_whole_result [gate_rules]: "gate_whole (throwP (GateResult c x i))"
  by (auto simp: gate_whole_def throwP_def)

lemma gate_whole_finish [gate_rules]: "c \<in> early_exits \<Longrightarrow> gate_whole (gate_finish w c)"
  unfolding gate_finish_def by (intro gate_rules) auto

lemma gate_part_terminal [gate_rules]: "gate_part (valid_terminal_boundary w opts st)"
  unfolding valid_terminal_boundary_def by (intro gate_rules)

lemma gate_part_discard [gate_rules]: "gate_part (discard_published b)"
  unfolding discard_published_def Let_def by (intro gate_rules) simp

lemma gate_part_after [gate_rules]: "gate_part (check_after w vc)"
  unfolding check_after_def by (intro gate_rules) simp_all

lemma gate_whole_publish [gate_rules]: "gate_whole (publish_evidence w ivc vc started result ev)"
  unfolding publish_evidence_def by (auto intro!: gate_rules split: publish_answer.splits)

lemma gate_whole_run [gate_rules]: "gate_whole (gate_run w opts ivc vc ex)"
  unfolding gate_run_def by (intro gate_rules) simp_all

lemma gate_whole_prepare [gate_rules]: "gate_whole (gate_prepare w opts ivc vc)"
  unfolding gate_prepare_def by (auto intro!: gate_rules split: option.splits prod.splits)

lemma gate_whole_main: "gate_whole (gate_main w opts)"
  unfolding gate_main_def by (auto intro!: gate_rules split: option.splits)

section \<open>The way to a result\<close>

lemma bind_result:
  assumes "bindP m k tr = (Inl (GateResult c r i), t)" "gate_part m"
  obtains x t' where "m tr = (Inr x, t')" "k x t' = (Inl (GateResult c r i), t)"
proof -
  obtain r1 t1 where m: "m tr = (r1, t1)" by (cases "m tr")
  show ?thesis
  proof (cases r1)
    case (Inl e)
    then have "e = GateResult c r i" using assms(1) m by (simp add: bindP_def)
    then show ?thesis using gate_partD [OF assms(2) m] Inl by blast
  next
    case (Inr x)
    then show ?thesis using assms(1) m that by (simp add: bindP_def)
  qed
qed

lemma no_result_part: "gate_part m \<Longrightarrow> m tr \<noteq> (Inl (GateResult c r i), t)"
  using gate_partD by blast

text \<open>\<open>yields m Q\<close>: when \<open>m\<close> ends with a result, \<open>Q\<close> holds of its status, result and evidence.\<close>

definition yields :: "'a gate \<Rightarrow> (gate_exit \<Rightarrow> gate_result \<Rightarrow> string \<Rightarrow> bool) \<Rightarrow> bool" where
  "yields m Q \<longleftrightarrow> (\<forall>tr c x i t. m tr = (Inl (GateResult c x i), t) \<longrightarrow> Q c x i)"

lemma yields_part: "gate_part m \<Longrightarrow> yields m Q"
  by (simp add: yields_def no_result_part)

lemma yields_bind:
  assumes "gate_part m" "\<And>v tr t. m tr = (Inr v, t) \<Longrightarrow> yields (k v) Q"
  shows "yields (bindP m k) Q"
  unfolding yields_def
proof (intro allI impI)
  fix tr c x i t assume run: "bindP m k tr = (Inl (GateResult c x i), t)"
  obtain v t' where v: "m tr = (Inr v, t')" "k v t' = (Inl (GateResult c x i), t)" by (rule bind_result [OF run assms(1)])
  show "Q c x i" by (rule assms(2) [OF v(1), unfolded yields_def, rule_format, OF v(2)])
qed

lemma yields_if: "(b \<Longrightarrow> yields m Q) \<Longrightarrow> (\<not> b \<Longrightarrow> yields n Q) \<Longrightarrow> yields (if b then m else n) Q"
  by simp

lemma yields_result: "Q c x i \<Longrightarrow> yields (throwP (GateResult c x i)) Q"
  by (simp add: yields_def throwP_def)

lemma yields_finish: "yields (gate_finish w code) Q"
  by (simp add: yields_def gate_finish_def gate_ctx_err_def bindP_def throwP_def Let_def)

lemmas yields_stop = yields_bind [OF gate_part_stop]

definition publication ::
    "gate_world \<Rightarrow> gate_invocation \<Rightarrow> verified_candidate \<Rightarrow> gate_result \<Rightarrow> evidence \<Rightarrow> published_bundle \<Rightarrow> bool" where
  "publication w ivc vc result ev b \<longleftrightarrow>
     (\<exists>tr. gt_publish w tr (gi_output ivc) ev = Published b) \<and> evidence_validate (pb_evidence b) = None \<and>
     ResultOf (pb_evidence b) = result \<and> CandidateID (pb_evidence b) = cb_candidate_id (vc_binding vc)"

lemma publish_yields:
  "yields (publish_evidence w ivc vc started result ev) (\<lambda>c x i. \<exists>b. publication w ivc vc result ev b \<and>
     x = result \<and> i = EvidenceID (pb_evidence b) \<and> c = gate_exit_for_result result)"
  unfolding publish_evidence_def
proof (intro yields_if yields_finish yields_stop yields_bind [OF gate_part_publish])
  fix answer tr t
  assume "(Inr (gt_publish w tr (gi_output ivc) ev), tr @ [Publishing ev]) = (Inr answer, t)"
  then have answer: "gt_publish w tr (gi_output ivc) ev = answer" by simp
  show "yields (case answer of
          PublishCanceled \<Rightarrow> bindP (gate_ctx_err w) (\<lambda>_. throwP (GateStops GateExitCanceled))
        | PublishFailed \<Rightarrow>
            bindP (gate_ctx_err w) (\<lambda>c. throwP (GateStops (if c then GateExitCanceled else GateExitEvidenceDurability)))
        | Published b \<Rightarrow>
            if evidence_validate (pb_evidence b) \<noteq> None \<or> ResultOf (pb_evidence b) \<noteq> result \<or>
               CandidateID (pb_evidence b) \<noteq> cb_candidate_id (vc_binding vc)
            then bindP (discard_published b) (\<lambda>_. throwP (GateStops GateExitEvidenceDurability))
            else throwP (GateResult (gate_exit_for_result result) result (EvidenceID (pb_evidence b))))
      (\<lambda>c x i. \<exists>b. publication w ivc vc result ev b \<and>
         x = result \<and> i = EvidenceID (pb_evidence b) \<and> c = gate_exit_for_result result)"
  proof (cases answer)
    case (Published b)
    show ?thesis unfolding Published publish_answer.case
      by (intro yields_if yields_part [OF gate_part_bind [OF gate_part_discard gate_part_throw]] yields_result exI [of _ b])
        (use answer Published in \<open>auto simp: publication_def\<close>)
  qed (auto intro!: yields_part gate_rules)
qed

lemma check_after_passed:
  assumes "check_after w vc tr = (Inr x, t)"
  shows "\<exists>t1. verify_candidate_after (gt_files w t1) vc"
proof (rule ccontr)
  assume "\<not> ?thesis"
  then show False using assms
    by (simp add: check_after_def gate_files_def bindP_def stop_if_canceled_def gate_finish_def gate_ctx_err_def throwP_def
        returnP_def Let_def split: if_splits)
qed

text \<open>What lies behind a result of the run with a prepared executor.\<close>

definition run_course ::
    "gate_world \<Rightarrow> gate_invocation \<Rightarrow> verified_candidate \<Rightarrow> process_executor \<Rightarrow> run_result \<Rightarrow> history \<Rightarrow> published_bundle \<Rightarrow> bool" where
  "run_course w ivc vc ex r h b \<longleftrightarrow>
     run True \<lparr>executor_set = True, cleanup_timeout = 0\<rparr> (runner_world w ex) (gi_suite ivc) [] = (r, h) \<and>
     \<not> r_canceled r \<and> r_err r = None \<and> (\<exists>tr. verify_candidate_after (gt_files w tr) vc) \<and>
     (\<exists>started finished. \<not> time_before finished started \<and>
        publication w ivc vc (r_result r)
          (build_gate_evidence (vc_binding vc) ivc started finished (r_result r) (r_steps r)) b)"

lemma gate_run_yields:
  "yields (gate_run w opts ivc vc ex) (\<lambda>c x i. \<exists>r h b. run_course w ivc vc ex r h b \<and>
     x = r_result r \<and> i = EvidenceID (pb_evidence b) \<and> c = gate_exit_for_result (r_result r))"
  unfolding gate_run_def
proof (intro yields_bind [OF gate_part_clock] yields_stop yields_bind [OF gate_part_run] yields_bind [OF gate_part_after]
    yields_bind [OF gate_part_if [OF gate_part_throw gate_part_stop]] yields_if yields_finish)
  fix started r tr t x1 t1 t2 x2 t3 t4 finished
  assume run: "run_gate w ex (gi_suite ivc) tr = (Inr r, t)"
    and going: "(if r_canceled r then throwP (GateStops GateExitCanceled) else stop_if_canceled w) t1 = (Inr x1, t2)"
    and after: "check_after w vc t3 = (Inr x2, t4)" and ok: "\<not> r_err r \<noteq> None" "\<not> time_before finished started"
  let ?ev = "build_gate_evidence (vc_binding vc) ivc started finished (r_result r) (r_steps r)"
  obtain h where h: "run True \<lparr>executor_set = True, cleanup_timeout = 0\<rparr> (runner_world w ex) (gi_suite ivc) [] = (r, h)"
    using run by (auto simp: run_gate_def split: prod.splits)
  have "\<not> r_canceled r" using going by (auto simp: throwP_def)
  then have "run_course w ivc vc ex r h b" if "publication w ivc vc (r_result r) ?ev b" for b
    using h ok check_after_passed [OF after] that unfolding run_course_def by auto
  then show "yields (publish_evidence w ivc vc started (r_result r) ?ev) (\<lambda>c x i. \<exists>r h b. run_course w ivc vc ex r h b \<and>
      x = r_result r \<and> i = EvidenceID (pb_evidence b) \<and> c = gate_exit_for_result (r_result r))"
    using publish_yields [of w ivc vc started "r_result r" ?ev] unfolding yields_def by metis
qed simp_all

lemma gate_prepare_yields:
  "yields (gate_prepare w opts ivc vc) (\<lambda>c x i. \<exists>ex r h b. (\<exists>tr. prepare_profile (gate_executor opts vc ivc) (gt_prepare w tr) (gi_suite ivc) = (None, ex)) \<and>
     run_course w ivc vc ex r h b \<and> x = r_result r \<and> i = EvidenceID (pb_evidence b) \<and> c = gate_exit_for_result (r_result r))"
  unfolding gate_prepare_def
proof (intro yields_stop yields_bind [OF gate_part_prepare])
  fix pair tr t
  assume "prepare_gate w (gate_executor opts vc ivc) (gi_suite ivc) tr = (Inr pair, t)"
  then have pair: "pair = prepare_profile (gate_executor opts vc ivc) (gt_prepare w tr) (gi_suite ivc)"
    by (simp add: prepare_gate_def)
  obtain err ex where p: "pair = (err, ex)" by (cases pair)
  show "yields (case pair of (err, ex) \<Rightarrow> bindP (stop_if_canceled w) (\<lambda>_. case err of
       Some e \<Rightarrow> bindP (check_after w vc) (\<lambda>_. gate_finish w (if e = ErrProcessRunnerFault then GateExitInternal else GateExitSecurityReject))
     | None \<Rightarrow> gate_run w opts ivc vc ex))
    (\<lambda>c x i. \<exists>ex r h b. (\<exists>tr. prepare_profile (gate_executor opts vc ivc) (gt_prepare w tr) (gi_suite ivc) = (None, ex)) \<and>
       run_course w ivc vc ex r h b \<and> x = r_result r \<and> i = EvidenceID (pb_evidence b) \<and> c = gate_exit_for_result (r_result r))"
  proof (cases err)
    case (Some e)
    then show ?thesis unfolding p by (auto intro!: yields_stop yields_bind [OF gate_part_after] yields_finish)
  next
    case None
    then show ?thesis unfolding p prod.case option.case
      using gate_run_yields [of w opts ivc vc ex] pair p by (intro yields_stop) (simp add: yields_def, metis)
  qed
qed

text \<open>What the gate has established before the run.\<close>

definition gate_started ::
    "gate_world \<Rightarrow> gate_options \<Rightarrow> gate_invocation \<Rightarrow> verified_candidate \<Rightarrow> process_executor \<Rightarrow> bool" where
  "gate_started w opts ivc vc ex \<longleftrightarrow>
     parse_gate_invocation (go_args opts) = Some ivc \<and>
     (\<exists>platform tr. gt_platform w = Some platform \<and> valid_gate_preflight ivc platform \<and>
        verify_candidate_before (gt_files w tr) (gi_candidate ivc) (gi_manifest ivc) (gi_sha256 ivc) platform = Some vc) \<and>
     (\<exists>tr. prepare_profile (gate_executor opts vc ivc) (gt_prepare w tr) (gi_suite ivc) = (None, ex))"

lemma gate_main_yields:
  "yields (gate_main w opts) (\<lambda>c x i. \<exists>ivc vc ex r h b. gate_started w opts ivc vc ex \<and> run_course w ivc vc ex r h b \<and>
     x = r_result r \<and> i = EvidenceID (pb_evidence b) \<and> c = gate_exit_for_result (r_result r))"
proof (cases "parse_gate_invocation (go_args opts)")
  case None
  then show ?thesis by (simp add: gate_main_def yields_finish)
next
  case ivc: (Some ivc)
  show ?thesis
  proof (cases "gt_platform w")
    case None
    then show ?thesis using ivc unfolding gate_main_def
      by (auto intro!: yields_stop yields_bind [OF gate_part_terminal] yields_if yields_finish yields_bind [OF gate_part_log])
  next
    case platform: (Some platform)
    show ?thesis unfolding gate_main_def ivc platform option.case
    proof (intro yields_stop yields_bind [OF gate_part_terminal] yields_if yields_finish yields_bind [OF gate_part_log]
        yields_bind [OF gate_part_files])
      fix en tr t
      assume pre: "\<not> \<not> valid_gate_preflight ivc platform" and files: "gate_files w CheckedBefore tr = (Inr en, t)"
      have en: "en = gt_files w tr" using files by (simp add: gate_files_def)
      show "yields (case verify_candidate_before en (gi_candidate ivc) (gi_manifest ivc) (gi_sha256 ivc) platform of
          None \<Rightarrow> gate_finish w GateExitSecurityReject | Some vc \<Rightarrow> gate_prepare w opts ivc vc)
        (\<lambda>c x i. \<exists>ivc vc ex r h b. gate_started w opts ivc vc ex \<and> run_course w ivc vc ex r h b \<and>
           x = r_result r \<and> i = EvidenceID (pb_evidence b) \<and> c = gate_exit_for_result (r_result r))"
      proof (cases "verify_candidate_before en (gi_candidate ivc) (gi_manifest ivc) (gi_sha256 ivc) platform")
        case None
        then show ?thesis by (simp add: yields_finish)
      next
        case (Some vc)
        have "gate_started w opts ivc vc ex"
          if "\<exists>tr. prepare_profile (gate_executor opts vc ivc) (gt_prepare w tr) (gi_suite ivc) = (None, ex)" for ex
          using that ivc platform pre Some unfolding gate_started_def en by blast
        then show ?thesis
          using gate_prepare_yields [of w opts ivc vc] Some by (simp add: yields_def) metis
      qed
    qed simp_all
  qed
qed

section \<open>What the gate answers\<close>

text \<open>The program said what was observed: some answer of it is a document that states the observation.\<close>

definition program_said :: "gate_world \<Rightarrow> process_executor \<Rightarrow> action \<Rightarrow> observation \<Rightarrow> bool" where
  "program_said w ex act obs \<longleftrightarrow>
     (\<exists>h args command stdin answer v. json_action ex act = Some (args, command, stdin) \<and>
        answer = gt_process w h (px_candidate ex) args stdin \<and> acceptable_document (pa_stdout answer) v \<and>
        pa_exit answer = 0 \<and> \<not> pa_failed answer \<and> observation_says command (px_expected ex) v obs)"

definition proven_run :: "gate_world \<Rightarrow> suite \<Rightarrow> process_executor \<Rightarrow> history \<Rightarrow> bool" where
  "proven_run w st ex h \<longleftrightarrow>
     (\<exists>primary. primary_actions st = Some primary \<and> map fst (exec_log h) = map spec_action primary) \<and>
     (\<forall>(act, obs) \<in> set (exec_log h). confirmed st (act, obs) \<and> (act \<noteq> ActionQRLogin \<longrightarrow> program_said w ex act obs))"

lemma prepared_executor:
  assumes "prepare_profile ex0 start st = (None, ex)"
  shows "px_candidate ex = px_candidate ex0" "px_profile ex = px_profile ex0" "px_expected ex \<noteq> ''''"
  using assms by (auto simp: prepare_profile_def Let_def split: if_splits option.splits)

lemma observed_said:
  assumes "obs = process_execute ex (gt_process w h) act" "confirmed st (act, obs)" "act \<noteq> ActionQRLogin"
  shows "program_said w ex act obs"
proof -
  have obs: "\<not> RunnerFault obs" "ObsExitCode obs = 0" using assms(2) by (simp_all add: confirmed_def)
  have prepared: "px_expected ex \<noteq> ''''" "valid_process_configuration (px_candidate ex) (px_profile ex)" "px_stderr ex"
    using assms(1) obs(1) fault_is_fault by (auto simp: process_execute_def split: if_splits)
  obtain args command stdin where act: "json_action ex act = Some (args, command, stdin)"
    using assms(1,3) obs(1) fault_is_fault prepared by (auto simp: process_execute_def split: option.splits)
  define answer where "answer = gt_process w h (px_candidate ex) args stdin"
  have exec: "obs = observe_answer command (px_expected ex) answer"
    using assms(1,3) prepared act by (simp add: process_execute_def answer_def)
  have "\<not> pa_canceled answer"
    using exec obs(2) by (auto simp: observe_answer_def canceled_process_observation_def)
  then obtain v where "acceptable_document (pa_stdout answer) v" "ObsExitCode obs = pa_exit answer"
      "pa_failed answer \<longrightarrow> pa_exit answer \<noteq> 0" "observation_says command (px_expected ex) v obs"
    using observe_answer_says [OF prepared(1) json_action_commands [OF act], of answer obs] exec obs(1) by metis
  then show ?thesis using act answer_def obs(2) unfolding program_said_def by metis
qed

lemma pass_proven:
  assumes "run_course w ivc vc ex r h b" "r_result r = ResultPass"
  shows "proven_run w (gi_suite ivc) ex h"
proof -
  have run: "run True \<lparr>executor_set = True, cleanup_timeout = 0\<rparr> (runner_world w ex) (gi_suite ivc) [] = (r, h)"
    using assms(1) by (simp add: run_course_def)
  obtain primary where primary: "primary_actions (gi_suite ivc) = Some primary" "map fst (exec_log h) = map spec_action primary"
      "list_all (confirmed (gi_suite ivc)) (exec_log h)"
    using run_pass_steps [OF run assms(2)] by blast
  have "confirmed (gi_suite ivc) (act, obs) \<and> (act \<noteq> ActionQRLogin \<longrightarrow> program_said w ex act obs)"
    if e: "(act, obs) \<in> set (exec_log h)" for act obs
  proof -
    have ok: "confirmed (gi_suite ivc) (act, obs)" using primary(3) e by (simp add: list_all_iff)
    obtain h' where "obs = process_execute ex (gt_process w h') act"
      using run_answered [OF run e] by (auto simp: runner_world_def)
    then show ?thesis using ok observed_said by blast
  qed
  then show ?thesis using primary(1,2) unfolding proven_run_def by auto
qed

lemma valid_result: "evidence_validate e = None \<Longrightarrow> result_valid (ResultOf e)"
  by (auto simp: evidence_validate_def split: if_splits sum.splits option.splits)

lemma course_result:
  assumes "run_course w ivc vc ex r h b"
  shows "gate_exit_for_result (r_result r) \<in> {GateExitPass, GateExitFail, GateExitBlocked}"
    and "gate_exit_for_result (r_result r) = GateExitPass \<longleftrightarrow> r_result r = ResultPass"
proof -
  have "result_valid (r_result r)"
    using assms valid_result [of "pb_evidence b"] by (auto simp: run_course_def publication_def)
  then show "gate_exit_for_result (r_result r) \<in> {GateExitPass, GateExitFail, GateExitBlocked}"
      "gate_exit_for_result (r_result r) = GateExitPass \<longleftrightarrow> r_result r = ResultPass"
    by (auto simp: result_valid_def gate_exit_for_result_def)
qed

lemma no_line:
  assumes "c \<in> early_exits"
  shows "GateOut s \<notin> set (gate_message opts (GateStops c))"
  using assms by (auto simp: early_exits_def gate_message_def Let_def)

lemma result_line:
  assumes "GateOut s \<in> set (gate_message opts (GateResult c x i))"
  shows "s = ''ipgw-live-gate: result='' @ result_text x @ '' evidence_id='' @ i"
  using assms by (auto simp: gate_message_def Let_def split: if_splits)

lemma silent_no_line: "silent xs \<Longrightarrow> GateOut s \<notin> set xs"
  by (auto simp: silent_def split: gate_event.splits)

text \<open>A result, with what lies behind it.\<close>

definition gate_answer ::
    "gate_world \<Rightarrow> gate_options \<Rightarrow> gate_exit \<Rightarrow> gate_result \<Rightarrow> string \<Rightarrow> gate_invocation \<Rightarrow> process_executor \<Rightarrow> run_result \<Rightarrow> history \<Rightarrow> bool" where
  "gate_answer w opts c x i ivc ex r h \<longleftrightarrow>
     (\<exists>vc b. gate_started w opts ivc vc ex \<and> run_course w ivc vc ex r h b \<and> x = r_result r \<and> i = EvidenceID (pb_evidence b) \<and>
        c = gate_exit_for_result (r_result r)) \<and>
     px_candidate ex = gi_candidate ivc \<and> px_expected ex \<noteq> '''' \<and>
     (c = GateExitPass \<longrightarrow> r_result r = ResultPass \<and> proven_run w (gi_suite ivc) ex h)"

lemma gate_result_answered:
  assumes "gate_main w opts tr = (Inl (GateResult c x i), tr')"
  shows "\<exists>ivc ex r h. gate_answer w opts c x i ivc ex r h"
proof -
  obtain ivc vc ex r h b where course: "gate_started w opts ivc vc ex" "run_course w ivc vc ex r h b"
      "x = r_result r" "i = EvidenceID (pb_evidence b)" "c = gate_exit_for_result (r_result r)"
    using gate_main_yields [unfolded yields_def, rule_format, OF assms] by blast
  obtain tr1 where prepared: "prepare_profile (gate_executor opts vc ivc) (gt_prepare w tr1) (gi_suite ivc) = (None, ex)"
    using course(1) by (auto simp: gate_started_def)
  have "vc_candidate vc = gi_candidate ivc"
    using course(1) by (auto simp: gate_started_def verify_candidate_before_def split: if_splits option.splits sum.splits)
  then have "px_candidate ex = gi_candidate ivc" "px_expected ex \<noteq> ''''"
    using prepared_executor [OF prepared] by (simp_all add: gate_executor_def)
  moreover have "c = GateExitPass \<longrightarrow> r_result r = ResultPass \<and> proven_run w (gi_suite ivc) ex h"
    using course_result(2) [OF course(2)] course(5) pass_proven [OF course(2)] by simp
  ultimately show ?thesis using course unfolding gate_answer_def by blast
qed

text \<open>C39: The gate answers for what it did. It always ends with one of its documented statuses. A result (pass, fail or blocked)
  is only given after a valid command line, an accepted candidate and a prepared profile, from a run that was neither
  canceled nor in error, with the candidate accepted again afterwards and with published evidence that validates, names this
  candidate and has this result; the only line on standard output is the one with this result and evidence, and without a
  result there is none. The status is the one for pass only if every step of the suite was executed, in order and once
  each, each was confirmed, and the program itself said so: for every step but the QR login, a document of the program
  states the observation of the step for the expected user.\<close>

theorem gate_answers_for_run:
  assumes "gate_execute w opts = (code, tr)"
  shows "gate_exit_valid code \<and>
    (if code \<in> {GateExitPass, GateExitFail, GateExitBlocked} then
       \<exists>ivc vc ex r h b. gate_started w opts ivc vc ex \<and> run_course w ivc vc ex r h b \<and>
         px_candidate ex = gi_candidate ivc \<and> px_expected ex \<noteq> '''' \<and> code = gate_exit_for_result (r_result r) \<and>
         (\<forall>s. GateOut s \<in> set tr \<longrightarrow>
            s = ''ipgw-live-gate: result='' @ result_text (r_result r) @ '' evidence_id='' @ EvidenceID (pb_evidence b)) \<and>
         (code = GateExitPass \<longrightarrow> r_result r = ResultPass \<and> proven_run w (gi_suite ivc) ex h)
     else \<forall>s. GateOut s \<notin> set tr)"
proof -
  obtain res tr0 where main: "gate_main w opts [] = (res, tr0)" by (cases "gate_main w opts []")
  obtain xs e where e0: "tr0 = [] @ xs" "silent xs" "res = Inl e"
      "e \<in> GateStops ` early_exits \<or> (\<exists>c x i. e = GateResult c x i)"
    by (rule gate_wholeD [OF gate_whole_main main])
  then have e: "silent tr0" "res = Inl e" "e \<in> GateStops ` early_exits \<or> (\<exists>c x i. e = GateResult c x i)"
    by simp_all
  have out: "code = gate_status e" "tr = tr0 @ gate_message opts e" using assms main e(2) by (simp_all add: gate_execute_def)
  from e(3) show ?thesis
  proof (elim disjE exE)
    assume "e \<in> GateStops ` early_exits"
    then obtain c where c: "c \<in> early_exits" "e = GateStops c" by blast
    then have "code = c" using out by (simp add: gate_status_def)
    then show ?thesis
      using c(1) silent_no_line [OF e(1)] no_line [OF c(1)] unfolding out(2) c(2)
      by (auto simp: early_exits_def gate_exit_valid_def)
  next
    fix c x i assume result: "e = GateResult c x i"
    obtain ivc ex r h where "gate_answer w opts c x i ivc ex r h"
      using gate_result_answered [OF main [unfolded e(2) result]] by blast
    then obtain vc b where course: "gate_started w opts ivc vc ex" "run_course w ivc vc ex r h b"
        "x = r_result r" "i = EvidenceID (pb_evidence b)" "c = gate_exit_for_result (r_result r)"
        "px_candidate ex = gi_candidate ivc" "px_expected ex \<noteq> ''''"
        "c = GateExitPass \<longrightarrow> r_result r = ResultPass \<and> proven_run w (gi_suite ivc) ex h"
      unfolding gate_answer_def by blast
    have code: "code = c" using out(1) result by (simp add: gate_status_def)
    have line: "\<forall>s. GateOut s \<in> set tr \<longrightarrow>
        s = ''ipgw-live-gate: result='' @ result_text (r_result r) @ '' evidence_id='' @ EvidenceID (pb_evidence b)"
      using silent_no_line [OF e(1)] result_line [of _ opts c x i] unfolding out(2) result course(3,4) by auto
    have final: "code \<in> {GateExitPass, GateExitFail, GateExitBlocked}" using course_result(1) [OF course(2)] code course(5) by simp
    moreover have "gate_exit_valid code" using final by (auto simp: gate_exit_valid_def)
    ultimately show ?thesis using course line code unfolding if_P [OF final] by blast
  qed
qed

text \<open>A terminal QR run that passes: the program answers by the number of steps before it.\<close>

definition demo_doc :: "string \<Rightarrow> string" where
  "demo_doc s = map (\<lambda>c. if c = CHR ''~'' then dquote else c) s"

definition demo_profile_doc :: string where
  "demo_profile_doc = demo_doc
     ''{~schema_version~:1,~command~:~profile.show~,~ok~:true,~data~:{~profile~:{~username~:~20250001~}}}''"

definition demo_offline_doc :: string where
  "demo_offline_doc = demo_doc
     ''{~schema_version~:1,~command~:~status~,~ok~:true,~data~:{~session~:~offline~,~username~:null}}''"

definition demo_logout_doc :: string where
  "demo_logout_doc = demo_doc (''{~schema_version~:1,~command~:~logout~,~ok~:true,~data~:{~outcome~:~logged_out~,'' @
     ''~status~:{~session~:~offline~,~username~:null}}}'')"

definition demo_gate_process :: "nat \<Rightarrow> process_run" where
  "demo_gate_process n path args stdin =
     \<lparr>pa_stdout = (if n = 2 then demo_status_document else if n = 3 then demo_logout_doc else demo_offline_doc),
      pa_exit = 0, pa_failed = False, pa_canceled = False\<rparr>"

definition demo_prepare :: process_run where
  "demo_prepare path args stdin = \<lparr>pa_stdout = demo_profile_doc, pa_exit = 0, pa_failed = False, pa_canceled = False\<rparr>"

definition demo_time :: time where
  "demo_time = \<lparr>t_year = 2026, t_month = 8, t_day = 28, t_hour = 1, t_min = 2, t_sec = 3, t_nano = 0\<rparr>"

definition demo_gate_world :: gate_world where
  "demo_gate_world =
     \<lparr>gt_ctx = (\<lambda>_. False), gt_terminal = (\<lambda>_ _. True), gt_platform = Some PlatformLinuxAMD64,
      gt_files = (\<lambda>_. demo_candidate_env),
      gt_prepare = (\<lambda>_. demo_prepare),
      gt_now = (\<lambda>_. demo_time),
      gt_clock = (\<lambda>_. 0), gt_run_ctx = (\<lambda>_. False), gt_deadline = (\<lambda>_ _. False),
      gt_process = (\<lambda>h. demo_gate_process (length (exec_log h))),
      gt_publish = (\<lambda>_ out ev. Published
        \<lparr>pb_path = path_join [out, CandidateID ev, ''EVID-20260828-001''],
         pb_evidence = ev\<lparr>EvidenceID := ''EVID-20260828-001''\<rparr>\<rparr>)\<rparr>"

definition demo_gate_options :: gate_options where
  "demo_gate_options =
     \<lparr>go_args = [''run'', ''--candidate'', ''/c/ipgw-meta'', ''--candidate-sha256'', demo_sha,
        ''--candidate-manifest'', ''/c/manifest.json'', ''--suite'', ''terminal-qr'', ''--testbed'', ''nas_vm'',
        ''--network'', ''campus_wired'', ''--profile'', ''gate'', ''--output-dir'', ''/b/build/live-evidence''],
      go_stdin = True, go_stdout = True, go_stderr = True, go_tty = True\<rparr>"

definition demo_gate_invocation :: gate_invocation where
  "demo_gate_invocation =
     \<lparr>gi_candidate = ''/c/ipgw-meta'', gi_sha256 = demo_sha, gi_manifest = ''/c/manifest.json'', gi_suite = SuiteTerminalQR,
      gi_testbed = TestbedNASVM, gi_network = NetworkCampusWired, gi_profile = ''gate'',
      gi_output = ''/b/build/live-evidence''\<rparr>"

lemma demo_gate_parsed: "parse_gate_invocation (go_args demo_gate_options) = Some demo_gate_invocation"
  by code_simp

lemma demo_gate_preflight: "valid_gate_preflight demo_gate_invocation PlatformLinuxAMD64"
  by code_simp

lemma demo_gate_prepared:
  "prepare_profile (gate_executor demo_gate_options demo_verified demo_gate_invocation) demo_prepare SuiteTerminalQR =
     (None, demo_executor)"
  by code_simp

definition demo_exec :: "history \<Rightarrow> action \<Rightarrow> observation" where
  "demo_exec h act = process_execute demo_executor (demo_gate_process (length (exec_log h))) act"

definition demo_zero :: "history \<Rightarrow> int" where "demo_zero h = 0"
definition demo_never :: "history \<Rightarrow> bool" where "demo_never h = False"
definition demo_no_deadline :: "int \<Rightarrow> history \<Rightarrow> bool" where "demo_no_deadline t h = False"

definition demo_runner_world :: world where
  "demo_runner_world = \<lparr>w_now = demo_zero, w_ctx = demo_never, w_exec = demo_exec, w_deadline = demo_no_deadline\<rparr>"

lemma demo_runner: "runner_world demo_gate_world demo_executor = demo_runner_world"
  by (simp add: runner_world_def demo_gate_world_def demo_runner_world_def demo_exec_def [abs_def] demo_zero_def [abs_def]
      demo_never_def [abs_def] demo_no_deadline_def [abs_def])

definition demo_gate_run :: "run_result \<times> history" where
  "demo_gate_run = run True \<lparr>executor_set = True, cleanup_timeout = 0\<rparr> demo_runner_world SuiteTerminalQR []"

definition demo_off :: observation where
  "demo_off = zero_observation\<lparr>Session := SessionOffline\<rparr>"

definition demo_out :: observation where
  "demo_out = zero_observation\<lparr>Session := SessionOffline, OutcomeOf := OutcomeLoggedOut\<rparr>"

lemma demo_observed_0: "process_execute demo_executor (demo_gate_process 0) ActionInitialStatus = demo_off"
  by code_simp

lemma demo_observed_1: "process_execute demo_executor (demo_gate_process (Suc 0)) ActionQRLogin = zero_observation"
  by code_simp

lemma demo_observed_2: "process_execute demo_executor (demo_gate_process 2) ActionStatusOnline = demo_online"
  by code_simp

lemma demo_observed_3: "process_execute demo_executor (demo_gate_process 3) ActionLogout = demo_out"
  by code_simp

lemma demo_observed_4: "process_execute demo_executor (demo_gate_process 4) ActionFinalStatus = demo_off"
  by code_simp

lemmas demo_observed = demo_observed_0 demo_observed_1 demo_observed_2 demo_observed_3 demo_observed_4

lemma demo_answers:
  "length (exec_log h) = 0 \<Longrightarrow> demo_exec h ActionInitialStatus = demo_off"
  "length (exec_log h) = 1 \<Longrightarrow> demo_exec h ActionQRLogin = zero_observation"
  "length (exec_log h) = 2 \<Longrightarrow> demo_exec h ActionStatusOnline = demo_online"
  "length (exec_log h) = 3 \<Longrightarrow> demo_exec h ActionLogout = demo_out"
  "length (exec_log h) = 4 \<Longrightarrow> demo_exec h ActionFinalStatus = demo_off"
  using demo_observed by (simp_all add: demo_exec_def)

lemma demo_observe:
  assumes "EvCtx True \<notin> set h" "demo_exec (EvCtx False # EvNow 0 # h) act = obs"
  shows "observe_action demo_runner_world act h =
    ((obs, 0), EvCtx False # EvNow 0 # EvCtx False # EvExec act obs # EvCtx False # EvNow 0 # h)"
  using assms by (simp add: observe_action_def ask_now_def ctx_err_def exec_action_def Let_def demo_runner_world_def
      demo_zero_def demo_never_def elapsed_seconds_def)

lemma demo_ctx: "EvCtx True \<notin> set h \<Longrightarrow> ctx_err demo_runner_world h = (False, EvCtx False # h)"
  by (simp add: ctx_err_def demo_runner_world_def demo_never_def Let_def)

definition passed_step :: "step_name \<Rightarrow> step" where
  "passed_step n = \<lparr>Name = n, StepResult = ResultPass, ExitCode = 0, ErrorCodeOf = None, DurationSeconds = 0\<rparr>"

lemma demo_steps_passed:
  "step_from_observation (mk_spec ActionInitialStatus StepInitialStatusOffline) demo_off 0 = Inr (passed_step StepInitialStatusOffline)"
  "step_from_observation (mk_spec ActionStatusOnline StepStatusOnline) demo_online 0 = Inr (passed_step StepStatusOnline)"
  "step_from_observation (mk_spec ActionLogout StepLogoutLoggedOut) demo_out 0 = Inr (passed_step StepLogoutLoggedOut)"
  "step_from_observation (mk_spec ActionFinalStatus StepFinalStatusOffline) demo_off 0 = Inr (passed_step StepFinalStatusOffline)"
  by code_simp+

lemma demo_plain:
  "\<not> RunnerFault demo_off" "\<not> RunnerFault demo_online" "\<not> RunnerFault demo_out"
  by code_simp+

definition demo_steps :: "step list" where
  "demo_steps = map passed_step [StepInitialStatusOffline, StepQRLoginLoggedIn, StepStatusOnline, StepLogoutLoggedOut,
     StepFinalStatusOffline]"

text \<open>A history without a cancellation and with some number of commands.\<close>

definition demo_at :: "nat \<Rightarrow> history \<Rightarrow> bool" where
  "demo_at n h \<longleftrightarrow> EvCtx True \<notin> set h \<and> length (exec_log h) = n"

lemma demo_primary:
  assumes "demo_at n h" "\<And>h. length (exec_log h) = n \<Longrightarrow> demo_exec h act = obs" "\<not> RunnerFault obs" "act \<noteq> ActionQRLogin"
    "step_from_observation (mk_spec act name) obs 0 = Inr (passed_step name)"
  obtains h' where "demo_at (Suc n) h'"
    "run_primary demo_runner_world SuiteTerminalQR (mk_spec act name # rest) l h =
       run_primary demo_runner_world SuiteTerminalQR rest
         (l\<lparr>l_steps := l_steps l @ [passed_step name], cleanup_owned := cleanup_owned l \<or> act = ActionStatusOnline,
            final_offline := final_offline l \<or> act = ActionFinalStatus\<rparr>) h'"
proof -
  let ?h = "EvCtx False # h"
  let ?h2 = "EvCtx False # EvNow 0 # EvCtx False # EvExec act obs # EvCtx False # EvNow 0 # ?h"
  have h: "EvCtx True \<notin> set h" "EvCtx True \<notin> set ?h" "length (exec_log h) = n" using assms(1) by (simp_all add: demo_at_def)
  have "observe_action demo_runner_world act ?h = ((obs, 0), ?h2)"
    by (rule demo_observe [OF h(2) assms(2)]) (simp add: h(3))
  then have "execute_step demo_runner_world (mk_spec act name) ?h = (Inr (passed_step name), ?h2)"
    using assms(3,5) by (simp add: execute_step_def)
  then have "run_primary demo_runner_world SuiteTerminalQR (mk_spec act name # rest) l h =
       run_primary demo_runner_world SuiteTerminalQR rest
         (l\<lparr>l_steps := l_steps l @ [passed_step name], cleanup_owned := cleanup_owned l \<or> act = ActionStatusOnline,
            final_offline := final_offline l \<or> act = ActionFinalStatus\<rparr>) (EvCtx False # ?h2)"
    using assms(4) h(1) by (simp add: demo_ctx Let_def passed_step_def)
  then show ?thesis by (rule that [rotated]) (simp add: demo_at_def h)
qed

lemma demo_zero_fields:
  "\<not> RunnerFault zero_observation" "ObsExitCode zero_observation = 0" "ObsErrorCode zero_observation = None"
  "Session zero_observation = SessionNone" "OutcomeOf zero_observation = OutcomeNone" "\<not> IdentityMatches zero_observation"
  by (simp_all add: zero_observation_def)

lemma demo_finish:
  "finish_qr_pair demo_online (passed_step StepStatusOnline) 0 =
     PairPassed [passed_step StepQRLoginLoggedIn, passed_step StepStatusOnline]"
  by code_simp

lemma demo_primary_qr:
  assumes "demo_at 1 h"
  obtains h' where "demo_at 3 h'"
    "run_primary demo_runner_world SuiteTerminalQR
       (mk_spec ActionQRLogin StepQRLoginLoggedIn # mk_spec ActionStatusOnline StepStatusOnline # rest) l h =
     run_primary demo_runner_world SuiteTerminalQR rest
         (l\<lparr>l_steps := l_steps l @ [passed_step StepQRLoginLoggedIn, passed_step StepStatusOnline], cleanup_owned := True\<rparr>) h'"
proof -
  let ?seen = "\<lambda>act obs h. EvCtx False # EvNow 0 # EvCtx False # EvExec act obs # EvCtx False # EvNow 0 # h"
  let ?h1 = "EvCtx False # ?seen ActionQRLogin zero_observation (EvCtx False # h)"
  let ?h2 = "EvCtx False # ?seen ActionStatusOnline demo_online ?h1"
  have h: "EvCtx True \<notin> set h" "length (exec_log h) = 1" using assms by (simp_all add: demo_at_def)
  have qr: "observe_action demo_runner_world ActionQRLogin (EvCtx False # h) =
      ((zero_observation, 0), ?seen ActionQRLogin zero_observation (EvCtx False # h))"
    by (rule demo_observe [OF _ demo_answers(2)]) (simp_all add: h)
  have status: "observe_action demo_runner_world ActionStatusOnline ?h1 =
      ((demo_online, 0), ?seen ActionStatusOnline demo_online ?h1)"
    by (rule demo_observe [OF _ demo_answers(3)]) (simp_all add: h)
  have pair: "execute_qr_pair demo_runner_world (EvCtx False # h) =
      (PairPassed [passed_step StepQRLoginLoggedIn, passed_step StepStatusOnline], ?h2)"
    by (simp add: execute_qr_pair_def Let_def qr status demo_ctx h demo_plain status_spec_def demo_steps_passed
        demo_zero_fields demo_finish)
  have "run_primary demo_runner_world SuiteTerminalQR
       (mk_spec ActionQRLogin StepQRLoginLoggedIn # mk_spec ActionStatusOnline StepStatusOnline # rest) l h =
     run_primary demo_runner_world SuiteTerminalQR rest
         (l\<lparr>l_steps := l_steps l @ [passed_step StepQRLoginLoggedIn, passed_step StepStatusOnline], cleanup_owned := True\<rparr>)
         (EvCtx False # ?h2)"
    using pair h(1) by (simp add: demo_ctx Let_def)
  then show ?thesis by (rule that [rotated]) (simp add: demo_at_def h)
qed

lemma demo_gate_ran:
  obtains h where "run True \<lparr>executor_set = True, cleanup_timeout = 0\<rparr> demo_runner_world SuiteTerminalQR [] =
    (\<lparr>r_steps = demo_steps, r_result = ResultPass, r_canceled = False, r_err = None\<rparr>, h)"
proof -
  let ?run = "run_primary demo_runner_world SuiteTerminalQR"
  obtain h1 where h1: "demo_at (Suc 0) h1" "?run terminalQRPrimaryActions init_loop [] =
      ?run (tl terminalQRPrimaryActions) (init_loop\<lparr>l_steps := [passed_step StepInitialStatusOffline]\<rparr>) h1"
    by (rule demo_primary [of 0 "[]" ActionInitialStatus demo_off StepInitialStatusOffline "tl terminalQRPrimaryActions" init_loop])
      (simp_all add: demo_at_def demo_answers demo_plain demo_steps_passed terminalQRPrimaryActions_def init_loop_def)
  obtain h2 where h2: "demo_at 3 h2" "?run (tl terminalQRPrimaryActions) (init_loop\<lparr>l_steps := [passed_step StepInitialStatusOffline]\<rparr>) h1 =
      ?run (drop 3 terminalQRPrimaryActions) (init_loop\<lparr>l_steps := take 3 demo_steps, cleanup_owned := True\<rparr>) h2"
    by (rule demo_primary_qr [of h1 "drop 3 terminalQRPrimaryActions" "init_loop\<lparr>l_steps := [passed_step StepInitialStatusOffline]\<rparr>"])
      (use h1(1) in \<open>simp_all add: terminalQRPrimaryActions_def init_loop_def demo_steps_def\<close>)
  obtain h3 where h3: "demo_at 4 h3" "?run (drop 3 terminalQRPrimaryActions) (init_loop\<lparr>l_steps := take 3 demo_steps, cleanup_owned := True\<rparr>) h2 =
      ?run (drop 4 terminalQRPrimaryActions) (init_loop\<lparr>l_steps := take 4 demo_steps, cleanup_owned := True\<rparr>) h3"
    by (rule demo_primary [of 3 h2 ActionLogout demo_out StepLogoutLoggedOut "drop 4 terminalQRPrimaryActions"
          "init_loop\<lparr>l_steps := take 3 demo_steps, cleanup_owned := True\<rparr>"])
      (use h2(1) in \<open>simp_all add: demo_answers demo_plain demo_steps_passed terminalQRPrimaryActions_def init_loop_def demo_steps_def\<close>)
  obtain h4 where h4: "?run (drop 4 terminalQRPrimaryActions) (init_loop\<lparr>l_steps := take 4 demo_steps, cleanup_owned := True\<rparr>) h3 =
      (init_loop\<lparr>l_steps := demo_steps, cleanup_owned := True, final_offline := True\<rparr>, h4)"
    by (rule demo_primary [of 4 h3 ActionFinalStatus demo_off StepFinalStatusOffline "[]"
          "init_loop\<lparr>l_steps := take 4 demo_steps, cleanup_owned := True\<rparr>"])
      (use h3(1) in \<open>simp_all add: demo_answers demo_plain demo_steps_passed terminalQRPrimaryActions_def init_loop_def demo_steps_def\<close>)
  have "?run terminalQRPrimaryActions init_loop [] = (init_loop\<lparr>l_steps := demo_steps, cleanup_owned := True, final_offline := True\<rparr>, h4)"
    using h1(2) h2(2) h3(2) h4 by simp
  then show ?thesis using that
    by (simp add: run_def primary_actions_def Let_def cleanup_due_def finish_run_def init_loop_def)
qed

definition demo_evidence :: evidence where
  "demo_evidence = build_gate_evidence demo_candidate_binding demo_gate_invocation demo_time demo_time ResultPass demo_steps"

lemma demo_decimals:
  "dec_value ''2026'' = 2026" "dec_value ''08'' = 8" "dec_value ''28'' = 28"
  by (simp_all add: dec_value_def digit_val_def of_char_def)

lemma demo_date: "format_date demo_time = ''20260828''"
proof -
  have digits: "list_all is_digit ''2026''" "list_all is_digit ''08''" "list_all is_digit ''28''" by code_simp+
  have "length ''2026'' = 4" "length ''08'' = 2" "length ''28'' = 2" by simp_all
  then have "nat_dec_pad 4 2026 = ''2026''" "nat_dec_pad 2 8 = ''08''" "nat_dec_pad 2 28 = ''28''"
    using digits [THEN nat_dec_pad_dec_value] unfolding demo_decimals by metis+
  then show ?thesis by (simp add: format_date_def demo_time_def)
qed

lemma demo_time_valid: "valid_time demo_time" "\<not> time_before demo_time demo_time"
  by (simp_all add: valid_time_def valid_date_def days_in_month_def demo_time_def time_before_def)

lemma demo_evidence_id: "validate_evidence_id ''EVID-20260828-001'' demo_time = None"
proof -
  have parts: "match_evidence_id ''EVID-20260828-001'' = Some (''20260828'', ''001'')"
      "slice 0 4 ''20260828'' = ''2026''" "slice 4 2 ''20260828'' = ''08''" "slice 6 2 ''20260828'' = ''28''"
    by code_simp+
  show ?thesis
    by (simp add: validate_evidence_id_def parts demo_decimals demo_date) (simp add: valid_date_def days_in_month_def)
qed

lemma demo_candidate_named: "validate_candidate_id ''v1.0.0-bbbbbbbbbbbb-1.1'' demo_commit = None" "lower_hex 40 demo_commit"
  by code_simp+

lemma demo_sequence: "validate_step_sequence SuiteTerminalQR ResultPass demo_steps = None"
  by code_simp

lemma demo_matrix: "valid_matrix PlatformLinuxAMD64 TestbedNASVM NetworkCampusWired AuthMethodTerminalQR SuiteTerminalQR"
  by code_simp

lemma demo_capabilities:
  "list_all capability_valid terminalQRCapabilitiesBefore" "list_all capability_valid terminalQRCapabilitiesAfter"
  by code_simp+

lemma demo_evidence_valid: "evidence_validate (demo_evidence\<lparr>EvidenceID := ''EVID-20260828-001''\<rparr>) = None"
  by (simp add: evidence_validate_def demo_evidence_def build_gate_evidence_def demo_candidate_binding_def
      demo_gate_invocation_def gate_auth_def parse_timestamp_complete demo_time_valid demo_evidence_id demo_paths(3)
      demo_candidate_named demo_matrix demo_sequence validate_capabilities_def demo_capabilities platform_valid_def
      testbed_valid_def network_valid_def auth_method_valid_def suite_valid_def result_valid_def)

lemma demo_evidence_names:
  "ResultOf (demo_evidence\<lparr>EvidenceID := x\<rparr>) = ResultPass"
  "CandidateID (demo_evidence\<lparr>EvidenceID := x\<rparr>) = cb_candidate_id demo_candidate_binding"
  by (simp_all add: demo_evidence_def build_gate_evidence_def)

lemma demo_world_answers:
  "gt_ctx demo_gate_world tr = False" "gt_terminal demo_gate_world tr s" "gt_platform demo_gate_world = Some PlatformLinuxAMD64"
  "gt_files demo_gate_world tr = demo_candidate_env" "gt_prepare demo_gate_world tr = demo_prepare"
  "gt_now demo_gate_world tr = demo_time"
  "gt_publish demo_gate_world tr out ev = Published
     \<lparr>pb_path = path_join [out, CandidateID ev, ''EVID-20260828-001''], pb_evidence = ev\<lparr>EvidenceID := ''EVID-20260828-001''\<rparr>\<rparr>"
  by (simp_all add: demo_gate_world_def)

lemma demo_stop: "GateCtx True \<notin> set tr \<Longrightarrow> stop_if_canceled demo_gate_world tr = (Inr (), tr @ [GateCtx False])"
  by (simp add: stop_if_canceled_def gate_ctx_err_def bindP_def returnP_def demo_world_answers)

lemma demo_after:
  assumes "GateCtx True \<notin> set tr"
  shows "check_after demo_gate_world demo_verified tr = (Inr (), tr @ [CheckedAfter, GateCtx False])"
  using assms by (simp add: check_after_def gate_files_def bindP_def demo_stop returnP_def demo_world_answers demo_verified_after)

lemma demo_published:
  assumes "GateCtx True \<notin> set tr"
  obtains tr' where "publish_evidence demo_gate_world demo_gate_invocation demo_verified demo_time ResultPass demo_evidence tr =
     (Inl (GateResult GateExitPass ResultPass ''EVID-20260828-001''), tr')"
  using assms that
  by (simp add: publish_evidence_def bindP_def demo_stop demo_world_answers throwP_def gate_exit_for_result_def demo_verified_def
      demo_date demo_evidence_valid demo_evidence_names)

lemma demo_gate_run_part:
  assumes "GateCtx True \<notin> set tr"
  obtains tr' where "gate_run demo_gate_world demo_gate_options demo_gate_invocation demo_verified demo_executor tr =
     (Inl (GateResult GateExitPass ResultPass ''EVID-20260828-001''), tr')"
proof -
  obtain h where h: "run True \<lparr>executor_set = True, cleanup_timeout = 0\<rparr> (runner_world demo_gate_world demo_executor) SuiteTerminalQR [] =
    (\<lparr>r_steps = demo_steps, r_result = ResultPass, r_canceled = False, r_err = None\<rparr>, h)"
    using demo_gate_ran demo_runner by auto
  have invocation: "gi_suite demo_gate_invocation = SuiteTerminalQR" "vc_binding demo_verified = demo_candidate_binding"
    by (simp_all add: demo_gate_invocation_def demo_verified_def)
  let ?ran = "Ran \<lparr>r_steps = demo_steps, r_result = ResultPass, r_canceled = False, r_err = None\<rparr> h"
  let ?tr = "tr @ [GateNow, GateCtx False, ?ran, GateCtx False, CheckedAfter, GateCtx False, GateNow, GateCtx False]"
  have ran: "run_gate demo_gate_world demo_executor SuiteTerminalQR t =
      (Inr \<lparr>r_steps = demo_steps, r_result = ResultPass, r_canceled = False, r_err = None\<rparr>, t @ [?ran])" for t
    by (simp add: run_gate_def h)
  have "gate_run demo_gate_world demo_gate_options demo_gate_invocation demo_verified demo_executor tr =
      publish_evidence demo_gate_world demo_gate_invocation demo_verified demo_time ResultPass demo_evidence ?tr"
    using assms
    by (simp add: gate_run_def bindP_def gate_clock_def demo_stop ran demo_after demo_world_answers demo_time_valid invocation
        demo_evidence_def)
  moreover obtain tr' where "publish_evidence demo_gate_world demo_gate_invocation demo_verified demo_time ResultPass demo_evidence ?tr =
     (Inl (GateResult GateExitPass ResultPass ''EVID-20260828-001''), tr')"
    by (rule demo_published [of ?tr]) (use assms in simp)
  ultimately show ?thesis using that by simp
qed

lemma demo_terminal:
  assumes "GateCtx True \<notin> set tr"
  obtains tr' where "valid_terminal_boundary demo_gate_world demo_gate_options SuiteTerminalQR tr = (Inr True, tr')"
    "GateCtx True \<notin> set tr'"
  using assms that
  by (simp add: valid_terminal_boundary_def bindP_def demo_stop demo_gate_options_def ask_terminal_def demo_world_answers returnP_def)

lemma demo_gate_executed:
  obtains tr where "gate_execute demo_gate_world demo_gate_options = (GateExitPass, tr)"
proof -
  have invocation: "gi_suite demo_gate_invocation = SuiteTerminalQR" "gi_candidate demo_gate_invocation = ''/c/ipgw-meta''"
      "gi_manifest demo_gate_invocation = ''/c/manifest.json''" "gi_sha256 demo_gate_invocation = demo_sha"
    by (simp_all add: demo_gate_invocation_def)
  obtain t where t: "valid_terminal_boundary demo_gate_world demo_gate_options SuiteTerminalQR [GateCtx False] = (Inr True, t)"
      "GateCtx True \<notin> set t"
    by (rule demo_terminal [of "[GateCtx False]"]) simp
  let ?t = "t @ [AskedPlatform, GateCtx False, GateCtx False, CheckedBefore, GateCtx False, GateCtx False, PreparedProfile, GateCtx False]"
  obtain tr' where r: "gate_run demo_gate_world demo_gate_options demo_gate_invocation demo_verified demo_executor ?t =
     (Inl (GateResult GateExitPass ResultPass ''EVID-20260828-001''), tr')"
    by (rule demo_gate_run_part [of ?t]) (use t(2) in simp)
  have "gate_main demo_gate_world demo_gate_options [] = (Inl (GateResult GateExitPass ResultPass ''EVID-20260828-001''), tr')"
    using t r
    by (simp add: gate_main_def demo_gate_parsed invocation bindP_def demo_stop gate_log_def modifyP_def demo_world_answers
        demo_gate_preflight gate_files_def demo_verified_before gate_prepare_def prepare_gate_def demo_gate_prepared)
  then show ?thesis using that by (simp add: gate_execute_def gate_status_def)
qed

theorem gate_answers_for_run_witness:
  "fst (gate_execute demo_gate_world demo_gate_options) = GateExitPass \<and>
   (\<exists>(ivc :: gate_invocation) ex h. px_candidate ex = gi_candidate ivc \<and> proven_run demo_gate_world (gi_suite ivc) ex h)"
proof -
  obtain tr where tr: "gate_execute demo_gate_world demo_gate_options = (GateExitPass, tr)" by (rule demo_gate_executed)
  have result: "GateExitPass \<in> {GateExitPass, GateExitFail, GateExitBlocked}" by simp
  from gate_answers_for_run [OF tr, unfolded if_P [OF result]]
  have "\<exists>(ivc :: gate_invocation) ex h. px_candidate ex = gi_candidate ivc \<and> proven_run demo_gate_world (gi_suite ivc) ex h"
    by blast
  then show ?thesis using tr by simp
qed

end
