(* ===== verification/SdkErrors.thy ===== *)
theory SdkErrors
  imports GoStrings
begin

text \<open>
  \<open>errors.go\<close> and the enumerations of \<open>types.go\<close>: the SDK error with its details, the normal form of
  interaction details, the classification of causes (\<open>wrapError\<close>, \<open>contextSentinel\<close>, \<open>CodeOf\<close>).
  A Go error value is a \<open>go_error\<close>; only the distinctions the code makes with \<open>errors.Is\<close> and
  \<open>errors.As\<close> are kept.
\<close>

section \<open>Enumerations\<close>

datatype sdk_code =
    CodeInvalidArgument | CodeConfig | CodeNetwork | CodeAuthentication | CodeSessionConflict
  | CodeProtocolChanged | CodeInteractionRequired | CodeUnsupported | CodeInternal
  | CodeOther string

datatype sdk_method = MethodEmpty | MethodPassword | MethodTerminalQR | MethodOther string

datatype challenge_kind =
    ChallengeSMSOTP | ChallengeDeviceVerification | ChallengeAccountSetup | ChallengeQRApproval
  | ChallengeKindUnknown | ChallengeKindOther string

datatype sdk_capability =
    CapObservedAnonymous | CapSyntheticCovered | CapLiveUnverified | CapLiveVerified
  | CapSupported | CapDetectedOnly | CapUnknown | CapOther string

section \<open>Errors\<close>

record interaction_details =
  d_challenge :: challenge_kind
  d_origin :: sdk_method
  d_capability :: "sdk_capability list"
  d_session :: string
  d_resume :: string
  d_tty :: bool
  d_help :: string

datatype ctx_error = CtxCanceled | CtxDeadlineExceeded

record sdk_error =
  e_code :: sdk_code
  e_message :: string
  e_retryable :: bool
  e_interaction :: "interaction_details option"
  e_expected_user :: string
  e_actual_user :: string
  e_protocol_part :: string
  e_cause :: "ctx_error option"

text \<open>
  A context error, the private \<open>errRedirectRejected\<close>, \<open>transport.ErrResponseTooLarge\<close>, an SDK error,
  or any other error; in place of wrapping, the context or redirect error an error wraps.
\<close>

datatype go_error =
  ErrCtx ctx_error | ErrRedirect | ErrResponseTooLarge | ErrOther | ErrSdk sdk_error

definition context_sentinel :: "go_error \<Rightarrow> ctx_error option" where
  "context_sentinel e =
     (case e of ErrCtx c \<Rightarrow> Some c | ErrSdk s \<Rightarrow> e_cause s | _ \<Rightarrow> None)"

definition is_redirect_rejected :: "go_error \<Rightarrow> bool" where
  "is_redirect_rejected e \<longleftrightarrow> e = ErrRedirect"

definition is_context_error :: "go_error \<Rightarrow> bool" where
  "is_context_error e \<longleftrightarrow> context_sentinel e \<noteq> None"

definition new_error :: "sdk_code \<Rightarrow> string \<Rightarrow> bool \<Rightarrow> go_error option \<Rightarrow> sdk_error" where
  "new_error code message retryable cause =
     \<lparr>e_code = code, e_message = message, e_retryable = retryable, e_interaction = None,
      e_expected_user = '''', e_actual_user = '''', e_protocol_part = '''',
      e_cause = (case cause of None \<Rightarrow> None | Some c \<Rightarrow> context_sentinel c)\<rparr>"

definition wrap_error :: "sdk_code \<Rightarrow> string \<Rightarrow> bool \<Rightarrow> go_error option \<Rightarrow> go_error" where
  "wrap_error code message retryable cause =
     (case cause of None \<Rightarrow> ErrSdk (new_error code message retryable None)
      | Some e \<Rightarrow>
          (case context_sentinel e of
             Some c \<Rightarrow> ErrSdk (new_error CodeNetwork message True (Some (ErrCtx c)))
           | None \<Rightarrow>
               if is_redirect_rejected e then
                 ErrSdk (new_error CodeProtocolChanged ''gateway attempted an unexpected redirect'' False None)
               else ErrSdk (new_error code message retryable None)))"

text \<open>\<open>CodeOf\<close>; the code of a nil error is the empty string.\<close>

definition code_of :: "go_error option \<Rightarrow> sdk_code" where
  "code_of err =
     (case err of None \<Rightarrow> CodeOther ''''
      | Some e \<Rightarrow>
          if is_redirect_rejected e then CodeProtocolChanged
          else if is_context_error e then CodeNetwork
          else (case e of ErrSdk s \<Rightarrow> e_code s | _ \<Rightarrow> CodeInternal))"

section \<open>Interaction details\<close>

definition interactionSessionCASSession :: string where "interactionSessionCASSession = ''cas_session''"
definition interactionResumeRetryInTTY :: string where "interactionResumeRetryInTTY = ''retry_in_tty''"
definition interactionResumeRestart :: string where "interactionResumeRestart = ''restart''"
definition interactionResumeOfficialSite :: string where "interactionResumeOfficialSite = ''official_portal''"
definition interactionHelpQR :: string where "interactionHelpQR = ''AUTH-QR-001''"
definition interactionHelpChallenge :: string where "interactionHelpChallenge = ''AUTH-CHALLENGE-001''"
definition interactionHelpSMS :: string where "interactionHelpSMS = ''AUTH-SMS-001''"

definition is_interaction_auth_method :: "sdk_method \<Rightarrow> bool" where
  "is_interaction_auth_method m \<longleftrightarrow> m = MethodPassword \<or> m = MethodTerminalQR"

definition is_interaction_challenge :: "challenge_kind \<Rightarrow> bool" where
  "is_interaction_challenge c = (case c of ChallengeKindOther _ \<Rightarrow> False | _ \<Rightarrow> True)"

definition is_interaction_capability :: "sdk_capability \<Rightarrow> bool" where
  "is_interaction_capability c = (case c of CapOther _ \<Rightarrow> False | _ \<Rightarrow> True)"

definition normalize_interaction_details :: "interaction_details \<Rightarrow> interaction_details" where
  "normalize_interaction_details d =
     d\<lparr>d_origin := (if is_interaction_auth_method (d_origin d) then d_origin d else MethodEmpty),
       d_challenge := (if is_interaction_challenge (d_challenge d) then d_challenge d
                       else ChallengeKindUnknown),
       d_capability := dedup_seen id [] (filter is_interaction_capability (d_capability d)),
       d_session := (if d_session d \<noteq> '''' \<and> d_session d \<noteq> interactionSessionCASSession then ''''
                     else d_session d),
       d_resume := (if d_resume d \<in> {'''', interactionResumeRetryInTTY, interactionResumeRestart,
                                      interactionResumeOfficialSite}
                    then d_resume d else ''''),
       d_help := (if d_help d \<in> {'''', interactionHelpQR, interactionHelpChallenge, interactionHelpSMS}
                  then d_help d else '''')\<rparr>"

definition interaction_error :: "sdk_method \<Rightarrow> interaction_details \<Rightarrow> string \<Rightarrow> sdk_error" where
  "interaction_error method details message =
     (new_error CodeInteractionRequired message False None)
       \<lparr>e_interaction := Some (normalize_interaction_details (details\<lparr>d_origin := method\<rparr>))\<rparr>"

text \<open>The closed vocabulary the details of a reported error are drawn from.\<close>

definition details_closed :: "interaction_details \<Rightarrow> bool" where
  "details_closed d \<longleftrightarrow>
     d_origin d \<in> {MethodEmpty, MethodPassword, MethodTerminalQR} \<and>
     is_interaction_challenge (d_challenge d) \<and>
     list_all is_interaction_capability (d_capability d) \<and> distinct (d_capability d) \<and>
     d_session d \<in> {'''', interactionSessionCASSession} \<and>
     d_resume d \<in> {'''', interactionResumeRetryInTTY, interactionResumeRestart, interactionResumeOfficialSite} \<and>
     d_help d \<in> {'''', interactionHelpQR, interactionHelpChallenge, interactionHelpSMS}"

lemma normalize_closed: "details_closed (normalize_interaction_details d)"
proof -
  let ?cs = "filter is_interaction_capability (d_capability d)"
  have "list_all is_interaction_capability (dedup_seen id [] ?cs)"
    using dedup_seen_subset [of id "[]" ?cs] by (auto simp: list_all_iff)
  moreover have "distinct (dedup_seen id [] ?cs)" using dedup_seen_distinct [of id "[]" ?cs] by simp
  ultimately show ?thesis
    by (auto simp: details_closed_def normalize_interaction_details_def is_interaction_auth_method_def
        is_interaction_challenge_def)
qed

lemma normalize_id: "details_closed d \<Longrightarrow> normalize_interaction_details d = d"
proof -
  assume c: "details_closed d"
  then have "filter is_interaction_capability (d_capability d) = d_capability d"
    by (auto simp: details_closed_def list_all_iff filter_id_conv)
  moreover have "dedup_seen id [] (d_capability d) = d_capability d"
    using c by (intro dedup_seen_id) (auto simp: details_closed_def)
  ultimately show ?thesis
    using c by (auto simp: details_closed_def normalize_interaction_details_def is_interaction_auth_method_def)
qed

text \<open>C14: interaction details never carry free text out of the SDK: normalizing yields details whose
  every field is one of the fixed identifiers of the package, with capabilities not repeated, it
  leaves such details unchanged, and it never adds a capability.\<close>

theorem normalize_details_canonical:
  "details_closed (normalize_interaction_details d) \<and>
   (normalize_interaction_details d = d \<longleftrightarrow> details_closed d) \<and>
   set (d_capability (normalize_interaction_details d)) \<subseteq> set (d_capability d)"
proof -
  have "set (d_capability (normalize_interaction_details d)) \<subseteq> set (d_capability d)"
    using dedup_seen_subset [of id "[]" "filter is_interaction_capability (d_capability d)"]
    by (auto simp: normalize_interaction_details_def)
  then show ?thesis using normalize_closed normalize_id by metis
qed

section \<open>Classification\<close>

definition public_code :: "sdk_code \<Rightarrow> bool" where
  "public_code c = (case c of CodeOther _ \<Rightarrow> False | _ \<Rightarrow> True)"

lemma code_of_wrap:
  "code_of (Some (wrap_error code message retryable cause)) =
     (case cause of None \<Rightarrow> code
      | Some e \<Rightarrow> if is_context_error e then CodeNetwork
                  else if is_redirect_rejected e then CodeProtocolChanged else code)"
  by (auto simp: wrap_error_def code_of_def new_error_def is_redirect_rejected_def is_context_error_def
      context_sentinel_def split: option.splits go_error.splits)

lemma wrap_error_sdk: "\<exists>s. wrap_error code message retryable cause = ErrSdk s"
  by (auto simp: wrap_error_def split: option.splits)

end
