(* ===== verification/CliArgs.thy ===== *)
theory CliArgs
  imports SdkErrors ConfigTypes "HOL-Library.AList"
begin

text \<open>
  The command lines of \<open>internal/cli\<close>: the global flags and the early look for the output mode
  (\<open>run.go\<close>), the arguments of a login in both programs, of a migration and of a new profile
  (\<open>commands.go\<close>, \<open>profiles.go\<close>).  What a rejected command line prints does not depend on the reason,
  so a parser returns an option.
\<close>

section \<open>Flags\<close>

datatype output_mode = OutputHuman | OutputJSON

record global_options =
  g_output :: output_mode
  g_config :: string
  g_profile :: string
  g_bind :: string
  g_version :: bool

definition no_globals :: global_options where
  "no_globals = \<lparr>g_output = OutputHuman, g_config = '''', g_profile = '''', g_bind = '''', g_version = False\<rparr>"

text \<open>\<open>splitLongFlag\<close>: name, value and whether there is a value after an equals sign.\<close>

definition split_long_flag :: "string \<Rightarrow> string \<times> string \<times> bool" where
  "split_long_flag arg =
     (case cut_char (CHR ''='') arg of (before, after, found) \<Rightarrow>
        if has_prefix arg ''--'' \<and> found \<and> 2 < length before then (before, after, True) else (arg, '''', False))"

definition is_password_argument :: "string \<Rightarrow> bool" where
  "is_password_argument arg \<longleftrightarrow>
     arg = ''--password'' \<or> has_prefix arg ''--password='' \<or> arg = ''-p'' \<or> has_prefix arg ''-p'' \<and> 2 < length arg"

definition has_password_argument :: "string list \<Rightarrow> bool" where
  "has_password_argument args \<longleftrightarrow> list_ex is_password_argument args"

text \<open>\<open>preparseOutputMode\<close>.\<close>

fun preparse_output_mode :: "string list \<Rightarrow> output_mode" where
  "preparse_output_mode [] = OutputHuman"
| "preparse_output_mode (arg # rest) =
     (if arg = ''--'' then OutputHuman
      else if arg = ''--json'' \<or> arg = ''--output=json'' then OutputJSON
      else if arg = ''--output'' \<and> (case rest of [] \<Rightarrow> False | v # _ \<Rightarrow> v = ''json'') then OutputJSON
      else preparse_output_mode rest)"

text \<open>A flag of \<open>extractGlobals\<close> with its value; the second component says that the output mode was given.\<close>

definition value_flags :: "string list" where
  "value_flags = [''--output'', ''--config'', ''--profile'', ''--bind-ip'']"

definition set_global :: "string \<Rightarrow> string \<Rightarrow> global_options \<times> bool \<Rightarrow> (global_options \<times> bool) option" where
  "set_global name v os =
     (case os of (opts, seen) \<Rightarrow>
        if is_password_argument v then None
        else if name = ''--output'' then
          (if v = ''human'' then Some (opts\<lparr>g_output := OutputHuman\<rparr>, True)
           else if v = ''json'' then Some (opts\<lparr>g_output := OutputJSON\<rparr>, True) else None)
        else if name = ''--config'' then Some (opts\<lparr>g_config := v\<rparr>, seen)
        else if name = ''--profile'' then Some (opts\<lparr>g_profile := v\<rparr>, seen)
        else Some (opts\<lparr>g_bind := v\<rparr>, seen))"

fun extract_from :: "global_options \<times> bool \<Rightarrow> string list \<Rightarrow> (global_options \<times> string list) option" where
  "extract_from os [] = Some (fst os, [])"
| "extract_from os (arg # rest) =
     (if arg = ''--'' then Some (fst os, rest)
      else (case split_long_flag arg of (name, value, inline) \<Rightarrow>
        if name = ''--json'' then
          (if inline \<or> snd os then None else extract_from ((fst os)\<lparr>g_output := OutputJSON\<rparr>, True) rest)
        else if name = ''--version'' then
          (if inline \<or> g_version (fst os) then None else extract_from ((fst os)\<lparr>g_version := True\<rparr>, snd os) rest)
        else if name = ''--output'' \<and> snd os then None
        else if name \<notin> set value_flags then map_option (apsnd ((#) arg)) (extract_from os rest)
        else if inline then
          (case set_global name value os of None \<Rightarrow> None | Some os' \<Rightarrow> extract_from os' rest)
        else
          (case rest of [] \<Rightarrow> None
           | v # rest' \<Rightarrow>
               if has_prefix v ''--'' then None
               else (case set_global name v os of None \<Rightarrow> None | Some os' \<Rightarrow> extract_from os' rest'))))"

definition extract_globals :: "string list \<Rightarrow> (global_options \<times> string list) option" where
  "extract_globals args = extract_from (no_globals, False) args"

section \<open>Login\<close>

text \<open>\<open>normalizeMetaLoginArgs\<close> after \<open>--switch\<close> and \<open>--method\<close> were or were not seen.\<close>

definition meta_method :: "string \<Rightarrow> string list option \<Rightarrow> string list option" where
  "meta_method m rest =
     (if m = ''password'' \<or> m = ''qr'' then map_option (\<lambda>more. ''--method'' # m # more) rest else None)"

fun meta_login_from :: "bool \<Rightarrow> bool \<Rightarrow> string list \<Rightarrow> string list option" where
  "meta_login_from sw me [] = Some []"
| "meta_login_from sw me (arg # rest) =
     (if arg = ''--switch'' then
        (if sw then None else map_option ((#) arg) (meta_login_from True me rest))
      else if arg = ''--method'' then
        (if me then None
         else (case rest of [] \<Rightarrow> None
           | m # rest' \<Rightarrow>
               if has_prefix m ''-'' then None else meta_method m (meta_login_from sw True rest')))
      else if has_prefix arg ''--method='' then
        (if me then None else meta_method (trim_prefix arg ''--method='') (meta_login_from sw True rest))
      else None)"

definition normalize_meta_login_args :: "string list \<Rightarrow> string list option" where
  "normalize_meta_login_args args = meta_login_from False False args"

record login_args =
  la_switch :: bool
  la_method :: sdk_method
  la_username :: "string option"
  la_password :: "string option"

definition no_login_args :: login_args where
  "no_login_args = \<lparr>la_switch = False, la_method = MethodPassword, la_username = None, la_password = None\<rparr>"

definition login_method_named :: "string \<Rightarrow> sdk_method option" where
  "login_method_named m =
     (if m = ''password'' then Some MethodPassword
      else if m = ''qr'' \<or> m = ''terminal-qr'' then Some MethodTerminalQR else None)"

definition short_value :: "string \<Rightarrow> string \<Rightarrow> bool" where
  "short_value flag arg \<longleftrightarrow> has_prefix arg flag \<and> \<not> has_prefix arg ''--'' \<and> 2 < length arg"

text \<open>The loop of \<open>runLogin\<close>.\<close>

fun login_args_from :: "bool \<Rightarrow> login_args \<Rightarrow> string list \<Rightarrow> login_args option" where
  "login_args_from legacy a [] = Some a"
| "login_args_from legacy a (arg # rest) =
     (if arg = ''-u'' \<or> arg = ''--username'' then
        (if \<not> legacy then None
         else (case rest of [] \<Rightarrow> None | v # rest' \<Rightarrow> login_args_from legacy (a\<lparr>la_username := Some v\<rparr>) rest'))
      else if has_prefix arg ''--username='' then
        (if \<not> legacy then None
         else login_args_from legacy (a\<lparr>la_username := Some (trim_prefix arg ''--username='')\<rparr>) rest)
      else if legacy \<and> short_value ''-u'' arg then
        login_args_from legacy (a\<lparr>la_username := Some (trim_prefix arg ''-u'')\<rparr>) rest
      else if arg = ''-p'' \<or> arg = ''--password'' then
        (if \<not> legacy then None
         else (case rest of [] \<Rightarrow> None | v # rest' \<Rightarrow> login_args_from legacy (a\<lparr>la_password := Some v\<rparr>) rest'))
      else if has_prefix arg ''--password='' then
        (if \<not> legacy then None
         else login_args_from legacy (a\<lparr>la_password := Some (trim_prefix arg ''--password='')\<rparr>) rest)
      else if legacy \<and> short_value ''-p'' arg then
        login_args_from legacy (a\<lparr>la_password := Some (trim_prefix arg ''-p'')\<rparr>) rest
      else if arg = ''--switch'' then login_args_from legacy (a\<lparr>la_switch := True\<rparr>) rest
      else if arg = ''--method'' \<or> arg = ''--auth'' then
        (case rest of [] \<Rightarrow> None
         | v # rest' \<Rightarrow>
             (case login_method_named v of None \<Rightarrow> None
              | Some m \<Rightarrow> login_args_from legacy (a\<lparr>la_method := m\<rparr>) rest'))
      else None)"

definition parse_login_args :: "bool \<Rightarrow> string list \<Rightarrow> login_args option" where
  "parse_login_args legacy args = login_args_from legacy no_login_args args"

text \<open>\<open>isLegacyTopLevelLoginFlag\<close>.\<close>

definition legacy_login_flag :: "string \<Rightarrow> bool" where
  "legacy_login_flag arg \<longleftrightarrow>
     arg \<in> {''-u'', ''--username'', ''-p'', ''--password''} \<or> short_value ''-u'' arg \<or> short_value ''-p'' arg \<or>
     has_prefix arg ''--username='' \<or> has_prefix arg ''--password=''"

section \<open>Migration\<close>

text \<open>\<open>parseMigrationCredential\<close>.\<close>

definition migration_provider :: "string \<Rightarrow> credential_ref option" where
  "migration_provider decision =
     (if decision = ''keyring'' then Some \<lparr>Provider = ProviderKeyring, Reference = ''''\<rparr>
      else if decision = ''prompt'' then Some \<lparr>Provider = ProviderPrompt, Reference = ''''\<rparr>
      else if has_prefix decision ''env:'' then Some \<lparr>Provider = ProviderEnv, Reference = trim_prefix decision ''env:''\<rparr>
      else if has_prefix decision ''file:'' then Some \<lparr>Provider = ProviderFile, Reference = trim_prefix decision ''file:''\<rparr>
      else None)"

definition parse_migration_credential :: "string \<Rightarrow> (string \<times> credential_ref) option" where
  "parse_migration_credential value =
     (case cut_char (CHR ''='') value of (profile, decision, found) \<Rightarrow>
        if \<not> found \<or> profile = '''' \<or> decision = '''' then None
        else if trim_space profile \<noteq> profile then None
        else (case migration_provider decision of
            None \<Rightarrow> None
          | Some ref \<Rightarrow>
              if Provider ref \<noteq> ProviderKeyring \<and> \<not> credential_ref_valid ref then None
              else if Provider ref = ProviderFile then
                (if path_is_abs (Reference ref) then Some (profile, ref\<lparr>Reference := path_clean (Reference ref)\<rparr>) else None)
              else Some (profile, ref)))"

record migration_arguments =
  ma_yes :: bool
  ma_credentials :: "(string \<times> credential_ref) list"

definition add_mapping :: "migration_arguments \<Rightarrow> string \<Rightarrow> migration_arguments option" where
  "add_mapping a value =
     (case parse_migration_credential value of
        None \<Rightarrow> None
      | Some (profile, ref) \<Rightarrow>
          if map_of (ma_credentials a) profile \<noteq> None then None
          else Some (a\<lparr>ma_credentials := (profile, ref) # ma_credentials a\<rparr>))"

fun migration_args_from :: "migration_arguments \<Rightarrow> string list \<Rightarrow> migration_arguments option" where
  "migration_args_from a [] = Some a"
| "migration_args_from a (arg # rest) =
     (case split_long_flag arg of (name, value, inline) \<Rightarrow>
        if name = ''--yes'' then
          (if inline \<or> ma_yes a then None else migration_args_from (a\<lparr>ma_yes := True\<rparr>) rest)
        else if name = ''--credential'' then
          (if inline then (case add_mapping a value of None \<Rightarrow> None | Some a' \<Rightarrow> migration_args_from a' rest)
           else (case rest of [] \<Rightarrow> None
             | v # rest' \<Rightarrow>
                 if has_prefix v ''--'' then None
                 else (case add_mapping a v of None \<Rightarrow> None | Some a' \<Rightarrow> migration_args_from a' rest')))
        else None)"

definition parse_migration_arguments :: "string list \<Rightarrow> migration_arguments option" where
  "parse_migration_arguments args = migration_args_from \<lparr>ma_yes = False, ma_credentials = []\<rparr> args"

section \<open>Profiles\<close>

definition profile_value_flags :: "string list" where
  "profile_value_flags =
     [''--username'', ''--credential-provider'', ''--credential-ref'', ''--network-bind-ip'', ''--switch'']"

text \<open>The flags of \<open>profileSaveWithPrompt\<close>: whether \<open>--default\<close> was given, and the values.\<close>

fun profile_flags_from ::
    "bool \<Rightarrow> (string \<times> string) list \<Rightarrow> string list \<Rightarrow> (bool \<times> (string \<times> string) list) option" where
  "profile_flags_from df vs [] = Some (df, vs)"
| "profile_flags_from df vs (arg # rest) =
     (if arg = ''--default'' then (if df then None else profile_flags_from True vs rest)
      else if arg \<notin> set profile_value_flags then None
      else if map_of vs arg \<noteq> None then None
      else (case rest of [] \<Rightarrow> None
        | v # rest' \<Rightarrow> if has_prefix v ''--'' then None else profile_flags_from df ((arg, v) # vs) rest'))"

definition flag_value :: "(string \<times> string) list \<Rightarrow> string \<Rightarrow> string" where
  "flag_value vs flag = (case map_of vs flag of None \<Rightarrow> '''' | Some v \<Rightarrow> v)"

definition provider_named :: "string \<Rightarrow> credential_provider" where
  "provider_named s =
     (if s = ''keyring'' then ProviderKeyring else if s = ''env'' then ProviderEnv
      else if s = ''file'' then ProviderFile else if s = ''prompt'' then ProviderPrompt else ProviderOther s)"

definition switch_named :: "string \<Rightarrow> profile_switch" where
  "switch_named s =
     (if s = '''' then SwitchUnset else if s = ''refuse'' then ProfileSwitchRefuse
      else if s = ''logout-current'' then SwitchLogoutCurrent else ProfileSwitchOther s)"

text \<open>The profile they describe; a keyring reference that is missing is made from random bytes.\<close>

definition flagged_profile :: "(string \<times> string) list \<Rightarrow> profile" where
  "flagged_profile vs =
     \<lparr>ProfileUsername = flag_value vs ''--username'',
      ProfileCredential =
        \<lparr>Provider = (if flag_value vs ''--credential-provider'' = '''' then ProviderKeyring
                     else provider_named (flag_value vs ''--credential-provider'')),
         Reference = flag_value vs ''--credential-ref''\<rparr>,
      BindIP = flag_value vs ''--network-bind-ip'',
      ProfileSwitch = (if flag_value vs ''--switch'' = '''' then ProfileSwitchRefuse else switch_named (flag_value vs ''--switch''))\<rparr>"

section \<open>The output mode\<close>

lemma cut_char_full: "cut_char c s = (a, b, True) \<Longrightarrow> s = a @ c # b"
  by (induction s arbitrary: a) (auto split: if_splits prod.splits)

lemma split_long_flag_cases:
  assumes "split_long_flag arg = (name, value, inline)"
  shows "if inline then arg = name @ CHR ''='' # value \<and> 2 < length name else arg = name \<and> value = ''''"
  using assms by (auto simp: split_long_flag_def dest: cut_char_full split: prod.splits if_splits)

lemma split_json: "split_long_flag ''--output=json'' = (''--output'', ''json'', True)"
  by code_simp

lemma split_plain:
  "split_long_flag ''--json'' = (''--json'', '''', False)" "split_long_flag ''--output'' = (''--output'', '''', False)"
  by code_simp+

lemma set_global_output:
  assumes "set_global name v (opts, seen) = Some (opts', seen')" "\<not> seen \<or> name \<noteq> ''--output''"
    "\<not> seen \<longrightarrow> g_output opts = OutputHuman"
  shows "\<not> seen' \<longrightarrow> g_output opts' = OutputHuman"
    "g_output opts' = OutputJSON \<longleftrightarrow> g_output opts = OutputJSON \<or> name = ''--output'' \<and> v = ''json''"
  using assms by (auto simp: set_global_def split: if_splits)

lemma has_prefix_dashes: "has_prefix v ''--'' = False \<Longrightarrow> v \<notin> {''--'', ''--json'', ''--output=json'', ''--output''}"
  by auto

lemma preparse_value: "\<not> has_prefix v ''--'' \<Longrightarrow> preparse_output_mode (v # rest) = preparse_output_mode rest"
  using has_prefix_dashes [of v] by (simp add: preparse_output_mode.simps(2))

declare extract_from.simps(2) [simp del] preparse_output_mode.simps(2) [simp del]

lemma value_flag_names [simp]:
  "''--json'' \<notin> set value_flags" "''--version'' \<notin> set value_flags" "''--'' \<notin> set value_flags"
  "''--output=json'' \<notin> set value_flags" "''--output'' \<in> set value_flags"
  by (simp_all add: value_flags_def)

lemma extract_from_step:
  assumes "extract_from os (arg # rest) = Some r" "split_long_flag arg = (name, val, inline)" "arg \<noteq> ''--''"
  shows "name = ''--json'' \<Longrightarrow> \<not> inline \<and> \<not> snd os \<and> extract_from ((fst os)\<lparr>g_output := OutputJSON\<rparr>, True) rest = Some r"
    and "name = ''--version'' \<Longrightarrow> \<not> inline \<and> extract_from ((fst os)\<lparr>g_version := True\<rparr>, snd os) rest = Some r"
    and "name \<noteq> ''--json'' \<Longrightarrow> name \<noteq> ''--version'' \<Longrightarrow> name \<notin> set value_flags \<Longrightarrow>
      \<exists>rem. extract_from os rest = Some (fst r, rem)"
    and "name \<in> set value_flags \<Longrightarrow>
      (\<not> snd os \<or> name \<noteq> ''--output'') \<and>
      (\<exists>v rest1 os'. set_global name v os = Some os' \<and> extract_from os' rest1 = Some r \<and>
         (if inline then v = val \<and> rest1 = rest else rest = v # rest1 \<and> \<not> has_prefix v ''--''))"
proof -
  have step: "(if name = ''--json'' then
          (if inline \<or> snd os then None else extract_from ((fst os)\<lparr>g_output := OutputJSON\<rparr>, True) rest)
        else if name = ''--version'' then
          (if inline \<or> g_version (fst os) then None else extract_from ((fst os)\<lparr>g_version := True\<rparr>, snd os) rest)
        else if name = ''--output'' \<and> snd os then None
        else if name \<notin> set value_flags then map_option (apsnd ((#) arg)) (extract_from os rest)
        else if inline then
          (case set_global name val os of None \<Rightarrow> None | Some os' \<Rightarrow> extract_from os' rest)
        else
          (case rest of [] \<Rightarrow> None
           | v # rest' \<Rightarrow>
               if has_prefix v ''--'' then None
               else (case set_global name v os of None \<Rightarrow> None | Some os' \<Rightarrow> extract_from os' rest'))) = Some r"
    using assms(1) unfolding extract_from.simps(2) assms(2) by (simp only: assms(3) if_False prod.case)
  show "name = ''--json'' \<Longrightarrow> \<not> inline \<and> \<not> snd os \<and> extract_from ((fst os)\<lparr>g_output := OutputJSON\<rparr>, True) rest = Some r"
    "name = ''--version'' \<Longrightarrow> \<not> inline \<and> extract_from ((fst os)\<lparr>g_version := True\<rparr>, snd os) rest = Some r"
    using step by (simp_all split: if_splits)
  show "name \<noteq> ''--json'' \<Longrightarrow> name \<noteq> ''--version'' \<Longrightarrow> name \<notin> set value_flags \<Longrightarrow>
      \<exists>rem. extract_from os rest = Some (fst r, rem)"
    using step by (cases "extract_from os rest"; cases r) (auto split: if_splits)
  assume n: "name \<in> set value_flags"
  then have other: "name \<noteq> ''--json''" "name \<noteq> ''--version''" by auto
  have out: "\<not> snd os \<or> name \<noteq> ''--output''" (is ?thesis)
  proof (rule ccontr)
    assume "\<not> ?thesis"
    then have "name = ''--output''" "snd os" by simp_all
    with step other show False by simp
  qed
  show "(\<not> snd os \<or> name \<noteq> ''--output'') \<and>
      (\<exists>v rest1 os'. set_global name v os = Some os' \<and> extract_from os' rest1 = Some r \<and>
         (if inline then v = val \<and> rest1 = rest else rest = v # rest1 \<and> \<not> has_prefix v ''--''))"
  proof (cases inline)
    case True
    with step n other out obtain os' where "set_global name val os = Some os'" "extract_from os' rest = Some r"
      by (cases "set_global name val os") auto
    then show ?thesis using True out by (intro conjI exI [of _ val] exI [of _ rest] exI [of _ os']) simp_all
  next
    case False
    with step n other out have tail: "(case rest of [] \<Rightarrow> None
           | v # rest' \<Rightarrow>
               if has_prefix v ''--'' then None
               else (case set_global name v os of None \<Rightarrow> None | Some os' \<Rightarrow> extract_from os' rest')) = Some r"
      by auto
    then obtain v rest1 where v: "rest = v # rest1" by (cases rest) simp_all
    with tail have "\<not> has_prefix v ''--''" by (cases "has_prefix v ''--''") simp_all
    moreover from this tail v obtain os' where "set_global name v os = Some os'" "extract_from os' rest1 = Some r"
      by (cases "set_global name v os") simp_all
    ultimately show ?thesis
      using False out v by (intro conjI exI [of _ v] exI [of _ rest1] exI [of _ os']) simp_all
  qed
qed

lemma preparse_step:
  assumes "split_long_flag arg = (name, val, inline)" "arg \<noteq> ''--''"
  shows "name = ''--json'' \<Longrightarrow> \<not> inline \<Longrightarrow> preparse_output_mode (arg # rest) = OutputJSON"
    and "name \<noteq> ''--json'' \<Longrightarrow> name \<noteq> ''--output'' \<Longrightarrow> preparse_output_mode (arg # rest) = preparse_output_mode rest"
    and "name = ''--output'' \<Longrightarrow> inline \<Longrightarrow>
      preparse_output_mode (arg # rest) = (if val = ''json'' then OutputJSON else preparse_output_mode rest)"
    and "name = ''--output'' \<Longrightarrow> \<not> inline \<Longrightarrow> rest = v # rest1 \<Longrightarrow> \<not> has_prefix v ''--'' \<Longrightarrow>
      preparse_output_mode (arg # rest) = (if v = ''json'' then OutputJSON else preparse_output_mode rest1)"
proof -
  note shape = split_long_flag_cases [OF assms(1)]
  show "name = ''--json'' \<Longrightarrow> \<not> inline \<Longrightarrow> preparse_output_mode (arg # rest) = OutputJSON"
    using shape by (simp add: preparse_output_mode.simps(2))
  have full: "arg = ''--output=json'' \<longleftrightarrow> name = ''--output'' \<and> inline \<and> val = ''json''"
    using shape assms(1) split_json by auto
  have json: "arg = ''--json'' \<longleftrightarrow> name = ''--json'' \<and> \<not> inline" "arg = ''--output'' \<longleftrightarrow> name = ''--output'' \<and> \<not> inline"
    using shape assms(1) split_plain by (cases inline; auto)+
  show "name \<noteq> ''--json'' \<Longrightarrow> name \<noteq> ''--output'' \<Longrightarrow> preparse_output_mode (arg # rest) = preparse_output_mode rest"
    using full json assms(2) by (simp add: preparse_output_mode.simps(2))
  show "name = ''--output'' \<Longrightarrow> inline \<Longrightarrow>
      preparse_output_mode (arg # rest) = (if val = ''json'' then OutputJSON else preparse_output_mode rest)"
    using full json assms(2) by (simp add: preparse_output_mode.simps(2))
  assume n: "name = ''--output''" "\<not> inline" "rest = v # rest1" "\<not> has_prefix v ''--''"
  then have "arg = ''--output''" using json by simp
  then have "preparse_output_mode (arg # rest) = (if v = ''json'' then OutputJSON else preparse_output_mode rest)"
    by (simp add: n(3) preparse_output_mode.simps(2))
  then show "preparse_output_mode (arg # rest) = (if v = ''json'' then OutputJSON else preparse_output_mode rest1)"
    using preparse_value [OF n(4)] n(3) by simp
qed

lemma extract_output_mode:
  assumes "extract_from os args = Some (opts', rest')" "\<not> snd os \<longrightarrow> g_output (fst os) = OutputHuman"
  shows "g_output opts' = OutputJSON \<longleftrightarrow> g_output (fst os) = OutputJSON \<or> preparse_output_mode args = OutputJSON"
  using assms
proof (induction args arbitrary: os rest' rule: length_induct)
  case (1 args)
  show ?case
  proof (cases args)
    case Nil
    then show ?thesis using 1(2) by simp
  next
    case (Cons arg rest)
    note IH = 1(1) [rule_format, unfolded Cons]
    note run = 1(2) [unfolded Cons]
    obtain name val inline where sp: "split_long_flag arg = (name, val, inline)"
      by (metis prod_cases3)
    show ?thesis
    proof (cases "arg = ''--''")
      case True
      then show ?thesis using run by (simp add: Cons extract_from.simps(2) preparse_output_mode.simps(2))
    next
      case False
      note step = extract_from_step [OF run sp False] and pre = preparse_step [OF sp False]
      consider "name = ''--json''" | "name \<noteq> ''--json''" "name \<notin> set value_flags" | "name \<in> set value_flags" by blast
      then show ?thesis
      proof cases
        case 1
        then show ?thesis
          using IH [of rest "((fst os)\<lparr>g_output := OutputJSON\<rparr>, True)"] step(1) pre(1) by (simp add: Cons)
      next
        case 2
        then have "name \<noteq> ''--output''" by auto
        then have p: "preparse_output_mode args = preparse_output_mode rest" using pre(2) 2(1) by (simp add: Cons)
        show ?thesis
        proof (cases "name = ''--version''")
          case True
          then show ?thesis
            using step(2) 1(3) IH [of rest "((fst os)\<lparr>g_version := True\<rparr>, snd os)" rest'] p by simp
        next
          case False
          then obtain rem where "extract_from os rest = Some (opts', rem)" using step(3) 2 by auto
          then show ?thesis using IH [of rest os rem] 1(3) p by simp
        qed
      next
        case 3
        then obtain v rest1 os' where v: "set_global name v os = Some os'" "extract_from os' rest1 = Some (opts', rest')"
            "\<not> snd os \<or> name \<noteq> ''--output''"
            "if inline then v = val \<and> rest1 = rest else rest = v # rest1 \<and> \<not> has_prefix v ''--''"
          using step(4) by blast
        have out: "\<not> snd os' \<longrightarrow> g_output (fst os') = OutputHuman"
          "g_output (fst os') = OutputJSON \<longleftrightarrow> g_output (fst os) = OutputJSON \<or> name = ''--output'' \<and> v = ''json''"
          using set_global_output [of name v "fst os" "snd os" "fst os'" "snd os'"] v(1,3) 1(3) by simp_all
        have "preparse_output_mode args = (if name = ''--output'' \<and> v = ''json'' then OutputJSON else preparse_output_mode rest1)"
        proof (cases "name = ''--output''")
          case True
          show ?thesis
          proof (cases inline)
            case inl: True
            with v(4) have "v = val" "rest1 = rest" by simp_all
            then show ?thesis using pre(3) [OF True inl, of rest] True by (simp only: Cons simp_thms)
          next
            case False
            with v(4) have "rest = v # rest1" "\<not> has_prefix v ''--''" by simp_all
            then show ?thesis using pre(4) [OF True False] True by (simp only: Cons simp_thms)
          qed
        next
          case other: False
          have "name \<noteq> ''--json''" using 3 by auto
          then have "preparse_output_mode args = preparse_output_mode rest" unfolding Cons by (rule pre(2) [OF _ other])
          moreover have "preparse_output_mode rest = preparse_output_mode rest1"
            using preparse_value [of v rest1] v(4) by (cases inline) simp_all
          ultimately show ?thesis by (simp only: other simp_thms if_False)
        qed
        moreover have "length rest1 < length args" using v(4) by (auto simp: Cons split: if_splits)
        moreover from this have "g_output opts' = OutputJSON \<longleftrightarrow> g_output (fst os') = OutputJSON \<or> preparse_output_mode rest1 = OutputJSON"
          using 1(1) v(2) out(1) by blast
        ultimately show ?thesis
          unfolding out(2) by (cases "name = ''--output'' \<and> v = ''json''") (simp_all only: if_True if_False simp_thms)
      qed
    qed
  qed
qed

text \<open>C29: The early look for the output mode, which decides how a failure to read the command line or to start is
  printed, agrees with the flags: whenever the global flags are accepted it finds exactly the mode they
  ask for.\<close>

theorem preparse_agrees:
  assumes "extract_globals args = Some (opts, rest)"
  shows "preparse_output_mode args = g_output opts"
proof -
  have "g_output opts = OutputJSON \<longleftrightarrow> preparse_output_mode args = OutputJSON"
    using extract_output_mode [OF assms [unfolded extract_globals_def]] by (simp add: no_globals_def)
  then show ?thesis by (metis output_mode.exhaust)
qed

theorem preparse_agrees_witness:
  "extract_globals [''--profile'', ''lab'', ''login'', ''--output'', ''json''] =
     Some (no_globals\<lparr>g_output := OutputJSON, g_profile := ''lab''\<rparr>, [''login'']) \<and>
   preparse_output_mode [''--profile'', ''lab'', ''login'', ''--output'', ''json''] = OutputJSON"
proof -
  have "extract_globals [''--profile'', ''lab'', ''login'', ''--output'', ''json''] =
     Some (no_globals\<lparr>g_output := OutputJSON, g_profile := ''lab''\<rparr>, [''login''])"
    by code_simp
  from preparse_agrees [OF this] this show ?thesis by (simp add: no_globals_def)
qed

end
