(* ===== verification/GoUrl.thy ===== *)
theory GoUrl
  imports GoJson
begin

text \<open>
  The parts of \<open>net/url\<close> the session uses: the components of a parsed URL, host name and port, the
  escaping of query components, \<open>ParseQuery\<close> and \<open>Values.Encode\<close>.  A path is kept in its escaped
  form.  The lemmas give the round trips of escaping and of whole queries.
\<close>

record url =
  u_scheme :: string
  u_opaque :: string
  u_user :: bool
  u_host :: string
  u_path :: string
  u_raw_query :: string
  u_force_query :: bool
  u_fragment :: string

section \<open>Host and port\<close>

definition fold_seqs :: "(string \<times> char) list" where
  "fold_seqs = [([CHR 0xE2, CHR 0x84, CHR 0xAA], CHR ''k''), ([CHR 0xC5, CHR 0xBF], CHR ''s'')]"

definition lower_char :: "char \<Rightarrow> char" where
  "lower_char c = (if is_upper c then char_of (byte c + 32) else c)"

text \<open>
  The canonical form under which \<open>strings.EqualFold\<close> compares a string with an ASCII one: upper-case
  letters, the Kelvin sign and the long s fold to ASCII letters, nothing else does.
\<close>

function fold_ascii :: "string \<Rightarrow> string" where
  "fold_ascii [] = []"
| "fold_ascii (c # cs) =
     (case find (\<lambda>p. has_prefix (c # cs) (fst p) \<and> fst p \<noteq> []) fold_seqs of
        Some p \<Rightarrow> snd p # fold_ascii (drop (length (fst p)) (c # cs))
      | None \<Rightarrow> lower_char c # fold_ascii cs)"
  by pat_completeness auto
termination
  by (relation "measure length") (auto dest!: find_Some_set)

definition equal_fold :: "string \<Rightarrow> string \<Rightarrow> bool" where
  "equal_fold a b \<longleftrightarrow> fold_ascii a = fold_ascii b"

lemma equal_fold_refl [simp]: "equal_fold s s"
  by (simp add: equal_fold_def)

definition valid_optional_port :: "string \<Rightarrow> bool" where
  "valid_optional_port s = (case s of [] \<Rightarrow> True | c # cs \<Rightarrow> c = CHR '':'' \<and> list_all is_digit cs)"

text \<open>The text from the last colon on, the text before it.\<close>

definition split_last_colon :: "string \<Rightarrow> string \<times> string" where
  "split_last_colon h =
     (let r = takeWhile (\<lambda>c. c \<noteq> CHR '':'') (rev h) in
      if length r = length h then (h, '''')
      else (take (length h - length r - 1) h, CHR '':'' # rev r))"

definition split_host_port :: "string \<Rightarrow> string \<times> string" where
  "split_host_port h =
     (let (a, b) = split_last_colon h;
          (host, port) = (if b \<noteq> '''' \<and> valid_optional_port b then (a, drop 1 b) else (h, ''''))
      in (if has_prefix host ''['' \<and> has_suffix host '']'' then take (length host - 2) (drop 1 host)
          else host, port))"

definition url_hostname :: "url \<Rightarrow> string" where
  "url_hostname u = fst (split_host_port (u_host u))"

definition url_port :: "url \<Rightarrow> string" where
  "url_port u = snd (split_host_port (u_host u))"

section \<open>Escaping\<close>

definition hex_digit :: "nat \<Rightarrow> char" where
  "hex_digit n = (if n < 10 then char_of (48 + n) else char_of (55 + n))"

definition percent :: "char \<Rightarrow> string" where
  "percent c = [CHR ''%'', hex_digit (byte c div 16), hex_digit (byte c mod 16)]"

definition unreserved :: "char \<Rightarrow> bool" where
  "unreserved c \<longleftrightarrow> is_upper c \<or> is_lower c \<or> is_digit c \<or> c \<in> set ''-_.~''"

definition escape_byte :: "char \<Rightarrow> string" where
  "escape_byte c =
     (if unreserved c then [c] else if c = CHR '' '' then ''+'' else percent c)"

definition query_escape :: "string \<Rightarrow> string" where
  "query_escape s = concat (map escape_byte s)"

definition hex_pair :: "char \<Rightarrow> char \<Rightarrow> char option" where
  "hex_pair a b =
     (case (hex_val a, hex_val b) of
        (Some x, Some y) \<Rightarrow> Some (char_of (16 * x + y)) | _ \<Rightarrow> None)"

text \<open>\<open>unescape\<close>; in a query component a plus sign is a space.\<close>

fun unescape :: "bool \<Rightarrow> string \<Rightarrow> string option" where
  "unescape q [] = Some []"
| "unescape q (c # cs) =
     (if c = CHR ''%'' then
        (case cs of a # b # r \<Rightarrow>
           (case hex_pair a b of None \<Rightarrow> None
            | Some d \<Rightarrow> map_option ((#) d) (unescape q r))
         | _ \<Rightarrow> None)
      else map_option ((#) (if q \<and> c = CHR ''+'' then CHR '' '' else c)) (unescape q cs))"

definition query_unescape :: "string \<Rightarrow> string option" where
  "query_unescape = unescape True"

definition path_unescape :: "string \<Rightarrow> string option" where
  "path_unescape = unescape False"

lemma hex_val_hex_digit: "n < 16 \<Longrightarrow> hex_val (hex_digit n) = Some n"
  by (simp add: hex_val_def hex_digit_def is_digit_def in_range_def of_char_of take_bit_eq_mod)

lemma byte_div_16: "byte c div 16 < 16"
  using byte_less [of c] by (rule less_mult_imp_div_less [of _ 16 16, simplified])

lemma hex_pair_percent: "hex_pair (hex_digit (byte c div 16)) (hex_digit (byte c mod 16)) = Some c"
  using hex_val_hex_digit [OF byte_div_16, of c] hex_val_hex_digit [of "byte c mod 16"]
  by (simp add: hex_pair_def)

lemma unreserved_plain: "unreserved c \<Longrightarrow> c \<noteq> CHR ''%'' \<and> c \<noteq> CHR ''+''"
  by (auto simp: unreserved_def is_upper_def is_lower_def is_digit_def in_range_def)

lemma unescape_escape_byte: "unescape True (escape_byte c @ s) = map_option ((#) c) (unescape True s)"
proof (cases "unreserved c")
  case True
  then show ?thesis using unreserved_plain [OF True] by (simp add: escape_byte_def)
next
  case False
  then show ?thesis by (simp add: escape_byte_def percent_def hex_pair_percent)
qed

lemma query_unescape_escape: "query_unescape (query_escape s) = Some s"
  by (induction s) (simp_all add: query_escape_def query_unescape_def unescape_escape_byte)

section \<open>Queries\<close>

type_synonym url_values = "(string \<times> string) list"

definition values_of :: "url_values \<Rightarrow> string \<Rightarrow> string list" where
  "values_of q k = map snd (filter (\<lambda>p. fst p = k) q)"

definition get_value :: "url_values \<Rightarrow> string \<Rightarrow> string" where
  "get_value q k = (case values_of q k of [] \<Rightarrow> '''' | v # _ \<Rightarrow> v)"

definition value_keys :: "url_values \<Rightarrow> string list" where
  "value_keys q = remdups (map fst q)"

text \<open>One \<open>key=value\<close> piece; an empty piece is skipped, a malformed one is an error.\<close>

definition parse_pair :: "string \<Rightarrow> (string \<times> string) option" where
  "parse_pair s =
     (if CHR '';'' \<in> set s then None
      else (case cut_char (CHR ''='') s of (k, v, _) \<Rightarrow>
              (case (query_unescape k, query_unescape v) of
                 (Some k', Some v') \<Rightarrow> Some (k', v') | _ \<Rightarrow> None)))"

definition query_pieces :: "string \<Rightarrow> string list" where
  "query_pieces s = filter (\<lambda>p. p \<noteq> '''') (split_char (CHR ''&'') s)"

text \<open>\<open>ParseQuery\<close> also returns what it could read; \<open>URL.Query\<close> keeps that and drops the error.\<close>

definition query_values :: "string \<Rightarrow> url_values" where
  "query_values s = List.map_filter parse_pair (query_pieces s)"

definition parse_query :: "string \<Rightarrow> url_values option" where
  "parse_query s =
     (if list_all (\<lambda>p. parse_pair p \<noteq> None) (query_pieces s) then Some (query_values s) else None)"

definition encode_pair :: "string \<times> string \<Rightarrow> string" where
  "encode_pair kv = query_escape (fst kv) @ ''='' @ query_escape (snd kv)"

text \<open>\<open>Values.Set\<close> and \<open>Values.Encode\<close>, which orders by key.\<close>

definition set_value :: "url_values \<Rightarrow> string \<Rightarrow> string \<Rightarrow> url_values" where
  "set_value q k v = filter (\<lambda>p. fst p \<noteq> k) q @ [(k, v)]"

definition encode_values :: "url_values \<Rightarrow> string" where
  "encode_values q = join_str ''&'' (map encode_pair (sort_key fst q))"

lemma escaped_chars: "c \<in> set (query_escape s) \<Longrightarrow> unreserved c \<or> c = CHR ''+'' \<or> c = CHR ''%''"
proof -
  have "unreserved (hex_digit n)" if "n < 16" for n
    using that by (auto simp: unreserved_def hex_digit_def is_digit_def is_upper_def in_range_def
        of_char_of take_bit_eq_mod)
  then show "c \<in> set (query_escape s) \<Longrightarrow> unreserved c \<or> c = CHR ''+'' \<or> c = CHR ''%''"
    using byte_div_16 by (auto simp: query_escape_def escape_byte_def percent_def split: if_splits)
qed

lemma escaped_clean:
  "CHR ''&'' \<notin> set (query_escape s)" "CHR '';'' \<notin> set (query_escape s)" "CHR ''='' \<notin> set (query_escape s)"
  by (auto dest!: escaped_chars simp: unreserved_def is_upper_def is_lower_def is_digit_def in_range_def)

lemma cut_char_fresh: "d \<notin> set a \<Longrightarrow> cut_char d (a @ d # b) = (a, b, True)"
  by (induction a) auto

lemma parse_encode_pair: "parse_pair (encode_pair kv) = Some kv"
  using cut_char_fresh [OF escaped_clean(3), of "fst kv" "query_escape (snd kv)"] escaped_clean
  by (auto simp: parse_pair_def encode_pair_def query_unescape_escape)

lemma query_pieces_encode: "query_pieces (encode_values q) = map encode_pair (sort_key fst q)"
proof (cases "q = []")
  case True
  then show ?thesis by (simp add: query_pieces_def encode_values_def)
next
  case False
  let ?ps = "map encode_pair (sort_key fst q)"
  have "?ps \<noteq> []" using False by (metis length_0_conv length_map length_sort)
  moreover have "CHR ''&'' \<notin> set p" if "p \<in> set ?ps" for p
    using that escaped_clean by (auto simp: encode_pair_def)
  ultimately have "split_char (CHR ''&'') (join_str [CHR ''&''] ?ps) = ?ps"
    by (intro split_join_char) auto
  moreover have "filter (\<lambda>p. p \<noteq> '''') ?ps = ?ps" by (simp add: encode_pair_def)
  ultimately show ?thesis by (simp add: query_pieces_def encode_values_def)
qed

lemma parse_encode_values: "parse_query (encode_values q) = Some (sort_key fst q)"
proof -
  have "List.map_filter parse_pair (map encode_pair xs) = xs" for xs
    by (induction xs) (simp_all add: parse_encode_pair map_filter_def)
  then show ?thesis
    by (simp add: parse_query_def query_values_def query_pieces_encode list_all_iff parse_encode_pair)
qed

end
