(* ===== verification/SdkClient.thy ===== *)
theory SdkClient
  imports SdkErrors GoUrl Srun
begin

text \<open>
  \<open>client.go\<close> and \<open>status.go\<close>: the client, its HTTP requests and the gateway status.  The client
  talks to its surroundings: the gateway and the CAS over HTTP, the clock, the caller's credential
  provider and QR presenter, the random source.  Every such interaction is an event of the history
  (newest first) and is answered by a \<open>sdk_world\<close> from the history so far, so that nothing is
  assumed about the answers.  One event \<open>EvHttp\<close> is one request on the wire: the redirects that
  \<open>http.Client\<close> follows are unrolled, with the redirect policies of the code.
\<close>

section \<open>The wire\<close>

datatype http_method = MethodGet | MethodPost | MethodOtherHttp string

record http_request =
  rq_method :: http_method
  rq_url :: url
  rq_form :: "url_values option"

text \<open>A \<open>Location\<close> header: parsed by itself and resolved against the request, where either may fail.\<close>

record http_location =
  loc_raw :: "url option"
  loc_resolved :: "url option"

text \<open>\<open>rs_body\<close> is what reading the body gives, \<open>rs_close\<close> the error of closing it.\<close>

record http_response =
  rs_status :: int
  rs_location :: "http_location option"
  rs_body :: "go_error + string"
  rs_close :: "go_error option"

datatype hop = HopError go_error | HopResponse http_response

text \<open>A gateway observation, \<open>Status\<close> in \<open>types.go\<close>.\<close>

datatype sdk_session = StNone | StOnline | StOffline | StUnknown

record sdk_status =
  s_session :: sdk_session
  s_username :: string
  s_ip :: "ipv4 option"
  s_observed :: int
  s_summary :: "summary option"

text \<open>
  \<open>EvStatus\<close> is not an interaction: it marks the point where the code has read a gateway status.
\<close>

datatype sdk_event =
    EvHttp http_request hop
  | EvClock int
  | EvEmit string string string string
  | EvLock "ctx_error option"
  | EvUnlock
  | EvSleep int "ctx_error option"
  | EvCredential string "go_error + string"
  | EvPrompt string "go_error option"
  | EvUuid "string option"
  | EvEncrypt "string option"
  | EvStatus sdk_status

type_synonym sdk_history = "sdk_event list"
type_synonym 'a sdk = "(sdk_history, go_error, 'a) proc"

section \<open>Parsers of CAS pages\<close>

text \<open>
  \<open>internal/cas\<close> rests on the HTML parser \<open>goquery\<close>; its results are parameters of the session.
  \<open>None\<close> is \<open>ErrUnrecognized\<close>.
\<close>

datatype cas_challenge = CasNone | CasSMSOTP | CasDevice | CasSetup | CasUnknown

datatype cas_poll =
  PollPending | PollConfirmed string | PollExpired | PollChallenge cas_challenge

record cas_page =
  p_action :: "url option"
  p_hidden :: url_values
  p_scripts :: "url list"
  p_public_key :: string
  p_challenge :: cas_challenge
  p_qr_uuid :: string
  p_qr_supported :: bool

record cas_parsers =
  cas_parse_page :: "url \<Rightarrow> string \<Rightarrow> cas_page option"
  cas_detect_challenge :: "string \<Rightarrow> cas_challenge option"
  cas_auth_failure :: "string \<Rightarrow> bool option"
  cas_extract_key :: "string \<Rightarrow> string"
  cas_parse_poll :: "string \<Rightarrow> cas_poll option"

record sdk_world =
  wd_http :: "sdk_history \<Rightarrow> http_request \<Rightarrow> hop"
  wd_now :: "sdk_history \<Rightarrow> int"
  wd_lock :: "sdk_history \<Rightarrow> ctx_error option"
  wd_sleep :: "sdk_history \<Rightarrow> int \<Rightarrow> ctx_error option"
  wd_credential :: "sdk_history \<Rightarrow> string \<Rightarrow> go_error + string"
  wd_prompt :: "sdk_history \<Rightarrow> string \<Rightarrow> go_error option"
  wd_uuid :: "sdk_history \<Rightarrow> string option"
  wd_encrypt :: "sdk_history \<Rightarrow> string \<Rightarrow> string \<Rightarrow> string \<Rightarrow> string option"
  wd_request_ok :: "http_request \<Rightarrow> bool"
  wd_parse_url :: "string \<Rightarrow> url option"
  wd_resolve :: "url \<Rightarrow> url \<Rightarrow> url"
  wd_cas :: cas_parsers

section \<open>The client\<close>

record endpoint_set =
  ep_status :: url
  ep_logout :: url
  ep_captive :: url
  ep_cas_login :: url
  ep_service :: url
  ep_activation :: url

record sdk_client =
  cl_ready :: bool
  cl_observer :: bool
  cl_endpoints :: endpoint_set
  cl_poll_interval :: int
  cl_qr_lifetime :: int
  cl_verify_delay :: int

definition plain_url :: "string \<Rightarrow> string \<Rightarrow> string \<Rightarrow> url" where
  "plain_url scheme host path =
     \<lparr>u_scheme = scheme, u_opaque = '''', u_user = False, u_host = host, u_path = path,
      u_raw_query = '''', u_force_query = False, u_fragment = ''''\<rparr>"

definition default_endpoints :: endpoint_set where
  "default_endpoints =
     \<lparr>ep_status = plain_url ''https'' ''ipgw.neu.edu.cn'' ''/cgi-bin/rad_user_info'',
      ep_logout = plain_url ''https'' ''ipgw.neu.edu.cn'' ''/cgi-bin/srun_portal'',
      ep_captive = plain_url ''http'' ''ipgw.neu.edu.cn'' ''/'',
      ep_cas_login = plain_url ''https'' ''pass.neu.edu.cn'' ''/tpass/login'',
      ep_service = plain_url ''http'' ''ipgw.neu.edu.cn'' ''/srun_portal_sso'',
      ep_activation = plain_url ''https'' ''ipgw.neu.edu.cn'' ''/v1/srun_portal_sso''\<rparr>"

text \<open>What \<open>NewClient\<close> builds; durations are nanoseconds.\<close>

definition new_client :: "bool \<Rightarrow> sdk_client" where
  "new_client observer =
     \<lparr>cl_ready = True, cl_observer = observer, cl_endpoints = default_endpoints,
      cl_poll_interval = 3 * 10 ^ 9, cl_qr_lifetime = 180 * 10 ^ 9,
      cl_verify_delay = 500 * 10 ^ 6\<rparr>"

definition statusResponseLimit :: nat where "statusResponseLimit = 256 * 1024"
definition htmlResponseLimit :: nat where "htmlResponseLimit = 2 * 1024 * 1024"
definition scriptResponseLimit :: nat where "scriptResponseLimit = 512 * 1024"
definition apiResponseLimit :: nat where "apiResponseLimit = 256 * 1024"

definition fail :: "sdk_code \<Rightarrow> string \<Rightarrow> bool \<Rightarrow> go_error option \<Rightarrow> 'a sdk" where
  "fail code message retryable cause = throwP (ErrSdk (new_error code message retryable cause))"

definition fail_wrapped :: "sdk_code \<Rightarrow> string \<Rightarrow> bool \<Rightarrow> go_error \<Rightarrow> 'a sdk" where
  "fail_wrapped code message retryable cause = throwP (wrap_error code message retryable (Some cause))"

definition log :: "sdk_event \<Rightarrow> unit sdk" where
  "log ev = modifyP (\<lambda>h. ev # h)"

definition ask :: "(sdk_history \<Rightarrow> 'b) \<Rightarrow> ('b \<Rightarrow> sdk_event) \<Rightarrow> 'b sdk" where
  "ask answer event = (\<lambda>h. (Inr (answer h), event (answer h) # h))"

definition validate_public_call :: "sdk_client \<Rightarrow> bool \<Rightarrow> unit sdk" where
  "validate_public_call c ctx_set =
     (if \<not> cl_ready c then fail CodeInvalidArgument ''client must be created with NewClient'' False None
      else if \<not> ctx_set then fail CodeInvalidArgument ''context must not be nil'' False None
      else returnP ())"

definition emit :: "sdk_client \<Rightarrow> string \<Rightarrow> string \<Rightarrow> string \<Rightarrow> string \<Rightarrow> unit sdk" where
  "emit c name operation phase outcome =
     (if cl_observer c then log (EvEmit name operation phase outcome) else returnP ())"

definition require_https :: "url \<Rightarrow> unit sdk" where
  "require_https u =
     (if u_scheme u \<noteq> ''https'' \<or> u_host u = '''' \<or> u_user u
      then fail CodeProtocolChanged ''protocol attempted a non-HTTPS authenticated request'' False None
      else returnP ())"

section \<open>Hosts, tickets and redirects\<close>

definition normalized_port :: "url \<Rightarrow> string" where
  "normalized_port u =
     (if url_port u \<noteq> '''' then url_port u
      else if u_scheme u = ''https'' then ''443''
      else if u_scheme u = ''http'' then ''80'' else '''')"

definition same_hostname :: "url \<Rightarrow> url \<Rightarrow> bool" where
  "same_hostname a b \<longleftrightarrow> equal_fold (url_hostname a) (url_hostname b)"

definition same_host :: "url \<Rightarrow> url \<Rightarrow> bool" where
  "same_host a b \<longleftrightarrow> same_hostname a b \<and> normalized_port a = normalized_port b"

definition same_service_target :: "url \<Rightarrow> url \<Rightarrow> bool" where
  "same_service_target target expected \<longleftrightarrow>
     u_scheme target = u_scheme expected \<and> same_host target expected \<and>
     u_path target = u_path expected \<and> \<not> u_user target \<and> u_fragment target = ''''"

definition valid_same_https_origin :: "url \<Rightarrow> url \<Rightarrow> bool" where
  "valid_same_https_origin target expected \<longleftrightarrow>
     u_scheme target = ''https'' \<and> \<not> u_user target \<and> same_host target expected"

definition valid_acid :: "string \<Rightarrow> bool" where
  "valid_acid s \<longleftrightarrow> all_digits s \<and> length s \<le> 10"

definition validated_ticket :: "url \<Rightarrow> url \<Rightarrow> go_error + string \<times> string" where
  "validated_ticket target expected =
     (let err = (\<lambda>m. Inl (ErrSdk (new_error CodeProtocolChanged m False None))) in
      case parse_query (u_raw_query target) of
        None \<Rightarrow> err ''CAS service redirect contains an invalid query''
      | Some q \<Rightarrow>
          if length (value_keys q) \<noteq> 2 \<or> length (values_of q ''ticket'') \<noteq> 1 \<or>
             length (values_of q ''ac_id'') \<noteq> 1
          then err ''CAS service redirect contains unexpected parameters''
          else
            (let ticket = get_value q ''ticket''; acid = get_value q ''ac_id'' in
             if ticket = '''' \<or> 4096 < length ticket \<or>
                list_ex (\<lambda>c. byte c \<in> {13, 10, 9, 32}) ticket \<or>
                acid \<noteq> get_value (query_values (u_raw_query expected)) ''ac_id'' \<or> \<not> valid_acid acid
             then err ''CAS service redirect is missing required parameters''
             else Inr (ticket, acid)))"

datatype policy = RejectRedirects | UseLastResponse | CasRedirects url url

datatype decision = Follow | UseLast "(string \<times> string) option" | Reject

text \<open>
  \<open>rejectRedirect\<close>, the policy of the discovery, and \<open>casRedirectPolicy\<close> for a service URL and the
  CAS endpoint; \<open>via\<close> is the number of requests already made.
\<close>

definition redirect_decision :: "policy \<Rightarrow> url \<Rightarrow> nat \<Rightarrow> decision" where
  "redirect_decision p target via =
     (case p of RejectRedirects \<Rightarrow> Reject
      | UseLastResponse \<Rightarrow> UseLast None
      | CasRedirects service cas_login \<Rightarrow>
          if 10 < via then Reject
          else if same_service_target target service then
            (case validated_ticket target service of Inl _ \<Rightarrow> Reject | Inr ta \<Rightarrow> UseLast (Some ta))
          else if get_value (query_values (u_raw_query target)) ''ticket'' \<noteq> '''' then Reject
          else if u_scheme target = ''https'' \<and> same_host target cas_login \<and> \<not> u_user target
            then Follow
          else Reject)"

definition redirect_status :: "int \<Rightarrow> bool" where
  "redirect_status s \<longleftrightarrow> s \<in> {301, 302, 303, 307, 308}"

definition next_request :: "int \<Rightarrow> http_request \<Rightarrow> url \<Rightarrow> http_request" where
  "next_request status rq u =
     (if status \<in> {307, 308} then rq\<lparr>rq_url := u\<rparr>
      else \<lparr>rq_method = MethodGet, rq_url = u, rq_form = None\<rparr>)"

lemma redirect_follow_bound: "redirect_decision p u via = Follow \<Longrightarrow> via \<le> 10"
  by (auto simp: redirect_decision_def split: policy.splits if_splits sum.splits)

text \<open>\<open>http.Client.Do\<close>: the response, the request it answers, and what the policy captured.\<close>

type_synonym http_result = "http_response \<times> http_request \<times> (string \<times> string) option"

function http_do :: "sdk_world \<Rightarrow> policy \<Rightarrow> http_request \<Rightarrow> nat \<Rightarrow> http_result sdk" where
  "http_do w p rq via h =
     (let a = wd_http w h rq; h1 = EvHttp rq a # h in
      case a of HopError e \<Rightarrow> (Inl e, h1)
      | HopResponse r \<Rightarrow>
          if \<not> redirect_status (rs_status r) then (Inr (r, rq, None), h1)
          else (case rs_location r of None \<Rightarrow> (Inr (r, rq, None), h1)
            | Some loc \<Rightarrow>
                (case loc_resolved loc of None \<Rightarrow> (Inl ErrOther, h1)
                 | Some u \<Rightarrow>
                     (case redirect_decision p u (Suc via) of
                        Reject \<Rightarrow> (Inl ErrRedirect, h1)
                      | UseLast cap \<Rightarrow> (Inr (r, rq, cap), h1)
                      | Follow \<Rightarrow> http_do w p (next_request (rs_status r) rq u) (Suc via) h1))))"
  by pat_completeness auto
termination
  by (relation "measure (\<lambda>(w, p, rq, via, h). 11 - via)") (auto dest: redirect_follow_bound)

declare http_do.simps [simp del]

definition read_all :: "http_response \<Rightarrow> nat \<Rightarrow> go_error + string" where
  "read_all r limit =
     (case rs_body r of Inl e \<Rightarrow> Inl e
      | Inr data \<Rightarrow> if limit < length data then Inl ErrResponseTooLarge else Inr data)"

definition get_request :: "url \<Rightarrow> http_request" where
  "get_request u = \<lparr>rq_method = MethodGet, rq_url = u, rq_form = None\<rparr>"

definition good_status :: "int \<Rightarrow> bool" where
  "good_status s \<longleftrightarrow> 200 \<le> s \<and> s < 300"

text \<open>\<open>Client.request\<close>.\<close>

definition finish_request :: "nat \<Rightarrow> http_result \<Rightarrow> string sdk" where
  "finish_request limit res =
     (case res of (r, _, _) \<Rightarrow>
        (case read_all r limit of
           Inl e \<Rightarrow>
             if e = ErrResponseTooLarge
             then fail CodeProtocolChanged ''gateway response exceeded the safe limit'' False (Some e)
             else fail_wrapped CodeNetwork ''could not read gateway response'' True e
         | Inr data \<Rightarrow>
             if \<not> good_status (rs_status r)
             then fail CodeNetwork ''gateway returned an unexpected HTTP status'' (500 \<le> rs_status r) None
             else returnP data))"

definition sdk_request :: "sdk_world \<Rightarrow> policy \<Rightarrow> url \<Rightarrow> nat \<Rightarrow> string sdk" where
  "sdk_request w p target limit =
     (if \<not> wd_request_ok w (get_request target)
      then fail_wrapped CodeInvalidArgument ''could not construct request'' False ErrOther
      else handleP (http_do w p (get_request target) 0)
             (fail_wrapped CodeNetwork ''network request failed'' True)
             (finish_request limit))"

section \<open>Status\<close>

definition zero_status :: sdk_status where
  "zero_status = \<lparr>s_session = StNone, s_username = '''', s_ip = None, s_observed = 0, s_summary = None\<rparr>"

definition status_of_srun :: "srun_status \<Rightarrow> int \<Rightarrow> sdk_status" where
  "status_of_srun p now =
     (if Online p
      then \<lparr>s_session = StOnline, s_username = Username p, s_ip = OnlineIP p, s_observed = now,
            s_summary = SummaryOf p\<rparr>
      else \<lparr>s_session = StOffline, s_username = '''', s_ip = None, s_observed = now, s_summary = None\<rparr>)"

definition read_clock :: "sdk_world \<Rightarrow> int sdk" where
  "read_clock w = ask (wd_now w) EvClock"

definition parse_gateway_status :: "sdk_world \<Rightarrow> string \<Rightarrow> sdk_status sdk" where
  "parse_gateway_status w data =
     (case parse_status data of
        None \<Rightarrow> throwP (ErrSdk
          ((new_error CodeProtocolChanged ''gateway status format is not recognized'' False None)
             \<lparr>e_protocol_part := ''gateway_status''\<rparr>))
      | Some p \<Rightarrow> bindP (read_clock w) (\<lambda>now.
          bindP (log (EvStatus (status_of_srun p now))) (\<lambda>_.
          returnP (status_of_srun p now))))"

definition query_status :: "sdk_world \<Rightarrow> sdk_client \<Rightarrow> sdk_status sdk" where
  "query_status w c =
     bindP (require_https (ep_status (cl_endpoints c))) (\<lambda>_.
     bindP (sdk_request w RejectRedirects (ep_status (cl_endpoints c)) statusResponseLimit) (\<lambda>data.
     parse_gateway_status w data))"

text \<open>\<open>Client.Status\<close>.\<close>

definition session_string :: "sdk_session \<Rightarrow> string" where
  "session_string s =
     (case s of StNone \<Rightarrow> '''' | StOnline \<Rightarrow> ''online'' | StOffline \<Rightarrow> ''offline'' | StUnknown \<Rightarrow> ''unknown'')"

definition sdk_status_call :: "sdk_world \<Rightarrow> sdk_client \<Rightarrow> bool \<Rightarrow> sdk_status sdk" where
  "sdk_status_call w c ctx_set =
     bindP (validate_public_call c ctx_set) (\<lambda>_.
     bindP (emit c ''operation_started'' ''status'' ''request'' '''') (\<lambda>_.
     handleP (query_status w c)
       (\<lambda>e. bindP (emit c ''operation_finished'' ''status'' ''request'' ''error'') (\<lambda>_. throwP e))
       (\<lambda>s. bindP (emit c ''operation_finished'' ''status'' ''request'' (session_string (s_session s)))
               (\<lambda>_. returnP s))))"

text \<open>\<open>verifyStatus\<close>: up to three attempts with a pause between them.\<close>

definition sleep :: "sdk_world \<Rightarrow> int \<Rightarrow> unit sdk" where
  "sleep w d = bindP (ask (\<lambda>h. wd_sleep w h d) (EvSleep d))
     (\<lambda>a. case a of None \<Rightarrow> returnP () | Some e \<Rightarrow> throwP (ErrCtx e))"

definition verify_failure :: "sdk_session \<Rightarrow> string \<Rightarrow> sdk_status \<Rightarrow> go_error" where
  "verify_failure expected username last_status =
     (if expected = StOnline \<and> s_session last_status = StOnline \<and> s_username last_status \<noteq> username
      then ErrSdk ((new_error CodeSessionConflict ''gateway activated a different account'' False None)
             \<lparr>e_expected_user := username, e_actual_user := s_username last_status\<rparr>)
      else ErrSdk (new_error CodeAuthentication ''gateway did not reach the expected session state'' True None))"

fun verify_attempts ::
    "sdk_world \<Rightarrow> sdk_client \<Rightarrow> sdk_session \<Rightarrow> string \<Rightarrow> bool \<Rightarrow> nat \<Rightarrow> sdk_status \<Rightarrow> sdk_status sdk" where
  "verify_attempts w c expected username pause 0 last_status =
     throwP (verify_failure expected username last_status)"
| "verify_attempts w c expected username pause (Suc n) last_status =
     bindP (if pause then sleep w (cl_verify_delay c) else returnP ()) (\<lambda>_.
     bindP (query_status w c) (\<lambda>s.
     if s_session s = expected \<and> (username = '''' \<or> s_username s = username) then returnP s
     else verify_attempts w c expected username True n s))"

definition verify_status :: "sdk_world \<Rightarrow> sdk_client \<Rightarrow> sdk_session \<Rightarrow> string \<Rightarrow> sdk_status sdk" where
  "verify_status w c expected username =
     verify_attempts w c expected username False 3 zero_status"

end
