(* ===== verification/SdkAuth.thy ===== *)
theory SdkAuth
  imports SdkClient
begin

text \<open>
  \<open>auth.go\<close>: login by password and by terminal QR code, logout, the discovery of the access
  controller, the activation of a service ticket.  Procedures follow the functions of the source; the
  observer's events, the session lock and every request are part of the history.  The unbounded
  polling loop of the QR login runs on fuel and answers \<open>QrFuel\<close> when it is used up.
\<close>

section \<open>Requests\<close>

datatype switch_policy = SwitchEmpty | SwitchRefuse | SwitchLogoutExisting | SwitchOther string

record login_request =
  lr_method :: sdk_method
  lr_expected :: string
  lr_credentials :: bool
  lr_switch :: switch_policy
  lr_interactions :: bool

datatype login_outcome = LoginLoggedIn | LoginAlreadyOnline
datatype logout_outcome = LogoutLoggedOut | LogoutAlreadyOffline

text \<open>Text of the error codes and challenges that the observer is told.\<close>

definition code_string :: "sdk_code \<Rightarrow> string" where
  "code_string c =
     (case c of CodeInvalidArgument \<Rightarrow> ''invalid_argument'' | CodeConfig \<Rightarrow> ''config''
      | CodeNetwork \<Rightarrow> ''network'' | CodeAuthentication \<Rightarrow> ''authentication''
      | CodeSessionConflict \<Rightarrow> ''session_conflict'' | CodeProtocolChanged \<Rightarrow> ''protocol_changed''
      | CodeInteractionRequired \<Rightarrow> ''interaction_required'' | CodeUnsupported \<Rightarrow> ''unsupported''
      | CodeInternal \<Rightarrow> ''internal'' | CodeOther s \<Rightarrow> s)"

definition challenge_string :: "challenge_kind \<Rightarrow> string" where
  "challenge_string k =
     (case k of ChallengeSMSOTP \<Rightarrow> ''sms_otp'' | ChallengeDeviceVerification \<Rightarrow> ''device_verification''
      | ChallengeAccountSetup \<Rightarrow> ''account_setup'' | ChallengeQRApproval \<Rightarrow> ''qr_approval''
      | ChallengeKindUnknown \<Rightarrow> ''unknown'' | ChallengeKindOther s \<Rightarrow> s)"

definition observer_outcome :: "go_error option \<Rightarrow> string" where
  "observer_outcome e = (case e of None \<Rightarrow> ''ok'' | Some _ \<Rightarrow> code_string (code_of e))"

text \<open>The length of a text in UTF-16 code units, as the CAS page's script counts it.\<close>

function utf16_length :: "string \<Rightarrow> nat" where
  "utf16_length [] = 0"
| "utf16_length (c # cs) =
     (let n = utf8_len (c # cs) in
      (if n = 4 then 2 else 1) + utf16_length (drop (n - 1) cs))"
  by pat_completeness auto
termination by (relation "measure length") auto

definition set_query :: "url \<Rightarrow> string \<Rightarrow> string \<Rightarrow> url" where
  "set_query u k v = u\<lparr>u_raw_query := encode_values (set_value (query_values (u_raw_query u)) k v)\<rparr>"

definition url_string :: "url \<Rightarrow> string" where
  "url_string u =
     u_scheme u @ ''://'' @ u_host u @ u_path u @
     (if u_raw_query u \<noteq> '''' \<or> u_force_query u then ''?'' @ u_raw_query u else '''') @
     (if u_fragment u \<noteq> '''' then ''#'' @ u_fragment u else '''')"

definition challenge_error :: "sdk_client \<Rightarrow> sdk_method \<Rightarrow> cas_challenge \<Rightarrow> 'a sdk" where
  "challenge_error c method ch =
     (let base = \<lparr>d_challenge = ChallengeKindUnknown, d_origin = method, d_capability = [CapUnknown],
                  d_session = interactionSessionCASSession, d_resume = interactionResumeOfficialSite,
                  d_tty = False, d_help = interactionHelpChallenge\<rparr>;
          details =
            (case ch of
               CasSMSOTP \<Rightarrow> base\<lparr>d_challenge := ChallengeSMSOTP,
                 d_capability := [CapObservedAnonymous, CapDetectedOnly], d_help := interactionHelpSMS\<rparr>
             | CasDevice \<Rightarrow> base\<lparr>d_challenge := ChallengeDeviceVerification,
                 d_capability := [CapDetectedOnly]\<rparr>
             | CasSetup \<Rightarrow> base\<lparr>d_challenge := ChallengeAccountSetup, d_capability := [CapDetectedOnly]\<rparr>
             | _ \<Rightarrow> base)
      in bindP (emit c ''interaction_required'' ''login'' ''challenge''
                  (challenge_string (d_challenge details)))
           (\<lambda>_. throwP (ErrSdk (interaction_error method details
              ''login requires an additional interactive verification step''))))"

text \<open>\<open>detectAuthenticationChallenge\<close> followed by the check every caller makes.\<close>

definition refuse_challenge :: "sdk_world \<Rightarrow> sdk_client \<Rightarrow> sdk_method \<Rightarrow> string \<Rightarrow> unit sdk" where
  "refuse_challenge w c method data =
     (case cas_detect_challenge (wd_cas w) data of
        None \<Rightarrow> fail CodeProtocolChanged ''authentication challenge response is not recognized'' False
                  (Some ErrOther)
      | Some ch \<Rightarrow> if ch = CasNone then returnP () else challenge_error c method ch)"

section \<open>CAS requests\<close>

type_synonym cas_result = "string \<times> url \<times> (string \<times> string) option"

definition finish_cas :: "http_result \<Rightarrow> cas_result sdk" where
  "finish_cas res =
     (case res of (r, rq, cap) \<Rightarrow>
        (case read_all r htmlResponseLimit of
           Inl e \<Rightarrow> fail_wrapped CodeProtocolChanged ''CAS response is invalid'' False e
         | Inr data \<Rightarrow>
             if cap = None \<and> \<not> good_status (rs_status r)
             then fail CodeNetwork ''CAS returned an unexpected HTTP status'' (500 \<le> rs_status r) None
             else returnP (data, rq_url rq, cap)))"

definition do_cas_request :: "sdk_world \<Rightarrow> policy \<Rightarrow> http_request \<Rightarrow> cas_result sdk" where
  "do_cas_request w p rq =
     bindP (require_https (rq_url rq)) (\<lambda>_.
     handleP (http_do w p rq 0) (fail_wrapped CodeNetwork ''CAS request failed'' True) finish_cas)"

definition do_cas :: "sdk_world \<Rightarrow> policy \<Rightarrow> http_request \<Rightarrow> cas_result sdk" where
  "do_cas w p rq =
     (if \<not> wd_request_ok w rq
      then fail_wrapped CodeInvalidArgument ''could not construct CAS request'' False ErrOther
      else do_cas_request w p rq)"

section \<open>Activation\<close>

definition activation_url :: "sdk_client \<Rightarrow> string \<Rightarrow> string \<Rightarrow> url" where
  "activation_url c acid ticket =
     (let a = ep_activation (cl_endpoints c);
          q = set_value (set_value (query_values (u_raw_query a)) ''ac_id'' acid) ''ticket'' ticket
      in a\<lparr>u_raw_query := encode_values q\<rparr>)"

definition finish_activation_response ::
    "sdk_world \<Rightarrow> sdk_client \<Rightarrow> sdk_method \<Rightarrow> string \<Rightarrow> http_result \<Rightarrow> (login_outcome \<times> sdk_status) sdk" where
  "finish_activation_response w c method expected res =
     (case res of (r, _, _) \<Rightarrow>
        (case read_all r apiResponseLimit of
           Inl e \<Rightarrow> fail_wrapped CodeProtocolChanged ''gateway activation response is invalid'' False e
         | Inr data \<Rightarrow>
             if \<not> good_status (rs_status r)
             then fail CodeNetwork ''gateway activation returned an unexpected HTTP status''
                    (500 \<le> rs_status r) None
             else
               bindP (refuse_challenge w c method data) (\<lambda>_.
               case parse_activation_success data of
                 None \<Rightarrow> fail CodeProtocolChanged ''gateway activation response is not recognized'' False
                           (Some ErrOther)
               | Some success \<Rightarrow>
                   if \<not> success then fail CodeAuthentication ''gateway rejected activation'' False None
                   else bindP (verify_status w c StOnline expected)
                          (\<lambda>s. returnP (LoginLoggedIn, s)))))"

text \<open>
  \<open>finishActivation\<close>.  The protocol state is never saved: \<open>networkKey\<close> is always empty.
\<close>

definition finish_activation ::
    "sdk_world \<Rightarrow> sdk_client \<Rightarrow> sdk_method \<Rightarrow> string \<Rightarrow> string \<Rightarrow> string \<Rightarrow>
       (login_outcome \<times> sdk_status) sdk" where
  "finish_activation w c method expected acid ticket =
     (let rq = get_request (activation_url c acid ticket) in
      bindP (require_https (ep_activation (cl_endpoints c))) (\<lambda>_.
      if \<not> same_hostname (ep_activation (cl_endpoints c)) (ep_service (cl_endpoints c))
      then fail CodeProtocolChanged ''activation endpoint does not match the service host'' False None
      else if \<not> wd_request_ok w rq
      then fail_wrapped CodeInvalidArgument ''could not construct activation request'' False ErrOther
      else handleP (http_do w RejectRedirects rq 0)
             (fail_wrapped CodeNetwork ''gateway activation request failed'' True)
             (finish_activation_response w c method expected)))"

section \<open>Logout\<close>

definition logout_url :: "sdk_client \<Rightarrow> string \<Rightarrow> url" where
  "logout_url c username =
     (let u = ep_logout (cl_endpoints c);
          q = set_value (set_value (query_values (u_raw_query u)) ''action'' ''logout'') ''username'' username
      in u\<lparr>u_raw_query := encode_values q\<rparr>)"

definition logout_online ::
    "sdk_world \<Rightarrow> sdk_client \<Rightarrow> string \<Rightarrow> (logout_outcome \<times> sdk_status) sdk" where
  "logout_online w c username =
     bindP (require_https (ep_logout (cl_endpoints c))) (\<lambda>_.
     bindP (sdk_request w RejectRedirects (logout_url c username) apiResponseLimit) (\<lambda>data.
     case parse_logout_success data of
       None \<Rightarrow> fail CodeProtocolChanged ''gateway logout response is not recognized'' False (Some ErrOther)
     | Some success \<Rightarrow>
         if \<not> success then fail CodeAuthentication ''gateway rejected logout'' False None
         else bindP (verify_status w c StOffline '''') (\<lambda>s. returnP (LogoutLoggedOut, s))))"

text \<open>A public call: its first and last observer event, and the session lock held in between.\<close>

definition locked :: "sdk_world \<Rightarrow> string \<Rightarrow> 'a sdk \<Rightarrow> 'a sdk" where
  "locked w message body =
     bindP (ask (wd_lock w) EvLock) (\<lambda>a.
     case a of
       Some e \<Rightarrow> fail_wrapped CodeNetwork message True (ErrCtx e)
     | None \<Rightarrow> handleP body (\<lambda>e. bindP (log EvUnlock) (\<lambda>_. throwP e))
                           (\<lambda>x. bindP (log EvUnlock) (\<lambda>_. returnP x)))"

definition observed :: "sdk_client \<Rightarrow> string \<Rightarrow> 'a sdk \<Rightarrow> 'a sdk" where
  "observed c operation body =
     bindP (emit c ''operation_started'' operation ''preflight'' '''') (\<lambda>_.
     handleP body
       (\<lambda>e. bindP (emit c ''operation_finished'' operation ''complete'' (observer_outcome (Some e)))
              (\<lambda>_. throwP e))
       (\<lambda>x. bindP (emit c ''operation_finished'' operation ''complete'' (observer_outcome None))
              (\<lambda>_. returnP x)))"

definition logout_body :: "sdk_world \<Rightarrow> sdk_client \<Rightarrow> (logout_outcome \<times> sdk_status) sdk" where
  "logout_body w c =
     bindP (query_status w c) (\<lambda>s.
     if s_session s = StOffline then returnP (LogoutAlreadyOffline, s)
     else logout_online w c (s_username s))"

definition sdk_logout :: "sdk_world \<Rightarrow> sdk_client \<Rightarrow> bool \<Rightarrow> (logout_outcome \<times> sdk_status) sdk" where
  "sdk_logout w c ctx_set =
     bindP (validate_public_call c ctx_set) (\<lambda>_.
     observed c ''logout''
       (locked w ''logout was canceled while waiting for another session change'' (logout_body w c)))"

section \<open>Discovery of the access controller\<close>

definition is_word_char :: "char \<Rightarrow> bool" where
  "is_word_char c \<longleftrightarrow> is_digit c \<or> is_lower c \<or> is_upper c \<or> c = CHR ''_''"

text \<open>
  The submatches of \<open>(?:[?&]|\b)ac_id=([0-9]{1,10})\<close>, from the left and without overlap; the flag says
  whether the preceding character is a word character.
\<close>

function scan_acid :: "bool \<Rightarrow> string \<Rightarrow> string list" where
  "scan_acid prev [] = []"
| "scan_acid prev (c # cs) =
     (let ds = take 10 (takeWhile is_digit (drop 5 cs)) in
      if \<not> prev \<and> has_prefix (c # cs) ''ac_id='' \<and> ds \<noteq> []
      then ds # scan_acid True (drop (5 + length ds) cs)
      else scan_acid (is_word_char c) cs)"
  by pat_completeness auto
termination by (relation "measure (\<lambda>(p, s). length s)") auto

definition maxACIDBodyCandidates :: nat where "maxACIDBodyCandidates = 32"
definition maxACIDDiscoveryResponses :: nat where "maxACIDDiscoveryResponses = 2"
definition maxDynamicScriptCandidates :: nat where "maxDynamicScriptCandidates = 8"

text \<open>\<open>None\<close> is an ambiguous body, the empty string a body without candidates.\<close>

definition unique_acid_from_body :: "string \<Rightarrow> string option" where
  "unique_acid_from_body data =
     (let ms = scan_acid False data in
      if maxACIDBodyCandidates < length ms then None
      else (case remdups ms of [] \<Rightarrow> Some '''' | [a] \<Rightarrow> Some a | _ \<Rightarrow> None))"

definition valid_acid_path :: "url \<Rightarrow> bool" where
  "valid_acid_path u =
     (case path_unescape (u_path u) of None \<Rightarrow> False
      | Some p \<Rightarrow>
          length (u_path u) \<le> 768 \<and> 1 \<le> length p \<and> length p \<le> 256 \<and> has_prefix p ''/'' \<and>
          CHR 0x5C \<notin> set p \<and> \<not> list_ex is_control p \<and>
          \<not> list_ex (\<lambda>s. s = ''.'' \<or> s = ''..'') (split_char (CHR ''/'') p))"

definition valid_acid_target :: "url \<Rightarrow> url \<Rightarrow> bool" where
  "valid_acid_target target gateway \<longleftrightarrow>
     u_opaque target = '''' \<and> \<not> u_user target \<and> u_fragment target = '''' \<and>
     same_hostname target gateway \<and>
     (if map lower_char (u_scheme target) = ''http'' then url_port target \<in> {'''', ''80''}
      else if map lower_char (u_scheme target) = ''https'' then url_port target \<in> {'''', ''443''}
      else False) \<and>
     valid_acid_path target"

definition valid_raw_location :: "url option \<Rightarrow> bool" where
  "valid_raw_location u =
     (case u of None \<Rightarrow> False
      | Some l \<Rightarrow> u_opaque l = '''' \<and> \<not> u_user l \<and> u_fragment l = '''' \<and>
                  (u_path l = '''' \<or> valid_acid_path l))"

datatype acid_location =
    LocationRefused go_error
  | LocationAcid string
  | LocationNext "url option"

definition refused_redirect :: "string \<Rightarrow> acid_location" where
  "refused_redirect m = LocationRefused (ErrSdk (new_error CodeProtocolChanged m False None))"

definition inspect_location :: "url \<Rightarrow> http_response \<Rightarrow> bool \<Rightarrow> acid_location" where
  "inspect_location captive r allow_follow =
     (case rs_location r of None \<Rightarrow> LocationNext None
      | Some loc \<Rightarrow>
          if \<not> redirect_status (rs_status r) \<or> \<not> valid_raw_location (loc_raw loc) then
            refused_redirect ''gateway discovery redirect is not allowed''
          else (case loc_resolved loc of
              None \<Rightarrow> refused_redirect ''gateway discovery redirect is not allowed''
            | Some u \<Rightarrow>
                if \<not> valid_acid_target u captive then
                  refused_redirect ''gateway discovery redirect is not allowed''
                else (case parse_query (u_raw_query u) of
                    None \<Rightarrow> refused_redirect ''gateway discovery redirect is not allowed''
                  | Some q \<Rightarrow>
                      (case values_of q ''ac_id'' of
                         [] \<Rightarrow> LocationNext
                           (if allow_follow \<and> u_raw_query u = '''' \<and> \<not> u_force_query u
                            then Some u else None)
                       | [v] \<Rightarrow>
                           if valid_acid v then LocationAcid v
                           else refused_redirect ''gateway discovery access-controller ID is invalid''
                       | _ \<Rightarrow> refused_redirect ''gateway discovery access-controller ID is invalid''))))"

text \<open>The identifier with the place it was found, or the URL to ask next.\<close>

datatype acid_result = AcidFound string string | AcidNext "url option"

definition inspect_acid_response :: "url \<Rightarrow> http_response \<Rightarrow> bool \<Rightarrow> go_error + acid_result" where
  "inspect_acid_response captive r allow_follow =
     (case inspect_location captive r allow_follow of
        LocationRefused e \<Rightarrow> Inl e
      | LocationAcid a \<Rightarrow> Inr (AcidFound a ''redirect'')
      | LocationNext next \<Rightarrow>
          (case read_all r statusResponseLimit of
             Inl e \<Rightarrow>
               Inl (if e = ErrResponseTooLarge
                    then ErrSdk (new_error CodeProtocolChanged
                           ''gateway discovery response exceeded the safe limit'' False (Some e))
                    else wrap_error CodeNetwork ''gateway discovery response failed'' True (Some e))
           | Inr data \<Rightarrow>
               (case unique_acid_from_body data of
                  None \<Rightarrow> Inl (ErrSdk (new_error CodeProtocolChanged
                            ''gateway discovery response is ambiguous'' False (Some ErrOther)))
                | Some a \<Rightarrow> Inr (if a \<noteq> '''' then AcidFound a ''body'' else AcidNext next))))"

definition no_acid :: "'a sdk" where
  "no_acid = fail CodeProtocolChanged
     ''the active gateway access-controller ID could not be discovered'' True None"

text \<open>
  \<open>discoverACID\<close>: the loop over at most two responses.  Its fallback to the protocol cache needs a
  network key, and \<open>networkKey\<close> is always empty.
\<close>

definition discover_step ::
    "sdk_client \<Rightarrow> bool \<Rightarrow> (url \<Rightarrow> string sdk) \<Rightarrow> http_result \<Rightarrow> string sdk" where
  "discover_step c first continue res =
     (case res of (r, _, _) \<Rightarrow>
        (case inspect_acid_response (ep_captive (cl_endpoints c)) r first of
           Inl e \<Rightarrow> throwP e
         | Inr found \<Rightarrow>
             (case rs_close r of
                Some e \<Rightarrow> fail_wrapped CodeNetwork ''gateway discovery response failed'' True e
              | None \<Rightarrow>
                  (case found of
                     AcidFound acid outcome \<Rightarrow>
                       bindP (emit c ''protocol_discovered'' ''login'' ''ac_id'' outcome)
                         (\<lambda>_. returnP acid)
                   | AcidNext None \<Rightarrow> no_acid
                   | AcidNext (Some u) \<Rightarrow> continue u))))"

fun discover_from :: "sdk_world \<Rightarrow> sdk_client \<Rightarrow> nat \<Rightarrow> bool \<Rightarrow> url \<Rightarrow> string sdk" where
  "discover_from w c 0 first target = no_acid"
| "discover_from w c (Suc n) first target =
     (if \<not> wd_request_ok w (get_request target)
      then fail CodeInternal ''gateway discovery request could not be created'' False (Some ErrOther)
      else handleP (http_do w UseLastResponse (get_request target) 0)
             (fail_wrapped CodeNetwork ''gateway discovery request failed'' True)
             (discover_step c first (discover_from w c n False)))"

definition discover_acid :: "sdk_world \<Rightarrow> sdk_client \<Rightarrow> string sdk" where
  "discover_acid w c =
     discover_from w c maxACIDDiscoveryResponses True (ep_captive (cl_endpoints c))"

section \<open>Password login\<close>

definition single_form_value :: "url_values \<Rightarrow> string \<Rightarrow> string option" where
  "single_form_value q k = (case values_of q k of [v] \<Rightarrow> if v = '''' then None else Some v | _ \<Rightarrow> None)"

definition url_path_text :: "url \<Rightarrow> string" where
  "url_path_text u = (case path_unescape (u_path u) of Some p \<Rightarrow> p | None \<Rightarrow> u_path u)"

text \<open>
  \<open>strings.ToLower\<close> as far as ASCII words are looked for in its result: the capital dotted I and the Kelvin sign are the
  characters outside ASCII whose lower case is an ASCII letter.  The other bytes outside ASCII are kept; the lower case
  of what they encode is outside ASCII as well.
\<close>

fun ascii_lowered :: "string \<Rightarrow> string" where
  "ascii_lowered [] = []"
| "ascii_lowered (c # cs) =
     (case cs of
        d # e # rest \<Rightarrow>
          if c = CHR 0xC4 \<and> d = CHR 0xB0 then CHR ''i'' # ascii_lowered (e # rest)
          else if c = CHR 0xE2 \<and> d = CHR 0x84 \<and> e = CHR 0xAA then CHR ''k'' # ascii_lowered rest
          else lower_char c # ascii_lowered cs
      | [d] \<Rightarrow> if c = CHR 0xC4 \<and> d = CHR 0xB0 then [CHR ''i''] else lower_char c # ascii_lowered cs
      | [] \<Rightarrow> [lower_char c])"

definition script_candidates :: "sdk_client \<Rightarrow> url list \<Rightarrow> url list" where
  "script_candidates c scripts =
     filter (\<lambda>s. valid_same_https_origin s (ep_cas_login (cl_endpoints c)) \<and>
                 (contains_str (ascii_lowered (url_path_text s)) ''login'' \<or>
                  contains_str (ascii_lowered (url_path_text s)) ''rsa''))
       scripts"

text \<open>The scripts are read in turn until one holds the key; only a canceled request stops the search.\<close>

fun fetch_key :: "sdk_world \<Rightarrow> policy \<Rightarrow> url list \<Rightarrow> string sdk" where
  "fetch_key w p [] = returnP ''''"
| "fetch_key w p (s # ss) =
     handleP (sdk_request w p s scriptResponseLimit)
       (\<lambda>e. if is_context_error e then throwP e else fetch_key w p ss)
       (\<lambda>data. let k = cas_extract_key (wd_cas w) data in
                if k \<noteq> '''' then returnP k else fetch_key w p ss)"

definition find_public_key :: "sdk_world \<Rightarrow> sdk_client \<Rightarrow> policy \<Rightarrow> cas_page \<Rightarrow> string sdk" where
  "find_public_key w c p page =
     (if p_public_key page \<noteq> '''' then returnP (p_public_key page)
      else (let cs = script_candidates c (p_scripts page) in
        if maxDynamicScriptCandidates < length cs
        then fail CodeProtocolChanged ''CAS advertised too many dynamic login scripts'' False None
        else fetch_key w p cs))"

definition login_form :: "string \<Rightarrow> string \<Rightarrow> string \<Rightarrow> string \<Rightarrow> string \<Rightarrow> url_values" where
  "login_form encrypted username password lt execution =
     [(''rsa'', encrypted), (''ul'', nat_dec (utf16_length username)),
      (''pl'', nat_dec (utf16_length password)), (''lt'', lt), (''execution'', execution),
      (''_eventId'', ''submit'')]"

definition after_form ::
    "sdk_world \<Rightarrow> sdk_client \<Rightarrow> login_request \<Rightarrow> string \<Rightarrow> cas_result \<Rightarrow> (login_outcome \<times> sdk_status) sdk" where
  "after_form w c rq acid res =
     (case res of (data, _, cap) \<Rightarrow>
        (case cap of
           Some (ticket, _) \<Rightarrow> finish_activation w c (lr_method rq) (lr_expected rq) acid ticket
         | None \<Rightarrow>
             bindP (refuse_challenge w c (lr_method rq) data) (\<lambda>_.
             case cas_auth_failure (wd_cas w) data of
               None \<Rightarrow> fail CodeProtocolChanged ''CAS authentication response is not recognized'' False
                         (Some ErrOther)
             | Some failed \<Rightarrow>
                 if failed
                 then fail CodeAuthentication ''CAS rejected the supplied credentials'' False None
                 else fail CodeProtocolChanged
                        ''CAS did not return a service ticket or a recognized challenge'' False None)))"

definition post_credentials ::
    "sdk_world \<Rightarrow> sdk_client \<Rightarrow> login_request \<Rightarrow> url \<Rightarrow> string \<Rightarrow> url \<Rightarrow> string \<Rightarrow> string \<Rightarrow> string \<Rightarrow>
       (login_outcome \<times> sdk_status) sdk" where
  "post_credentials w c rq service acid action lt execution key =
     bindP (ask (\<lambda>h. wd_credential w h (lr_expected rq)) (EvCredential (lr_expected rq))) (\<lambda>a.
     case a of
       Inl e \<Rightarrow> fail_wrapped CodeConfig ''credential provider failed'' False e
     | Inr password \<Rightarrow>
         if password = '''' then fail CodeConfig ''credential provider returned an empty password'' False None
         else bindP (ask (\<lambda>h. wd_encrypt w h (lr_expected rq) password key) EvEncrypt) (\<lambda>enc.
           case enc of
             None \<Rightarrow> fail_wrapped CodeProtocolChanged
                       ''CAS public key or encryption contract changed'' False ErrOther
           | Some encrypted \<Rightarrow>
               (let post = \<lparr>rq_method = MethodPost, rq_url = action,
                    rq_form = Some (login_form encrypted (lr_expected rq) password lt execution)\<rparr> in
                if \<not> wd_request_ok w post
                then fail_wrapped CodeInvalidArgument ''could not construct CAS request'' False ErrOther
                else bindP (do_cas_request w (CasRedirects service (ep_cas_login (cl_endpoints c))) post)
                       (after_form w c rq acid))))"

definition password_login ::
    "sdk_world \<Rightarrow> sdk_client \<Rightarrow> login_request \<Rightarrow> url \<Rightarrow> string \<Rightarrow> cas_page \<Rightarrow> string \<Rightarrow>
       (login_outcome \<times> sdk_status) sdk" where
  "password_login w c rq service acid page data =
     (if \<not> lr_credentials rq
      then fail CodeConfig ''password login requires a credential provider'' False None
      else (case (p_action page, single_form_value (p_hidden page) ''lt'',
                  single_form_value (p_hidden page) ''execution'') of
          (Some action, Some lt, Some execution) \<Rightarrow>
            if \<not> valid_same_https_origin action (ep_cas_login (cl_endpoints c))
            then fail CodeProtocolChanged ''CAS resource points outside the trusted HTTPS origin'' False None
            else
              bindP (find_public_key w c (CasRedirects service (ep_cas_login (cl_endpoints c))) page) (\<lambda>key.
              if key = ''''
              then bindP (refuse_challenge w c (lr_method rq) data) (\<lambda>_.
                fail CodeProtocolChanged ''CAS public key was not discovered'' False None)
              else post_credentials w c rq service acid action lt execution key)
        | _ \<Rightarrow> fail CodeProtocolChanged ''CAS login form is missing required fields'' False None))"

section \<open>Terminal QR login\<close>

definition qr_details :: "sdk_capability list \<Rightarrow> string \<Rightarrow> interaction_details" where
  "qr_details capability resume =
     \<lparr>d_challenge = ChallengeQRApproval, d_origin = MethodEmpty, d_capability = capability,
      d_session = interactionSessionCASSession, d_resume = resume, d_tty = True,
      d_help = interactionHelpQR\<rparr>"

definition terminal_qr_expired_error :: "sdk_method \<Rightarrow> sdk_error" where
  "terminal_qr_expired_error method =
     (interaction_error method (qr_details [CapLiveUnverified] interactionResumeRestart)
        ''terminal QR code expired'')\<lparr>e_retryable := True\<rparr>"

text \<open>
  \<open>ResolveReference\<close> for a reference that is one path segment: it replaces what follows the last
  slash of the path and drops the query.
\<close>

definition child_url :: "sdk_client \<Rightarrow> string \<Rightarrow> url" where
  "child_url c segment =
     (let u = ep_cas_login (cl_endpoints c) in
      u\<lparr>u_path := rev (dropWhile (\<lambda>d. d \<noteq> CHR ''/'') (rev (u_path u))) @ segment,
        u_raw_query := '''', u_force_query := False, u_fragment := ''''\<rparr>)"

definition ticket_from_redirect :: "url \<Rightarrow> url \<Rightarrow> go_error + string \<times> string" where
  "ticket_from_redirect target service =
     (if \<not> same_service_target target service
      then Inl (ErrSdk (new_error CodeProtocolChanged ''QR confirmation returned an unexpected redirect'' False None))
      else validated_ticket target service)"

definition after_confirmation ::
    "sdk_world \<Rightarrow> sdk_client \<Rightarrow> login_request \<Rightarrow> string \<Rightarrow> cas_result \<Rightarrow> (login_outcome \<times> sdk_status) sdk" where
  "after_confirmation w c rq acid res =
     (case res of (data, base, cap) \<Rightarrow>
        (case cap of
           Some (ticket, _) \<Rightarrow> finish_activation w c (lr_method rq) (lr_expected rq) acid ticket
         | None \<Rightarrow>
             (case cas_parse_page (wd_cas w) base data of
                None \<Rightarrow> fail CodeProtocolChanged ''QR confirmation page could not be parsed'' False None
              | Some page \<Rightarrow>
                  if p_challenge page \<noteq> CasNone then challenge_error c (lr_method rq) (p_challenge page)
                  else fail CodeProtocolChanged
                         ''QR confirmation did not produce a ticket or a recognized challenge'' False None)))"

definition finish_qr_confirmation ::
    "sdk_world \<Rightarrow> sdk_client \<Rightarrow> login_request \<Rightarrow> url \<Rightarrow> string \<Rightarrow> string \<Rightarrow> (login_outcome \<times> sdk_status) sdk" where
  "finish_qr_confirmation w c rq service acid raw_redirect =
     (case wd_parse_url w raw_redirect of
        None \<Rightarrow> fail CodeProtocolChanged ''QR confirmation returned an invalid redirect'' False None
      | Some target0 \<Rightarrow>
          if same_service_target target0 service then
            (case ticket_from_redirect target0 service of
               Inl e \<Rightarrow> throwP e
             | Inr (ticket, _) \<Rightarrow> finish_activation w c (lr_method rq) (lr_expected rq) acid ticket)
          else
            (let cas_login = ep_cas_login (cl_endpoints c);
                 target = (if u_scheme target0 = '''' then wd_resolve w cas_login target0 else target0)
             in case parse_query (u_raw_query target) of
                  None \<Rightarrow> fail CodeProtocolChanged ''QR confirmation returned an unsafe CAS redirect'' False None
                | Some q \<Rightarrow>
                    if get_value q ''ticket'' \<noteq> ''''
                    then fail CodeProtocolChanged ''QR confirmation returned an unsafe CAS redirect'' False None
                    else if \<not> valid_same_https_origin target cas_login
                    then fail CodeProtocolChanged ''QR confirmation returned an unexpected redirect'' False None
                    else bindP (do_cas w (CasRedirects service cas_login) (get_request target))
                           (after_confirmation w c rq acid)))"

text \<open>
  The polling loop.  Every turn reads the clock, asks the random source for a cache buster, polls,
  and waits when the code is still pending.  \<open>None\<close> is the fuel used up.
\<close>

definition poll_url :: "sdk_client \<Rightarrow> string \<Rightarrow> string \<Rightarrow> url" where
  "poll_url c uuid nonce =
     (let u = child_url c ''checkQRCodeScan'' in
      u\<lparr>u_raw_query := encode_values
          (set_value (set_value (query_values (u_raw_query u)) ''uuid'' uuid) ''random'' nonce)\<rparr>)"

fun qr_poll ::
    "nat \<Rightarrow> sdk_world \<Rightarrow> sdk_client \<Rightarrow> policy \<Rightarrow> login_request \<Rightarrow> url \<Rightarrow> string \<Rightarrow> string \<Rightarrow> int \<Rightarrow>
       (login_outcome \<times> sdk_status) option sdk" where
  "qr_poll 0 w c p rq service acid uuid deadline = returnP None"
| "qr_poll (Suc n) w c p rq service acid uuid deadline =
     bindP (read_clock w) (\<lambda>now.
     if \<not> now < deadline then throwP (ErrSdk (terminal_qr_expired_error (lr_method rq)))
     else
       bindP (ask (wd_uuid w) EvUuid) (\<lambda>nonce.
       case nonce of
         None \<Rightarrow> fail_wrapped CodeInternal ''could not create a QR polling cache buster'' False ErrOther
       | Some random \<Rightarrow>
           bindP (sdk_request w p (poll_url c uuid random) apiResponseLimit) (\<lambda>data.
           case cas_parse_poll (wd_cas w) data of
             None \<Rightarrow> fail CodeProtocolChanged ''QR polling response is not recognized'' False (Some ErrOther)
           | Some (PollConfirmed redirect) \<Rightarrow>
               bindP (finish_qr_confirmation w c rq service acid redirect) (\<lambda>x. returnP (Some x))
           | Some (PollChallenge ch) \<Rightarrow> challenge_error c (lr_method rq) ch
           | Some PollExpired \<Rightarrow> throwP (ErrSdk (terminal_qr_expired_error (lr_method rq)))
           | Some PollPending \<Rightarrow>
               bindP (sleep w (cl_poll_interval c)) (\<lambda>_.
               qr_poll n w c p rq service acid uuid deadline))))"

definition qr_presented ::
    "nat \<Rightarrow> sdk_world \<Rightarrow> sdk_client \<Rightarrow> policy \<Rightarrow> login_request \<Rightarrow> url \<Rightarrow> string \<Rightarrow> string \<Rightarrow>
       (login_outcome \<times> sdk_status) option sdk" where
  "qr_presented fuel w c p rq service acid uuid =
     (let u = child_url c ''qyQrLogin'';
          qr = u\<lparr>u_raw_query := encode_values
                 (set_value (set_value (query_values (u_raw_query u)) ''uuid'' uuid)
                    ''service'' (url_string service))\<rparr>
      in if \<not> valid_same_https_origin qr (ep_cas_login (cl_endpoints c))
         then fail CodeProtocolChanged ''CAS resource points outside the trusted HTTPS origin'' False None
         else
           bindP (read_clock w) (\<lambda>now.
           bindP (ask (\<lambda>h. wd_prompt w h (url_string qr)) (EvPrompt (url_string qr))) (\<lambda>a.
           case a of
             Some e \<Rightarrow>
               if is_context_error e then throwP e
               else throwP (ErrSdk (interaction_error (lr_method rq)
                      (qr_details [CapLiveUnverified] interactionResumeRetryInTTY)
                      ''the caller could not present the QR code''))
           | None \<Rightarrow> qr_poll fuel w c p rq service acid uuid (now + cl_qr_lifetime c))))"

definition qr_login ::
    "nat \<Rightarrow> sdk_world \<Rightarrow> sdk_client \<Rightarrow> policy \<Rightarrow> login_request \<Rightarrow> url \<Rightarrow> string \<Rightarrow> cas_page \<Rightarrow>
       (login_outcome \<times> sdk_status) option sdk" where
  "qr_login fuel w c p rq service acid page =
     (if \<not> lr_interactions rq
      then throwP (ErrSdk (interaction_error (lr_method rq)
             (qr_details [CapObservedAnonymous, CapSyntheticCovered, CapLiveUnverified]
                interactionResumeRetryInTTY)
             ''terminal QR login requires an interactive QR presenter''))
      else if p_qr_uuid page \<noteq> '''' then qr_presented fuel w c p rq service acid (p_qr_uuid page)
      else if \<not> p_qr_supported page
      then fail CodeProtocolChanged ''CAS did not advertise the supported QR protocol'' False None
      else
        bindP (ask (wd_uuid w) EvUuid) (\<lambda>a.
        case a of
          None \<Rightarrow> fail_wrapped CodeInternal ''could not create an ephemeral QR identifier'' False ErrOther
        | Some uuid \<Rightarrow> qr_presented fuel w c p rq service acid uuid))"

section \<open>Login\<close>

definition service_url :: "sdk_client \<Rightarrow> string \<Rightarrow> url" where
  "service_url c acid = set_query (ep_service (cl_endpoints c)) ''ac_id'' acid"

definition cas_login_url :: "sdk_client \<Rightarrow> string \<Rightarrow> url" where
  "cas_login_url c acid = set_query (ep_cas_login (cl_endpoints c)) ''service'' (url_string (service_url c acid))"

definition login_with_page ::
    "nat \<Rightarrow> sdk_world \<Rightarrow> sdk_client \<Rightarrow> login_request \<Rightarrow> string \<Rightarrow> cas_result \<Rightarrow>
       (login_outcome \<times> sdk_status) option sdk" where
  "login_with_page fuel w c rq acid res =
     (case res of (data, base, cap) \<Rightarrow>
        (case cap of
           Some (ticket, _) \<Rightarrow>
             bindP (finish_activation w c (lr_method rq) (lr_expected rq) acid ticket)
               (\<lambda>x. returnP (Some x))
         | None \<Rightarrow>
             (case cas_parse_page (wd_cas w) base data of
                None \<Rightarrow> fail_wrapped CodeProtocolChanged ''CAS login page could not be parsed'' False ErrOther
              | Some page \<Rightarrow>
                  if p_challenge page \<noteq> CasNone then challenge_error c (lr_method rq) (p_challenge page)
                  else (case lr_method rq of
                      MethodPassword \<Rightarrow>
                        bindP (password_login w c rq (service_url c acid) acid page data)
                          (\<lambda>x. returnP (Some x))
                    | MethodTerminalQR \<Rightarrow>
                        qr_login fuel w c
                          (CasRedirects (service_url c acid) (ep_cas_login (cl_endpoints c)))
                          rq (service_url c acid) acid page
                    | _ \<Rightarrow> fail CodeUnsupported ''authentication method is not supported'' False None))))"

definition login_offline ::
    "nat \<Rightarrow> sdk_world \<Rightarrow> sdk_client \<Rightarrow> login_request \<Rightarrow> (login_outcome \<times> sdk_status) option sdk" where
  "login_offline fuel w c rq =
     bindP (discover_acid w c) (\<lambda>acid.
     bindP (do_cas w (CasRedirects (service_url c acid) (ep_cas_login (cl_endpoints c)))
              (get_request (cas_login_url c acid)))
       (login_with_page fuel w c rq acid))"

definition normalize_request :: "login_request \<Rightarrow> login_request" where
  "normalize_request rq =
     rq\<lparr>lr_expected := trim_space (lr_expected rq),
        lr_method := (if lr_method rq = MethodEmpty then MethodPassword else lr_method rq),
        lr_switch := (if lr_switch rq = SwitchEmpty then SwitchRefuse else lr_switch rq)\<rparr>"

definition conflict_error :: "string \<Rightarrow> string \<Rightarrow> go_error" where
  "conflict_error expected actual =
     ErrSdk ((new_error CodeSessionConflict ''another account is already online'' False None)
       \<lparr>e_expected_user := expected, e_actual_user := actual\<rparr>)"

definition login_body ::
    "nat \<Rightarrow> sdk_world \<Rightarrow> sdk_client \<Rightarrow> login_request \<Rightarrow> (login_outcome \<times> sdk_status) option sdk" where
  "login_body fuel w c rq0 =
     (let rq = normalize_request rq0 in
      if lr_expected rq = ''''
      then fail CodeInvalidArgument ''expected username is required'' False None
      else if lr_method rq \<noteq> MethodPassword \<and> lr_method rq \<noteq> MethodTerminalQR
      then fail CodeUnsupported ''authentication method is not supported'' False None
      else if lr_switch rq \<noteq> SwitchRefuse \<and> lr_switch rq \<noteq> SwitchLogoutExisting
      then fail CodeInvalidArgument ''invalid switch policy'' False None
      else
        bindP (query_status w c) (\<lambda>s.
        if s_session s = StOnline then
          (if s_username s = lr_expected rq then returnP (Some (LoginAlreadyOnline, s))
           else if lr_switch rq = SwitchRefuse
           then throwP (conflict_error (lr_expected rq) (s_username s))
           else bindP (logout_online w c (s_username s)) (\<lambda>_. login_offline fuel w c rq))
        else login_offline fuel w c rq))"

definition sdk_login ::
    "nat \<Rightarrow> sdk_world \<Rightarrow> sdk_client \<Rightarrow> bool \<Rightarrow> login_request \<Rightarrow>
       (login_outcome \<times> sdk_status) option sdk" where
  "sdk_login fuel w c ctx_set rq =
     bindP (validate_public_call c ctx_set) (\<lambda>_.
     observed c ''login''
       (locked w ''login was canceled while waiting for another session change''
          (login_body fuel w c rq)))"

end
