(* ===== verification/SdkDemo.thy ===== *)
theory SdkDemo
  imports SdkAuth
begin

text \<open>
  A small campus: a gateway, a CAS and a user with a password.  Its answers depend on the request and
  on whether a ticket was activated before.  The concrete sessions of the later theories run in it.
\<close>

section \<open>The answers\<close>

definition page_answer :: "int \<Rightarrow> string \<Rightarrow> hop" where
  "page_answer status body =
     HopResponse \<lparr>rs_status = status, rs_location = None, rs_body = Inr body, rs_close = None\<rparr>"

definition redirect_answer :: "url \<Rightarrow> hop" where
  "redirect_answer u =
     HopResponse \<lparr>rs_status = 302, rs_location = Some \<lparr>loc_raw = Some u, loc_resolved = Some u\<rparr>,
                  rs_body = Inr '''', rs_close = None\<rparr>"

definition demo_service :: url where
  "demo_service = (plain_url ''http'' ''ipgw.neu.edu.cn'' ''/srun_portal_sso'')
     \<lparr>u_raw_query := ''ac_id=1&ticket=ST-1''\<rparr>"

definition activated :: "sdk_history \<Rightarrow> bool" where
  "activated = list_ex (\<lambda>ev. case ev of EvHttp rq _ \<Rightarrow> u_path (rq_url rq) = ''/v1/srun_portal_sso''
     | _ \<Rightarrow> False)"

definition logged_out :: "sdk_history \<Rightarrow> bool" where
  "logged_out = list_ex (\<lambda>ev. case ev of EvHttp rq _ \<Rightarrow> u_path (rq_url rq) = ''/cgi-bin/srun_portal''
     | _ \<Rightarrow> False)"

text \<open>The account that is online when the session starts, if any.\<close>

definition demo_gateway :: "string option \<Rightarrow> sdk_history \<Rightarrow> http_request \<Rightarrow> hop" where
  "demo_gateway online h rq =
     (let p = u_path (rq_url rq); line = (\<lambda>user. user @ '',1,2,3,4,5,,,10.0.0.8'') in
      if p = ''/cgi-bin/rad_user_info'' then
        page_answer 200
          (if activated h then line ''alice''
           else case online of Some user \<Rightarrow> if logged_out h then ''not_online_error'' else line user
             | None \<Rightarrow> ''not_online_error'')
      else if p = ''/'' then page_answer 200 ''<a href=/index?ac_id=1>''
      else if p = ''/cgi-bin/srun_portal'' then page_answer 200 ''{\"ecode\":0}''
      else if p = ''/v1/srun_portal_sso'' then page_answer 200 ''{\"code\":0,\"message\":\"success\"}''
      else if rq_form rq \<noteq> None then redirect_answer demo_service
      else page_answer 200 ''login'')"

definition demo_cas_form :: url where
  "demo_cas_form = plain_url ''https'' ''pass.neu.edu.cn'' ''/tpass/login''"

definition demo_page :: cas_page where
  "demo_page =
     \<lparr>p_action = Some demo_cas_form,
      p_hidden = [(''lt'', ''LT-1''), (''execution'', ''e1s1'')],
      p_scripts = [], p_public_key = ''MIIB'', p_challenge = CasNone,
      p_qr_uuid = ''u-1'', p_qr_supported = True\<rparr>"

definition demo_parsers :: cas_parsers where
  "demo_parsers =
     \<lparr>cas_parse_page = (\<lambda>_ _. Some demo_page), cas_detect_challenge = (\<lambda>_. Some CasNone),
      cas_auth_failure = (\<lambda>_. Some False), cas_extract_key = (\<lambda>_. ''''),
      cas_parse_poll = (\<lambda>_. Some PollPending)\<rparr>"

text \<open>The clock shows the time slept so far.\<close>

definition slept :: "sdk_history \<Rightarrow> int" where
  "slept h = sum_list (map (\<lambda>ev. case ev of EvSleep d a \<Rightarrow> if a = None then max 0 d else 0 | _ \<Rightarrow> 0) h)"

definition demo_world :: "string option \<Rightarrow> sdk_world" where
  "demo_world online =
     \<lparr>wd_http = demo_gateway online, wd_now = slept, wd_lock = (\<lambda>_. None), wd_sleep = (\<lambda>_ _. None),
      wd_credential = (\<lambda>_ _. Inr ''secret''), wd_prompt = (\<lambda>_ _. None), wd_uuid = (\<lambda>_. Some ''n-1''),
      wd_encrypt = (\<lambda>_ _ _ _. Some ''c2VjcmV0''), wd_request_ok = (\<lambda>_. True),
      wd_parse_url = (\<lambda>_. None), wd_resolve = (\<lambda>_ u. u), wd_cas = demo_parsers\<rparr>"

definition demo_request :: login_request where
  "demo_request =
     \<lparr>lr_method = MethodPassword, lr_expected = ''alice'', lr_credentials = True,
      lr_switch = SwitchRefuse, lr_interactions = True\<rparr>"

definition demo_status :: "string \<Rightarrow> sdk_status" where
  "demo_status user =
     (if user = '''' then status_of_srun \<lparr>Online = False, Username = '''', OnlineIP = None, SummaryOf = None\<rparr> 0
      else status_of_srun \<lparr>Online = True, Username = user, OnlineIP = Some (10, 0, 0, 8), SummaryOf = None\<rparr> 0)"

section \<open>Sessions\<close>

definition demo_login :: "string option \<Rightarrow> (go_error + (login_outcome \<times> sdk_status) option) \<times> sdk_history" where
  "demo_login online = sdk_login 61 (demo_world online) (new_client False) True demo_request []"

definition demo_logout :: "string option \<Rightarrow> (go_error + logout_outcome \<times> sdk_status) \<times> sdk_history" where
  "demo_logout online = sdk_logout (demo_world online) (new_client False) True []"

text \<open>Running a procedure by rewriting: the continuation is only entered with a known outcome.\<close>

lemma run_cong:
  "s = s' \<Longrightarrow> bindP m k s = bindP m k s'"
  "s = s' \<Longrightarrow> handleP m g l s = handleP m g l s'"
  by simp_all

lemmas run_basic = returnP_def throwP_def modifyP_def bindP_def handleP_def
  ask_def [THEN fun_cong] log_def [THEN fun_cong] fail_def [THEN fun_cong] fail_wrapped_def [THEN fun_cong]

lemmas run_client = emit_def [THEN fun_cong] validate_public_call_def [THEN fun_cong]
  require_https_def [THEN fun_cong] finish_request_def [THEN fun_cong] sdk_request_def [THEN fun_cong]
  parse_gateway_status_def [THEN fun_cong] read_clock_def [THEN fun_cong] query_status_def [THEN fun_cong]
  sleep_def [THEN fun_cong] verify_status_def [THEN fun_cong] verify_attempts.simps [THEN fun_cong]

lemmas run_auth = refuse_challenge_def [THEN fun_cong] finish_cas_def [THEN fun_cong]
  do_cas_request_def [THEN fun_cong] do_cas_def [THEN fun_cong] finish_activation_response_def [THEN fun_cong]
  finish_activation_def [THEN fun_cong] logout_online_def [THEN fun_cong] locked_def [THEN fun_cong]
  observed_def [THEN fun_cong] logout_body_def [THEN fun_cong] sdk_logout_def [THEN fun_cong]
  discover_step_def [THEN fun_cong] discover_from.simps [THEN fun_cong] discover_acid_def [THEN fun_cong]
  find_public_key_def [THEN fun_cong] after_form_def [THEN fun_cong] post_credentials_def [THEN fun_cong]
  password_login_def [THEN fun_cong] login_with_page_def [THEN fun_cong] login_offline_def [THEN fun_cong]
  login_body_def [THEN fun_cong] sdk_login_def [THEN fun_cong]

lemma demo_texts:
  "parse_status ''bob,1,2,3,4,5,,,10.0.0.8'' =
     Some \<lparr>Online = True, Username = ''bob'', OnlineIP = Some (10, 0, 0, 8), SummaryOf = None\<rparr>"
  "parse_status ''alice,1,2,3,4,5,,,10.0.0.8'' =
     Some \<lparr>Online = True, Username = ''alice'', OnlineIP = Some (10, 0, 0, 8), SummaryOf = None\<rparr>"
  "parse_status ''not_online_error'' =
     Some \<lparr>Online = False, Username = '''', OnlineIP = None, SummaryOf = None\<rparr>"
  "parse_activation_success ''{\"code\":0,\"message\":\"success\"}'' = Some True"
  "parse_logout_success ''{\"ecode\":0}'' = Some True"
  "unique_acid_from_body ''<a href=/index?ac_id=1>'' = Some ''1''"
  "trim_space ''alice'' = ''alice''"
  by code_simp+

lemma demo_urls:
  "u_scheme (ep_status default_endpoints) = ''https''" "u_host (ep_status default_endpoints) \<noteq> []"
  "\<not> u_user (ep_status default_endpoints)" "u_path (ep_status default_endpoints) = ''/cgi-bin/rad_user_info''"
  "u_scheme (ep_logout default_endpoints) = ''https''" "u_host (ep_logout default_endpoints) \<noteq> []"
  "\<not> u_user (ep_logout default_endpoints)"
  "u_scheme (ep_activation default_endpoints) = ''https''" "u_host (ep_activation default_endpoints) \<noteq> []"
  "\<not> u_user (ep_activation default_endpoints)"
  "u_path (ep_captive default_endpoints) = ''/''"
  "u_path (logout_url (new_client False) u) = ''/cgi-bin/srun_portal''"
  "u_path (activation_url (new_client False) acid ticket) = ''/v1/srun_portal_sso''"
  "u_scheme (cas_login_url (new_client False) acid) = ''https''" "u_host (cas_login_url (new_client False) acid) \<noteq> []"
  "\<not> u_user (cas_login_url (new_client False) acid)"
  "u_path (cas_login_url (new_client False) acid) = ''/tpass/login''"
  "u_scheme demo_cas_form = ''https''" "u_host demo_cas_form \<noteq> []" "\<not> u_user demo_cas_form"
  "u_path demo_cas_form = ''/tpass/login''"
  by (simp_all add: default_endpoints_def plain_url_def logout_url_def activation_url_def new_client_def
      cas_login_url_def set_query_def Let_def demo_cas_form_def)

lemma demo_checks:
  "same_hostname (ep_activation default_endpoints) (ep_service default_endpoints)"
  "valid_same_https_origin demo_cas_form (ep_cas_login default_endpoints)"
  "redirect_decision (CasRedirects (service_url (new_client False) ''1'') (ep_cas_login default_endpoints))
     demo_service (Suc 0) = UseLast (Some (''ST-1'', ''1''))"
  by code_simp+

lemma demo_page_http:
  "wd_http w h rq = page_answer 200 b \<Longrightarrow>
     http_do w p rq n h =
       (Inr (\<lparr>rs_status = 200, rs_location = None, rs_body = Inr b, rs_close = None\<rparr>, rq, None),
        EvHttp rq (page_answer 200 b) # h)"
  by (subst http_do.simps) (simp add: page_answer_def redirect_status_def)

lemma demo_redirect_http:
  "wd_http w h rq = redirect_answer u \<Longrightarrow> redirect_decision p u (Suc 0) = UseLast cap \<Longrightarrow>
     http_do w p rq 0 h =
       (Inr (\<lparr>rs_status = 302, rs_location = Some \<lparr>loc_raw = Some u, loc_resolved = Some u\<rparr>,
              rs_body = Inr '''', rs_close = None\<rparr>, rq, cap),
        EvHttp rq (redirect_answer u) # h)"
  by (subst http_do.simps) (simp add: redirect_answer_def redirect_status_def)

lemma new_client_fields [simp]:
  "cl_ready (new_client obs)" "cl_observer (new_client obs) = obs"
  "cl_endpoints (new_client obs) = default_endpoints"
  by (simp_all add: new_client_def)

lemmas demo_eval = run_basic run_client run_auth demo_texts demo_urls demo_checks demo_page_http
  demo_redirect_http demo_world_def demo_gateway_def demo_parsers_def demo_page_def demo_request_def
  demo_status_def status_of_srun_def activated_def logged_out_def slept_def normalize_request_def
  inspect_acid_response_def inspect_location_def single_form_value_def values_of_def
  read_all_def good_status_def statusResponseLimit_def apiResponseLimit_def htmlResponseLimit_def
  maxACIDDiscoveryResponses_def get_request_def Let_def numeral_2_eq_2 numeral_3_eq_3

text \<open>The requests of the sessions, and the events of a status query.\<close>

definition demo_post :: http_request where
  "demo_post = \<lparr>rq_method = MethodPost, rq_url = demo_cas_form,
     rq_form = Some (login_form ''c2VjcmV0'' ''alice'' ''secret'' ''LT-1'' ''e1s1'')\<rparr>"

definition demo_query :: "string \<Rightarrow> sdk_history" where
  "demo_query user =
     [EvStatus (demo_status user), EvClock 0,
      EvHttp (get_request (ep_status default_endpoints))
        (page_answer 200 (if user = '''' then ''not_online_error'' else user @ '',1,2,3,4,5,,,10.0.0.8''))]"

definition demo_events :: "string \<Rightarrow> sdk_history" where
  "demo_events acid =
     [EvHttp demo_post (redirect_answer demo_service), EvEncrypt (Some ''c2VjcmV0''),
      EvCredential ''alice'' (Inr ''secret''),
      EvHttp (get_request (cas_login_url (new_client False) acid)) (page_answer 200 ''login''),
      EvHttp (get_request (ep_captive default_endpoints)) (page_answer 200 ''<a href=/index?ac_id=1>'')]"

lemma demo_login_conflict:
  "demo_login (Some ''bob'') =
     (Inl (conflict_error ''alice'' ''bob''), [EvUnlock] @ demo_query ''bob'' @ [EvLock None])"
  by (simp add: demo_login_def demo_query_def demo_eval cong: run_cong)

lemma demo_logout_result:
  "demo_logout (Some ''alice'') =
     (Inr (LogoutLoggedOut, demo_status ''''),
      [EvUnlock] @ demo_query '''' @
      [EvHttp (get_request (logout_url (new_client False) ''alice'')) (page_answer 200 ''{\"ecode\":0}'')] @
      demo_query ''alice'' @ [EvLock None])"
  by (simp add: demo_logout_def demo_query_def demo_eval cong: run_cong)

lemma demo_login_result:
  "demo_login None =
     (Inr (Some (LoginLoggedIn, demo_status ''alice'')),
      [EvUnlock] @ demo_query ''alice'' @
      [EvHttp (get_request (activation_url (new_client False) ''1'' ''ST-1''))
         (page_answer 200 ''{\"code\":0,\"message\":\"success\"}'')] @
      demo_events ''1'' @ demo_query '''' @ [EvLock None])"
  by (simp add: demo_login_def demo_query_def demo_events_def demo_post_def demo_eval cong: run_cong)

end
