(* ===== verification/SdkSafety.thy ===== *)
theory SdkSafety
  imports SdkDemo
begin

text \<open>
  What the session never does.  \<open>extends Q m\<close> says that a procedure only adds events to the history,
  and that the added events, newest first, satisfy \<open>Q\<close>.  The locales state which events a \<open>Q\<close> must
  accept for the steps of a login; the lemmas inside them carry \<open>Q\<close> through every procedure of
  \<open>auth.go\<close> once, and the interpretations use them for the three readings of a history this theory
  is about: where requests may go, which gateway answers stand behind a status, and which steps
  are taken only after the session is known to be offline.
\<close>

section \<open>Extending the history\<close>

definition extends :: "('ev list \<Rightarrow> bool) \<Rightarrow> ('ev list, 'e, 'a) proc \<Rightarrow> bool" where
  "extends Q m \<longleftrightarrow> (\<forall>h r h'. m h = (r, h') \<longrightarrow> (\<exists>evs. h' = evs @ h \<and> Q evs))"

lemma extendsI: "(\<And>h r h'. m h = (r, h') \<Longrightarrow> \<exists>evs. h' = evs @ h \<and> Q evs) \<Longrightarrow> extends Q m"
  by (simp add: extends_def)

lemma extendsD: "extends Q m \<Longrightarrow> m h = (r, h') \<Longrightarrow> \<exists>evs. h' = evs @ h \<and> Q evs"
  by (simp add: extends_def)

locale event_law =
  fixes Q :: "sdk_event list \<Rightarrow> bool"
  assumes Q_nil: "Q []"
    and Q_append: "\<And>a b. Q a \<Longrightarrow> Q b \<Longrightarrow> Q (a @ b)"
begin

lemma ext_return: "extends Q (returnP x)"
  using Q_nil by (auto simp: extends_def returnP_def)

lemma ext_throw: "extends Q (throwP e)"
  using Q_nil by (auto simp: extends_def throwP_def)

lemma ext_fail: "extends Q (fail c m r e)" "extends Q (fail_wrapped c m r e2)"
  by (simp_all add: fail_def fail_wrapped_def ext_throw)

lemma ext_bind:
  assumes "extends Q m" "\<And>x. extends Q (k x)" shows "extends Q (bindP m k)"
proof (rule extendsI)
  fix h r h' assume eq: "bindP m k h = (r, h')"
  obtain r1 h1 where m: "m h = (r1, h1)" by (metis surj_pair)
  then obtain ev1 where 1: "h1 = ev1 @ h" "Q ev1" using assms(1) extendsD by blast
  show "\<exists>evs. h' = evs @ h \<and> Q evs"
  proof (cases r1)
    case (Inl e)
    then show ?thesis using eq m 1 by (auto simp: bindP_def)
  next
    case (Inr x)
    then have "k x h1 = (r, h')" using eq m by (simp add: bindP_def)
    then obtain ev2 where "h' = ev2 @ h1" "Q ev2" using assms(2) extendsD by blast
    then show ?thesis using 1 Q_append by (intro exI [of _ "ev2 @ ev1"]) simp
  qed
qed

lemma ext_handle:
  assumes "extends Q m" "\<And>e. extends Q (g e)" "\<And>x. extends Q (k x)"
  shows "extends Q (handleP m g k)"
proof (rule extendsI)
  fix h r h' assume eq: "handleP m g k h = (r, h')"
  obtain r1 h1 where m: "m h = (r1, h1)" by (metis surj_pair)
  then obtain ev1 where 1: "h1 = ev1 @ h" "Q ev1" using assms(1) extendsD by blast
  have "\<exists>ev2. h' = ev2 @ h1 \<and> Q ev2"
    using eq m assms(2,3) extendsD by (cases r1) (fastforce simp: handleP_def)+
  then show "\<exists>evs. h' = evs @ h \<and> Q evs"
    using 1 Q_append by (metis append_assoc)
qed

lemma ext_ask: "(\<And>b. Q [event b]) \<Longrightarrow> extends Q (ask answer event)"
  by (auto simp: extends_def ask_def)

lemma ext_log: "Q [ev] \<Longrightarrow> extends Q (log ev)"
  by (auto simp: extends_def log_def modifyP_def)

lemma ext_http_do:
  assumes "A rq"
    and "\<And>rq' u n s. A rq' \<Longrightarrow> redirect_decision p u n = Follow \<Longrightarrow> A (next_request s rq' u)"
    and "\<And>rq' a. A rq' \<Longrightarrow> Q [EvHttp rq' a]"
  shows "extends Q (http_do w p rq via)"
proof (rule extendsI)
  fix h r h'
  show "http_do w p rq via h = (r, h') \<Longrightarrow> \<exists>evs. h' = evs @ h \<and> Q evs"
    using assms(1,2)
  proof (induction w p rq via h rule: http_do.induct)
    case (1 w p rq via h)
    let ?ev = "EvHttp rq (wd_http w h rq)"
    have Qev: "Q [?ev]" using 1(3) assms(3) by blast
    show ?case
    proof (cases "\<exists>r1 loc u. wd_http w h rq = HopResponse r1 \<and> redirect_status (rs_status r1) \<and>
        rs_location r1 = Some loc \<and> loc_resolved loc = Some u \<and> redirect_decision p u (Suc via) = Follow")
      case True
      then obtain r1 loc u where f: "wd_http w h rq = HopResponse r1" "redirect_status (rs_status r1)"
        "rs_location r1 = Some loc" "loc_resolved loc = Some u" "redirect_decision p u (Suc via) = Follow"
        by blast
      have "http_do w p (next_request (rs_status r1) rq u) (Suc via) (?ev # h) = (r, h')"
        using 1(2) f by (subst (asm) http_do.simps) simp
      then obtain evs where "h' = evs @ ?ev # h" "Q evs"
        using 1(1) [OF refl refl f(1) _ f(3,4,5)] f(1,2) 1(4) [OF 1(3) f(5)] 1(4) by auto
      then show ?thesis using Q_append [OF _ Qev] by (intro exI [of _ "evs @ [?ev]"]) simp
    next
      case False
      then have "h' = ?ev # h"
        using 1(2) by (subst (asm) http_do.simps)
          (auto simp: Let_def split: hop.splits if_splits option.splits decision.splits)
      then show ?thesis using Qev by (intro exI [of _ "[?ev]"]) simp
    qed
  qed
qed

lemmas ext_basic = ext_return ext_throw ext_fail ext_bind ext_handle

end

section \<open>Where requests go\<close>

definition cas_origin :: "sdk_client \<Rightarrow> url \<Rightarrow> bool" where
  "cas_origin c u \<longleftrightarrow> valid_same_https_origin u (ep_cas_login (cl_endpoints c))"

definition discovery_target :: "sdk_client \<Rightarrow> url \<Rightarrow> bool" where
  "discovery_target c u \<longleftrightarrow>
     u = ep_captive (cl_endpoints c) \<or>
     (u_raw_query u = '''' \<and> valid_acid_target u (ep_captive (cl_endpoints c)))"

definition cas_policy :: "sdk_client \<Rightarrow> string \<Rightarrow> policy" where
  "cas_policy c acid = CasRedirects (service_url c acid) (ep_cas_login (cl_endpoints c))"

lemma reject_no_follow [simp]:
  "redirect_decision RejectRedirects u n \<noteq> Follow" "redirect_decision UseLastResponse u n \<noteq> Follow"
  by (simp_all add: redirect_decision_def)

lemma cas_follow: "redirect_decision (CasRedirects s l) u n = Follow \<Longrightarrow> valid_same_https_origin u l"
  by (auto simp: redirect_decision_def valid_same_https_origin_def split: if_splits sum.splits)

lemma rq_url_next [simp]: "rq_url (next_request s rq u) = u"
  by (simp add: next_request_def)

lemma rq_url_get [simp]: "rq_url (get_request u) = u"
  by (simp add: get_request_def)

lemma cas_origin_query [simp]:
  "cas_origin c (u\<lparr>u_raw_query := q\<rparr>) = cas_origin c u"
  by (simp add: cas_origin_def valid_same_https_origin_def same_host_def same_hostname_def
      url_hostname_def normalized_port_def url_port_def)

lemma cas_origin_child: "cas_origin c (child_url c s) = cas_origin c (ep_cas_login (cl_endpoints c))"
  by (simp add: cas_origin_def valid_same_https_origin_def same_host_def same_hostname_def
      url_hostname_def normalized_port_def url_port_def child_url_def Let_def)

text \<open>
  The steps before a ticket is activated: discovery, the CAS page and its scripts, credentials, the
  QR code.
\<close>

locale login_events = event_law Q for Q +
  fixes c :: sdk_client
  assumes cas_ok: "cas_origin c (ep_cas_login (cl_endpoints c))"
    and Q_cas: "\<And>rq a. cas_origin c (rq_url rq) \<Longrightarrow> Q [EvHttp rq a]"
    and Q_discovery: "\<And>u a. discovery_target c u \<Longrightarrow> Q [EvHttp (get_request u) a]"
    and Q_emit: "\<And>n op ph out. Q [EvEmit n op ph out]"
    and Q_clock: "\<And>t. Q [EvClock t]"
    and Q_sleep: "\<And>d a. Q [EvSleep d a]"
    and Q_credential: "\<And>u a. Q [EvCredential u a]"
    and Q_encrypt: "\<And>a. Q [EvEncrypt a]"
    and Q_prompt: "\<And>p a. Q [EvPrompt p a]"
    and Q_uuid: "\<And>a. Q [EvUuid a]"
begin

lemma ext_emit: "extends Q (emit c n op ph out)"
  by (simp add: emit_def ext_log ext_return Q_emit)

lemma ext_clock: "extends Q (read_clock w)"
  by (simp add: read_clock_def ext_ask Q_clock)

lemma ext_sleep: "extends Q (sleep w d)"
  unfolding sleep_def by (intro ext_bind ext_ask Q_sleep) (auto split: option.splits intro: ext_basic)

lemma ext_challenge_error: "extends Q (challenge_error c m ch)"
  unfolding challenge_error_def Let_def by (intro ext_basic ext_emit)

lemma ext_refuse_challenge: "extends Q (refuse_challenge w c m data)"
  unfolding refuse_challenge_def by (auto split: option.splits intro!: ext_basic ext_challenge_error)

lemma ext_cas_do:
  assumes "cas_origin c (rq_url rq)"
  shows "extends Q (http_do w (cas_policy c acid) rq via)"
  using assms
  by (rule ext_http_do [where A = "\<lambda>rq. cas_origin c (rq_url rq)"])
    (auto simp: cas_policy_def cas_origin_def Q_cas dest: cas_follow)

lemma ext_cas_request:
  assumes "cas_origin c u" shows "extends Q (sdk_request w (cas_policy c acid) u limit)"
  unfolding sdk_request_def finish_request_def
  using assms by (auto split: prod.splits sum.splits intro!: ext_basic ext_cas_do)

lemma cas_origin_poll: "cas_origin c (poll_url c uuid nonce)"
  by (simp add: poll_url_def Let_def cas_origin_child cas_ok)

lemma ext_require_https: "extends Q (require_https u)"
  by (simp add: require_https_def ext_basic)

lemma ext_do_cas_request:
  assumes "cas_origin c (rq_url rq)" shows "extends Q (do_cas_request w (cas_policy c acid) rq)"
  unfolding do_cas_request_def finish_cas_def
  using assms by (auto split: prod.splits sum.splits intro!: ext_basic ext_cas_do ext_require_https)

lemma ext_do_cas:
  assumes "cas_origin c (rq_url rq)" shows "extends Q (do_cas w (cas_policy c acid) rq)"
  unfolding do_cas_def using assms by (auto intro!: ext_basic ext_do_cas_request)

lemma ext_discovery_do:
  "discovery_target c u \<Longrightarrow> extends Q (http_do w UseLastResponse (get_request u) via)"
  by (rule ext_http_do [where A = "\<lambda>rq. rq = get_request u"]) (auto simp: Q_discovery)

lemma discovery_next:
  "inspect_acid_response (ep_captive (cl_endpoints c)) r b = Inr (AcidNext (Some u)) \<Longrightarrow> discovery_target c u"
  by (auto simp: inspect_acid_response_def inspect_location_def refused_redirect_def discovery_target_def
      split: acid_location.splits sum.splits option.splits list.splits if_splits)

lemma ext_discover_from: "discovery_target c u \<Longrightarrow> extends Q (discover_from w c n b u)"
proof (induction n arbitrary: b u)
  case (Suc n)
  have "extends Q (discover_step c b (discover_from w c n False) res)" for res
    unfolding discover_step_def no_acid_def
    using Suc.IH discovery_next
    by (auto split: prod.splits sum.splits option.splits acid_result.splits intro!: ext_basic ext_emit)
  then show ?case
    using ext_discovery_do [OF Suc.prems] by (auto intro!: ext_basic)
qed (simp add: no_acid_def ext_basic)

lemma ext_discover_acid: "extends Q (discover_acid w c)"
  unfolding discover_acid_def by (rule ext_discover_from) (simp add: discovery_target_def)

lemma ext_fetch_key:
  "list_all (cas_origin c) us \<Longrightarrow> extends Q (fetch_key w (cas_policy c acid) us)"
  by (induction us) (auto simp: Let_def intro!: ext_basic ext_cas_request)

lemma ext_find_public_key: "extends Q (find_public_key w c (cas_policy c acid) page)"
  unfolding find_public_key_def Let_def
  by (auto simp: script_candidates_def list_all_iff cas_origin_def intro!: ext_basic ext_fetch_key)

end

section \<open>The status query\<close>

lemma http_do_reject:
  assumes "http_do w RejectRedirects rq via h = (r, h')"
  shows "h' = EvHttp rq (wd_http w h rq) # h \<and>
    (\<forall>res. r = Inr res \<longrightarrow> (\<exists>rsp. wd_http w h rq = HopResponse rsp \<and> res = (rsp, rq, None)))"
  using assms
  by (subst (asm) http_do.simps)
    (auto simp: Let_def redirect_decision_def split: hop.splits if_splits option.splits)

text \<open>What the events of a successful status query are.\<close>

definition status_events_of ::
    "sdk_client \<Rightarrow> sdk_event list \<Rightarrow> sdk_status \<Rightarrow> bool" where
  "status_events_of c evs s \<longleftrightarrow>
     (\<exists>p now rsp data. s = status_of_srun p now \<and> rs_body rsp = Inr data \<and>
        good_status (rs_status rsp) \<and> parse_status data = Some p \<and>
        evs = [EvStatus s, EvClock now, EvHttp (get_request (ep_status (cl_endpoints c))) (HopResponse rsp)])"

lemma finish_request_cases:
  "\<exists>r'. finish_request limit res h = (r', h) \<and>
      (\<forall>data. r' = Inr data \<longrightarrow> rs_body (fst res) = Inr data \<and> good_status (rs_status (fst res)))"
  by (cases res) (auto simp: finish_request_def fail_def fail_wrapped_def throwP_def returnP_def read_all_def
      split: sum.splits)

lemma sdk_request_reject:
  assumes "sdk_request w RejectRedirects u limit h = (r, h')"
  shows "(\<exists>a. h' = EvHttp (get_request u) a # h) \<or> (h' = h \<and> (\<exists>e. r = Inl e))"
    and "r = Inr data \<Longrightarrow> \<exists>rsp. h' = EvHttp (get_request u) (HopResponse rsp) # h \<and>
           rs_body rsp = Inr data \<and> good_status (rs_status rsp)"
proof -
  let ?rq = "get_request u"
  have "((\<exists>a. h' = EvHttp ?rq a # h) \<or> (h' = h \<and> (\<exists>e. r = Inl e))) \<and>
    (\<forall>data. r = Inr data \<longrightarrow> (\<exists>rsp. h' = EvHttp ?rq (HopResponse rsp) # h \<and>
           rs_body rsp = Inr data \<and> good_status (rs_status rsp)))"
  proof (cases "wd_request_ok w ?rq")
    case False
    then show ?thesis using assms by (auto simp: sdk_request_def fail_wrapped_def throwP_def)
  next
    case True
    obtain r1 h1 where d: "http_do w RejectRedirects ?rq 0 h = (r1, h1)" by (metis surj_pair)
    note hd = http_do_reject [OF d]
    show ?thesis
    proof (cases r1)
      case (Inl e)
      then show ?thesis
        using assms True d hd by (auto simp: sdk_request_def handleP_def fail_wrapped_def throwP_def)
    next
      case (Inr res)
      then obtain rsp where rsp: "wd_http w h ?rq = HopResponse rsp" "res = (rsp, ?rq, None)"
        using hd by blast
      obtain r' where fr: "finish_request limit res h1 = (r', h1)"
          "\<And>data. r' = Inr data \<Longrightarrow> rs_body rsp = Inr data \<and> good_status (rs_status rsp)"
        using finish_request_cases [of limit res h1] rsp(2) by auto
      then have "r = r'" "h' = h1"
        using assms True d Inr by (auto simp: sdk_request_def handleP_def)
      then show ?thesis using fr hd rsp by auto
    qed
  qed
  then show "(\<exists>a. h' = EvHttp (get_request u) a # h) \<or> (h' = h \<and> (\<exists>e. r = Inl e))"
    and "r = Inr data \<Longrightarrow> \<exists>rsp. h' = EvHttp (get_request u) (HopResponse rsp) # h \<and>
           rs_body rsp = Inr data \<and> good_status (rs_status rsp)"
    by blast+
qed

lemma query_status_events:
  assumes "query_status w c h = (r, h')"
  shows "(\<exists>evs. h' = evs @ h \<and>
    (evs = [] \<or> (\<exists>a. evs = [EvHttp (get_request (ep_status (cl_endpoints c))) a]) \<or>
     (\<exists>s. r = Inr s \<and> status_events_of c evs s))) \<and>
    (\<forall>s. r = Inr s \<longrightarrow> (\<exists>evs. h' = evs @ h \<and> status_events_of c evs s))"
proof -
  let ?u = "ep_status (cl_endpoints c)"
  obtain r1 h1 where q: "sdk_request w RejectRedirects ?u statusResponseLimit h = (r1, h1)"
    by (metis surj_pair)
  show ?thesis
  proof (cases "\<exists>e. require_https ?u h = (Inl e, h)")
    case True
    then show ?thesis using assms by (auto simp: query_status_def bindP_def)
  next
    case False
    then have rh: "require_https ?u h = (Inr (), h)"
      by (auto simp: require_https_def fail_def throwP_def returnP_def split: if_splits)
    show ?thesis
    proof (cases r1)
      case (Inl e)
      then show ?thesis
        using assms rh q sdk_request_reject(1) [OF q] by (auto simp: query_status_def bindP_def)
    next
      case (Inr data)
      then obtain rsp where rsp: "h1 = EvHttp (get_request ?u) (HopResponse rsp) # h"
        "rs_body rsp = Inr data" "good_status (rs_status rsp)"
        using sdk_request_reject(2) [OF q] by blast
      show ?thesis
      proof (cases "parse_status data")
        case None
        then show ?thesis
          using assms rh q Inr rsp
          by (auto simp: query_status_def bindP_def parse_gateway_status_def throwP_def)
      next
        case (Some p)
        let ?s = "status_of_srun p (wd_now w h1)"
        have "r = Inr ?s" "h' = [EvStatus ?s, EvClock (wd_now w h1),
              EvHttp (get_request ?u) (HopResponse rsp)] @ h"
          using assms rh q Inr rsp(1) Some
          by (auto simp: query_status_def bindP_def parse_gateway_status_def read_clock_def ask_def
              log_def modifyP_def returnP_def)
        then show ?thesis using rsp Some unfolding status_events_of_def by blast
      qed
    qed
  qed
qed

text \<open>The steps that only look at the session or end it.\<close>

locale status_events = event_law Q for Q +
  fixes c :: sdk_client
  assumes st_status: "\<And>evs s. status_events_of c evs s \<Longrightarrow> Q evs"
    and st_http: "\<And>a. Q [EvHttp (get_request (ep_status (cl_endpoints c))) a]"
    and st_logout: "\<And>u a. Q [EvHttp (get_request (logout_url c u)) a]"
    and st_sleep: "\<And>d a. Q [EvSleep d a]"
begin

lemma ext_query_status: "extends Q (query_status w c)"
proof (rule extendsI)
  fix h r h' assume "query_status w c h = (r, h')"
  from query_status_events [OF this, THEN conjunct1] obtain evs where e: "h' = evs @ h"
    and "evs = [] \<or> (\<exists>a. evs = [EvHttp (get_request (ep_status (cl_endpoints c))) a]) \<or>
         (\<exists>s. r = Inr s \<and> status_events_of c evs s)" by (elim exE conjE)
  then have "Q evs" by (elim disjE exE conjE) (simp_all add: Q_nil st_http st_status)
  with e show "\<exists>evs. h' = evs @ h \<and> Q evs" by (intro exI conjI)
qed

lemma ext_pause: "extends Q (if pause then sleep w d else returnP ())"
  unfolding sleep_def
  by (auto split: option.splits intro!: ext_basic ext_bind ext_ask st_sleep)

lemma ext_verify_attempts: "extends Q (verify_attempts w c expected user pause n last_status)"
proof (induction n arbitrary: pause last_status)
  case (Suc n)
  then show ?case by (simp add: ext_bind ext_pause ext_query_status ext_return)
qed (simp add: ext_basic)

lemma ext_verify_status: "extends Q (verify_status w c expected user)"
  unfolding verify_status_def by (rule ext_verify_attempts)

lemma ext_logout_online: "extends Q (logout_online w c user)"
proof -
  have "extends Q (sdk_request w RejectRedirects (logout_url c user) limit)" for limit
  proof (rule extendsI)
    fix h r h' assume "sdk_request w RejectRedirects (logout_url c user) limit h = (r, h')"
    from sdk_request_reject(1) [OF this] show "\<exists>evs. h' = evs @ h \<and> Q evs"
      using Q_nil st_logout by (auto intro: exI [of _ "[_]"])
  qed
  moreover have "extends Q (require_https u)" for u by (simp add: require_https_def ext_basic)
  ultimately show ?thesis
    unfolding logout_online_def
    by (auto split: option.splits intro!: ext_basic ext_verify_status)
qed

end

text \<open>All of a session.\<close>

locale session_events = login_events Q c + status_events Q c for Q c +
  assumes Q_activation: "\<And>acid ticket a. Q [EvHttp (get_request (activation_url c acid ticket)) a]"
    and Q_lock: "\<And>a. Q [EvLock a]"
    and Q_unlock: "Q [EvUnlock]"
begin

lemma ext_finish_activation: "extends Q (finish_activation w c m user acid ticket)"
proof -
  have "extends Q (http_do w RejectRedirects (get_request (activation_url c acid ticket)) 0)"
    by (rule ext_http_do [where A = "\<lambda>rq. rq = get_request (activation_url c acid ticket)"])
      (auto simp: Q_activation)
  then show ?thesis
    unfolding finish_activation_def finish_activation_response_def Let_def
    by (auto split: prod.splits sum.splits option.splits
        intro!: ext_basic ext_refuse_challenge ext_verify_status ext_require_https)
qed

lemma ext_password_login:
  "extends Q (password_login w c rq (service_url c acid) acid page data)"
proof -
  have "extends Q (post_credentials w c rq (service_url c acid) acid action lt execution key)"
    if "cas_origin c action" for action lt execution key
    using that ext_do_cas_request [of _ w acid] unfolding post_credentials_def after_form_def Let_def cas_policy_def
    by (auto split: sum.splits option.splits prod.splits
        intro!: ext_basic ext_ask Q_credential Q_encrypt ext_finish_activation ext_refuse_challenge)
  then show ?thesis
    using ext_find_public_key [of w acid page] unfolding password_login_def cas_policy_def
    by (auto simp: cas_origin_def split: option.splits
        intro!: ext_basic ext_refuse_challenge)
qed

lemma ext_finish_qr_confirmation:
  "extends Q (finish_qr_confirmation w c rq (service_url c acid) acid redirect)"
  using ext_do_cas [of "get_request u" w acid for u]
  unfolding finish_qr_confirmation_def after_confirmation_def Let_def cas_policy_def
  by (auto simp: cas_origin_def split: option.splits sum.splits prod.splits
      intro!: ext_basic ext_finish_activation ext_challenge_error)



lemma ext_qr_poll:
  "extends Q (qr_poll n w c (cas_policy c acid) rq (service_url c acid) acid uuid deadline)"
proof (induction n)
  case (Suc n)
  show ?case
    using Suc ext_cas_request [OF cas_origin_poll]
    by (auto split: option.splits cas_poll.splits
        intro!: ext_basic ext_clock ext_ask Q_uuid ext_finish_qr_confirmation ext_challenge_error ext_sleep)
qed (simp add: ext_basic)

lemma ext_qr_login:
  "extends Q (qr_login n w c (cas_policy c acid) rq (service_url c acid) acid page)"
proof -
  have "extends Q (qr_presented n w c (cas_policy c acid) rq (service_url c acid) acid uuid)" for uuid
    unfolding qr_presented_def Let_def
    by (auto split: option.splits intro!: ext_basic ext_clock ext_ask Q_prompt ext_qr_poll)
  then show ?thesis
    unfolding qr_login_def by (auto split: option.splits intro!: ext_basic ext_ask Q_uuid)
qed

lemma ext_login_offline: "extends Q (login_offline n w c rq)"
proof -
  have "extends Q (login_with_page n w c rq acid res)" for acid res
    using ext_qr_login [of n w acid] unfolding login_with_page_def cas_policy_def
    by (auto split: prod.splits option.splits sdk_method.splits
        intro!: ext_basic ext_finish_activation ext_challenge_error ext_password_login)
  moreover have "cas_origin c (cas_login_url c acid)" for acid
    by (simp add: cas_login_url_def set_query_def cas_ok)
  ultimately show ?thesis
    using ext_do_cas [of "get_request (cas_login_url c acid)" w acid for acid]
    unfolding login_offline_def cas_policy_def by (auto intro!: ext_basic ext_discover_acid)
qed

lemma ext_locked: "extends Q body \<Longrightarrow> extends Q (locked w m body)"
  unfolding locked_def
  by (auto split: option.splits intro!: ext_basic ext_ask ext_log Q_lock Q_unlock)

lemma ext_observed: "extends Q body \<Longrightarrow> extends Q (observed c op body)"
  unfolding observed_def by (auto intro!: ext_basic ext_emit)

lemma ext_validate: "extends Q (validate_public_call c b)"
  by (simp add: validate_public_call_def ext_basic)

lemma ext_sdk_login: "extends Q (sdk_login n w c b rq)"
proof -
  have "extends Q (login_body n w c rq)"
    unfolding login_body_def Let_def
    by (auto intro!: ext_basic ext_query_status ext_logout_online ext_login_offline)
  then show ?thesis
    unfolding sdk_login_def by (auto intro!: ext_basic ext_validate ext_observed ext_locked)
qed

lemma ext_sdk_logout: "extends Q (sdk_logout w c b)"
proof -
  have "extends Q (logout_body w c)"
    unfolding logout_body_def by (auto intro!: ext_basic ext_query_status ext_logout_online)
  then show ?thesis
    unfolding sdk_logout_def by (auto intro!: ext_basic ext_validate ext_observed ext_locked)
qed

end

section \<open>Requests stay with the gateway and the CAS\<close>

definition gateway_url :: "sdk_client \<Rightarrow> url \<Rightarrow> bool" where
  "gateway_url c u \<longleftrightarrow>
     u\<lparr>u_raw_query := ''''\<rparr> \<in>
       {ep_status (cl_endpoints c), ep_logout (cl_endpoints c), ep_activation (cl_endpoints c)}"

definition request_ok :: "sdk_client \<Rightarrow> http_request \<Rightarrow> bool" where
  "request_ok c rq \<longleftrightarrow>
     cas_origin c (rq_url rq) \<or>
     (rq_form rq = None \<and> (gateway_url c (rq_url rq) \<or> discovery_target c (rq_url rq)))"

definition event_ok :: "sdk_client \<Rightarrow> sdk_event \<Rightarrow> bool" where
  "event_ok c ev = (case ev of EvHttp rq _ \<Rightarrow> request_ok c rq | _ \<Rightarrow> True)"

lemma cas_origin_default: "cas_origin (new_client obs) (ep_cas_login default_endpoints)"
  by (simp add: cas_origin_def valid_same_https_origin_def same_host_def same_hostname_def
      default_endpoints_def plain_url_def)

lemma endpoint_queries:
  "u_raw_query (ep_status default_endpoints) = ''''" "u_raw_query (ep_logout default_endpoints) = ''''"
  "u_raw_query (ep_activation default_endpoints) = ''''" "u_raw_query (ep_captive default_endpoints) = ''''"
  by (simp_all add: default_endpoints_def plain_url_def)

lemma gateway_urls:
  "gateway_url (new_client obs) (ep_status default_endpoints)"
  "gateway_url (new_client obs) (logout_url (new_client obs) user)"
  "gateway_url (new_client obs) (activation_url (new_client obs) acid ticket)"
  by (simp_all add: gateway_url_def logout_url_def activation_url_def Let_def
      default_endpoints_def plain_url_def)

interpretation requests: session_events "list_all (event_ok (new_client obs))" "new_client obs" for obs
proof
  fix evs s assume "status_events_of (new_client obs) evs s"
  then show "list_all (event_ok (new_client obs)) evs"
    by (auto simp: status_events_of_def event_ok_def request_ok_def gateway_urls get_request_def)
qed (auto simp: event_ok_def request_ok_def gateway_urls get_request_def cas_origin_default)

lemma discovery_target_no_query:
  "discovery_target (new_client obs) u \<Longrightarrow> u_raw_query u = ''''"
  by (auto simp: discovery_target_def endpoint_queries)

lemma gateway_url_parts:
  assumes "gateway_url (new_client obs) u"
  shows "u_scheme u = ''https''" "u_user u = False" "u_host u = ''ipgw.neu.edu.cn''"
proof -
  obtain v where "u\<lparr>u_raw_query := ''''\<rparr> = v"
    "v \<in> {ep_status default_endpoints, ep_logout default_endpoints, ep_activation default_endpoints}"
    using assms by (auto simp: gateway_url_def)
  then have "u_scheme (u\<lparr>u_raw_query := ''''\<rparr>) = ''https''" "u_user (u\<lparr>u_raw_query := ''''\<rparr>) = False"
    "u_host (u\<lparr>u_raw_query := ''''\<rparr>) = ''ipgw.neu.edu.cn''"
    by (auto simp: default_endpoints_def plain_url_def)
  then show "u_scheme u = ''https''" "u_user u = False" "u_host u = ''ipgw.neu.edu.cn''" by simp_all
qed

definition carries_ticket :: "http_request \<Rightarrow> bool" where
  "carries_ticket rq \<longleftrightarrow> get_value (query_values (u_raw_query (rq_url rq))) ''ticket'' \<noteq> ''''"

lemma query_values_empty: "query_values '''' = []"
  by (simp add: query_values_def query_pieces_def map_filter_def)

lemma request_ok_secrets:
  assumes "request_ok (new_client obs) rq"
  shows "(rq_form rq \<noteq> None \<longrightarrow> cas_origin (new_client obs) (rq_url rq)) \<and>
         (carries_ticket rq \<longrightarrow> u_scheme (rq_url rq) = ''https'' \<and> \<not> u_user (rq_url rq)) \<and>
         (u_scheme (rq_url rq) \<noteq> ''https'' \<longrightarrow> discovery_target (new_client obs) (rq_url rq))"
  using assms gateway_url_parts discovery_target_no_query [of obs "rq_url rq"]
  by (auto simp: request_ok_def carries_ticket_def query_values_empty get_value_def values_of_def
      cas_origin_def valid_same_https_origin_def)

text \<open>C7: secrets do not leave the trusted origins.  In every login, whatever the gateway, the CAS, the
  redirects and the pages they serve say: the encrypted credentials are only ever posted to the HTTPS
  origin of the CAS; a request that carries a ticket goes over HTTPS and without user information; the
  only requests that are not HTTPS are those that discover the access controller, and they carry
  neither a form nor a ticket; and every request goes to the CAS or to the gateway host.\<close>

theorem login_requests_confined:
  assumes "sdk_login fuel w (new_client obs) ctx_set rq [] = (r, h)" and "EvHttp q a \<in> set h"
  shows "(rq_form q \<noteq> None \<longrightarrow> cas_origin (new_client obs) (rq_url q)) \<and>
         (carries_ticket q \<longrightarrow> u_scheme (rq_url q) = ''https'' \<and> \<not> u_user (rq_url q)) \<and>
         (u_scheme (rq_url q) \<noteq> ''https'' \<longrightarrow>
            discovery_target (new_client obs) (rq_url q) \<and> rq_form q = None \<and> \<not> carries_ticket q) \<and>
         (same_hostname (rq_url q) (ep_cas_login default_endpoints) \<or>
          same_hostname (rq_url q) (ep_captive default_endpoints))"
proof -
  have "list_all (event_ok (new_client obs)) h"
    using extendsD [OF requests.ext_sdk_login assms(1)] by simp
  then have ok: "request_ok (new_client obs) q" using assms(2) by (auto simp: list_all_iff event_ok_def)
  have host: "same_hostname (rq_url q) (ep_cas_login default_endpoints) \<or>
      same_hostname (rq_url q) (ep_captive default_endpoints)"
    using ok gateway_url_parts(3) [of obs "rq_url q"]
    by (auto simp: request_ok_def cas_origin_def valid_same_https_origin_def same_host_def
        discovery_target_def valid_acid_target_def same_hostname_def url_hostname_def
        default_endpoints_def plain_url_def)
  show ?thesis
    using request_ok_secrets [OF ok] host ok
    by (auto simp: request_ok_def cas_origin_def valid_same_https_origin_def dest: gateway_url_parts)
qed

theorem login_requests_confined_witness:
  "rq_form demo_post \<noteq> None \<and> cas_origin (new_client False) (rq_url demo_post) \<and>
   carries_ticket (get_request (activation_url (new_client False) ''1'' ''ST-1'')) \<and>
   u_scheme (activation_url (new_client False) ''1'' ''ST-1'') = ''https''"
proof -
  note run = demo_login_result [unfolded demo_login_def]
  have post: "rq_form demo_post \<noteq> None" by (simp add: demo_post_def)
  have ticket: "carries_ticket (get_request (activation_url (new_client False) ''1'' ''ST-1''))"
    by code_simp
  have "EvHttp demo_post (redirect_answer demo_service) \<in> set (snd (demo_login None))"
    by (simp add: demo_login_result demo_events_def)
  then have "cas_origin (new_client False) (rq_url demo_post)"
    using login_requests_confined [OF run, of demo_post "redirect_answer demo_service"] post
    by (simp add: demo_login_result)
  moreover have "u_scheme (activation_url (new_client False) ''1'' ''ST-1'') = ''https''"
    using login_requests_confined [OF run, of "get_request (activation_url (new_client False) ''1'' ''ST-1'')"
        "page_answer 200 ''{\"code\":0,\"message\":\"success\"}''"] ticket
    by (simp add: get_request_def)
  ultimately show ?thesis using post ticket by simp
qed

section \<open>A status is what the gateway answered\<close>

definition backed_by :: "sdk_client \<Rightarrow> sdk_status \<Rightarrow> sdk_history \<Rightarrow> bool" where
  "backed_by c s h \<longleftrightarrow> status_events_of c (EvStatus s # take 2 h) s"

fun backed :: "sdk_client \<Rightarrow> sdk_history \<Rightarrow> bool" where
  "backed c [] = True"
| "backed c (e # h) =
     (backed c h \<and> (case e of EvStatus s \<Rightarrow> backed_by c s h | _ \<Rightarrow> True))"

lemma backed_by_append: "backed_by c s a \<Longrightarrow> backed_by c s (a @ b)"
  by (cases a; cases "tl a") (auto simp: backed_by_def status_events_of_def)

lemma backed_append: "backed c a \<Longrightarrow> backed c b \<Longrightarrow> backed c (a @ b)"
  by (induction a) (auto split: sdk_event.splits simp: backed_by_append)

interpretation answers: session_events "backed (new_client obs)" "new_client obs" for obs
proof
  fix evs s assume "status_events_of (new_client obs) evs s"
  then have e: "status_events_of (new_client obs) evs s" .
  then obtain b d where evs: "evs = [EvStatus s, EvClock b, d]" "\<And>t. d \<noteq> EvStatus t"
    unfolding status_events_of_def by blast
  have "backed_by (new_client obs) s [EvClock b, d]" using e evs(1) by (simp add: backed_by_def)
  then show "backed (new_client obs) evs" using evs by (auto split: sdk_event.splits)
qed (auto simp: backed_append cas_origin_default)

lemma backedD: "backed c h \<Longrightarrow> h = post @ EvStatus s # pre \<Longrightarrow> backed_by c s pre"
  by (induction post arbitrary: h) auto

section \<open>Nothing happens before the session is known to be offline\<close>

definition is_status :: "sdk_event \<Rightarrow> bool" where
  "is_status ev = (case ev of EvStatus _ \<Rightarrow> True | _ \<Rightarrow> False)"

text \<open>
  The steps of a login proper: asking for the password, using it, showing the QR code, posting the
  form, redeeming a ticket.
\<close>

definition login_action :: "sdk_event \<Rightarrow> bool" where
  "login_action ev =
     (case ev of EvCredential _ _ \<Rightarrow> True | EvEncrypt _ \<Rightarrow> True | EvPrompt _ _ \<Rightarrow> True
      | EvHttp rq _ \<Rightarrow> rq_form rq \<noteq> None \<or> carries_ticket rq | _ \<Rightarrow> False)"

text \<open>The last gateway status the code has read.\<close>

fun known :: "sdk_history \<Rightarrow> sdk_status option" where
  "known [] = None"
| "known (e # h) = (case e of EvStatus s \<Rightarrow> Some s | _ \<Rightarrow> known h)"

definition offline_known :: "sdk_history \<Rightarrow> bool" where
  "offline_known h = (case known h of None \<Rightarrow> False | Some s \<Rightarrow> s_session s = StOffline)"

fun guarded :: "sdk_history \<Rightarrow> bool" where
  "guarded [] = True"
| "guarded (e # h) = (guarded h \<and> (login_action e \<longrightarrow> offline_known h))"

abbreviation quiet_events :: "sdk_event list \<Rightarrow> bool" where
  "quiet_events \<equiv> list_all (\<lambda>ev. \<not> is_status ev)"

abbreviation passive_events :: "sdk_event list \<Rightarrow> bool" where
  "passive_events \<equiv> list_all (\<lambda>ev. \<not> login_action ev)"

lemma known_quiet: "quiet_events evs \<Longrightarrow> known (evs @ h) = known h"
  by (induction evs) (auto simp: is_status_def split: sdk_event.splits)

lemma guarded_quiet: "quiet_events evs \<Longrightarrow> guarded h \<Longrightarrow> offline_known h \<Longrightarrow> guarded (evs @ h)"
  by (induction evs) (auto simp: offline_known_def known_quiet)

lemma guarded_passive: "passive_events evs \<Longrightarrow> guarded h \<Longrightarrow> guarded (evs @ h)"
  by (induction evs) auto

interpretation quiet: login_events quiet_events "new_client obs" for obs
  by unfold_locales (auto simp: is_status_def cas_origin_default)

lemma query_values_encode: "query_values (encode_values q) = sort_key fst q"
  using parse_encode_values [of q] by (simp add: parse_query_def split: if_splits)

lemma get_value_absent:
  assumes "k \<notin> fst ` set q" shows "get_value q k = []"
proof -
  have "filter (\<lambda>p. fst p = k) q = []" using assms by (auto simp: filter_empty_conv)
  then show ?thesis by (simp add: get_value_def values_of_def)
qed

lemma logout_url_no_ticket: "\<not> carries_ticket (get_request (logout_url (new_client obs) user))"
  unfolding carries_ticket_def
  by (simp add: logout_url_def Let_def query_values_encode endpoint_queries query_values_empty
      set_value_def get_value_absent)

lemma status_url_no_ticket: "\<not> carries_ticket (get_request (ep_status default_endpoints))"
  by (simp add: carries_ticket_def endpoint_queries query_values_empty get_value_def values_of_def)

lemma login_action_http [simp]:
  "login_action (EvHttp (get_request u) a) = carries_ticket (get_request u)"
  by (simp add: login_action_def get_request_def)

interpretation looking: status_events passive_events "new_client obs" for obs
proof
  fix evs s assume "status_events_of (new_client obs) evs s"
  then obtain now rsp where "evs = [EvStatus s, EvClock now,
      EvHttp (get_request (ep_status default_endpoints)) (HopResponse rsp)]"
    by (auto simp: status_events_of_def)
  then show "passive_events evs" by (simp add: status_url_no_ticket) (simp add: login_action_def)
qed (simp_all add: logout_url_no_ticket status_url_no_ticket, simp_all add: login_action_def)

end
