(* ===== verification/SdkLogin.thy ===== *)
theory SdkLogin
  imports SdkSafety
begin

text \<open>
  What a login and a logout achieve, and what they do to whom.  The history is read with \<open>known\<close>, the
  last gateway status, and \<open>guarded\<close>: every login step was taken while that status was offline.  The
  procedures of \<open>auth.go\<close> carry both as pre- and postconditions.
\<close>

section \<open>Pre- and postconditions\<close>

definition cleared :: "sdk_history \<Rightarrow> bool" where
  "cleared h \<longleftrightarrow> guarded h \<and> offline_known h"

lemma cleared_guarded: "cleared h \<Longrightarrow> guarded h"
  by (simp add: cleared_def)

lemma triple_quiet:
  assumes "extends quiet_events m" shows "triple cleared m (\<lambda>_. cleared) (\<lambda>_. guarded)"
proof -
  have *: "cleared (evs @ h)" if "quiet_events evs" "cleared h" for evs h
    using that by (simp add: cleared_def guarded_quiet offline_known_def known_quiet)
  show ?thesis
    by (rule tripleI) (use assms * in \<open>blast dest: extendsD cleared_guarded\<close>)+
qed

lemma triple_passive:
  "extends passive_events m \<Longrightarrow> triple guarded m (\<lambda>_. guarded) (\<lambda>_. guarded)"
  by (rule tripleI) (blast dest: extendsD guarded_passive)+

lemma triple_pre: "triple P m Q E \<Longrightarrow> (\<And>h. P' h \<Longrightarrow> P h) \<Longrightarrow> triple P' m Q E"
  by (rule triple_weaken)

lemma triple_quiet_bind:
  assumes "extends quiet_events m" "\<And>x. triple cleared (k x) Q (\<lambda>_. guarded)"
  shows "triple cleared (bindP m k) Q (\<lambda>_. guarded)"
  by (rule triple_bind [OF triple_quiet [OF assms(1)] assms(2)])

lemma triple_cleared_fail:
  "triple cleared (throwP e) Q (\<lambda>_. guarded)"
  "triple cleared (fail c m r e2) Q (\<lambda>_. guarded)"
  "triple cleared (fail_wrapped c m r e3) Q (\<lambda>_. guarded)"
  by (simp_all add: fail_def fail_wrapped_def triple_throw cleared_guarded)

lemma triple_quiet_handle:
  assumes "extends quiet_events m" and "\<And>x. triple cleared (k x) Q (\<lambda>_. guarded)"
  shows "triple cleared (handleP m (fail_wrapped c s b) k) Q (\<lambda>_. guarded)"
  by (rule triple_handle [OF triple_quiet [OF assms(1)] assms(2)]) (simp add: fail_wrapped_def triple_throw)

section \<open>The status queries\<close>

text \<open>The last status read is \<open>s\<close>.\<close>

definition settled :: "sdk_status \<Rightarrow> sdk_history \<Rightarrow> bool" where
  "settled s h \<longleftrightarrow> guarded h \<and> known h = Some s"

lemma settled_offline: "settled s h \<Longrightarrow> s_session s = StOffline \<Longrightarrow> cleared h"
  by (simp add: settled_def cleared_def offline_known_def)

lemma status_of_srun_session: "s_session (status_of_srun p now) \<in> {StOnline, StOffline}"
  by (simp add: status_of_srun_def)

lemma triple_query_status:
  "triple guarded (query_status w (new_client obs))
     (\<lambda>s h. settled s h \<and> s_session s \<in> {StOnline, StOffline}) (\<lambda>_. guarded)"
proof (rule tripleI)
  fix h s h' assume "guarded h" and q: "query_status w (new_client obs) h = (Inr s, h')"
  from query_status_events [OF q, THEN conjunct2] obtain evs
    where e: "h' = evs @ h" "status_events_of (new_client obs) evs s" by blast
  have "guarded h'"
    using extendsD [OF looking.ext_query_status q] guarded_passive \<open>guarded h\<close> by blast
  moreover have "known h' = Some s" using e by (auto simp: status_events_of_def)
  moreover have "s_session s \<in> {StOnline, StOffline}"
    using e(2) status_of_srun_session by (auto simp: status_events_of_def)
  ultimately show "settled s h' \<and> s_session s \<in> {StOnline, StOffline}" by (simp add: settled_def)
next
  fix h e h' assume "guarded h" "query_status w (new_client obs) h = (Inl e, h')"
  then show "guarded h'"
    using extendsD [OF looking.ext_query_status] guarded_passive by blast
qed

lemma triple_verify_attempts:
  "triple guarded (verify_attempts w (new_client obs) expected user pause n seen)
     (\<lambda>s h. settled s h \<and> s_session s = expected \<and> (user = '''' \<or> s_username s = user)) (\<lambda>_. guarded)"
proof (induction n arbitrary: pause seen)
  case 0
  then show ?case by (simp add: triple_throw)
next
  case (Suc n)
  have sleep: "triple guarded (if pause then sleep w d else returnP ()) (\<lambda>_. guarded) (\<lambda>_. guarded)" for d
    by (rule triple_passive [OF looking.ext_pause])
  have again: "triple (\<lambda>h. settled s h \<and> s_session s \<in> {StOnline, StOffline})
      (verify_attempts w (new_client obs) expected user True n s)
      (\<lambda>s h. settled s h \<and> s_session s = expected \<and> (user = '''' \<or> s_username s = user))
      (\<lambda>_. guarded)" for s
    by (rule triple_pre [OF Suc]) (simp add: settled_def)
  show ?case
    unfolding verify_attempts.simps
    by (intro triple_bind [OF sleep] triple_bind [OF triple_query_status] triple_if again)
      (auto intro: triple_return)
qed

lemma triple_verify_status:
  "triple guarded (verify_status w (new_client obs) expected user)
     (\<lambda>s h. settled s h \<and> s_session s = expected \<and> (user = '''' \<or> s_username s = user)) (\<lambda>_. guarded)"
  unfolding verify_status_def by (rule triple_verify_attempts)

lemma triple_logout_online:
  "triple guarded (logout_online w (new_client obs) user)
     (\<lambda>os h. settled (snd os) h \<and> s_session (snd os) = StOffline \<and> fst os = LogoutLoggedOut) (\<lambda>_. guarded)"
proof -
  have https: "triple guarded (require_https u) (\<lambda>_. guarded) (\<lambda>_. guarded)" for u
    by (rule triple_passive) (simp add: require_https_def looking.ext_basic)
  have rq: "triple guarded (sdk_request w RejectRedirects (logout_url (new_client obs) user) limit)
      (\<lambda>_. guarded) (\<lambda>_. guarded)" for limit
  proof (rule triple_passive, rule extendsI)
    fix h r h' assume "sdk_request w RejectRedirects (logout_url (new_client obs) user) limit h = (r, h')"
    from sdk_request_reject(1) [OF this] show "\<exists>evs. h' = evs @ h \<and> passive_events evs"
      using looking.Q_nil looking.st_logout by (auto intro: exI [of _ "[_]"])
  qed
  show ?thesis
    unfolding logout_online_def
    by (intro triple_bind [OF https] triple_bind [OF rq])
      (auto split: option.splits simp: fail_def intro!: triple_throw
        triple_bind [OF triple_verify_status] triple_return)
qed

section \<open>The steps of a login\<close>

text \<open>The last status read shows the expected user online.\<close>

definition online_as :: "string \<Rightarrow> sdk_status \<Rightarrow> sdk_history \<Rightarrow> bool" where
  "online_as user s h \<longleftrightarrow> settled s h \<and> s_session s = StOnline \<and> s_username s = user"

abbreviation logs_in :: "string \<Rightarrow> (login_outcome \<times> sdk_status) sdk \<Rightarrow> bool" where
  "logs_in user m \<equiv>
     triple cleared m (\<lambda>os h. fst os = LoginLoggedIn \<and> online_as user (snd os) h) (\<lambda>_. guarded)"

definition login_result :: "string \<Rightarrow> (login_outcome \<times> sdk_status) option \<Rightarrow> sdk_history \<Rightarrow> bool" where
  "login_result user r h \<longleftrightarrow>
     (case r of None \<Rightarrow> guarded h | Some os \<Rightarrow> fst os = LoginLoggedIn \<and> online_as user (snd os) h)"

abbreviation logs_in_opt :: "string \<Rightarrow> (login_outcome \<times> sdk_status) option sdk \<Rightarrow> bool" where
  "logs_in_opt user m \<equiv> triple cleared m (login_result user) (\<lambda>_. guarded)"

lemma logs_in_Some: "logs_in user m \<Longrightarrow> logs_in_opt user (bindP m (\<lambda>x. returnP (Some x)))"
  by (erule triple_bind) (auto intro: triple_return simp: login_result_def)

lemma triple_challenge_error:
  "triple cleared (challenge_error (new_client obs) m ch) Q (\<lambda>_. guarded)"
  unfolding challenge_error_def Let_def
  by (rule triple_quiet_bind [OF quiet.ext_emit triple_cleared_fail(1)])

lemma logs_in_finish_activation:
  assumes "user \<noteq> []"
  shows "logs_in user (finish_activation w (new_client obs) m user acid ticket)"
proof -
  have activate: "extends quiet_events
      (http_do w RejectRedirects (get_request (activation_url (new_client obs) acid ticket)) 0)"
    by (rule quiet.ext_http_do [where A = "\<lambda>_. True"]) (auto simp: is_status_def)
  have verify: "logs_in user (bindP (verify_status w (new_client obs) StOnline user) (\<lambda>s. returnP (LoginLoggedIn, s)))"
    by (rule triple_bind [OF triple_pre [OF triple_verify_status cleared_guarded]])
      (use assms in \<open>auto intro!: triple_return simp: online_as_def\<close>)
  have response: "logs_in user (finish_activation_response w (new_client obs) m user res)" for res
    unfolding finish_activation_response_def
    by (auto split: prod.splits sum.splits option.splits
        intro!: triple_cleared_fail triple_quiet_bind quiet.ext_refuse_challenge verify)
  show ?thesis
    unfolding finish_activation_def Let_def
    by (intro triple_quiet_bind quiet.ext_require_https triple_if triple_cleared_fail
        triple_quiet_handle activate response)
qed

lemma logs_in_post_credentials:
  assumes "cas_origin (new_client obs) action" "lr_expected rq \<noteq> []"
  shows "logs_in (lr_expected rq)
    (post_credentials w (new_client obs) rq (service_url (new_client obs) acid) acid action lt execution key)"
proof -
  have after: "logs_in (lr_expected rq) (after_form w (new_client obs) rq acid res)" for res
    unfolding after_form_def
    by (auto split: prod.splits option.splits
        intro!: triple_cleared_fail triple_quiet_bind quiet.ext_refuse_challenge
          logs_in_finish_activation assms(2))
  show ?thesis
    unfolding post_credentials_def
    using quiet.ext_do_cas_request [of obs _ w acid] assms(1)
    by (auto simp: Let_def cas_policy_def split: sum.splits option.splits
        intro!: triple_cleared_fail triple_quiet_bind quiet.ext_ask after
        simp: is_status_def)
qed

lemma logs_in_password_login:
  assumes "lr_expected rq \<noteq> []"
  shows "logs_in (lr_expected rq)
    (password_login w (new_client obs) rq (service_url (new_client obs) acid) acid page data)"
  unfolding password_login_def
  using quiet.ext_find_public_key [of w obs acid page] assms
  by (auto simp: cas_policy_def cas_origin_def split: option.splits
      intro!: triple_cleared_fail triple_quiet_bind quiet.ext_refuse_challenge logs_in_post_credentials)

lemma logs_in_finish_qr_confirmation:
  assumes "lr_expected rq \<noteq> []"
  shows "logs_in (lr_expected rq)
    (finish_qr_confirmation w (new_client obs) rq (service_url (new_client obs) acid) acid redirect)"
proof -
  have after: "logs_in (lr_expected rq) (after_confirmation w (new_client obs) rq acid res)" for res
    unfolding after_confirmation_def
    by (auto split: prod.splits option.splits
        intro!: triple_cleared_fail triple_challenge_error logs_in_finish_activation assms)
  show ?thesis
    using quiet.ext_do_cas [of obs "get_request u" w acid for u] assms
    unfolding finish_qr_confirmation_def Let_def
    by (auto simp: cas_origin_def cas_policy_def split: option.splits sum.splits prod.splits
        intro!: triple_cleared_fail triple_quiet_bind logs_in_finish_activation after)
qed

lemma logs_in_qr_poll:
  assumes "lr_expected rq \<noteq> []"
  shows "logs_in_opt (lr_expected rq) (qr_poll n w (new_client obs) (cas_policy (new_client obs) acid) rq
           (service_url (new_client obs) acid) acid uuid deadline)"
proof (induction n)
  case 0
  then show ?case by (simp add: triple_return cleared_guarded login_result_def)
next
  case (Suc n)
  show ?case
    using quiet.ext_cas_request [OF quiet.cas_origin_poll, of w]
    by (auto split: option.splits cas_poll.splits
        intro!: triple_cleared_fail triple_quiet_bind quiet.ext_clock quiet.ext_ask quiet.ext_sleep
          logs_in_Some logs_in_finish_qr_confirmation triple_challenge_error assms Suc
        simp: is_status_def)
qed

lemma logs_in_qr_login:
  assumes "lr_expected rq \<noteq> []"
  shows "logs_in_opt (lr_expected rq) (qr_login n w (new_client obs) (cas_policy (new_client obs) acid) rq
           (service_url (new_client obs) acid) acid page)"
proof -
  have "logs_in_opt (lr_expected rq) (qr_presented n w (new_client obs) (cas_policy (new_client obs) acid) rq
           (service_url (new_client obs) acid) acid uuid)" for uuid
    unfolding qr_presented_def Let_def
    by (auto split: option.splits
        intro!: triple_cleared_fail triple_quiet_bind quiet.ext_clock quiet.ext_ask logs_in_qr_poll assms
        simp: is_status_def)
  then show ?thesis
    unfolding qr_login_def
    by (auto split: option.splits intro!: triple_cleared_fail triple_quiet_bind quiet.ext_ask
        simp: is_status_def)
qed

lemma logs_in_login_offline:
  assumes "lr_expected rq \<noteq> []"
  shows "logs_in_opt (lr_expected rq) (login_offline n w (new_client obs) rq)"
proof -
  have page: "logs_in_opt (lr_expected rq) (login_with_page n w (new_client obs) rq acid res)" for acid res
    unfolding login_with_page_def
    using logs_in_qr_login [OF assms, of n w obs acid]
    by (auto simp: cas_policy_def split: prod.splits option.splits sdk_method.splits
        intro!: triple_cleared_fail triple_challenge_error logs_in_Some logs_in_finish_activation
          logs_in_password_login assms)
  have "cas_origin (new_client obs) (cas_login_url (new_client obs) acid)" for acid
    by (simp add: cas_login_url_def set_query_def cas_origin_default)
  then have "extends quiet_events (do_cas w (CasRedirects (service_url (new_client obs) acid)
      (ep_cas_login default_endpoints)) (get_request (cas_login_url (new_client obs) acid)))" for acid
    using quiet.ext_do_cas [of obs "get_request (cas_login_url (new_client obs) acid)" w acid]
    by (simp add: cas_policy_def)
  then show ?thesis
    unfolding login_offline_def by (auto intro!: triple_quiet_bind quiet.ext_discover_acid page)
qed

section \<open>The public calls\<close>

text \<open>The observer's events and the session lock around a call change no reading of the history.\<close>

definition bookkeeping :: "sdk_event \<Rightarrow> bool" where
  "bookkeeping ev = (case ev of EvEmit _ _ _ _ \<Rightarrow> True | EvLock _ \<Rightarrow> True | EvUnlock \<Rightarrow> True | _ \<Rightarrow> False)"

definition steady :: "(sdk_history \<Rightarrow> bool) \<Rightarrow> bool" where
  "steady P \<longleftrightarrow> (\<forall>ev h. bookkeeping ev \<longrightarrow> P h \<longrightarrow> P (ev # h))"

lemma bookkeepingD: "bookkeeping ev \<Longrightarrow> \<not> is_status ev \<and> \<not> login_action ev"
  by (auto simp: bookkeeping_def is_status_def login_action_def split: sdk_event.splits)

lemma known_bookkeeping: "bookkeeping ev \<Longrightarrow> known (ev # h) = known h"
  by (auto simp: bookkeeping_def split: sdk_event.splits)

lemma steady_guarded: "steady guarded"
  by (auto simp: steady_def dest: bookkeepingD)

lemma steady_settled: "steady (settled s)"
  by (auto simp: steady_def settled_def known_bookkeeping simp del: known.simps dest: bookkeepingD)

lemma triple_bookkeeping:
  assumes "steady P"
  shows "triple P (emit c n op ph out) (\<lambda>_. P) E" "triple P (log EvUnlock) (\<lambda>_. P) E"
    and "triple P (ask (wd_lock w) EvLock) (\<lambda>_. P) E"
  using assms
  by (auto simp: triple_def emit_def log_def modifyP_def returnP_def ask_def steady_def bookkeeping_def)

lemma triple_closing:
  assumes "\<And>P F. steady P \<Longrightarrow> triple P m (\<lambda>_. P) F" and "\<And>x. steady (Q x)" and "\<And>e. steady (E e)"
  shows "triple (Q x) (bindP m (\<lambda>_. returnP x)) Q E" and "triple (E e) (bindP m (\<lambda>_. throwP e)) Q E"
  by (rule triple_bind [OF assms(1) [OF assms(2)]], simp add: triple_return)
    (rule triple_bind [OF assms(1) [OF assms(3)]], simp add: triple_throw)

lemma triple_around:
  assumes body: "triple P body Q E" and steady: "steady P" "\<And>x. steady (Q x)" "\<And>e. steady (E e)"
    and locked: "\<And>e h. P h \<Longrightarrow> E e h"
  shows "triple P (observed c op (locked w msg body)) Q E"
proof -
  note closing = triple_closing [where Q = Q and E = E, OF triple_bookkeeping(1) steady(2,3)]
    triple_closing [where Q = Q and E = E, OF triple_bookkeeping(2) steady(2,3)]
  have "triple P (locked w msg body) Q E"
    unfolding locked_def
    by (intro triple_bind [OF triple_bookkeeping(3) [OF steady(1)]])
      (auto split: option.splits simp: fail_wrapped_def
        intro!: triple_throw locked triple_handle [OF body] closing)
  then show ?thesis
    unfolding observed_def
    by (intro triple_bind [OF triple_bookkeeping(1) [OF steady(1)]]) (auto intro!: triple_handle closing)
qed

lemma triple_public:
  assumes "triple P body Q E" and "\<And>e h. P h \<Longrightarrow> E e h"
  shows "triple P (bindP (validate_public_call c b) (\<lambda>_. body)) Q E"
  using assms unfolding validate_public_call_def fail_def
  by (intro triple_bind [where R = "\<lambda>_. P"]) (auto intro: triple_throw triple_return)

section \<open>Login\<close>

definition session_for :: "string \<Rightarrow> (login_outcome \<times> sdk_status) option \<Rightarrow> sdk_history \<Rightarrow> bool" where
  "session_for user r h \<longleftrightarrow>
     (case r of None \<Rightarrow> guarded h | Some os \<Rightarrow> online_as user (snd os) h)"

lemma session_for_guarded: "session_for user x h \<Longrightarrow> guarded h"
  by (auto simp: session_for_def online_as_def settled_def split: option.splits)

lemma steady_session_for: "steady (session_for user x)"
  using steady_guarded steady_settled
  by (cases x) (auto simp: steady_def session_for_def online_as_def)

lemma triple_login_body:
  "triple guarded (login_body n w (new_client obs) rq) (session_for (trim_space (lr_expected rq))) (\<lambda>_. guarded)"
proof -
  let ?rq = "normalize_request rq" and ?user = "trim_space (lr_expected rq)"
  have expected: "lr_expected ?rq = ?user" by (simp add: normalize_request_def)
  have offline: "triple cleared (login_offline n w (new_client obs) ?rq) (session_for ?user) (\<lambda>_. guarded)"
    if "?user \<noteq> []"
    by (rule triple_weaken [OF logs_in_login_offline])
      (use that expected in \<open>auto simp: login_result_def session_for_def split: option.splits\<close>)
  have relogin: "triple guarded (bindP (logout_online w (new_client obs) u)
      (\<lambda>_. login_offline n w (new_client obs) ?rq)) (session_for ?user) (\<lambda>_. guarded)"
    if "?user \<noteq> []" for u
    by (intro triple_bind [OF triple_logout_online] triple_pre [OF offline [OF that]])
      (auto dest: settled_offline)
  have dispatch: "triple (\<lambda>h. settled s h \<and> s_session s \<in> {StOnline, StOffline})
      (if s_session s = StOnline then
          (if s_username s = lr_expected ?rq then returnP (Some (LoginAlreadyOnline, s))
           else if lr_switch ?rq = SwitchRefuse
           then throwP (conflict_error (lr_expected ?rq) (s_username s))
           else bindP (logout_online w (new_client obs) (s_username s))
                  (\<lambda>_. login_offline n w (new_client obs) ?rq))
        else login_offline n w (new_client obs) ?rq)
      (session_for ?user) (\<lambda>_. guarded)" if "?user \<noteq> []" for s
  proof -
    have "triple (\<lambda>h. settled s h \<and> s_session s \<in> {StOnline, StOffline})
        (bindP (logout_online w (new_client obs) u) (\<lambda>_. login_offline n w (new_client obs) ?rq))
        (session_for ?user) (\<lambda>_. guarded)" for u
      by (rule triple_pre [OF relogin [OF that]]) (simp add: settled_def)
    moreover have "triple (\<lambda>h. settled s h \<and> s_session s \<in> {StOnline, StOffline})
        (login_offline n w (new_client obs) ?rq) (session_for ?user) (\<lambda>_. guarded)"
      if "s_session s \<noteq> StOnline"
      by (rule triple_pre [OF offline [OF \<open>?user \<noteq> []\<close>]]) (use that in \<open>auto dest: settled_offline\<close>)
    ultimately show ?thesis
      by (auto intro!: triple_return triple_throw
          simp: expected session_for_def online_as_def settled_def [of s])
  qed
  show ?thesis
  proof (cases "?user = []")
    case True
    then show ?thesis by (simp add: login_body_def Let_def expected fail_def triple_throw)
  next
    case False
    show ?thesis
      unfolding login_body_def Let_def fail_def
      by (intro triple_if triple_bind [OF triple_query_status dispatch [OF False]]) (simp_all add: triple_throw)
  qed
qed

lemma triple_sdk_login:
  "triple guarded (sdk_login n w (new_client obs) b rq) (session_for (trim_space (lr_expected rq))) (\<lambda>_. guarded)"
  unfolding sdk_login_def
  by (intro triple_public triple_around triple_login_body steady_session_for steady_guarded)

lemma guardedD: "guarded h \<Longrightarrow> h = post @ e # pre \<Longrightarrow> login_action e \<Longrightarrow> offline_known pre"
  by (induction post arbitrary: h) auto

text \<open>The last status read, with the gateway answer it was read from.\<close>

lemma known_backed:
  assumes "known h = Some s" and "backed c h"
  shows "\<exists>newer rest. h = newer @ EvStatus s # rest \<and> quiet_events newer \<and> backed_by c s rest"
  using assms
proof (induction h)
  case (Cons e h)
  show ?case
  proof (cases "is_status e")
    case True
    then have "e = EvStatus s" using Cons.prems(1) by (auto simp: is_status_def split: sdk_event.splits)
    then show ?thesis using Cons.prems(2) by (intro exI [of _ "[]"] exI [of _ h]) simp
  next
    case False
    then have "known h = Some s" "backed c h"
      using Cons.prems by (auto simp: is_status_def split: sdk_event.splits)
    then obtain newer rest where "h = newer @ EvStatus s # rest" "quiet_events newer" "backed_by c s rest"
      using Cons.IH by blast
    then show ?thesis using False by (intro exI [of _ "e # newer"] exI [of _ rest]) simp
  qed
qed simp

lemma backed_split: "backed c (a @ b) \<Longrightarrow> backed c b"
  by (induction a) auto

lemma login_run:
  assumes "sdk_login n w (new_client obs) b rq [] = (r, h)"
  shows "guarded h" and "backed (new_client obs) h"
    and "r = Inr x \<Longrightarrow> session_for (trim_space (lr_expected rq)) x h"
proof -
  have result: "session_for (trim_space (lr_expected rq)) x h" if "r = Inr x" for x
    by (rule triple_resultD [OF triple_sdk_login]) (use assms that in simp_all)
  then show "r = Inr x \<Longrightarrow> session_for (trim_space (lr_expected rq)) x h" .
  have "guarded h" if "r = Inl e" for e
    by (rule triple_errorD [OF triple_sdk_login]) (use assms that in simp_all)
  moreover have "guarded h" if "r = Inr x" for x
    using result [OF that] by (rule session_for_guarded)
  ultimately show "guarded h" by (cases r) simp_all
  show "backed (new_client obs) h" using extendsD [OF answers.ext_sdk_login assms] by simp
qed

text \<open>C5: no login step while a session may be online.  Whenever a login reads the password, encrypts
  it, shows a QR code, posts the form or sends a ticket, the last gateway status it has read said
  offline, and that status was parsed from a successful HTTPS answer of the gateway's status page.\<close>

theorem login_steps_need_offline:
  assumes "sdk_login n w (new_client obs) b rq [] = (r, post @ e # pre)" and "login_action e"
  shows "\<exists>s newer rest. pre = newer @ EvStatus s # rest \<and> list_all (\<lambda>ev. \<not> is_status ev) newer \<and>
           s_session s = StOffline \<and> backed_by (new_client obs) s rest"
proof -
  have "offline_known pre" using guardedD [OF login_run(1) [OF assms(1)] refl assms(2)] .
  then obtain s where s: "known pre = Some s" "s_session s = StOffline"
    by (auto simp: offline_known_def split: option.splits)
  have "backed (new_client obs) (e # pre)" using login_run(2) [OF assms(1)] by (rule backed_split)
  then show ?thesis using known_backed [OF s(1)] s(2) by (auto intro: exI [of _ s])
qed

theorem login_steps_need_offline_witness:
  "\<exists>s newer rest. tl (demo_events ''1'') @ demo_query '''' @ [EvLock None] = newer @ EvStatus s # rest \<and>
     list_all (\<lambda>ev. \<not> is_status ev) newer \<and> s_session s = StOffline \<and> backed_by (new_client False) s rest"
proof -
  have "login_action (EvHttp demo_post (redirect_answer demo_service))"
    by (simp add: login_action_def demo_post_def)
  moreover have "demo_events ''1'' = EvHttp demo_post (redirect_answer demo_service) # tl (demo_events ''1'')"
    by (simp add: demo_events_def)
  ultimately show ?thesis
    by (intro login_steps_need_offline [of 61 "demo_world None" False True demo_request])
      (use demo_login_result [unfolded demo_login_def] in auto)
qed

text \<open>C6: a successful login is a verified session of the expected user.  The returned status is
  the last one read, it shows the requested account online, and it was parsed from a successful answer
  of the gateway; nothing but observer events, the unlock and the like follows it.\<close>

theorem login_success_verified:
  assumes "sdk_login n w (new_client obs) b rq [] = (Inr (Some (outcome, s)), h)"
  shows "s_session s = StOnline \<and> s_username s = trim_space (lr_expected rq) \<and>
    (\<exists>newer rest. h = newer @ EvStatus s # rest \<and> list_all (\<lambda>ev. \<not> is_status ev) newer \<and>
       backed_by (new_client obs) s rest)"
proof -
  have "online_as (trim_space (lr_expected rq)) s h"
    using login_run(3) [OF assms refl] by (simp add: session_for_def)
  then show ?thesis
    using known_backed [OF _ login_run(2) [OF assms]] by (simp add: online_as_def settled_def)
qed

theorem login_success_verified_witness:
  "s_session (demo_status ''alice'') = StOnline \<and> s_username (demo_status ''alice'') = trim_space ''alice''"
  using login_success_verified [OF demo_login_result [unfolded demo_login_def]]
  by (simp add: demo_request_def)

section \<open>Another account stays online\<close>

text \<open>The first status read, and the requests made.\<close>

fun first_status :: "sdk_history \<Rightarrow> sdk_status option" where
  "first_status [] = None"
| "first_status (e # h) =
     (case first_status h of Some s \<Rightarrow> Some s
      | None \<Rightarrow> (case e of EvStatus s \<Rightarrow> Some s | _ \<Rightarrow> None))"

definition http_requests :: "sdk_history \<Rightarrow> http_request list" where
  "http_requests h = List.map_filter (\<lambda>ev. case ev of EvHttp rq _ \<Rightarrow> Some rq | _ \<Rightarrow> None) h"

lemma http_requests_simps [simp]:
  "http_requests [] = []"
  "http_requests (e # h) = (case e of EvHttp rq _ \<Rightarrow> rq # http_requests h | _ \<Rightarrow> http_requests h)"
  by (auto simp: http_requests_def map_filter_def split: sdk_event.splits)

lemma first_status_append: "first_status h = Some s \<Longrightarrow> first_status (evs @ h) = Some s"
  by (induction evs) auto

lemma first_status_bookkeeping: "bookkeeping ev \<Longrightarrow> first_status (ev # h) = first_status h"
  by (auto simp: bookkeeping_def split: sdk_event.splits option.splits)

lemma requests_bookkeeping: "bookkeeping ev \<Longrightarrow> http_requests (ev # h) = http_requests h"
  by (auto simp: bookkeeping_def split: sdk_event.splits)

interpretation anything: session_events "\<lambda>_. True" "new_client obs" for obs
  by unfold_locales (auto simp: cas_origin_default)

abbreviation status_request :: http_request where
  "status_request \<equiv> get_request (ep_status default_endpoints)"

definition untouched :: "string \<Rightarrow> go_error + (login_outcome \<times> sdk_status) option \<Rightarrow> sdk_history \<Rightarrow> bool" where
  "untouched user r h \<longleftrightarrow>
     (\<forall>s. first_status h = Some s \<longrightarrow> s_session s = StOnline \<longrightarrow>
        http_requests h = [status_request] \<and>
        r = (if s_username s = user then Inr (Some (LoginAlreadyOnline, s))
             else Inl (conflict_error user (s_username s))))"

lemma steady_untouched: "steady (untouched user r)"
  by (auto simp: steady_def untouched_def first_status_bookkeeping requests_bookkeeping
      simp del: first_status.simps http_requests_simps)

definition fresh :: "sdk_history \<Rightarrow> bool" where
  "fresh h \<longleftrightarrow> first_status h = None \<and> http_requests h = []"

lemma steady_fresh: "steady fresh"
  by (auto simp: steady_def fresh_def first_status_bookkeeping requests_bookkeeping
      simp del: first_status.simps http_requests_simps)

lemma fresh_untouched: "fresh h \<Longrightarrow> untouched user r h"
  by (simp add: fresh_def untouched_def)

lemma triple_first_query:
  "triple fresh (query_status w (new_client obs))
     (\<lambda>s h. first_status h = Some s \<and> http_requests h = [status_request])
     (\<lambda>_ h. first_status h = None)"
proof (rule tripleI)
  fix h s h' assume fresh: "fresh h" and q: "query_status w (new_client obs) h = (Inr s, h')"
  from query_status_events [OF q, THEN conjunct2] obtain evs
    where "h' = evs @ h" "status_events_of (new_client obs) evs s" by blast
  then show "first_status h' = Some s \<and> http_requests h' = [status_request]"
    using fresh by (auto simp: fresh_def status_events_of_def)
next
  fix h e h' assume fresh: "fresh h" and q: "query_status w (new_client obs) h = (Inl e, h')"
  from query_status_events [OF q, THEN conjunct1] obtain evs where e: "h' = evs @ h"
    and "evs = [] \<or> (\<exists>a. evs = [EvHttp status_request a])" by auto
  then show "first_status h' = None" using fresh by (auto simp: fresh_def)
qed

text \<open>Once an offline status was read first, nothing is claimed of the rest of the history.\<close>

lemma triple_opened:
  assumes "s_session s \<noteq> StOnline" and "extends (\<lambda>_. True) m"
  shows "triple (\<lambda>h. first_status h = Some s) m (\<lambda>x. untouched user (Inr x)) (\<lambda>e. untouched user (Inl e))"
proof -
  have "untouched user r h'" if first: "first_status h = Some s" and m: "m h = (r, h')" for h r h'
  proof -
    obtain evs where "h' = evs @ h" using extendsD [OF assms(2) m] by blast
    then have "first_status h' = Some s" using first_status_append first by simp
    then show ?thesis using assms(1) by (simp add: untouched_def)
  qed
  then show ?thesis by (intro tripleI)
qed

lemma triple_untouched_body:
  assumes "lr_switch rq \<noteq> SwitchLogoutExisting"
  shows "triple fresh (login_body n w (new_client obs) rq)
    (\<lambda>x. untouched (trim_space (lr_expected rq)) (Inr x)) (\<lambda>e. untouched (trim_space (lr_expected rq)) (Inl e))"
proof -
  let ?rq = "normalize_request rq" and ?user = "trim_space (lr_expected rq)"
  have fields: "lr_expected ?rq = ?user" "lr_switch ?rq \<noteq> SwitchLogoutExisting"
    using assms by (simp_all add: normalize_request_def)
  have query: "triple fresh (query_status w (new_client obs))
     (\<lambda>s h. first_status h = Some s \<and> http_requests h = [status_request])
     (\<lambda>e. untouched ?user (Inl e))"
    by (rule triple_weaken [OF triple_first_query]) (simp_all add: untouched_def)
  have offline: "triple (\<lambda>h. first_status h = Some s \<and> http_requests h = [status_request])
      (login_offline n w (new_client obs) ?rq)
      (\<lambda>x. untouched ?user (Inr x)) (\<lambda>e. untouched ?user (Inl e))" if "s_session s \<noteq> StOnline" for s
    by (rule triple_pre [OF triple_opened [OF that anything.ext_login_offline]]) simp
  show ?thesis
    unfolding login_body_def Let_def fail_def
    using fields
    by (intro triple_if triple_bind [OF query] offline)
      (auto intro!: triple_throw triple_return simp: untouched_def fresh_def)
qed

lemma login_untouched:
  assumes "sdk_login n w (new_client obs) b rq [] = (r, h)" "lr_switch rq \<noteq> SwitchLogoutExisting"
  shows "untouched (trim_space (lr_expected rq)) r h"
proof -
  have "triple fresh (sdk_login n w (new_client obs) b rq)
      (\<lambda>x. untouched (trim_space (lr_expected rq)) (Inr x)) (\<lambda>e. untouched (trim_space (lr_expected rq)) (Inl e))"
    unfolding sdk_login_def
    by (intro triple_public triple_around triple_untouched_body steady_untouched steady_fresh
        fresh_untouched assms(2))
  then show ?thesis
    using assms(1) by (cases r) (auto simp: triple_def fresh_def dest!: spec [of _ "[]"])
qed

text \<open>C8: without the policy to switch accounts, a session that is already online is left alone.
  When the first status of a login shows an account online, that status request is the only request the
  login makes; it succeeds as already online for the requested account and fails with a session
  conflict naming both accounts otherwise.\<close>

theorem login_leaves_online_session:
  assumes "sdk_login n w (new_client obs) b rq [] = (r, h)" and "lr_switch rq \<noteq> SwitchLogoutExisting"
    and "first_status h = Some s" and "s_session s = StOnline"
  shows "http_requests h = [get_request (ep_status default_endpoints)] \<and>
    r = (if s_username s = trim_space (lr_expected rq) then Inr (Some (LoginAlreadyOnline, s))
         else Inl (conflict_error (trim_space (lr_expected rq)) (s_username s)))"
  using login_untouched [OF assms(1,2)] assms(3,4) by (simp add: untouched_def)

theorem login_leaves_online_session_witness:
  "fst (demo_login (Some ''bob'')) = Inl (conflict_error (trim_space ''alice'') ''bob'')"
  using login_leaves_online_session [OF demo_login_conflict [unfolded demo_login_def], of "demo_status ''bob''"]
  by (simp add: demo_request_def demo_query_def demo_login_conflict demo_status_def status_of_srun_def
      demo_texts)

section \<open>Logout\<close>

definition logged_off :: "logout_outcome \<times> sdk_status \<Rightarrow> sdk_history \<Rightarrow> bool" where
  "logged_off os h \<longleftrightarrow>
     known h = Some (snd os) \<and> s_session (snd os) = StOffline \<and>
     (fst os = LogoutAlreadyOffline \<longrightarrow> http_requests h = [status_request])"

lemma steady_logged_off: "steady (logged_off os)"
  by (auto simp: steady_def logged_off_def known_bookkeeping requests_bookkeeping
      simp del: known.simps http_requests_simps)

lemma triple_logout_body:
  "triple (\<lambda>h. fresh h \<and> guarded h) (logout_body w (new_client obs)) logged_off (\<lambda>_ _. True)"
proof -
  note query = triple_conj [OF triple_first_query triple_query_status]
  have online: "triple guarded (logout_online w (new_client obs) u) logged_off (\<lambda>_ _. True)" for u
    by (rule triple_weaken [OF triple_logout_online]) (auto simp: logged_off_def settled_def)
  show ?thesis
    unfolding logout_body_def
    by (rule triple_bind [OF triple_weaken [OF query]], assumption, assumption, simp, rule triple_if)
      (auto intro!: triple_return triple_pre [OF online] simp: logged_off_def settled_def)
qed

text \<open>C9: a successful logout is a verified offline session.  The returned status is the last one
  read, it is offline, it was parsed from a successful answer of the gateway; and when the session was
  already offline, the status request is the only request the logout made.\<close>

theorem logout_success_verified:
  assumes "sdk_logout w (new_client obs) b [] = (Inr (outcome, s), h)"
  shows "s_session s = StOffline \<and>
    (\<exists>newer rest. h = newer @ EvStatus s # rest \<and> list_all (\<lambda>ev. \<not> is_status ev) newer \<and>
       backed_by (new_client obs) s rest) \<and>
    (outcome = LogoutAlreadyOffline \<longrightarrow> http_requests h = [get_request (ep_status default_endpoints)])"
proof -
  have "triple (\<lambda>h. fresh h \<and> guarded h) (sdk_logout w (new_client obs) b) logged_off (\<lambda>_ _. True)"
    unfolding sdk_logout_def
    by (intro triple_public triple_around triple_logout_body steady_logged_off)
      (use steady_fresh steady_guarded in \<open>auto simp: steady_def\<close>)
  from triple_resultD [OF this _ assms] have "logged_off (outcome, s) h" by (simp add: fresh_def)
  moreover have "backed (new_client obs) h" using extendsD [OF answers.ext_sdk_logout assms] by simp
  ultimately show ?thesis using known_backed by (auto simp: logged_off_def)
qed

theorem logout_success_verified_witness: "s_session (demo_status '''') = StOffline"
  using logout_success_verified [OF demo_logout_result [unfolded demo_logout_def]] by (rule conjunct1)

section \<open>The QR login ends\<close>

text \<open>Time does not run backwards, and a completed sleep takes as long as it was asked to.\<close>

definition clock_law :: "sdk_world \<Rightarrow> bool" where
  "clock_law w \<longleftrightarrow>
     (\<forall>h evs. wd_now w h \<le> wd_now w (evs @ h)) \<and>
     (\<forall>h d evs. wd_sleep w h d = None \<longrightarrow> wd_now w h + d \<le> wd_now w (evs @ EvSleep d None # h))"

lemma clock_lawD:
  assumes "clock_law w"
  shows "wd_now w h \<le> wd_now w (evs @ h)" and "wd_now w h \<le> wd_now w (e # h)"
    and "wd_sleep w h d = None \<Longrightarrow> wd_now w h + d \<le> wd_now w (EvSleep d None # h)"
  using assms [unfolded clock_law_def] append_Nil append_Cons by metis+

definition at_least :: "sdk_world \<Rightarrow> int \<Rightarrow> sdk_history \<Rightarrow> bool" where
  "at_least w t h \<longleftrightarrow> t \<le> wd_now w h"

lemma triple_later:
  assumes "clock_law w" and "extends (\<lambda>_. True) m"
  shows "triple (at_least w t) m (\<lambda>_. at_least w t) (\<lambda>_ _. True)"
proof (rule tripleI)
  fix h x h' assume "at_least w t h" and m: "m h = (Inr x, h')"
  obtain evs where "h' = evs @ h" using extendsD [OF assms(2) m] by blast
  then show "at_least w t h'"
    using clock_lawD(1) [OF assms(1), of h evs] \<open>at_least w t h\<close> by (simp add: at_least_def)
qed simp

lemma triple_slept:
  assumes "clock_law w"
  shows "triple (at_least w t) (sleep w d) (\<lambda>_. at_least w (t + d)) (\<lambda>_ _. True)"
proof (rule tripleI)
  fix h x h' assume "at_least w t h" and "sleep w d h = (Inr x, h')"
  then show "at_least w (t + d) h'"
    using clock_lawD(3) [OF assms, of h d]
    by (auto simp: sleep_def ask_def bindP_def returnP_def throwP_def at_least_def split: option.splits)
qed simp

text \<open>The turns left bring the clock to the deadline.\<close>

lemma triple_read_clock:
  assumes "clock_law w"
  shows "triple (at_least w t) (read_clock w) (\<lambda>now h. t \<le> now \<and> at_least w now h) (\<lambda>_ _. True)"
  using clock_lawD(2) [OF assms]
  by (auto simp: triple_def read_clock_def ask_def at_least_def)

definition answered :: "'a option \<Rightarrow> sdk_history \<Rightarrow> bool" where
  "answered r h \<longleftrightarrow> r \<noteq> None"

lemma triple_answered_Some:
  "triple P (bindP m (\<lambda>x. returnP (Some x))) answered (\<lambda>_ _. True)"
  by (rule triple_bind [where R = "\<lambda>_ _. True"])
    (auto simp: triple_def returnP_def answered_def split: prod.splits sum.splits)

lemma triple_answered_throw:
  "triple P (throwP e) answered (\<lambda>_ _. True)" "triple P (fail c m r e2) answered (\<lambda>_ _. True)"
  "triple P (fail_wrapped c m r e3) answered (\<lambda>_ _. True)"
  "triple P (challenge_error cl me ch) answered (\<lambda>_ _. True)"
  by (auto simp: triple_def throwP_def fail_def fail_wrapped_def challenge_error_def Let_def bindP_def
      split: prod.splits sum.splits)

lemma qr_poll_answers:
  assumes "clock_law w"
  shows "triple (at_least w (deadline - int n * cl_poll_interval (new_client obs)))
    (qr_poll (Suc n) w (new_client obs) (cas_policy (new_client obs) acid) rq
       (service_url (new_client obs) acid) acid uuid deadline) answered (\<lambda>_ _. True)"
proof (induction n)
  case 0
  show ?case
    by (subst qr_poll.simps, rule triple_bind [OF triple_read_clock [OF assms]])
      (auto intro: triple_answered_throw triple_weaken [OF triple_False])
next
  case (Suc n)
  define t where "t = deadline - int (Suc n) * cl_poll_interval (new_client obs)"
  note later = triple_later [OF assms, where t = t]
  have again: "triple (at_least w t) (bindP (sleep w (cl_poll_interval (new_client obs)))
      (\<lambda>_. qr_poll (Suc n) w (new_client obs) (cas_policy (new_client obs) acid) rq
       (service_url (new_client obs) acid) acid uuid deadline)) answered (\<lambda>_ _. True)"
    by (intro triple_bind [OF triple_slept [OF assms]] triple_pre [OF Suc])
      (simp add: t_def algebra_simps)
  have read: "triple (at_least w t) (read_clock w) (\<lambda>_. at_least w t) (\<lambda>_ _. True)"
    by (rule later) (rule anything.ext_clock)
  have nonce: "triple (at_least w t) (ask (wd_uuid w) EvUuid) (\<lambda>_. at_least w t) (\<lambda>_ _. True)"
    by (rule later) (rule anything.ext_ask, simp)
  have poll: "triple (at_least w t) (sdk_request w (cas_policy (new_client obs) acid)
      (poll_url (new_client obs) uuid random) apiResponseLimit) (\<lambda>_. at_least w t) (\<lambda>_ _. True)" for random
    by (rule later) (rule anything.ext_cas_request [OF quiet.cas_origin_poll])
  show ?case
    unfolding qr_poll.simps(2) [of "Suc n"] t_def [symmetric]
    by (intro triple_bind [OF read] triple_if triple_bind [OF nonce])
      (auto split: option.splits cas_poll.splits simp del: qr_poll.simps
        intro!: triple_answered_throw triple_bind [OF poll] triple_answered_Some again)
qed

lemma triple_true_bind:
  "(\<And>x. triple (\<lambda>_. True) (k x) Q (\<lambda>_ _. True)) \<Longrightarrow> triple (\<lambda>_. True) (bindP m k) Q (\<lambda>_ _. True)"
  by (rule triple_bind [where R = "\<lambda>_ _. True"]) (simp add: triple_def split: prod.splits sum.splits)

lemma qr_presented_answers:
  assumes "clock_law w"
  shows "triple (\<lambda>_. True) (qr_presented 61 w (new_client obs) (cas_policy (new_client obs) acid) rq
       (service_url (new_client obs) acid) acid uuid) answered (\<lambda>_ _. True)"
proof -
  have lifetime: "cl_qr_lifetime (new_client obs) = int 60 * cl_poll_interval (new_client obs)"
    by (simp add: new_client_def)
  have poll: "triple (at_least w now) (qr_poll 61 w (new_client obs) (cas_policy (new_client obs) acid) rq
      (service_url (new_client obs) acid) acid uuid (now + cl_qr_lifetime (new_client obs)))
      answered (\<lambda>_ _. True)" for now
    using qr_poll_answers [OF assms, where n = 60 and deadline = "now + cl_qr_lifetime (new_client obs)" and obs = obs]
    by (simp add: lifetime)
  have read: "triple (\<lambda>_. True) (read_clock w) (\<lambda>now. at_least w now) (\<lambda>_ _. True)"
    using clock_lawD(2) [OF assms] by (auto simp: triple_def read_clock_def ask_def at_least_def)
  have prompt: "triple (at_least w now) (ask (\<lambda>h. wd_prompt w h u) (EvPrompt u)) (\<lambda>_. at_least w now)
      (\<lambda>_ _. True)" for now u
    by (rule triple_later [OF assms]) (rule anything.ext_ask, simp)
  show ?thesis
    unfolding qr_presented_def Let_def
    by (intro triple_if triple_answered_throw triple_bind [OF read] triple_bind [OF prompt])
      (auto split: option.splits intro!: triple_answered_throw poll)
qed

lemma login_offline_answers:
  assumes "clock_law w"
  shows "triple (\<lambda>_. True) (login_offline 61 w (new_client obs) rq) answered (\<lambda>_ _. True)"
proof -
  have qr: "triple (\<lambda>_. True) (qr_login 61 w (new_client obs) (cas_policy (new_client obs) acid) rq
       (service_url (new_client obs) acid) acid page) answered (\<lambda>_ _. True)" for acid page
    unfolding qr_login_def
    by (auto split: option.splits
        intro!: triple_answered_throw triple_true_bind qr_presented_answers [OF assms])
  show ?thesis
    unfolding login_offline_def login_with_page_def
    using qr
    by (auto simp: cas_policy_def split: prod.splits option.splits sdk_method.splits
        intro!: triple_true_bind triple_answered_throw triple_answered_Some)
qed

text \<open>C10: a login ends.  The polling loop of the QR login has no bound in the code but the deadline.
  If time does not run backwards and sleeping takes as long as asked, the 61 turns of the fuel are
  enough: the login returns a result or an error, whatever the CAS keeps answering.\<close>

theorem qr_login_terminates:
  assumes "clock_law w"
  shows "fst (sdk_login 61 w (new_client obs) b rq h) \<noteq> Inr None"
proof -
  have body: "triple (\<lambda>_. True) (login_body 61 w (new_client obs) rq) answered (\<lambda>_ _. True)"
    unfolding login_body_def Let_def
    by (intro triple_if triple_true_bind triple_answered_throw login_offline_answers [OF assms])
      (auto intro!: triple_return simp: answered_def)
  have "triple (\<lambda>_. True) (sdk_login 61 w (new_client obs) b rq) answered (\<lambda>_ _. True)"
    unfolding sdk_login_def
    by (intro triple_public triple_around body) (simp_all add: steady_def answered_def)
  then show ?thesis
    by (cases "sdk_login 61 w (new_client obs) b rq h") (auto simp: triple_def answered_def dest!: spec [of _ h])
qed

lemma slept_nonneg: "0 \<le> slept h"
  unfolding slept_def by (rule sum_list_nonneg) (auto split: sdk_event.splits)

lemma slept_append: "slept (evs @ h) = slept evs + slept h"
  by (simp add: slept_def)

lemma demo_clock_law: "clock_law (demo_world online)"
proof -
  have "slept (EvSleep d None # h) = max 0 d + slept h" for d h by (simp add: slept_def)
  then show ?thesis
    using slept_nonneg by (auto simp: clock_law_def demo_world_def slept_append add_increasing)
qed

text \<open>In the demo world the CAS never answers the QR code, and the login ends at the deadline.\<close>

theorem qr_login_terminates_witness:
  "fst (sdk_login 61 (demo_world None) (new_client False) True (demo_request\<lparr>lr_method := MethodTerminalQR\<rparr>) [])
     \<noteq> Inr None"
  by (rule qr_login_terminates [OF demo_clock_law])

end
