(* ===== verification/SdkNet.thy ===== *)
theory SdkNet
  imports SdkClient
begin

text \<open>
  The parts of the SDK around a session: the options a client is built from (\<open>options.go\<close>, \<open>NewClient\<close>),
  the network interfaces a caller may bind to (\<open>interfaces.go\<close>), and the RSA envelope of the credentials
  (\<open>encryptCredential\<close> and \<open>encryptSmallCASPKCS1v15\<close> in \<open>client.go\<close>).
\<close>

section \<open>Interfaces\<close>

text \<open>
  \<open>net.Interfaces\<close> and the addresses of one interface are inputs: an address that is not an IPv4
  prefix is \<open>None\<close>, an interface whose addresses cannot be read has none at all.
\<close>

record net_interface =
  ni_name :: string
  ni_index :: int
  ni_up :: bool
  ni_loopback :: bool
  ni_addresses :: "ipv4 option list option"

record bind_interface =
  if_name :: string
  if_index :: int
  if_ip :: ipv4

definition ipv4_value :: "ipv4 \<Rightarrow> nat" where
  "ipv4_value ip = (case ip of (a, b, c, d) \<Rightarrow> ((a * 256 + b) * 256 + c) * 256 + d)"

definition interface_key :: "bind_interface \<Rightarrow> int \<times> ipv4" where
  "interface_key i = (if_index i, if_ip i)"

text \<open>The order of \<open>sort.Slice\<close>; no two elements of the sorted slice have the same key.\<close>

definition interface_less :: "bind_interface \<Rightarrow> bind_interface \<Rightarrow> bool" where
  "interface_less a b \<longleftrightarrow>
     (if if_index a = if_index b then ipv4_value (if_ip a) < ipv4_value (if_ip b)
      else if_index a < if_index b)"

fun insert_interface :: "bind_interface \<Rightarrow> bind_interface list \<Rightarrow> bind_interface list" where
  "insert_interface x [] = [x]"
| "insert_interface x (y # ys) = (if interface_less y x then y # insert_interface x ys else x # y # ys)"

definition normalize_interfaces :: "bind_interface list \<Rightarrow> bind_interface list" where
  "normalize_interfaces candidates = foldr insert_interface (dedup_seen interface_key [] candidates) []"

definition usable_address :: "ipv4 option \<Rightarrow> ipv4 option" where
  "usable_address a =
     (case a of None \<Rightarrow> None | Some ip \<Rightarrow> if is_loopback ip \<or> is_unspecified ip then None else Some ip)"

definition interface_candidates :: "net_interface \<Rightarrow> bind_interface list" where
  "interface_candidates i =
     (if \<not> ni_up i \<or> ni_loopback i then []
      else (case ni_addresses i of None \<Rightarrow> []
        | Some addresses \<Rightarrow>
            concat (map (\<lambda>a. case usable_address a of None \<Rightarrow> []
              | Some ip \<Rightarrow> [\<lparr>if_name = ni_name i, if_index = ni_index i, if_ip = ip\<rparr>]) addresses)))"

text \<open>The context is read before every interface; \<open>None\<close> is a context that is not done.\<close>

fun collect_interfaces ::
    "(nat \<Rightarrow> ctx_error option) \<Rightarrow> nat \<Rightarrow> net_interface list \<Rightarrow> ctx_error + bind_interface list" where
  "collect_interfaces ctx k [] = Inr []"
| "collect_interfaces ctx k (i # is) =
     (case ctx k of Some e \<Rightarrow> Inl e
      | None \<Rightarrow> (case collect_interfaces ctx (Suc k) is of Inl e \<Rightarrow> Inl e
          | Inr rest \<Rightarrow> Inr (interface_candidates i @ rest)))"

definition list_interfaces ::
    "sdk_client \<Rightarrow> bool \<Rightarrow> (nat \<Rightarrow> ctx_error option) \<Rightarrow> go_error + net_interface list \<Rightarrow>
       go_error + bind_interface list" where
  "list_interfaces c ctx_set ctx interfaces =
     (case fst (validate_public_call c ctx_set []) of
        Inl e \<Rightarrow> Inl e
      | Inr _ \<Rightarrow>
          (case interfaces of
             Inl e \<Rightarrow> Inl (wrap_error CodeNetwork ''could not enumerate network interfaces'' True (Some e))
           | Inr is \<Rightarrow>
               (case collect_interfaces ctx 0 is of
                  Inl e \<Rightarrow> Inl (ErrCtx e)
                | Inr found \<Rightarrow> Inr (normalize_interfaces found))))"

definition valid_ipv4 :: "ipv4 \<Rightarrow> bool" where
  "valid_ipv4 ip = (case ip of (a, b, c, d) \<Rightarrow> a < 256 \<and> b < 256 \<and> c < 256 \<and> d < 256)"

lemma ipv4_value_inj: "valid_ipv4 x \<Longrightarrow> valid_ipv4 y \<Longrightarrow> ipv4_value x = ipv4_value y \<Longrightarrow> x = y"
proof (cases x, cases y)
  fix a b c d a' b' c' d'
  assume xy: "x = (a, b, c, d)" "y = (a', b', c', d')"
    and "valid_ipv4 x" "valid_ipv4 y" "ipv4_value x = ipv4_value y"
  then have eq: "((a * 256 + b) * 256 + c) * 256 + d = ((a' * 256 + b') * 256 + c') * 256 + d'"
    and less: "b < 256" "b' < 256" "c < 256" "c' < 256" "d < 256" "d' < 256"
    by (simp_all add: valid_ipv4_def ipv4_value_def)
  have step: "p * 256 + q = p' * 256 + q' \<Longrightarrow> q < 256 \<Longrightarrow> q' < 256 \<Longrightarrow> p = p' \<and> q = q'" for p q p' q' :: nat
  proof -
    assume a: "p * 256 + q = p' * 256 + q'" "q < 256" "q' < 256"
    have "(p * 256 + q) div 256 = p" "(p' * 256 + q') div 256 = p'" using a(2,3) by simp_all
    then show "p = p' \<and> q = q'" using a(1) by simp
  qed
  note d = step [OF eq less(5,6)]
  note c = step [OF conjunct1 [OF d] less(3,4)]
  note b = step [OF conjunct1 [OF c] less(1,2)]
  show "x = y" unfolding xy using d c b by blast
qed

lemma set_insert_interface [simp]: "set (insert_interface x ys) = insert x (set ys)"
  by (induction ys) auto

lemma sorted_insert_interface:
  assumes "sorted_wrt interface_less ys"
    and "\<forall>y \<in> set ys. interface_less x y \<or> interface_less y x"
  shows "sorted_wrt interface_less (insert_interface x ys)"
  using assms
proof (induction ys)
  case (Cons y ys)
  have trans: "interface_less a b \<Longrightarrow> interface_less b c \<Longrightarrow> interface_less a c" for a b c
    by (auto simp: interface_less_def split: if_splits)
  show ?case using Cons trans by (auto simp: )
qed simp

lemma normalize_sorted:
  assumes "\<forall>i \<in> set candidates. valid_ipv4 (if_ip i)"
  shows "sorted_wrt interface_less (normalize_interfaces candidates)"
proof -
  have "sorted_wrt interface_less (foldr insert_interface xs []) \<and> set (foldr insert_interface xs []) = set xs"
    if "distinct (map interface_key xs)" "\<forall>i \<in> set xs. valid_ipv4 (if_ip i)" for xs
    using that
  proof (induction xs)
    case (Cons x xs)
    have "interface_less x y \<or> interface_less y x" if "y \<in> set xs" for y
      using Cons.prems that ipv4_value_inj [of "if_ip x" "if_ip y"]
      by (force simp: interface_less_def interface_key_def)
    then show ?case using Cons by (auto intro!: sorted_insert_interface)
  qed simp
  then show ?thesis
    using assms dedup_seen_distinct [of interface_key "[]" candidates]
      dedup_seen_subset [of interface_key "[]" candidates]
    unfolding normalize_interfaces_def by blast
qed

lemma normalize_set: "set (normalize_interfaces candidates) = set (dedup_seen interface_key [] candidates)"
proof -
  have "set (foldr insert_interface xs []) = set xs" for xs by (induction xs) auto
  then show ?thesis by (simp add: normalize_interfaces_def)
qed

lemma collect_members:
  "collect_interfaces ctx k is = Inr found \<Longrightarrow> set found = (\<Union>i \<in> set is. set (interface_candidates i))"
  by (induction "is" arbitrary: k found) (auto split: option.splits sum.splits)

text \<open>
  What a caller may bind to, said of the inputs: an address of an interface that is up and not the loopback,
  outside 127.0.0.0/8 and not 0.0.0.0.
\<close>

definition bindable :: "net_interface \<Rightarrow> ipv4 \<Rightarrow> bool" where
  "bindable i ip \<longleftrightarrow>
     ni_up i \<and> \<not> ni_loopback i \<and> fst ip \<noteq> 127 \<and> ip \<noteq> (0, 0, 0, 0) \<and>
     (\<exists>addrs. ni_addresses i = Some addrs \<and> Some ip \<in> set addrs)"

lemma usable_iff: "usable_address a = Some ip \<longleftrightarrow> a = Some ip \<and> fst ip \<noteq> 127 \<and> ip \<noteq> (0, 0, 0, 0)"
  by (auto simp: usable_address_def is_loopback_def is_unspecified_def split: option.splits
      simp del: split_paired_All split_paired_Ex)

lemma candidates_bindable:
  "x \<in> set (interface_candidates i) \<longleftrightarrow>
     if_name x = ni_name i \<and> if_index x = ni_index i \<and> bindable i (if_ip x)"
proof (cases "ni_addresses i")
  case None
  then show ?thesis by (simp add: interface_candidates_def bindable_def)
next
  case (Some addrs)
  have "x \<in> set (interface_candidates i) \<longleftrightarrow> ni_up i \<and> \<not> ni_loopback i \<and>
      (\<exists>a \<in> set addrs. \<exists>ip. usable_address a = Some ip \<and> x = \<lparr>if_name = ni_name i, if_index = ni_index i, if_ip = ip\<rparr>)"
    by (force simp: interface_candidates_def Some split: option.splits simp del: split_paired_All split_paired_Ex)
  moreover have "x = \<lparr>if_name = ni_name i, if_index = ni_index i, if_ip = ip\<rparr> \<longleftrightarrow>
      if_name x = ni_name i \<and> if_index x = ni_index i \<and> ip = if_ip x" for ip
    by (cases x) auto
  ultimately show ?thesis
    by (auto simp: usable_iff bindable_def Some simp del: split_paired_All split_paired_Ex)
qed

text \<open>C16: the listed interfaces.  A successful listing is strictly ordered by interface index and
  address, so no pair occurs twice.  Every entry carries the name and the index of an interface that is up and not the
  loopback, and an address read from that interface which is neither of the loopback network nor unspecified; and every
  such address of every such interface is listed under its index.\<close>

theorem list_interfaces_canonical:
  assumes "list_interfaces c b ctx (Inr is) = Inr found"
    and "\<forall>i \<in> set is. \<forall>addrs ip. ni_addresses i = Some addrs \<longrightarrow> Some ip \<in> set addrs \<longrightarrow> valid_ipv4 ip"
  shows "sorted_wrt interface_less found \<and>
    (\<forall>x \<in> set found. \<exists>i \<in> set is. if_name x = ni_name i \<and> if_index x = ni_index i \<and> bindable i (if_ip x)) \<and>
    (\<forall>i \<in> set is. \<forall>ip. bindable i ip \<longrightarrow> (\<exists>x \<in> set found. if_index x = ni_index i \<and> if_ip x = ip))"
proof -
  obtain all where all: "collect_interfaces ctx 0 is = Inr all" "found = normalize_interfaces all"
    using assms(1) by (auto simp: list_interfaces_def split: sum.splits)
  have members: "x \<in> set all \<longleftrightarrow> (\<exists>i \<in> set is. if_name x = ni_name i \<and> if_index x = ni_index i \<and> bindable i (if_ip x))" for x
    using collect_members [OF all(1)] candidates_bindable by blast
  have "valid_ipv4 (if_ip x)" if "x \<in> set all" for x
    using that assms(2) unfolding members bindable_def by blast
  then have sorted: "sorted_wrt interface_less found" using normalize_sorted all(2) by simp
  have sound: "set found \<subseteq> set all"
    using dedup_seen_subset [of interface_key "[]" all] by (simp add: all(2) normalize_set)
  have keys: "interface_key ` set found = interface_key ` set all"
    by (simp add: all(2) normalize_set dedup_seen_keys)
  have complete: "\<exists>x \<in> set found. if_index x = ni_index i \<and> if_ip x = ip" if "i \<in> set is" "bindable i ip" for i ip
  proof -
    have "\<lparr>if_name = ni_name i, if_index = ni_index i, if_ip = ip\<rparr> \<in> set all"
      unfolding members using that by auto
    then have "(ni_index i, ip) \<in> interface_key ` set found"
      unfolding keys by (force simp: interface_key_def)
    then show ?thesis by (auto simp: interface_key_def)
  qed
  show ?thesis using sorted sound members complete by blast
qed

definition demo_interfaces :: "net_interface list" where
  "demo_interfaces =
     [\<lparr>ni_name = ''wlan0'', ni_index = 3, ni_up = True, ni_loopback = False,
       ni_addresses = Some [Some (10, 0, 0, 9), None, Some (10, 0, 0, 9), Some (0, 0, 0, 0)]\<rparr>,
      \<lparr>ni_name = ''lo'', ni_index = 1, ni_up = True, ni_loopback = True,
       ni_addresses = Some [Some (127, 0, 0, 1)]\<rparr>,
      \<lparr>ni_name = ''eth1'', ni_index = 4, ni_up = False, ni_loopback = False,
       ni_addresses = Some [Some (10, 0, 0, 7)]\<rparr>,
      \<lparr>ni_name = ''eth0'', ni_index = 2, ni_up = True, ni_loopback = False,
       ni_addresses = Some [Some (192, 168, 1, 4), Some (10, 0, 0, 8), Some (127, 0, 0, 2)]\<rparr>]"

definition demo_listed :: "bind_interface list" where
  "demo_listed =
     [\<lparr>if_name = ''eth0'', if_index = 2, if_ip = (10, 0, 0, 8)\<rparr>,
      \<lparr>if_name = ''eth0'', if_index = 2, if_ip = (192, 168, 1, 4)\<rparr>,
      \<lparr>if_name = ''wlan0'', if_index = 3, if_ip = (10, 0, 0, 9)\<rparr>]"

text \<open>Of four interfaces one is the loopback and one is down; three addresses are listed.\<close>

theorem list_interfaces_canonical_witness:
  "list_interfaces (new_client False) True (\<lambda>_. None) (Inr demo_interfaces) = Inr demo_listed \<and>
   sorted_wrt interface_less demo_listed \<and>
   (\<exists>i \<in> set demo_interfaces. ni_name i = ''eth0'' \<and> bindable i (10, 0, 0, 8)) \<and>
   (\<exists>x \<in> set demo_listed. if_index x = 3 \<and> if_ip x = (10, 0, 0, 9))"
proof -
  have run: "list_interfaces (new_client False) True (\<lambda>_. None) (Inr demo_interfaces) = Inr demo_listed"
    by (simp add: list_interfaces_def validate_public_call_def new_client_def returnP_def demo_interfaces_def demo_listed_def
        interface_candidates_def usable_address_def is_loopback_def is_unspecified_def
        normalize_interfaces_def interface_key_def interface_less_def ipv4_value_def)
  have valid: "\<forall>i \<in> set demo_interfaces. \<forall>addrs ip.
      ni_addresses i = Some addrs \<longrightarrow> Some ip \<in> set addrs \<longrightarrow> valid_ipv4 ip"
    by (auto simp: demo_interfaces_def valid_ipv4_def)
  note listed = list_interfaces_canonical [OF run valid]
  have "\<lparr>if_name = ''eth0'', if_index = 2, if_ip = (10, 0, 0, 8)\<rparr> \<in> set demo_listed" by (simp add: demo_listed_def)
  then have eth: "\<exists>i \<in> set demo_interfaces. ni_name i = ''eth0'' \<and> bindable i (10, 0, 0, 8)"
    using listed [THEN conjunct2, THEN conjunct1, THEN bspec] by fastforce
  have "\<lparr>ni_name = ''wlan0'', ni_index = 3, ni_up = True, ni_loopback = False,
       ni_addresses = Some [Some (10, 0, 0, 9), None, Some (10, 0, 0, 9), Some (0, 0, 0, 0)]\<rparr> \<in> set demo_interfaces" (is "?w \<in> _")
    by (simp add: demo_interfaces_def)
  moreover have "bindable ?w (10, 0, 0, 9)" by (simp add: bindable_def)
  ultimately have "\<exists>x \<in> set demo_listed. if_index x = 3 \<and> if_ip x = (10, 0, 0, 9)"
    using listed [THEN conjunct2, THEN conjunct2, THEN bspec, of ?w] by simp
  then show ?thesis using run listed [THEN conjunct1] eth by (intro conjI)
qed

section \<open>The credential envelope\<close>

text \<open>Big-endian byte strings and numbers: \<open>big.Int.SetBytes\<close> and \<open>FillBytes\<close>.\<close>

definition bytes_value :: "string \<Rightarrow> nat" where
  "bytes_value s = foldl (\<lambda>n c. 256 * n + byte c) 0 s"

fun fill_bytes :: "nat \<Rightarrow> nat \<Rightarrow> string" where
  "fill_bytes 0 v = []"
| "fill_bytes (Suc w) v = fill_bytes w (v div 256) @ [char_of (v mod 256)]"

fun bit_length :: "nat \<Rightarrow> nat" where
  "bit_length n = (if n = 0 then 0 else Suc (bit_length (n div 2)))"

declare bit_length.simps [simp del]

definition byte_size :: "nat \<Rightarrow> nat" where
  "byte_size n = (bit_length n + 7) div 8"

text \<open>
  The random source is the bytes it still delivers; reading past its end is an error.  A zero byte of
  the padding is drawn again until it is not zero.
\<close>

definition read_full :: "nat \<Rightarrow> string \<Rightarrow> (string \<times> string) option" where
  "read_full n source = (if length source < n then None else Some (take n source, drop n source))"

fun nonzero_byte :: "char \<Rightarrow> string \<Rightarrow> (char \<times> string) option" where
  "nonzero_byte b [] = (if byte b = 0 then None else Some (b, []))"
| "nonzero_byte b (r # source) = (if byte b = 0 then nonzero_byte r source else Some (b, r # source))"

fun nonzero_padding :: "string \<Rightarrow> string \<Rightarrow> (string \<times> string) option" where
  "nonzero_padding [] source = Some ([], source)"
| "nonzero_padding (b # bs) source = do {
     (c, source) \<leftarrow> nonzero_byte b source;
     (cs, source) \<leftarrow> nonzero_padding bs source;
     Some (c # cs, source)
   }"

datatype envelope_error = EnvelopeKey | EnvelopeTooLong | EnvelopeRandom

definition valid_small_key :: "nat \<Rightarrow> int \<Rightarrow> bool" where
  "valid_small_key n e \<longleftrightarrow> 0 < n \<and> n mod 2 = 1 \<and> 3 \<le> e \<and> e \<le> 2 ^ 31 - 1 \<and> e mod 2 = 1"

definition encode_message :: "nat \<Rightarrow> string \<Rightarrow> string \<Rightarrow> envelope_error + string \<times> string" where
  "encode_message width source plaintext =
     (if int (length plaintext) > int width - 11 then Inl EnvelopeTooLong
      else
        (case read_full (width - length plaintext - 3) source of None \<Rightarrow> Inl EnvelopeRandom
         | Some (padding, source1) \<Rightarrow>
             (case nonzero_padding padding source1 of None \<Rightarrow> Inl EnvelopeRandom
              | Some (padding1, source2) \<Rightarrow>
                  Inr ([char_of (0 :: nat), char_of (2 :: nat)] @ padding1 @ [char_of (0 :: nat)] @ plaintext,
                       source2))))"

definition encrypt_small :: "nat \<Rightarrow> int \<Rightarrow> string \<Rightarrow> string \<Rightarrow> envelope_error + string \<times> string" where
  "encrypt_small n e source plaintext =
     (if \<not> valid_small_key n e then Inl EnvelopeKey
      else (case encode_message (byte_size n) source plaintext of Inl err \<Rightarrow> Inl err
        | Inr (encoded, source1) \<Rightarrow>
            Inr (fill_bytes (byte_size n) (bytes_value encoded ^ nat e mod n), source1)))"

text \<open>
  \<open>encryptCredential\<close>.  Base64, the DER parsers and the standard RSA encryption are the functions of a
  \<open>key_library\<close>; a parsed PKIX key may be of another kind than RSA.
\<close>

datatype pkix_key = PkixRsa nat int | PkixOther

record key_library =
  kl_decode :: "string \<Rightarrow> string option"
  kl_encode :: "string \<Rightarrow> string"
  kl_pkix :: "string \<Rightarrow> pkix_key option"
  kl_pkcs1 :: "string \<Rightarrow> (nat \<times> int) option"
  kl_encrypt :: "nat \<Rightarrow> int \<Rightarrow> string \<Rightarrow> string option"

definition casEncodedKeyLimit :: nat where "casEncodedKeyLimit = 8 * 1024"
definition casDERKeyLimit :: nat where "casDERKeyLimit = 4 * 1024"
definition casRSAMinBits :: nat where "casRSAMinBits = 512"
definition casRSAMaxBits :: nat where "casRSAMaxBits = 8192"
definition casStandardMinBits :: nat where "casStandardMinBits = 1024"

definition parse_public_key :: "key_library \<Rightarrow> string \<Rightarrow> (nat \<times> int) option" where
  "parse_public_key lib der =
     (case kl_pkix lib der of
        Some (PkixRsa n e) \<Rightarrow> Some (n, e)
      | Some PkixOther \<Rightarrow> None
      | None \<Rightarrow> kl_pkcs1 lib der)"

definition encrypt_credential :: "key_library \<Rightarrow> string \<Rightarrow> string \<Rightarrow> string \<Rightarrow> string \<Rightarrow> string option" where
  "encrypt_credential lib source username password encoded_key = do {
     let encoded = trim_space encoded_key;
     require (length encoded \<le> casEncodedKeyLimit);
     der \<leftarrow> kl_decode lib encoded;
     require (length der \<le> casDERKeyLimit);
     (n, e) \<leftarrow> parse_public_key lib der;
     require (casRSAMinBits \<le> bit_length n \<and> bit_length n \<le> casRSAMaxBits);
     ciphertext \<leftarrow>
       (if bit_length n < casStandardMinBits
        then (case encrypt_small n e source (username @ password) of Inl _ \<Rightarrow> None | Inr (c, _) \<Rightarrow> Some c)
        else kl_encrypt lib n e (username @ password));
     Some (kl_encode lib ciphertext)
   }"

text \<open>The receiver's side of the envelope (RFC 8017, 7.2.2), to state what the sender must keep.\<close>

definition open_message :: "string \<Rightarrow> string option" where
  "open_message em =
     (case em of
        a # b # rest \<Rightarrow>
          (let padding = takeWhile (\<lambda>c. byte c \<noteq> 0) rest in
           if byte a = 0 \<and> byte b = 2 \<and> 8 \<le> length padding \<and> length padding < length rest
           then Some (drop (length padding + 1) rest) else None)
      | _ \<Rightarrow> None)"

lemma nonzero_byte_ok: "nonzero_byte b source = Some (c, rest) \<Longrightarrow> byte c \<noteq> 0"
  by (induction b source rule: nonzero_byte.induct) (auto split: if_splits)

lemma nonzero_padding_ok:
  "nonzero_padding bs source = Some (cs, rest) \<Longrightarrow> length cs = length bs \<and> list_all (\<lambda>c. byte c \<noteq> 0) cs"
  by (induction bs arbitrary: source cs)
    (auto simp: bind_eq_Some_conv dest!: nonzero_byte_ok)

lemma encode_message_shape:
  assumes "encode_message width source plaintext = Inr (em, rest)"
  obtains padding where
    "em = [char_of (0 :: nat), char_of (2 :: nat)] @ padding @ [char_of (0 :: nat)] @ plaintext"
    "list_all (\<lambda>c. byte c \<noteq> 0) padding" "length padding = width - length plaintext - 3"
    "length plaintext + 11 \<le> width"
proof -
  from assms obtain p s1 padding s2 where
    *: "\<not> int (length plaintext) > int width - 11"
    "read_full (width - length plaintext - 3) source = Some (p, s1)"
    "nonzero_padding p s1 = Some (padding, s2)"
    "em = [char_of (0 :: nat), char_of (2 :: nat)] @ padding @ [char_of (0 :: nat)] @ plaintext"
    by (auto simp: encode_message_def split: if_splits option.splits)
  have "length p = width - length plaintext - 3"
    using *(2) by (auto simp: read_full_def split: if_splits)
  then show ?thesis using that * nonzero_padding_ok [OF *(3)] by auto
qed

lemma bytes_value_append: "bytes_value (s @ t) = bytes_value s * 256 ^ length t + bytes_value t"
proof (induction t rule: rev_induct)
  case (snoc c t)
  then show ?case by (simp add: bytes_value_def algebra_simps)
qed (simp add: bytes_value_def)

lemma bytes_value_less: "bytes_value s < 256 ^ length s"
proof (induction s rule: rev_induct)
  case (snoc c s)
  then have "256 * bytes_value s + 256 \<le> 256 * 256 ^ length s" by simp
  then have "256 * bytes_value s + byte c < 256 * 256 ^ length s" using byte_less [of c] by linarith
  then show ?case by (simp add: bytes_value_def)
qed (simp add: bytes_value_def)

lemma bytes_value_fill: "v < 256 ^ w \<Longrightarrow> bytes_value (fill_bytes w v) = v"
proof (induction w arbitrary: v)
  case (Suc w)
  then have "v div 256 < 256 ^ w" by (simp add: less_mult_imp_div_less mult.commute)
  then show ?case using Suc.IH by (simp add: bytes_value_append) (simp add: bytes_value_def of_char_of)
qed (simp add: bytes_value_def)

lemma length_fill_bytes [simp]: "length (fill_bytes w v) = w"
  by (induction w arbitrary: v) auto

lemma bit_length_bounds: "0 < n \<Longrightarrow> 2 ^ (bit_length n - 1) \<le> n \<and> n < 2 ^ bit_length n"
proof (induction n rule: bit_length.induct)
  case (1 n)
  show ?case
  proof (cases "n div 2 = 0")
    case True
    then have "n = 1" using 1 by auto
    then show ?thesis by (simp add: bit_length.simps)
  next
    case False
    then have IH: "2 ^ (bit_length (n div 2) - 1) \<le> n div 2 \<and> n div 2 < 2 ^ bit_length (n div 2)"
      using 1 by simp
    moreover have "bit_length n = Suc (bit_length (n div 2))" using 1(2) by (simp add: bit_length.simps)
    moreover have "bit_length (n div 2) \<noteq> 0" using False by (simp add: bit_length.simps [of "n div 2"])
    ultimately show ?thesis by (cases "bit_length (n div 2)") auto
  qed
qed

lemma byte_size_bounds:
  assumes "0 < n" shows "256 ^ (byte_size n - 1) \<le> n" and "n < 256 ^ byte_size n"
proof -
  have "bit_length n \<noteq> 0" using assms by (simp add: bit_length.simps [of n])
  then have e: "8 * (byte_size n - 1) \<le> bit_length n - 1" "bit_length n \<le> 8 * byte_size n"
    unfolding byte_size_def by linarith+
  have pow: "(256 :: nat) ^ k = 2 ^ (8 * k)" for k by (simp add: power_mult)
  show "256 ^ (byte_size n - 1) \<le> n"
    unfolding pow using power_increasing [OF e(1), of "2 :: nat"] bit_length_bounds [OF assms] by linarith
  show "n < 256 ^ byte_size n"
    unfolding pow using power_increasing [OF e(2), of "2 :: nat"] bit_length_bounds [OF assms] by linarith
qed

lemma open_encoded:
  assumes "list_all (\<lambda>c. byte c \<noteq> 0) padding" and "8 \<le> length padding"
  shows "open_message ([char_of (0 :: nat), char_of (2 :: nat)] @ padding @ [char_of (0 :: nat)] @ plaintext) =
    Some plaintext"
proof -
  let ?p = "\<lambda>c. byte c \<noteq> 0"
  have "takeWhile ?p (padding @ char_of (0 :: nat) # plaintext) = padding"
    using assms(1) by (simp add: takeWhile_append list_all_iff of_char_of)
  then show ?thesis using assms(2) by (simp add: open_message_def Let_def of_char_of)
qed

text \<open>C17: the envelope of the credentials.  Whenever the small-key encryption succeeds, the ciphertext
  has the width of the modulus and is the modular power of a message block below the modulus, and a
  receiver that opens the block finds exactly the plaintext behind at least eight non-zero random
  bytes.\<close>

theorem encrypt_small_envelope:
  assumes "encrypt_small n e source plaintext = Inr (ciphertext, rest)"
  shows "length ciphertext = byte_size n \<and>
    (\<exists>em. open_message em = Some plaintext \<and> length em = byte_size n \<and> bytes_value em < n \<and>
       bytes_value ciphertext = bytes_value em ^ nat e mod n)"
proof -
  from assms obtain em where key: "valid_small_key n e"
    and em: "encode_message (byte_size n) source plaintext = Inr (em, rest)"
    and ct: "ciphertext = fill_bytes (byte_size n) (bytes_value em ^ nat e mod n)"
    by (auto simp: encrypt_small_def split: if_splits sum.splits)
  have n: "0 < n" using key by (simp add: valid_small_key_def)
  obtain padding where shape:
    "em = [char_of (0 :: nat), char_of (2 :: nat)] @ padding @ [char_of (0 :: nat)] @ plaintext"
    "list_all (\<lambda>c. byte c \<noteq> 0) padding" "length padding = byte_size n - length plaintext - 3"
    "length plaintext + 11 \<le> byte_size n"
    using encode_message_shape [OF em] .
  then have len: "length em = byte_size n" by simp
  have "bytes_value em = bytes_value (tl em)"
    unfolding shape(1) by (simp add: bytes_value_def of_char_of)
  also have "\<dots> < 256 ^ (byte_size n - 1)" using bytes_value_less [of "tl em"] len by simp
  also have "\<dots> \<le> n" by (rule byte_size_bounds(1) [OF n])
  finally have "bytes_value em < n" .
  moreover have "bytes_value ciphertext = bytes_value em ^ nat e mod n"
    unfolding ct by (rule bytes_value_fill) (use mod_less_divisor [OF n] byte_size_bounds(2) [OF n] less_trans in blast)
  moreover have "open_message em = Some plaintext"
    unfolding shape(1) by (rule open_encoded) (use shape in auto)
  ultimately show ?thesis using len ct by auto
qed

definition demo_modulus :: nat where "demo_modulus = 79228162514264337593543950337"

theorem encrypt_small_envelope_witness:
  "\<exists>ciphertext rest. encrypt_small demo_modulus 3 ''abcdefghijk'' ''p'' = Inr (ciphertext, rest) \<and>
     length ciphertext = byte_size demo_modulus"
proof -
  have "byte_size demo_modulus = 13" by (simp add: byte_size_def demo_modulus_def bit_length.simps)
  moreover have "\<exists>em rest. encode_message 13 ''abcdefghijk'' ''p'' = Inr (em, rest)"
    by (simp add: encode_message_def read_full_def)
  moreover have "valid_small_key demo_modulus 3" by (simp add: valid_small_key_def demo_modulus_def)
  ultimately have "\<exists>ciphertext rest. encrypt_small demo_modulus 3 ''abcdefghijk'' ''p'' = Inr (ciphertext, rest)"
    unfolding encrypt_small_def by auto
  then show ?thesis using encrypt_small_envelope [of demo_modulus 3 "''abcdefghijk''" "''p''"] by blast
qed

end
