(* ===== verification/GoBase64.thy ===== *)
theory GoBase64
  imports GoStrings
begin

text \<open>
  \<open>base64.StdEncoding.Strict()\<close>: the standard alphabet with padding; line ends are skipped, and the
  bits behind the last byte must be zero.  Encoding and decoding are inverse on byte strings.
\<close>

text \<open>The alphabet is \<open>A-Z\<close>, \<open>a-z\<close>, \<open>0-9\<close>, \<open>+\<close> and \<open>/\<close>.\<close>

definition b64_char :: "nat \<Rightarrow> char" where
  "b64_char n =
     (if n < 26 then char_of (n + 65)
      else if n < 52 then char_of (n + 71)
      else if n < 62 then char_of (n - 4)
      else if n = 62 then CHR ''+''
      else CHR ''/'')"

definition b64_val :: "char \<Rightarrow> nat option" where
  "b64_val c =
     (if is_upper c then Some (byte c - 65)
      else if is_lower c then Some (byte c - 71)
      else if is_digit c then Some (byte c + 4)
      else if c = CHR ''+'' then Some 62
      else if c = CHR ''/'' then Some 63
      else None)"

fun b64_encode :: "string \<Rightarrow> string" where
  "b64_encode [] = []"
| "b64_encode [a] =
     [b64_char (byte a div 4), b64_char (byte a mod 4 * 16), CHR ''='', CHR ''='']"
| "b64_encode [a, b] =
     [b64_char (byte a div 4), b64_char (byte a mod 4 * 16 + byte b div 16), b64_char (byte b mod 16 * 4), CHR ''='']"
| "b64_encode (a # b # c # cs) =
     [b64_char (byte a div 4), b64_char (byte a mod 4 * 16 + byte b div 16),
      b64_char (byte b mod 16 * 4 + byte c div 64), b64_char (byte c mod 64)] @ b64_encode cs"

text \<open>One quantum of four characters; padding ends the text.\<close>

definition b64_last :: "char \<Rightarrow> char \<Rightarrow> char \<Rightarrow> string option" where
  "b64_last a b c = do {
     x \<leftarrow> b64_val a;
     y \<leftarrow> b64_val b;
     if c = CHR ''='' then (if y mod 16 = 0 then Some [char_of (x * 4 + y div 16)] else None)
     else do {
       z \<leftarrow> b64_val c;
       if z mod 4 = 0 then Some [char_of (x * 4 + y div 16), char_of (y mod 16 * 16 + z div 4)] else None
     }
   }"

fun b64_groups :: "string \<Rightarrow> string option" where
  "b64_groups [] = Some []"
| "b64_groups (a # b # c # d # cs) =
     (if d = CHR ''='' then (if cs = [] then b64_last a b c else None)
      else do {
        w \<leftarrow> b64_val a;
        x \<leftarrow> b64_val b;
        y \<leftarrow> b64_val c;
        z \<leftarrow> b64_val d;
        rest \<leftarrow> b64_groups cs;
        Some ([char_of (w * 4 + x div 16), char_of (x mod 16 * 16 + y div 4), char_of (y mod 4 * 64 + z)] @ rest)
      })"
| "b64_groups _ = None"

definition b64_decode :: "string \<Rightarrow> string option" where
  "b64_decode s = b64_groups (filter (\<lambda>c. c \<notin> {CHR 0x0A, CHR 0x0D}) s)"

lemma b64_char_cases:
  assumes "n < 64" shows "b64_val (b64_char n) = Some n \<and> b64_char n \<notin> {CHR ''='', CHR 0x0A, CHR 0x0D}"
proof -
  have ne: "char_of m = c \<longleftrightarrow> m = byte c" if "m < 256" for m :: nat and c
  proof -
    have "byte (char_of m) = m" using that by simp
    then show ?thesis by auto
  qed
  consider "n < 26" | "26 \<le> n" "n < 52" | "52 \<le> n" "n < 62" | "n = 62" | "n = 63"
    using assms by linarith
  then show ?thesis
    by cases (simp_all add: b64_char_def b64_val_def is_upper_def is_lower_def is_digit_def in_range_def ne, arith)
qed

lemma b64_val_char [simp]: "n < 64 \<Longrightarrow> b64_val (b64_char n) = Some n"
  and b64_char_not_pad [simp]: "n < 64 \<Longrightarrow> b64_char n \<noteq> CHR ''=''"
  and b64_char_not_line: "n < 64 \<Longrightarrow> b64_char n \<noteq> CHR 0x0A \<and> b64_char n \<noteq> CHR 0x0D"
  using b64_char_cases by auto

lemma byte_quotients: "byte a div 4 < 64" "byte a div 16 < 16" "byte a div 64 < 4"
  using byte_less [of a] by (auto simp: div_less_iff_less_mult)

lemma byte_parts:
  "byte a div 4 < 64" "byte a mod 4 * 16 < 64" "byte a mod 4 * 16 + byte b div 16 < 64"
  "byte b mod 16 * 4 < 64" "byte b mod 16 * 4 + byte c div 64 < 64" "byte c mod 64 < 64"
proof -
  have "byte a mod 4 \<le> 3" "byte b mod 16 \<le> 15"
    using mod_less_divisor [of 4 "byte a"] mod_less_divisor [of 16 "byte b"] by linarith+
  then show "byte a mod 4 * 16 + byte b div 16 < 64" "byte b mod 16 * 4 + byte c div 64 < 64"
    using byte_quotients [of b] byte_quotients [of c] by linarith+
qed (simp_all add: byte_quotients)

lemma byte_joins:
  "byte a div 4 * 4 + (byte a mod 4 * 16 + byte b div 16) div 16 = byte a"
  "(byte a mod 4 * 16 + byte b div 16) mod 16 * 16 + (byte b mod 16 * 4 + byte c div 64) div 4 = byte b"
  "(byte b mod 16 * 4 + byte c div 64) mod 4 * 64 + byte c mod 64 = byte c"
  "(byte a mod 4 * 16 + byte b div 16) mod 16 * 16 + byte b mod 16 * 4 div 4 = byte b"
  "byte a div 4 * 4 + byte a mod 4 * 16 div 16 = byte a"
  by (simp_all add: byte_quotients div_add1_eq mod_add_eq)

lemma byte_small: "byte a div 16 div 16 = 0" "byte a div 16 mod 16 = byte a div 16"
    "byte a div 64 div 4 = 0" "byte a div 64 mod 4 = byte a div 64"
  using byte_quotients [of a] by simp_all

lemma b64_groups_encode: "b64_groups (b64_encode s) = Some s"
proof (induction s rule: b64_encode.induct)
  case (2 a)
  show ?case by (simp add: b64_last_def byte_parts byte_joins)
next
  case (3 a b)
  show ?case by (simp add: b64_last_def byte_parts byte_joins byte_small)
next
  case (4 a b c cs)
  then show ?case by (simp add: byte_parts byte_joins byte_small)
qed simp

lemma b64_encode_no_line: "filter (\<lambda>c. c \<notin> {CHR 0x0A, CHR 0x0D}) (b64_encode s) = b64_encode s"
  by (induction s rule: b64_encode.induct) (simp_all add: b64_char_not_line byte_parts)

lemma b64_round_trip [simp]: "b64_decode (b64_encode s) = Some s"
  unfolding b64_decode_def b64_encode_no_line by (rule b64_groups_encode)

end
