(* ===== verification/MigSource.thy ===== *)
theory MigSource
  imports MigJournal GoBase64 GoUrl
begin

text \<open>
  The legacy sources of \<open>internal/config/migration.go\<close>: reading, strict decoding, the redacted digest and
  the candidates.  The YAML source is decoded by the library; the JSON source by \<open>encoding/json\<close>, with
  its case-insensitive keys, its treatment of \<open>null\<close> and of repeated keys.
\<close>

section \<open>Legacy documents\<close>

record legacy_meta_account =
  MetaUsername :: string
  MetaPassword :: string

record legacy_meta =
  MetaLogStyle :: string
  MetaLogLevel :: string
  MetaDefault :: string
  MetaAccounts :: "legacy_meta_account list"

record legacy_account =
  NeucnUsername :: string
  EncryptedPassword :: string

record legacy_neucn =
  NeucnDefault :: string
  NeucnAccounts :: "legacy_account list option"

text \<open>The slots of the slice that earlier elements were decoded into, for repeated keys.\<close>

record legacy_decode =
  DecDefault :: string
  DecSlots :: "legacy_account list"
  DecAccounts :: "legacy_account list option"

definition zero_account :: legacy_account where
  "zero_account = \<lparr>NeucnUsername = '''', EncryptedPassword = ''''\<rparr>"

text \<open>A string into a field: \<open>null\<close> leaves it.\<close>

definition json_into_string :: "json \<Rightarrow> string \<Rightarrow> string option" where
  "json_into_string v old = (case v of JStr s \<Rightarrow> Some s | JNull \<Rightarrow> Some old | _ \<Rightarrow> None)"

definition account_member :: "legacy_account option \<Rightarrow> string \<times> json \<Rightarrow> legacy_account option" where
  "account_member acc m = do {
     a \<leftarrow> acc;
     if equal_fold (fst m) ''username'' then
       map_option (\<lambda>s. a\<lparr>NeucnUsername := s\<rparr>) (json_into_string (snd m) (NeucnUsername a))
     else if equal_fold (fst m) ''encrypted_password'' then
       map_option (\<lambda>s. a\<lparr>EncryptedPassword := s\<rparr>) (json_into_string (snd m) (EncryptedPassword a))
     else None
   }"

definition json_into_account :: "json \<Rightarrow> legacy_account \<Rightarrow> legacy_account option" where
  "json_into_account v old =
     (case v of JNull \<Rightarrow> Some old | JObj ms \<Rightarrow> foldl account_member (Some old) ms | _ \<Rightarrow> None)"

fun json_into_slots :: "json list \<Rightarrow> legacy_account list \<Rightarrow> legacy_account list option" where
  "json_into_slots [] slots = Some slots"
| "json_into_slots (v # vs) slots = do {
     a \<leftarrow> json_into_account v (case slots of [] \<Rightarrow> zero_account | s # _ \<Rightarrow> s);
     rest \<leftarrow> json_into_slots vs (drop 1 slots);
     Some (a # rest)
   }"

definition neucn_member :: "legacy_decode option \<Rightarrow> string \<times> json \<Rightarrow> legacy_decode option" where
  "neucn_member acc m = do {
     d \<leftarrow> acc;
     if equal_fold (fst m) ''default_account'' then
       map_option (\<lambda>s. d\<lparr>DecDefault := s\<rparr>) (json_into_string (snd m) (DecDefault d))
     else if equal_fold (fst m) ''accounts'' then
       (case snd m of
          JNull \<Rightarrow> Some (d\<lparr>DecSlots := [], DecAccounts := None\<rparr>)
        | JArr [] \<Rightarrow> Some (d\<lparr>DecSlots := [], DecAccounts := Some []\<rparr>)
        | JArr vs \<Rightarrow>
            map_option (\<lambda>slots. d\<lparr>DecSlots := slots, DecAccounts := Some (take (length vs) slots)\<rparr>)
              (json_into_slots vs (DecSlots d))
        | _ \<Rightarrow> None)
     else None
   }"

text \<open>\<open>decodeStrictJSON\<close> into a \<open>legacyNEUCNSource\<close>.\<close>

definition decode_neucn :: "string \<Rightarrow> legacy_neucn option" where
  "decode_neucn data = do {
     v \<leftarrow> json_unmarshal data;
     let zero = \<lparr>DecDefault = '''', DecSlots = [], DecAccounts = None\<rparr>;
     d \<leftarrow> (case v of JNull \<Rightarrow> Some zero | JObj ms \<Rightarrow> foldl neucn_member (Some zero) ms | _ \<Rightarrow> None);
     Some \<lparr>NeucnDefault = DecDefault d, NeucnAccounts = DecAccounts d\<rparr>
   }"

section \<open>Canonical JSON\<close>

text \<open>String literals as \<open>json.Marshal\<close> writes them, with HTML characters escaped.\<close>

definition json_escape_byte :: "char \<Rightarrow> string" where
  "json_escape_byte c =
     (if c = dquote \<or> c = backslash then [backslash, c]
      else if byte c = 8 then [backslash, CHR ''b'']
      else if byte c = 12 then [backslash, CHR ''f'']
      else if byte c = 10 then [backslash, CHR ''n'']
      else if byte c = 13 then [backslash, CHR ''r'']
      else if byte c = 9 then [backslash, CHR ''t'']
      else if byte c < 32 \<or> c \<in> {CHR ''<'', CHR ''>'', CHR ''&''}
      then [backslash] @ ''u00'' @ hex_bytes [c]
      else [c])"

definition line_separators :: "(string \<times> string) list" where
  "line_separators =
     [([CHR 0xE2, CHR 0x80, CHR 0xA8], [backslash] @ ''u2028''), ([CHR 0xE2, CHR 0x80, CHR 0xA9], [backslash] @ ''u2029'')]"

function json_escape :: "string \<Rightarrow> string" where
  "json_escape [] = []"
| "json_escape (c # cs) =
     (let n = utf8_len (c # cs); piece = take n (c # cs) in
      if n = 0 then [backslash] @ ''ufffd'' @ json_escape cs
      else
        (case map_of line_separators piece of
           Some e \<Rightarrow> e
         | None \<Rightarrow> if n = 1 then json_escape_byte c else piece) @ json_escape (drop n (c # cs)))"
  by pat_completeness auto
termination
  by (relation "measure length") auto

definition json_quote :: "string \<Rightarrow> string" where
  "json_quote s = [dquote] @ json_escape s @ [dquote]"

definition json_field :: "string \<Rightarrow> string \<Rightarrow> string" where
  "json_field name v = json_quote name @ '':'' @ v"

definition marshal_neucn :: "legacy_neucn \<Rightarrow> string" where
  "marshal_neucn src =
     ''{'' @ json_field ''default_account'' (json_quote (NeucnDefault src)) @ '','' @
     json_field ''accounts''
       (case NeucnAccounts src of
          None \<Rightarrow> ''null''
        | Some as \<Rightarrow>
            ''['' @ join_str '','' (map (\<lambda>a.
              ''{'' @ json_field ''username'' (json_quote (NeucnUsername a)) @ '','' @
              json_field ''encrypted_password'' (json_quote (EncryptedPassword a)) @ ''}'') as) @ '']'') @ ''}''"

section \<open>Sources\<close>

record plan_env = migration_env +
  decode_meta :: "string \<Rightarrow> legacy_meta option"
  marshal_meta :: "legacy_meta \<Rightarrow> string option"

definition redactedPlaceholder :: string where "redactedPlaceholder = ''<credential-redacted>''"

text \<open>\<open>redactedMigrationSourceDigest\<close>: the digest does not depend on any credential.\<close>

definition redact_meta :: "legacy_meta \<Rightarrow> legacy_meta" where
  "redact_meta src = src\<lparr>MetaAccounts := map (\<lambda>a. a\<lparr>MetaPassword := redactedPlaceholder\<rparr>) (MetaAccounts src)\<rparr>"

definition redact_neucn :: "legacy_neucn \<Rightarrow> legacy_neucn" where
  "redact_neucn src =
     src\<lparr>NeucnAccounts :=
       map_option (map (\<lambda>a. a\<lparr>EncryptedPassword := redactedPlaceholder\<rparr>)) (NeucnAccounts src)\<rparr>"

definition redacted_digest :: "'e plan_env_scheme \<Rightarrow> source_kind \<Rightarrow> string \<Rightarrow> string option" where
  "redacted_digest en kind data =
     (case kind of
        MetaYAML \<Rightarrow> do {
          src \<leftarrow> decode_meta en data;
          canonical \<leftarrow> marshal_meta en (redact_meta src);
          Some (digest en canonical)
        }
      | NeucnJSON \<Rightarrow> do {
          src \<leftarrow> decode_neucn data;
          Some (digest en (marshal_neucn (redact_neucn src)))
        }
      | KindOther _ \<Rightarrow> None)"

record migration_source =
  SourceKind :: source_kind
  SourceLocation :: string
  SourceRaw :: string
  SourceRedacted :: string

text \<open>\<open>newMigrationSource\<close>; a raw digest is represented in hexadecimal.\<close>

definition new_source :: "'e plan_env_scheme \<Rightarrow> source_kind \<Rightarrow> string \<Rightarrow> string \<Rightarrow> migration_source option" where
  "new_source en kind path data = do {
     absolute \<leftarrow> path_abs en path;
     redacted \<leftarrow> redacted_digest en kind data;
     Some \<lparr>SourceKind = kind, SourceLocation = digest en (path_clean absolute), SourceRaw = digest en data,
           SourceRedacted = redacted\<rparr>
   }"

datatype credential_status = PendingImportable | PendingManual | CredentialResolved | KeyringImport

record migrated_profile =
  MigName :: string
  MigUsername :: string
  MigCredential :: credential_ref
  MigStatus :: credential_status
  MigDefault :: bool
  MigSource :: source_kind

definition no_credential :: credential_ref where
  "no_credential = \<lparr>Provider = ProviderOther '''', Reference = ''''\<rparr>"

text \<open>\<open>readBoundedMigrationFile\<close> follows links and takes any readable file.\<close>

definition read_source :: "(nat \<Rightarrow> fault) \<Rightarrow> string \<Rightarrow> string option fsop" where
  "read_source faults path =
     bindP (plain_call faults) (\<lambda>_.
     bindP (file_at path) (\<lambda>node.
     case node of
       None \<Rightarrow> returnP None
     | Some (OtherNode _) \<Rightarrow> failure ''read migration source''
     | Some (PlainFile _ data) \<Rightarrow>
         bindP (plain_call faults) (\<lambda>_.
         if maxConfigBytes < length data then failure ''migration source exceeds the limit''
         else returnP (Some data))))"

text \<open>The secret of a legacy account, when it can be imported.\<close>

definition legacy_secret :: "string \<Rightarrow> string option" where
  "legacy_secret password =
     (case b64_decode password of None \<Rightarrow> None
      | Some s \<Rightarrow> if s \<noteq> '''' \<and> length s \<le> maxCredentialBytes \<and> CHR 0x00 \<notin> set s then Some s else None)"

type_synonym candidate = "migrated_profile \<times> string option"

definition meta_candidate :: "legacy_meta \<Rightarrow> legacy_meta_account \<Rightarrow> candidate" where
  "meta_candidate src a =
     (\<lparr>MigName = MetaUsername a, MigUsername = MetaUsername a, MigCredential = no_credential,
       MigStatus = (if legacy_secret (MetaPassword a) = None then PendingManual else PendingImportable),
       MigDefault = (MetaUsername a = MetaDefault src), MigSource = MetaYAML\<rparr>,
      legacy_secret (MetaPassword a))"

definition neucn_candidate :: "legacy_neucn \<Rightarrow> legacy_account \<Rightarrow> candidate" where
  "neucn_candidate src a =
     (\<lparr>MigName = NeucnUsername a, MigUsername = NeucnUsername a, MigCredential = no_credential,
       MigStatus = PendingManual, MigDefault = (NeucnUsername a = NeucnDefault src), MigSource = NeucnJSON\<rparr>,
      None)"

definition meta_candidates :: "'e plan_env_scheme \<Rightarrow> string \<Rightarrow> string \<Rightarrow> (migration_source \<times> candidate list) option" where
  "meta_candidates en path data = do {
     src \<leftarrow> decode_meta en data;
     preview \<leftarrow> new_source en MetaYAML path data;
     require (list_all (\<lambda>a. profile_name_ok (MetaUsername a)) (MetaAccounts src));
     Some (preview, map (meta_candidate src) (MetaAccounts src))
   }"

definition neucn_candidates :: "'e plan_env_scheme \<Rightarrow> string \<Rightarrow> string \<Rightarrow> (migration_source \<times> candidate list) option" where
  "neucn_candidates en path data = do {
     src \<leftarrow> decode_neucn data;
     preview \<leftarrow> new_source en NeucnJSON path data;
     let as = (case NeucnAccounts src of None \<Rightarrow> [] | Some as \<Rightarrow> as);
     require (list_all (\<lambda>a. profile_name_ok (NeucnUsername a)) as);
     Some (preview, map (neucn_candidate src) as)
   }"

text \<open>\<open>parseLegacyMetaSource\<close>, \<open>parseLegacyNEUCNSource\<close>: \<open>None\<close> when there is no file.\<close>

definition parse_legacy ::
    "(nat \<Rightarrow> fault) \<Rightarrow> (string \<Rightarrow> (migration_source \<times> candidate list) option) \<Rightarrow> string \<Rightarrow>
       (migration_source \<times> candidate list) option fsop" where
  "parse_legacy faults parse path =
     bindP (read_source faults path) (\<lambda>found.
     case found of
       None \<Rightarrow> returnP None
     | Some data \<Rightarrow>
         (case parse data of None \<Rightarrow> failure ''parse migration source'' | Some r \<Rightarrow> returnP (Some r)))"

text \<open>\<open>resolveLegacyNEUCNPath\<close>.\<close>

fun first_regular :: "(nat \<Rightarrow> fault) \<Rightarrow> string \<Rightarrow> string list \<Rightarrow> string fsop" where
  "first_regular faults dir [] = failure ''migration source directory has no supported config file''"
| "first_regular faults dir (name # others) =
     bindP (plain_call faults) (\<lambda>_.
     bindP (file_at (path_join [dir, name])) (\<lambda>node.
     case node of
       Some (PlainFile _ _) \<Rightarrow> returnP (path_join [dir, name])
     | _ \<Rightarrow> first_regular faults dir others))"

definition resolve_legacy_path :: "(nat \<Rightarrow> fault) \<Rightarrow> string \<Rightarrow> string option fsop" where
  "resolve_legacy_path faults path =
     bindP (plain_call faults) (\<lambda>_.
     bindP (file_at path) (\<lambda>node.
     case node of
       None \<Rightarrow> returnP None
     | Some (OtherNode True) \<Rightarrow>
         bindP (first_regular faults path [''config.json'', ''config'']) (\<lambda>p. returnP (Some p))
     | Some _ \<Rightarrow> returnP (Some path)))"

section \<open>No credential in a stamp\<close>

lemma legacy_secret_encode:
  "legacy_secret (b64_encode s) = (if s \<noteq> '''' \<and> length s \<le> maxCredentialBytes \<and> CHR 0x00 \<notin> set s then Some s else None)"
  by (simp add: legacy_secret_def)

end
