(* ===== verification/MigPlan.thy ===== *)
theory MigPlan
  imports MigSource "HOL-Library.Char_ord" "HOL-Library.List_Lexorder" "HOL-Library.Product_Lexorder"
begin

text \<open>
  The migration plan of \<open>internal/config/migration.go\<close>: building it from the legacy sources, the user's
  decisions on conflicts and credentials, closing it, and what is checked before it is applied.  The
  maps of the plan state are association lists.
\<close>

section \<open>Plan\<close>

record conflict =
  ConflictProfile :: string
  ConflictReason :: string

record plan =
  PlanSources :: "(source_kind \<times> string) list"
  PlanProfiles :: "migrated_profile list"
  PlanConflicts :: "conflict list"
  PlanWarnings :: "string list"
  PlanSecrets :: "(string \<times> string) list"
  SourcePaths :: "(string \<times> string) list"
  RawDigests :: "(string \<times> string) list"
  SourceStamps :: "(string \<times> source_stamp) list"
  ReservedRefs :: "(string \<times> string) list"
  DestinationDigest :: string
  PlanClosed :: bool

definition new_plan :: plan where
  "new_plan =
     \<lparr>PlanSources = [], PlanProfiles = [], PlanConflicts = [], PlanWarnings = [], PlanSecrets = [],
      SourcePaths = [], RawDigests = [], SourceStamps = [], ReservedRefs = [], DestinationDigest = '''',
      PlanClosed = False\<rparr>"

text \<open>\<open>MigrationPlan.Close\<close> clears every decoded secret.\<close>

definition close_plan :: "plan \<Rightarrow> plan" where
  "close_plan p =
     (if PlanClosed p then p
      else p\<lparr>PlanSecrets := [], SourcePaths := [], RawDigests := [], SourceStamps := [],
             DestinationDigest := '''', PlanClosed := True\<rparr>)"

definition zero_digest :: string where
  "zero_digest = replicate 64 (CHR ''0'')"

definition add_source :: "plan \<Rightarrow> migration_source \<Rightarrow> string \<Rightarrow> plan option" where
  "add_source p src path =
     (if PlanClosed p \<or> SourceLocation src = '''' \<or> map_of (SourcePaths p) (SourceLocation src) \<noteq> None
         \<or> SourceRaw src = zero_digest \<or> \<not> valid_sha256 (SourceRedacted src)
      then None
      else Some (p\<lparr>PlanSources := PlanSources p @ [(SourceKind src, SourceLocation src)],
        SourcePaths := AList.update (SourceLocation src) path (SourcePaths p),
        RawDigests := AList.update (SourceLocation src) (SourceRaw src) (RawDigests p),
        SourceStamps := AList.update (SourceLocation src)
          \<lparr>StampKind = SourceKind src, LocationHash = SourceLocation src, RedactedDigest = SourceRedacted src\<rparr>
          (SourceStamps p)\<rparr>))"

definition kind_text :: "source_kind \<Rightarrow> string" where
  "kind_text k = (case k of MetaYAML \<Rightarrow> ''meta_yaml'' | NeucnJSON \<Rightarrow> ''neucn_json'' | KindOther s \<Rightarrow> s)"

definition twice_reason :: "source_kind \<Rightarrow> source_kind \<Rightarrow> string" where
  "twice_reason a b =
     ''profile is present in both '' @ kind_text a @ '' and '' @ kind_text b @ ''; the first source is selected''"

definition manual_warning :: "migrated_profile \<Rightarrow> string" where
  "manual_warning m =
     kind_text (MigSource m) @ '' profile '' @ [dquote] @ MigName m @ [dquote] @
     '' requires an explicit credential setup decision''"

text \<open>One candidate of \<open>BuildMigrationPlan\<close>; \<open>seen\<close> holds the profile names taken so far.\<close>

definition add_candidate ::
    "config \<Rightarrow> (string \<times> source_kind) list \<times> plan \<Rightarrow> candidate \<Rightarrow> (string \<times> source_kind) list \<times> plan" where
  "add_candidate destination sp cand =
     (case sp of (seen, p) \<Rightarrow>
        let m = fst cand in
        (case map_of seen (MigName m) of
           Some previous \<Rightarrow>
             (seen, p\<lparr>PlanConflicts := PlanConflicts p @
                [\<lparr>ConflictProfile = MigName m, ConflictReason = twice_reason previous (MigSource m)\<rparr>]\<rparr>)
         | None \<Rightarrow>
             ((MigName m, MigSource m) # seen,
              p\<lparr>PlanProfiles := PlanProfiles p @ [m],
                PlanSecrets := (case snd cand of None \<Rightarrow> PlanSecrets p
                  | Some s \<Rightarrow> if s = '''' then PlanSecrets p else AList.update (MigName m) s (PlanSecrets p)),
                PlanConflicts :=
                  (if map_of (Profiles destination) (MigName m) \<noteq> None
                   then PlanConflicts p @
                     [\<lparr>ConflictProfile = MigName m, ConflictReason = ''profile already exists in destination''\<rparr>]
                   else PlanConflicts p),
                PlanWarnings :=
                  (if MigStatus m = PendingManual then PlanWarnings p @ [manual_warning m] else PlanWarnings p)\<rparr>)))"

definition sort_plan :: "plan \<Rightarrow> plan" where
  "sort_plan p =
     p\<lparr>PlanProfiles := sort_key MigName (PlanProfiles p),
       PlanConflicts := sort_key (\<lambda>c. (ConflictProfile c, ConflictReason c)) (PlanConflicts p),
       PlanWarnings := sort (PlanWarnings p)\<rparr>"

definition fill_plan :: "config \<Rightarrow> candidate list \<Rightarrow> plan \<Rightarrow> plan" where
  "fill_plan destination cands p = sort_plan (snd (foldl (add_candidate destination) ([], p) cands))"

definition reserved_refs :: "config \<Rightarrow> (string \<times> string) list" where
  "reserved_refs destination =
     map (\<lambda>(name, p). (Reference (ProfileCredential p), ''destination profile '' @ name))
       (filter (\<lambda>(_, p). Provider (ProfileCredential p) = ProviderKeyring \<and> Reference (ProfileCredential p) \<noteq> '''')
          (Profiles destination))"

text \<open>A source that was found, added to the plan with its path.\<close>

definition plan_with ::
    "(migration_source \<times> candidate list) option \<Rightarrow> string \<Rightarrow> plan \<times> candidate list \<Rightarrow>
       (plan \<times> candidate list) fsop" where
  "plan_with found path pc =
     (case found of
        None \<Rightarrow> returnP pc
      | Some (src, cands) \<Rightarrow>
          (case add_source (fst pc) src path of
             None \<Rightarrow> failure ''migration source preview state is incomplete''
           | Some p1 \<Rightarrow> returnP (p1, snd pc @ cands)))"

definition build_plan ::
    "(nat \<Rightarrow> fault) \<Rightarrow> 'e plan_env_scheme \<Rightarrow> config_paths \<Rightarrow> config \<Rightarrow> plan fsop" where
  "build_plan faults en paths destination =
     (case encode_config en destination of
        None \<Rightarrow> failure ''validate migration destination''
      | Some data \<Rightarrow>
          (let p0 = new_plan\<lparr>DestinationDigest := digest en data, ReservedRefs := reserved_refs destination\<rparr> in
           bindP (parse_legacy faults (meta_candidates en (LegacyMetaYAML paths)) (LegacyMetaYAML paths)) (\<lambda>meta.
           bindP (plan_with meta (LegacyMetaYAML paths) (p0, [])) (\<lambda>pc.
           bindP (resolve_legacy_path faults (LegacyUpstream paths)) (\<lambda>upstream.
           bindP (case upstream of
               None \<Rightarrow> returnP pc
             | Some path \<Rightarrow>
                 bindP (parse_legacy faults (neucn_candidates en path) path) (\<lambda>found.
                 plan_with (case found of None \<Rightarrow> Some (\<lparr>SourceKind = KindOther '''', SourceLocation = '''',
                     SourceRaw = '''', SourceRedacted = ''''\<rparr>, []) | Some r \<Rightarrow> Some r) path pc)) (\<lambda>pc2.
           returnP (fill_plan destination (snd pc2) (fst pc2))))))))"

section \<open>Decisions\<close>

text \<open>\<open>ResolveMigrationConflict\<close>.\<close>

definition clear_secret :: "string \<Rightarrow> plan \<Rightarrow> plan" where
  "clear_secret name p = p\<lparr>PlanSecrets := AList.delete name (PlanSecrets p)\<rparr>"

definition resolve_conflict :: "plan \<Rightarrow> string \<Rightarrow> bool \<Rightarrow> plan" where
  "resolve_conflict p name replace =
     (if PlanClosed p then p
      else
        (let p1 = p\<lparr>PlanConflicts := filter (\<lambda>c. ConflictProfile c \<noteq> name) (PlanConflicts p)\<rparr> in
         if replace then p1
         else
           (let gone = filter (\<lambda>m. MigName m = name) (PlanProfiles p1);
                p2 = (if gone = [] then p1 else clear_secret name p1)
            in p2\<lparr>PlanProfiles := filter (\<lambda>m. MigName m \<noteq> name) (PlanProfiles p1)\<rparr>)))"

text \<open>The first profile of the name.\<close>

fun update_profile :: "string \<Rightarrow> (migrated_profile \<Rightarrow> migrated_profile) \<Rightarrow> migrated_profile list \<Rightarrow> migrated_profile list" where
  "update_profile name f [] = []"
| "update_profile name f (m # ms) = (if MigName m = name then f m # ms else m # update_profile name f ms)"

definition decide :: "string \<Rightarrow> credential_ref \<Rightarrow> credential_status \<Rightarrow> plan \<Rightarrow> plan" where
  "decide name ref status p =
     p\<lparr>PlanProfiles := update_profile name (\<lambda>m. m\<lparr>MigCredential := ref, MigStatus := status\<rparr>) (PlanProfiles p)\<rparr>"

definition secret_of :: "plan \<Rightarrow> string \<Rightarrow> string" where
  "secret_of p name = (case map_of (PlanSecrets p) name of None \<Rightarrow> '''' | Some s \<Rightarrow> s)"

text \<open>
  \<open>ResolveMigrationCredential\<close>: \<open>None\<close> is an error, which closes the plan.  The random reference is an
  input.
\<close>

definition decide_keyring :: "plan \<Rightarrow> migrated_profile \<Rightarrow> string option \<Rightarrow> plan option" where
  "decide_keyring p m random =
     (if secret_of p (MigName m) = '''' \<or> MigStatus m \<noteq> PendingImportable then None
      else (case random of None \<Rightarrow> None
        | Some random_id \<Rightarrow>
            (let ref = \<lparr>Provider = ProviderKeyring, Reference = ''migration-'' @ random_id\<rparr> in
             if \<not> credential_ref_valid ref \<or> map_of (ReservedRefs p) (Reference ref) \<noteq> None then None
             else Some (decide (MigName m) ref KeyringImport
               (p\<lparr>ReservedRefs := AList.update (Reference ref) (''migration profile '' @ MigName m) (ReservedRefs p)\<rparr>)))))"

definition decide_credential :: "plan \<Rightarrow> string \<Rightarrow> credential_ref \<Rightarrow> string option \<Rightarrow> plan option" where
  "decide_credential p name ref random =
     (if PlanClosed p then None
      else (case find (\<lambda>m. MigName m = name) (PlanProfiles p) of None \<Rightarrow> None
        | Some m \<Rightarrow>
            if MigStatus m \<in> {CredentialResolved, KeyringImport} then None
            else (case Provider ref of
                ProviderKeyring \<Rightarrow> if Reference ref \<noteq> '''' then None else decide_keyring p m random
              | ProviderFile \<Rightarrow>
                  if \<not> credential_ref_valid ref \<or> \<not> path_is_abs (Reference ref) then None
                  else Some (decide name (ref\<lparr>Reference := path_clean (Reference ref)\<rparr>) CredentialResolved
                    (clear_secret name p))
              | ProviderEnv \<Rightarrow>
                  if credential_ref_valid ref then Some (decide name ref CredentialResolved (clear_secret name p)) else None
              | ProviderPrompt \<Rightarrow>
                  if credential_ref_valid ref then Some (decide name ref CredentialResolved (clear_secret name p)) else None
              | ProviderOther _ \<Rightarrow> None)))"

definition resolve_credential :: "plan \<Rightarrow> string \<Rightarrow> credential_ref \<Rightarrow> string option \<Rightarrow> bool \<times> plan" where
  "resolve_credential p name ref random =
     (case decide_credential p name ref random of
        None \<Rightarrow> (False, close_plan p)
      | Some p' \<Rightarrow> (True, p'))"

section \<open>Ready to apply\<close>

definition valid_keyring_reference :: "string \<Rightarrow> bool" where
  "valid_keyring_reference r \<longleftrightarrow> has_prefix r ''migration-'' \<and> valid_transaction_id (trim_prefix r ''migration-'')"

definition profile_ready :: "plan \<Rightarrow> migrated_profile \<Rightarrow> bool" where
  "profile_ready p m \<longleftrightarrow>
     MigStatus m \<in> {CredentialResolved, KeyringImport} \<and>
     (if MigStatus m = KeyringImport
      then Provider (MigCredential m) = ProviderKeyring \<and> valid_keyring_reference (Reference (MigCredential m)) \<and>
        secret_of p (MigName m) \<noteq> ''''
      else Provider (MigCredential m) \<noteq> ProviderKeyring) \<and>
     credential_ref_valid (MigCredential m) \<and>
     (Provider (MigCredential m) = ProviderFile \<longrightarrow> path_is_abs (Reference (MigCredential m)))"

text \<open>\<open>validateMigrationPlanForApply\<close>: the profiles whose secret goes to the keyring.\<close>

definition keyring_profiles :: "plan \<Rightarrow> migrated_profile list" where
  "keyring_profiles p = filter (\<lambda>m. MigStatus m = KeyringImport) (PlanProfiles p)"

definition validate_plan :: "plan \<Rightarrow> migrated_profile list option" where
  "validate_plan p =
     (if PlanConflicts p \<noteq> [] \<or> \<not> list_all (profile_ready p) (PlanProfiles p) then None
      else Some (keyring_profiles p))"

text \<open>\<open>verifyMigrationPlanSources\<close>: the data of every source, by location, and the stamps.\<close>

fun verify_sources ::
    "(nat \<Rightarrow> fault) \<Rightarrow> 'e plan_env_scheme \<Rightarrow> plan \<Rightarrow> (source_kind \<times> string) list \<Rightarrow>
       ((string \<times> string) list \<times> source_stamp list) fsop" where
  "verify_sources faults en p [] = returnP ([], [])"
| "verify_sources faults en p ((kind, loc) # ss) =
     (case (map_of (SourcePaths p) loc, map_of (RawDigests p) loc, map_of (SourceStamps p) loc) of
        (Some path, Some raw_digest, Some stamp) \<Rightarrow>
          if StampKind stamp \<noteq> kind then failure ''migration source state is incomplete''
          else
            bindP (read_source faults path) (\<lambda>found.
            case found of
              None \<Rightarrow> failure ''migration source changed after preview; rebuild the migration plan''
            | Some data \<Rightarrow>
                if digest en data \<noteq> raw_digest \<or> redacted_digest en kind data \<noteq> Some (RedactedDigest stamp)
                then failure ''migration source changed after preview; rebuild the migration plan''
                else
                  bindP (verify_sources faults en p ss) (\<lambda>(datas, stamps).
                  returnP ((loc, data) # datas, stamp # stamps)))
      | _ \<Rightarrow> failure ''migration source state is incomplete'')"

definition verify_plan_sources ::
    "(nat \<Rightarrow> fault) \<Rightarrow> 'e plan_env_scheme \<Rightarrow> plan \<Rightarrow> ((string \<times> string) list \<times> source_stamp list) fsop" where
  "verify_plan_sources faults en p =
     (if PlanSources p = [] \<or> length (PlanSources p) \<noteq> length (RawDigests p)
      then failure ''migration source state is incomplete''
      else verify_sources faults en p (PlanSources p))"

text \<open>The configuration the plan leads to.\<close>

definition migrated :: "migrated_profile \<Rightarrow> profile" where
  "migrated m =
     \<lparr>ProfileUsername = MigUsername m, ProfileCredential = MigCredential m, BindIP = '''',
      ProfileSwitch = ProfileSwitchRefuse\<rparr>"

definition add_migrated :: "config \<Rightarrow> migrated_profile \<Rightarrow> config" where
  "add_migrated c m =
     c\<lparr>Profiles := AList.update (MigName m) (migrated m) (Profiles c),
       DefaultProfile := (if MigDefault m \<and> DefaultProfile c = '''' then MigName m else DefaultProfile c)\<rparr>"

definition candidate_config :: "config \<Rightarrow> plan \<Rightarrow> config" where
  "candidate_config current p =
     (let c = foldl add_migrated current (PlanProfiles p) in
      if DefaultProfile c = '''' \<and> PlanProfiles p \<noteq> [] then c\<lparr>DefaultProfile := MigName (hd (PlanProfiles p))\<rparr>
      else c)"

end
