(* ===== verification/MigApply.thy ===== *)
theory MigApply
  imports MigPlan
begin

text \<open>
  The migration transaction of \<open>internal/config/migration.go\<close>: applying a plan under the mutation lock, and
  recovering from a transaction that did not end.  The transaction identifier, the time and the test
  hooks are inputs.
\<close>

section \<open>Marker\<close>

record migration_result =
  AppliedProfiles :: "string list"
  ResultBackups :: "(string \<times> string) list"
  ResultMarker :: string

fun valid_marker_backups :: "string list \<Rightarrow> string \<Rightarrow> string list \<Rightarrow> backup_record list \<Rightarrow> bool" where
  "valid_marker_backups sources base seen [] = True"
| "valid_marker_backups sources base seen (b # bs) =
     (SourceLocationHash b \<in> set sources \<and> SourceLocationHash b \<notin> set seen \<and> inside_base (BackupPath b) base \<and>
      valid_marker_backups sources base (SourceLocationHash b # seen) bs)"

definition validate_marker :: "marker \<Rightarrow> string \<Rightarrow> bool" where
  "validate_marker m base \<longleftrightarrow>
     MarkerSchema m = migrationJournalSchemaVersion \<and> valid_transaction_id (MarkerTransaction m) \<and>
     MarkerTarget m = SchemaVersion \<and> valid_journal_text (MarkerTool m) 128 \<and> CompletedAt m \<noteq> 0 \<and>
     CompletedOffset m = 0 \<and> valid_sha256 (ConfigDigest m) \<and> MarkerSources m \<noteq> [] \<and>
     length (MarkerBackups m) = length (MarkerSources m) \<and>
     list_all valid_stamp (MarkerSources m) \<and> distinct (map LocationHash (MarkerSources m)) \<and>
     list_all profile_name_ok (MarkerProfiles m) \<and> distinct (MarkerProfiles m) \<and>
     valid_marker_backups (map LocationHash (MarkerSources m)) base [] (MarkerBackups m)"

definition load_marker :: "(nat \<Rightarrow> fault) \<Rightarrow> 'e migration_env_scheme \<Rightarrow> string \<Rightarrow> marker option fsop" where
  "load_marker faults en path =
     bindP (path_exists faults path) (\<lambda>there.
     if \<not> there then returnP None
     else
       bindP (read_private faults path) (\<lambda>data.
       case decode_marker en data of
         None \<Rightarrow> failure ''parse migration marker: invalid strict YAML document''
       | Some m \<Rightarrow>
           if validate_marker m (path_dir path) then returnP (Some m)
           else failure ''validate migration marker: invalid metadata''))"

definition result_from_marker :: "marker \<Rightarrow> string \<Rightarrow> migration_result" where
  "result_from_marker m path =
     \<lparr>AppliedProfiles = MarkerProfiles m,
      ResultBackups = map (\<lambda>b. (SourceLocationHash b, BackupPath b)) (MarkerBackups m), ResultMarker = path\<rparr>"

definition migration_already_applied ::
    "(nat \<Rightarrow> fault) \<Rightarrow> 'e migration_env_scheme \<Rightarrow> string \<Rightarrow> migration_result option fsop" where
  "migration_already_applied faults en path =
     bindP (load_marker faults en path) (\<lambda>found.
     returnP (map_option (\<lambda>m. result_from_marker m path) found))"

definition marker_matches :: "marker \<Rightarrow> plan \<Rightarrow> bool" where
  "marker_matches m p \<longleftrightarrow>
     length (MarkerSources m) = length (PlanSources p) \<and>
     list_all (\<lambda>s. map_of (SourceStamps p) (LocationHash s) = Some s) (MarkerSources m)"

definition normalize_paths :: "config_paths \<Rightarrow> config_paths" where
  "normalize_paths paths =
     (let p1 = (if BaseDir paths = '''' \<and> ConfigFile paths \<noteq> ''''
                then paths\<lparr>BaseDir := path_dir (ConfigFile paths)\<rparr> else paths);
          pick = (\<lambda>v name. if v = '''' then path_join [BaseDir p1, name] else v)
      in p1\<lparr>MigrationMarker := pick (MigrationMarker p1) ''migration-v1.yaml'',
            MigrationJournal := pick (MigrationJournal p1) ''migration-v1.pending.yaml'',
            MigrationConfigRecovery := pick (MigrationConfigRecovery p1) ''migration-v1.config.before'',
            MigrationMarkerRecovery := pick (MigrationMarkerRecovery p1) ''migration-v1.marker.before''\<rparr>)"

section \<open>Recovery\<close>

text \<open>\<open>inspectMigrationRollbackArtifact\<close>: whether the artifact is in its state after the transaction.\<close>

definition inspect_artifact :: "(nat \<Rightarrow> fault) \<Rightarrow> 'e config_env_scheme \<Rightarrow> artifact \<Rightarrow> bool fsop" where
  "inspect_artifact faults en a =
     bindP (read_regular faults (TargetPath a)) (\<lambda>found.
     case found of
       None \<Rightarrow> if Existed (Before a) then failure ''artifact disappeared'' else returnP False
     | Some data \<Rightarrow>
         if Existed (Before a) \<and> digest en data = SnapshotDigest (Before a) then returnP False
         else if digest en data \<noteq> AfterDigest a then failure ''artifact digest is unknown''
         else if Existed (Before a) then bindP (load_snapshot faults en (Before a)) (\<lambda>_. returnP True)
         else returnP True)"

definition rollback_artifact :: "(nat \<Rightarrow> fault) \<Rightarrow> 'e config_env_scheme \<Rightarrow> artifact \<Rightarrow> bool \<Rightarrow> unit fsop" where
  "rollback_artifact faults en a after =
     (if \<not> after then returnP ()
      else if \<not> Existed (Before a) then remove_regular faults (TargetPath a) False
      else
        bindP (load_snapshot faults en (Before a)) (\<lambda>data.
        bindP (atomic_write faults (TargetPath a) (case data of None \<Rightarrow> '''' | Some s \<Rightarrow> s) False) (\<lambda>_.
        verify_artifact faults en (TargetPath a) (SnapshotDigest (Before a)))))"

fun each_do :: "('x \<Rightarrow> unit fsop) \<Rightarrow> 'x list \<Rightarrow> unit fsop" where
  "each_do f [] = returnP ()"
| "each_do f (x # xs) = bindP (f x) (\<lambda>_. each_do f xs)"

text \<open>\<open>recoverPendingMigration\<close>: \<open>True\<close> when the transaction was committed.\<close>

definition roll_back :: "(nat \<Rightarrow> fault) \<Rightarrow> 'e migration_env_scheme \<Rightarrow> string \<Rightarrow> journal \<Rightarrow> unit fsop" where
  "roll_back faults en path j =
     bindP (inspect_artifact faults en (MarkerArtifact j)) (\<lambda>marker_after.
     bindP (inspect_artifact faults en (ConfigArtifact j)) (\<lambda>config_after.
     bindP (rollback_artifact faults en (MarkerArtifact j) marker_after) (\<lambda>_.
     bindP (rollback_artifact faults en (ConfigArtifact j) config_after) (\<lambda>_.
     bindP (if Phase j \<noteq> PhasePrepared then each_do (keyring_delete faults) (NewKeyringRefs j) else returnP ()) (\<lambda>_.
     bindP (each_do (\<lambda>b. remove_regular faults (BackupPath b) True) (Backups j)) (\<lambda>_.
     bindP (remove_snapshot faults en (Before (MarkerArtifact j))) (\<lambda>_.
     bindP (remove_snapshot faults en (Before (ConfigArtifact j))) (\<lambda>_.
     remove_regular faults path False))))))))"

definition recover_pending :: "(nat \<Rightarrow> fault) \<Rightarrow> 'e migration_env_scheme \<Rightarrow> string \<Rightarrow> bool fsop" where
  "recover_pending faults en path =
     bindP (load_journal faults en path) (\<lambda>j.
     if Phase j = PhaseMarkerVerified
     then bindP (complete_journal faults en path (TransactionID j)) (\<lambda>_. returnP True)
     else bindP (roll_back faults en path j) (\<lambda>_. returnP False))"

definition inspect_orphans :: "(nat \<Rightarrow> fault) \<Rightarrow> config_paths \<Rightarrow> unit fsop" where
  "inspect_orphans faults paths =
     each_do (\<lambda>p. bindP (path_exists faults p) (\<lambda>there.
         if there then failure ''migration recovery required: orphan recovery state exists'' else returnP ()))
       [MigrationConfigRecovery paths, MigrationMarkerRecovery paths]"

definition recover_if_present :: "(nat \<Rightarrow> fault) \<Rightarrow> 'e migration_env_scheme \<Rightarrow> config_paths \<Rightarrow> unit fsop" where
  "recover_if_present faults en paths =
     bindP (path_exists faults (MigrationJournal paths)) (\<lambda>there.
     if \<not> there then inspect_orphans faults paths
     else bindP (recover_pending faults en (MigrationJournal paths)) (\<lambda>_. returnP ()))"

text \<open>
  \<open>RecoverPendingMigration\<close>.  When the first look at the journal fails for another reason than that there is none, the
  lock is taken and the journal is looked at again.
\<close>

definition journal_missing :: "(nat \<Rightarrow> fault) \<Rightarrow> string \<Rightarrow> bool fsop" where
  "journal_missing faults path =
     on_failure (path_exists faults path) (\<lambda>_. returnP False) (\<lambda>there. returnP (\<not> there))"

definition recover_migration :: "(nat \<Rightarrow> fault) \<Rightarrow> 'e migration_env_scheme \<Rightarrow> config_paths \<Rightarrow> unit fsop" where
  "recover_migration faults en paths0 =
     (let paths = normalize_paths paths0 in
      bindP (journal_missing faults (MigrationJournal paths)) (\<lambda>missing.
      if missing then inspect_orphans faults paths
      else with_mutation_lock faults en \<lparr>StorePath = ConfigFile paths, StoreJournal = MigrationJournal paths\<rparr>
        (\<lambda>_ _. recover_if_present faults en paths)))"

section \<open>Transaction\<close>

record transaction =
  TxResult :: migration_result
  TxJournal :: journal
  TxConfigData :: string
  TxMarkerData :: string
  TxConfigBefore :: string
  TxMarkerBefore :: string
  TxSources :: "(string \<times> string) list"
  TxKeyring :: "(string \<times> string) list"

definition backup_name :: "source_kind \<Rightarrow> string \<Rightarrow> nat \<Rightarrow> string" where
  "backup_name kind txid n =
     kind_text kind @ ''-'' @ txid @ ''-'' @ (if n < 10 then ''0'' @ nat_dec n else nat_dec n) @ ''.backup''"

definition backup_records :: "config_paths \<Rightarrow> string \<Rightarrow> plan \<Rightarrow> backup_record list" where
  "backup_records paths txid p =
     map (\<lambda>(i, kind, loc).
         \<lparr>SourceLocationHash = loc,
          BackupPath = path_join [BaseDir paths, ''migration-backups'', backup_name kind txid (i + 1)]\<rparr>)
       (enumerate 0 (PlanSources p))"

definition refs_are_free :: "(nat \<Rightarrow> fault) \<Rightarrow> migrated_profile list \<Rightarrow> unit fsop" where
  "refs_are_free faults ms =
     each_do (\<lambda>m. bindP (keyring_get faults (Reference (MigCredential m))) (\<lambda>found.
         if found \<noteq> None then failure ''generated keyring reference is already occupied'' else returnP ())) ms"

definition unchanged_since :: "'e config_env_scheme \<Rightarrow> config \<Rightarrow> plan \<Rightarrow> bool" where
  "unchanged_since en c p \<longleftrightarrow>
     (case encode_config en c of None \<Rightarrow> False | Some data \<Rightarrow> digest en data = DestinationDigest p)"

definition transaction_marker ::
    "'e config_env_scheme \<Rightarrow> config_paths \<Rightarrow> plan \<Rightarrow> string \<Rightarrow> string \<Rightarrow> int \<Rightarrow> source_stamp list \<Rightarrow> string \<Rightarrow> marker" where
  "transaction_marker en paths p tool txid now stamps config_data =
     \<lparr>MarkerSchema = migrationJournalSchemaVersion, MarkerTransaction = txid, MarkerTarget = SchemaVersion,
      MarkerTool = tool, CompletedAt = now, CompletedOffset = 0, MarkerSources = stamps,
      ConfigDigest = digest en config_data, MarkerProfiles = map MigName (PlanProfiles p),
      MarkerBackups = backup_records paths txid p\<rparr>"

definition transaction_journal ::
    "'e config_env_scheme \<Rightarrow> config_paths \<Rightarrow> plan \<Rightarrow> string \<Rightarrow> string \<Rightarrow> source_stamp list \<Rightarrow>
       snapshot \<Rightarrow> string \<Rightarrow> snapshot \<Rightarrow> string \<Rightarrow> journal" where
  "transaction_journal en paths p tool txid stamps config_before config_data marker_before marker_data =
     \<lparr>JournalSchema = migrationJournalSchemaVersion, TransactionID = txid, Phase = PhasePrepared,
      TargetSchema = SchemaVersion, ToolVersion = tool, Sources = stamps,
      ConfigArtifact = \<lparr>TargetPath = ConfigFile paths, Before = config_before, AfterDigest = digest en config_data\<rparr>,
      MarkerArtifact = \<lparr>TargetPath = MigrationMarker paths, Before = marker_before, AfterDigest = digest en marker_data\<rparr>,
      Backups = backup_records paths txid p,
      NewKeyringRefs = map (Reference \<circ> MigCredential) (keyring_profiles p)\<rparr>"

text \<open>The part of \<open>applyMigrationLocked\<close> before the journal is written; it only reads.\<close>

definition prepare_transaction ::
    "(nat \<Rightarrow> fault) \<Rightarrow> 'e plan_env_scheme \<Rightarrow> config_paths \<Rightarrow> string \<Rightarrow> config \<Rightarrow> plan \<Rightarrow> string \<Rightarrow>
       string option \<Rightarrow> int \<Rightarrow> transaction fsop" where
  "prepare_transaction faults en paths lpath destination p tool txid now =
     (if \<not> unchanged_since en destination p then failure ''migration destination changed after preview''
      else
        bindP (load_config_file faults en lpath) (\<lambda>(current, _).
        if \<not> unchanged_since en current p then failure ''migration destination changed after preview''
        else (case validate_plan p of None \<Rightarrow> failure ''migration plan is not ready''
          | Some kps \<Rightarrow>
              let candidate = candidate_config current p in
              if \<not> config_valid candidate then failure ''validate migrated config''
              else
                bindP (refs_are_free faults kps) (\<lambda>_.
                case (marshal_config en candidate, txid) of
                  (Some config_data, Some tx) \<Rightarrow>
                    if maxConfigBytes < length config_data then failure ''prepare migrated config''
                    else
                      bindP (verify_plan_sources faults en p) (\<lambda>(datas, stamps).
                      case marshal_marker en (transaction_marker en paths p tool tx now stamps config_data) of
                        None \<Rightarrow> failure ''prepare migration marker''
                      | Some marker_data \<Rightarrow>
                          if maxConfigBytes < length marker_data then failure ''prepare migration marker''
                          else
                            bindP (prepare_snapshot faults en (ConfigFile paths) (MigrationConfigRecovery paths)) (\<lambda>(cb, cbdata).
                            bindP (prepare_snapshot faults en (MigrationMarker paths) (MigrationMarkerRecovery paths)) (\<lambda>(mb, mbdata).
                            returnP
                              \<lparr>TxResult = \<lparr>AppliedProfiles = map MigName (PlanProfiles p),
                                 ResultBackups = map (\<lambda>b. (SourceLocationHash b, BackupPath b)) (backup_records paths tx p),
                                 ResultMarker = MigrationMarker paths\<rparr>,
                               TxJournal = transaction_journal en paths p tool tx stamps cb config_data mb marker_data,
                               TxConfigData = config_data, TxMarkerData = marker_data, TxConfigBefore = cbdata,
                               TxMarkerBefore = mbdata, TxSources = datas,
                               TxKeyring = map (\<lambda>m. (Reference (MigCredential m), secret_of p (MigName m))) kps\<rparr>)))
                | _ \<Rightarrow> failure ''prepare migrated config''))))"

definition hook :: "(phase \<Rightarrow> bool) \<Rightarrow> phase \<Rightarrow> unit fsop" where
  "hook hooks ph = (if hooks ph then failure ''migration failed by test hook'' else returnP ())"

definition store_secret :: "(nat \<Rightarrow> fault) \<Rightarrow> 'e config_env_scheme \<Rightarrow> string \<times> string \<Rightarrow> unit fsop" where
  "store_secret faults en rs =
     bindP (keyring_set faults en (fst rs) (snd rs)) (\<lambda>_.
     bindP (keyring_get faults (fst rs)) (\<lambda>stored.
     if stored \<noteq> Some (snd rs) then failure ''migration failed while verifying a keyring credential''
     else returnP ()))"

definition write_backup :: "(nat \<Rightarrow> fault) \<Rightarrow> transaction \<Rightarrow> backup_record \<Rightarrow> unit fsop" where
  "write_backup faults tx b =
     write_exclusive faults (BackupPath b)
       (case map_of (TxSources tx) (SourceLocationHash b) of None \<Rightarrow> '''' | Some data \<Rightarrow> data)"

text \<open>The writing steps, each an early exit of \<open>applyMigrationLocked\<close>.\<close>

definition save_before ::
    "(nat \<Rightarrow> fault) \<Rightarrow> 'e migration_env_scheme \<Rightarrow> (phase \<Rightarrow> bool) \<Rightarrow> string \<Rightarrow> transaction \<Rightarrow> unit fsop" where
  "save_before faults en hooks path tx =
     bindP (hook hooks PhasePrepared) (\<lambda>_.
     bindP (write_snapshot faults en (Before (ConfigArtifact (TxJournal tx))) (TxConfigBefore tx)) (\<lambda>_.
     bindP (write_snapshot faults en (Before (MarkerArtifact (TxJournal tx))) (TxMarkerBefore tx)) (\<lambda>_.
     bindP (each_do (write_backup faults tx) (Backups (TxJournal tx))) (\<lambda>_.
     bindP (advance_journal faults en path (TransactionID (TxJournal tx)) PhaseBackups) (\<lambda>_.
     hook hooks PhaseBackups)))))"

definition save_secrets ::
    "(nat \<Rightarrow> fault) \<Rightarrow> 'e migration_env_scheme \<Rightarrow> (phase \<Rightarrow> bool) \<Rightarrow> string \<Rightarrow> transaction \<Rightarrow> unit fsop" where
  "save_secrets faults en hooks path tx =
     bindP (each_do (store_secret faults en) (TxKeyring tx)) (\<lambda>_.
     bindP (advance_journal faults en path (TransactionID (TxJournal tx)) PhaseKeyring) (\<lambda>_.
     hook hooks PhaseKeyring))"

definition save_config ::
    "(nat \<Rightarrow> fault) \<Rightarrow> 'e migration_env_scheme \<Rightarrow> (phase \<Rightarrow> bool) \<Rightarrow> string \<Rightarrow> string \<Rightarrow> transaction \<Rightarrow> unit fsop" where
  "save_config faults en hooks path lpath tx =
     bindP (replace_prepared faults lpath (TxConfigData tx) False) (\<lambda>_.
     bindP (verify_artifact faults en (TargetPath (ConfigArtifact (TxJournal tx))) (AfterDigest (ConfigArtifact (TxJournal tx)))) (\<lambda>_.
     bindP (load_config_file faults en lpath) (\<lambda>(_, found).
     if \<not> found then failure ''migration failed while strictly reloading config''
     else
       bindP (advance_journal faults en path (TransactionID (TxJournal tx)) PhaseConfig) (\<lambda>_.
       hook hooks PhaseConfig))))"

definition save_marker ::
    "(nat \<Rightarrow> fault) \<Rightarrow> 'e migration_env_scheme \<Rightarrow> (phase \<Rightarrow> bool) \<Rightarrow> string \<Rightarrow> transaction \<Rightarrow> unit fsop" where
  "save_marker faults en hooks path tx =
     bindP (atomic_write faults (TargetPath (MarkerArtifact (TxJournal tx))) (TxMarkerData tx) False) (\<lambda>_.
     bindP (load_marker faults en (TargetPath (MarkerArtifact (TxJournal tx)))) (\<lambda>found.
     if map_option MarkerTransaction found \<noteq> Some (TransactionID (TxJournal tx))
     then failure ''migration failed while strictly reloading marker''
     else
       bindP (verify_artifact faults en (TargetPath (MarkerArtifact (TxJournal tx))) (AfterDigest (MarkerArtifact (TxJournal tx)))) (\<lambda>_.
       bindP (advance_journal faults en path (TransactionID (TxJournal tx)) PhaseMarkerVerified) (\<lambda>_.
       hook hooks PhaseMarkerVerified))))"

definition transaction_steps ::
    "(nat \<Rightarrow> fault) \<Rightarrow> 'e migration_env_scheme \<Rightarrow> (phase \<Rightarrow> bool) \<Rightarrow> string \<Rightarrow> string \<Rightarrow> transaction \<Rightarrow> unit fsop" where
  "transaction_steps faults en hooks path lpath tx =
     bindP (save_before faults en hooks path tx) (\<lambda>_.
     bindP (save_secrets faults en hooks path tx) (\<lambda>_.
     bindP (save_config faults en hooks path lpath tx) (\<lambda>_.
     bindP (save_marker faults en hooks path tx) (\<lambda>_.
     complete_journal faults en path (TransactionID (TxJournal tx))))))"

text \<open>The steps with the \<open>fail\<close> function of \<open>applyMigrationLocked\<close>: any error starts the recovery.\<close>

definition run_transaction ::
    "(nat \<Rightarrow> fault) \<Rightarrow> 'e migration_env_scheme \<Rightarrow> (phase \<Rightarrow> bool) \<Rightarrow> string \<Rightarrow> string \<Rightarrow> transaction \<Rightarrow>
       migration_result fsop" where
  "run_transaction faults en hooks path lpath tx =
     bindP (begin_journal faults en path (TxJournal tx)) (\<lambda>_.
     on_failure (transaction_steps faults en hooks path lpath tx)
       (\<lambda>_. on_failure (recover_pending faults en path)
          (\<lambda>_. failure ''migration failed and automatic rollback is incomplete; recovery required'')
          (\<lambda>committed. if committed then returnP (TxResult tx) else failure ''migration failed''))
       (\<lambda>_. returnP (TxResult tx)))"

definition apply_locked ::
    "(nat \<Rightarrow> fault) \<Rightarrow> 'e plan_env_scheme \<Rightarrow> (phase \<Rightarrow> bool) \<Rightarrow> config_paths \<Rightarrow> string \<Rightarrow> config \<Rightarrow> plan \<Rightarrow>
       string \<Rightarrow> string option \<Rightarrow> int \<Rightarrow> migration_result fsop" where
  "apply_locked faults en hooks paths lpath destination p tool txid now =
     bindP (recover_if_present faults en paths) (\<lambda>_.
     bindP (load_marker faults en (MigrationMarker paths)) (\<lambda>found.
     case found of
       Some m \<Rightarrow>
         bindP (verify_artifact faults en (ConfigFile paths) (ConfigDigest m)) (\<lambda>_.
         if marker_matches m p then returnP (result_from_marker m (MigrationMarker paths))
         else failure ''migration sources changed after the completed transaction'')
     | None \<Rightarrow>
         bindP (prepare_transaction faults en paths lpath destination p tool txid now)
           (run_transaction faults en hooks (MigrationJournal paths) lpath)))"

text \<open>\<open>ApplyMigrationWithOptions\<close>.\<close>

definition apply_migration ::
    "(nat \<Rightarrow> fault) \<Rightarrow> 'e plan_env_scheme \<Rightarrow> (phase \<Rightarrow> bool) \<Rightarrow> config_paths \<Rightarrow> store \<Rightarrow> config \<Rightarrow> plan \<Rightarrow>
       string \<Rightarrow> string option \<Rightarrow> int \<Rightarrow> migration_result fsop" where
  "apply_migration faults en hooks paths0 st destination p tool txid now =
     (let paths = normalize_paths paths0 in
      if PlanClosed p then failure ''migration plan is closed''
      else if path_clean (StorePath st) \<noteq> path_clean (ConfigFile paths)
      then failure ''migration config store does not match the target path''
      else if \<not> valid_journal_text tool 128 then failure ''migration tool version is required''
      else if StoreJournal st \<noteq> '''' \<and> path_clean (StoreJournal st) \<noteq> path_clean (MigrationJournal paths)
      then failure ''migration config store does not match the journal path''
      else
        bindP (load_marker faults en (MigrationMarker paths)) (\<lambda>found.
        bindP (if found \<noteq> None then returnP ([], [])
               else if \<not> unchanged_since en destination p then failure ''migration destination changed after preview''
               else if validate_plan p = None then failure ''migration plan is not ready''
               else verify_plan_sources faults en p) (\<lambda>_.
        with_mutation_lock faults en st (\<lambda>lpath _.
          apply_locked faults en hooks paths lpath destination p tool txid now))))"

end
