(* ===== verification/MigRecover.thy ===== *)
theory MigRecover
  imports MigApply
begin

text \<open>
  Recovery of an interrupted migration.  A \<open>situation\<close> says what a transaction started from (the files and
  the keyring), what it puts in place, and which paths and references it uses; \<open>pending\<close> is what it may
  leave while a journal exists.  The theorems: recovery keeps \<open>pending\<close> whatever system calls fail or end
  it, and when it returns it has restored the starting point.
\<close>

section \<open>Situations\<close>

record situation =
  s_path :: string
  s_files :: "string \<Rightarrow> node option"
  s_keyring :: "string \<Rightarrow> string option"
  s_config :: artifact
  s_marker :: artifact
  s_config_data :: string
  s_marker_data :: string
  s_backups :: "string set"
  s_refs :: "string set"
  s_saved :: "(string \<times> string) list"
  s_secrets :: "(string \<times> string) list"

abbreviation s_target :: "situation \<Rightarrow> string" where
  "s_target x \<equiv> TargetPath (s_config x)"

abbreviation s_mtarget :: "situation \<Rightarrow> string" where
  "s_mtarget x \<equiv> TargetPath (s_marker x)"

abbreviation s_snap :: "situation \<Rightarrow> string" where
  "s_snap x \<equiv> SnapshotPath (Before (s_config x))"

definition snap_paths :: "situation \<Rightarrow> string set" where
  "snap_paths x = (if Existed (Before (s_config x)) then {s_snap x} else {})"

definition touched :: "situation \<Rightarrow> string set" where
  "touched x = {s_path x, s_target x, s_mtarget x} \<union> snap_paths x \<union> s_backups x"

text \<open>The configuration before: its contents, and that it was readable.\<close>

definition config_before :: "situation \<Rightarrow> disk \<Rightarrow> bool" where
  "config_before x d \<longleftrightarrow>
     (case s_files x (s_target x) of
        None \<Rightarrow> d_files d (s_target x) = None
      | Some (PlainFile _ s) \<Rightarrow> (\<exists>a. a \<noteq> Shared \<and> d_files d (s_target x) = Some (PlainFile a s))
      | Some (OtherNode _) \<Rightarrow> False)"

definition config_after :: "situation \<Rightarrow> disk \<Rightarrow> bool" where
  "config_after x d \<longleftrightarrow> d_files d (s_target x) = Some (PlainFile Private (s_config_data x))"

definition marker_none :: "situation \<Rightarrow> disk \<Rightarrow> bool" where
  "marker_none x d \<longleftrightarrow> d_files d (s_mtarget x) = None"

definition marker_after :: "situation \<Rightarrow> disk \<Rightarrow> bool" where
  "marker_after x d \<longleftrightarrow> d_files d (s_mtarget x) = Some (PlainFile Private (s_marker_data x))"

text \<open>The snapshot holds the contents of the configuration before, when there was one.\<close>

definition snap_ok :: "situation \<Rightarrow> disk \<Rightarrow> bool" where
  "snap_ok x d \<longleftrightarrow>
     (case s_files x (s_target x) of
        Some (PlainFile _ s) \<Rightarrow> d_files d (s_snap x) = Some (PlainFile Private s)
      | _ \<Rightarrow> True)"

definition snap_none :: "situation \<Rightarrow> disk \<Rightarrow> bool" where
  "snap_none x d \<longleftrightarrow> (\<forall>p \<in> snap_paths x. d_files d p = None)"

text \<open>Files and references the transaction does not use are as they were.\<close>

definition frame :: "situation \<Rightarrow> disk \<Rightarrow> bool" where
  "frame x d \<longleftrightarrow>
     (\<forall>p. p \<notin> touched x \<longrightarrow> d_files d p = s_files x p) \<and> (\<forall>r. r \<notin> s_refs x \<longrightarrow> d_keyring d r = s_keyring x r)"

text \<open>The backups of the sources and the imported secrets.\<close>

definition kept :: "situation \<Rightarrow> disk \<Rightarrow> bool" where
  "kept x d \<longleftrightarrow>
     (\<forall>(p, s) \<in> set (s_saved x). d_files d p = Some (PlainFile Private s)) \<and>
     (\<forall>(r, s) \<in> set (s_secrets x). d_keyring d r = Some s)"

definition before_ok :: "'e config_env_scheme \<Rightarrow> situation \<Rightarrow> bool" where
  "before_ok en x \<longleftrightarrow>
     (case s_files x (s_target x) of
        None \<Rightarrow> \<not> Existed (Before (s_config x)) \<and> absent_ok (Before (s_config x))
      | Some (PlainFile a s) \<Rightarrow>
          a \<noteq> Shared \<and> length s \<le> maxConfigBytes \<and>
          Existed (Before (s_config x)) \<and> SnapshotDigest (Before (s_config x)) = digest en s \<and>
          (digest en s = digest en (s_config_data x) \<longrightarrow> s = s_config_data x)
      | Some (OtherNode _) \<Rightarrow> False)"

definition situation_ok :: "'e config_env_scheme \<Rightarrow> situation \<Rightarrow> bool" where
  "situation_ok en x \<longleftrightarrow>
     distinct [s_path x, s_target x, s_mtarget x] \<and>
     {s_path x, s_target x, s_mtarget x} \<inter> (snap_paths x \<union> s_backups x) = {} \<and>
     snap_paths x \<inter> s_backups x = {} \<and>
     s_files x (s_path x) = None \<and> s_files x (s_mtarget x) = None \<and>
     (\<forall>p \<in> snap_paths x \<union> s_backups x. s_files x p = None) \<and>
     (\<forall>r \<in> s_refs x. s_keyring x r = None) \<and>
     fst ` set (s_saved x) \<subseteq> s_backups x \<and> fst ` set (s_secrets x) \<subseteq> s_refs x \<and>
     before_ok en x \<and>
     \<not> Existed (Before (s_marker x)) \<and> absent_ok (Before (s_marker x)) \<and>
     AfterDigest (s_config x) = digest en (s_config_data x) \<and>
     AfterDigest (s_marker x) = digest en (s_marker_data x)"

text \<open>A valid journal of the transaction, and the journal file on the disk.\<close>

definition journal_of :: "'e config_env_scheme \<Rightarrow> situation \<Rightarrow> journal \<Rightarrow> bool" where
  "journal_of en x j \<longleftrightarrow>
     validate_journal en j (s_path x) \<and> ConfigArtifact j = s_config x \<and> MarkerArtifact j = s_marker x \<and>
     BackupPath ` set (Backups j) \<subseteq> s_backups x \<and>
     (Phase j \<noteq> PhasePrepared \<longrightarrow> set (NewKeyringRefs j) = s_refs x)"

definition journal_at :: "'e migration_env_scheme \<Rightarrow> situation \<Rightarrow> journal \<Rightarrow> disk \<Rightarrow> bool" where
  "journal_at en x j d \<longleftrightarrow>
     (\<exists>s. d_files d (s_path x) = Some (PlainFile Private s) \<and> decode_journal en s = Some j)"

text \<open>What a transaction in a phase before the last one, or its recovery, may leave.\<close>

definition pending :: "'e migration_env_scheme \<Rightarrow> situation \<Rightarrow> journal \<Rightarrow> disk \<Rightarrow> bool" where
  "pending en x j d \<longleftrightarrow>
     frame x d \<and> journal_at en x j d \<and>
     (config_before x d \<or> config_after x d \<and> snap_ok x d) \<and>
     (marker_none x d \<or> marker_after x d \<and> config_after x d) \<and>
     (\<forall>p \<in> s_backups x. p \<notin> BackupPath ` set (Backups j) \<longrightarrow> d_files d p = None) \<and>
     (Phase j = PhasePrepared \<longrightarrow> d_keyring d = s_keyring x)"

text \<open>The starting point restored, up to the access mode of the configuration.\<close>

definition restored :: "situation \<Rightarrow> disk \<Rightarrow> bool" where
  "restored x d \<longleftrightarrow>
     (\<forall>p. p \<noteq> s_target x \<longrightarrow> d_files d p = s_files x p) \<and> config_before x d \<and> d_keyring d = s_keyring x"

text \<open>The transaction in place, and its last phase with the journal still there.\<close>

definition committed :: "situation \<Rightarrow> disk \<Rightarrow> bool" where
  "committed x d \<longleftrightarrow>
     frame x d \<and> d_files d (s_path x) = None \<and> config_after x d \<and> marker_after x d \<and> snap_none x d \<and> kept x d"

definition verified :: "'e migration_env_scheme \<Rightarrow> situation \<Rightarrow> journal \<Rightarrow> disk \<Rightarrow> bool" where
  "verified en x j d \<longleftrightarrow>
     frame x d \<and> journal_at en x j d \<and> config_after x d \<and> marker_after x d \<and> kept x d"

lemmas cell_defs = config_before_def config_after_def marker_none_def marker_after_def snap_ok_def snap_none_def
  frame_def journal_at_def kept_def

lemma cells_calls [simp]:
  "config_before x (d\<lparr>d_calls := n\<rparr>) = config_before x d"
  "config_after x (d\<lparr>d_calls := n\<rparr>) = config_after x d"
  "marker_none x (d\<lparr>d_calls := n\<rparr>) = marker_none x d"
  "marker_after x (d\<lparr>d_calls := n\<rparr>) = marker_after x d"
  "snap_ok x (d\<lparr>d_calls := n\<rparr>) = snap_ok x d"
  "snap_none x (d\<lparr>d_calls := n\<rparr>) = snap_none x d"
  "frame x (d\<lparr>d_calls := n\<rparr>) = frame x d"
  "journal_at en x j (d\<lparr>d_calls := n\<rparr>) = journal_at en x j d"
  "kept x (d\<lparr>d_calls := n\<rparr>) = kept x d"
  by (auto simp: cell_defs split: option.splits node.splits)

lemma uncounted_cells [simp]:
  "uncounted (pending en x j)" "uncounted (restored x)" "uncounted (committed x)" "uncounted (verified en x j)"
  by (simp_all add: uncounted_def pending_def restored_def committed_def verified_def)

text \<open>The paths of a situation are different.\<close>

lemma situation_paths:
  assumes "situation_ok en x"
  shows "s_path x \<noteq> s_target x" "s_path x \<noteq> s_mtarget x" "s_target x \<noteq> s_mtarget x"
    "s_target x \<noteq> s_path x" "s_mtarget x \<noteq> s_path x" "s_mtarget x \<noteq> s_target x"
    "p \<in> snap_paths x \<union> s_backups x \<Longrightarrow> p \<noteq> s_path x \<and> p \<noteq> s_target x \<and> p \<noteq> s_mtarget x"
    "p \<in> snap_paths x \<Longrightarrow> p \<notin> s_backups x"
  using assms by (auto simp: situation_ok_def)

section \<open>Rolling back\<close>

lemma triple_each_do:
  assumes "\<And>y ys. triple (I (y # ys)) (f y) (\<lambda>_. I ys) E"
  shows "triple (I ys) (each_do f ys) (\<lambda>_. I []) E"
  by (induction ys) (auto intro: triple_return triple_bind [OF assms])

definition recover_error :: "'e migration_env_scheme \<Rightarrow> situation \<Rightarrow> journal \<Rightarrow> config_error \<Rightarrow> disk \<Rightarrow> bool" where
  "recover_error en x j e d \<longleftrightarrow> pending en x j d \<or> restored x d"

lemma stops_recover: "(\<And>d. P d \<Longrightarrow> pending en x j d \<or> restored x d) \<Longrightarrow> stops P (recover_error en x j)"
  by (auto simp: recover_error_def)

text \<open>Changing one file of a situation leaves the statements about the others.\<close>

lemma frame_put: "p \<in> touched x \<Longrightarrow> frame x (put_file p node d) = frame x d"
  by (auto simp: frame_def)

lemma touched_paths [simp]:
  "s_path x \<in> touched x" "s_target x \<in> touched x" "s_mtarget x \<in> touched x"
  "p \<in> snap_paths x \<Longrightarrow> p \<in> touched x" "p \<in> s_backups x \<Longrightarrow> p \<in> touched x"
  by (auto simp: touched_def)

lemma put_cells:
  "p \<noteq> s_target x \<Longrightarrow> config_before x (put_file p node d) = config_before x d"
  "p \<noteq> s_target x \<Longrightarrow> config_after x (put_file p node d) = config_after x d"
  "p \<noteq> s_mtarget x \<Longrightarrow> marker_none x (put_file p node d) = marker_none x d"
  "p \<noteq> s_mtarget x \<Longrightarrow> marker_after x (put_file p node d) = marker_after x d"
  "p \<noteq> s_path x \<Longrightarrow> journal_at en x j (put_file p node d) = journal_at en x j d"
  "p \<notin> snap_paths x \<Longrightarrow> snap_none x (put_file p node d) = snap_none x d"
  by (auto simp: cell_defs split: option.splits node.splits)

lemma put_snap_ok:
  assumes "before_ok en x" "p \<notin> snap_paths x"
  shows "snap_ok x (put_file p node d) = snap_ok x d"
  using assms by (auto simp: snap_ok_def before_ok_def snap_paths_def split: option.splits node.splits)

lemma situation_before: "situation_ok en x \<Longrightarrow> before_ok en x"
  by (simp add: situation_ok_def)

lemma not_snap:
  assumes "situation_ok en x"
  shows "s_path x \<notin> snap_paths x" "s_target x \<notin> snap_paths x" "s_mtarget x \<notin> snap_paths x"
    "s_path x \<notin> s_backups x" "s_target x \<notin> s_backups x" "s_mtarget x \<notin> s_backups x"
  using assms by (auto simp: situation_ok_def)

lemma triple_inspect_marker:
  assumes "situation_ok en x"
  shows "triple (pending en x j) (inspect_artifact faults en (s_marker x))
    (\<lambda>b d. pending en x j d \<and> (if b then marker_after x d else marker_none x d)) (recover_error en x j)"
proof -
  have s: "stops (\<lambda>d. pending en x j d \<and> Q d) (recover_error en x j)" for Q
    by (rule stops_recover) simp
  have sp: "stops (pending en x j) (recover_error en x j)" by (rule stops_recover) simp
  have m: "\<not> Existed (Before (s_marker x))" "AfterDigest (s_marker x) = digest en (s_marker_data x)"
    using assms by (simp_all add: situation_ok_def)
  show ?thesis
    unfolding inspect_artifact_def
    apply (rule triple_bind [OF triple_read_regular [OF uncounted_cells(1) sp]])
    subgoal for found
      by (cases found)
        (auto simp: m pending_def marker_none_def marker_after_def intro!: triple_return triple_failure [OF stops_recover])
    done
qed

text \<open>The stages of a rollback.\<close>

definition settled_config :: "situation \<Rightarrow> bool \<Rightarrow> disk \<Rightarrow> bool" where
  "settled_config x after d \<longleftrightarrow> (if after then config_after x d \<and> snap_ok x d else config_before x d)"

definition rolled :: "'e migration_env_scheme \<Rightarrow> situation \<Rightarrow> journal \<Rightarrow> disk \<Rightarrow> bool" where
  "rolled en x j d \<longleftrightarrow> pending en x j d \<and> marker_none x d \<and> config_before x d"

lemma uncounted_stages [simp]:
  "uncounted (\<lambda>d. pending en x j d \<and> (if b then marker_after x d else marker_none x d))"
  "uncounted (\<lambda>d. pending en x j d \<and> (if b then marker_after x d else marker_none x d) \<and> settled_config x c d)"
  "uncounted (\<lambda>d. pending en x j d \<and> marker_none x d \<and> settled_config x c d)"
  "uncounted (rolled en x j)"
  by (simp_all add: uncounted_def pending_def settled_config_def rolled_def)

lemma settled_calls [simp]: "settled_config x b (d\<lparr>d_calls := n\<rparr>) = settled_config x b d"
  by (simp add: settled_config_def)

text \<open>Reading the configuration back, and the snapshot.\<close>

lemma triple_load_snapshot:
  assumes "before_ok en x" "s_files x (s_target x) = Some (PlainFile a s)"
    and "uncounted P" "\<And>d. P d \<Longrightarrow> snap_ok x d" "stops P E"
  shows "triple P (load_snapshot faults en (Before (s_config x))) (\<lambda>r d. P d \<and> r = Some s) E"
proof -
  have e: "Existed (Before (s_config x))" using assms(1,2) by (simp add: before_ok_def)
  have s: "stops (\<lambda>d. P d \<and> Q d) E" for Q by (rule stops_weaken [OF assms(5)]) simp
  show ?thesis
    unfolding load_snapshot_def
    apply (simp add: e)
    apply (intro conjI impI triple_failure assms(5))
    apply (rule triple_bind [OF triple_read_private [OF assms(3,5)]])
    apply (intro triple_if triple_failure s)
    apply (rule triple_return)
    using assms(2,4) by (auto simp: snap_ok_def)
qed

lemma triple_inspect_config:
  assumes "situation_ok en x" and P: "uncounted P" "\<And>d. P d \<Longrightarrow> pending en x j d"
  shows "triple P (inspect_artifact faults en (s_config x))
    (\<lambda>b d. P d \<and> settled_config x b d) (recover_error en x j)"
proof -
  have b: "before_ok en x" using assms(1) by (rule situation_before)
  have s: "stops (\<lambda>d. P d \<and> Q d) (recover_error en x j)" for Q
    by (rule stops_recover) (use P in simp)
  have sP: "stops P (recover_error en x j)" by (rule stops_recover) (use P in simp)
  have u: "uncounted (\<lambda>d. P d \<and> config_after x d \<and> snap_ok x d)"
    using P(1) by (simp add: uncounted_def)
  have af: "AfterDigest (s_config x) = digest en (s_config_data x)" using assms(1) by (simp add: situation_ok_def)
  show ?thesis
  proof (cases "s_files x (s_target x)")
    case None
    then have n: "\<not> Existed (Before (s_config x))" using b by (simp add: before_ok_def)
    show ?thesis
      unfolding inspect_artifact_def
      apply (rule triple_bind [OF triple_read_regular [OF P(1) sP]])
      subgoal for found
      proof (cases found)
        case None
        have "P d \<Longrightarrow> d_files d (s_target x) = None \<Longrightarrow> settled_config x False d" for d
          using \<open>s_files x (s_target x) = None\<close> by (simp add: settled_config_def config_before_def)
        then show ?thesis using n None by (auto intro!: triple_return)
      next
        case (Some data)
        have "settled_config x True d \<and> data = s_config_data x"
          if "P d" "d_files d (s_target x) = Some (PlainFile a data)" for d a
        proof -
          have "\<not> config_before x d" using that(2) None by (simp add: config_before_def)
          then have "config_after x d \<and> snap_ok x d" using P(2) [OF that(1)] by (simp add: pending_def)
          then show ?thesis using that(2) by (simp add: settled_config_def config_after_def)
        qed
        then show ?thesis
          unfolding Some option.case
          by (intro triple_if triple_failure [OF s] triple_return) (auto simp: n af)
      qed
      done
  next
    case (Some node)
    then obtain a t where t: "s_files x (s_target x) = Some (PlainFile a t)"
      using b by (cases node) (auto simp: before_ok_def)
    have e: "Existed (Before (s_config x))" "SnapshotDigest (Before (s_config x)) = digest en t"
      "digest en t = digest en (s_config_data x) \<Longrightarrow> t = s_config_data x" "a \<noteq> Shared"
      using b t by (auto simp: before_ok_def)
    show ?thesis
      unfolding inspect_artifact_def
      apply (rule triple_bind [OF triple_read_regular [OF P(1) sP]])
      subgoal for found
      proof (cases found)
        case None
        then show ?thesis by (auto intro!: triple_failure s simp: e)
      next
        case (Some data)
        have known: "config_before x d \<and> data = t \<or> config_after x d \<and> snap_ok x d \<and> data = s_config_data x"
          if "P d" "d_files d (s_target x) = Some (PlainFile b data)" for d b
        proof -
          have "config_before x d \<or> config_after x d \<and> snap_ok x d"
            using P(2) [OF that(1)] by (simp add: pending_def)
          then show ?thesis using that(2) t by (auto simp: config_before_def config_after_def)
        qed
        have same: "config_before x d"
          if "P d" "d_files d (s_target x) = Some (PlainFile b data)" "digest en data = digest en t" for d b
          using known [OF that(1,2)]
        proof
          assume "config_after x d \<and> snap_ok x d \<and> data = s_config_data x"
          then show ?thesis using e(3) that(3) t by (auto simp: config_before_def config_after_def)
        qed simp
        have other: "config_after x d \<and> snap_ok x d"
          if "P d" "d_files d (s_target x) = Some (PlainFile b data)" "digest en data \<noteq> digest en t" for d b
          using known [OF that(1,2)] that(3) by auto
        have load: "triple (\<lambda>d. P d \<and> config_after x d \<and> snap_ok x d) (load_snapshot faults en (Before (s_config x)))
            (\<lambda>r d. (P d \<and> config_after x d \<and> snap_ok x d) \<and> r = Some t) (recover_error en x j)"
          by (rule triple_load_snapshot [OF b t u]) (auto intro: s)
        show ?thesis
          unfolding Some option.case
          apply (rule triple_if)
           apply (rule triple_return, use same e(2) in \<open>auto simp: settled_config_def\<close>)[1]
          apply (rule triple_if, rule triple_failure [OF s])
          apply (rule triple_if)
           apply (rule triple_weaken [OF triple_bind [OF load triple_return [where Q = "\<lambda>b d. P d \<and> settled_config x b d"]]])
              apply (simp add: settled_config_def)
             apply (use other e(1,2) in auto)
          done
      qed
      done
  qed
qed

lemma pending_put:
  assumes "situation_ok en x" "pending en x j d"
  shows "p = s_mtarget x \<Longrightarrow> node = None \<Longrightarrow> pending en x j (put_file p node d)"
    and "p = s_target x \<Longrightarrow> marker_none x d \<Longrightarrow> config_before x (put_file p node d) \<Longrightarrow>
           pending en x j (put_file p node d)"
    and "p \<in> snap_paths x \<Longrightarrow> config_before x d \<Longrightarrow> marker_none x d \<Longrightarrow> pending en x j (put_file p node d)"
    and "p \<in> s_backups x \<Longrightarrow> node = None \<Longrightarrow> pending en x j (put_file p node d)"
proof -
  note ok = situation_paths [OF assms(1)] not_snap [OF assms(1)]
  have apart: "p \<in> s_backups x \<Longrightarrow> p \<notin> snap_paths x" for p using ok(8) by blast
  note put = frame_put put_cells put_snap_ok [OF situation_before [OF assms(1)]] ok
  show "p = s_mtarget x \<Longrightarrow> node = None \<Longrightarrow> pending en x j (put_file p node d)"
    using assms(2) ok by (auto simp: pending_def put) (auto simp: marker_none_def)
  show "p = s_target x \<Longrightarrow> marker_none x d \<Longrightarrow> config_before x (put_file p node d) \<Longrightarrow>
      pending en x j (put_file p node d)"
    using assms(2) ok by (auto simp: pending_def put)
  show "p \<in> snap_paths x \<Longrightarrow> config_before x d \<Longrightarrow> marker_none x d \<Longrightarrow> pending en x j (put_file p node d)"
    using assms(2) ok by (auto simp: pending_def put)
  show "p \<in> s_backups x \<Longrightarrow> node = None \<Longrightarrow> pending en x j (put_file p node d)"
    using assms(2) ok apart by (auto simp: pending_def put)
qed

lemma triple_roll_marker:
  assumes "situation_ok en x"
  shows "triple (\<lambda>d. pending en x j d \<and> (if b then marker_after x d else marker_none x d) \<and> settled_config x c d)
    (rollback_artifact faults en (s_marker x) b)
    (\<lambda>_ d. pending en x j d \<and> marker_none x d \<and> settled_config x c d) (recover_error en x j)"
proof (cases b)
  case True
  let ?P = "\<lambda>d. pending en x j d \<and> marker_after x d \<and> settled_config x c d"
  let ?Q = "\<lambda>d. pending en x j d \<and> marker_none x d \<and> settled_config x c d"
  have n: "\<not> Existed (Before (s_marker x))" using assms by (simp add: situation_ok_def)
  note ok = situation_paths [OF assms] not_snap [OF assms]
  have settled: "settled_config x c (put_file (s_mtarget x) None d) = settled_config x c d" for d
    using ok by (simp add: settled_config_def put_cells put_snap_ok [OF situation_before [OF assms]])
  have put: "?P d \<Longrightarrow> ?Q (put_file (s_mtarget x) None d)" for d
    using pending_put(1) [OF assms] settled by (simp add: marker_none_def)
  have u: "uncounted ?P" "uncounted ?Q" by (simp_all add: uncounted_def pending_def)
  have s: "stops ?P (recover_error en x j)" "stops ?Q (recover_error en x j)" by (rule stops_recover, simp)+
  have "triple ?P (remove_regular faults (s_mtarget x) False)
      (\<lambda>_ d. ?Q d \<or> ?P d \<and> d_files d (s_mtarget x) = None) (recover_error en x j)"
    by (rule triple_remove_regular [where P = ?P and Q = ?Q, OF u(1) s(1) s(2) u(2) put])
  then show ?thesis
    using True n by (auto simp: rollback_artifact_def marker_after_def elim!: triple_weaken)
qed (auto simp: rollback_artifact_def intro: triple_return)

lemma triple_verify_artifact:
  assumes "uncounted P" "stops P E"
  shows "triple P (verify_artifact faults en path expected)
    (\<lambda>_ d. P d \<and> (\<exists>a s. d_files d path = Some (PlainFile a s) \<and> digest en s = expected)) E"
proof -
  have s: "stops (\<lambda>d. P d \<and> Q d) E" for Q by (rule stops_weaken [OF assms(2)]) simp
  show ?thesis
    unfolding verify_artifact_def
    apply (rule triple_bind [OF triple_read_regular [OF assms]])
    subgoal for found
      by (cases found) (auto intro!: triple_failure s triple_if triple_return)
    done
qed

lemma triple_roll_config:
  assumes "situation_ok en x"
  shows "triple (\<lambda>d. pending en x j d \<and> marker_none x d \<and> settled_config x c d)
    (rollback_artifact faults en (s_config x) c) (\<lambda>_. rolled en x j) (recover_error en x j)"
proof (cases c)
  case True
  let ?P = "\<lambda>d. pending en x j d \<and> marker_none x d \<and> config_after x d \<and> snap_ok x d"
  let ?Q = "rolled en x j"
  have b: "before_ok en x" using assms by (rule situation_before)
  note ok = situation_paths [OF assms] not_snap [OF assms]
  have u: "uncounted ?P" by (simp add: uncounted_def pending_def)
  have s: "stops ?P (recover_error en x j)" "stops ?Q (recover_error en x j)"
    by (rule stops_recover, simp add: rolled_def)+
  have put: "?P d \<Longrightarrow> config_before x (put_file (s_target x) node d) \<Longrightarrow> ?Q (put_file (s_target x) node d)" for d node
    using pending_put(2) [OF assms] ok by (simp add: rolled_def put_cells)
  have "triple ?P (rollback_artifact faults en (s_config x) True) (\<lambda>_. ?Q) (recover_error en x j)"
  proof (cases "s_files x (s_target x)")
    case None
    then have n: "\<not> Existed (Before (s_config x))" using b by (simp add: before_ok_def)
    have "triple ?P (remove_regular faults (s_target x) False)
        (\<lambda>_ d. ?Q d \<or> ?P d \<and> d_files d (s_target x) = None) (recover_error en x j)"
      by (rule triple_remove_regular [where P = ?P and Q = ?Q, OF u s uncounted_stages(4)], rule put)
        (simp_all add: config_before_def None)
    then show ?thesis
      using n by (auto simp: rollback_artifact_def config_after_def elim!: triple_weaken)
  next
    case (Some node)
    then obtain a t where t: "s_files x (s_target x) = Some (PlainFile a t)"
      using b by (cases node) (auto simp: before_ok_def)
    have e: "Existed (Before (s_config x))" using b t by (simp add: before_ok_def)
    have load: "triple ?P (load_snapshot faults en (Before (s_config x))) (\<lambda>r d. ?P d \<and> r = Some t) (recover_error en x j)"
      by (rule triple_load_snapshot [OF b t u _ s(1)]) simp
    have replace: "triple ?P (atomic_write faults (s_target x) t False) (\<lambda>_. ?Q) (recover_error en x j)"
    proof (rule triple_atomic_write [where R = ?P and Q = ?Q, OF u s(1) u s(1) uncounted_stages(4)])
      show "?P d \<Longrightarrow> ?Q (put_file (s_target x) (Some (PlainFile Private t)) d)" for d
        by (rule put) (simp_all add: config_before_def t)
    qed (auto simp: rolled_def recover_error_def intro: triple_return)
    have check: "triple ?Q (verify_artifact faults en (s_target x) (SnapshotDigest (Before (s_config x)))) (\<lambda>_. ?Q)
        (recover_error en x j)"
      by (rule triple_weaken [OF triple_verify_artifact [OF uncounted_stages(4) s(2)]]) auto
    have whole: "triple ?P (bindP (load_snapshot faults en (Before (s_config x))) (\<lambda>data.
        bindP (atomic_write faults (s_target x) (case data of None \<Rightarrow> '''' | Some s \<Rightarrow> s) False) (\<lambda>_.
        verify_artifact faults en (s_target x) (SnapshotDigest (Before (s_config x)))))) (\<lambda>_. ?Q) (recover_error en x j)"
    proof (rule triple_bind [OF load])
      fix data
      show "triple (\<lambda>d. ?P d \<and> data = Some t) (bindP (atomic_write faults (s_target x)
          (case data of None \<Rightarrow> '''' | Some s \<Rightarrow> s) False) (\<lambda>_.
          verify_artifact faults en (s_target x) (SnapshotDigest (Before (s_config x))))) (\<lambda>_. ?Q) (recover_error en x j)"
      proof (cases "data = Some t")
        case True
        show ?thesis
          unfolding True option.case by (rule triple_weaken [OF triple_bind [OF replace check]]) simp_all
      qed (simp add: triple_False)
    qed
    then show ?thesis by (simp add: rollback_artifact_def e)
  qed
  then show ?thesis using True by (simp add: settled_config_def)
next
  case False
  then show ?thesis by (auto simp: rollback_artifact_def settled_config_def rolled_def intro: triple_return)
qed

text \<open>Deleting the new keyring references, and the backups.\<close>

lemma rolled_keyring:
  assumes "rolled en x j d" "Phase j \<noteq> PhasePrepared" "r \<in> s_refs x"
  shows "rolled en x j (put_keyring r v d)"
proof -
  have "frame x (put_keyring r v d)" using assms by (auto simp: rolled_def pending_def frame_def)
  then show ?thesis
    using assms by (auto simp: rolled_def pending_def cell_defs split: option.splits node.splits)
qed

lemma triple_delete_refs:
  assumes "situation_ok en x" "journal_of en x j"
  shows "triple (rolled en x j)
    (if Phase j \<noteq> PhasePrepared then each_do (keyring_delete faults) (NewKeyringRefs j) else returnP ())
    (\<lambda>_ d. rolled en x j d \<and> d_keyring d = s_keyring x) (recover_error en x j)"
proof (cases "Phase j = PhasePrepared")
  case True
  then show ?thesis by (auto simp: rolled_def pending_def intro: triple_return)
next
  case False
  let ?I = "\<lambda>rs d. set rs \<subseteq> s_refs x \<and> rolled en x j d \<and> (\<forall>r \<in> s_refs x. r \<notin> set rs \<longrightarrow> d_keyring d r = None)"
  have refs: "set (NewKeyringRefs j) = s_refs x" using assms(2) False by (simp add: journal_of_def)
  have u: "uncounted (?I rs)" for rs by (simp add: uncounted_def rolled_def pending_def)
  have s: "stops (?I rs) (recover_error en x j)" for rs by (rule stops_recover) (simp add: rolled_def)
  have step: "triple (?I (r # rs)) (keyring_delete faults r) (\<lambda>_. ?I rs) (recover_error en x j)" for r rs
    unfolding keyring_delete_def
    by (rule triple_keyring_call [OF u _ s s]) (auto simp: rolled_keyring False)
  have "d_keyring d = s_keyring x" if "?I [] d" for d
  proof
    fix r
    have "r \<in> s_refs x \<Longrightarrow> s_keyring x r = None" using assms(1) by (simp add: situation_ok_def)
    then show "d_keyring d r = s_keyring x r"
      using that by (cases "r \<in> s_refs x") (auto simp: rolled_def pending_def frame_def)
  qed
  moreover have "triple (?I (NewKeyringRefs j)) (each_do (keyring_delete faults) (NewKeyringRefs j)) (\<lambda>_. ?I [])
      (recover_error en x j)"
    by (rule triple_each_do [where I = ?I, OF step])
  ultimately show ?thesis using False by (auto simp: refs elim!: triple_weaken)
qed

lemma triple_remove_backups:
  assumes "situation_ok en x" "journal_of en x j"
  shows "triple (\<lambda>d. rolled en x j d \<and> d_keyring d = s_keyring x)
    (each_do (\<lambda>b. remove_regular faults (BackupPath b) True) (Backups j))
    (\<lambda>_ d. rolled en x j d \<and> d_keyring d = s_keyring x \<and> (\<forall>p \<in> s_backups x. d_files d p = None))
    (recover_error en x j)"
proof -
  let ?I = "\<lambda>(bs :: backup_record list) d. BackupPath ` set bs \<subseteq> s_backups x \<and> rolled en x j d \<and>
      d_keyring d = s_keyring x \<and>
      (\<forall>p \<in> s_backups x. p \<notin> BackupPath ` set bs \<longrightarrow> d_files d p = None)"
  have u: "uncounted (?I bs)" for bs by (simp add: uncounted_def rolled_def pending_def)
  have s: "stops (?I bs) (recover_error en x j)" for bs by (rule stops_recover) (simp add: rolled_def)
  have rolled_put: "rolled en x j (put_file p None d)" if "rolled en x j d" "p \<in> s_backups x" for p d
    using that pending_put(4) [OF assms(1)] situation_paths(7) [OF assms(1), of p]
    by (simp add: rolled_def put_cells)
  have step: "triple (?I (b # bs)) (remove_regular faults (BackupPath b) True) (\<lambda>_. ?I bs) (recover_error en x j)" for b bs
    by (rule triple_weaken [OF triple_remove_regular [where P = "?I (b # bs)" and Q = "?I bs", OF u s s u]])
      (auto simp: rolled_put)
  have "triple (?I (Backups j)) (each_do (\<lambda>b. remove_regular faults (BackupPath b) True) (Backups j)) (\<lambda>_. ?I [])
      (recover_error en x j)"
    by (rule triple_each_do [where I = ?I]) (rule step)
  then show ?thesis
    by (rule triple_weaken) (use assms(2) in \<open>auto simp: journal_of_def rolled_def pending_def\<close>)
qed

lemma triple_remove_snap:
  assumes "situation_ok en x"
    and P: "uncounted P" "stops P E"
    and put: "\<And>d p. P d \<Longrightarrow> p \<in> snap_paths x \<Longrightarrow> P (put_file p None d)"
  shows "triple P (remove_snapshot faults en (Before (s_config x))) (\<lambda>_ d. P d \<and> snap_none x d) E"
proof (cases "Existed (Before (s_config x))")
  case True
  have snap: "snap_paths x = {s_snap x}" using True by (simp add: snap_paths_def)
  have s: "stops (\<lambda>d. P d \<and> Q d) E" "stops P E" for Q using P(2) by (auto simp: stops_def)
  have u: "uncounted (\<lambda>d. P d \<and> d_files d (s_snap x) = None)" using P(1) by (simp add: uncounted_def)
  have read: "triple P (load_snapshot faults en (Before (s_config x))) (\<lambda>_. P) E"
    unfolding load_snapshot_def
    apply (simp add: True)
    apply (intro conjI impI triple_failure s)
    apply (rule triple_bind [OF triple_read_private [OF P(1) s(2)]])
    apply (intro triple_if triple_failure s triple_return)
    apply simp
    done
  have rm: "triple P (remove_regular faults (s_snap x) False) (\<lambda>_ d. P d \<and> snap_none x d) E"
    by (rule triple_weaken [OF triple_remove_regular [where P = P and Q = "\<lambda>d. P d \<and> d_files d (s_snap x) = None",
          OF P(1) s(2) s(1) u]])
      (use put snap in \<open>auto simp: snap_none_def\<close>)
  show ?thesis
    unfolding remove_snapshot_def
    apply (simp add: True)
    apply (rule triple_bind [OF triple_path_exists [OF P(1) s(2)]])
    subgoal for there
      apply (cases there; simp)
       apply (rule triple_bind [OF triple_weaken [OF read] rm]; simp)
      apply (rule triple_return)
      apply (simp add: snap_none_def snap)
      done
    done
next
  case False
  then have "absent_ok (Before (s_config x))"
    using situation_before [OF assms(1)] by (auto simp: before_ok_def split: option.splits node.splits)
  then show ?thesis
    using False by (auto simp: remove_snapshot_def snap_none_def snap_paths_def intro!: triple_return)
qed

text \<open>\<open>recoverPendingMigration\<close> as a whole, before the last phase.\<close>

lemma triple_roll_back:
  assumes "situation_ok en x" "journal_of en x j"
  shows "triple (pending en x j) (roll_back faults en (s_path x) j) (\<lambda>_. restored x) (recover_error en x j)"
proof -
  let ?E = "recover_error en x j"
  let ?S5 = "\<lambda>d. rolled en x j d \<and> d_keyring d = s_keyring x \<and> (\<forall>p \<in> s_backups x. d_files d p = None)"
  note ok = situation_paths [OF assms(1)] not_snap [OF assms(1)]
  have arts: "ConfigArtifact j = s_config x" "MarkerArtifact j = s_marker x"
    using assms(2) by (simp_all add: journal_of_def)
  have u5: "uncounted ?S5" "uncounted (\<lambda>d. ?S5 d \<and> snap_none x d)"
    by (simp_all add: uncounted_def rolled_def pending_def)
  have s5: "stops (\<lambda>d. ?S5 d \<and> snap_none x d) ?E" by (rule stops_recover) (simp add: rolled_def)
  have sr: "stops (restored x) ?E" by (rule stops_recover) simp
  have put5: "?S5 (put_file p None d)" if "?S5 d" "p \<in> snap_paths x" for d p
    using that pending_put(3) [OF assms(1)] ok(7) [of p] ok(8) [of p]
    by (simp add: rolled_def put_cells)
  have marker_snap: "triple ?S5 (remove_snapshot faults en (Before (s_marker x))) (\<lambda>_. ?S5) ?E"
    using assms(1) by (auto simp: remove_snapshot_def situation_ok_def intro: triple_return)
  have config_snap: "triple ?S5 (remove_snapshot faults en (Before (s_config x))) (\<lambda>_ d. ?S5 d \<and> snap_none x d) ?E"
    by (rule triple_remove_snap [OF assms(1) u5(1) _ put5]) (auto intro!: stops_recover simp: rolled_def)
  have last: "restored x (put_file (s_path x) None d)" if d: "?S5 d \<and> snap_none x d" for d
  proof -
    have "d_files (put_file (s_path x) None d) p = s_files x p" if pt: "p \<noteq> s_target x" for p
    proof (cases "p \<in> touched x")
      case True
      then consider "p = s_path x" | "p = s_mtarget x" | "p \<in> snap_paths x" | "p \<in> s_backups x"
        using pt by (auto simp: touched_def)
      then show ?thesis
        using d assms(1) by cases (auto simp: situation_ok_def rolled_def marker_none_def snap_none_def)
    next
      case False
      then show ?thesis using d ok by (auto simp: rolled_def pending_def frame_def)
    qed
    then show ?thesis using d ok by (simp add: restored_def rolled_def put_cells)
  qed
  have journal_end: "triple (\<lambda>d. ?S5 d \<and> snap_none x d) (remove_regular faults (s_path x) False) (\<lambda>_. restored x) ?E"
    by (rule triple_weaken [OF triple_remove_regular [where P = "\<lambda>d. ?S5 d \<and> snap_none x d" and Q = "restored x",
          OF u5(2) s5 sr uncounted_cells(2) last]])
      (auto simp: rolled_def pending_def journal_at_def)
  have marker: "triple (\<lambda>d. (pending en x j d \<and> (if b then marker_after x d else marker_none x d)) \<and> settled_config x c d)
      (rollback_artifact faults en (s_marker x) b)
      (\<lambda>_ d. pending en x j d \<and> marker_none x d \<and> settled_config x c d) ?E" for b c
    by (rule triple_weaken [OF triple_roll_marker [OF assms(1)]]) simp_all
  show ?thesis
    unfolding roll_back_def arts
    apply (rule triple_bind [OF triple_inspect_marker [OF assms(1)]])
    apply (rule triple_bind [OF triple_inspect_config [OF assms(1) uncounted_stages(1)]], simp)
    apply (rule triple_bind [OF marker])
    apply (rule triple_bind [OF triple_roll_config [OF assms(1)]])
    apply (rule triple_bind [OF triple_delete_refs [OF assms]])
    apply (rule triple_bind [OF triple_remove_backups [OF assms]])
    apply (rule triple_bind [OF marker_snap])
    apply (rule triple_bind [OF config_snap])
    apply (rule journal_end)
    done
qed

section \<open>Completing\<close>

lemma triple_load_journal:
  assumes "uncounted P" "stops P E" "\<And>d. P d \<Longrightarrow> journal_at en x j d"
  shows "triple P (load_journal faults en (s_path x)) (\<lambda>r d. P d \<and> r = j) E"
proof -
  have s: "stops (\<lambda>d. P d \<and> Q d) E" for Q by (rule stops_weaken [OF assms(2)]) simp
  show ?thesis
    unfolding load_journal_def
    apply (rule triple_if, rule triple_failure [OF assms(2)])
    apply (rule triple_bind [OF triple_read_private [OF assms(1,2)]])
    subgoal for data
    proof (cases "decode_journal en data")
      case (Some r)
      have "r = j" if "P d" "d_files d (s_path x) = Some (PlainFile Private data)" for d
        using assms(3) [OF that(1)] that(2) Some by (auto simp: journal_at_def)
      then show ?thesis using Some by (auto intro!: triple_failure s triple_if triple_return)
    qed (auto intro: triple_failure s)
    done
qed

lemma kept_put:
  assumes "situation_ok en x" "p \<notin> s_backups x" shows "kept x (put_file p node d) = kept x d"
proof -
  have "(q, s) \<in> set (s_saved x) \<Longrightarrow> q \<noteq> p" for q s
    using assms by (force simp: situation_ok_def)
  then have "(\<forall>(q, s) \<in> set (s_saved x). d_files (put_file p node d) q = Some (PlainFile Private s)) =
      (\<forall>(q, s) \<in> set (s_saved x). d_files d q = Some (PlainFile Private s))"
    by (intro ball_cong) auto
  then show ?thesis by (simp add: kept_def)
qed

definition complete_error :: "'e migration_env_scheme \<Rightarrow> situation \<Rightarrow> journal \<Rightarrow> config_error \<Rightarrow> disk \<Rightarrow> bool" where
  "complete_error en x j e d \<longleftrightarrow> verified en x j d \<or> committed x d"

lemma triple_complete_journal:
  assumes "situation_ok en x" "journal_of en x j"
  shows "triple (verified en x j) (complete_journal faults en (s_path x) txid)
    (\<lambda>_. committed x) (complete_error en x j)"
proof -
  let ?P = "verified en x j" and ?E = "complete_error en x j"
  let ?S = "\<lambda>d. verified en x j d \<and> snap_none x d"
  note ok = situation_paths [OF assms(1)] not_snap [OF assms(1)]
  have arts: "ConfigArtifact j = s_config x" "MarkerArtifact j = s_marker x"
    using assms(2) by (simp_all add: journal_of_def)
  have s: "stops ?P ?E" "stops ?S ?E" "stops (committed x) ?E"
    by (auto simp: stops_def complete_error_def)
  have uS: "uncounted ?S" by (simp add: uncounted_def verified_def)
  have load: "triple ?P (load_journal faults en (s_path x)) (\<lambda>r d. ?P d \<and> r = j) ?E"
    by (rule triple_load_journal [OF uncounted_cells(4) s(1)]) (simp add: verified_def)
  have check: "triple ?P (verify_artifact faults en path expected) (\<lambda>_. ?P) ?E" for path expected
    by (rule triple_weaken [OF triple_verify_artifact [OF uncounted_cells(4) s(1)]]) simp_all
  have put: "?P (put_file p None d)" if "?P d" "p \<in> snap_paths x" for d p
    using that ok(7) [of p] ok(8) [of p] kept_put [OF assms(1)]
    by (simp add: verified_def put_cells frame_put)
  have config_snap: "triple ?P (remove_snapshot faults en (Before (s_config x))) (\<lambda>_. ?S) ?E"
    by (rule triple_remove_snap [OF assms(1) uncounted_cells(4) s(1) put])
  have marker_snap: "triple ?S (remove_snapshot faults en (Before (s_marker x))) (\<lambda>_. ?S) ?E"
    using assms(1) by (auto simp: remove_snapshot_def situation_ok_def intro: triple_return)
  have journal_end: "triple ?S (remove_regular faults (s_path x) False) (\<lambda>_. committed x) ?E"
    by (rule triple_weaken [OF triple_remove_regular [where P = ?S and Q = "committed x",
          OF uS s(2,3) uncounted_cells(3)]])
      (use ok kept_put [OF assms(1)] in \<open>auto simp: verified_def committed_def journal_at_def put_cells frame_put\<close>)
  show ?thesis
    unfolding complete_journal_def
    apply (rule triple_bind [OF load])
    subgoal for r
    proof (cases "r = j")
      case True
      show ?thesis
        unfolding True arts
        apply (rule triple_if, rule triple_failure, simp add: s)
        apply (rule triple_if, rule triple_failure, simp add: s)
        apply (rule triple_weaken [where P' = ?P and Q' = "\<lambda>_. committed x" and E' = ?E])
           apply (rule triple_bind [OF check], rule triple_bind [OF check])
        apply (rule triple_bind [OF config_snap])
        apply (rule triple_bind [OF marker_snap])
           apply (rule journal_end, simp_all)
        done
    qed (simp add: triple_False)
    done
qed

text \<open>\<open>recoverPendingMigration\<close> on a disk with a journal of the transaction.\<close>

definition resumable :: "'e migration_env_scheme \<Rightarrow> situation \<Rightarrow> disk \<Rightarrow> bool" where
  "resumable en x d \<longleftrightarrow>
     (\<exists>j. journal_of en x j \<and>
        (if Phase j = PhaseMarkerVerified then verified en x j d else pending en x j d))"

text \<open>The phase of the journal decides which way a recovery goes, and what is there in the end.\<close>

definition in_phase :: "'e migration_env_scheme \<Rightarrow> situation \<Rightarrow> journal \<Rightarrow> disk \<Rightarrow> bool" where
  "in_phase en x j d \<longleftrightarrow> (if Phase j = PhaseMarkerVerified then verified en x j d else pending en x j d)"

definition recovered :: "situation \<Rightarrow> journal \<Rightarrow> disk \<Rightarrow> bool" where
  "recovered x j d \<longleftrightarrow> (if Phase j = PhaseMarkerVerified then committed x d else restored x d)"

lemma uncounted_phase [simp]: "uncounted (in_phase en x j)" "uncounted (recovered x j)"
  by (simp_all add: uncounted_def in_phase_def recovered_def pending_def verified_def restored_def committed_def)

lemma resumable_phase: "resumable en x d \<longleftrightarrow> (\<exists>j. journal_of en x j \<and> in_phase en x j d)"
  by (simp add: resumable_def in_phase_def)

lemma triple_recover_phase:
  assumes "situation_ok en x" and j: "journal_of en x j"
  shows "triple (in_phase en x j) (recover_pending faults en (s_path x))
    (\<lambda>c d. recovered x j d \<and> (c \<longleftrightarrow> Phase j = PhaseMarkerVerified)) (\<lambda>_ d. in_phase en x j d \<or> recovered x j d)"
proof -
  let ?E = "\<lambda>(_ :: config_error) d. in_phase en x j d \<or> recovered x j d"
  show ?thesis
  proof (cases "Phase j = PhaseMarkerVerified")
    case True
    have c: "triple (verified en x j) (complete_journal faults en (s_path x) (TransactionID j)) (\<lambda>_. committed x) ?E"
      by (rule triple_weaken [OF triple_complete_journal [OF assms]])
        (use True in \<open>auto simp: complete_error_def in_phase_def recovered_def\<close>)
    have l: "triple (verified en x j) (load_journal faults en (s_path x)) (\<lambda>r d. verified en x j d \<and> r = j) ?E"
      by (rule triple_load_journal [OF uncounted_cells(4)])
        (use j True in \<open>auto simp: stops_def in_phase_def verified_def\<close>)
    have "triple (verified en x j) (recover_pending faults en (s_path x)) (\<lambda>c d. committed x d \<and> c) ?E"
      unfolding recover_pending_def
      apply (rule triple_bind [OF l])
      subgoal for r
        by (cases "r = j") (auto simp: True triple_False intro!: triple_bind [OF c] triple_return)
      done
    then show ?thesis by (rule triple_weaken) (auto simp: in_phase_def recovered_def True)
  next
    case False
    have c: "triple (pending en x j) (roll_back faults en (s_path x) j) (\<lambda>_. restored x) ?E"
      by (rule triple_weaken [OF triple_roll_back [OF assms]])
        (use False in \<open>auto simp: recover_error_def in_phase_def recovered_def\<close>)
    have l: "triple (pending en x j) (load_journal faults en (s_path x)) (\<lambda>r d. pending en x j d \<and> r = j) ?E"
      by (rule triple_load_journal [OF uncounted_cells(1)])
        (use j False in \<open>auto simp: stops_def in_phase_def pending_def\<close>)
    have "triple (pending en x j) (recover_pending faults en (s_path x)) (\<lambda>c d. restored x d \<and> \<not> c) ?E"
      unfolding recover_pending_def
      apply (rule triple_bind [OF l])
      subgoal for r
        by (cases "r = j") (auto simp: False triple_False intro!: triple_bind [OF c] triple_return)
      done
    then show ?thesis by (rule triple_weaken) (auto simp: in_phase_def recovered_def False)
  qed
qed

lemma triple_recover_pending:
  assumes "situation_ok en x"
  shows "triple (resumable en x) (recover_pending faults en (s_path x))
    (\<lambda>c. if c then committed x else restored x)
    (\<lambda>_ d. resumable en x d \<or> restored x d \<or> committed x d)"
proof (rule tripleI)
  fix d c d' assume d: "resumable en x d" "recover_pending faults en (s_path x) d = (Inr c, d')"
  then obtain j where j: "journal_of en x j" "in_phase en x j d" by (auto simp: resumable_phase)
  show "(if c then committed x else restored x) d'"
    using triple_resultD [OF triple_recover_phase [OF assms j(1)] j(2) d(2)] by (simp add: recovered_def split: if_splits)
next
  fix d e d' assume d: "resumable en x d" "recover_pending faults en (s_path x) d = (Inl e, d')"
  then obtain j where j: "journal_of en x j" "in_phase en x j d" by (auto simp: resumable_phase)
  show "resumable en x d' \<or> restored x d' \<or> committed x d'"
    using triple_errorD [OF triple_recover_phase [OF assms j(1)] j(2) d(2)] j(1)
    by (auto simp: recovered_def resumable_phase split: if_splits)
qed

end
