(* ===== verification/MigForward.thy ===== *)
theory MigForward
  imports MigRecover
begin

text \<open>
  The writing part of a migration.  Every stage of \<open>transaction_steps\<close> leads from one state described by
  the situation to the next, and whatever ends it leaves a journal from which the transaction can be
  taken back or completed.
\<close>

section \<open>The transaction of a situation\<close>

definition backup_data :: "transaction \<Rightarrow> backup_record \<Rightarrow> string" where
  "backup_data tx b = (case map_of (TxSources tx) (SourceLocationHash b) of None \<Rightarrow> '''' | Some data \<Rightarrow> data)"

definition enacts :: "'e config_env_scheme \<Rightarrow> situation \<Rightarrow> transaction \<Rightarrow> bool" where
  "enacts en x tx \<longleftrightarrow>
     (let j = TxJournal tx in
      situation_ok en x \<and> validate_journal en j (s_path x) \<and> Phase j = PhasePrepared \<and>
      ConfigArtifact j = s_config x \<and> MarkerArtifact j = s_marker x \<and>
      s_config_data x = TxConfigData tx \<and> s_marker_data x = TxMarkerData tx \<and>
      BackupPath ` set (Backups j) \<subseteq> s_backups x \<and> inj_on BackupPath (set (Backups j)) \<and>
      s_saved x = map (\<lambda>b. (BackupPath b, backup_data tx b)) (Backups j) \<and>
      set (NewKeyringRefs j) = s_refs x \<and> s_secrets x = TxKeyring tx \<and> distinct (map fst (TxKeyring tx)) \<and>
      (\<forall>a s. s_files x (s_target x) = Some (PlainFile a s) \<longrightarrow> TxConfigBefore tx = s))"

abbreviation at_phase :: "transaction \<Rightarrow> phase \<Rightarrow> journal" where
  "at_phase tx ph \<equiv> TxJournal tx\<lparr>Phase := ph\<rparr>"

text \<open>The stages: before the backups, before the secrets, before the configuration, the marker, the end.\<close>

definition unused :: "situation \<Rightarrow> transaction \<Rightarrow> disk \<Rightarrow> bool" where
  "unused x tx d \<longleftrightarrow> (\<forall>p \<in> s_backups x. p \<notin> BackupPath ` set (Backups (TxJournal tx)) \<longrightarrow> d_files d p = None)"

definition backed_up :: "situation \<Rightarrow> backup_record set \<Rightarrow> transaction \<Rightarrow> disk \<Rightarrow> bool" where
  "backed_up x B tx d \<longleftrightarrow> (\<forall>b \<in> B. d_files d (BackupPath b) = Some (PlainFile Private (backup_data tx b)))"

definition fresh_stage :: "situation \<Rightarrow> transaction \<Rightarrow> disk \<Rightarrow> bool" where
  "fresh_stage x tx d \<longleftrightarrow>
     frame x d \<and> unused x tx d \<and> config_before x d \<and> marker_none x d \<and> d_keyring d = s_keyring x"

definition saved_stage :: "situation \<Rightarrow> transaction \<Rightarrow> disk \<Rightarrow> bool" where
  "saved_stage x tx d \<longleftrightarrow>
     frame x d \<and> unused x tx d \<and> config_before x d \<and> marker_none x d \<and> snap_ok x d \<and>
     backed_up x (set (Backups (TxJournal tx))) tx d"

definition kept_stage :: "situation \<Rightarrow> transaction \<Rightarrow> bool \<Rightarrow> bool \<Rightarrow> disk \<Rightarrow> bool" where
  "kept_stage x tx c mk d \<longleftrightarrow>
     frame x d \<and> unused x tx d \<and> snap_ok x d \<and> kept x d \<and>
     (if c then config_after x d else config_before x d) \<and> (if mk then marker_after x d else marker_none x d)"

lemma stage_calls [simp]:
  "unused x tx (d\<lparr>d_calls := n\<rparr>) = unused x tx d"
  "backed_up x B tx (d\<lparr>d_calls := n\<rparr>) = backed_up x B tx d"
  "fresh_stage x tx (d\<lparr>d_calls := n\<rparr>) = fresh_stage x tx d"
  "saved_stage x tx (d\<lparr>d_calls := n\<rparr>) = saved_stage x tx d"
  "kept_stage x tx c mk (d\<lparr>d_calls := n\<rparr>) = kept_stage x tx c mk d"
  by (simp_all add: unused_def backed_up_def fresh_stage_def saved_stage_def kept_stage_def)

lemma journal_paths_phase [simp]: "journal_paths_ok en (j\<lparr>Phase := ph\<rparr>) path = journal_paths_ok en j path"
  by (simp add: journal_paths_ok_def cong: option.case_cong)

lemma journal_of_phase:
  assumes "enacts en x tx" "ph \<in> {PhasePrepared, PhaseBackups, PhaseKeyring, PhaseConfig, PhaseMarkerVerified}"
  shows "journal_of en x (at_phase tx ph)"
  using assms by (auto simp: journal_of_def enacts_def Let_def validate_journal_def)

text \<open>In every stage the transaction can be taken back, or completed.\<close>

lemma resumable_stages:
  assumes "enacts en x tx"
  shows "fresh_stage x tx d \<Longrightarrow> journal_at en x (at_phase tx PhasePrepared) d \<Longrightarrow> resumable en x d"
    and "saved_stage x tx d \<Longrightarrow> journal_at en x (at_phase tx PhaseBackups) d \<Longrightarrow> resumable en x d"
    and "kept_stage x tx c False d \<Longrightarrow> journal_at en x (at_phase tx PhaseKeyring) d \<Longrightarrow> resumable en x d"
    and "kept_stage x tx True mk d \<Longrightarrow> journal_at en x (at_phase tx PhaseConfig) d \<Longrightarrow> resumable en x d"
    and "kept_stage x tx True True d \<Longrightarrow> journal_at en x (at_phase tx PhaseMarkerVerified) d \<Longrightarrow> resumable en x d"
proof -
  have one: "resumable en x d"
    if "ph \<in> {PhasePrepared, PhaseBackups, PhaseKeyring, PhaseConfig, PhaseMarkerVerified}"
      "if ph = PhaseMarkerVerified then verified en x (at_phase tx ph) d else pending en x (at_phase tx ph) d" for ph
    unfolding resumable_def using journal_of_phase [OF assms that(1)] that(2)
    by (intro exI [of _ "at_phase tx ph"]) simp
  show "fresh_stage x tx d \<Longrightarrow> journal_at en x (at_phase tx PhasePrepared) d \<Longrightarrow> resumable en x d"
    by (rule one [of PhasePrepared]) (simp_all add: fresh_stage_def pending_def unused_def)
  show "saved_stage x tx d \<Longrightarrow> journal_at en x (at_phase tx PhaseBackups) d \<Longrightarrow> resumable en x d"
    by (rule one [of PhaseBackups]) (simp_all add: saved_stage_def pending_def unused_def)
  show "kept_stage x tx c False d \<Longrightarrow> journal_at en x (at_phase tx PhaseKeyring) d \<Longrightarrow> resumable en x d"
    by (rule one [of PhaseKeyring]) (auto simp: kept_stage_def pending_def unused_def split: if_splits)
  show "kept_stage x tx True mk d \<Longrightarrow> journal_at en x (at_phase tx PhaseConfig) d \<Longrightarrow> resumable en x d"
    by (rule one [of PhaseConfig]) (auto simp: kept_stage_def pending_def unused_def split: if_splits)
  show "kept_stage x tx True True d \<Longrightarrow> journal_at en x (at_phase tx PhaseMarkerVerified) d \<Longrightarrow> resumable en x d"
    by (rule one [of PhaseMarkerVerified]) (simp_all add: kept_stage_def verified_def)
qed

text \<open>Changing one file leaves the stages that do not speak of it.\<close>

lemma unused_put:
  "p \<notin> s_backups x \<or> p \<in> BackupPath ` set (Backups (TxJournal tx)) \<Longrightarrow>
     unused x tx (put_file p node d) = unused x tx d"
  by (auto simp: unused_def)

lemma put_journal:
  assumes "enacts en x tx"
  shows "fresh_stage x tx (put_file (s_path x) node d) = fresh_stage x tx d"
    and "saved_stage x tx (put_file (s_path x) node d) = saved_stage x tx d"
    and "kept_stage x tx c mk (put_file (s_path x) node d) = kept_stage x tx c mk d"
proof -
  have ok: "situation_ok en x" and sub: "BackupPath ` set (Backups (TxJournal tx)) \<subseteq> s_backups x"
    using assms by (simp_all add: enacts_def Let_def)
  note put = situation_paths [OF ok] not_snap [OF ok] frame_put put_cells put_snap_ok [OF situation_before [OF ok]]
    unused_put kept_put [OF ok]
  have "BackupPath b \<noteq> s_path x" if "b \<in> set (Backups (TxJournal tx))" for b
    using sub that not_snap(4) [OF ok] by auto
  then have b: "backed_up x (set (Backups (TxJournal tx))) tx (put_file (s_path x) node d) =
      backed_up x (set (Backups (TxJournal tx))) tx d"
    by (simp add: backed_up_def)
  show "fresh_stage x tx (put_file (s_path x) node d) = fresh_stage x tx d"
    by (simp add: fresh_stage_def put)
  show "saved_stage x tx (put_file (s_path x) node d) = saved_stage x tx d"
    by (simp add: saved_stage_def put b)
  show "kept_stage x tx c mk (put_file (s_path x) node d) = kept_stage x tx c mk d"
    by (simp add: kept_stage_def put)
qed

section \<open>Advancing the journal\<close>

lemma triple_advance:
  assumes "journal_codec en" "uncounted R" "\<And>d node. R (put_file (s_path x) node d) = R d"
    and "\<And>d. R d \<Longrightarrow> journal_at en x (at_phase tx ph) d \<Longrightarrow> resumable en x d"
    and "\<And>d. R d \<Longrightarrow> journal_at en x (at_phase tx ph') d \<Longrightarrow> resumable en x d"
  shows "triple (\<lambda>d. R d \<and> journal_at en x (at_phase tx ph) d) (advance_journal faults en (s_path x) txid ph')
    (\<lambda>_ d. R d \<and> journal_at en x (at_phase tx ph') d) (\<lambda>_. resumable en x)"
proof -
  let ?P = "\<lambda>ph d. R d \<and> journal_at en x (at_phase tx ph) d" and ?E = "\<lambda>(_ :: config_error). resumable en x"
  have u: "uncounted (?P p)" for p using assms(2) by (simp add: uncounted_def)
  have s: "stops (?P ph) ?E" "stops (?P ph') ?E" using assms(4,5) by (auto simp: stops_def)
  have load: "triple (?P p) (load_journal faults en (s_path x)) (\<lambda>r d. ?P p d \<and> r = at_phase tx p) ?E"
    if "stops (?P p) ?E" for p
    by (rule triple_load_journal [OF u that]) simp
  have store: "triple (?P ph) (atomic_write faults (s_path x) data False) (\<lambda>_. ?P ph') ?E"
    if "encode_journal en (at_phase tx ph') = Some data" for data
  proof (rule triple_atomic_write [where R = "?P ph" and Q = "?P ph'", OF u s(1) u s(1) u])
    have "decode_journal en data = Some (at_phase tx ph')"
      using that assms(1) by (auto simp: encode_journal_def journal_codec_def split: option.splits if_splits)
    then show "?P ph d \<Longrightarrow> ?P ph' (put_file (s_path x) (Some (PlainFile Private data)) d)" for d
      using assms(3) by (simp add: journal_at_def)
  qed (use assms(5) in \<open>auto intro: triple_return\<close>)
  have again: "triple (?P ph') (bindP (load_journal faults en (s_path x)) (\<lambda>stored.
        if TransactionID stored \<noteq> txid \<or> Phase stored \<noteq> ph'
        then failure ''verify migration journal update: persisted state mismatch'' else returnP stored))
      (\<lambda>_. ?P ph') ?E"
    by (rule triple_bind [OF load [OF s(2)]])
      (auto intro!: triple_if triple_return triple_failure stops_weaken [OF s(2)])
  have twice: "at_phase tx ph\<lparr>Phase := ph'\<rparr> = at_phase tx ph'" by simp
  show ?thesis
    unfolding advance_journal_def
    apply (rule triple_if, rule triple_failure [OF s(1)])
    apply (rule triple_bind [OF load [OF s(1)]])
    subgoal for r
    proof (cases "r = at_phase tx ph")
      case True
      show ?thesis
        unfolding True
        apply (rule triple_weaken [where P' = "?P ph" and Q' = "\<lambda>_. ?P ph'" and E' = ?E])
           apply (rule triple_if, rule triple_failure [OF s(1)])
           apply (rule triple_if, rule triple_failure [OF s(1)])
           apply (cases "encode_journal en (at_phase tx ph')")
            apply (simp add: triple_failure [OF s(1)])
           apply (simp only: twice option.case)
           apply (erule triple_bind [OF store again])
          apply auto
        done
    qed (simp add: triple_False)
    done
qed

section \<open>Backups\<close>

lemma enacts_ok: "enacts en x tx \<Longrightarrow> situation_ok en x"
  by (simp add: enacts_def Let_def)

lemma backup_path_apart:
  assumes "enacts en x tx" "b \<in> set (Backups (TxJournal tx))"
  shows "BackupPath b \<in> s_backups x" "BackupPath b \<noteq> s_path x" "BackupPath b \<notin> snap_paths x"
    "b' \<in> set (Backups (TxJournal tx)) \<Longrightarrow> BackupPath b' = BackupPath b \<longleftrightarrow> b' = b"
proof -
  show m: "BackupPath b \<in> s_backups x" using assms by (auto simp: enacts_def Let_def)
  show "BackupPath b \<noteq> s_path x" "BackupPath b \<notin> snap_paths x"
    using m situation_paths(7,8) [OF enacts_ok [OF assms(1)], of "BackupPath b"] by auto
  show "b' \<in> set (Backups (TxJournal tx)) \<Longrightarrow> BackupPath b' = BackupPath b \<longleftrightarrow> b' = b"
    using assms by (auto simp: enacts_def Let_def inj_on_def)
qed

lemma put_fresh:
  assumes "enacts en x tx" "p \<in> snap_paths x \<union> BackupPath ` set (Backups (TxJournal tx))"
  shows "fresh_stage x tx (put_file p node d) = fresh_stage x tx d"
    and "journal_at en x j (put_file p node d) = journal_at en x j d"
proof -
  note ok = enacts_ok [OF assms(1)]
  have p: "p \<in> snap_paths x \<union> s_backups x" using assms backup_path_apart(1) [OF assms(1)] by auto
  have u: "p \<notin> s_backups x \<or> p \<in> BackupPath ` set (Backups (TxJournal tx))"
    using assms(2) situation_paths(8) [OF ok, of p] by auto
  show "fresh_stage x tx (put_file p node d) = fresh_stage x tx d"
    using p situation_paths(7) [OF ok p] by (auto simp: fresh_stage_def frame_put put_cells unused_put [OF u])
  show "journal_at en x j (put_file p node d) = journal_at en x j d"
    using situation_paths(7) [OF ok p] by (simp add: put_cells)
qed

lemma put_backup:
  assumes "enacts en x tx" "b \<in> set (Backups (TxJournal tx))"
  shows "snap_ok x (put_file (BackupPath b) node d) = snap_ok x d"
    and "b \<notin> B \<Longrightarrow> B \<subseteq> set (Backups (TxJournal tx)) \<Longrightarrow>
           backed_up x B tx (put_file (BackupPath b) node d) = backed_up x B tx d"
  using put_snap_ok [OF situation_before [OF enacts_ok [OF assms(1)]] backup_path_apart(3) [OF assms]]
    backup_path_apart(4) [OF assms]
  by (auto simp: backed_up_def subset_iff)

lemma triple_save_snapshot:
  assumes "enacts en x tx"
  shows "triple (\<lambda>d. fresh_stage x tx d \<and> journal_at en x (at_phase tx PhasePrepared) d)
    (write_snapshot faults en (Before (ConfigArtifact (TxJournal tx))) (TxConfigBefore tx))
    (\<lambda>_ d. fresh_stage x tx d \<and> journal_at en x (at_phase tx PhasePrepared) d \<and> snap_ok x d)
    (\<lambda>_. resumable en x)"
proof -
  let ?P = "\<lambda>d. fresh_stage x tx d \<and> journal_at en x (at_phase tx PhasePrepared) d"
  let ?E = "\<lambda>(_ :: config_error). resumable en x"
  have art: "ConfigArtifact (TxJournal tx) = s_config x" using assms by (simp add: enacts_def Let_def)
  have b: "before_ok en x" by (rule situation_before [OF enacts_ok [OF assms]])
  have u: "uncounted ?P" by (simp add: uncounted_def)
  have s: "stops ?P ?E" using resumable_stages(1) [OF assms] by (auto simp: stops_def)
  show ?thesis
  proof (cases "s_files x (s_target x)")
    case None
    then show ?thesis
      by (auto simp: write_snapshot_def art snap_ok_def intro!: triple_return triple_failure s)
         (use b in \<open>simp_all add: before_ok_def\<close>)
  next
    case (Some node)
    then obtain a t where t: "s_files x (s_target x) = Some (PlainFile a t)"
      using b by (cases node) (auto simp: before_ok_def)
    have e: "Existed (Before (s_config x))" using b t by (simp add: before_ok_def)
    have d: "TxConfigBefore tx = t" using assms t by (simp add: enacts_def Let_def)
    have sp: "s_snap x \<in> snap_paths x \<union> BackupPath ` set (Backups (TxJournal tx))"
      using e by (simp add: snap_paths_def)
    have "triple ?P (write_exclusive faults (s_snap x) t)
        (\<lambda>_ d. ?P d \<and> d_files d (s_snap x) = Some (PlainFile Private t)) ?E"
      by (rule triple_write_exclusive [OF u s]) (simp_all add: put_fresh [OF assms sp])
    then show ?thesis
      by (auto simp: write_snapshot_def art e d snap_ok_def t intro!: triple_failure s elim!: triple_weaken)
  qed
qed

lemma triple_save_backups:
  assumes "enacts en x tx"
  shows "triple (\<lambda>d. fresh_stage x tx d \<and> journal_at en x (at_phase tx PhasePrepared) d \<and> snap_ok x d)
    (each_do (write_backup faults tx) (Backups (TxJournal tx)))
    (\<lambda>_ d. saved_stage x tx d \<and> fresh_stage x tx d \<and> journal_at en x (at_phase tx PhasePrepared) d)
    (\<lambda>_. resumable en x)"
proof -
  let ?B = "set (Backups (TxJournal tx))" and ?E = "\<lambda>(_ :: config_error). resumable en x"
  let ?I = "\<lambda>(bs :: backup_record list) d. set bs \<subseteq> ?B \<and> fresh_stage x tx d \<and>
      journal_at en x (at_phase tx PhasePrepared) d \<and> snap_ok x d \<and> backed_up x (?B - set bs) tx d"
  have u: "uncounted (?I bs)" for bs by (simp add: uncounted_def)
  have s: "stops (?I bs) ?E" for bs using resumable_stages(1) [OF assms] by (auto simp: stops_def)
  have step: "triple (?I (b # bs)) (write_backup faults tx b) (\<lambda>_. ?I bs) ?E" for b bs
  proof (cases "b \<in> ?B")
    case True
    have put: "?I (b # bs) d \<Longrightarrow> ?I (b # bs) (put_file (BackupPath b) node d)" for d node
      using put_fresh [OF assms, of "BackupPath b"] put_backup [OF assms True] True by simp
    have "triple (?I (b # bs)) (write_backup faults tx b)
        (\<lambda>_ d. ?I (b # bs) d \<and> d_files d (BackupPath b) = Some (PlainFile Private (backup_data tx b))) ?E"
      unfolding write_backup_def backup_data_def by (rule triple_write_exclusive [OF u s put put])
    then show ?thesis by (rule triple_weaken) (auto simp: backed_up_def)
  qed (simp add: triple_def)
  have "triple (?I (Backups (TxJournal tx))) (each_do (write_backup faults tx) (Backups (TxJournal tx))) (\<lambda>_. ?I []) ?E"
    by (rule triple_each_do [where I = ?I]) (rule step)
  then show ?thesis
    by (rule triple_weaken) (auto simp: saved_stage_def fresh_stage_def backed_up_def)
qed

lemma triple_hook: "stops P E \<Longrightarrow> triple P (hook hooks ph) (\<lambda>_. P) E"
  by (auto simp: hook_def intro: triple_failure triple_return)

lemma stops_same: "(\<And>d. P d \<Longrightarrow> Q d) \<Longrightarrow> stops P (\<lambda>_. Q)"
  by (auto simp: stops_def)

lemma triple_save_before:
  assumes "enacts en x tx" "journal_codec en"
  shows "triple (\<lambda>d. fresh_stage x tx d \<and> journal_at en x (at_phase tx PhasePrepared) d)
    (save_before faults en hooks (s_path x) tx)
    (\<lambda>_ d. saved_stage x tx d \<and> journal_at en x (at_phase tx PhaseBackups) d) (\<lambda>_. resumable en x)"
proof -
  let ?E = "\<lambda>(_ :: config_error). resumable en x"
  let ?R = "\<lambda>d. saved_stage x tx d \<and> fresh_stage x tx d"
  note res = resumable_stages [OF assms(1)]
  have none: "\<not> Existed (Before (MarkerArtifact (TxJournal tx)))"
    using assms(1) by (simp add: enacts_def Let_def situation_ok_def)
  have start: "stops (\<lambda>d. fresh_stage x tx d \<and> journal_at en x (at_phase tx PhasePrepared) d) ?E"
    by (rule stops_same) (simp add: res)
  have snapped: "stops (\<lambda>d. fresh_stage x tx d \<and> journal_at en x (at_phase tx PhasePrepared) d \<and> snap_ok x d) ?E"
    by (rule stops_same) (simp add: res)
  have marker: "triple (\<lambda>d. fresh_stage x tx d \<and> journal_at en x (at_phase tx PhasePrepared) d \<and> snap_ok x d)
      (write_snapshot faults en (Before (MarkerArtifact (TxJournal tx))) (TxMarkerBefore tx))
      (\<lambda>_ d. fresh_stage x tx d \<and> journal_at en x (at_phase tx PhasePrepared) d \<and> snap_ok x d) ?E"
    by (auto simp: write_snapshot_def none intro!: triple_return triple_failure [OF snapped])
  have advance: "triple (\<lambda>d. ?R d \<and> journal_at en x (at_phase tx PhasePrepared) d)
      (advance_journal faults en (s_path x) (TransactionID (TxJournal tx)) PhaseBackups)
      (\<lambda>_ d. ?R d \<and> journal_at en x (at_phase tx PhaseBackups) d) ?E"
    by (rule triple_advance [OF assms(2)]) (auto simp: uncounted_def put_journal [OF assms(1)] res)
  have backups: "triple (\<lambda>d. fresh_stage x tx d \<and> journal_at en x (at_phase tx PhasePrepared) d \<and> snap_ok x d)
    (each_do (write_backup faults tx) (Backups (TxJournal tx)))
    (\<lambda>_ d. ?R d \<and> journal_at en x (at_phase tx PhasePrepared) d) ?E"
    by (rule triple_weaken [OF triple_save_backups [OF assms(1)]]) auto
  have last: "stops (\<lambda>d. ?R d \<and> journal_at en x (at_phase tx PhaseBackups) d) ?E"
    by (rule stops_same) (simp add: res)
  show ?thesis
    unfolding save_before_def
    apply (rule triple_bind [OF triple_hook [OF start]])
    apply (rule triple_bind [OF triple_save_snapshot [OF assms(1)]])
    apply (rule triple_bind [OF marker])
    apply (rule triple_bind [OF backups])
    apply (rule triple_bind [OF advance])
    apply (rule triple_weaken [OF triple_hook [OF last]])
      apply simp_all
    done
qed

section \<open>Secrets\<close>

lemma saved_keyring:
  assumes "saved_stage x tx d" "r \<in> s_refs x"
  shows "saved_stage x tx (put_keyring r v d)"
proof -
  have "frame x (put_keyring r v d)" using assms by (auto simp: saved_stage_def frame_def)
  then show ?thesis
    using assms(1)
    by (auto simp: saved_stage_def unused_def backed_up_def cell_defs split: option.splits node.splits)
qed

lemma triple_save_secrets:
  assumes "enacts en x tx" "journal_codec en"
  shows "triple (\<lambda>d. saved_stage x tx d \<and> journal_at en x (at_phase tx PhaseBackups) d)
    (save_secrets faults en hooks (s_path x) tx)
    (\<lambda>_ d. kept_stage x tx False False d \<and> journal_at en x (at_phase tx PhaseKeyring) d) (\<lambda>_. resumable en x)"
proof -
  let ?E = "\<lambda>(_ :: config_error). resumable en x"
  let ?R = "\<lambda>d. saved_stage x tx d \<and> kept x d"
  let ?held = "\<lambda>X d. \<forall>(r, s) \<in> X. d_keyring d r = Some s"
  let ?I = "\<lambda>(ks :: (string \<times> string) list) d. set ks \<subseteq> set (TxKeyring tx) \<and> saved_stage x tx d \<and>
      journal_at en x (at_phase tx PhaseBackups) d \<and> ?held (set (TxKeyring tx) - set ks) d"
  note res = resumable_stages [OF assms(1)]
  have facts: "s_secrets x = TxKeyring tx" "inj_on fst (set (TxKeyring tx))"
    "s_saved x = map (\<lambda>b. (BackupPath b, backup_data tx b)) (Backups (TxJournal tx))"
    using assms(1) by (simp_all add: enacts_def Let_def distinct_map)
  have refs: "fst ` set (TxKeyring tx) \<subseteq> s_refs x"
    using enacts_ok [OF assms(1)] by (simp add: situation_ok_def facts(1))
  have u: "uncounted (?I ks)" for ks by (simp add: uncounted_def)
  have s: "stops (\<lambda>d. ?I ks d \<and> Q d) ?E" "stops (?I ks) ?E" for ks Q by (rule stops_same, simp add: res)+
  have step: "triple (?I (k # ks)) (store_secret faults en k) (\<lambda>_. ?I ks) ?E" for k ks
  proof (cases "k \<in> set (TxKeyring tx)")
    case True
    have put: "?I (k # ks) (put_keyring (fst k) v d)" if "?I (k # ks) d" for d v
    proof -
      have "d_keyring (put_keyring (fst k) v d) r = Some t" if "(r, t) \<in> set (TxKeyring tx) - set (k # ks)" for r t
        using that \<open>?I (k # ks) d\<close> facts(2) True by (auto simp: put_keyring_def inj_on_def)
      then show ?thesis
        using that refs True saved_keyring [of x tx d "fst k"] by (auto simp: journal_at_def)
    qed
    have set: "triple (?I (k # ks)) (keyring_set faults en (fst k) (snd k)) (\<lambda>_. ?I (k # ks)) ?E"
      unfolding keyring_set_def by (rule triple_keyring_call [OF u put s(2) s(2)])
    show ?thesis
      unfolding store_secret_def
      apply (rule triple_bind [OF set])
      apply (rule triple_bind [OF triple_keyring_get [OF u s(2)]])
      apply (rule triple_if, rule triple_failure [OF s(1)])
      apply (rule triple_return)
      apply (cases k)
      apply auto
      done
  qed (simp add: triple_def)
  have all: "triple (?I (TxKeyring tx)) (each_do (store_secret faults en) (TxKeyring tx)) (\<lambda>_. ?I []) ?E"
    by (rule triple_each_do [where I = ?I]) (rule step)
  have secrets: "triple (\<lambda>d. saved_stage x tx d \<and> journal_at en x (at_phase tx PhaseBackups) d)
      (each_do (store_secret faults en) (TxKeyring tx))
      (\<lambda>_ d. ?R d \<and> journal_at en x (at_phase tx PhaseBackups) d) ?E"
    by (rule triple_weaken [OF all]) (auto simp: kept_def facts saved_stage_def backed_up_def)
  have keep: "?R (put_file (s_path x) node d) = ?R d" for node d
    using not_snap(4) [OF enacts_ok [OF assms(1)]]
    by (simp add: put_journal [OF assms(1)] kept_put [OF enacts_ok [OF assms(1)]])
  have kept: "?R d \<Longrightarrow> kept_stage x tx False False d" for d
    by (simp add: saved_stage_def kept_stage_def)
  have advance: "triple (\<lambda>d. ?R d \<and> journal_at en x (at_phase tx PhaseBackups) d)
      (advance_journal faults en (s_path x) (TransactionID (TxJournal tx)) PhaseKeyring)
      (\<lambda>_ d. ?R d \<and> journal_at en x (at_phase tx PhaseKeyring) d) ?E"
    by (rule triple_advance [OF assms(2)])
      (auto simp: uncounted_def keep res(2), rule res(3) [OF kept], simp_all)
  have last: "stops (\<lambda>d. ?R d \<and> journal_at en x (at_phase tx PhaseKeyring) d) ?E"
    by (rule stops_same) (rule res(3) [OF kept], simp_all)
  show ?thesis
    unfolding save_secrets_def
    apply (rule triple_bind [OF secrets])
    apply (rule triple_bind [OF advance])
    apply (rule triple_weaken [OF triple_hook [OF last]])
      apply (use kept in auto)
    done
qed

section \<open>Configuration and marker\<close>

lemma triple_replace_private:
  assumes "uncounted P" "stops P (\<lambda>_. E)" "uncounted Q" "\<And>d. Q d \<Longrightarrow> E d"
    and "\<And>d. P d \<Longrightarrow> Q (put_file path (Some (PlainFile Private data)) d)"
  shows "triple P (atomic_write faults path data False) (\<lambda>_. Q) (\<lambda>_. E)"
    and "triple P (replace_prepared faults path data False) (\<lambda>_. Q) (\<lambda>_. E)"
proof -
  show w: "triple P (atomic_write faults path data False) (\<lambda>_. Q) (\<lambda>_. E)"
    by (rule triple_atomic_write [where R = P, OF assms(1,2,1,2,3)]) (use assms in \<open>auto intro: triple_return\<close>)
  have look: "triple P (open_verified faults path) (\<lambda>_. P) (\<lambda>_. E)"
    by (rule triple_weaken [OF triple_open_verified [OF assms(1,2)]]) simp_all
  show "triple P (replace_prepared faults path data False) (\<lambda>_. Q) (\<lambda>_. E)"
    unfolding replace_prepared_def
    by (rule triple_bind [OF look triple_on_failure [OF w]]) (auto intro: triple_return triple_throw)
qed

lemma put_artifacts:
  assumes "enacts en x tx"
  shows "kept_stage x tx c False d \<Longrightarrow>
      kept_stage x tx True False (put_file (s_target x) (Some (PlainFile Private (s_config_data x))) d)"
    and "kept_stage x tx True mk d \<Longrightarrow>
      kept_stage x tx True True (put_file (s_mtarget x) (Some (PlainFile Private (s_marker_data x))) d)"
    and "journal_at en x j (put_file (s_target x) node d) = journal_at en x j d"
    and "journal_at en x j (put_file (s_mtarget x) node d) = journal_at en x j d"
proof -
  note ok = enacts_ok [OF assms]
  note put = situation_paths [OF ok] not_snap [OF ok] frame_put put_cells put_snap_ok [OF situation_before [OF ok]]
    unused_put kept_put [OF ok]
  show "kept_stage x tx c False d \<Longrightarrow>
      kept_stage x tx True False (put_file (s_target x) (Some (PlainFile Private (s_config_data x))) d)"
    by (simp add: kept_stage_def put) (simp add: config_after_def)
  show "kept_stage x tx True mk d \<Longrightarrow>
      kept_stage x tx True True (put_file (s_mtarget x) (Some (PlainFile Private (s_marker_data x))) d)"
    by (simp add: kept_stage_def put) (simp add: marker_after_def)
  show "journal_at en x j (put_file (s_target x) node d) = journal_at en x j d"
    "journal_at en x j (put_file (s_mtarget x) node d) = journal_at en x j d"
    by (simp_all add: put)
qed

lemma triple_save_config:
  assumes "enacts en x tx" "journal_codec en"
  shows "triple (\<lambda>d. kept_stage x tx False False d \<and> journal_at en x (at_phase tx PhaseKeyring) d)
    (save_config faults en hooks (s_path x) (s_target x) tx)
    (\<lambda>_ d. kept_stage x tx True False d \<and> journal_at en x (at_phase tx PhaseConfig) d) (\<lambda>_. resumable en x)"
proof -
  let ?E = "\<lambda>(_ :: config_error). resumable en x"
  let ?Q = "\<lambda>d. kept_stage x tx True False d \<and> journal_at en x (at_phase tx PhaseKeyring) d"
  note res = resumable_stages [OF assms(1)]
  have data: "TxConfigData tx = s_config_data x" "ConfigArtifact (TxJournal tx) = s_config x"
    using assms(1) by (simp_all add: enacts_def Let_def)
  have uQ: "uncounted ?Q" by (simp add: uncounted_def)
  have sQ: "stops ?Q ?E" by (rule stops_same) (auto simp: res)
  have store: "triple (\<lambda>d. kept_stage x tx False False d \<and> journal_at en x (at_phase tx PhaseKeyring) d)
      (replace_prepared faults (s_target x) (TxConfigData tx) False) (\<lambda>_. ?Q) ?E"
    unfolding data
    by (rule triple_replace_private)
      (auto simp: uncounted_def res put_artifacts [OF assms(1)] intro: stops_same)
  have check: "triple ?Q (verify_artifact faults en path expected) (\<lambda>_. ?Q) ?E" for path expected
    by (rule triple_weaken [OF triple_verify_artifact [OF uQ sQ]]) simp_all
  have load: "triple ?Q (load_config_file faults en path) (\<lambda>_. ?Q) ?E" for path
    by (rule triple_weaken [OF triple_load_config_file [OF uQ sQ]]) simp_all
  have advance: "triple ?Q (advance_journal faults en (s_path x) (TransactionID (TxJournal tx)) PhaseConfig)
      (\<lambda>_ d. kept_stage x tx True False d \<and> journal_at en x (at_phase tx PhaseConfig) d) ?E"
    by (rule triple_advance [OF assms(2)]) (auto simp: uncounted_def put_journal [OF assms(1)] res)
  have last: "stops (\<lambda>d. kept_stage x tx True False d \<and> journal_at en x (at_phase tx PhaseConfig) d) ?E"
    by (rule stops_same) (auto intro: res(4))
  show ?thesis
    unfolding save_config_def
    apply (rule triple_bind [OF store])
    apply (rule triple_bind [OF check])
    apply (rule triple_bind [OF load])
    apply (clarsimp split: prod.splits)
    apply (intro conjI impI triple_failure [OF sQ])
    apply (rule triple_bind [OF advance])
    apply (rule triple_hook [OF last])
    done
qed

lemma triple_load_marker:
  assumes "uncounted P" "stops P E"
  shows "triple P (load_marker faults en path)
    (\<lambda>r d. P d \<and> (r = None \<longleftrightarrow> d_files d path = None)) E"
proof -
  let ?R = "\<lambda>b d. P d \<and> (b \<longleftrightarrow> d_files d path \<noteq> None)"
  have s: "stops (?R b) E" for b by (rule stops_weaken [OF assms(2)]) simp
  have u: "uncounted (?R b)" for b using assms(1) by (simp add: uncounted_def)
  show ?thesis
    unfolding load_marker_def
    apply (rule triple_bind [OF triple_path_exists [OF assms]])
    subgoal for b
      apply (rule triple_if)
       apply (auto intro!: triple_return)[1]
      apply (rule triple_bind [OF triple_read_private [OF u s]])
      apply (auto split: option.splits intro!: triple_return triple_failure stops_weaken [OF assms(2)])
      done
    done
qed

lemma triple_save_marker:
  assumes "enacts en x tx" "journal_codec en"
  shows "triple (\<lambda>d. kept_stage x tx True False d \<and> journal_at en x (at_phase tx PhaseConfig) d)
    (save_marker faults en hooks (s_path x) tx)
    (\<lambda>_ d. kept_stage x tx True True d \<and> journal_at en x (at_phase tx PhaseMarkerVerified) d) (\<lambda>_. resumable en x)"
proof -
  let ?E = "\<lambda>(_ :: config_error). resumable en x"
  let ?Q = "\<lambda>d. kept_stage x tx True True d \<and> journal_at en x (at_phase tx PhaseConfig) d"
  note res = resumable_stages [OF assms(1)]
  have data: "TxMarkerData tx = s_marker_data x" "MarkerArtifact (TxJournal tx) = s_marker x"
    using assms(1) by (simp_all add: enacts_def Let_def)
  have uQ: "uncounted ?Q" by (simp add: uncounted_def)
  have sQ: "stops ?Q ?E" by (rule stops_same) (auto simp: res)
  have store: "triple (\<lambda>d. kept_stage x tx True False d \<and> journal_at en x (at_phase tx PhaseConfig) d)
      (atomic_write faults (s_mtarget x) (s_marker_data x) False) (\<lambda>_. ?Q) ?E"
  proof (rule triple_replace_private)
    show "stops (\<lambda>d. kept_stage x tx True False d \<and> journal_at en x (at_phase tx PhaseConfig) d) ?E"
      by (rule stops_same, elim conjE, rule res(4))
  qed (use sQ in \<open>auto simp: uncounted_def put_artifacts [OF assms(1)] stops_def\<close>)
  have check: "triple ?Q (verify_artifact faults en path expected) (\<lambda>_. ?Q) ?E" for path expected
    by (rule triple_weaken [OF triple_verify_artifact [OF uQ sQ]]) simp_all
  have load: "triple ?Q (load_marker faults en path) (\<lambda>_. ?Q) ?E" for path
    by (rule triple_weaken [OF triple_load_marker [OF uQ sQ]]) simp_all
  have advance: "triple ?Q (advance_journal faults en (s_path x) (TransactionID (TxJournal tx)) PhaseMarkerVerified)
      (\<lambda>_ d. kept_stage x tx True True d \<and> journal_at en x (at_phase tx PhaseMarkerVerified) d) ?E"
    by (rule triple_advance [OF assms(2)]) (auto simp: uncounted_def put_journal [OF assms(1)] res)
  have last: "stops (\<lambda>d. kept_stage x tx True True d \<and> journal_at en x (at_phase tx PhaseMarkerVerified) d) ?E"
    by (rule stops_same) (simp add: res)
  show ?thesis
    unfolding save_marker_def data
    apply (rule triple_bind [OF store])
    apply (rule triple_bind [OF load])
    apply (rule triple_if, rule triple_failure [OF sQ])
    apply (rule triple_bind [OF check])
    apply (rule triple_bind [OF advance])
    apply (rule triple_hook [OF last])
    done
qed

section \<open>The whole transaction\<close>

lemma triple_transaction_steps:
  assumes "enacts en x tx" "journal_codec en"
  shows "triple (\<lambda>d. fresh_stage x tx d \<and> journal_at en x (at_phase tx PhasePrepared) d)
    (transaction_steps faults en hooks (s_path x) (s_target x) tx)
    (\<lambda>_. committed x) (\<lambda>_ d. resumable en x d \<or> committed x d)"
proof -
  let ?E = "\<lambda>(_ :: config_error) d. resumable en x d \<or> committed x d"
  have j: "journal_of en x (at_phase tx PhaseMarkerVerified)" by (rule journal_of_phase [OF assms(1)]) simp
  have late: "triple (\<lambda>d. kept_stage x tx True True d \<and> journal_at en x (at_phase tx PhaseMarkerVerified) d)
      (complete_journal faults en (s_path x) (TransactionID (TxJournal tx))) (\<lambda>_. committed x) ?E"
    by (rule triple_weaken [OF triple_complete_journal [OF enacts_ok [OF assms(1)] j]])
      (use j in \<open>auto simp: complete_error_def resumable_def kept_stage_def verified_def\<close>)
  show ?thesis
    unfolding transaction_steps_def
    apply (rule triple_bind [OF triple_weaken [OF triple_save_before [OF assms]]], assumption, assumption, simp)
    apply (rule triple_bind [OF triple_weaken [OF triple_save_secrets [OF assms]]], assumption, assumption, simp)
    apply (rule triple_bind [OF triple_weaken [OF triple_save_config [OF assms]]], assumption, assumption, simp)
    apply (rule triple_bind [OF triple_weaken [OF triple_save_marker [OF assms]]], assumption, assumption, simp)
    apply (rule late)
    done
qed

text \<open>
  A crash while the journal is created may leave a beginning of it.  \<open>torn\<close>: it is not a journal, and
  nothing else has changed.
\<close>

definition torn :: "'e migration_env_scheme \<Rightarrow> situation \<Rightarrow> disk \<Rightarrow> bool" where
  "torn en x d \<longleftrightarrow>
     (\<forall>p. p \<noteq> s_path x \<longrightarrow> d_files d p = s_files x p) \<and> d_keyring d = s_keyring x \<and>
     (\<exists>s. d_files d (s_path x) = Some (PlainFile Private s) \<and>
        (\<forall>j. decode_journal en s = Some j \<longrightarrow> \<not> validate_journal en j (s_path x)))"

text \<open>What a migration may leave when it is interrupted.\<close>

definition interrupted :: "'e migration_env_scheme \<Rightarrow> situation \<Rightarrow> disk \<Rightarrow> bool" where
  "interrupted en x d \<longleftrightarrow> torn en x d \<or> resumable en x d \<or> restored x d \<or> committed x d"

lemma uncounted_resumable [simp]: "uncounted (resumable en x)"
  using uncounted_cells(1,4) [of en x] by (simp add: uncounted_def resumable_def)

lemma uncounted_interrupted [simp]: "uncounted (torn en x)" "uncounted (interrupted en x)"
  using uncounted_cells(2,3) [of x] uncounted_resumable [of en x]
  by (simp_all add: uncounted_def interrupted_def torn_def)

text \<open>A beginning of the journal that is accepted describes the same transaction.\<close>

definition beginnings :: "'e migration_env_scheme \<Rightarrow> situation \<Rightarrow> journal \<Rightarrow> bool" where
  "beginnings en x j \<longleftrightarrow>
     (\<forall>data n j'. encode_journal en j = Some data \<longrightarrow> decode_journal en (take n data) = Some j' \<longrightarrow>
        validate_journal en j' (s_path x) \<longrightarrow> journal_of en x j' \<and> Phase j' = PhasePrepared)"

definition starting :: "'e migration_env_scheme \<Rightarrow> situation \<Rightarrow> string \<Rightarrow> disk \<Rightarrow> bool" where
  "starting en x data d \<longleftrightarrow>
     (\<forall>p. p \<noteq> s_path x \<longrightarrow> d_files d p = s_files x p) \<and> d_keyring d = s_keyring x \<and>
     (d_files d (s_path x) = None \<or> (\<exists>n. d_files d (s_path x) = Some (PlainFile Private (take n data))))"

lemma starting_cells:
  assumes "situation_ok en x" "\<And>p. p \<noteq> s_path x \<Longrightarrow> d_files d p = s_files x p" "d_keyring d = s_keyring x"
  shows "frame x d" "config_before x d" "marker_none x d" "p \<in> s_backups x \<Longrightarrow> d_files d p = None"
proof -
  note ok = situation_paths [OF assms(1)] not_snap [OF assms(1)]
  show "frame x d" unfolding frame_def using assms(2,3) touched_paths(1) by metis
  show "config_before x d"
    using situation_before [OF assms(1)] assms(2) [of "s_target x"] ok
    by (auto simp: before_ok_def config_before_def split: option.splits node.splits)
  show "marker_none x d" using assms ok by (auto simp: marker_none_def situation_ok_def)
  show "p \<in> s_backups x \<Longrightarrow> d_files d p = None"
    using assms ok by (auto simp: situation_ok_def)
qed

lemma starting_interrupted:
  assumes "enacts en x tx" "beginnings en x (TxJournal tx)" "encode_journal en (TxJournal tx) = Some data"
    and "starting en x data d"
  shows "interrupted en x d"
proof -
  have ok: "situation_ok en x" by (rule enacts_ok [OF assms(1)])
  have apart: "\<And>p. p \<noteq> s_path x \<Longrightarrow> d_files d p = s_files x p" "d_keyring d = s_keyring x"
    using assms(4) by (auto simp: starting_def)
  note cells = starting_cells [OF ok apart]
  consider "d_files d (s_path x) = None"
    | n where "d_files d (s_path x) = Some (PlainFile Private (take n data))"
    using assms(4) by (auto simp: starting_def)
  then show ?thesis
  proof cases
    case 1
    then have "d_files d p = s_files x p" for p
      using apart(1) ok by (cases "p = s_path x") (auto simp: situation_ok_def)
    then show ?thesis using apart(2) cells(2) by (simp add: interrupted_def restored_def)
  next
    case 2
    show ?thesis
    proof (cases "\<exists>j. decode_journal en (take n data) = Some j \<and> validate_journal en j (s_path x)")
      case True
      then obtain j where j: "decode_journal en (take n data) = Some j" "validate_journal en j (s_path x)" by blast
      then have "journal_of en x j" "Phase j = PhasePrepared"
        using assms(2,3) by (auto simp: beginnings_def)
      moreover have "pending en x j d"
        using 2 j(1) cells apart(2) by (auto simp: pending_def journal_at_def)
      ultimately show ?thesis by (auto simp: interrupted_def resumable_def)
    next
      case False
      then show ?thesis using 2 apart by (auto simp: interrupted_def torn_def)
    qed
  qed
qed

lemma triple_begin:
  assumes "enacts en x tx" "journal_codec en" "beginnings en x (TxJournal tx)"
  shows "triple (\<lambda>d. d_files d = s_files x \<and> d_keyring d = s_keyring x)
    (begin_journal faults en (s_path x) (TxJournal tx))
    (\<lambda>_ d. fresh_stage x tx d \<and> journal_at en x (at_phase tx PhasePrepared) d) (\<lambda>_. interrupted en x)"
proof (cases "encode_journal en (TxJournal tx)")
  case None
  have ok: "situation_ok en x" by (rule enacts_ok [OF assms(1)])
  have "interrupted en x d" if "d_files d = s_files x" "d_keyring d = s_keyring x" for d
    using starting_cells(2) [OF ok] that by (simp add: interrupted_def restored_def)
  then show ?thesis
    using None by (auto simp: begin_journal_def intro!: triple_failure stops_same)
next
  case (Some data)
  let ?P = "starting en x data"
  have ok: "situation_ok en x" by (rule enacts_ok [OF assms(1)])
  have s: "stops ?P (\<lambda>_. interrupted en x)"
    by (rule stops_same) (rule starting_interrupted [OF assms(1,3) Some])
  have u: "uncounted ?P" by (simp add: uncounted_def starting_def)
  have j: "decode_journal en data = Some (TxJournal tx)"
    using Some assms(2) by (auto simp: encode_journal_def journal_codec_def split: option.splits if_splits)
  have ph: "at_phase tx PhasePrepared = TxJournal tx" using assms(1) by (simp add: enacts_def Let_def)
  have "triple ?P (write_exclusive faults (s_path x) data)
      (\<lambda>_ d. ?P d \<and> d_files d (s_path x) = Some (PlainFile Private data)) (\<lambda>_. interrupted en x)"
    by (rule triple_write_exclusive [OF u s]) (auto simp: starting_def)
  then have w: "triple (\<lambda>d. d_files d = s_files x \<and> d_keyring d = s_keyring x) (write_exclusive faults (s_path x) data)
      (\<lambda>_ d. fresh_stage x tx d \<and> journal_at en x (at_phase tx PhasePrepared) d) (\<lambda>_. interrupted en x)"
  proof (rule triple_weaken)
    fix d :: disk assume "d_files d = s_files x \<and> d_keyring d = s_keyring x"
    then show "?P d" using ok by (simp add: starting_def situation_ok_def)
  next
    fix d :: disk assume d: "?P d \<and> d_files d (s_path x) = Some (PlainFile Private data)"
    then have apart: "\<And>p. p \<noteq> s_path x \<Longrightarrow> d_files d p = s_files x p" "d_keyring d = s_keyring x"
      by (auto simp: starting_def)
    show "fresh_stage x tx d \<and> journal_at en x (at_phase tx PhasePrepared) d"
      using starting_cells [OF ok apart] apart(2) d j ph by (simp add: fresh_stage_def unused_def journal_at_def)
  qed simp
  then show ?thesis
    using Some assms(1) by (simp add: begin_journal_def enacts_def Let_def)
qed

text \<open>The errors before the journal exists are not those of a rollback.\<close>

definition other_error :: "config_error \<Rightarrow> disk \<Rightarrow> bool" where
  "other_error e d \<longleftrightarrow> e \<noteq> Failure ''migration failed''"

abbreviation other_errors :: "'a fsop \<Rightarrow> bool" where
  "other_errors m \<equiv> triple (\<lambda>_. True) m (\<lambda>_ _. True) other_error"

lemma other_errors_calls:
  "other_errors (syscall faults effect partial)" "other_errors (atomic_call faults effect)"
  "other_errors (plain_call faults)" "other_errors (plain_calls faults n)" "other_errors (file_at path)"
proof -
  show s: "other_errors (syscall faults effect partial)" "other_errors (atomic_call faults effect)" for effect partial
    by (auto simp: triple_def syscall_def atomic_call_def other_error_def Let_def split: fault.splits)
  show p: "other_errors (plain_call faults)" by (simp add: plain_call_def s)
  show "other_errors (plain_calls faults n)"
    by (induction n) (auto intro: triple_return triple_bind [OF p])
  show "other_errors (file_at path)" by (simp add: file_at_def triple_def getsP_def)
qed

lemma other_errors_bind: "other_errors m \<Longrightarrow> (\<And>x. other_errors (k x)) \<Longrightarrow> other_errors (bindP m k)"
  by (rule triple_bind)

lemma other_errors_failure: "m \<noteq> ''migration failed'' \<Longrightarrow> other_errors (failure m)"
  by (simp add: failure_def triple_def throwP_def other_error_def)

lemma other_errors_discard: "other_errors (discard_exclusive faults path)"
proof -
  have i: "other_errors (ignore_failure m)" if "other_errors m" for m
    unfolding ignore_failure_def
    by (rule triple_on_failure [OF that]) (auto intro: triple_return simp: other_error_def)
  show ?thesis
    unfolding discard_exclusive_def by (intro other_errors_bind i other_errors_calls)
qed

lemma other_errors_begin: "other_errors (begin_journal faults en path j)"
proof -
  have f: "other_errors (fill_exclusive faults path data)" for data
    unfolding fill_exclusive_def by (intro other_errors_bind other_errors_calls)
  have u: "triple (other_error e) (bindP (discard_exclusive faults path) (\<lambda>_. throwP e)) (\<lambda>_ _. True) other_error" for e
    using other_errors_discard [of faults path]
    by (auto simp: triple_def bindP_def throwP_def other_error_def split: prod.splits sum.splits)
  have o: "other_errors (on_failure (fill_exclusive faults path data)
      (\<lambda>e. bindP (discard_exclusive faults path) (\<lambda>_. throwP e)) (\<lambda>_. plain_call faults))" for data
    by (rule triple_on_failure [OF f other_errors_calls(3) u]) (simp add: other_error_def)
  show ?thesis
    unfolding begin_journal_def write_exclusive_def
    by (auto split: option.splits
        intro!: other_errors_failure other_errors_bind other_errors_calls triple_if o)
qed

definition apply_error :: "'e migration_env_scheme \<Rightarrow> situation \<Rightarrow> config_error \<Rightarrow> disk \<Rightarrow> bool" where
  "apply_error en x e d \<longleftrightarrow> interrupted en x d \<and> (e = Failure ''migration failed'' \<longrightarrow> restored x d)"

lemma triple_recover_committed:
  "triple (\<lambda>d. committed x d) (recover_pending faults en (s_path x)) (\<lambda>_ _. False) (\<lambda>_. committed x)"
proof -
  have s: "stops (committed x) (\<lambda>_. committed x)" by (rule stops_same)
  have l: "triple (committed x) (load_journal faults en (s_path x)) (\<lambda>_ _. False) (\<lambda>_. committed x)"
    unfolding load_journal_def
    apply (rule triple_if, rule triple_failure [OF s])
    apply (rule triple_bind [where R = "\<lambda>_ _. False"])
     apply (rule triple_weaken [OF triple_read_private [OF uncounted_cells(3) s]])
       apply (auto simp: committed_def)[3]
    apply (rule triple_False)
    done
  show ?thesis
    unfolding recover_pending_def by (rule triple_bind [OF l triple_False])
qed

lemma triple_run_transaction:
  assumes "enacts en x tx" "journal_codec en" "beginnings en x (TxJournal tx)"
  shows "triple (\<lambda>d. d_files d = s_files x \<and> d_keyring d = s_keyring x)
    (run_transaction faults en hooks (s_path x) (s_target x) tx)
    (\<lambda>r d. committed x d \<and> r = TxResult tx) (apply_error en x)"
proof -
  let ?S = "\<lambda>d. resumable en x d \<or> committed x d" and ?I = "\<lambda>(_ :: config_error). interrupted en x"
  have start: "triple (\<lambda>d. d_files d = s_files x \<and> d_keyring d = s_keyring x)
      (begin_journal faults en (s_path x) (TxJournal tx))
      (\<lambda>_ d. fresh_stage x tx d \<and> journal_at en x (at_phase tx PhasePrepared) d) (apply_error en x)"
    by (rule triple_weaken [OF triple_conj [OF triple_begin [OF assms] other_errors_begin]])
      (auto simp: apply_error_def other_error_def)
  have r1: "triple (resumable en x) (recover_pending faults en (s_path x))
      (\<lambda>c d. if c then committed x d else restored x d) ?I"
    by (rule triple_weaken [OF triple_recover_pending [OF enacts_ok [OF assms(1)]]])
      (auto simp: interrupted_def split: if_splits)
  have r2: "triple (committed x) (recover_pending faults en (s_path x))
      (\<lambda>c d. if c then committed x d else restored x d) ?I"
    by (rule triple_weaken [OF triple_recover_committed]) (auto simp: interrupted_def)
  have recover: "triple ?S (recover_pending faults en (s_path x))
      (\<lambda>c d. if c then committed x d else restored x d) ?I"
    using r1 r2 unfolding triple_def by auto
  have give_up: "triple (interrupted en x)
      (failure ''migration failed and automatic rollback is incomplete; recovery required'') Q (apply_error en x)"
      for Q :: "migration_result \<Rightarrow> disk \<Rightarrow> bool"
    unfolding failure_def by (rule triple_throw) (simp add: apply_error_def)
  have refused: "triple (restored x) (failure ''migration failed'') Q (apply_error en x)"
      for Q :: "migration_result \<Rightarrow> disk \<Rightarrow> bool"
    unfolding failure_def by (rule triple_throw) (simp add: apply_error_def interrupted_def)
  have handler: "triple ?S (on_failure (recover_pending faults en (s_path x))
      (\<lambda>_. failure ''migration failed and automatic rollback is incomplete; recovery required'')
      (\<lambda>c. if c then returnP (TxResult tx) else failure ''migration failed''))
      (\<lambda>r d. committed x d \<and> r = TxResult tx) (apply_error en x)"
    by (rule triple_on_failure [OF recover])
      (auto intro!: triple_return give_up refused simp: apply_error_def)
  show ?thesis
    unfolding run_transaction_def
    apply (rule triple_bind [OF start])
    apply (rule triple_on_failure [OF triple_transaction_steps [OF assms(1,2)]])
      apply (auto intro!: triple_return)[1]
     apply (rule handler)
    apply (auto simp: interrupted_def apply_error_def)
    done
qed

end
