(* ===== verification/MigSafety.thy ===== *)
theory MigSafety
  imports MigForward
begin

text \<open>
  Migrations as users run them: \<open>ApplyMigrationWithOptions\<close> under any failing or interrupted system call,
  followed by any number of recoveries.
\<close>

section \<open>Paths of a journal\<close>

definition snapshot_paths :: "snapshot \<Rightarrow> string list" where
  "snapshot_paths s = (if Existed s then [SnapshotPath s] else [])"

definition journal_paths :: "journal \<Rightarrow> string list" where
  "journal_paths j =
     TargetPath (ConfigArtifact j) # snapshot_paths (Before (ConfigArtifact j)) @
     TargetPath (MarkerArtifact j) # snapshot_paths (Before (MarkerArtifact j)) @ map BackupPath (Backups j)"

text \<open>The keys seen so far are those of different paths inside the base directory.\<close>

definition seen_paths :: "'e config_env_scheme \<Rightarrow> string \<Rightarrow> string list \<Rightarrow> string list \<Rightarrow> string list \<Rightarrow> bool" where
  "seen_paths en base old ps new \<longleftrightarrow>
     new = rev (map (path_key en) ps) @ old \<and> list_all (\<lambda>p. inside_base p base) ps \<and>
     (distinct old \<longrightarrow> distinct new)"

lemma seen_none: "seen_paths en base old [] old"
  by (simp add: seen_paths_def)

lemma seen_add: "add_path en p base old = Some new \<Longrightarrow> seen_paths en base old [p] new"
  by (auto simp: add_path_def seen_paths_def split: if_splits)

lemma seen_append:
  "seen_paths en base old ps new \<Longrightarrow> seen_paths en base new qs newer \<Longrightarrow> seen_paths en base old (ps @ qs) newer"
  by (clarsimp simp: seen_paths_def)

lemma seen_artifact:
  assumes "validate_artifact en a base old = Some new"
  shows "seen_paths en base old (TargetPath a # snapshot_paths (Before a)) new"
    and "valid_sha256 (AfterDigest a)" and "\<not> Existed (Before a) \<Longrightarrow> absent_ok (Before a)"
proof -
  obtain seen where s: "add_path en (TargetPath a) base old = Some seen" "valid_sha256 (AfterDigest a)"
    "if Existed (Before a) then add_path en (SnapshotPath (Before a)) base seen = Some new
     else seen = new \<and> absent_ok (Before a)"
    using assms by (auto simp: validate_artifact_def absent_ok_def bind_eq_Some_conv split: if_splits)
  show "seen_paths en base old (TargetPath a # snapshot_paths (Before a)) new"
    using seen_append [OF seen_add [OF s(1)], of "snapshot_paths (Before a)" new] s(3)
    by (auto simp: snapshot_paths_def seen_none seen_add split: if_splits)
  show "valid_sha256 (AfterDigest a)" "\<not> Existed (Before a) \<Longrightarrow> absent_ok (Before a)"
    using s(2,3) by simp_all
qed

lemma seen_backups:
  "validate_backups en sources base locs old bs = Some new \<Longrightarrow> seen_paths en base old (map BackupPath bs) new"
proof (induction en sources base locs old bs rule: validate_backups.induct)
  case (2 en sources base locs old b bs)
  then obtain seen where "add_path en (BackupPath b) base old = Some seen"
    "seen_paths en base seen (map BackupPath bs) new"
    by (auto split: if_splits option.splits)
  then show ?case using seen_append [OF seen_add] by fastforce
qed (simp add: seen_none)

text \<open>The paths of a valid journal are different files inside its directory.\<close>

lemma valid_journal_paths:
  assumes "validate_journal en j path"
  shows "distinct (path # journal_paths j)"
    and "p \<in> set (journal_paths j) \<Longrightarrow> inside_base p (path_dir path)"
    and "\<not> Existed (Before (MarkerArtifact j)) \<Longrightarrow> absent_ok (Before (MarkerArtifact j))"
    and "\<not> Existed (Before (ConfigArtifact j)) \<Longrightarrow> absent_ok (Before (ConfigArtifact j))"
proof -
  let ?b = "path_dir path"
  obtain s1 s2 s3 where s: "validate_artifact en (ConfigArtifact j) ?b [path_key en path] = Some s1"
    "validate_artifact en (MarkerArtifact j) ?b s1 = Some s2"
    "validate_backups en (map LocationHash (Sources j)) ?b [] s2 (Backups j) = Some s3"
    using assms by (auto simp: validate_journal_def journal_paths_ok_def Let_def split: option.splits)
  have "seen_paths en ?b [path_key en path] (journal_paths j) s3"
    using seen_append [OF seen_append [OF seen_artifact(1) [OF s(1)] seen_artifact(1) [OF s(2)]] seen_backups [OF s(3)]]
    by (simp add: journal_paths_def)
  then have seen: "distinct (map (path_key en) (path # journal_paths j))" "list_all (\<lambda>p. inside_base p ?b) (journal_paths j)"
    by (auto simp: seen_paths_def)
  show "distinct (path # journal_paths j)" using seen(1) by (rule distinct_map [THEN iffD1, THEN conjunct1])
  show "p \<in> set (journal_paths j) \<Longrightarrow> inside_base p ?b" using seen(2) by (simp add: list_all_iff)
  show "\<not> Existed (Before (MarkerArtifact j)) \<Longrightarrow> absent_ok (Before (MarkerArtifact j))"
    "\<not> Existed (Before (ConfigArtifact j)) \<Longrightarrow> absent_ok (Before (ConfigArtifact j))"
    using seen_artifact(3) [OF s(1)] seen_artifact(3) [OF s(2)] by simp_all
qed

section \<open>The situation of a transaction\<close>

text \<open>What was read before the journal is written, on the files \<open>F\<close> and the keyring \<open>K\<close>.\<close>

definition read_config :: "'e config_env_scheme \<Rightarrow> node option \<Rightarrow> config \<Rightarrow> bool" where
  "read_config en node c \<longleftrightarrow>
     (case node of
        None \<Rightarrow> c = default_config
      | Some (PlainFile a s) \<Rightarrow> a \<noteq> Shared \<and> decode_valid en s = Some c
      | Some (OtherNode _) \<Rightarrow> False)"

definition read_snapshot :: "'e config_env_scheme \<Rightarrow> node option \<Rightarrow> string \<Rightarrow> snapshot \<times> string \<Rightarrow> bool" where
  "read_snapshot en node recovery sd \<longleftrightarrow>
     (case node of
        None \<Rightarrow> sd = (no_snapshot, '''')
      | Some (PlainFile a s) \<Rightarrow> length s \<le> maxConfigBytes \<and>
          sd = (\<lparr>Existed = True, SnapshotPath = recovery, SnapshotDigest = digest en s\<rparr>, s)
      | Some (OtherNode _) \<Rightarrow> False)"

definition read_sources ::
    "(string \<Rightarrow> node option) \<Rightarrow> plan \<Rightarrow> (source_kind \<times> string) list \<Rightarrow> (string \<times> string) list \<Rightarrow> bool" where
  "read_sources F p ss datas \<longleftrightarrow>
     map fst datas = map snd ss \<and>
     (\<forall>(loc, data) \<in> set datas. \<exists>path a. map_of (SourcePaths p) loc = Some path \<and> F path = Some (PlainFile a data))"

definition prepared ::
    "'e plan_env_scheme \<Rightarrow> config_paths \<Rightarrow> plan \<Rightarrow> string \<Rightarrow> string \<Rightarrow> int \<Rightarrow>
       (string \<Rightarrow> node option) \<Rightarrow> (string \<Rightarrow> string option) \<Rightarrow> transaction \<Rightarrow> bool" where
  "prepared en paths p tool txid now F K tx \<longleftrightarrow>
     (\<exists>current stamps cs ms.
        read_config en (F (ConfigFile paths)) current \<and>
        validate_plan p = Some (keyring_profiles p) \<and>
        marshal_config en (candidate_config current p) = Some (TxConfigData tx) \<and>
        read_sources F p (PlanSources p) (TxSources tx) \<and>
        marshal_marker en (transaction_marker en paths p tool txid now stamps (TxConfigData tx)) = Some (TxMarkerData tx) \<and>
        F (MigrationConfigRecovery paths) = None \<and>
        read_snapshot en (F (ConfigFile paths)) (MigrationConfigRecovery paths) (cs, TxConfigBefore tx) \<and>
        read_snapshot en (F (MigrationMarker paths)) (MigrationMarkerRecovery paths) (ms, TxMarkerBefore tx) \<and>
        (\<forall>m \<in> set (keyring_profiles p). K (Reference (MigCredential m)) = None) \<and>
        TxKeyring tx = map (\<lambda>m. (Reference (MigCredential m), secret_of p (MigName m))) (keyring_profiles p) \<and>
        TxJournal tx = transaction_journal en paths p tool txid stamps cs (TxConfigData tx) ms (TxMarkerData tx) \<and>
        TxResult tx = \<lparr>AppliedProfiles = map MigName (PlanProfiles p),
          ResultBackups = map (\<lambda>b. (SourceLocationHash b, BackupPath b)) (backup_records paths txid p),
          ResultMarker = MigrationMarker paths\<rparr>)"

text \<open>The backups named by the journal or by an accepted beginning of it.\<close>

definition named_backups :: "'e migration_env_scheme \<Rightarrow> string \<Rightarrow> journal \<Rightarrow> string set" where
  "named_backups en path j =
     BackupPath ` set (Backups j) \<union>
     (\<Union>{BackupPath ` set (Backups j') | data n j'.
         encode_journal en j = Some data \<and> decode_journal en (take n data) = Some j' \<and> validate_journal en j' path})"

definition situation_of ::
    "'e migration_env_scheme \<Rightarrow> string \<Rightarrow> (string \<Rightarrow> node option) \<Rightarrow> (string \<Rightarrow> string option) \<Rightarrow>
       transaction \<Rightarrow> situation" where
  "situation_of en path F K tx =
     (let j = TxJournal tx in
      \<lparr>s_path = path, s_files = F, s_keyring = K, s_config = ConfigArtifact j, s_marker = MarkerArtifact j,
       s_config_data = TxConfigData tx, s_marker_data = TxMarkerData tx, s_backups = named_backups en path j,
       s_refs = set (NewKeyringRefs j), s_saved = map (\<lambda>b. (BackupPath b, backup_data tx b)) (Backups j),
       s_secrets = TxKeyring tx\<rparr>)"

text \<open>
  What the transaction relies on: strict decoding accepts a beginning of a journal only when all that is
  missing are backups and references, the last one perhaps cut short; the backup paths, and what is left
  when they are cut, name no file; and the configuration file has another digest than different
  configurations.
\<close>

definition prefix_law :: "'e migration_env_scheme \<Rightarrow> string \<Rightarrow> bool" where
  "prefix_law en path \<longleftrightarrow>
     (\<forall>j data n j'. marshal_journal en j = Some data \<longrightarrow> decode_journal en (take n data) = Some j' \<longrightarrow>
        validate_journal en j' path \<longrightarrow>
        Phase j' = Phase j \<and> ConfigArtifact j' = ConfigArtifact j \<and> MarkerArtifact j' = MarkerArtifact j \<and>
        (\<forall>b' \<in> set (Backups j'). \<exists>b \<in> set (Backups j). \<exists>k. BackupPath b' = take k (BackupPath b)))"

lemma prefix_lawD:
  assumes "prefix_law en path" "marshal_journal en j = Some data" "decode_journal en (take n data) = Some j'"
    "validate_journal en j' path"
  shows "Phase j' = Phase j" "ConfigArtifact j' = ConfigArtifact j" "MarkerArtifact j' = MarkerArtifact j"
    "b' \<in> set (Backups j') \<Longrightarrow> \<exists>b \<in> set (Backups j). \<exists>k. BackupPath b' = take k (BackupPath b)"
  using assms unfolding prefix_law_def by blast+

definition spare_paths :: "config_paths \<Rightarrow> string \<Rightarrow> plan \<Rightarrow> string set" where
  "spare_paths paths txid p =
     {take k (BackupPath b) | k b.
        b \<in> set (backup_records paths txid p) \<and> inside_base (take k (BackupPath b)) (path_dir (MigrationJournal paths))}"

definition digest_apart :: "'e config_env_scheme \<Rightarrow> node option \<Rightarrow> bool" where
  "digest_apart en node \<longleftrightarrow>
     (\<forall>a s c data. node = Some (PlainFile a s) \<longrightarrow> marshal_config en c = Some data \<longrightarrow>
        digest en s = digest en data \<longrightarrow> s = data)"

lemma prepared_artifacts:
  assumes "prepared en paths p tool txid now F K tx" "F (MigrationMarker paths) = None"
  shows "TargetPath (ConfigArtifact (TxJournal tx)) = ConfigFile paths"
    and "TargetPath (MarkerArtifact (TxJournal tx)) = MigrationMarker paths"
    and "AfterDigest (ConfigArtifact (TxJournal tx)) = digest en (TxConfigData tx)"
    and "AfterDigest (MarkerArtifact (TxJournal tx)) = digest en (TxMarkerData tx)"
    and "\<not> Existed (Before (MarkerArtifact (TxJournal tx)))"
    and "Phase (TxJournal tx) = PhasePrepared"
    and "Backups (TxJournal tx) = backup_records paths txid p"
    and "NewKeyringRefs (TxJournal tx) = map fst (TxKeyring tx)"
    and "read_snapshot en (F (ConfigFile paths)) (MigrationConfigRecovery paths)
           (Before (ConfigArtifact (TxJournal tx)), TxConfigBefore tx)"
proof -
  obtain current stamps cs ms where
    j: "TxJournal tx = transaction_journal en paths p tool txid stamps cs (TxConfigData tx) ms (TxMarkerData tx)"
      "TxKeyring tx = map (\<lambda>m. (Reference (MigCredential m), secret_of p (MigName m))) (keyring_profiles p)"
      "read_snapshot en (F (ConfigFile paths)) (MigrationConfigRecovery paths) (cs, TxConfigBefore tx)"
      "read_snapshot en (F (MigrationMarker paths)) (MigrationMarkerRecovery paths) (ms, TxMarkerBefore tx)"
    using assms(1) unfolding prepared_def by blast
  have "ms = no_snapshot" using j(4) assms(2) by (simp add: read_snapshot_def)
  then show "TargetPath (ConfigArtifact (TxJournal tx)) = ConfigFile paths"
    and "TargetPath (MarkerArtifact (TxJournal tx)) = MigrationMarker paths"
    and "AfterDigest (ConfigArtifact (TxJournal tx)) = digest en (TxConfigData tx)"
    and "AfterDigest (MarkerArtifact (TxJournal tx)) = digest en (TxMarkerData tx)"
    and "\<not> Existed (Before (MarkerArtifact (TxJournal tx)))"
    and "Phase (TxJournal tx) = PhasePrepared"
    and "Backups (TxJournal tx) = backup_records paths txid p"
    and "NewKeyringRefs (TxJournal tx) = map fst (TxKeyring tx)"
    and "read_snapshot en (F (ConfigFile paths)) (MigrationConfigRecovery paths)
           (Before (ConfigArtifact (TxJournal tx)), TxConfigBefore tx)"
    using j(2,3) by (simp_all add: j(1) transaction_journal_def no_snapshot_def comp_def)
qed

lemma named_in_spare:
  assumes "prefix_law en path" "path = MigrationJournal paths" "validate_journal en j path"
    and "Backups j = backup_records paths txid p" "q \<in> named_backups en path j"
  shows "q \<in> spare_paths paths txid p"
proof -
  have own: "q \<in> spare_paths paths txid p" if "b \<in> set (Backups j)" "q = BackupPath b" for b
    using valid_journal_paths(2) [OF assms(3), of q] that assms(2,4)
    by (auto simp: spare_paths_def journal_paths_def intro!: exI [of _ "length q"] exI [of _ b])
  consider "q \<in> BackupPath ` set (Backups j)"
    | data n j' b' where "encode_journal en j = Some data" "decode_journal en (take n data) = Some j'"
        "validate_journal en j' path" "b' \<in> set (Backups j')" "q = BackupPath b'"
    using assms(5) by (auto simp: named_backups_def)
  then show ?thesis
  proof cases
    case 2
    then have "marshal_journal en j = Some data" by (auto simp: encode_journal_def split: option.splits if_splits)
    from prefix_lawD(4) [OF assms(1) this 2(2,3,4)] 2(5)
    obtain b k where b: "b \<in> set (Backups j)" "q = take k (BackupPath b)" by auto
    have "inside_base q (path_dir path)"
      using valid_journal_paths(2) [OF 2(3), of q] 2(4,5) by (auto simp: journal_paths_def)
    then show ?thesis using b assms(2,4) by (auto simp: spare_paths_def)
  qed (use own in auto)
qed

lemma named_apart:
  assumes "prefix_law en path" "validate_journal en j path" "q \<in> named_backups en path j"
  shows "q \<noteq> path" "q \<noteq> TargetPath (ConfigArtifact j)" "q \<noteq> TargetPath (MarkerArtifact j)"
    "q \<notin> set (snapshot_paths (Before (ConfigArtifact j)))"
proof -
  have "\<exists>j'. validate_journal en j' path \<and> q \<in> BackupPath ` set (Backups j') \<and>
      ConfigArtifact j' = ConfigArtifact j \<and> MarkerArtifact j' = MarkerArtifact j"
    using assms by (auto simp: named_backups_def prefix_law_def encode_journal_def split: option.splits if_splits)
  then obtain j' where j': "validate_journal en j' path" "q \<in> BackupPath ` set (Backups j')"
    "ConfigArtifact j' = ConfigArtifact j" "MarkerArtifact j' = MarkerArtifact j" by blast
  define bs where "bs = map BackupPath (Backups j')"
  have q: "q \<in> set bs" using j'(2) by (simp add: bs_def)
  have d: "distinct (path # TargetPath (ConfigArtifact j) # snapshot_paths (Before (ConfigArtifact j)) @
      TargetPath (MarkerArtifact j) # snapshot_paths (Before (MarkerArtifact j)) @ bs)"
    using valid_journal_paths(1) [OF j'(1)] by (simp only: journal_paths_def j'(3,4) bs_def)
  show "q \<noteq> path" "q \<noteq> TargetPath (ConfigArtifact j)" "q \<noteq> TargetPath (MarkerArtifact j)"
    "q \<notin> set (snapshot_paths (Before (ConfigArtifact j)))"
    using d q by auto
qed

lemma prepared_before:
  assumes "prepared en paths p tool txid now F K tx" "F (MigrationMarker paths) = None"
    and "validate_journal en (TxJournal tx) path" "digest_apart en (F (ConfigFile paths))"
  shows "before_ok en (situation_of en path F K tx)"
    and "F (ConfigFile paths) = Some (PlainFile a s) \<Longrightarrow> TxConfigBefore tx = s"
    and "q \<in> snap_paths (situation_of en path F K tx) \<Longrightarrow> q = MigrationConfigRecovery paths \<and> F q = None"
proof -
  let ?x = "situation_of en path F K tx" and ?node = "F (ConfigFile paths)"
  let ?s = "Before (ConfigArtifact (TxJournal tx))"
  note art = prepared_artifacts [OF assms(1,2)]
  have x: "s_files ?x = F" "s_target ?x = ConfigFile paths" "s_config ?x = ConfigArtifact (TxJournal tx)"
    "s_config_data ?x = TxConfigData tx"
    by (simp_all add: situation_of_def Let_def art(1))
  obtain current where r: "read_config en ?node current" "F (MigrationConfigRecovery paths) = None"
    "marshal_config en (candidate_config current p) = Some (TxConfigData tx)"
    using assms(1) unfolding prepared_def by blast
  have ok: "\<not> Existed ?s \<Longrightarrow> absent_ok ?s" by (rule valid_journal_paths(4) [OF assms(3)])
  show "before_ok en ?x"
    using r(1) art(9) ok assms(4) r(3)
    by (auto simp: before_ok_def x art(1) read_config_def read_snapshot_def digest_apart_def no_snapshot_def
        split: option.splits node.splits)
  show "?node = Some (PlainFile a s) \<Longrightarrow> TxConfigBefore tx = s"
    using art(9) by (simp add: read_snapshot_def)
  show "q \<in> snap_paths ?x \<Longrightarrow> q = MigrationConfigRecovery paths \<and> F q = None"
    using art(9) r(2)
    by (auto simp: snap_paths_def x read_snapshot_def no_snapshot_def split: if_splits option.splits node.splits)
qed

lemma prepared_enacts:
  assumes "prepared en paths p tool txid now F K tx" "F (MigrationMarker paths) = None" "F path = None"
    and "path = MigrationJournal paths" "validate_journal en (TxJournal tx) path" "prefix_law en path"
    and "digest_apart en (F (ConfigFile paths))" "\<And>q. q \<in> spare_paths paths txid p \<Longrightarrow> F q = None"
  shows "enacts en (situation_of en path F K tx) tx"
proof -
  let ?x = "situation_of en path F K tx" and ?j = "TxJournal tx"
  note art = prepared_artifacts [OF assms(1,2)]
  have x: "s_files ?x = F" "s_keyring ?x = K" "s_path ?x = path" "s_config ?x = ConfigArtifact ?j"
    "s_marker ?x = MarkerArtifact ?j" "s_config_data ?x = TxConfigData tx" "s_marker_data ?x = TxMarkerData tx"
    "s_backups ?x = named_backups en path ?j" "s_refs ?x = set (NewKeyringRefs ?j)" "s_secrets ?x = TxKeyring tx"
    "s_saved ?x = map (\<lambda>b. (BackupPath b, backup_data tx b)) (Backups ?j)"
    by (simp_all add: situation_of_def Let_def)
  note paths = valid_journal_paths [OF assms(5)]
  note before = prepared_before [OF assms(1,2,5,7)]
  have distinct: "distinct [path, s_target ?x, s_mtarget ?x]" "distinct (map BackupPath (Backups ?j))"
    using paths(1) by (auto simp: x journal_paths_def)
  have snaps: "snap_paths ?x = set (snapshot_paths (Before (ConfigArtifact ?j)))"
    by (simp add: snap_paths_def snapshot_paths_def x)
  have targets: "{path, s_target ?x, s_mtarget ?x} \<inter> snap_paths ?x = {}"
    using paths(1) by (auto simp: snaps x journal_paths_def)
  have backups: "{path, s_target ?x, s_mtarget ?x} \<inter> s_backups ?x = {}" "snap_paths ?x \<inter> s_backups ?x = {}"
    using named_apart [OF assms(6,5)] by (auto simp: snaps x)
  have free: "F q = None" if "q \<in> s_backups ?x" for q
    using named_in_spare [OF assms(6,4,5) art(7), of q] that assms(8) by (simp add: x)
  have refs: "K r = None" if "r \<in> fst ` set (TxKeyring tx)" for r
  proof -
    have "\<forall>m \<in> set (keyring_profiles p). K (Reference (MigCredential m)) = None"
      "TxKeyring tx = map (\<lambda>m. (Reference (MigCredential m), secret_of p (MigName m))) (keyring_profiles p)"
      using assms(1) unfolding prepared_def by blast+
    then show ?thesis using that by auto
  qed
  have "distinct (NewKeyringRefs ?j)" using assms(5) by (simp add: validate_journal_def)
  moreover have "situation_ok en ?x"
    unfolding situation_ok_def
  proof (intro conjI)
    show "distinct [s_path ?x, s_target ?x, s_mtarget ?x]" using distinct(1) by (simp add: x)
    show "{s_path ?x, s_target ?x, s_mtarget ?x} \<inter> (snap_paths ?x \<union> s_backups ?x) = {}"
      using targets backups(1) by (simp only: x(3) Int_Un_distrib Un_empty)
    show "\<forall>q \<in> snap_paths ?x \<union> s_backups ?x. s_files ?x q = None"
      using free before(3) by (auto simp only: x(1) Un_iff)
    show "\<forall>r \<in> s_refs ?x. s_keyring ?x r = None" using refs by (simp add: x art(8))
    show "fst ` set (s_saved ?x) \<subseteq> s_backups ?x" by (auto simp: x named_backups_def)
    show "fst ` set (s_secrets ?x) \<subseteq> s_refs ?x" by (simp add: x art(8))
    show "\<not> Existed (Before (s_marker ?x))" "absent_ok (Before (s_marker ?x))"
      using art(5) paths(3) by (simp_all add: x)
  qed (use backups(2) before(1) art assms(2,3) in \<open>simp_all add: x\<close>)
  moreover have "inj_on BackupPath (set (Backups ?j))" using distinct(2) by (simp add: distinct_map)
  moreover have "\<forall>a s. F (s_target ?x) = Some (PlainFile a s) \<longrightarrow> TxConfigBefore tx = s"
    using before(2) by (simp add: x art(1))
  ultimately show ?thesis
    using assms(5) art(6,8) by (simp add: enacts_def Let_def x named_backups_def)
qed

lemma prepared_beginnings:
  assumes "enacts en x tx" "x = situation_of en path F K tx" "prefix_law en path"
  shows "beginnings en x (TxJournal tx)"
  unfolding beginnings_def
proof (intro allI impI)
  fix data n j'
  assume a: "encode_journal en (TxJournal tx) = Some data" "decode_journal en (take n data) = Some j'"
    "validate_journal en j' (s_path x)"
  have p: "s_path x = path" "s_backups x = named_backups en path (TxJournal tx)"
    by (simp_all add: assms(2) situation_of_def Let_def)
  have "marshal_journal en (TxJournal tx) = Some data"
    using a(1) by (auto simp: encode_journal_def split: option.splits if_splits)
  note law = prefix_lawD [OF assms(3) this a(2) a(3) [unfolded p(1)]]
  have "BackupPath ` set (Backups j') \<subseteq> s_backups x"
    unfolding p(2) named_backups_def using a(1,2) a(3) [unfolded p(1)] by blast
  then show "journal_of en x j' \<and> Phase j' = PhasePrepared"
    using law assms(1) a(3) by (simp add: journal_of_def enacts_def Let_def)
qed

section \<open>Reading\<close>

abbreviation still :: "(string \<Rightarrow> node option) \<Rightarrow> (string \<Rightarrow> string option) \<Rightarrow> disk \<Rightarrow> bool" where
  "still F K \<equiv> \<lambda>d. d_files d = F \<and> d_keyring d = K"

lemma still_stops [simp]: "stops (still F K) (\<lambda>_. still F K)"
  by (rule stops_same)

lemma still_stops_conj: "stops (\<lambda>d. still F K d \<and> Q d) (\<lambda>_. still F K)"
  by (rule stops_same) simp

text \<open>A procedure that only looks: what it returns is a fact about the files and the keyring.\<close>

definition looks :: "(string \<Rightarrow> node option) \<Rightarrow> (string \<Rightarrow> string option) \<Rightarrow> 'a fsop \<Rightarrow> ('a \<Rightarrow> bool) \<Rightarrow> bool" where
  "looks F K m R \<longleftrightarrow> triple (still F K) m (\<lambda>r d. still F K d \<and> R r) (\<lambda>_. still F K)"

lemma looks_return: "R r \<Longrightarrow> looks F K (returnP r) R"
  by (auto simp: looks_def intro: triple_return)

lemma looks_failure [simp, intro]: "looks F K (failure m) R"
  by (simp add: looks_def triple_failure)

lemma looks_bind:
  assumes "looks F K m S" and "\<And>r. S r \<Longrightarrow> looks F K (k r) R"
  shows "looks F K (bindP m k) R"
  unfolding looks_def
proof (rule triple_bind [OF assms(1) [unfolded looks_def]])
  fix r
  show "triple (\<lambda>d. still F K d \<and> S r) (k r) (\<lambda>r d. still F K d \<and> R r) (\<lambda>_. still F K)"
    using assms(2) [of r] by (cases "S r") (simp_all add: looks_def triple_False)
qed

lemma looks_if: "looks F K m R \<Longrightarrow> looks F K n R \<Longrightarrow> looks F K (if b then m else n) R"
  by simp

lemma looks_weaken: "looks F K m S \<Longrightarrow> (\<And>r. S r \<Longrightarrow> R r) \<Longrightarrow> looks F K m R"
  by (auto simp: looks_def elim: triple_weaken)

lemma looks_read_regular:
  "looks F K (read_regular faults path)
     (\<lambda>r. case r of None \<Rightarrow> F path = None
        | Some s \<Rightarrow> \<exists>a. F path = Some (PlainFile a s) \<and> length s \<le> maxConfigBytes)"
  unfolding looks_def
  by (rule triple_weaken [OF triple_read_regular [OF uncounted_files still_stops]]) (auto split: option.splits)

lemma looks_path_exists: "looks F K (path_exists faults path) (\<lambda>b. b \<longleftrightarrow> F path \<noteq> None)"
  unfolding looks_def by (rule triple_weaken [OF triple_path_exists [OF uncounted_files still_stops]]) auto

lemma looks_load_config:
  "looks F K (load_config_file faults en path) (\<lambda>(c, found). read_config en (F path) c)"
  unfolding looks_def
  by (rule triple_weaken [OF triple_load_config_file [OF uncounted_files still_stops]])
    (auto simp: read_config_def split: if_splits)

lemma looks_keyring_get: "looks F K (keyring_get faults ref) (\<lambda>r. r = K ref)"
  unfolding looks_def by (rule triple_weaken [OF triple_keyring_get [OF uncounted_files still_stops]]) auto

lemma looks_load_marker: "looks F K (load_marker faults en path) (\<lambda>r. r = None \<longleftrightarrow> F path = None)"
  unfolding looks_def by (rule triple_weaken [OF triple_load_marker [OF uncounted_files still_stops]]) auto

lemma looks_verify_artifact:
  "looks F K (verify_artifact faults en path expected) (\<lambda>_. \<exists>a s. F path = Some (PlainFile a s) \<and> digest en s = expected)"
  unfolding looks_def by (rule triple_weaken [OF triple_verify_artifact [OF uncounted_files still_stops]]) auto

lemma looks_plain_call: "looks F K (plain_call faults) (\<lambda>_. True)"
  unfolding looks_def by (rule triple_weaken [OF triple_plain_call [OF uncounted_files still_stops]]) auto

lemma looks_file_at: "looks F K (file_at path) (\<lambda>node. node = F path)"
  unfolding looks_def by (rule triple_file_at) auto

lemma looks_each_do:
  assumes "\<And>y. looks F K (f y) (\<lambda>_. R y)"
  shows "looks F K (each_do f ys) (\<lambda>_. \<forall>y \<in> set ys. R y)"
proof (induction ys)
  case (Cons y ys)
  show ?case
    unfolding each_do.simps by (rule looks_bind [OF assms], rule looks_weaken [OF Cons]) auto
qed (simp add: looks_return)

lemma looks_read_source:
  "looks F K (read_source faults path)
     (\<lambda>r. case r of None \<Rightarrow> F path = None | Some s \<Rightarrow> \<exists>a. F path = Some (PlainFile a s))"
  unfolding read_source_def
  by (rule looks_bind [OF looks_plain_call], rule looks_bind [OF looks_file_at])
    (auto split: option.splits node.splits intro!: looks_return looks_bind [OF looks_plain_call])

lemma looks_verify_sources:
  "looks F K (verify_sources faults en p ss) (\<lambda>(datas, stamps). read_sources F p ss datas)"
proof (induction ss)
  case (Cons s ss)
  obtain kind loc where s: "s = (kind, loc)" by (cases s)
  show ?case
  proof (cases "map_of (SourcePaths p) loc")
    case (Some path)
    have rest: "looks F K (bindP (verify_sources faults en p ss) (\<lambda>(datas, stamps).
        returnP ((loc, data) # datas, stamp # stamps))) (\<lambda>(datas, stamps). read_sources F p ((k, loc) # ss) datas)"
      if "F path = Some (PlainFile a data)" for a data k and stamp :: source_stamp
      by (rule looks_bind [OF Cons]) (auto intro!: looks_return simp: read_sources_def s Some that)
    show ?thesis
      unfolding s verify_sources.simps Some
      by (auto split: option.splits intro!: looks_bind [OF looks_read_source] rest)
  qed (simp add: s)
qed (simp add: looks_return read_sources_def)

lemma looks_prepare_snapshot:
  "looks F K (prepare_snapshot faults en source recovery)
     (\<lambda>sd. F recovery = None \<and> read_snapshot en (F source) recovery sd)"
  unfolding prepare_snapshot_def
  by (auto intro!: looks_bind [OF looks_path_exists] looks_bind [OF looks_read_regular] looks_return
      simp: read_snapshot_def split: option.splits)

lemma looks_prepare_transaction:
  assumes "F (MigrationMarker paths) = None"
  shows "looks F K (prepare_transaction faults en paths (ConfigFile paths) destination p tool (Some txid) now)
     (prepared en paths p tool txid now F K)"
proof -
  have refs: "looks F K (refs_are_free faults kps) (\<lambda>_. \<forall>m \<in> set kps. K (Reference (MigCredential m)) = None)" for kps
    unfolding refs_are_free_def
    by (rule looks_each_do) (auto intro!: looks_bind [OF looks_keyring_get] looks_return)
  show ?thesis
    unfolding prepare_transaction_def Let_def
    apply (rule looks_if, simp)
    apply (rule looks_bind [OF looks_load_config], clarsimp split del: if_split)
    apply (rule looks_if, simp)
    apply (cases "validate_plan p"; simp split del: if_split)
    apply (rule looks_if, simp)
    apply (rule looks_bind [OF refs])
    subgoal for current kps
      apply (cases "marshal_config en (candidate_config current p)"; simp split del: if_split)
      apply (rule looks_if, simp)
      apply (simp add: verify_plan_sources_def split del: if_split)
      apply (rule looks_bind [where S = "\<lambda>(datas, stamps). read_sources F p (PlanSources p) datas"])
       apply (rule looks_if, simp, rule looks_verify_sources)
      apply (clarsimp split: option.split split del: if_split)
      apply (rule looks_if, simp)
      apply (rule looks_bind [OF looks_prepare_snapshot], clarsimp)
      apply (rule looks_bind [OF looks_prepare_snapshot], clarsimp)
      apply (rule looks_return)
      apply (auto simp: prepared_def validate_plan_def split: if_splits)
      done
    done
qed

section \<open>Applying a plan\<close>

text \<open>The transaction that \<open>ApplyMigrationWithOptions\<close> carries out on files \<open>F\<close> and keyring \<open>K\<close>.\<close>

definition carries_out ::
    "'e plan_env_scheme \<Rightarrow> config_paths \<Rightarrow> plan \<Rightarrow> string \<Rightarrow> string \<Rightarrow> int \<Rightarrow>
       (string \<Rightarrow> node option) \<Rightarrow> (string \<Rightarrow> string option) \<Rightarrow> transaction \<Rightarrow> situation \<Rightarrow> bool" where
  "carries_out en paths p tool txid now F K tx x \<longleftrightarrow>
     prepared en paths p tool txid now F K tx \<and> F (MigrationMarker paths) = None \<and>
     x = situation_of en (MigrationJournal paths) F K tx \<and> enacts en x tx"

definition apply_ready ::
    "'e plan_env_scheme \<Rightarrow> config_paths \<Rightarrow> plan \<Rightarrow> string \<Rightarrow> (string \<Rightarrow> node option) \<Rightarrow> bool" where
  "apply_ready en paths p txid F \<longleftrightarrow>
     F (MigrationJournal paths) = None \<and> digest_apart en (F (ConfigFile paths)) \<and>
     (\<forall>q \<in> spare_paths paths txid p. F q = None)"

definition apply_result ::
    "'e plan_env_scheme \<Rightarrow> config_paths \<Rightarrow> plan \<Rightarrow> string \<Rightarrow> string \<Rightarrow> int \<Rightarrow>
       (string \<Rightarrow> node option) \<Rightarrow> (string \<Rightarrow> string option) \<Rightarrow> migration_result \<Rightarrow> disk \<Rightarrow> bool" where
  "apply_result en paths p tool txid now F K r d \<longleftrightarrow>
     still F K d \<and> F (MigrationMarker paths) \<noteq> None \<or>
     (\<exists>tx x. carries_out en paths p tool txid now F K tx x \<and> committed x d \<and> r = TxResult tx)"

definition apply_stopped ::
    "'e plan_env_scheme \<Rightarrow> config_paths \<Rightarrow> plan \<Rightarrow> string \<Rightarrow> string \<Rightarrow> int \<Rightarrow>
       (string \<Rightarrow> node option) \<Rightarrow> (string \<Rightarrow> string option) \<Rightarrow> config_error \<Rightarrow> disk \<Rightarrow> bool" where
  "apply_stopped en paths p tool txid now F K e d \<longleftrightarrow>
     still F K d \<or> (\<exists>tx x. carries_out en paths p tool txid now F K tx x \<and> apply_error en x e d)"

lemma triple_looks_bind:
  assumes "looks F K m S" "\<And>d e. still F K d \<Longrightarrow> E e d" "\<And>r. S r \<Longrightarrow> triple (still F K) (k r) Q E"
  shows "triple (still F K) (bindP m k) Q E"
proof (rule triple_bind)
  show "triple (still F K) m (\<lambda>r d. still F K d \<and> S r) E"
    using assms(1,2) by (auto simp: looks_def elim: triple_weaken)
  show "triple (\<lambda>d. still F K d \<and> S r) (k r) Q E" for r
    using assms(3) [of r] by (cases "S r") (simp_all add: triple_False)
qed

lemma triple_run_prepared:
  assumes "prepared en paths p tool txid now F K tx" "F (MigrationMarker paths) = None"
    and "apply_ready en paths p txid F" "prefix_law en (MigrationJournal paths)" "journal_codec en"
  shows "triple (still F K) (run_transaction faults en hooks (MigrationJournal paths) (ConfigFile paths) tx)
    (apply_result en paths p tool txid now F K) (apply_stopped en paths p tool txid now F K)"
proof (cases "validate_journal en (TxJournal tx) (MigrationJournal paths)")
  case True
  let ?x = "situation_of en (MigrationJournal paths) F K tx"
  have e: "enacts en ?x tx"
    using assms(3) by (intro prepared_enacts [OF assms(1,2) _ refl True assms(4)]) (auto simp: apply_ready_def)
  have x: "s_path ?x = MigrationJournal paths" "s_target ?x = ConfigFile paths" "s_files ?x = F" "s_keyring ?x = K"
    using prepared_artifacts(1) [OF assms(1,2)] by (simp_all add: situation_of_def Let_def)
  have c: "carries_out en paths p tool txid now F K tx ?x"
    using assms(1,2) e by (simp add: carries_out_def)
  note run = triple_run_transaction [OF e assms(5) prepared_beginnings [OF e refl assms(4)], unfolded x]
  show ?thesis
    by (rule triple_weaken [OF run]) (use c in \<open>auto simp: apply_result_def apply_stopped_def\<close>)
next
  case False
  have s: "stops (still F K) (apply_stopped en paths p tool txid now F K)"
    by (auto simp: stops_def apply_stopped_def)
  have "triple (still F K) (begin_journal faults en (MigrationJournal paths) (TxJournal tx)) (\<lambda>_ _. False)
      (apply_stopped en paths p tool txid now F K)"
    using False by (simp add: begin_journal_def triple_failure [OF s])
  then show ?thesis
    unfolding run_transaction_def by (rule triple_bind) (rule triple_False)
qed

lemma looks_recover_absent:
  assumes "F (MigrationJournal paths) = None"
  shows "looks F K (recover_if_present faults en paths) (\<lambda>_. True)"
proof -
  have o: "looks F K (inspect_orphans faults paths) (\<lambda>_. True)"
    unfolding inspect_orphans_def
    by (rule looks_weaken [OF looks_each_do [where R = "\<lambda>_. True"]])
      (auto intro!: looks_bind [OF looks_path_exists] looks_return)
  show ?thesis
    unfolding recover_if_present_def
    by (rule looks_bind [OF looks_path_exists]) (simp add: assms o)
qed

lemma triple_apply_locked:
  assumes "apply_ready en paths p txid F" "prefix_law en (MigrationJournal paths)" "journal_codec en"
  shows "triple (still F K) (apply_locked faults en hooks paths (ConfigFile paths) destination p tool (Some txid) now)
    (apply_result en paths p tool txid now F K) (apply_stopped en paths p tool txid now F K)"
proof -
  let ?Q = "apply_result en paths p tool txid now F K" and ?E = "apply_stopped en paths p tool txid now F K"
  have e: "still F K d \<Longrightarrow> ?E e d" for d e by (simp add: apply_stopped_def)
  have "F (MigrationJournal paths) = None" using assms(1) by (simp add: apply_ready_def)
  note recover = looks_recover_absent [of F paths, OF this]
  show ?thesis
    unfolding apply_locked_def
    apply (rule triple_looks_bind [OF recover e], assumption)
    apply (rule triple_looks_bind [OF looks_load_marker e], assumption)
    subgoal for _ found
    proof (cases found)
      case None
      assume m: "found = None \<longleftrightarrow> F (MigrationMarker paths) = None"
      show ?thesis
        unfolding None option.case
        by (rule triple_looks_bind [OF looks_prepare_transaction e])
          (use m None in \<open>auto intro: triple_run_prepared assms\<close>)
    next
      case (Some m)
      assume m: "found = None \<longleftrightarrow> F (MigrationMarker paths) = None"
      have s: "stops (still F K) ?E" by (auto simp: stops_def e)
      show ?thesis
        unfolding Some option.case
        by (rule triple_looks_bind [OF looks_verify_artifact e])
          (use m Some in \<open>auto simp: apply_result_def intro!: triple_return triple_failure [OF s]\<close>)
    qed
    done
qed

section \<open>Under the lock\<close>

text \<open>Taking the lock may create its file.\<close>

definition lock_files :: "string \<Rightarrow> (string \<Rightarrow> node option) \<Rightarrow> (string \<Rightarrow> node option) \<Rightarrow> bool" where
  "lock_files path F f \<longleftrightarrow>
     (\<exists>s. F (lock_path path) = Some (PlainFile Private s)) \<and> f = F \<or>
     F (lock_path path) = None \<and> f = F(lock_path path := Some (PlainFile Private ''''))"

lemma lock_files_held: "lock_files path F f \<Longrightarrow> \<exists>s. f (lock_path path) = Some (PlainFile Private s)"
  by (auto simp: lock_files_def)

lemma triple_with_lock_exact:
  assumes E0: "\<And>d e. still F K d \<Longrightarrow> E e d" and E: "\<And>f d e. lock_files path F f \<Longrightarrow> still f K d \<Longrightarrow> E e d"
    and m: "\<And>f. lock_files path F f \<Longrightarrow> triple (still f K) m Q E"
    and "\<And>x. uncounted (Q x)" "\<And>x d. Q x d \<Longrightarrow> E Crashed d"
    and "\<And>e. uncounted (E e)" "\<And>e d. E e d \<Longrightarrow> E Crashed d"
  shows "triple (still F K) (with_lock faults path m) Q E"
proof -
  let ?L = "\<lambda>d. lock_files path F (d_files d) \<and> d_keyring d = K"
  have body: "triple ?L m Q E"
  proof (rule tripleI)
    fix d r d' assume d: "?L d" "m d = (Inr r, d')"
    show "Q r d'" by (rule triple_resultD [OF m [of "d_files d"] _ d(2)]) (use d(1) in simp_all)
  next
    fix d e d' assume d: "?L d" "m d = (Inl e, d')"
    show "E e d'" by (rule triple_errorD [OF m [of "d_files d"] _ d(2)]) (use d(1) in simp_all)
  qed
  have sL: "stops ?L E" by (rule stopsI) (rule E, simp_all)+
  have sF: "stops (still F K) E" by (rule stopsI) (rule E0, simp)+
  have uL: "uncounted ?L" by (simp add: uncounted_def)
  show ?thesis
    by (rule triple_with_lock_from [OF uncounted_files sF uL sL _ _ body assms(4-7)])
      (auto simp: lock_files_def put_file_def)
qed

lemma uncounted_disj: "uncounted P \<Longrightarrow> uncounted Q \<Longrightarrow> uncounted (\<lambda>d. P d \<or> Q d)"
  by (simp add: uncounted_def)

lemma uncounted_ex: "(\<And>f. uncounted (P f)) \<Longrightarrow> uncounted (\<lambda>d. \<exists>f. P f d)"
  by (simp add: uncounted_def)

definition lock_apart :: "config_paths \<Rightarrow> string \<Rightarrow> plan \<Rightarrow> bool" where
  "lock_apart paths txid p \<longleftrightarrow>
     lock_path (ConfigFile paths) \<noteq> MigrationJournal paths \<and> lock_path (ConfigFile paths) \<notin> spare_paths paths txid p"

lemma apply_ready_locked:
  assumes "apply_ready en paths p txid F" "lock_apart paths txid p" "lock_files (ConfigFile paths) F f"
  shows "apply_ready en paths p txid f"
  using assms by (auto simp: apply_ready_def lock_apart_def lock_files_def)

lemma uncounted_apply [simp]:
  "uncounted (apply_error en x e)"
  "uncounted (apply_result en paths p tool txid now F K r)"
  "uncounted (apply_stopped en paths p tool txid now F K e)"
proof -
  show e: "uncounted (apply_error en x e)" for x e
    using uncounted_interrupted(2) [of en x] uncounted_cells(2) [of x] by (simp add: uncounted_def apply_error_def)
  show "uncounted (apply_result en paths p tool txid now F K r)"
    using uncounted_cells(3) by (simp add: uncounted_def apply_result_def)
  show "uncounted (apply_stopped en paths p tool txid now F K e)"
    using e by (simp add: uncounted_def apply_stopped_def)
qed

lemma apply_crash:
  "apply_result en paths p tool txid now F K r d \<Longrightarrow> apply_stopped en paths p tool txid now F K Crashed d"
  "apply_stopped en paths p tool txid now F K e d \<Longrightarrow> apply_stopped en paths p tool txid now F K Crashed d"
  by (auto simp: apply_result_def apply_stopped_def apply_error_def interrupted_def)

text \<open>\<open>ApplyMigrationWithOptions\<close> as a whole.\<close>

lemma triple_apply_migration:
  assumes "apply_ready en paths p txid F" "prefix_law en (MigrationJournal paths)" "journal_codec en"
    and "lock_apart paths txid p" "normalize_paths paths0 = paths"
    and "resolved_path en st = Some (ConfigFile paths)" "resolved_journal en st (ConfigFile paths) = Some journal"
  shows "triple (still F K) (apply_migration faults en hooks paths0 st destination p tool (Some txid) now)
    (\<lambda>r d. \<exists>f. lock_files (ConfigFile paths) F f \<and> apply_result en paths p tool txid now f K r d)
    (\<lambda>e d. still F K d \<or> (\<exists>f. lock_files (ConfigFile paths) F f \<and> apply_stopped en paths p tool txid now f K e d))"
    (is "triple _ _ ?Q ?E")
proof -
  have E0: "?E e d" if "still F K d" for d e using that by simp
  have E: "?E e d" if "lock_files (ConfigFile paths) F f" "still f K d" for f d e
    using that by (auto simp: apply_stopped_def)
  have stop: "triple (still F K) (failure m) ?Q ?E" for m
    by (rule triple_failure) (simp add: stops_def)
  have locked: "triple (still f K)
      (apply_locked faults en hooks paths (ConfigFile paths) destination p tool (Some txid) now) ?Q ?E"
    if "lock_files (ConfigFile paths) F f" for f
    by (rule triple_weaken [OF triple_apply_locked [OF apply_ready_locked [OF assms(1,4) that] assms(2,3)]])
      (use that in auto)
  have uQ: "uncounted (?Q r)" for r
    by (intro uncounted_ex uncounted_conj uncounted_const uncounted_apply)
  have uE: "uncounted (?E e)" for e
    by (intro uncounted_disj uncounted_ex uncounted_conj uncounted_const uncounted_apply uncounted_files)
  have lock: "triple (still F K) (with_mutation_lock faults en st (\<lambda>lpath _.
      apply_locked faults en hooks paths lpath destination p tool (Some txid) now)) ?Q ?E"
    unfolding with_mutation_lock_def assms(6,7) option.case
    by (rule triple_with_lock_exact [OF E0 E locked uQ _ uE]) (auto dest: apply_crash)
  have check: "looks F K (if found \<noteq> None then returnP ([], [])
       else if \<not> unchanged_since en destination p then failure ''migration destination changed after preview''
       else if validate_plan p = None then failure ''migration plan is not ready''
       else verify_plan_sources faults en p) (\<lambda>_. True)" for found :: "marker option"
    by (auto simp: verify_plan_sources_def intro!: looks_return looks_weaken [OF looks_verify_sources])
  show ?thesis
    unfolding apply_migration_def assms(5) Let_def
    apply (rule triple_if, rule stop)
    apply (rule triple_if, rule stop)
    apply (rule triple_if, rule stop)
    apply (rule triple_if, rule stop)
    apply (rule triple_looks_bind [OF looks_load_marker E0], assumption)
    apply (rule triple_looks_bind [OF check E0], assumption)
    apply (rule lock)
    done
qed

section \<open>Recovering\<close>

text \<open>The lock file is there and no file of the transaction.\<close>

definition lock_kept :: "config_paths \<Rightarrow> situation \<Rightarrow> bool" where
  "lock_kept paths x \<longleftrightarrow>
     lock_path (ConfigFile paths) \<notin> touched x \<and> (\<exists>s. s_files x (lock_path (ConfigFile paths)) = Some (PlainFile Private s))"

lemma carries_out_lock:
  assumes "carries_out en paths p tool txid now f K tx x" "lock_files (ConfigFile paths) F f" "lock_apart paths txid p"
    and "apply_ready en paths p txid F"
  shows "lock_kept paths x" "s_path x = MigrationJournal paths" "s_target x = ConfigFile paths" "situation_ok en x"
proof -
  let ?l = "lock_path (ConfigFile paths)"
  have c: "prepared en paths p tool txid now f K tx" "f (MigrationMarker paths) = None"
    "x = situation_of en (MigrationJournal paths) f K tx" "enacts en x tx"
    using assms(1) unfolding carries_out_def by blast+
  note art = prepared_artifacts [OF c(1,2)]
  show sx: "s_path x = MigrationJournal paths" "s_target x = ConfigFile paths" "situation_ok en x"
    using c(3) art(1) enacts_ok [OF c(4)] by (simp_all add: situation_of_def Let_def)
  have sf: "s_files x = f" "s_mtarget x = MigrationMarker paths"
    using c(3) art(2) by (simp_all add: situation_of_def Let_def)
  obtain s where s: "f ?l = Some (PlainFile Private s)" using lock_files_held [OF assms(2)] by blast
  have "f q = None" if "q \<in> snap_paths x \<union> s_backups x" for q
    using sx(3) that sf by (simp add: situation_ok_def)
  then have "?l \<notin> snap_paths x \<union> s_backups x" using s by auto
  moreover have "?l \<noteq> MigrationJournal paths" using assms(3) by (simp add: lock_apart_def)
  moreover have "?l \<noteq> MigrationMarker paths" using s c(2) by auto
  ultimately have "?l \<notin> touched x" by (simp add: touched_def sx sf)
  then show "lock_kept paths x" using s sf by (auto simp: lock_kept_def)
qed

lemma frame_lock: "lock_kept paths x \<Longrightarrow> frame x d \<Longrightarrow> \<exists>s. d_files d (lock_path (ConfigFile paths)) = Some (PlainFile Private s)"
  by (auto simp: lock_kept_def frame_def)

lemma resumable_cells: "resumable en x d \<Longrightarrow> frame x d \<and> d_files d (s_path x) \<noteq> None"
  by (auto simp: resumable_def pending_def verified_def journal_at_def split: if_splits)

lemma other_cells:
  "torn en x d \<Longrightarrow> frame x d \<and> d_files d (s_path x) \<noteq> None"
  "situation_ok en x \<Longrightarrow> restored x d \<Longrightarrow> d_files d (s_path x) = None"
  "committed x d \<Longrightarrow> d_files d (s_path x) = None"
proof -
  have "\<And>p. p \<notin> touched x \<Longrightarrow> p \<noteq> s_path x" using touched_paths(1) by metis
  then show "torn en x d \<Longrightarrow> frame x d \<and> d_files d (s_path x) \<noteq> None"
    by (auto simp: torn_def frame_def)
  show "situation_ok en x \<Longrightarrow> restored x d \<Longrightarrow> d_files d (s_path x) = None"
    "committed x d \<Longrightarrow> d_files d (s_path x) = None"
    by (auto simp: restored_def committed_def situation_ok_def)
qed

lemma resolved_self: "file_path path \<Longrightarrow> resolved_path en \<lparr>StorePath = path, StoreJournal = journal\<rparr> = Some path"
  by (auto simp: file_path_def resolved_path_def path_abs_def path_is_abs_def Let_def)

lemma triple_journal_missing:
  assumes "uncounted P" "\<And>d. P d \<Longrightarrow> E Crashed d"
  shows "triple P (journal_missing faults path) (\<lambda>m d. P d \<and> (m \<longrightarrow> d_files d path = None)) E"
  unfolding journal_missing_def
  by (rule triple_on_failure [OF triple_path_exists [OF assms(1), where E = "\<lambda>_. P"]])
    (use assms(2) in \<open>auto simp: stops_def intro!: triple_return\<close>)

lemma triple_recover_locked:
  assumes "uncounted P" "\<And>d. P d \<Longrightarrow> d_files d (MigrationJournal paths) \<noteq> None"
    and "\<And>d. P d \<Longrightarrow> \<exists>s. d_files d (lock_path (ConfigFile paths)) = Some (PlainFile Private s)"
    and "normalize_paths paths0 = paths" "file_path (ConfigFile paths)" "path_is_abs (MigrationJournal paths)"
    and m: "triple P (recover_pending faults en (MigrationJournal paths)) (\<lambda>_. Q) (\<lambda>_. E)"
    and "uncounted Q" "uncounted E" "\<And>d. P d \<Longrightarrow> E d" "\<And>d. Q d \<Longrightarrow> E d"
  shows "triple P (recover_migration faults en paths0) (\<lambda>_. Q) (\<lambda>_. E)"
proof -
  let ?j = "MigrationJournal paths" and ?E = "\<lambda>(_ :: config_error). E"
  have s: "stops P ?E" by (rule stops_same) (rule assms(10))
  have there: "triple P (path_exists faults ?j) (\<lambda>b d. P d \<and> b) ?E"
    by (rule triple_weaken [OF triple_path_exists [OF assms(1) s]]) (use assms(2) in auto)
  have look: "triple P (journal_missing faults ?j) (\<lambda>m d. P d \<and> \<not> m) ?E"
    by (rule triple_weaken [OF triple_journal_missing [OF assms(1), where E = ?E]]) (use assms(10) in \<open>auto dest: assms(2)\<close>)
  have body: "triple P (recover_if_present faults en paths) (\<lambda>_. Q) ?E"
    unfolding recover_if_present_def
    apply (rule triple_bind [OF there])
    subgoal for b
      by (cases b) (auto simp: triple_False intro!: triple_weaken [OF triple_bind [OF m triple_return [where Q = "\<lambda>_. Q"]]])
    done
  have journal: "resolved_journal en \<lparr>StorePath = ConfigFile paths, StoreJournal = ?j\<rparr> path \<noteq> None" for path
    using assms(6) by (auto simp: resolved_journal_def path_abs_def path_is_abs_def)
  have "triple P (with_lock faults (ConfigFile paths) (recover_if_present faults en paths)) (\<lambda>_. Q) ?E"
    by (rule triple_with_lock_from [OF assms(1) s assms(1) s _ _ body assms(8) assms(11) assms(9)])
      (use assms(3) in fastforce)+
  then have locked: "triple P (with_mutation_lock faults en \<lparr>StorePath = ConfigFile paths, StoreJournal = ?j\<rparr>
      (\<lambda>_ _. recover_if_present faults en paths)) (\<lambda>_. Q) ?E"
    using journal [of "ConfigFile paths"] by (auto simp: with_mutation_lock_def resolved_self [OF assms(5)])
  show ?thesis
    unfolding recover_migration_def assms(4) Let_def
    apply (rule triple_bind [OF look])
    subgoal for b
      using locked by (cases b) (auto simp: triple_False elim!: triple_weaken)
    done
qed

lemma triple_recover_none:
  assumes "uncounted P" "\<And>d. P d \<Longrightarrow> d_files d (MigrationJournal paths) = None" "normalize_paths paths0 = paths"
    and "file_path (ConfigFile paths)"
    and "\<And>d. P d \<Longrightarrow> d_files d (lock_path (ConfigFile paths)) = None \<Longrightarrow>
      P (put_file (lock_path (ConfigFile paths)) (Some (PlainFile Private '''')) d)"
  shows "triple P (recover_migration faults en paths0) (\<lambda>_. P) (\<lambda>_. P)"
proof -
  have s: "stops P (\<lambda>_. P)" by (rule stops_same)
  have sb: "stops (\<lambda>d. P d \<and> Q d) (\<lambda>_. P)" for Q by (rule stops_same) simp
  have step: "triple P (bindP (path_exists faults q) (\<lambda>there.
      if there then failure ''migration recovery required: orphan recovery state exists'' else returnP ()))
      (\<lambda>_. P) (\<lambda>_. P)" for q
    by (rule triple_bind [OF triple_path_exists [OF assms(1) s]]) (auto intro!: triple_failure sb triple_return)
  have orphans: "triple P (inspect_orphans faults paths) (\<lambda>_. P) (\<lambda>_. P)"
    unfolding inspect_orphans_def by (rule triple_each_do [where I = "\<lambda>_. P"]) (rule step)
  have absent: "triple P (recover_if_present faults en paths) (\<lambda>_. P) (\<lambda>_. P)"
    unfolding recover_if_present_def
    apply (rule triple_bind [OF triple_path_exists [OF assms(1) s]])
    subgoal for b
      using assms(2) orphans by (cases b) (auto elim!: triple_weaken intro: triple_weaken [OF triple_False])
    done
  have "triple P (with_lock faults (ConfigFile paths) (recover_if_present faults en paths)) (\<lambda>_. P) (\<lambda>_. P)"
    by (rule triple_with_lock_from [OF assms(1) s assms(1) s _ _ absent]) (use assms(1,5) in auto)
  then have locked: "triple P (with_mutation_lock faults en
      \<lparr>StorePath = ConfigFile paths, StoreJournal = MigrationJournal paths\<rparr>
      (\<lambda>_ _. recover_if_present faults en paths)) (\<lambda>_. P) (\<lambda>_. P)"
    unfolding with_mutation_lock_def resolved_self [OF assms(4)]
    by (auto split: option.splits intro: triple_failure [OF s])
  show ?thesis
    unfolding recover_migration_def assms(3) Let_def
    apply (rule triple_bind [OF triple_journal_missing [OF assms(1)]], assumption)
    subgoal for b
      using locked orphans by (cases b) (auto elim!: triple_weaken)
    done
qed

lemma triple_torn_recover: "triple (torn en x) (recover_pending faults en (s_path x)) (\<lambda>_. torn en x) (\<lambda>_. torn en x)"
proof -
  let ?E = "\<lambda>(_ :: config_error). torn en x"
  have s: "stops (torn en x) ?E" by (rule stops_same)
  have sb: "stops (\<lambda>d. torn en x d \<and> Q d) ?E" for Q by (rule stops_same) simp
  have l: "triple (torn en x) (load_journal faults en (s_path x)) (\<lambda>_ _. False) ?E"
    unfolding load_journal_def
    apply (rule triple_if, rule triple_failure [OF s])
    apply (rule triple_bind [OF triple_read_private [OF uncounted_interrupted(1) s]])
    subgoal for data
    proof (cases "\<exists>j. decode_journal en data = Some j \<and> validate_journal en j (s_path x)")
      case True
      then show ?thesis by (intro triple_weaken [OF triple_False]) (auto simp: torn_def)
    next
      case False
      then show ?thesis by (auto split: option.splits intro!: triple_failure sb)
    qed
    done
  show ?thesis
    unfolding recover_pending_def by (rule triple_bind [OF l triple_False])
qed

text \<open>\<open>RecoverPendingMigration\<close> on what a migration may leave.\<close>

definition recoverable :: "config_paths \<Rightarrow> 'e config_env_scheme \<Rightarrow> situation \<Rightarrow> bool" where
  "recoverable paths en x \<longleftrightarrow>
     situation_ok en x \<and> lock_kept paths x \<and> s_path x = MigrationJournal paths \<and>
     file_path (ConfigFile paths) \<and> path_is_abs (MigrationJournal paths)"

lemma triple_recover_resumable:
  assumes "recoverable paths en x" "normalize_paths paths0 = paths"
  shows "triple (resumable en x) (recover_migration faults en paths0)
    (\<lambda>_ d. restored x d \<or> committed x d) (\<lambda>_. interrupted en x)"
proof -
  have r: "situation_ok en x" "lock_kept paths x" "s_path x = MigrationJournal paths"
    "file_path (ConfigFile paths)" "path_is_abs (MigrationJournal paths)"
    using assms(1) by (simp_all add: recoverable_def)
  have pending: "triple (resumable en x) (recover_pending faults en (MigrationJournal paths))
      (\<lambda>_ d. restored x d \<or> committed x d) (\<lambda>_. interrupted en x)"
    by (rule triple_weaken [OF triple_recover_pending [OF r(1), unfolded r(3)]])
      (auto simp: interrupted_def split: if_splits)
  have there: "d_files d (MigrationJournal paths) \<noteq> None"
    "\<exists>s. d_files d (lock_path (ConfigFile paths)) = Some (PlainFile Private s)" if "resumable en x d" for d
    using resumable_cells [OF that] frame_lock [OF r(2)] r(3) by auto
  have u: "uncounted (\<lambda>d. restored x d \<or> committed x d)" by (intro uncounted_disj uncounted_cells)
  show ?thesis
    by (rule triple_recover_locked [OF uncounted_resumable there assms(2) r(4,5) pending u uncounted_interrupted(2)])
      (auto simp: interrupted_def)
qed

lemma triple_recover_interrupted:
  assumes "recoverable paths en x" "normalize_paths paths0 = paths"
  shows "triple (interrupted en x) (recover_migration faults en paths0) (\<lambda>_. interrupted en x) (\<lambda>_. interrupted en x)"
proof -
  note r = assms(1) [unfolded recoverable_def]
  let ?T = "\<lambda>P. triple P (recover_migration faults en paths0) (\<lambda>_. interrupted en x) (\<lambda>_. interrupted en x)"
  have t: "triple (torn en x) (recover_pending faults en (MigrationJournal paths)) (\<lambda>_. torn en x) (\<lambda>_. torn en x)"
    using triple_torn_recover [of en x faults] r by simp
  have there: "d_files d (MigrationJournal paths) \<noteq> None"
    "\<exists>s. d_files d (lock_path (ConfigFile paths)) = Some (PlainFile Private s)" if "torn en x d" for d
    using other_cells(1) [OF that] frame_lock [of paths x] r by auto
  have "triple (torn en x) (recover_migration faults en paths0) (\<lambda>_. torn en x) (\<lambda>_. torn en x)"
    by (rule triple_recover_locked [OF uncounted_interrupted(1) there assms(2) _ _ t])
      (use r in auto)
  then have torn: "?T (torn en x)" by (rule triple_weaken) (simp_all add: interrupted_def)
  have resumable: "?T (resumable en x)"
    by (rule triple_weaken [OF triple_recover_resumable [OF assms]]) (auto simp: interrupted_def)
  have gone: "restored x d \<Longrightarrow> d_files d (MigrationJournal paths) = None"
    "committed x d \<Longrightarrow> d_files d (MigrationJournal paths) = None" for d
    using other_cells(2) [of en x d] other_cells(3) [of x d] r by auto
  have held: "restored x d \<Longrightarrow> d_files d (lock_path (ConfigFile paths)) \<noteq> None"
    "committed x d \<Longrightarrow> d_files d (lock_path (ConfigFile paths)) \<noteq> None" for d
    using r frame_lock [of paths x d] by (auto simp: restored_def committed_def lock_kept_def touched_def)
  have restored: "?T (restored x)"
    by (rule triple_weaken [OF triple_recover_none [OF uncounted_cells(2) gone(1) assms(2)]])
      (use r held in \<open>auto simp: interrupted_def\<close>)
  have committed: "?T (committed x)"
    by (rule triple_weaken [OF triple_recover_none [OF uncounted_cells(3) gone(2) assms(2)]])
      (use r held in \<open>auto simp: interrupted_def\<close>)
  show ?thesis
    using torn resumable restored committed unfolding triple_def by (auto simp: interrupted_def [of en x])
qed

section \<open>Properties\<close>

text \<open>What a run of \<open>ApplyMigrationWithOptions\<close> relies on.\<close>

definition migration_ready ::
    "'e plan_env_scheme \<Rightarrow> config_paths \<Rightarrow> store \<Rightarrow> string \<Rightarrow> plan \<Rightarrow> disk \<Rightarrow> bool" where
  "migration_ready en paths st txid p d \<longleftrightarrow>
     journal_codec en \<and> prefix_law en (MigrationJournal paths) \<and>
     file_path (ConfigFile paths) \<and> path_is_abs (MigrationJournal paths) \<and>
     resolved_path en st = Some (ConfigFile paths) \<and> resolved_journal en st (ConfigFile paths) \<noteq> None \<and>
     lock_apart paths txid p \<and> apply_ready en paths p txid (d_files d)"

text \<open>A migration that was carried out from disk \<open>d\<close>, with its situation.\<close>

definition migration_from ::
    "'e plan_env_scheme \<Rightarrow> config_paths \<Rightarrow> plan \<Rightarrow> string \<Rightarrow> string \<Rightarrow> int \<Rightarrow> disk \<Rightarrow>
       transaction \<Rightarrow> situation \<Rightarrow> bool" where
  "migration_from en paths p tool txid now d tx x \<longleftrightarrow>
     (\<exists>f. lock_files (ConfigFile paths) (d_files d) f \<and> carries_out en paths p tool txid now f (d_keyring d) tx x)"

text \<open>Nothing but the lock file is new.\<close>

definition only_locked :: "config_paths \<Rightarrow> disk \<Rightarrow> disk \<Rightarrow> bool" where
  "only_locked paths d d' \<longleftrightarrow>
     d_keyring d' = d_keyring d \<and> (d_files d' = d_files d \<or> lock_files (ConfigFile paths) (d_files d) (d_files d'))"

lemma apply_outcome_aux:
  assumes "apply_migration faults en hooks paths0 st destination p tool (Some txid) now d = (r, d')"
    and "normalize_paths paths0 = paths" "migration_ready en paths st txid p d"
  shows "case r of
      Inr result \<Rightarrow> only_locked paths d d' \<and> d_files d' (MigrationMarker paths) \<noteq> None \<or>
        (\<exists>tx x. migration_from en paths p tool txid now d tx x \<and> committed x d' \<and> result = TxResult tx)
    | Inl e \<Rightarrow> only_locked paths d d' \<or>
        (\<exists>tx x. migration_from en paths p tool txid now d tx x \<and> apply_error en x e d')"
proof -
  obtain journal where ok: "apply_ready en paths p txid (d_files d)" "prefix_law en (MigrationJournal paths)"
    "journal_codec en" "lock_apart paths txid p" "resolved_path en st = Some (ConfigFile paths)"
    "resolved_journal en st (ConfigFile paths) = Some journal"
    using assms(3) by (auto simp: migration_ready_def)
  note t = triple_apply_migration [OF ok(1-4) assms(2) ok(5,6), where K = "d_keyring d" and faults = faults
      and hooks = hooks and destination = destination and tool = tool and now = now]
  show ?thesis
  proof (cases r)
    case (Inr result)
    obtain f where f: "lock_files (ConfigFile paths) (d_files d) f"
      "apply_result en paths p tool txid now f (d_keyring d) result d'"
      using triple_resultD [OF t _ assms(1) [unfolded Inr]] by auto
    then show ?thesis
      unfolding Inr sum.case apply_result_def only_locked_def migration_from_def by blast
  next
    case (Inl e)
    have "still (d_files d) (d_keyring d) d' \<or> (\<exists>f. lock_files (ConfigFile paths) (d_files d) f \<and>
        apply_stopped en paths p tool txid now f (d_keyring d) e d')"
      using triple_errorD [OF t _ assms(1) [unfolded Inl]] by auto
    then show ?thesis
      unfolding Inl sum.case apply_stopped_def only_locked_def migration_from_def by blast
  qed
qed

text \<open>C23: A migration happens as a whole or not at all, whatever system call fails or ends the process,
  from the first file it writes to the last.  When it returns a result either an earlier migration had
  completed and nothing changed, or the configuration, the marker, the private backups of the sources and
  the keyring entries are in place, journal and snapshot are gone and every other file is as it was.
  When it reports that the migration failed the configuration has its earlier contents and all else is
  as before.  In any other case the disk holds what a recovery starts from, the journal was cut short
  while it was created, or the transaction is taken back or complete already.\<close>

theorem migration_all_or_nothing:
  assumes "apply_migration faults en hooks paths0 st destination p tool (Some txid) now d = (r, d')"
    and "normalize_paths paths0 = paths" "migration_ready en paths st txid p d"
  shows "case r of
      Inr result \<Rightarrow> only_locked paths d d' \<and> d_files d' (MigrationMarker paths) \<noteq> None \<or>
        (\<exists>tx x. migration_from en paths p tool txid now d tx x \<and> committed x d' \<and> result = TxResult tx)
    | Inl (Failure m) \<Rightarrow> only_locked paths d d' \<or>
        (\<exists>tx x. migration_from en paths p tool txid now d tx x \<and>
           (if m = ''migration failed'' then restored x d' else interrupted en x d'))
    | Inl _ \<Rightarrow> only_locked paths d d' \<or>
        (\<exists>tx x. migration_from en paths p tool txid now d tx x \<and> interrupted en x d')"
proof (cases r)
  case (Inl e)
  note out = apply_outcome_aux [OF assms, unfolded Inl sum.case apply_error_def]
  show ?thesis
  proof (cases e)
    case (Failure m)
    show ?thesis using out unfolding Inl Failure by (cases "m = ''migration failed''") auto
  qed (use out in \<open>auto simp: Inl\<close>)
qed (use apply_outcome_aux [OF assms] in auto)

inductive recoveries :: "'e plan_env_scheme \<Rightarrow> config_paths \<Rightarrow> disk \<Rightarrow> disk \<Rightarrow> bool"
  for en :: "'e plan_env_scheme" and paths0 :: config_paths where
  none: "recoveries en paths0 d d"
| more: "recoveries en paths0 d d1 \<Longrightarrow> recover_migration faults en paths0 d1 = (r, d2) \<Longrightarrow> recoveries en paths0 d d2"

lemma recoveries_keep:
  assumes "recoveries en paths0 d d'" "I d"
    and "\<And>faults. triple I (recover_migration faults en paths0) (\<lambda>_. I) (\<lambda>_. I)"
  shows "I d'"
  using assms(1,2)
proof induction
  case (more d d1 faults r d2)
  then show ?case
    by (cases r) (use triple_errorD [OF assms(3)] triple_resultD [OF assms(3)] in blast)+
qed

lemma migration_recoverable:
  assumes "migration_from en paths p tool txid now d tx x" "migration_ready en paths st txid p d"
  shows "recoverable paths en x"
proof -
  obtain f where f: "lock_files (ConfigFile paths) (d_files d) f"
    "carries_out en paths p tool txid now f (d_keyring d) tx x"
    using assms(1) by (auto simp: migration_from_def)
  have "lock_apart paths txid p" "apply_ready en paths p txid (d_files d)"
    using assms(2) by (simp_all add: migration_ready_def)
  from carries_out_lock [OF f(2,1) this] show ?thesis
    using assms(2) by (simp add: recoverable_def migration_ready_def)
qed

text \<open>C24: A migration that was interrupted, and then any number of recoveries that are interrupted in turn,
  never leave the disk in a state between the earlier one and the migrated one: at every moment all is as
  before, the transaction is complete, or a journal describes how to take it back or to complete it (or
  is the beginning of one, and nothing else has changed).\<close>

theorem migration_crash_safe:
  assumes "apply_migration faults en hooks paths0 st destination p tool (Some txid) now d = (r, d1)"
    and "recoveries en paths0 d1 d2"
    and "normalize_paths paths0 = paths" "migration_ready en paths st txid p d"
  shows "only_locked paths d d2 \<or>
    (\<exists>tx x. migration_from en paths p tool txid now d tx x \<and> interrupted en x d2)"
proof -
  have "only_locked paths d d1 \<or> (\<exists>tx x. migration_from en paths p tool txid now d tx x \<and> interrupted en x d1)"
    using apply_outcome_aux [OF assms(1,3,4)]
    by (cases r) (auto simp: apply_error_def interrupted_def)
  then show ?thesis
  proof
    assume "only_locked paths d d1"
    moreover have "triple (only_locked paths d) (recover_migration faults en paths0)
        (\<lambda>_. only_locked paths d) (\<lambda>_. only_locked paths d)" for faults
    proof (rule triple_recover_none [OF _ _ assms(3)])
      show "file_path (ConfigFile paths)" using assms(4) by (simp add: migration_ready_def)
      show "only_locked paths d d' \<Longrightarrow> d_files d' (lock_path (ConfigFile paths)) = None \<Longrightarrow>
          only_locked paths d (put_file (lock_path (ConfigFile paths)) (Some (PlainFile Private '''')) d')" for d'
        by (auto simp: only_locked_def lock_files_def put_file_def)
      have "apply_ready en paths p txid (d_files d)" "lock_apart paths txid p"
        using assms(4) by (simp_all add: migration_ready_def)
      then show "only_locked paths d d' \<Longrightarrow> d_files d' (MigrationJournal paths) = None" for d'
        using apply_ready_locked [of en paths p txid "d_files d" "d_files d'"]
        by (auto simp: only_locked_def apply_ready_def)
    qed (simp add: uncounted_def only_locked_def)
    ultimately show ?thesis using recoveries_keep [OF assms(2)] by blast
  next
    assume "\<exists>tx x. migration_from en paths p tool txid now d tx x \<and> interrupted en x d1"
    then obtain tx x where x: "migration_from en paths p tool txid now d tx x" "interrupted en x d1" by blast
    have "interrupted en x d2"
      by (rule recoveries_keep [where I = "interrupted en x", OF assms(2) x(2)])
        (rule triple_recover_interrupted [OF migration_recoverable [OF x(1) assms(4)] assms(3)])
    with x(1) show ?thesis by blast
  qed
qed

lemma triple_recover_in_phase:
  assumes "recoverable paths en x" "normalize_paths paths0 = paths" "journal_of en x j"
  shows "triple (in_phase en x j) (recover_migration faults en paths0)
    (\<lambda>_. recovered x j) (\<lambda>_ d. in_phase en x j d \<or> recovered x j d)"
proof -
  have r: "situation_ok en x" "lock_kept paths x" "s_path x = MigrationJournal paths"
    "file_path (ConfigFile paths)" "path_is_abs (MigrationJournal paths)"
    using assms(1) by (simp_all add: recoverable_def)
  have pending: "triple (in_phase en x j) (recover_pending faults en (MigrationJournal paths))
      (\<lambda>_. recovered x j) (\<lambda>_ d. in_phase en x j d \<or> recovered x j d)"
    by (rule triple_weaken [OF triple_recover_phase [OF r(1) assms(3), unfolded r(3)]]) auto
  have there: "d_files d (MigrationJournal paths) \<noteq> None"
    "\<exists>s. d_files d (lock_path (ConfigFile paths)) = Some (PlainFile Private s)" if "in_phase en x j d" for d
  proof -
    have "resumable en x d" using that assms(3) by (auto simp: resumable_phase)
    then show "d_files d (MigrationJournal paths) \<noteq> None"
      "\<exists>s. d_files d (lock_path (ConfigFile paths)) = Some (PlainFile Private s)"
      using resumable_cells [of en x d] frame_lock [OF r(2)] r(3) by auto
  qed
  show ?thesis
    by (rule triple_recover_locked [OF uncounted_phase(1) there assms(2) r(4,5) pending uncounted_phase(2)])
      (simp_all add: uncounted_disj)
qed

text \<open>C25: The phase of the journal decides what a recovery does.  One that succeeds has completed the transaction when
  the journal says that its marker was verified, and has restored the starting point in every earlier phase.  One that
  does not succeed, whatever call failed or ended it, leaves the disk with the same journal in the same phase, where
  the next recovery starts from, or has already reached that very end; it never turns from the one way to the
  other.\<close>

theorem recovery_settles:
  assumes "recover_migration faults en paths0 d = (r, d')" "journal_of en x j"
    and "if Phase j = PhaseMarkerVerified then verified en x j d else pending en x j d"
    and "recoverable paths en x" "normalize_paths paths0 = paths"
  shows "if Phase j = PhaseMarkerVerified
    then (case r of Inr _ \<Rightarrow> committed x d' | Inl _ \<Rightarrow> verified en x j d' \<or> committed x d')
    else (case r of Inr _ \<Rightarrow> restored x d' | Inl _ \<Rightarrow> pending en x j d' \<or> restored x d')"
proof -
  note t = triple_recover_in_phase [OF assms(4,5,2), of faults]
  have start: "in_phase en x j d" using assms(3) by (simp add: in_phase_def)
  show ?thesis
    using triple_resultD [OF t start, of _ d'] triple_errorD [OF t start, of _ d'] assms(1)
    by (cases r) (auto simp: in_phase_def recovered_def split: if_splits)
qed

section \<open>A snapshot that was cut short\<close>

abbreviation keeping :: "(disk \<Rightarrow> bool) \<Rightarrow> 'a fsop \<Rightarrow> bool" where
  "keeping P m \<equiv> triple P m (\<lambda>_. P) (\<lambda>_. P)"

lemma keeping_bind: "keeping P m \<Longrightarrow> (\<And>x. triple P (k x) Q (\<lambda>_. P)) \<Longrightarrow> triple P (bindP m k) Q (\<lambda>_. P)"
  by (rule triple_bind)

lemma keeping_basic: "keeping P (failure e)" "keeping P (returnP v)"
  by (auto intro: triple_failure stops_same triple_return)

lemma keeping_reads:
  assumes "uncounted P"
  shows "keeping P (read_regular faults path)" "keeping P (read_private faults path)"
    "keeping P (path_exists faults path)" "keeping P (verify_artifact faults en path expected)"
proof -
  have s: "stops P (\<lambda>_. P)" by (rule stops_same)
  show "keeping P (read_regular faults path)"
    by (rule triple_weaken [OF triple_read_regular [OF assms s]]) simp_all
  show "keeping P (read_private faults path)"
    by (rule triple_weaken [OF triple_read_private [OF assms s]]) simp_all
  show "keeping P (path_exists faults path)"
    by (rule triple_weaken [OF triple_path_exists [OF assms s]]) simp_all
  show "keeping P (verify_artifact faults en path expected)"
    by (rule triple_weaken [OF triple_verify_artifact [OF assms s]]) simp_all
qed

lemma keeping_load_snapshot: "uncounted P \<Longrightarrow> keeping P (load_snapshot faults en sn)"
  unfolding load_snapshot_def by (auto intro!: keeping_basic keeping_bind keeping_reads triple_if)

lemma keeping_inspect: "uncounted P \<Longrightarrow> keeping P (inspect_artifact faults en art)"
  unfolding inspect_artifact_def
  by (auto intro!: keeping_basic keeping_bind keeping_reads keeping_load_snapshot triple_if split: option.splits)

lemmas keeping_plain = keeping_basic keeping_reads keeping_load_snapshot keeping_inspect

lemma keeping_writes:
  assumes "uncounted P" "\<And>d node. P d \<Longrightarrow> P (put_file path node d)"
  shows "keeping P (remove_regular faults path missing)" "keeping P (atomic_write faults path data False)"
proof -
  have s: "stops P (\<lambda>_. P)" by (rule stops_same)
  show "keeping P (remove_regular faults path missing)"
    by (rule triple_weaken [OF triple_remove_regular [where Q = P, OF assms(1) s s assms(1,2)]]) auto
  show "keeping P (atomic_write faults path data False)"
    by (rule triple_replace_private(1) [OF assms(1) s assms(1)]) (simp_all add: assms(2))
qed

lemma keeping_delete: "uncounted P \<Longrightarrow> (\<And>d r v. P d \<Longrightarrow> P (put_keyring r v d)) \<Longrightarrow> keeping P (keyring_delete faults r)"
  unfolding keyring_delete_def by (rule triple_keyring_call) (auto intro: stops_same)

text \<open>The journal of a transaction and a snapshot whose contents are not those it names.\<close>

definition cut_short :: "'e migration_env_scheme \<Rightarrow> string \<Rightarrow> journal \<Rightarrow> string \<Rightarrow> string \<Rightarrow> disk \<Rightarrow> bool" where
  "cut_short en path j s t d \<longleftrightarrow>
     d_files d path = Some (PlainFile Private s) \<and> decode_journal en s = Some j \<and> validate_journal en j path \<and>
     Existed (Before (ConfigArtifact j)) \<and>
     d_files d (SnapshotPath (Before (ConfigArtifact j))) = Some (PlainFile Private t) \<and>
     digest en t \<noteq> SnapshotDigest (Before (ConfigArtifact j))"

lemma uncounted_cut [simp]: "uncounted (cut_short en path j s t)"
  by (simp add: uncounted_def cut_short_def)

lemma triple_cut_remove:
  "triple (cut_short en path j s t) (remove_snapshot faults en (Before (ConfigArtifact j)))
     (\<lambda>_ _. False) (\<lambda>_. cut_short en path j s t)"
proof (cases "Existed (Before (ConfigArtifact j))")
  case True
  let ?I = "cut_short en path j s t"
  have st: "stops ?I (\<lambda>_. ?I)" by (rule stops_same)
  have sb: "stops (\<lambda>d. ?I d \<and> Q d) (\<lambda>_. ?I)" for Q by (rule stops_same) simp
  have there: "triple ?I (path_exists faults path') (\<lambda>b d. ?I d \<and> (b \<longleftrightarrow> d_files d path' \<noteq> None)) (\<lambda>_. ?I)" for path'
    by (rule triple_path_exists [OF uncounted_cut st])
  have load: "triple ?I (load_snapshot faults en (Before (ConfigArtifact j))) (\<lambda>_ _. False) (\<lambda>_. ?I)"
    unfolding load_snapshot_def
    apply (simp add: True)
    apply (intro conjI impI triple_failure st)
    apply (rule triple_bind [OF triple_read_private [OF uncounted_cut st]])
    apply (intro triple_if triple_failure sb)
    apply (rule triple_return)
    apply (auto simp: cut_short_def)
    done
  show ?thesis
    unfolding remove_snapshot_def
    apply (simp add: True)
    apply (rule triple_bind [OF there])
    subgoal for b
      by (cases b) (auto simp: cut_short_def triple_False
          intro: triple_weaken [OF triple_bind [OF load triple_False]] triple_weaken [OF triple_False])
    done
qed (auto simp: cut_short_def triple_def)

lemma cut_put:
  assumes "validate_journal en j path"
    and "p \<in> {TargetPath (ConfigArtifact j), TargetPath (MarkerArtifact j)} \<union>
           set (snapshot_paths (Before (MarkerArtifact j))) \<union> BackupPath ` set (Backups j)"
  shows "cut_short en path j s t d \<Longrightarrow> cut_short en path j s t (put_file p node d)"
proof -
  assume c: "cut_short en path j s t d"
  then have "Existed (Before (ConfigArtifact j))" by (simp add: cut_short_def)
  then have "p \<noteq> path" "p \<noteq> SnapshotPath (Before (ConfigArtifact j))"
    using valid_journal_paths(1) [OF assms(1)] assms(2)
    by (auto simp: journal_paths_def snapshot_paths_def [of "Before (ConfigArtifact j)"])
  then show ?thesis using c by (simp add: cut_short_def)
qed

lemma triple_cut_pending:
  assumes "validate_journal en j path"
  shows "triple (cut_short en path j s t) (recover_pending faults en path) (\<lambda>_ _. False) (\<lambda>_. cut_short en path j s t)"
proof -
  let ?I = "cut_short en path j s t"
  note put = cut_put [OF assms]
  note plain = keeping_plain [where P = ?I] uncounted_cut
  note writes = keeping_writes [OF uncounted_cut put]
  have st: "stops ?I (\<lambda>_. ?I)" by (rule stops_same)
  have load: "triple ?I (load_journal faults en path) (\<lambda>r d. ?I d \<and> r = j) (\<lambda>_. ?I)"
  proof -
    have sb: "stops (\<lambda>d. ?I d \<and> Q d) (\<lambda>_. ?I)" for Q by (rule stops_same) simp
    show ?thesis
      unfolding load_journal_def
      apply (rule triple_if, rule triple_failure [OF st])
      apply (rule triple_bind [OF triple_read_private [OF uncounted_cut st]])
      apply (auto split: option.splits intro!: triple_failure sb triple_if triple_return simp: cut_short_def)
      done
  qed
  have roll_marker: "keeping ?I (rollback_artifact faults en (MarkerArtifact j) b)" for b
    unfolding rollback_artifact_def
    by (auto intro!: plain writes keeping_bind triple_if split: option.splits)
  have roll_config: "keeping ?I (rollback_artifact faults en (ConfigArtifact j) b)" for b
    unfolding rollback_artifact_def
    by (auto intro!: plain writes keeping_bind triple_if split: option.splits)
  have refs: "keeping ?I (if ph then each_do (keyring_delete faults) rs else returnP ())" for ph rs
    by (auto intro!: plain triple_each_do [where I = "\<lambda>_. ?I"] keeping_delete simp: cut_short_def put_keyring_def)
  have backups: "keeping ?I (each_do (\<lambda>b. remove_regular faults (BackupPath b) True) (Backups j))"
  proof -
    have "triple (\<lambda>d. set bs \<subseteq> set (Backups j) \<and> ?I d) (each_do (\<lambda>b. remove_regular faults (BackupPath b) True) bs)
        (\<lambda>_ d. set [] \<subseteq> set (Backups j) \<and> ?I d) (\<lambda>_. ?I)" for bs
    proof (rule triple_each_do [where I = "\<lambda>bs d. set bs \<subseteq> set (Backups j) \<and> ?I d"])
      fix b bs
      show "triple (\<lambda>d. set (b # bs) \<subseteq> set (Backups j) \<and> ?I d) (remove_regular faults (BackupPath b) True)
          (\<lambda>_ d. set bs \<subseteq> set (Backups j) \<and> ?I d) (\<lambda>_. ?I)"
      proof (cases "set (b # bs) \<subseteq> set (Backups j)")
        case True
        then have "keeping ?I (remove_regular faults (BackupPath b) True)" by (intro writes) auto
        then show ?thesis by (rule triple_weaken) (use True in auto)
      qed (auto simp: triple_def)
    qed
    from this [of "Backups j"] show ?thesis by (simp add: triple_def)
  qed
  have marker_snap: "keeping ?I (remove_snapshot faults en (Before (MarkerArtifact j)))"
    unfolding remove_snapshot_def
    by (auto intro!: plain writes keeping_bind triple_if simp: snapshot_paths_def)
  have undo: "triple ?I (roll_back faults en path j) (\<lambda>_ _. False) (\<lambda>_. ?I)"
    unfolding roll_back_def
    by (intro keeping_bind plain roll_marker roll_config refs backups marker_snap triple_bind [OF triple_cut_remove triple_False])
  have finish: "triple ?I (bindP (verify_artifact faults en p1 e1) (\<lambda>_. bindP (verify_artifact faults en p2 e2) (\<lambda>_.
      bindP (remove_snapshot faults en (Before (ConfigArtifact j))) k))) (\<lambda>_ _. False) (\<lambda>_. ?I)" for p1 e1 p2 e2 k
    by (rule keeping_bind [OF keeping_reads(4) [OF uncounted_cut]],
        rule keeping_bind [OF keeping_reads(4) [OF uncounted_cut]], rule triple_bind [OF triple_cut_remove triple_False])
  have complete: "triple ?I (complete_journal faults en path txid) (\<lambda>_ _. False) (\<lambda>_. ?I)" for txid
    unfolding complete_journal_def
    apply (rule triple_bind [OF load])
    subgoal for r
    proof (cases "r = j")
      case True
      show ?thesis
        unfolding True
        by (rule triple_weaken [where P' = ?I and Q' = "\<lambda>_ _. False" and E' = "\<lambda>_. ?I"])
          (intro triple_if triple_failure st finish, simp_all)
    qed (simp add: triple_False)
    done
  show ?thesis
    unfolding recover_pending_def
    apply (rule triple_bind [OF load])
    subgoal for r
      by (cases "r = j")
        (auto simp: triple_def [where P = "\<lambda>_. False"] intro!: triple_bind [OF complete triple_False] triple_bind [OF undo triple_False])
    done
qed

lemma triple_cut_recover:
  assumes "path = MigrationJournal paths" "normalize_paths paths0 = paths"
    and "lock_path (ConfigFile paths) \<notin> {path, SnapshotPath (Before (ConfigArtifact j))}" "file_path (ConfigFile paths)"
  shows "triple (cut_short en path j s t) (recover_migration faults en paths0) (\<lambda>_ _. False) (\<lambda>_. cut_short en path j s t)"
proof (cases "validate_journal en j path")
  case True
  let ?I = "cut_short en path j s t"
  have st: "stops ?I (\<lambda>_. ?I)" by (rule stops_same)
  have there: "triple ?I (path_exists faults path) (\<lambda>b d. ?I d \<and> b) (\<lambda>_. ?I)"
    by (rule triple_weaken [OF triple_path_exists [OF uncounted_cut st]]) (auto simp: cut_short_def)
  have look: "triple ?I (journal_missing faults path) (\<lambda>m d. ?I d \<and> \<not> m) (\<lambda>_. ?I)"
    by (rule triple_weaken [OF triple_journal_missing [OF uncounted_cut, where E = "\<lambda>_. ?I"]]) (auto simp: cut_short_def)
  have body: "triple ?I (recover_if_present faults en paths) (\<lambda>_ _. False) (\<lambda>_. ?I)"
    unfolding recover_if_present_def assms(1) [symmetric]
    apply (rule triple_bind [OF there])
    subgoal for b
      by (cases b) (auto simp: triple_False
          intro: triple_weaken [OF triple_bind [OF triple_cut_pending [OF True] triple_False]])
    done
  have locked: "triple ?I (with_lock faults (ConfigFile paths) (recover_if_present faults en paths)) (\<lambda>_ _. False) (\<lambda>_. ?I)"
    by (rule triple_with_lock_from [OF uncounted_cut st uncounted_cut st _ _ body])
      (use assms(3) in \<open>auto simp: cut_short_def\<close>)
  have mutation: "triple ?I (with_mutation_lock faults en \<lparr>StorePath = ConfigFile paths, StoreJournal = path\<rparr>
      (\<lambda>_ _. recover_if_present faults en paths)) (\<lambda>_ _. False) (\<lambda>_. ?I)"
    by (auto simp: with_mutation_lock_def resolved_self [OF assms(4)] intro!: triple_failure st locked split: option.splits)
  show ?thesis
    unfolding recover_migration_def assms(2) Let_def assms(1) [symmetric]
    apply (rule triple_bind [OF look])
    subgoal for b
      using mutation by (cases b) (auto simp: triple_False elim!: triple_weaken)
    done
qed (auto simp: cut_short_def triple_def)

text \<open>C26: Once a crash has cut short the snapshot of the configuration, which is created in place and not
  by renaming, no recovery ever succeeds again: each one fails and leaves the journal and the snapshot,
  although the configuration itself may never have been touched.\<close>

theorem cut_snapshot_blocks_recovery:
  assumes "cut_short en (MigrationJournal paths) j s t d" "recoveries en paths0 d d1"
    and "recover_migration faults en paths0 d1 = (r, d2)"
    and "normalize_paths paths0 = paths" "file_path (ConfigFile paths)"
    and "lock_path (ConfigFile paths) \<notin> {MigrationJournal paths, SnapshotPath (Before (ConfigArtifact j))}"
  shows "(\<exists>e. r = Inl e) \<and> cut_short en (MigrationJournal paths) j s t d2"
proof -
  let ?I = "cut_short en (MigrationJournal paths) j s t"
  have t: "triple ?I (recover_migration faults en paths0) (\<lambda>_ _. False) (\<lambda>_. ?I)" for faults
    by (rule triple_cut_recover [OF refl assms(4,6,5)])
  have "?I d1"
    by (rule recoveries_keep [where I = ?I, OF assms(2,1)]) (rule triple_weaken [OF t], simp_all)
  then show ?thesis
    using triple_resultD [OF t, of d1 faults] triple_errorD [OF t, of d1 faults] assms(3)
    by (cases r) fastforce+
qed

end
