(* ===== verification/MigLive.thy ===== *)
theory MigLive
  imports MigSafety
begin

text \<open>
  What the operations do when no system call fails, and the data of a small world in which a migration is carried out
  from end to end.
\<close>

section \<open>Working calls\<close>

abbreviation works :: "nat \<Rightarrow> fault" where
  "works \<equiv> \<lambda>_. Works"

definition tick :: "nat \<Rightarrow> disk \<Rightarrow> disk" where
  "tick n d = d\<lparr>d_calls := d_calls d + n\<rparr>"

lemma tick_simps [simp]:
  "d_files (tick n d) = d_files d" "d_keyring (tick n d) = d_keyring d" "tick m (tick n d) = tick (n + m) d" "tick 0 d = d"
  "put_file p node (tick n d) = tick n (put_file p node d)" "put_keyring r v (tick n d) = tick n (put_keyring r v d)"
  by (simp_all add: tick_def put_file_def put_keyring_def)

lemma put_same [simp]: "put_file p node (put_file p node' d) = put_file p node d"
  by (simp add: put_file_def)

lemma bind_works [simp]: "m d = (Inr x, d') \<Longrightarrow> bindP m k d = k x d'"
  by (simp add: bindP_def)

lemma bind_fails: "m d = (Inl e, d') \<Longrightarrow> bindP m k d = (Inl e, d')"
  by (simp add: bindP_def)

lemma return_works [simp]: "returnP x d = (Inr x, d)"
  by (simp add: returnP_def)

lemma calls_work [simp]:
  "plain_call works d = (Inr (), tick 1 d)" "atomic_call works f d = (Inr (), f (tick 1 d))"
  "syscall works f g d = (Inr (), f (tick 1 d))" "file_at p d = (Inr (d_files d p), d)"
  by (simp_all add: plain_call_def syscall_def atomic_call_def tick_def Let_def file_at_def getsP_def)

lemma plain_calls_work [simp]: "plain_calls works n d = (Inr (), tick n d)"
  by (induction n arbitrary: d) simp_all

lemma on_failure_works [simp]: "m d = (Inr x, d') \<Longrightarrow> on_failure m h k d = k x d'"
  by (simp add: on_failure_def handleP_def)

lemma file_calls_work [simp]:
  "path_exists works p d = (Inr (d_files d p \<noteq> None), tick 1 d)"
  "d_files d p = None \<Longrightarrow> read_regular works p d = (Inr None, tick 1 d)"
  "d_files d p = Some (PlainFile a s) \<Longrightarrow> length s \<le> maxConfigBytes \<Longrightarrow> read_regular works p d = (Inr (Some s), tick 4 d)"
  "d_files d p = Some (PlainFile Private s) \<Longrightarrow> length s \<le> maxConfigBytes \<Longrightarrow> read_private works p d = (Inr s, tick 3 d)"
  "d_files d p = Some (PlainFile a s) \<Longrightarrow> remove_regular works p b d = (Inr (), tick 3 (put_file p None d))"
  "d_files d p = None \<Longrightarrow> remove_regular works p True d = (Inr (), tick 1 d)"
  by (simp_all add: path_exists_def read_regular_def read_private_def remove_regular_def eval_nat_numeral)

lemma missing_works [simp]: "journal_missing works p d = (Inr (d_files d p = None), tick 1 d)"
  by (simp add: journal_missing_def)

lemma bind_missing [simp]: "bindP (journal_missing works p) k d = k (d_files d p = None) (tick 1 d)"
  by (simp add: bindP_def)

lemma bind_exists [simp]: "bindP (path_exists works p) k d = k (d_files d p \<noteq> None) (tick 1 d)"
  by (rule bind_works) simp

lemma writes_work [simp]:
  "atomic_write works p data False d = (Inr (), tick 10 (put_file p (Some (PlainFile Private data)) d))"
  "d_files d p = None \<Longrightarrow> length data \<le> maxConfigBytes \<Longrightarrow>
     write_exclusive works p data d = (Inr (), tick 9 (put_file p (Some (PlainFile Private data)) d))"
  by (simp_all add: atomic_write_def replace_with_def write_exclusive_def fill_exclusive_def eval_nat_numeral)

lemma keyring_works [simp]:
  "keyring_get works r d = (Inr (d_keyring d r), tick 1 d)"
  "keyring_set works en r s d = (Inr (), tick 1 (put_keyring r (Some (stored_as en r s)) d))"
  "keyring_delete works r d = (Inr (), tick 1 (put_keyring r None d))"
  by (simp_all add: keyring_get_def keyring_set_def keyring_delete_def keyring_call_def getsP_def)

lemma verify_works [simp]:
  "d_files d p = Some (PlainFile a s) \<Longrightarrow> length s \<le> maxConfigBytes \<Longrightarrow> digest en s = expected \<Longrightarrow>
     verify_artifact works en p expected d = (Inr (), tick 4 d)"
  by (simp add: verify_artifact_def)

lemma release_works [simp]: "release_lock works d = (Inr (), tick 1 d)"
  by (simp add: release_lock_def ignore_failure_def)

lemma lock_works [simp]:
  "d_files d (lock_path path) = Some (PlainFile Private s) \<Longrightarrow> m (tick 7 d) = (Inr x, d') \<Longrightarrow>
     with_lock works path m d = (Inr x, tick 1 d')"
  "d_files d (lock_path path) = None \<Longrightarrow>
     m (tick 7 (put_file (lock_path path) (Some (PlainFile Private '''')) d)) = (Inr x, d') \<Longrightarrow>
     with_lock works path m d = (Inr x, tick 1 d')"
  by (simp_all add: with_lock_def acquire_lock_def eval_nat_numeral)

lemma load_journal_works [simp]:
  "clean_file_path p \<Longrightarrow> d_files d p = Some (PlainFile Private s) \<Longrightarrow> length s \<le> maxConfigBytes \<Longrightarrow>
     decode_journal en s = Some j \<Longrightarrow> validate_journal en j p \<Longrightarrow> load_journal works en p d = (Inr j, tick 3 d)"
  by (simp add: load_journal_def)

lemma load_snapshot_works [simp]:
  "\<not> Existed sn \<Longrightarrow> absent_ok sn \<Longrightarrow> load_snapshot works en sn d = (Inr None, d)"
  "Existed sn \<Longrightarrow> clean_file_path (SnapshotPath sn) \<Longrightarrow> valid_sha256 (SnapshotDigest sn) \<Longrightarrow>
     d_files d (SnapshotPath sn) = Some (PlainFile Private s) \<Longrightarrow> length s \<le> maxConfigBytes \<Longrightarrow>
     digest en s = SnapshotDigest sn \<Longrightarrow> load_snapshot works en sn d = (Inr (Some s), tick 3 d)"
  by (simp_all add: load_snapshot_def)

lemma remove_snapshot_works [simp]:
  "\<not> Existed sn \<Longrightarrow> absent_ok sn \<Longrightarrow> remove_snapshot works en sn d = (Inr (), d)"
  "Existed sn \<Longrightarrow> d_files d (SnapshotPath sn) = None \<Longrightarrow> remove_snapshot works en sn d = (Inr (), tick 1 d)"
  "Existed sn \<Longrightarrow> clean_file_path (SnapshotPath sn) \<Longrightarrow> valid_sha256 (SnapshotDigest sn) \<Longrightarrow>
     d_files d (SnapshotPath sn) = Some (PlainFile Private s) \<Longrightarrow> length s \<le> maxConfigBytes \<Longrightarrow>
     digest en s = SnapshotDigest sn \<Longrightarrow>
     remove_snapshot works en sn d = (Inr (), tick 7 (put_file (SnapshotPath sn) None d))"
  by (simp_all add: remove_snapshot_def)

section \<open>A small world\<close>

text \<open>
  One legacy account with a secret, and an empty configuration.  The encodings are single characters.
\<close>

definition w_paths :: config_paths where
  "w_paths =
     \<lparr>BaseDir = ''/h'', ConfigFile = ''/h/c'', ProtocolCacheDir = '''', MigrationMarker = ''/h/m'',
      MigrationJournal = ''/h/j'', MigrationConfigRecovery = ''/h/r'', MigrationMarkerRecovery = ''/h/s'',
      LegacyMetaYAML = ''/h/y'', LegacyUpstream = ''''\<rparr>"

definition hex64 :: "char \<Rightarrow> string" where
  "hex64 c = replicate 64 c"

definition w_tx :: string where
  "w_tx = replicate 32 (CHR ''1'')"

definition w_ref :: string where
  "w_ref = ''migration-'' @ replicate 32 (CHR ''2'')"

definition w_stamp :: source_stamp where
  "w_stamp = \<lparr>StampKind = MetaYAML, LocationHash = hex64 (CHR ''a''), RedactedDigest = hex64 (CHR ''d'')\<rparr>"

definition w_plan :: plan where
  "w_plan =
     \<lparr>PlanSources = [(MetaYAML, hex64 (CHR ''a''))],
      PlanProfiles = [\<lparr>MigName = ''u'', MigUsername = ''u'',
        MigCredential = \<lparr>Provider = ProviderKeyring, Reference = w_ref\<rparr>, MigStatus = KeyringImport,
        MigDefault = True, MigSource = MetaYAML\<rparr>],
      PlanConflicts = [], PlanWarnings = [], PlanSecrets = [(''u'', ''pw'')],
      SourcePaths = [(hex64 (CHR ''a''), ''/h/y'')], RawDigests = [(hex64 (CHR ''a''), hex64 (CHR ''b''))],
      SourceStamps = [(hex64 (CHR ''a''), w_stamp)], ReservedRefs = [], DestinationDigest = hex64 (CHR ''c''),
      PlanClosed = False\<rparr>"

definition w_new :: config where
  "w_new = candidate_config default_config w_plan"

definition w_digest :: "string \<Rightarrow> string" where
  "w_digest s = hex64
     (if s = ''Y'' then CHR ''b'' else if s = ''R'' then CHR ''d'' else if s = ''C'' then CHR ''c''
      else if s = ''N'' then CHR ''e'' else if s = ''M'' then CHR ''f'' else CHR ''0'')"

definition w_backups :: "backup_record list" where
  "w_backups = backup_records w_paths w_tx w_plan"

definition w_marker :: marker where
  "w_marker =
     \<lparr>MarkerSchema = 1, MarkerTransaction = w_tx, MarkerTarget = 1, MarkerTool = ''t'', CompletedAt = 1,
      CompletedOffset = 0, MarkerSources = [w_stamp], ConfigDigest = hex64 (CHR ''e''), MarkerProfiles = [''u''],
      MarkerBackups = w_backups\<rparr>"

definition w_journal :: journal where
  "w_journal =
     \<lparr>JournalSchema = 1, TransactionID = w_tx, Phase = PhasePrepared, TargetSchema = 1, ToolVersion = ''t'',
      Sources = [w_stamp],
      ConfigArtifact = \<lparr>TargetPath = ''/h/c'',
        Before = \<lparr>Existed = True, SnapshotPath = ''/h/r'', SnapshotDigest = hex64 (CHR ''c'')\<rparr>,
        AfterDigest = hex64 (CHR ''e'')\<rparr>,
      MarkerArtifact = \<lparr>TargetPath = ''/h/m'', Before = no_snapshot, AfterDigest = hex64 (CHR ''f'')\<rparr>,
      Backups = w_backups, NewKeyringRefs = [w_ref]\<rparr>"

definition phase_text :: "phase \<Rightarrow> string" where
  "phase_text ph =
     (case ph of PhasePrepared \<Rightarrow> ''1'' | PhaseBackups \<Rightarrow> ''2'' | PhaseKeyring \<Rightarrow> ''3'' | PhaseConfig \<Rightarrow> ''4''
      | PhaseMarkerVerified \<Rightarrow> ''5'' | PhaseOther _ \<Rightarrow> ''6'')"

definition w_decode :: "string \<Rightarrow> journal option" where
  "w_decode s =
     map_option (\<lambda>ph. w_journal\<lparr>Phase := ph\<rparr>)
       (find (\<lambda>ph. phase_text ph = s) [PhasePrepared, PhaseBackups, PhaseKeyring, PhaseConfig, PhaseMarkerVerified])"

definition w_marshal :: "journal \<Rightarrow> string option" where
  "w_marshal j = (if w_decode (phase_text (Phase j)) = Some j then Some (phase_text (Phase j)) else None)"

definition w_env :: plan_env where
  "w_env =
     \<lparr>decode_config = (\<lambda>s. if s = ''C'' then Some default_config else if s = ''N'' then Some w_new else None),
      marshal_config = (\<lambda>c. if c = default_config then Some ''C'' else if c = w_new then Some ''N'' else None),
      digest = w_digest, lower_case = id, working_dir = None, stored_as = (\<lambda>_ secret. secret),
      decode_journal = w_decode, marshal_journal = w_marshal,
      decode_marker = (\<lambda>s. if s = ''M'' then Some w_marker else None),
      marshal_marker = (\<lambda>m. if m = w_marker then Some ''M'' else None),
      decode_meta = (\<lambda>s. if s = ''Y'' then Some \<lparr>MetaLogStyle = '''', MetaLogLevel = '''', MetaDefault = ''u'',
          MetaAccounts = [\<lparr>MetaUsername = ''u'', MetaPassword = ''cHc=''\<rparr>]\<rparr> else None),
      marshal_meta = (\<lambda>m. Some ''R'')\<rparr>"

definition w_store :: store where
  "w_store = \<lparr>StorePath = ''/h/c'', StoreJournal = ''/h/j''\<rparr>"

definition w_disk :: disk where
  "w_disk =
     \<lparr>d_files = [''/h/c'' \<mapsto> PlainFile Private ''C'', ''/h/y'' \<mapsto> PlainFile Guarded ''Y''],
      d_keyring = Map.empty, d_calls = 0\<rparr>"

lemma w_codec: "journal_codec w_env"
  by (auto simp: journal_codec_def w_env_def w_marshal_def split: if_splits)

lemma w_prefix: "prefix_law w_env path"
proof -
  have one: "n = 0 \<or> take n (phase_text ph) = phase_text ph" for n ph
    by (cases n; cases ph) (simp_all add: phase_text_def)
  have nil: "w_decode [] = None" by (simp add: w_decode_def phase_text_def)
  show ?thesis
    unfolding prefix_law_def
    by (auto simp: w_env_def w_marshal_def split: if_splits)
      (use one nil in \<open>(metis option.distinct(1) option.inject take_0 take_all order_refl)+\<close>)
qed

lemma w_backups_eq: "w_backups = [\<lparr>SourceLocationHash = hex64 (CHR ''a''),
    BackupPath = ''/h/migration-backups/meta_yaml-'' @ w_tx @ ''-01.backup''\<rparr>]"
  by code_simp

lemma w_valid: "validate_journal w_env w_journal ''/h/j''"
  by code_simp

lemma w_marker_valid: "validate_marker w_marker ''/h''"
  by code_simp

lemma w_spare:
  assumes "q \<in> spare_paths w_paths w_tx w_plan"
  shows "d_files w_disk q = None" "q \<noteq> lock_path ''/h/c''"
proof -
  have eq: "backup_records w_paths w_tx w_plan = [\<lparr>SourceLocationHash = hex64 (CHR ''a''),
      BackupPath = ''/h/migration-backups/meta_yaml-'' @ w_tx @ ''-01.backup''\<rparr>]"
    using w_backups_eq by (simp add: w_backups_def)
  obtain k where q: "q = take k (''/h/migration-backups/meta_yaml-'' @ w_tx @ ''-01.backup'')"
    using assms unfolding spare_paths_def eq by auto
  have "q ! 3 = CHR ''m''" if "3 < length q"
    using that unfolding q by simp
  then show "d_files w_disk q = None" "q \<noteq> lock_path ''/h/c''"
    by (auto simp: w_disk_def lock_path_def eval_nat_numeral)
qed

lemma w_normal [simp]: "normalize_paths w_paths = w_paths"
  by (simp add: normalize_paths_def w_paths_def Let_def)

lemma w_path_facts: "file_path ''/h/c''" "resolved_path w_env w_store = Some ''/h/c''"
  "resolved_journal w_env w_store ''/h/c'' = Some ''/h/j''"
  by code_simp+

lemma w_ready: "migration_ready w_env w_paths w_store w_tx w_plan w_disk"
proof -
  have "digest_apart w_env (d_files w_disk ''/h/c'')"
    by (auto simp: digest_apart_def w_disk_def w_env_def w_digest_def hex64_def split: if_splits)
  then show ?thesis
    using w_spare
    by (simp add: migration_ready_def w_codec w_prefix w_path_facts lock_apart_def apply_ready_def)
      (auto simp: w_paths_def w_path_facts path_is_abs_def lock_path_def w_disk_def)
qed

text \<open>The pieces of the run.\<close>

lemma w_paths_sel [simp]:
  "BaseDir w_paths = ''/h''" "ConfigFile w_paths = ''/h/c''" "MigrationMarker w_paths = ''/h/m''"
  "MigrationJournal w_paths = ''/h/j''" "MigrationConfigRecovery w_paths = ''/h/r''"
  "MigrationMarkerRecovery w_paths = ''/h/s''"
  by (simp_all add: w_paths_def)

lemma w_env_sel [simp]:
  "digest w_env = w_digest" "decode_journal w_env = w_decode" "marshal_journal w_env = w_marshal"
  "stored_as w_env r s = s" "decode_config w_env ''C'' = Some default_config" "decode_config w_env ''N'' = Some w_new"
  "marshal_config w_env default_config = Some ''C''" "marshal_config w_env w_new = Some ''N''"
  "marshal_marker w_env w_marker = Some ''M''" "decode_marker w_env ''M'' = Some w_marker"
proof -
  have "w_new \<noteq> default_config"
    by (simp add: w_new_def candidate_config_def w_plan_def add_migrated_def default_config_def Let_def)
  then show "digest w_env = w_digest" "decode_journal w_env = w_decode" "marshal_journal w_env = w_marshal"
    "stored_as w_env r s = s" "decode_config w_env ''C'' = Some default_config" "decode_config w_env ''N'' = Some w_new"
    "marshal_config w_env default_config = Some ''C''" "marshal_config w_env w_new = Some ''N''"
    "marshal_marker w_env w_marker = Some ''M''" "decode_marker w_env ''M'' = Some w_marker"
    by (simp_all add: w_env_def)
qed

lemma w_config_valid [simp]: "config_valid default_config" "config_valid w_new"
  by code_simp+

lemma w_digests [simp]:
  "w_digest ''Y'' = hex64 (CHR ''b'')" "w_digest ''R'' = hex64 (CHR ''d'')" "w_digest ''C'' = hex64 (CHR ''c'')"
  "w_digest ''N'' = hex64 (CHR ''e'')" "w_digest ''M'' = hex64 (CHR ''f'')"
  "hex64 a = hex64 b \<longleftrightarrow> a = b"
  by (simp_all add: w_digest_def hex64_def)

lemma w_encoded [simp]: "encode_config w_env default_config = Some ''C''" "encode_config w_env w_new = Some ''N''"
  by (simp_all add: encode_config_def maxConfigBytes_def)

lemma w_loads [simp]:
  "d_files d p = Some (PlainFile Private ''C'') \<Longrightarrow> load_config_file works w_env p d = (Inr (default_config, True), tick 5 d)"
  "d_files d p = Some (PlainFile Private ''N'') \<Longrightarrow> load_config_file works w_env p d = (Inr (w_new, True), tick 5 d)"
  by (simp_all add: load_config_file_def open_verified_def decode_valid_def maxConfigBytes_def)

lemma w_replace [simp]:
  "d_files d p = Some (PlainFile Private s) \<Longrightarrow>
     replace_prepared works p data False d = (Inr (), tick 14 (put_file p (Some (PlainFile Private data)) d))"
  by (simp add: replace_prepared_def open_verified_def)

lemma w_plan_ok [simp]: "validate_plan w_plan = Some (PlanProfiles w_plan)" "keyring_profiles w_plan = PlanProfiles w_plan"
  by code_simp+

lemma w_source:
  "d_files d ''/h/y'' = Some (PlainFile Guarded ''Y'') \<Longrightarrow>
     verify_plan_sources works w_env w_plan d = (Inr ([(hex64 (CHR ''a''), ''Y'')], [w_stamp]), tick 2 d)"
proof -
  assume y: "d_files d ''/h/y'' = Some (PlainFile Guarded ''Y'')"
  have r: "redacted_digest w_env MetaYAML ''Y'' = Some (hex64 (CHR ''d''))"
    by (simp add: redacted_digest_def w_env_def w_digest_def)
  have read: "read_source works ''/h/y'' d = (Inr (Some ''Y''), tick 2 d)"
    using y by (simp add: read_source_def maxConfigBytes_def numeral_2_eq_2)
  show ?thesis
    using r read by (simp add: verify_plan_sources_def w_plan_def w_stamp_def)
qed

definition w_transaction :: transaction where
  "w_transaction =
     \<lparr>TxResult = \<lparr>AppliedProfiles = [''u''],
        ResultBackups = map (\<lambda>b. (SourceLocationHash b, BackupPath b)) w_backups, ResultMarker = ''/h/m''\<rparr>,
      TxJournal = w_journal, TxConfigData = ''N'', TxMarkerData = ''M'', TxConfigBefore = ''C'', TxMarkerBefore = '''',
      TxSources = [(hex64 (CHR ''a''), ''Y'')], TxKeyring = [(w_ref, ''pw'')]\<rparr>"

definition w_start :: disk where
  "w_start = put_file ''/h/c.lock'' (Some (PlainFile Private '''')) w_disk"

lemma w_start_files [simp]:
  "d_files w_start ''/h/c'' = Some (PlainFile Private ''C'')" "d_files w_start ''/h/y'' = Some (PlainFile Guarded ''Y'')"
  "d_files w_start ''/h/j'' = None" "d_files w_start ''/h/m'' = None" "d_files w_start ''/h/r'' = None"
  "d_files w_start ''/h/s'' = None" "d_keyring w_start r = None"
  by (simp_all add: w_start_def w_disk_def)

lemma w_prepare:
  "prepare_transaction works w_env w_paths ''/h/c'' default_config w_plan ''t'' (Some w_tx) 1 (tick n w_start) =
     (Inr w_transaction, tick (15 + n) w_start)"
proof -
  have same: "unchanged_since w_env default_config w_plan"
    by (simp add: unchanged_since_def w_plan_def)
  have cand: "candidate_config default_config w_plan = w_new" by (simp add: w_new_def)
  have profiles: "map MigName (PlanProfiles w_plan) = [''u'']"
    "map (Reference \<circ> MigCredential) (PlanProfiles w_plan) = [w_ref]"
    "map (\<lambda>m. (Reference (MigCredential m), secret_of w_plan (MigName m))) (PlanProfiles w_plan) = [(w_ref, ''pw'')]"
    by (simp_all add: w_plan_def secret_of_def)
  have marker: "transaction_marker w_env w_paths w_plan ''t'' w_tx 1 [w_stamp] ''N'' = w_marker"
    by (simp add: transaction_marker_def w_marker_def profiles w_backups_def migrationJournalSchemaVersion_def SchemaVersion_def)
  have journal: "transaction_journal w_env w_paths w_plan ''t'' w_tx [w_stamp]
      \<lparr>Existed = True, SnapshotPath = ''/h/r'', SnapshotDigest = hex64 (CHR ''c'')\<rparr> ''N'' no_snapshot ''M'' = w_journal"
    by (simp add: transaction_journal_def w_journal_def profiles w_backups_def migrationJournalSchemaVersion_def SchemaVersion_def)
  have refs: "refs_are_free works (PlanProfiles w_plan) d = (Inr (), tick 1 d)" if "d_keyring d w_ref = None" for d
    using that by (simp add: refs_are_free_def w_plan_def)
  have clean: "clean_file_path ''/h/c''" "clean_file_path ''/h/r''" "clean_file_path ''/h/m''" "clean_file_path ''/h/s''"
    "path_dir ''/h/c'' = ''/h''" "path_dir ''/h/r'' = ''/h''" "path_dir ''/h/m'' = ''/h''" "path_dir ''/h/s'' = ''/h''"
    by code_simp+
  have snaps: "prepare_snapshot works w_env ''/h/c'' ''/h/r'' (tick k w_start) =
        (Inr (\<lparr>Existed = True, SnapshotPath = ''/h/r'', SnapshotDigest = hex64 (CHR ''c'')\<rparr>, ''C''), tick (Suc (k + 4)) w_start)"
      "prepare_snapshot works w_env ''/h/m'' ''/h/s'' (tick k w_start) = (Inr (no_snapshot, ''''), tick (k + 2) w_start)" for k
    by (simp_all add: prepare_snapshot_def clean maxConfigBytes_def no_snapshot_def)
  have source: "verify_plan_sources works w_env w_plan (tick k w_start) =
      (Inr ([(hex64 (CHR ''a''), ''Y'')], [w_stamp]), tick (k + 2) w_start)" for k
    using w_source [of "tick k w_start"] by simp
  show ?thesis
    by (simp add: prepare_transaction_def same cand refs source marker snaps journal profiles maxConfigBytes_def w_transaction_def
        w_backups_def)
qed

definition w_backup :: string where
  "w_backup = ''/h/migration-backups/meta_yaml-'' @ w_tx @ ''-01.backup''"

lemma w_backup_apart [simp]:
  "w_backup \<noteq> ''/h/j''" "w_backup \<noteq> ''/h/c''" "w_backup \<noteq> ''/h/m''" "w_backup \<noteq> ''/h/r''" "w_backup \<noteq> ''/h/c.lock''"
  "w_backup \<noteq> ''/h/y''" "''/h/j'' \<noteq> w_backup" "''/h/c'' \<noteq> w_backup" "''/h/m'' \<noteq> w_backup" "''/h/r'' \<noteq> w_backup"
  by (simp_all add: w_backup_def)

abbreviation w_at :: "phase \<Rightarrow> journal" where
  "w_at ph \<equiv> w_journal\<lparr>Phase := ph\<rparr>"

lemma w_journal_sel [simp]:
  "TransactionID w_journal = w_tx" "Phase w_journal = PhasePrepared" "NewKeyringRefs w_journal = [w_ref]"
  "Backups w_journal = [\<lparr>SourceLocationHash = hex64 (CHR ''a''), BackupPath = w_backup\<rparr>]"
  "ConfigArtifact w_journal = \<lparr>TargetPath = ''/h/c'',
     Before = \<lparr>Existed = True, SnapshotPath = ''/h/r'', SnapshotDigest = hex64 (CHR ''c'')\<rparr>, AfterDigest = hex64 (CHR ''e'')\<rparr>"
  "MarkerArtifact w_journal = \<lparr>TargetPath = ''/h/m'', Before = no_snapshot, AfterDigest = hex64 (CHR ''f'')\<rparr>"
  by (simp_all add: w_journal_def w_backups_eq w_backup_def)

lemma w_no_snapshot [simp]: "\<not> Existed no_snapshot" "absent_ok no_snapshot"
  by (simp_all add: no_snapshot_def absent_ok_def)

definition five :: "phase set" where
  "five = {PhasePrepared, PhaseBackups, PhaseKeyring, PhaseConfig, PhaseMarkerVerified}"

lemma five_phases [simp]:
  "PhasePrepared \<in> five" "PhaseBackups \<in> five" "PhaseKeyring \<in> five" "PhaseConfig \<in> five" "PhaseMarkerVerified \<in> five"
  by (simp_all add: five_def)

lemma w_at_valid [simp]: "ph \<in> five \<Longrightarrow> validate_journal w_env (w_at ph) ''/h/j''"
  using w_valid by (auto simp: validate_journal_def five_def)

lemma w_at_text [simp]:
  "ph \<in> five \<Longrightarrow> w_decode (phase_text ph) = Some (w_at ph)"
  "ph \<in> five \<Longrightarrow> encode_journal w_env (w_at ph) = Some (phase_text ph)"
proof -
  show d: "ph \<in> five \<Longrightarrow> w_decode (phase_text ph) = Some (w_at ph)" for ph
    by (auto simp: w_decode_def phase_text_def five_def)
  have "length (phase_text ph) = 1" by (cases ph) (simp_all add: phase_text_def)
  then show "ph \<in> five \<Longrightarrow> encode_journal w_env (w_at ph) = Some (phase_text ph)"
    using d [of ph] by (simp add: encode_journal_def w_marshal_def maxConfigBytes_def)
qed

lemma w_at_start [simp]: "w_at PhasePrepared = w_journal"
  by (simp add: w_journal_def)

lemma w_phase_size [simp]: "length (phase_text ph) \<le> maxConfigBytes"
  by (cases ph) (simp_all add: phase_text_def maxConfigBytes_def)

lemma w_clean [simp]: "clean_file_path ''/h/j''" "clean_file_path ''/h/r''" "valid_transaction_id w_tx"
  "valid_sha256 (hex64 (CHR ''c''))"
  by code_simp+

lemma w_load_journal [simp]:
  "ph \<in> five \<Longrightarrow> d_files d ''/h/j'' = Some (PlainFile Private (phase_text ph)) \<Longrightarrow>
     load_journal works w_env ''/h/j'' d = (Inr (w_at ph), tick 3 d)"
  by (rule load_journal_works [where s = "phase_text ph"]) simp_all

lemma w_advance [simp]:
  assumes "ph \<in> five" "ph' \<in> five" "phase_next ph = Some ph'"
    "d_files d ''/h/j'' = Some (PlainFile Private (phase_text ph))"
  shows "advance_journal works w_env ''/h/j'' w_tx ph' d =
    (Inr (w_at ph'), tick 16 (put_file ''/h/j'' (Some (PlainFile Private (phase_text ph'))) d))"
  using assms by (simp add: advance_journal_def)

lemma w_hook [simp]: "hook (\<lambda>_. False) ph d = (Inr (), d)"
  by (simp add: hook_def)

lemma w_tx_sel [simp]:
  "TxJournal w_transaction = w_journal" "TxConfigData w_transaction = ''N''" "TxMarkerData w_transaction = ''M''"
  "TxConfigBefore w_transaction = ''C''" "TxMarkerBefore w_transaction = ''''"
  "TxSources w_transaction = [(hex64 (CHR ''a''), ''Y'')]" "TxKeyring w_transaction = [(w_ref, ''pw'')]"
  by (simp_all add: w_transaction_def)

lemma put_commute: "p \<noteq> q \<Longrightarrow> put_file p a (put_file q b d) = put_file q b (put_file p a d)"
  by (simp add: put_file_def fun_upd_twist)

text \<open>The disk at the phases of the transaction.\<close>

definition w_stage :: "phase \<Rightarrow> disk \<Rightarrow> disk" where
  "w_stage ph d = put_file ''/h/j'' (Some (PlainFile Private (phase_text ph))) d"

definition w_saved :: disk where
  "w_saved = put_file w_backup (Some (PlainFile Private ''Y'')) (put_file ''/h/r'' (Some (PlainFile Private ''C'')) w_start)"

definition w_keyed :: disk where
  "w_keyed = put_keyring w_ref (Some ''pw'') w_saved"

definition w_done :: disk where
  "w_done = put_file ''/h/m'' (Some (PlainFile Private ''M'')) (put_file ''/h/c'' (Some (PlainFile Private ''N'')) w_keyed)"

lemma w_stage_files [simp]:
  "d_files (w_stage ph d) ''/h/j'' = Some (PlainFile Private (phase_text ph))"
  "p \<noteq> ''/h/j'' \<Longrightarrow> d_files (w_stage ph d) p = d_files d p" "d_keyring (w_stage ph d) = d_keyring d"
  "put_file ''/h/j'' (Some (PlainFile Private (phase_text ph'))) (w_stage ph d) = w_stage ph' d"
  "put_file ''/h/j'' None (w_stage ph d) = put_file ''/h/j'' None d"
  "p \<noteq> ''/h/j'' \<Longrightarrow> put_file p node (w_stage ph d) = w_stage ph (put_file p node d)"
  "put_keyring r v (w_stage ph d) = w_stage ph (put_keyring r v d)" "w_stage ph (tick n d) = tick n (w_stage ph d)"
  by (simp_all add: w_stage_def put_keyring_def tick_def put_file_def fun_upd_twist)

lemma w_start_backup [simp]: "d_files w_start w_backup = None"
  using w_backup_apart by (simp add: w_start_def w_disk_def)

lemma w_begin: "\<exists>k. begin_journal works w_env ''/h/j'' w_journal (tick n w_start) = (Inr (), tick k (w_stage PhasePrepared w_start))"
  using w_valid w_at_text(2) [of PhasePrepared]
  by (auto simp: begin_journal_def w_stage_def simp del: w_at_text)

lemma w_advance_stage:
  assumes "ph \<in> five" "ph' \<in> five" "phase_next ph = Some ph'"
  shows "advance_journal works w_env ''/h/j'' w_tx ph' (tick k (w_stage ph d)) =
    (Inr (w_at ph'), tick (k + 16) (w_stage ph' d))"
  using w_advance [OF assms, of "tick k (w_stage ph d)"] by simp

lemma w_save_before:
  "\<exists>k. save_before works w_env (\<lambda>_. False) ''/h/j'' w_transaction (tick n (w_stage PhasePrepared w_start)) =
     (Inr (), tick k (w_stage PhaseBackups w_saved))"
  by (simp add: save_before_def write_snapshot_def write_backup_def w_saved_def maxConfigBytes_def w_advance_stage
      del: w_advance) blast

lemma w_save_secrets:
  "\<exists>k. save_secrets works w_env (\<lambda>_. False) ''/h/j'' w_transaction (tick n (w_stage PhaseBackups w_saved)) =
     (Inr (), tick k (w_stage PhaseKeyring w_keyed))"
  by (simp add: save_secrets_def store_secret_def w_keyed_def w_advance_stage del: w_advance) blast

end
