(* ===== verification/AppService.thy ===== *)
theory AppService
  imports SdkLogin SdkNet MigLive
begin

text \<open>
  \<open>internal/app/service.go\<close>: the service behind the commands.  It reads the configuration, chooses the
  profile and the interface, and calls the SDK; a procedure of it works on the disk and on the history
  of the network.  The network behind each local address is a parameter, and so are the inputs of the
  credential providers; credentials are read from the disk as the loading of the configuration left it.
\<close>

section \<open>State and errors\<close>

record app_state =
  a_disk :: disk
  a_history :: sdk_history

text \<open>The process ended in a system call, or an operation returned an error.\<close>

datatype app_error = AppStopped | AppError go_error

type_synonym 'a app = "(app_state, app_error, 'a) proc"

record app_env =
  ae_faults :: "nat \<Rightarrow> fault"
  ae_config :: plan_env
  ae_world :: "ipv4 option \<Rightarrow> sdk_world"
  ae_interfaces :: "go_error + net_interface list"
  ae_ctx :: "nat \<Rightarrow> ctx_error option"
  ae_options :: provider_options

record service =
  sv_paths :: config_paths
  sv_store :: store

definition new_service :: "config_paths \<Rightarrow> service" where
  "new_service paths =
     \<lparr>sv_paths = paths,
      sv_store = \<lparr>StorePath = ConfigFile paths, StoreJournal = MigrationJournal paths\<rparr>\<rparr>"

text \<open>\<open>configError\<close>; the cause of a plain error is only looked at for a context error.\<close>

definition config_failure :: "string \<Rightarrow> go_error" where
  "config_failure message = ErrSdk (new_error CodeConfig message False None)"

definition app_config_error :: "go_error \<Rightarrow> go_error" where
  "app_config_error e =
     (case e of ErrSdk s \<Rightarrow> e
      | _ \<Rightarrow> ErrSdk (new_error CodeConfig ''configuration error'' False (Some e)))"

definition disk_failure :: "config_error \<Rightarrow> go_error" where
  "disk_failure e =
     (case e of Failure m \<Rightarrow> config_failure m
      | PublishedAt _ \<Rightarrow> config_failure ''configuration was published but its durability is unknown''
      | DurabilityUnknown \<Rightarrow> config_failure ''configuration was published but its durability is unknown''
      | Crashed \<Rightarrow> config_failure '''')"

definition on_disk :: "'a fsop \<Rightarrow> 'a app" where
  "on_disk m s =
     (case m (a_disk s) of (r, d) \<Rightarrow>
        (case r of Inl e \<Rightarrow> Inl (if e = Crashed then AppStopped else AppError (disk_failure e)) | Inr x \<Rightarrow> Inr x,
         s\<lparr>a_disk := d\<rparr>))"

definition on_network :: "'a sdk \<Rightarrow> 'a app" where
  "on_network m s =
     (case m (a_history s) of (r, h) \<Rightarrow>
        (case r of Inl e \<Rightarrow> Inl (AppError e) | Inr x \<Rightarrow> Inr x, s\<lparr>a_history := h\<rparr>))"

definition app_try :: "go_error + 'a \<Rightarrow> 'a app" where
  "app_try r = (case r of Inl e \<Rightarrow> throwP (AppError e) | Inr x \<Rightarrow> returnP x)"

section \<open>Profiles\<close>

definition zero_profile :: profile where
  "zero_profile =
     \<lparr>ProfileUsername = '''', ProfileCredential = \<lparr>Provider = ProviderOther '''', Reference = ''''\<rparr>,
      BindIP = '''', ProfileSwitch = SwitchUnset\<rparr>"

definition optional_profile :: "app_env \<Rightarrow> service \<Rightarrow> string \<Rightarrow> profile app" where
  "optional_profile en sv name =
     bindP (on_disk (store_load (ae_faults en) (ae_config en) (sv_store sv))) (\<lambda>(cfg, found).
     if \<not> found \<or> name = '''' \<and> DefaultProfile cfg = '''' then
       (if name \<noteq> '''' then throwP (AppError (config_failure ''profile does not exist'')) else returnP zero_profile)
     else
       (case config_profile cfg name of
          None \<Rightarrow> throwP (AppError (config_failure ''profile does not exist''))
        | Some (p, _) \<Rightarrow> returnP p))"

text \<open>\<open>resolveConfiguredLoginProfile\<close>; the keys of a map are listed once.\<close>

definition profile_names :: "config \<Rightarrow> string list" where
  "profile_names cfg = remdups (map fst (Profiles cfg))"

definition has_username :: "config \<Rightarrow> string \<Rightarrow> string \<Rightarrow> bool" where
  "has_username cfg username name \<longleftrightarrow> map_option ProfileUsername (map_of (Profiles cfg) name) = Some username"

definition matching_profiles :: "config \<Rightarrow> string \<Rightarrow> string list" where
  "matching_profiles cfg username = filter (has_username cfg username) (profile_names cfg)"

definition explicit_profile :: "config \<Rightarrow> string \<Rightarrow> string \<Rightarrow> (profile \<times> string) option" where
  "explicit_profile cfg explicit expected =
     (case config_profile cfg explicit of
        None \<Rightarrow> None
      | Some (p, name) \<Rightarrow>
          if expected \<noteq> '''' \<and> ProfileUsername p \<noteq> expected then None else Some (p, name))"

definition profile_by_username :: "config \<Rightarrow> string \<Rightarrow> (profile \<times> string) option" where
  "profile_by_username cfg expected =
     (case matching_profiles cfg expected of
        [name] \<Rightarrow> map_option (\<lambda>p. (p, name)) (map_of (Profiles cfg) name)
      | _ \<Rightarrow> None)"

definition resolve_configured_profile :: "config \<Rightarrow> string \<Rightarrow> string \<Rightarrow> (profile \<times> string) option" where
  "resolve_configured_profile cfg explicit expected =
     (if explicit \<noteq> '''' then explicit_profile cfg explicit expected
      else if expected = '''' then config_profile cfg ''''
      else if DefaultProfile cfg \<noteq> '''' then
        (case config_profile cfg (DefaultProfile cfg) of
           None \<Rightarrow> None
         | Some (p, name) \<Rightarrow>
             if ProfileUsername p = expected then Some (p, name) else profile_by_username cfg expected)
      else profile_by_username cfg expected)"

section \<open>Operations\<close>

record login_options =
  lo_profile :: string
  lo_bind :: string
  lo_switch :: bool
  lo_method :: sdk_method
  lo_interactions :: bool
  lo_expected :: string
  lo_credentials :: "(sdk_history \<Rightarrow> string \<Rightarrow> go_error + string) option"

definition login_requires_config :: "login_options \<Rightarrow> bool" where
  "login_requires_config opts \<longleftrightarrow> lo_credentials opts = None \<or> lo_expected opts = ''''"

text \<open>\<open>resolveLoginTarget\<close>: the chosen profile.\<close>

definition resolve_login_target :: "config option \<Rightarrow> login_options \<Rightarrow> profile option" where
  "resolve_login_target cfg opts =
     (if \<not> login_requires_config opts
      then Some (zero_profile\<lparr>ProfileUsername := lo_expected opts, ProfileSwitch := ProfileSwitchRefuse\<rparr>)
      else (case cfg of
          None \<Rightarrow> None
        | Some c \<Rightarrow> map_option fst (resolve_configured_profile c (lo_profile opts) (lo_expected opts))))"

text \<open>\<open>Service.client\<close>: the local address the client is bound to.\<close>

definition app_client :: "string \<Rightarrow> string \<Rightarrow> go_error + ipv4 option" where
  "app_client override profile_bind =
     (let bind_to = (if override = '''' then profile_bind else override) in
      if bind_to = '''' then Inr None
      else (case parse_ipv4 bind_to of
          None \<Rightarrow> Inl (config_failure ''bind IP is not a valid IPv4 address'')
        | Some ip \<Rightarrow>
            if is_unspecified ip
            then Inl (ErrSdk (new_error CodeInvalidArgument ''bind IP must be a concrete IPv4 address'' False None))
            else Inr (Some ip)))"

definition app_status :: "app_env \<Rightarrow> service \<Rightarrow> string \<Rightarrow> string \<Rightarrow> sdk_status app" where
  "app_status en sv name override =
     bindP (optional_profile en sv name) (\<lambda>p.
     bindP (app_try (app_client override (BindIP p))) (\<lambda>ip.
     on_network (sdk_status_call (ae_world en ip) (new_client False) True)))"

definition app_logout :: "app_env \<Rightarrow> service \<Rightarrow> string \<Rightarrow> string \<Rightarrow> (logout_outcome \<times> sdk_status) app" where
  "app_logout en sv name override =
     bindP (optional_profile en sv name) (\<lambda>p.
     bindP (app_try (app_client override (BindIP p))) (\<lambda>ip.
     on_network (sdk_logout (ae_world en ip) (new_client False) True)))"

definition app_interfaces :: "app_env \<Rightarrow> bind_interface list app" where
  "app_interfaces en = app_try (list_interfaces (new_client False) True (ae_ctx en) (ae_interfaces en))"

text \<open>\<open>lazyPasswordCredentialProvider\<close> on the disk \<open>d\<close>; \<open>c\<close> is the error of the context when it is asked.\<close>

definition lazy_credential ::
    "app_env \<Rightarrow> provider_options \<Rightarrow> credential_ref \<Rightarrow> disk \<Rightarrow> ctx_error option \<Rightarrow> go_error + string" where
  "lazy_credential en options ref d c =
     (case new_password_provider ref options of
        None \<Rightarrow> Inl (config_failure ''credential provider is not available'')
      | Some provider \<Rightarrow>
          (case c of
             Some e \<Rightarrow> Inl (app_config_error (ErrCtx e))
           | None \<Rightarrow>
               (case fst (provide_password (ae_faults en) options False provider d) of
                  Inl e \<Rightarrow> Inl (disk_failure e)
                | Inr password \<Rightarrow> Inr password)))"

definition login_switch :: "login_options \<Rightarrow> profile \<Rightarrow> switch_policy" where
  "login_switch opts p =
     (if lo_switch opts \<or> ProfileSwitch p = SwitchLogoutCurrent then SwitchLogoutExisting else SwitchRefuse)"

definition login_method :: "login_options \<Rightarrow> sdk_method" where
  "login_method opts = (if lo_method opts = MethodEmpty then MethodPassword else lo_method opts)"

text \<open>\<open>Service.Login\<close> after the target is resolved; the credential provider becomes a part of the world.\<close>

definition login_world :: "app_env \<Rightarrow> service \<Rightarrow> login_options \<Rightarrow> profile \<Rightarrow> ipv4 option \<Rightarrow> disk \<Rightarrow> sdk_world" where
  "login_world en sv opts p ip d =
     (case lo_credentials opts of
        Some provider \<Rightarrow> (ae_world en ip)\<lparr>wd_credential := provider\<rparr>
      | None \<Rightarrow>
          (ae_world en ip)\<lparr>wd_credential :=
             (\<lambda>h _. lazy_credential en
                ((ae_options en)\<lparr>OptionsBaseDir := path_dir (ConfigFile (sv_paths sv))\<rparr>)
                (ProfileCredential p) d (ae_ctx en (length h)))\<rparr>)"

definition login_request_of :: "login_options \<Rightarrow> profile \<Rightarrow> login_request" where
  "login_request_of opts p =
     \<lparr>lr_method = login_method opts, lr_expected = ProfileUsername p,
      lr_credentials = (lo_credentials opts \<noteq> None \<or> login_method opts = MethodPassword),
      lr_switch = login_switch opts p, lr_interactions = lo_interactions opts\<rparr>"

definition login_with_profile ::
    "app_env \<Rightarrow> service \<Rightarrow> login_options \<Rightarrow> profile \<Rightarrow> (login_outcome \<times> sdk_status) option app" where
  "login_with_profile en sv opts p =
     bindP (app_try (app_client (lo_bind opts) (BindIP p))) (\<lambda>ip s.
     on_network (sdk_login 61 (login_world en sv opts p ip (a_disk s)) (new_client False) True (login_request_of opts p)) s)"

definition app_login :: "app_env \<Rightarrow> service \<Rightarrow> login_options \<Rightarrow> (login_outcome \<times> sdk_status) option app" where
  "app_login en sv opts =
     bindP (if login_requires_config opts
            then bindP (on_disk (store_load (ae_faults en) (ae_config en) (sv_store sv))) (\<lambda>(cfg, _). returnP (Some cfg))
            else returnP None) (\<lambda>cfg.
     case resolve_login_target cfg opts of
       None \<Rightarrow> throwP (AppError (config_failure ''login profile is not available''))
     | Some p \<Rightarrow> login_with_profile en sv opts p)"

section \<open>The chosen profile\<close>

lemma matching_profiles_set: "name \<in> set (matching_profiles cfg u) \<longleftrightarrow> has_username cfg u name"
proof -
  have "has_username cfg u name \<Longrightarrow> name \<in> fst ` set (Profiles cfg)"
    by (auto simp: has_username_def dest: map_of_SomeD intro: image_eqI [where x = "(_, _)"])
  then show ?thesis by (auto simp: matching_profiles_def profile_names_def)
qed

lemma matching_profiles_distinct: "distinct (matching_profiles cfg u)"
  by (simp add: matching_profiles_def profile_names_def)

lemma matching_single:
  "matching_profiles cfg u = [name] \<longleftrightarrow> has_username cfg u name \<and> (\<forall>n. has_username cfg u n \<longrightarrow> n = name)"
proof
  assume "matching_profiles cfg u = [name]"
  then show "has_username cfg u name \<and> (\<forall>n. has_username cfg u n \<longrightarrow> n = name)"
    using matching_profiles_set [of _ cfg u] by auto
next
  assume r: "has_username cfg u name \<and> (\<forall>n. has_username cfg u n \<longrightarrow> n = name)"
  then have "set (matching_profiles cfg u) = {name}" using matching_profiles_set [of _ cfg u] by auto
  then show "matching_profiles cfg u = [name]"
    using matching_profiles_distinct [of cfg u]
    by (cases "matching_profiles cfg u"; cases "tl (matching_profiles cfg u)") auto
qed

lemma profile_by_username_iff:
  "profile_by_username cfg u = Some (p, name) \<longleftrightarrow>
     map_of (Profiles cfg) name = Some p \<and> ProfileUsername p = u \<and> (\<forall>n. has_username cfg u n \<longrightarrow> n = name)"
proof -
  have "profile_by_username cfg u = Some (p, name) \<longleftrightarrow>
      matching_profiles cfg u = [name] \<and> map_of (Profiles cfg) name = Some p"
    by (auto simp: profile_by_username_def split: list.splits option.splits)
  then show ?thesis by (auto simp: matching_single has_username_def)
qed

text \<open>The profile a login is meant for.\<close>

definition chosen_profile :: "config \<Rightarrow> string \<Rightarrow> string \<Rightarrow> string \<Rightarrow> bool" where
  "chosen_profile cfg explicit expected name \<longleftrightarrow>
     (if explicit \<noteq> '''' then name = explicit
      else if expected = '''' \<or> has_username cfg expected (DefaultProfile cfg) then name = DefaultProfile cfg
      else \<forall>n. has_username cfg expected n \<longrightarrow> n = name)"

lemma resolve_configured_iff:
  assumes "config_valid cfg"
  shows "resolve_configured_profile cfg explicit expected = Some (p, name) \<longleftrightarrow>
    map_of (Profiles cfg) name = Some p \<and> (expected \<noteq> '''' \<longrightarrow> ProfileUsername p = expected) \<and>
    chosen_profile cfg explicit expected name"
proof -
  have keys: "map_of (Profiles cfg) '''' = None"
  proof (rule ccontr)
    assume "map_of (Profiles cfg) '''' \<noteq> None"
    then obtain q where "map_of (Profiles cfg) '''' = Some q" by blast
    then have "profile_name_ok ''''"
      using assms by (auto simp: config_valid_def list_all_iff dest!: map_of_SomeD)
    then show False by (simp add: profile_name_ok_def)
  qed
  have default: "DefaultProfile cfg \<noteq> '''' \<Longrightarrow> \<exists>q. map_of (Profiles cfg) (DefaultProfile cfg) = Some q"
    using assms by (auto simp: config_valid_def)
  consider "explicit \<noteq> ''''" | "explicit = ''''" "expected = ''''" | "explicit = ''''" "expected \<noteq> ''''" by blast
  then show ?thesis
  proof cases
    case 1
    then show ?thesis
      by (auto simp: resolve_configured_profile_def explicit_profile_def config_profile_def chosen_profile_def
          Let_def split: option.splits if_splits)
  next
    case 2
    then show ?thesis
      using keys by (auto simp: resolve_configured_profile_def config_profile_def chosen_profile_def Let_def)
  next
    case 3
    show ?thesis
    proof (cases "has_username cfg expected (DefaultProfile cfg)")
      case True
      then obtain q where q: "map_of (Profiles cfg) (DefaultProfile cfg) = Some q" "ProfileUsername q = expected"
        by (auto simp: has_username_def)
      then have "DefaultProfile cfg \<noteq> ''''" using keys by auto
      then show ?thesis
        using 3 True q by (auto simp: resolve_configured_profile_def config_profile_def chosen_profile_def Let_def)
    next
      case False
      then have "resolve_configured_profile cfg explicit expected = profile_by_username cfg expected"
        using 3 default
        by (auto simp: resolve_configured_profile_def config_profile_def has_username_def Let_def split: option.splits)
      then show ?thesis
        using 3 False by (auto simp: profile_by_username_iff chosen_profile_def)
    qed
  qed
qed

text \<open>C27: The profile of a login is never guessed: one is chosen exactly when it has the requested user name
  and is the one that was named, the default one, or the only one with that user name.\<close>

theorem login_profile_unambiguous:
  assumes "config_valid cfg"
  shows "resolve_configured_profile cfg explicit expected = Some (p, name) \<longleftrightarrow>
    map_of (Profiles cfg) name = Some p \<and> (expected \<noteq> '''' \<longrightarrow> ProfileUsername p = expected) \<and>
    chosen_profile cfg explicit expected name"
  by (rule resolve_configured_iff [OF assms])

definition demo_config :: config where
  "demo_config =
     (let p = (\<lambda>u. zero_profile\<lparr>ProfileUsername := u, ProfileCredential := \<lparr>Provider = ProviderPrompt, Reference = ''''\<rparr>\<rparr>)
      in \<lparr>ConfigSchema = SchemaVersion, DefaultProfile = ''home'',
          Profiles = [(''home'', p ''alice''), (''lab'', p ''bob''), (''bind'', p ''alice'')]\<rparr>)"

lemma demo_config_valid: "config_valid demo_config"
  by code_simp

theorem login_profile_unambiguous_witness:
  "config_valid demo_config \<and> map_option snd (resolve_configured_profile demo_config '''' ''bob'') = Some ''lab''"
proof -
  have "map_of (Profiles demo_config) ''lab'' \<noteq> None"
    by (simp add: demo_config_def Let_def)
  moreover have "chosen_profile demo_config '''' ''bob'' ''lab'' \<and>
      ProfileUsername (the (map_of (Profiles demo_config) ''lab'')) = ''bob''"
    by (auto simp: chosen_profile_def has_username_def demo_config_def Let_def zero_profile_def split: if_splits)
  ultimately show ?thesis
    using login_profile_unambiguous [OF demo_config_valid, of "''''" "''bob''" "the (map_of (Profiles demo_config) ''lab'')" "''lab''"]
      demo_config_valid by auto
qed

section \<open>A login through the service\<close>

lemma store_load_valid:
  assumes "store_load faults en st d = (Inr (cfg, found), d')"
  shows "config_valid cfg"
proof -
  have t: "triple (\<lambda>_. True) (store_load faults en st) (\<lambda>r _. config_valid (fst r)) (\<lambda>_ _. True)"
  proof (cases "resolved_path en st")
    case None
    then show ?thesis by (simp add: store_load_def failure_def triple_throw)
  next
    case (Some path)
    have "triple (\<lambda>_. True) (load_config_file faults en path) (\<lambda>r _. config_valid (fst r)) (\<lambda>_ _. True)"
      by (rule triple_weaken [OF triple_load_config_file [where P = "\<lambda>_. True" and E = "\<lambda>_ _. True"]])
        (auto simp: stops_def decode_valid_def config_valid_def default_config_def split: if_splits option.splits)
    then show ?thesis using Some by (simp add: store_load_def)
  qed
  show ?thesis using triple_resultD [OF t _ assms] by simp
qed

lemma app_bindE:
  assumes "bindP m k s = (Inr y, s')"
  obtains x s1 where "m s = (Inr x, s1)" "k x s1 = (Inr y, s')"
  using assms by (auto simp: bindP_def split: prod.splits sum.splits)

lemma on_diskE:
  assumes "on_disk m s = (Inr x, s')"
  obtains d where "m (a_disk s) = (Inr x, d)" "s' = s\<lparr>a_disk := d\<rparr>"
  using assms by (auto simp: on_disk_def split: prod.splits sum.splits)

lemma on_networkE:
  assumes "on_network m s = (Inr x, s')"
  obtains h where "m (a_history s) = (Inr x, h)" "s' = s\<lparr>a_history := h\<rparr>"
  using assms by (auto simp: on_network_def split: prod.splits sum.splits)

lemma app_tryE:
  assumes "app_try r s = (Inr x, s')" obtains "r = Inr x" "s' = s"
  using assms by (auto simp: app_try_def throwP_def returnP_def split: sum.splits)

lemma login_with_profile_run:
  assumes "login_with_profile en sv opts p s = (r, s')" "a_history s = []"
  shows "(\<exists>e. r = Inl e) \<and> a_history s' = [] \<or>
    (\<exists>ip d x. sdk_login 61 (login_world en sv opts p ip d) (new_client False) True (login_request_of opts p) [] = (x, a_history s') \<and>
       r = (case x of Inl e \<Rightarrow> Inl (AppError e) | Inr y \<Rightarrow> Inr y))"
proof (cases "app_client (lo_bind opts) (BindIP p)")
  case (Inl e)
  then show ?thesis using assms by (auto simp: login_with_profile_def app_try_def bindP_def throwP_def)
next
  case (Inr ip)
  obtain x h where "sdk_login 61 (login_world en sv opts p ip (a_disk s)) (new_client False) True (login_request_of opts p) [] = (x, h)"
    by fastforce
  moreover from this have "r = (case x of Inl e \<Rightarrow> Inl (AppError e) | Inr y \<Rightarrow> Inr y)" "a_history s' = h"
    using assms Inr by (auto simp: login_with_profile_def app_try_def bindP_def returnP_def on_network_def)
  ultimately show ?thesis by blast
qed

text \<open>
  What a login of the service is meant for: a user and the policy for a session that is there already, of the
  profile that was chosen from the configuration on the disk, or the requested user and the refusing policy when the
  command needs no configuration.
\<close>

definition login_target ::
    "app_env \<Rightarrow> service \<Rightarrow> login_options \<Rightarrow> disk \<Rightarrow> string \<Rightarrow> profile_switch \<Rightarrow> bool" where
  "login_target en sv opts d user policy \<longleftrightarrow>
     (if login_requires_config opts then
        \<exists>cfg found d' p name.
          store_load (ae_faults en) (ae_config en) (sv_store sv) d = (Inr (cfg, found), d') \<and>
          config_valid cfg \<and> map_of (Profiles cfg) name = Some p \<and>
          chosen_profile cfg (lo_profile opts) (lo_expected opts) name \<and>
          user = ProfileUsername p \<and> policy = ProfileSwitch p
      else user = lo_expected opts \<and> policy = ProfileSwitchRefuse)"

text \<open>The command or the profile asks for another account's session to be replaced.\<close>

definition may_switch :: "app_env \<Rightarrow> service \<Rightarrow> login_options \<Rightarrow> disk \<Rightarrow> bool" where
  "may_switch en sv opts d \<longleftrightarrow> lo_switch opts \<or> (\<exists>user. login_target en sv opts d user SwitchLogoutCurrent)"

lemma app_login_run:
  assumes "app_login en sv opts s = (r, s')" "a_history s = []"
  shows "(\<exists>e. r = Inl e) \<and> a_history s' = [] \<or>
    (\<exists>p ip d x. login_target en sv opts (a_disk s) (ProfileUsername p) (ProfileSwitch p) \<and>
       (lo_expected opts \<noteq> '''' \<longrightarrow> ProfileUsername p = lo_expected opts) \<and>
       sdk_login 61 (login_world en sv opts p ip d) (new_client False) True (login_request_of opts p) [] = (x, a_history s') \<and>
       r = (case x of Inl e \<Rightarrow> Inl (AppError e) | Inr y \<Rightarrow> Inr y))"
proof (cases "login_requires_config opts")
  case False
  let ?p = "zero_profile\<lparr>ProfileUsername := lo_expected opts, ProfileSwitch := ProfileSwitchRefuse\<rparr>"
  have "login_with_profile en sv opts ?p s = (r, s')"
    using assms(1) False by (simp add: app_login_def resolve_login_target_def bindP_def returnP_def)
  moreover have "login_target en sv opts (a_disk s) (ProfileUsername ?p) (ProfileSwitch ?p)" "ProfileUsername ?p = lo_expected opts"
    using False by (simp_all add: login_target_def)
  ultimately show ?thesis using login_with_profile_run [of en sv opts ?p s r s'] assms(2) by blast
next
  case True
  obtain l d where l: "store_load (ae_faults en) (ae_config en) (sv_store sv) (a_disk s) = (l, d)" by fastforce
  show ?thesis
  proof (cases l)
    case (Inl e)
    then show ?thesis using assms True l by (auto simp: app_login_def bindP_def on_disk_def)
  next
    case (Inr cf)
    obtain cfg found where cf: "cf = (cfg, found)" by (cases cf)
    show ?thesis
    proof (cases "resolve_login_target (Some cfg) opts")
      case None
      then show ?thesis
        using assms True l Inr cf by (auto simp: app_login_def bindP_def on_disk_def returnP_def throwP_def)
    next
      case (Some p)
      have valid: "config_valid cfg" using l Inr cf store_load_valid by simp
      obtain name where "resolve_configured_profile cfg (lo_profile opts) (lo_expected opts) = Some (p, name)"
        using True Some by (auto simp: resolve_login_target_def)
      then have "login_target en sv opts (a_disk s) (ProfileUsername p) (ProfileSwitch p)"
          "lo_expected opts \<noteq> '''' \<longrightarrow> ProfileUsername p = lo_expected opts"
        using True l Inr cf valid resolve_configured_iff [OF valid] by (fastforce simp: login_target_def)+
      moreover have "login_with_profile en sv opts p (s\<lparr>a_disk := d\<rparr>) = (r, s')"
        using assms True l Inr cf Some by (simp add: app_login_def bindP_def on_disk_def returnP_def)
      ultimately show ?thesis using login_with_profile_run [of en sv opts p "s\<lparr>a_disk := d\<rparr>" r s'] assms(2) by fastforce
    qed
  qed
qed

text \<open>C28: A login of the service that succeeds leaves a session online as the user that was asked for, or, when
  the command names none, as the user of the profile that was chosen from the configuration on the disk.
  When neither the command nor that profile asks for a switch, a session that is online already is kept, whoever's it
  is: reading the gateway's status is the only request the login makes, and it answers that this user is already
  online, or fails with a session conflict that names both accounts.\<close>

theorem service_login_session:
  assumes "app_login en sv opts s = (r, s')" "a_history s = []"
  shows "(\<forall>outcome st. r = Inr (Some (outcome, st)) \<longrightarrow> s_session st = StOnline \<and>
      (\<exists>user policy. login_target en sv opts (a_disk s) user policy \<and> s_username st = trim_space user \<and>
         (lo_expected opts \<noteq> '''' \<longrightarrow> user = lo_expected opts))) \<and>
    (\<forall>st. \<not> may_switch en sv opts (a_disk s) \<longrightarrow> first_status (a_history s') = Some st \<longrightarrow> s_session st = StOnline \<longrightarrow>
      http_requests (a_history s') = [get_request (ep_status default_endpoints)] \<and>
      (\<exists>user policy. login_target en sv opts (a_disk s) user policy \<and> (lo_expected opts \<noteq> '''' \<longrightarrow> user = lo_expected opts) \<and>
         r = (if s_username st = trim_space user then Inr (Some (LoginAlreadyOnline, st))
              else Inl (AppError (conflict_error (trim_space user) (s_username st))))))"
proof -
  from app_login_run [OF assms] show ?thesis
  proof (elim disjE exE conjE)
    fix e assume "r = Inl e" "a_history s' = []"
    then show ?thesis by simp
  next
    fix p ip d x
    assume target: "login_target en sv opts (a_disk s) (ProfileUsername p) (ProfileSwitch p)"
        "lo_expected opts \<noteq> '''' \<longrightarrow> ProfileUsername p = lo_expected opts"
      and net: "sdk_login 61 (login_world en sv opts p ip d) (new_client False) True (login_request_of opts p) [] = (x, a_history s')"
      and r: "r = (case x of Inl e \<Rightarrow> Inl (AppError e) | Inr y \<Rightarrow> Inr y)"
    have rq: "lr_expected (login_request_of opts p) = ProfileUsername p"
      "lr_switch (login_request_of opts p) = login_switch opts p"
      by (simp_all add: login_request_of_def)
    have online: "s_session st = StOnline \<and> s_username st = trim_space (ProfileUsername p)"
      if "r = Inr (Some (outcome, st))" for outcome st
    proof -
      have "x = Inr (Some (outcome, st))" using that r by (cases x) simp_all
      from login_run(3) [OF net this] show ?thesis by (simp add: session_for_def online_as_def rq)
    qed
    have kept: "untouched (trim_space (ProfileUsername p)) x (a_history s')" if "\<not> may_switch en sv opts (a_disk s)"
    proof -
      have "ProfileSwitch p \<noteq> SwitchLogoutCurrent" "\<not> lo_switch opts"
        using that target(1) by (auto simp: may_switch_def)
      then have "login_switch opts p \<noteq> SwitchLogoutExisting" by (simp add: login_switch_def)
      then show ?thesis using login_untouched [OF net] by (simp add: rq)
    qed
    have foreign: "http_requests (a_history s') = [get_request (ep_status default_endpoints)] \<and>
        r = (if s_username st = trim_space (ProfileUsername p) then Inr (Some (LoginAlreadyOnline, st))
             else Inl (AppError (conflict_error (trim_space (ProfileUsername p)) (s_username st))))"
      if "\<not> may_switch en sv opts (a_disk s)" "first_status (a_history s') = Some st" "s_session st = StOnline" for st
      using kept [OF that(1)] that(2,3) r by (simp add: untouched_def)
    show ?thesis
    proof (intro conjI allI impI)
      fix st assume "\<not> may_switch en sv opts (a_disk s)" "first_status (a_history s') = Some st" "s_session st = StOnline"
      note f = foreign [OF this]
      show "http_requests (a_history s') = [get_request (ep_status default_endpoints)]" using f by blast
      show "\<exists>user policy. login_target en sv opts (a_disk s) user policy \<and> (lo_expected opts \<noteq> '''' \<longrightarrow> user = lo_expected opts) \<and>
         r = (if s_username st = trim_space user then Inr (Some (LoginAlreadyOnline, st))
              else Inl (AppError (conflict_error (trim_space user) (s_username st))))"
        using f target by blast
    qed (use online target in blast)+
  qed
qed

definition demo_app :: app_env where
  "demo_app =
     \<lparr>ae_faults = works, ae_config = w_env, ae_world = (\<lambda>_. demo_world None), ae_interfaces = Inr [],
      ae_ctx = (\<lambda>_. None),
      ae_options = \<lparr>OptionsBaseDir = ''/h'', InputIsTerminal = False, TypedPassword = None, LookupEnv = (\<lambda>_. None)\<rparr>\<rparr>"

definition demo_options :: login_options where
  "demo_options =
     \<lparr>lo_profile = '''', lo_bind = '''', lo_switch = False, lo_method = MethodEmpty, lo_interactions = True,
      lo_expected = ''alice'', lo_credentials = Some (\<lambda>_ _. Inr ''secret'')\<rparr>"

lemma demo_app_login:
  "app_login (demo_app\<lparr>ae_world := (\<lambda>_. demo_world online)\<rparr>) (new_service w_paths) demo_options \<lparr>a_disk = w_disk, a_history = []\<rparr> =
     (case fst (demo_login online) of Inl e \<Rightarrow> Inl (AppError e) | Inr x \<Rightarrow> Inr x,
      \<lparr>a_disk = w_disk, a_history = snd (demo_login online)\<rparr>)"
proof -
  let ?p = "zero_profile\<lparr>ProfileUsername := ''alice'', ProfileSwitch := ProfileSwitchRefuse\<rparr>"
  let ?en = "demo_app\<lparr>ae_world := (\<lambda>_. demo_world online)\<rparr>"
  have target: "resolve_login_target None demo_options = Some ?p" "\<not> login_requires_config demo_options"
    by (simp_all add: resolve_login_target_def login_requires_config_def demo_options_def)
  have client: "app_client (lo_bind demo_options) (BindIP zero_profile) = Inr None"
    by (simp add: app_client_def demo_options_def zero_profile_def)
  have rq: "login_request_of demo_options ?p = demo_request"
    by (simp add: login_request_of_def demo_options_def demo_request_def login_method_def login_switch_def zero_profile_def)
  have world: "login_world ?en (new_service w_paths) demo_options ?p None d = demo_world online" for d
    by (simp add: login_world_def demo_options_def demo_world_def)
  show ?thesis
    by (simp add: app_login_def target login_with_profile_def client rq world app_try_def on_network_def bindP_def returnP_def
        demo_login_def [symmetric] split: prod.split)
qed

text \<open>Asked to log in as alice: from an offline gateway she gets online, and bob's session is kept.\<close>

theorem service_login_session_witness:
  "(\<exists>outcome st. fst (app_login (demo_app\<lparr>ae_world := (\<lambda>_. demo_world None)\<rparr>) (new_service w_paths) demo_options
      \<lparr>a_disk = w_disk, a_history = []\<rparr>) = Inr (Some (outcome, st)) \<and> s_session st = StOnline \<and> s_username st = ''alice'') \<and>
   (\<exists>s'. app_login (demo_app\<lparr>ae_world := (\<lambda>_. demo_world (Some ''bob''))\<rparr>) (new_service w_paths) demo_options
      \<lparr>a_disk = w_disk, a_history = []\<rparr> = (Inl (AppError (conflict_error ''alice'' ''bob'')), s') \<and>
      http_requests (a_history s') = [get_request (ep_status default_endpoints)])"
proof -
  let ?s = "\<lparr>a_disk = w_disk, a_history = []\<rparr>"
  let ?off = "demo_app\<lparr>ae_world := (\<lambda>_. demo_world None)\<rparr>" and ?bob = "demo_app\<lparr>ae_world := (\<lambda>_. demo_world (Some ''bob''))\<rparr>"
  have alice: "trim_space ''alice'' = ''alice''" by code_simp
  obtain h where off: "app_login ?off (new_service w_paths) demo_options ?s =
      (Inr (Some (LoginLoggedIn, demo_status ''alice'')), \<lparr>a_disk = w_disk, a_history = h\<rparr>)"
    using demo_login_result by (simp add: demo_app_login)
  have bob: "app_login ?bob (new_service w_paths) demo_options ?s =
      (Inl (AppError (conflict_error ''alice'' ''bob'')),
       \<lparr>a_disk = w_disk, a_history = [EvUnlock] @ demo_query ''bob'' @ [EvLock None]\<rparr>)"
    by (simp add: demo_app_login demo_login_conflict)
  have refused: "\<not> may_switch ?bob (new_service w_paths) demo_options w_disk"
    by (simp add: may_switch_def login_target_def login_requires_config_def demo_options_def)
  have first: "first_status ([EvUnlock] @ demo_query ''bob'' @ [EvLock None]) = Some (demo_status ''bob'')"
    "s_session (demo_status ''bob'') = StOnline"
    by (simp_all add: demo_query_def demo_status_def status_of_srun_def demo_texts)
  have "http_requests ([EvUnlock] @ demo_query ''bob'' @ [EvLock None]) = [get_request (ep_status default_endpoints)]"
    using service_login_session [OF bob] refused first by simp
  moreover have "s_session (demo_status ''alice'') = StOnline \<and> s_username (demo_status ''alice'') = ''alice''"
    using service_login_session [OF off] alice by (auto simp: demo_options_def)
  ultimately show ?thesis using off bob by auto
qed

end
