(* ===== verification/CliRender.thy ===== *)
theory CliRender
  imports CliArgs AppService
begin

text \<open>
  \<open>internal/cli/render.go\<close>: what the commands print.  A JSON document is kept as its data after the
  \<open>MarshalJSON\<close> methods, human text as its lines; \<open>rt_stdout_ok\<close> says whether a JSON document can be
  written.  The exit status of a command is an integer.
\<close>

section \<open>Wire errors\<close>

record wire_migration_profile =
  wm_name :: string
  wm_source :: string
  wm_status :: string
  wm_username :: bool
  wm_default :: bool

record migration_report =
  mr_sources :: nat
  mr_profiles :: "wire_migration_profile list"
  mr_conflicts :: "(string \<times> string) list"
  mr_warnings :: "string list"

record wire_details =
  wd_interaction :: "interaction_details option"
  wd_protocol :: string
  wd_migration :: "migration_report option"

definition no_details :: wire_details where
  "no_details = \<lparr>wd_interaction = None, wd_protocol = '''', wd_migration = None\<rparr>"

record wire_error =
  we_code :: string
  we_message :: string
  we_retryable :: bool
  we_details :: wire_details

definition code_named :: "string \<Rightarrow> sdk_code" where
  "code_named s =
     (case find (\<lambda>c. code_string c = s) [CodeInvalidArgument, CodeConfig, CodeNetwork, CodeAuthentication,
        CodeSessionConflict, CodeProtocolChanged, CodeInteractionRequired, CodeUnsupported, CodeInternal] of
        None \<Rightarrow> CodeOther s | Some c \<Rightarrow> c)"

definition is_public_error_code :: "string \<Rightarrow> bool" where
  "is_public_error_code s = (case code_named s of CodeOther _ \<Rightarrow> False | _ \<Rightarrow> True)"

definition safe_wire_message :: "string \<Rightarrow> string" where
  "safe_wire_message s =
     (case code_named s of
        CodeInvalidArgument \<Rightarrow> ''invalid arguments''
      | CodeConfig \<Rightarrow> ''configuration error''
      | CodeNetwork \<Rightarrow> ''network request failed''
      | CodeAuthentication \<Rightarrow> ''authentication failed''
      | CodeSessionConflict \<Rightarrow> ''another account is already online''
      | CodeProtocolChanged \<Rightarrow> ''gateway protocol changed''
      | CodeInteractionRequired \<Rightarrow> ''login requires human verification''
      | CodeUnsupported \<Rightarrow> ''operation is unsupported''
      | _ \<Rightarrow> ''internal error'')"

definition sanitize_session_binding :: "string \<Rightarrow> string" where
  "sanitize_session_binding s = (if s = ''cas_session'' then s else '''')"

definition sanitize_resume_mode :: "string \<Rightarrow> string" where
  "sanitize_resume_mode s = (if s \<in> {''retry_in_tty'', ''restart'', ''official_portal''} then s else '''')"

definition help_ids :: "string list" where
  "help_ids = [''AUTH-QR-001'', ''AUTH-SMS-001'', ''AUTH-DEVICE-001'', ''AUTH-UNKNOWN-001'', ''AUTH-CHALLENGE-001'']"

definition sanitize_help_id :: "string \<Rightarrow> string" where
  "sanitize_help_id s = (if s \<in> set help_ids then s else '''')"

definition protocol_parts :: "string list" where
  "protocol_parts = [''cas_login'', ''cas_qr'', ''gateway_status'', ''gateway_activation'', ''gateway_logout'', ''redirect'']"

definition sanitize_protocol_part :: "string \<Rightarrow> string" where
  "sanitize_protocol_part s = (if s \<in> set protocol_parts then s else '''')"

text \<open>\<open>sanitizeInteraction\<close>.\<close>

definition sanitize_interaction :: "interaction_details option \<Rightarrow> interaction_details option" where
  "sanitize_interaction v =
     (case v of None \<Rightarrow> None
      | Some d \<Rightarrow>
          if \<not> is_interaction_auth_method (d_origin d) then None
          else Some \<lparr>d_challenge = (if is_interaction_challenge (d_challenge d) then d_challenge d else ChallengeKindUnknown),
            d_origin = d_origin d,
            d_capability = dedup_seen id [] (filter is_interaction_capability (d_capability d)),
            d_session = sanitize_session_binding (d_session d), d_resume = sanitize_resume_mode (d_resume d),
            d_tty = d_tty d, d_help = sanitize_help_id (d_help d)\<rparr>)"

definition sanitize_wire_details :: "string \<Rightarrow> wire_details \<Rightarrow> wire_details" where
  "sanitize_wire_details code d =
     (case code_named code of
        CodeInteractionRequired \<Rightarrow> no_details\<lparr>wd_interaction := sanitize_interaction (wd_interaction d)\<rparr>
      | CodeProtocolChanged \<Rightarrow> no_details\<lparr>wd_protocol := sanitize_protocol_part (wd_protocol d)\<rparr>
      | CodeConfig \<Rightarrow> no_details\<lparr>wd_migration := wd_migration d\<rparr>
      | _ \<Rightarrow> no_details)"

text \<open>\<open>wireErrorDetailsOf\<close>, \<open>wireErrorOf\<close>, \<open>wireErrorMessage\<close> and \<open>exitCode\<close>.\<close>

definition wire_details_of :: "sdk_error \<Rightarrow> wire_details" where
  "wire_details_of e =
     (case e_code e of
        CodeInteractionRequired \<Rightarrow>
          (case e_interaction e of None \<Rightarrow> no_details
           | Some d \<Rightarrow> sanitize_wire_details (code_string (e_code e)) (no_details\<lparr>wd_interaction := Some d\<rparr>))
      | CodeProtocolChanged \<Rightarrow>
          sanitize_wire_details (code_string (e_code e)) (no_details\<lparr>wd_protocol := e_protocol_part e\<rparr>)
      | _ \<Rightarrow> no_details)"

definition wire_error_of :: "go_error \<Rightarrow> string \<times> bool \<times> wire_details" where
  "wire_error_of e =
     (case context_sentinel e of
        Some CtxCanceled \<Rightarrow> (code_string CodeNetwork, False, no_details)
      | Some CtxDeadlineExceeded \<Rightarrow> (code_string CodeNetwork, True, no_details)
      | None \<Rightarrow>
          (case e of
             ErrSdk s \<Rightarrow>
               if is_public_error_code (code_string (e_code s))
               then (code_string (e_code s), e_retryable s, wire_details_of s)
               else (code_string CodeInternal, False, no_details)
           | _ \<Rightarrow> (code_string CodeInternal, False, no_details)))"

definition wire_error_message :: "go_error \<Rightarrow> string \<Rightarrow> string" where
  "wire_error_message e code =
     (case context_sentinel e of
        Some CtxCanceled \<Rightarrow> ''operation canceled''
      | Some CtxDeadlineExceeded \<Rightarrow> ''operation timed out''
      | None \<Rightarrow> safe_wire_message code)"

definition exit_code :: "go_error \<Rightarrow> int" where
  "exit_code e =
     (if context_sentinel e = Some CtxCanceled then 130
      else (case code_of (Some e) of
          CodeInvalidArgument \<Rightarrow> 2 | CodeConfig \<Rightarrow> 2 | CodeNetwork \<Rightarrow> 3 | CodeAuthentication \<Rightarrow> 4
        | CodeSessionConflict \<Rightarrow> 5 | CodeProtocolChanged \<Rightarrow> 6 | CodeInteractionRequired \<Rightarrow> 7
        | CodeUnsupported \<Rightarrow> 2 | _ \<Rightarrow> 1))"

text \<open>\<open>wireError.MarshalJSON\<close>.\<close>

definition marshal_wire_error :: "wire_error \<Rightarrow> wire_error" where
  "marshal_wire_error e =
     (let public = is_public_error_code (we_code e);
          code = (if public then we_code e else code_string CodeInternal)
      in \<lparr>we_code = code, we_message = safe_wire_message code, we_retryable = (public \<and> we_retryable e),
          we_details = sanitize_wire_details code (if public then we_details e else no_details)\<rparr>)"

section \<open>Wire data\<close>

record wire_status =
  ws_network :: string
  ws_session :: string
  ws_username :: "string option"
  ws_ip :: "ipv4 option"
  ws_observed :: int
  ws_summary :: "summary option"

definition session_string :: "sdk_session \<Rightarrow> string" where
  "session_string s =
     (case s of StNone \<Rightarrow> '''' | StOnline \<Rightarrow> ''online'' | StOffline \<Rightarrow> ''offline'' | StUnknown \<Rightarrow> ''unknown'')"

definition to_wire_status :: "sdk_status \<Rightarrow> wire_status" where
  "to_wire_status s =
     \<lparr>ws_network = ''reachable'', ws_session = session_string (s_session s),
      ws_username = (if s_username s = '''' then None else Some (s_username s)), ws_ip = s_ip s,
      ws_observed = s_observed s, ws_summary = s_summary s\<rparr>"

definition login_outcome_string :: "login_outcome \<Rightarrow> string" where
  "login_outcome_string r = (case r of LoginLoggedIn \<Rightarrow> ''logged_in'' | LoginAlreadyOnline \<Rightarrow> ''already_online'')"

definition logout_outcome_string :: "logout_outcome \<Rightarrow> string" where
  "logout_outcome_string r = (case r of LogoutLoggedOut \<Rightarrow> ''logged_out'' | LogoutAlreadyOffline \<Rightarrow> ''already_offline'')"

record named_profile =
  np_name :: string
  np_default :: bool
  np_profile :: profile

record scan_result =
  sr_interface :: bind_interface
  sr_status :: "wire_status option"
  sr_error :: "wire_error option"

text \<open>The data of a successful command; \<open>DataPlan\<close> is a plan without its private parts.\<close>

datatype wire_data =
    DataStatus wire_status
  | DataOutcome string wire_status
  | DataInterfaces "bind_interface list"
  | DataScan "scan_result list"
  | DataProfiles "named_profile list"
  | DataProfile named_profile
  | DataRemoved string
  | DataPlan bool "(source_kind \<times> string) list" "migrated_profile list" "conflict list" "string list"
  | DataMigrated bool bool migration_result
  | DataVersion string
  | DataMode string

text \<open>\<open>envelope.MarshalJSON\<close>: either data or exactly one error.\<close>

datatype envelope = Envelope int string "wire_error + wire_data"

definition marshal_envelope :: "string \<Rightarrow> bool \<Rightarrow> wire_data option \<Rightarrow> wire_error option \<Rightarrow> envelope" where
  "marshal_envelope command ok data err =
     (case (ok, data) of
        (True, Some x) \<Rightarrow> Envelope 1 command (Inr x)
      | _ \<Rightarrow>
          Envelope 1 command (Inl (marshal_wire_error
            (case err of None \<Rightarrow> \<lparr>we_code = code_string CodeInternal, we_message = '''', we_retryable = False, we_details = no_details\<rparr>
             | Some e \<Rightarrow> e))))"

section \<open>Rendering\<close>

datatype cli_output = OutJson envelope | OutText string | ErrText string | ErrQR string

record cli_state =
  c_app :: app_state
  c_output :: "cli_output list"
  c_input :: "string list"
  c_checks :: nat

type_synonym 'a cli = "(cli_state, app_error, 'a) proc"

definition emit_output :: "cli_output \<Rightarrow> unit cli" where
  "emit_output x = modifyP (\<lambda>s. s\<lparr>c_output := c_output s @ [x]\<rparr>)"

record renderer =
  rd_mode :: output_mode
  rd_stdout_ok :: bool

text \<open>A write of human text, and the same without a document of its own on standard output.\<close>

definition print_human :: "renderer \<Rightarrow> string list \<Rightarrow> unit cli" where
  "print_human r texts =
     (if rd_mode r = OutputHuman then modifyP (\<lambda>s. s\<lparr>c_output := c_output s @ map OutText texts\<rparr>) else returnP ())"

definition encode_json :: "renderer \<Rightarrow> envelope \<Rightarrow> bool cli" where
  "encode_json r e =
     (if rd_stdout_ok r then bindP (emit_output (OutJson e)) (\<lambda>_. returnP True)
      else bindP (emit_output (ErrText ''Error: unable to write JSON output'')) (\<lambda>_. returnP False))"

definition render_success :: "renderer \<Rightarrow> string \<Rightarrow> wire_data \<Rightarrow> int cli" where
  "render_success r command data =
     (if rd_mode r = OutputJSON then
        bindP (encode_json r (marshal_envelope command True (Some data) None)) (\<lambda>ok. returnP (if ok then 0 else 1))
      else returnP 0)"

definition interaction_help :: "interaction_details option \<Rightarrow> string list" where
  "interaction_help v =
     (let portal = ''Complete the required verification in the official NEU portal, then rerun login.'' in
      case v of None \<Rightarrow> [portal]
      | Some d \<Rightarrow>
          (if d_resume d = ''retry_in_tty'' then
             ''Retry from a terminal connected to both stdin and stderr. SSH with a TTY is supported; no desktop GUI is required, and a terminal QR code can be scanned from another device.''
           else if d_resume d = ''restart'' then ''Restart the login command to request a new verification session.''
           else if d_resume d = ''official_portal'' then portal
           else if d_tty d then
             ''Retry from a terminal connected to both stdin and stderr. SSH with a TTY is supported; no desktop GUI is required.''
           else portal) #
          (if d_help d \<noteq> '''' then [''Help ID: '' @ d_help d] else []))"

definition render_failure_with :: "renderer \<Rightarrow> string \<Rightarrow> go_error \<Rightarrow> migration_report option \<Rightarrow> int cli" where
  "render_failure_with r command e supplied =
     (case wire_error_of e of (code, retryable, details0) \<Rightarrow>
        let details = (if code = code_string CodeConfig \<and> supplied \<noteq> None
                       then details0\<lparr>wd_migration := supplied\<rparr> else details0);
            message = wire_error_message e code
        in if rd_mode r = OutputJSON then
             bindP (encode_json r (marshal_envelope command False None
                (Some \<lparr>we_code = code, we_message = message, we_retryable = retryable, we_details = details\<rparr>)))
               (\<lambda>ok. returnP (if ok then exit_code e else 1))
           else
             bindP (emit_output (ErrText (''Error: '' @ message))) (\<lambda>_.
             bindP (if code = code_string CodeInteractionRequired
                    then modifyP (\<lambda>s. s\<lparr>c_output := c_output s @ map ErrText (interaction_help (wd_interaction details))\<rparr>)
                    else returnP ()) (\<lambda>_.
             returnP (exit_code e))))"

definition render_failure :: "renderer \<Rightarrow> string \<Rightarrow> go_error \<Rightarrow> int cli" where
  "render_failure r command e = render_failure_with r command e None"

text \<open>\<open>printStatus\<close>.\<close>

definition ip_text :: "ipv4 \<Rightarrow> string" where
  "ip_text ip = (case ip of (a, b, c, d) \<Rightarrow> join_str ''.'' (map nat_dec [a, b, c, d]))"

definition status_lines :: "wire_status \<Rightarrow> string list" where
  "status_lines s =
     [''Network: '' @ ws_network s, ''Session: '' @ ws_session s] @
     (case ws_username s of None \<Rightarrow> [] | Some u \<Rightarrow> [''Username: '' @ u]) @
     (case ws_ip s of None \<Rightarrow> [] | Some ip \<Rightarrow> [''Online IP: '' @ ip_text ip])"

end
