(* ===== verification/CliProfiles.thy ===== *)
theory CliProfiles
  imports CliRender
begin

text \<open>
  The runtime of the commands (\<open>commandRuntime\<close> in \<open>internal/cli/commands.go\<close>) and the profile commands
  (\<open>profiles.go\<close>): listing, showing, adding with the provisioning of a keyring entry, removing.
\<close>

section \<open>Runtime\<close>

text \<open>\<open>Gateway\<close>; a login without a result never ended.\<close>

record gateway =
  gw_status :: "string \<Rightarrow> string \<Rightarrow> sdk_status app"
  gw_login :: "login_options \<Rightarrow> (login_outcome \<times> sdk_status) option app"
  gw_logout :: "string \<Rightarrow> string \<Rightarrow> (logout_outcome \<times> sdk_status) app"
  gw_interfaces :: "bind_interface list app"

definition service_gateway :: "app_env \<Rightarrow> service \<Rightarrow> gateway" where
  "service_gateway en sv =
     \<lparr>gw_status = app_status en sv, gw_login = app_login en sv, gw_logout = app_logout en sv,
      gw_interfaces = app_interfaces en\<rparr>"

text \<open>
  \<open>rt_input\<close> is whether there is an input, \<open>rt_ask\<close> what the password prompt gives for a user name,
  \<open>rt_random\<close> the bytes of a fresh reference, \<open>rt_txid\<close> and \<open>rt_now\<close> those of a migration.
\<close>

record runtime = renderer +
  rt_gateway :: gateway
  rt_env :: app_env
  rt_store :: store
  rt_paths :: config_paths
  rt_input :: bool
  rt_tty :: bool
  rt_profile :: string
  rt_bind :: string
  rt_version :: string
  rt_ask :: "string \<Rightarrow> go_error + string"
  rt_random :: "string option"
  rt_txid :: "string option"
  rt_now :: int

definition on_app :: "'a app \<Rightarrow> 'a cli" where
  "on_app m s = (case m (c_app s) of (r, a) \<Rightarrow> (r, s\<lparr>c_app := a\<rparr>))"

definition cli_disk :: "'a fsop \<Rightarrow> 'a cli" where
  "cli_disk m = on_app (on_disk m)"

definition cli_fail :: "go_error \<Rightarrow> 'a cli" where
  "cli_fail e = throwP (AppError e)"

text \<open>The errors of \<open>run.go\<close>: their message is never printed.\<close>

definition invalid_argument :: go_error where
  "invalid_argument = ErrSdk (new_error CodeInvalidArgument ''invalid arguments'' False None)"

definition password_argument_error :: go_error where
  "password_argument_error =
     ErrSdk (new_error CodeInvalidArgument
       ''passwords may not be supplied on the command line; use a credential provider'' False None)"

definition config_failure_of :: "go_error \<Rightarrow> go_error" where
  "config_failure_of e = ErrSdk (new_error CodeConfig ''configuration error'' False (Some e))"

definition internal_error :: go_error where
  "internal_error = ErrSdk (new_error CodeInternal ''gateway factory is unavailable'' False None)"

text \<open>The return of a failure: an error of the operation is rendered, the end of the process is not.\<close>

definition or_report :: "'a cli \<Rightarrow> (go_error \<Rightarrow> int cli) \<Rightarrow> ('a \<Rightarrow> int cli) \<Rightarrow> int cli" where
  "or_report m report k =
     handleP m (\<lambda>e. case e of AppStopped \<Rightarrow> throwP AppStopped | AppError g \<Rightarrow> report g) k"

section \<open>Listing and showing\<close>

definition load_config :: "'a runtime_scheme \<Rightarrow> (config \<times> bool) cli" where
  "load_config r = cli_disk (store_load (ae_faults (rt_env r)) (ae_config (rt_env r)) (rt_store r))"

definition sorted_names :: "config \<Rightarrow> string list" where
  "sorted_names cfg = sort (profile_names cfg)"

definition named :: "config \<Rightarrow> string \<Rightarrow> named_profile" where
  "named cfg name =
     \<lparr>np_name = name, np_default = (name = DefaultProfile cfg), np_profile = the (map_of (Profiles cfg) name)\<rparr>"

definition provider_text :: "credential_provider \<Rightarrow> string" where
  "provider_text p =
     (case p of ProviderKeyring \<Rightarrow> ''keyring'' | ProviderEnv \<Rightarrow> ''env'' | ProviderFile \<Rightarrow> ''file''
      | ProviderPrompt \<Rightarrow> ''prompt'' | ProviderOther s \<Rightarrow> s)"

definition switch_text :: "profile_switch \<Rightarrow> string" where
  "switch_text p =
     (case p of SwitchUnset \<Rightarrow> '''' | ProfileSwitchRefuse \<Rightarrow> ''refuse'' | SwitchLogoutCurrent \<Rightarrow> ''logout-current''
      | ProfileSwitchOther s \<Rightarrow> s)"

definition tab :: string where "tab = [CHR 0x09]"

definition profile_line :: "named_profile \<Rightarrow> string" where
  "profile_line n =
     ''['' @ (if np_default n then ''*'' else '' '') @ ''] '' @ np_name n @ tab @ ProfileUsername (np_profile n) @ tab @
     provider_text (Provider (ProfileCredential (np_profile n)))"

definition profile_list :: "'a runtime_scheme \<Rightarrow> int cli" where
  "profile_list r =
     or_report (load_config r) (\<lambda>e. render_failure (renderer.truncate r) ''profile.list'' (config_failure_of e)) (\<lambda>(cfg, _).
     let profiles = map (named cfg) (sorted_names cfg) in
     bindP (print_human (renderer.truncate r) (map profile_line profiles)) (\<lambda>_.
     render_success (renderer.truncate r) ''profile.list'' (DataProfiles profiles)))"

definition profile_lines :: "named_profile \<Rightarrow> string list" where
  "profile_lines n =
     (let p = np_profile n in
      [''Profile: '' @ np_name n, ''Username: '' @ ProfileUsername p,
       ''Credential: '' @ provider_text (Provider (ProfileCredential p)) @ '':'' @ Reference (ProfileCredential p),
       ''Bind IP: '' @ BindIP p, ''Switch: '' @ switch_text (ProfileSwitch p)])"

definition profile_show :: "'a runtime_scheme \<Rightarrow> string \<Rightarrow> int cli" where
  "profile_show r name =
     or_report (load_config r) (\<lambda>e. render_failure (renderer.truncate r) ''profile.show'' (config_failure_of e)) (\<lambda>(cfg, _).
     case config_profile cfg name of
       None \<Rightarrow> render_failure (renderer.truncate r) ''profile.show'' (config_failure_of ErrOther)
     | Some (p, found) \<Rightarrow>
         let n = \<lparr>np_name = found, np_default = (found = DefaultProfile cfg), np_profile = p\<rparr> in
         bindP (print_human (renderer.truncate r) (profile_lines n)) (\<lambda>_.
         render_success (renderer.truncate r) ''profile.show'' (DataProfile n)))"

section \<open>Removing\<close>

definition remove_from_config :: "string \<Rightarrow> config \<Rightarrow> config option" where
  "remove_from_config name cfg =
     (if map_of (Profiles cfg) name = None then None
      else Some (cfg\<lparr>Profiles := AList.delete name (Profiles cfg),
        DefaultProfile := (if DefaultProfile cfg = name then '''' else DefaultProfile cfg)\<rparr>))"

definition profile_remove :: "'a runtime_scheme \<Rightarrow> string \<Rightarrow> int cli" where
  "profile_remove r name =
     or_report
       (cli_disk (store_update (ae_faults (rt_env r)) (ae_config (rt_env r)) (rt_store r) (remove_from_config name)))
       (\<lambda>e. render_failure (renderer.truncate r) ''profile.remove'' (config_failure_of e)) (\<lambda>_.
     bindP (print_human (renderer.truncate r)
              [''Removed profile '' @ name @ ''; provider-owned credentials were not deleted.'']) (\<lambda>_.
     render_success (renderer.truncate r) ''profile.remove'' (DataRemoved name)))"

section \<open>Adding\<close>

definition add_to_config :: "string \<Rightarrow> profile \<Rightarrow> bool \<Rightarrow> config \<Rightarrow> config" where
  "add_to_config name p set_default cfg =
     cfg\<lparr>Profiles := AList.update name p (Profiles cfg),
         DefaultProfile := (if set_default \<or> DefaultProfile cfg = '''' then name else DefaultProfile cfg)\<rparr>"

text \<open>
  \<open>commitProfileAddition\<close>.  The callback of \<open>Store.Update\<close> sets \<open>keyringStored\<close>; the procedure under the
  lock returns that variable beside the error of the update, and \<open>savedAsDefault\<close> beside its success.
\<close>

definition update_callback ::
    "(nat \<Rightarrow> fault) \<Rightarrow> plan_env \<Rightarrow> string \<Rightarrow> profile \<Rightarrow> bool \<Rightarrow> string \<Rightarrow> config \<Rightarrow> config fsop" where
  "update_callback faults en name p set_default password cfg =
     (if map_of (Profiles cfg) name \<noteq> None then failure ''profile already exists''
      else
        bindP (if Provider (ProfileCredential p) = ProviderKeyring
               then set_fresh faults en (ProfileCredential p) password else returnP ()) (\<lambda>_.
        returnP (add_to_config name p set_default cfg)))"

definition update_publish :: "(nat \<Rightarrow> fault) \<Rightarrow> plan_env \<Rightarrow> string \<Rightarrow> config \<Rightarrow> unit fsop" where
  "update_publish faults en path cfg =
     (case encode_config en cfg of
        None \<Rightarrow> failure ''validate config''
      | Some data \<Rightarrow> replace_prepared faults path data True)"

definition commit_locked ::
    "(nat \<Rightarrow> fault) \<Rightarrow> plan_env \<Rightarrow> string \<Rightarrow> profile \<Rightarrow> bool \<Rightarrow> string \<Rightarrow> string \<Rightarrow> string \<Rightarrow>
       (bool \<times> config_error + bool) fsop" where
  "commit_locked faults en name p set_default password path journal =
     on_failure
       (bindP (reject_pending faults journal) (\<lambda>_.
        bindP (load_config_file faults en path) (\<lambda>(cfg, _).
        update_callback faults en name p set_default password cfg)))
       (\<lambda>e. returnP (Inl (False, e)))
       (\<lambda>cfg.
          on_failure (update_publish faults en path cfg)
            (\<lambda>e. returnP (Inl (Provider (ProfileCredential p) = ProviderKeyring, e)))
            (\<lambda>_. returnP (Inr (DefaultProfile cfg = name))))"

text \<open>\<open>resolveProfileCommitError\<close>.\<close>

definition resolve_commit_error :: "(nat \<Rightarrow> fault) \<Rightarrow> profile \<Rightarrow> bool \<Rightarrow> config_error \<Rightarrow> 'a fsop" where
  "resolve_commit_error faults p keyring_stored e =
     (if \<not> keyring_stored \<or> e = DurabilityUnknown then throwP e
      else
        on_failure (delete_keyring_password faults (ProfileCredential p))
          (\<lambda>_. failure ''keyring credential cleanup is incomplete; manual cleanup is required'')
          (\<lambda>_. throwP e))"

definition commit_addition ::
    "(nat \<Rightarrow> fault) \<Rightarrow> plan_env \<Rightarrow> store \<Rightarrow> string \<Rightarrow> profile \<Rightarrow> bool \<Rightarrow> string \<Rightarrow> bool fsop" where
  "commit_addition faults en st name p set_default password =
     bindP (with_mutation_lock faults en st (commit_locked faults en name p set_default password)) (\<lambda>r.
     case r of Inl (stored, e) \<Rightarrow> resolve_commit_error faults p stored e | Inr is_default \<Rightarrow> returnP is_default)"

text \<open>\<open>profileSaveWithPrompt\<close>.\<close>

definition fresh_profile :: "'a runtime_scheme \<Rightarrow> (string \<times> string) list \<Rightarrow> profile option" where
  "fresh_profile r vs =
     (let p = flagged_profile vs in
      if Provider (ProfileCredential p) = ProviderKeyring \<and> Reference (ProfileCredential p) = ''''
      then map_option (\<lambda>ref. p\<lparr>ProfileCredential := \<lparr>Provider = ProviderKeyring, Reference = ref\<rparr>\<rparr>)
             (new_opaque_reference ''profile-'' (rt_random r))
      else Some p)"

definition ask_password :: "'a runtime_scheme \<Rightarrow> profile \<Rightarrow> string cli" where
  "ask_password r p =
     (if Provider (ProfileCredential p) \<noteq> ProviderKeyring then returnP ''''
      else if \<not> rt_tty r \<or> rd_mode r \<noteq> OutputHuman then cli_fail ErrOther
      else (case rt_ask r (ProfileUsername p) of Inl e \<Rightarrow> cli_fail e | Inr v \<Rightarrow> returnP v))"

definition add_profile :: "'a runtime_scheme \<Rightarrow> string \<Rightarrow> bool \<Rightarrow> profile \<Rightarrow> int cli" where
  "add_profile r name set_default p =
     (let report = (\<lambda>e. render_failure (renderer.truncate r) ''profile.add'' (config_failure_of e)) in
      or_report (load_config r) report (\<lambda>(cfg, _).
      if map_of (Profiles cfg) name \<noteq> None then report ErrOther
      else
        or_report (ask_password r p) report (\<lambda>password.
        or_report (cli_disk (commit_addition (ae_faults (rt_env r)) (ae_config (rt_env r)) (rt_store r)
                     name p set_default password)) report (\<lambda>saved.
        bindP (print_human (renderer.truncate r)
                 [''Saved profile '' @ name @ '' (credentials remain in '' @
                  provider_text (Provider (ProfileCredential p)) @ '').'']) (\<lambda>_.
        render_success (renderer.truncate r) ''profile.add''
          (DataProfile \<lparr>np_name = name, np_default = saved, np_profile = p\<rparr>))))))"

definition profile_save :: "'a runtime_scheme \<Rightarrow> string list \<Rightarrow> int cli" where
  "profile_save r args =
     (let bad = render_failure (renderer.truncate r) ''profile.add'' in
      if has_password_argument args then bad password_argument_error
      else (case args of [] \<Rightarrow> bad invalid_argument
        | name # flags \<Rightarrow>
            if has_prefix name ''-'' then bad invalid_argument
            else (case profile_flags_from False [] flags of
                None \<Rightarrow> bad invalid_argument
              | Some (set_default, vs) \<Rightarrow>
                  (case fresh_profile r vs of
                     None \<Rightarrow> bad (config_failure_of ErrOther)
                   | Some p \<Rightarrow>
                       if \<not> profile_valid p then bad (config_failure_of ErrOther)
                       else add_profile r name set_default p))))"

section \<open>What adding a profile leaves\<close>

text \<open>The keyring with the secret of the profile, when it has one.\<close>

definition provisioned :: "profile \<Rightarrow> string \<Rightarrow> (string \<Rightarrow> string option) \<Rightarrow> (string \<Rightarrow> string option)" where
  "provisioned p password k =
     (if Provider (ProfileCredential p) = ProviderKeyring
      then k(Reference (ProfileCredential p) \<mapsto> password) else k)"

definition addition_of ::
    "plan_env \<Rightarrow> string \<Rightarrow> string \<Rightarrow> profile \<Rightarrow> bool \<Rightarrow> (string \<Rightarrow> node option) \<Rightarrow> (string \<Rightarrow> string option) \<Rightarrow>
       config \<Rightarrow> bool" where
  "addition_of en path name p set_default f k cfg' \<longleftrightarrow>
     (\<exists>cfg. found_config en path f cfg \<and> map_of (Profiles cfg) name = None \<and>
        cfg' = add_to_config name p set_default cfg) \<and>
     (Provider (ProfileCredential p) = ProviderKeyring \<longrightarrow>
        Reference (ProfileCredential p) \<noteq> '''' \<and> k (Reference (ProfileCredential p)) = None)"

definition profile_added ::
    "plan_env \<Rightarrow> string \<Rightarrow> string \<Rightarrow> profile \<Rightarrow> bool \<Rightarrow> string \<Rightarrow> (string \<Rightarrow> node option) \<Rightarrow>
       (string \<Rightarrow> string option) \<Rightarrow> config \<Rightarrow> disk \<Rightarrow> bool" where
  "profile_added en path name p set_default password f k cfg' d \<longleftrightarrow>
     addition_of en path name p set_default f k cfg' \<and>
     (\<exists>data. encode_config en cfg' = Some data \<and> saved path data f (provisioned p password k) d)"

text \<open>The end of the process, or a cleanup that failed: at most the fresh entry of the keyring is left over.\<close>

definition stray ::
    "string \<Rightarrow> profile \<Rightarrow> (string \<Rightarrow> node option) \<Rightarrow> (string \<Rightarrow> string option) \<Rightarrow> disk \<Rightarrow> bool" where
  "stray path p f k d \<longleftrightarrow>
     (\<exists>k'. (\<forall>r. r \<noteq> Reference (ProfileCredential p) \<or> k r \<noteq> None \<longrightarrow> k' r = k r) \<and>
        (unsaved path f k' d \<or> (\<exists>data. saved path data f k' d)))"

definition commit_incomplete :: "string list" where
  "commit_incomplete = ''keyring credential cleanup is incomplete; manual cleanup is required'' # cleanup_incomplete"

definition commit_error ::
    "plan_env \<Rightarrow> string \<Rightarrow> string \<Rightarrow> profile \<Rightarrow> bool \<Rightarrow> string \<Rightarrow> (string \<Rightarrow> node option) \<Rightarrow>
       (string \<Rightarrow> string option) \<Rightarrow> config_error \<Rightarrow> disk \<Rightarrow> bool" where
  "commit_error en path name p set_default password f k e d \<longleftrightarrow>
     (case e of
        Crashed \<Rightarrow> stray path p f k d
      | Failure m \<Rightarrow> unsaved path f k d \<or> m \<in> set commit_incomplete \<and> stray path p f k d
      | PublishedAt _ \<Rightarrow> unsaved path f k d
      | DurabilityUnknown \<Rightarrow> \<exists>cfg'. profile_added en path name p set_default password f k cfg' d)"

lemma uncounted_commit [simp]:
  "uncounted (stray path p f k)" "uncounted (profile_added en path name p sd pw f k cfg')"
  "uncounted (commit_error en path name p sd pw f k e)"
proof -
  have s: "saved path data f k (d\<lparr>d_calls := n\<rparr>) = saved path data f k d"
    "unsaved path f k (d\<lparr>d_calls := n\<rparr>) = unsaved path f k d" for path data f k d n
    using uncounted_saved [of path data f k] uncounted_unsaved [of path f k] by (simp_all add: uncounted_def)
  have c: "stray path p f k (d\<lparr>d_calls := n\<rparr>) = stray path p f k d"
    "profile_added en path name p sd pw f k c (d\<lparr>d_calls := n\<rparr>) = profile_added en path name p sd pw f k c d" for d n c
    by (simp_all add: stray_def profile_added_def s)
  then show "uncounted (stray path p f k)" "uncounted (profile_added en path name p sd pw f k cfg')"
    by (simp_all add: uncounted_def)
  show "uncounted (commit_error en path name p sd pw f k e)"
    by (cases e) (simp_all add: uncounted_def commit_error_def s c)
qed

lemma unsaved_stray: "unsaved path f k d \<Longrightarrow> stray path p f k d"
  by (auto simp: stray_def)

lemma keeps_unsaved: "keeps {lock_path path} f k d \<Longrightarrow> unsaved path f k d"
  unfolding unsaved_def by (erule keeps_mono) simp

lemma commit_error_crash: "commit_error en path name p sd pw f k e d \<Longrightarrow> commit_error en path name p sd pw f k Crashed d"
proof (cases e)
  case DurabilityUnknown
  assume "commit_error en path name p sd pw f k e d"
  then obtain cfg' data where "addition_of en path name p sd f k cfg'" "saved path data f (provisioned p pw k) d"
    using DurabilityUnknown by (auto simp: commit_error_def profile_added_def)
  then show ?thesis
    by (auto simp: commit_error_def stray_def provisioned_def addition_of_def intro!: exI [of _ "provisioned p pw k"])
qed (auto simp: commit_error_def unsaved_stray)

lemma triple_of_states:
  assumes "\<And>f k. triple (\<lambda>d. P d \<and> d_files d = f \<and> d_keyring d = k) m Q E"
  shows "triple P m Q E"
proof -
  have "case m s of (Inl e, s') \<Rightarrow> E e s' | (Inr x, s') \<Rightarrow> Q x s'" if "P s" for s
    using assms [of "d_files s" "d_keyring s"] that by (simp add: triple_def)
  then show ?thesis by (simp add: triple_def)
qed

lemma triple_any: "triple P m (\<lambda>_ _. True) (\<lambda>_ _. True)"
  by (auto simp: triple_def split: prod.splits sum.splits)

abbreviation plain_error :: "config_error \<Rightarrow> disk \<Rightarrow> bool" where
  "plain_error \<equiv> \<lambda>e _. e = Crashed \<or> e \<in> range Failure"

lemma plain_on_failure:
  assumes "\<And>x. triple (\<lambda>_. True) (k x) (\<lambda>_ _. True) plain_error" "\<And>e. triple (\<lambda>_. True) (h e) (\<lambda>_ _. True) plain_error"
  shows "triple (\<lambda>_. True) (on_failure m h k) (\<lambda>_ _. True) plain_error"
  by (rule triple_on_failure [OF triple_any assms]) simp

lemma triple_set_fresh_plain:
  "triple (\<lambda>_. True) (set_fresh faults en ref pw) (\<lambda>_ _. True) plain_error"
proof -
  have fail: "triple (\<lambda>_. True) (failure m) Q plain_error" for m and Q :: "unit \<Rightarrow> disk \<Rightarrow> bool"
    by (simp add: failure_def triple_throw)
  have ret: "triple (\<lambda>_. True) (returnP u) (\<lambda>_ _. True) plain_error" for u :: unit
    by (simp add: triple_return)
  show ?thesis
    unfolding set_fresh_def by (intro triple_if plain_on_failure fail ret)
qed

lemma triple_set_fresh_valid:
  "triple (\<lambda>_. True) (set_fresh faults en ref pw) (\<lambda>_ _. Reference ref \<noteq> '''') plain_error"
proof (cases "Reference ref = ''''")
  case True
  moreover have "trim_space '''' = ''''" by code_simp
  ultimately have "\<not> credential_ref_valid ref \<or> Provider ref \<noteq> ProviderKeyring"
    by (auto simp: credential_ref_valid_def split: credential_provider.splits)
  then show ?thesis by (auto simp: set_fresh_def failure_def triple_throw)
next
  case False
  then show ?thesis by (intro triple_weaken [OF triple_set_fresh_plain]) simp_all
qed

lemma triple_update_callback:
  assumes "found_config en path f cfg"
  shows "triple (keeps {lock_path path} f k) (update_callback faults en name p sd pw cfg)
    (\<lambda>cfg' d. addition_of en path name p sd f k cfg' \<and> keeps {lock_path path} f (provisioned p pw k) d)
    (\<lambda>e d. unsaved path f k d \<and> e \<noteq> DurabilityUnknown \<or>
       stray path p f k d \<and> (e = Crashed \<or> e \<in> Failure ` set cleanup_incomplete))"
    (is "triple ?P _ ?Q ?E")
proof (cases "map_of (Profiles cfg) name")
  case (Some q)
  have "stops ?P ?E" by (auto simp: stops_def keeps_unsaved)
  then show ?thesis using Some by (simp add: update_callback_def triple_failure)
next
  case None
  let ?ref = "Reference (ProfileCredential p)" and ?K = "Provider (ProfileCredential p) = ProviderKeyring"
  have key: "triple ?P (if ?K then set_fresh faults en (ProfileCredential p) pw else returnP ())
      (\<lambda>_ d. (?K \<longrightarrow> ?ref \<noteq> '''' \<and> k ?ref = None) \<and> keeps {lock_path path} f (provisioned p pw k) d) ?E"
  proof (cases ?K)
    case True
    have "triple (\<lambda>d. ?P d \<and> d_files d = g \<and> d_keyring d = k') (set_fresh faults en (ProfileCredential p) pw)
        (\<lambda>_ d. (?K \<longrightarrow> ?ref \<noteq> '''' \<and> k ?ref = None) \<and> keeps {lock_path path} f (provisioned p pw k) d) ?E" for g k'
    proof (cases "k' = k \<and> (\<forall>q. q \<noteq> lock_path path \<longrightarrow> g q = f q)")
      case False
      have "\<not> (?P d \<and> d_files d = g \<and> d_keyring d = k')" for d using False by (auto simp: keeps_def)
      then show ?thesis unfolding triple_def by blast
    next
      case same: True
      show ?thesis
        by (rule triple_weaken [OF triple_conj [OF triple_set_fresh [of g k] triple_set_fresh_valid]])
          (use same True in \<open>auto simp: keeps_def provisioned_def fresh_error_def unsaved_def stray_def only_ref_def\<close>)
    qed
    then show ?thesis using True by (simp add: triple_of_states)
  next
    case False
    then show ?thesis by (auto intro!: triple_return simp: provisioned_def)
  qed
  show ?thesis
    unfolding update_callback_def
  proof (rule triple_if)
    show "triple ?P (bindP (if ?K then set_fresh faults en (ProfileCredential p) pw else returnP ())
        (\<lambda>_. returnP (add_to_config name p sd cfg))) ?Q ?E"
      by (rule triple_bind [OF key], rule triple_return) (use None assms in \<open>auto simp: addition_of_def\<close>)
  qed (simp add: None)
qed

lemma triple_update_publish:
  assumes "file_path path" "addition_of en path name p sd f k cfg'"
  shows "triple (keeps {lock_path path} f (provisioned p pw k)) (update_publish faults en path cfg')
    (\<lambda>_. profile_added en path name p sd pw f k cfg')
    (\<lambda>e d. case e of DurabilityUnknown \<Rightarrow> profile_added en path name p sd pw f k cfg' d
       | Crashed \<Rightarrow> unsaved path f (provisioned p pw k) d \<or> profile_added en path name p sd pw f k cfg' d
       | _ \<Rightarrow> unsaved path f (provisioned p pw k) d)"
proof (cases "encode_config en cfg'")
  case None
  then show ?thesis
    by (auto simp: update_publish_def keeps_unsaved intro!: triple_failure stopsI)
next
  case (Some data)
  have up: "saved path data f (provisioned p pw k) d \<Longrightarrow> profile_added en path name p sd pw f k cfg' d" for d
    using assms(2) Some by (simp add: profile_added_def)
  show ?thesis
    unfolding update_publish_def Some option.case
    by (rule triple_weaken [OF triple_replace_prepared [OF assms(1)]])
      (auto simp: up save_error_def split: config_error.splits)
qed

text \<open>What the procedure under the lock reports.\<close>

definition commit_report ::
    "plan_env \<Rightarrow> string \<Rightarrow> string \<Rightarrow> profile \<Rightarrow> bool \<Rightarrow> string \<Rightarrow> (string \<Rightarrow> node option) \<Rightarrow>
       (string \<Rightarrow> string option) \<Rightarrow> bool \<times> config_error + bool \<Rightarrow> disk \<Rightarrow> bool" where
  "commit_report en path name p sd pw f k r d \<longleftrightarrow>
     (case r of
        Inr b \<Rightarrow> \<exists>cfg'. profile_added en path name p sd pw f k cfg' d \<and> b = (DefaultProfile cfg' = name)
      | Inl (stored, e) \<Rightarrow>
          e \<noteq> Crashed \<and>
          (if \<not> stored then commit_error en path name p sd pw f k e d
           else Provider (ProfileCredential p) = ProviderKeyring \<and> Reference (ProfileCredential p) \<noteq> '''' \<and>
             k (Reference (ProfileCredential p)) = None \<and>
             (if e = DurabilityUnknown then commit_error en path name p sd pw f k e d
              else unsaved path f (provisioned p pw k) d)))"

lemma triple_commit_locked:
  assumes "file_path path" "journal \<noteq> lock_path path"
  shows "triple (keeps {lock_path path} f k) (commit_locked faults en name p sd pw path journal)
    (\<lambda>r d. commit_report en path name p sd pw f k r d \<and> (\<forall>b. r = Inr b \<longrightarrow> f journal = None))
    (\<lambda>e d. e = Crashed \<and> stray path p f k d)"
proof -
  let ?P = "keeps {lock_path path} f k"
  let ?F = "\<lambda>e d. unsaved path f k d \<and> e \<noteq> DurabilityUnknown \<or>
       stray path p f k d \<and> (e = Crashed \<or> e \<in> Failure ` set cleanup_incomplete)"
  let ?R = "\<lambda>cfg' d. f journal = None \<and> addition_of en path name p sd f k cfg' \<and> keeps {lock_path path} f (provisioned p pw k) d"
  have s: "stops ?P ?F" by (auto simp: stops_def keeps_unsaved)
  have load: "triple (\<lambda>d. ?P d \<and> d_files d journal = None) (load_config_file faults en path)
      (\<lambda>r d. ?P d \<and> f journal = None \<and> found_config en path f (fst r)) ?F"
    by (rule triple_weaken [OF triple_load_config_file [where P = "\<lambda>d. ?P d \<and> d_files d journal = None" and E = ?F]])
      (use s assms(2) in \<open>auto simp: stops_def uncounted_conj keeps_def found_config_def split: if_splits\<close>)
  have "triple (\<lambda>d. ?P d \<and> f journal = None \<and> found_config en path f (fst r))
      (case r of (cfg, _) \<Rightarrow> update_callback faults en name p sd pw cfg) ?R ?F" for r
  proof (cases "f journal = None \<and> found_config en path f (fst r)")
    case True
    then show ?thesis
      unfolding split_beta by (intro triple_weaken [OF triple_update_callback]) auto
  qed (auto simp: triple_def)
  then have first: "triple ?P (bindP (reject_pending faults journal) (\<lambda>_.
        bindP (load_config_file faults en path) (\<lambda>(cfg, _). update_callback faults en name p sd pw cfg))) ?R ?F"
    by (intro triple_bind [OF triple_reject_pending [OF uncounted_keeps s] triple_bind [OF load]])
  show ?thesis
    unfolding commit_locked_def
  proof (rule triple_on_failure [OF first])
    fix cfg'
    show "triple (?R cfg')
       (on_failure (update_publish faults en path cfg')
          (\<lambda>e. returnP (Inl (Provider (ProfileCredential p) = ProviderKeyring, e)))
          (\<lambda>_. returnP (Inr (DefaultProfile cfg' = name))))
       (\<lambda>r d. commit_report en path name p sd pw f k r d \<and> (\<forall>b. r = Inr b \<longrightarrow> f journal = None))
       (\<lambda>e d. e = Crashed \<and> stray path p f k d)"
    proof (cases "f journal = None \<and> addition_of en path name p sd f k cfg'")
      case True
      then have add: "addition_of en path name p sd f k cfg'" and j: "f journal = None" by simp_all
      have crash: "unsaved path f (provisioned p pw k) d \<or> profile_added en path name p sd pw f k cfg' d \<Longrightarrow> stray path p f k d" for d
        using add by (auto simp: stray_def provisioned_def addition_of_def profile_added_def
            intro!: exI [of _ "provisioned p pw k"])
      let ?S = "\<lambda>r d. commit_report en path name p sd pw f k r d \<and> (\<forall>b. r = Inr b \<longrightarrow> f journal = None)"
      have fine: "triple (profile_added en path name p sd pw f k cfg')
          (returnP (Inr (DefaultProfile cfg' = name))) ?S (\<lambda>e d. e = Crashed \<and> stray path p f k d)"
        by (rule triple_return) (use j in \<open>auto simp: commit_report_def\<close>)
      have bad: "triple (\<lambda>d. case e of DurabilityUnknown \<Rightarrow> profile_added en path name p sd pw f k cfg' d
             | Crashed \<Rightarrow> unsaved path f (provisioned p pw k) d \<or> profile_added en path name p sd pw f k cfg' d
             | _ \<Rightarrow> unsaved path f (provisioned p pw k) d)
          (returnP (Inl (Provider (ProfileCredential p) = ProviderKeyring, e))) ?S (\<lambda>e d. e = Crashed \<and> stray path p f k d)"
        if "e \<noteq> Crashed" for e
        by (rule triple_return)
          (use that add in \<open>cases e; auto simp: commit_report_def commit_error_def addition_of_def provisioned_def\<close>)
      have after: "triple (keeps {lock_path path} f (provisioned p pw k))
         (on_failure (update_publish faults en path cfg')
          (\<lambda>e. returnP (Inl (Provider (ProfileCredential p) = ProviderKeyring, e)))
          (\<lambda>_. returnP (Inr (DefaultProfile cfg' = name)))) ?S (\<lambda>e d. e = Crashed \<and> stray path p f k d)"
        by (rule triple_on_failure [OF triple_update_publish [OF assms(1) add] fine bad]) (use crash in auto)
      show ?thesis
        by (rule triple_weaken [OF after]) (use True crash in auto)
    qed (auto simp: triple_def)
  next
    fix e :: config_error
    assume "e \<noteq> Crashed"
    then show "triple (?F e) (returnP (Inl (False, e)))
       (\<lambda>r d. commit_report en path name p sd pw f k r d \<and> (\<forall>b. r = Inr b \<longrightarrow> f journal = None))
       (\<lambda>e d. e = Crashed \<and> stray path p f k d)"
      by (intro triple_return) (cases e; auto simp: commit_report_def commit_error_def commit_incomplete_def)
  qed (auto simp: unsaved_stray)
qed

lemma triple_resolve_commit:
  "triple (commit_report en path name p sd pw f k (Inl (stored, e))) (resolve_commit_error faults p stored e)
     (\<lambda>_ _. False) (commit_error en path name p sd pw f k)"
proof (cases "stored \<and> e \<noteq> DurabilityUnknown")
  case False
  then show ?thesis
    unfolding resolve_commit_error_def
    by (intro triple_if triple_throw) (auto simp: commit_report_def split: if_splits)
next
  case True
  let ?ref = "Reference (ProfileCredential p)" and ?E = "commit_error en path name p sd pw f k"
  let ?P = "\<lambda>d. Provider (ProfileCredential p) = ProviderKeyring \<and> ?ref \<noteq> '''' \<and> k ?ref = None \<and> unsaved path f (provisioned p pw k) d"
  have undone: "?P d \<Longrightarrow> unsaved path f k (put_keyring ?ref None d)" for d
    by (auto simp: unsaved_def keeps_def provisioned_def)
  have left_over: "?P d \<Longrightarrow> stray path p f k d" for d
    by (auto simp: stray_def provisioned_def intro!: exI [of _ "provisioned p pw k"])
  have delete: "triple ?P (delete_keyring_password faults (ProfileCredential p)) (\<lambda>_. unsaved path f k)
      (\<lambda>_ d. ?P d \<or> unsaved path f k d)"
  proof (cases "Provider (ProfileCredential p) = ProviderKeyring \<and> ?ref \<noteq> ''''")
    case True
    have "triple ?P (keyring_call faults (put_keyring ?ref None)) (\<lambda>_. unsaved path f k) (\<lambda>_ d. ?P d \<or> unsaved path f k d)"
      by (rule triple_keyring_call) (use undone in \<open>auto simp: uncounted_conj stops_def\<close>)
    then show ?thesis using True by (simp add: delete_keyring_password_def keyring_delete_def)
  qed (auto simp: triple_def)
  have "triple ?P (on_failure (delete_keyring_password faults (ProfileCredential p))
          (\<lambda>_. failure ''keyring credential cleanup is incomplete; manual cleanup is required'')
          (\<lambda>_. throwP e)) (\<lambda>_ _. False) ?E" if "e \<noteq> Crashed"
  proof (rule triple_on_failure [OF delete])
    show "triple (unsaved path f k) (throwP e) (\<lambda>_ _. False) ?E"
      by (rule triple_throw) (use that True in \<open>cases e; auto simp: commit_error_def\<close>)
    show "triple (\<lambda>d. ?P d \<or> unsaved path f k d)
        (failure ''keyring credential cleanup is incomplete; manual cleanup is required'') (\<lambda>_ _. False) ?E"
      unfolding failure_def
      by (rule triple_throw) (use left_over in \<open>auto simp: commit_error_def commit_incomplete_def\<close>)
  qed (use left_over in \<open>auto simp: commit_error_def unsaved_stray\<close>)
  then show ?thesis
    using True by (cases "e = Crashed") (auto simp: resolve_commit_error_def commit_report_def triple_def)
qed

lemma triple_commit_addition:
  assumes "resolved_path en st = Some path" "resolved_journal en st path = Some journal"
    "journal \<noteq> lock_path path" "absolute_cwd en"
  shows "triple (keeps {lock_path path} f k) (commit_addition faults en st name p sd pw)
    (\<lambda>b d. f journal = None \<and> (\<exists>cfg'. profile_added en path name p sd pw f k cfg' d \<and> b = (DefaultProfile cfg' = name)))
    (commit_error en path name p sd pw f k)"
proof -
  let ?P = "keeps {lock_path path} f k" and ?E = "commit_error en path name p sd pw f k"
  let ?Q = "\<lambda>r d. commit_report en path name p sd pw f k r d \<and> (\<forall>b. r = Inr b \<longrightarrow> f journal = None)"
  have s: "stops ?P ?E" by (auto simp: stops_def commit_error_def keeps_unsaved unsaved_stray)
  have calls: "saved path data f k (d\<lparr>d_calls := n\<rparr>) = saved path data f k d"
    "unsaved path f k (d\<lparr>d_calls := n\<rparr>) = unsaved path f k d" for data k d n
    using uncounted_saved [of path data f k] uncounted_unsaved [of path f k] by (simp_all add: uncounted_def)
  have errors: "commit_error en path name p sd pw f k e (d\<lparr>d_calls := n\<rparr>) = commit_error en path name p sd pw f k e d"
    "profile_added en path name p sd pw f k c (d\<lparr>d_calls := n\<rparr>) = profile_added en path name p sd pw f k c d" for e d n c
    using uncounted_commit(2) [of en path name p sd pw f k c] uncounted_commit(3) [of en path name p sd pw f k e]
    by (simp_all add: uncounted_def)
  have u: "uncounted (?Q r)" for r
    by (cases r) (auto simp: uncounted_def commit_report_def calls errors split: prod.splits)
  have crash: "?Q r d \<Longrightarrow> ?E Crashed d" for r d
  proof -
    assume q: "?Q r d"
    have prov: "unsaved path f (provisioned p pw k) d \<Longrightarrow> k (Reference (ProfileCredential p)) = None \<Longrightarrow> stray path p f k d"
      by (auto simp: stray_def provisioned_def intro!: exI [of _ "provisioned p pw k"])
    show "?E Crashed d"
    proof (cases r)
      case (Inl a)
      obtain stored e where a: "a = (stored, e)" by (cases a)
      show ?thesis
      proof (cases "stored \<and> e \<noteq> DurabilityUnknown")
        case True
        then show ?thesis using q prov Inl a by (simp add: commit_report_def commit_error_def)
      next
        case False
        then have "?E e d" using q Inl a by (auto simp: commit_report_def split: if_splits)
        then show ?thesis by (rule commit_error_crash)
      qed
    next
      case (Inr b)
      then have "?E DurabilityUnknown d" using q by (auto simp: commit_report_def commit_error_def)
      then show ?thesis by (rule commit_error_crash)
    qed
  qed
  have locked: "triple ?P (with_lock faults path (commit_locked faults en name p sd pw path journal)) ?Q ?E"
    by (rule triple_with_lock [OF uncounted_keeps preserved_locked s triple_weaken [OF triple_commit_locked]])
      (use resolved_path_file assms u crash commit_error_crash in \<open>auto simp: commit_error_def\<close>)
  have result: "triple (?Q r)
     (case r of Inl (stored, e) \<Rightarrow> resolve_commit_error faults p stored e | Inr is_default \<Rightarrow> returnP is_default)
     (\<lambda>b d. f journal = None \<and> (\<exists>cfg'. profile_added en path name p sd pw f k cfg' d \<and> b = (DefaultProfile cfg' = name))) ?E" for r
  proof (cases r)
    case (Inl a)
    obtain stored e where a: "a = (stored, e)" by (cases a)
    show ?thesis unfolding Inl a by (simp, rule triple_weaken [OF triple_resolve_commit]) auto
  next
    case (Inr b)
    then show ?thesis by (auto simp: commit_report_def intro!: triple_return)
  qed
  show ?thesis
    unfolding commit_addition_def with_mutation_lock_def assms(1,2) option.case
    by (rule triple_bind [OF locked result])
qed

text \<open>C30: Adding a profile is one transaction over the configuration and the keyring.  When it succeeds, or
  reports only that the durability is unknown, the new configuration with exactly that profile is in place
  and the fresh keyring entry holds the password; on any other error neither has changed, unless the error
  says that the cleanup of the keyring is incomplete; and never, also at the end of the process, is an
  entry of the keyring changed that was there before.\<close>

theorem commit_addition_atomic:
  assumes "commit_addition faults en st name p set_default password d = (r, d')"
    and "resolved_path en st = Some path" "resolved_journal en st path = Some journal"
    and "journal \<noteq> lock_path path" "absolute_cwd en"
  shows "case r of
      Inr is_default \<Rightarrow> d_files d journal = None \<and>
        (\<exists>cfg'. profile_added en path name p set_default password (d_files d) (d_keyring d) cfg' d' \<and>
           is_default = (DefaultProfile cfg' = name))
    | Inl e \<Rightarrow> commit_error en path name p set_default password (d_files d) (d_keyring d) e d'"
proof -
  have t: "triple (keeps {lock_path path} (d_files d) (d_keyring d)) (commit_addition faults en st name p set_default password)
    (\<lambda>b d'. d_files d journal = None \<and>
       (\<exists>cfg'. profile_added en path name p set_default password (d_files d) (d_keyring d) cfg' d' \<and> b = (DefaultProfile cfg' = name)))
    (commit_error en path name p set_default password (d_files d) (d_keyring d))"
    by (rule triple_commit_addition [OF assms(2-5)])
  show ?thesis
  proof (cases r)
    case (Inr b)
    then show ?thesis using triple_resultD [OF t keeps_self] assms(1) by simp
  next
    case (Inl e)
    then show ?thesis using triple_errorD [OF t keeps_self] assms(1) by simp
  qed
qed

text \<open>A profile with a keyring entry is added to the small world.\<close>

definition demo_profile :: profile where
  "demo_profile =
     \<lparr>ProfileUsername = ''u'', ProfileCredential = \<lparr>Provider = ProviderKeyring, Reference = ''r''\<rparr>, BindIP = '''',
      ProfileSwitch = ProfileSwitchRefuse\<rparr>"

definition demo_add_env :: plan_env where
  "demo_add_env =
     w_env\<lparr>marshal_config := (\<lambda>c. if c = add_to_config ''u'' demo_profile False default_config then Some ''N'' else None)\<rparr>"

lemma demo_added_valid: "config_valid (add_to_config ''u'' demo_profile False default_config)"
  by code_simp


lemma demo_commit: "fst (commit_addition works demo_add_env w_store ''u'' demo_profile False ''pw'' w_disk) = Inr True"
proof -
  have paths: "resolved_path demo_add_env w_store = Some ''/h/c''" "resolved_journal demo_add_env w_store ''/h/c'' = Some ''/h/j''"
    "lock_path ''/h/c'' = ''/h/c.lock''"
    by code_simp+
  have enc: "encode_config demo_add_env (add_to_config ''u'' demo_profile False default_config) = Some ''N''"
    using demo_added_valid by (simp add: encode_config_def demo_add_env_def maxConfigBytes_def)
  have dec: "decode_valid demo_add_env ''C'' = Some default_config"
    by (simp add: decode_valid_def demo_add_env_def maxConfigBytes_def)
  have ring: "Provider (ProfileCredential demo_profile) = ProviderKeyring" "credential_ref_valid (ProfileCredential demo_profile)"
    "Reference (ProfileCredential demo_profile) = ''r''" "stored_as demo_add_env ref v = v" for ref v
    by code_simp+
  have none: "map_of (Profiles default_config) ''u'' = None" "DefaultProfile (add_to_config ''u'' demo_profile False default_config) = ''u''"
    by (simp_all add: default_config_def add_to_config_def)
  show ?thesis
    by (simp add: commit_addition_def with_mutation_lock_def paths commit_locked_def update_callback_def none ring
        update_publish_def enc dec with_lock_def acquire_lock_def release_lock_def reject_pending_def load_config_file_def
        replace_prepared_def open_verified_def atomic_write_def replace_with_def preserve_last_known_good_def
        atomic_write_plain_def set_fresh_def keyring_get_def keyring_set_def keyring_call_def put_keyring_def
        proc_run fs_run w_disk_def maxConfigBytes_def)
qed

theorem commit_addition_atomic_witness:
  "\<exists>d' cfg'. commit_addition works demo_add_env w_store ''u'' demo_profile False ''pw'' w_disk = (Inr True, d') \<and>
     profile_added demo_add_env ''/h/c'' ''u'' demo_profile False ''pw'' (d_files w_disk) (d_keyring w_disk) cfg' d' \<and>
     DefaultProfile cfg' = ''u''"
proof -
  obtain d' where run: "commit_addition works demo_add_env w_store ''u'' demo_profile False ''pw'' w_disk = (Inr True, d')"
    using demo_commit by (metis prod.collapse)
  have "resolved_path demo_add_env w_store = Some ''/h/c''" "resolved_journal demo_add_env w_store ''/h/c'' = Some ''/h/j''"
    "''/h/j'' \<noteq> lock_path ''/h/c''"
    by code_simp+
  moreover have "absolute_cwd demo_add_env"
    by (simp add: absolute_cwd_def demo_add_env_def w_env_def)
  ultimately have "resolved_path demo_add_env w_store = Some ''/h/c''" "resolved_journal demo_add_env w_store ''/h/c'' = Some ''/h/j''"
    "''/h/j'' \<noteq> lock_path ''/h/c''" "absolute_cwd demo_add_env" .
  from commit_addition_atomic [OF run this] run show ?thesis by auto
qed

end
