(* ===== verification/CliMigrate.thy ===== *)
theory CliMigrate
  imports CliProfiles
begin

text \<open>
  The migration command of \<open>internal/cli/commands.go\<close>: the decisions of the command line, those read from
  the terminal, and \<open>runMigrate\<close>.  The input is the list of its complete lines; after them reading fails.
\<close>

section \<open>The report of a plan\<close>

definition status_string :: "credential_status \<Rightarrow> string" where
  "status_string s =
     (case s of PendingImportable \<Rightarrow> ''pending_importable'' | PendingManual \<Rightarrow> ''pending_manual''
      | CredentialResolved \<Rightarrow> ''resolved'' | KeyringImport \<Rightarrow> ''resolved_keyring_import'')"

definition migration_report_of :: "plan \<Rightarrow> migration_report" where
  "migration_report_of p =
     \<lparr>mr_sources = length (PlanSources p),
      mr_profiles = map (\<lambda>m. \<lparr>wm_name = MigName m, wm_source = kind_text (MigSource m), wm_status = status_string (MigStatus m),
        wm_username = (MigUsername m \<noteq> ''''), wm_default = MigDefault m\<rparr>) (PlanProfiles p),
      mr_conflicts = map (\<lambda>c. (ConflictProfile c, ConflictReason c)) (PlanConflicts p),
      mr_warnings = PlanWarnings p\<rparr>"

definition plan_data :: "plan \<Rightarrow> wire_data" where
  "plan_data p = DataPlan False (PlanSources p) (PlanProfiles p) (PlanConflicts p) (PlanWarnings p)"

definition migration_profile_lines :: "plan \<Rightarrow> string list" where
  "migration_profile_lines p =
     map (\<lambda>m. ''  '' @ kind_text (MigSource m) @ '' -> '' @ MigName m @ '' ('' @
        (let provider = provider_text (Provider (MigCredential m)) in
         if provider = '''' then status_string (MigStatus m) else provider) @ '')'') (PlanProfiles p)"

definition migration_plan_lines :: "plan \<Rightarrow> string list" where
  "migration_plan_lines p =
     [''Migration preview: '' @ nat_dec (length (PlanSources p)) @ '' source(s), '' @
      nat_dec (length (PlanProfiles p)) @ '' profile(s), '' @ nat_dec (length (PlanConflicts p)) @ '' conflict(s)''] @
     migration_profile_lines p @ map (\<lambda>w. ''  warning: '' @ w) (PlanWarnings p)"

section \<open>Decisions of the command line\<close>

definition pending_status :: "migrated_profile \<Rightarrow> bool" where
  "pending_status m \<longleftrightarrow> MigStatus m = PendingImportable \<or> MigStatus m = PendingManual"

text \<open>\<open>validateMigrationCredentialDecisions\<close>; of profiles with one name the map keeps the last.\<close>

definition profile_map :: "plan \<Rightarrow> string \<rightharpoonup> migrated_profile" where
  "profile_map p = map_of (rev (map (\<lambda>m. (MigName m, m)) (PlanProfiles p)))"

definition decision_ok :: "plan \<Rightarrow> bool \<Rightarrow> string \<times> credential_ref \<Rightarrow> bool" where
  "decision_ok p automated d =
     (case profile_map p (fst d) of
        None \<Rightarrow> False
      | Some m \<Rightarrow>
          pending_status m \<and>
          (automated \<longrightarrow> Provider (snd d) = ProviderEnv \<or> Provider (snd d) = ProviderFile) \<and>
          (Provider (snd d) = ProviderKeyring \<longrightarrow> MigStatus m = PendingImportable))"

definition validate_decisions :: "plan \<Rightarrow> (string \<times> credential_ref) list \<Rightarrow> bool \<Rightarrow> bool \<Rightarrow> bool" where
  "validate_decisions p ds require_complete automated \<longleftrightarrow>
     list_all (decision_ok p automated) ds \<and>
     (require_complete \<longrightarrow> list_all (\<lambda>m. pending_status m \<longrightarrow> map_of ds (MigName m) \<noteq> None) (PlanProfiles p))"

text \<open>\<open>resolveMigrationCredentialDecisions\<close>: whether it succeeds, and the plan; \<open>refs\<close> are the random references.\<close>

fun resolve_decisions ::
    "(string \<Rightarrow> string option) \<Rightarrow> (string \<times> credential_ref) list \<Rightarrow> string list \<Rightarrow> plan \<Rightarrow> bool \<times> plan" where
  "resolve_decisions refs ds [] p = (True, p)"
| "resolve_decisions refs ds (name # ns) p =
     (case map_of ds name of
        None \<Rightarrow> resolve_decisions refs ds ns p
      | Some ref \<Rightarrow>
          (case resolve_credential p name ref (refs name) of (ok, p') \<Rightarrow>
             if ok then resolve_decisions refs ds ns p' else (False, p')))"

section \<open>Decisions of the terminal\<close>

text \<open>A dialogue reads lines and prints prompts on standard error.\<close>

type_synonym 'a dialogue = "string list \<Rightarrow> string list \<times> string list \<times> 'a"

text \<open>\<open>promptMigrationReference\<close>.\<close>

definition prompt_reference :: "credential_provider \<Rightarrow> string \<Rightarrow> credential_ref option dialogue" where
  "prompt_reference provider label lines =
     ([label @ '': ''], tl lines,
      (case lines of [] \<Rightarrow> None
       | line # _ \<Rightarrow>
           let v = trim_space line in
           if provider = ProviderFile then
             (if \<not> path_is_abs v then None
              else let ref = \<lparr>Provider = provider, Reference = path_clean v\<rparr> in
                   if credential_ref_valid ref then Some ref else None)
           else let ref = \<lparr>Provider = provider, Reference = v\<rparr> in
                if credential_ref_valid ref then Some ref else None))"

definition then_prompt :: "string list \<Rightarrow> 'a dialogue \<Rightarrow> 'a dialogue" where
  "then_prompt texts d lines = (case d lines of (ts, rest, r) \<Rightarrow> (texts @ ts, rest, r))"

lemma then_prompt_cong [fundef_cong]:
  "texts = texts' \<Longrightarrow> lines = lines' \<Longrightarrow> d lines' = d' lines' \<Longrightarrow> then_prompt texts d lines = then_prompt texts' d' lines'"
  by (simp add: then_prompt_def)

definition provider_question :: "bool \<Rightarrow> string \<Rightarrow> string" where
  "provider_question importable name =
     ''Credential provider for '' @ name @
     (if importable then '' [K]eyring/[e]nv/[f]ile/[p]rompt/[a]bort (default keyring): ''
      else '' [E]nv/[f]ile/[p]rompt/[a]bort (default prompt): '')"

text \<open>\<open>promptMigrationCredential\<close>; \<open>lower\<close> is \<open>strings.ToLower\<close>.\<close>

fun prompt_credential :: "(string \<Rightarrow> string) \<Rightarrow> bool \<Rightarrow> string \<Rightarrow> credential_ref option dialogue" where
  "prompt_credential lower importable name [] = ([provider_question importable name], [], None)"
| "prompt_credential lower importable name (line # rest) =
     (let typed = lower (trim_space line);
          choice = (if typed = '''' then (if importable then ''k'' else ''p'') else typed);
          ask = [provider_question importable name] in
      if choice = ''k'' \<or> choice = ''keyring'' then
        (if importable then (ask, rest, Some \<lparr>Provider = ProviderKeyring, Reference = ''''\<rparr>)
         else then_prompt (ask @ [''This source has no safely importable credential; choose env, file, or prompt.''])
                (prompt_credential lower importable name) rest)
      else if choice = ''e'' \<or> choice = ''env'' then
        then_prompt ask (prompt_reference ProviderEnv ''Environment variable name'') rest
      else if choice = ''f'' \<or> choice = ''file'' then
        then_prompt ask (prompt_reference ProviderFile ''Absolute credential file path'') rest
      else if choice = ''p'' \<or> choice = ''prompt'' then (ask, rest, Some \<lparr>Provider = ProviderPrompt, Reference = ''''\<rparr>)
      else if choice = ''a'' \<or> choice = ''abort'' then (ask, rest, None)
      else then_prompt (ask @ [''Choose one of the listed providers.''])
             (prompt_credential lower importable name) rest)"

text \<open>\<open>resolveInteractiveMigrationCredentials\<close>, from the profile with the given index on.\<close>

fun resolve_interactive ::
    "(string \<Rightarrow> string) \<Rightarrow> (string \<Rightarrow> string option) \<Rightarrow> nat list \<Rightarrow> plan \<Rightarrow> (bool \<times> plan) dialogue" where
  "resolve_interactive lower refs [] p lines = ([], lines, (True, p))"
| "resolve_interactive lower refs (i # is) p lines =
     (let m = PlanProfiles p ! i in
      if \<not> pending_status m then resolve_interactive lower refs is p lines
      else (case prompt_credential lower (MigStatus m = PendingImportable) (MigName m) lines of
          (ts, rest, None) \<Rightarrow> (ts, rest, (False, p))
        | (ts, rest, Some ref) \<Rightarrow>
            (case resolve_credential p (MigName m) ref (refs (MigName m)) of (ok, p') \<Rightarrow>
               if ok then then_prompt ts (resolve_interactive lower refs is p') rest else (ts, rest, (False, p')))))"

text \<open>\<open>resolveMigrationConflicts\<close>; the names are listed once, in the order of the conflicts.\<close>

definition conflict_names :: "plan \<Rightarrow> string list" where
  "conflict_names p = dedup_seen id [] (map ConflictProfile (PlanConflicts p))"

definition conflict_question :: "conflict list \<Rightarrow> string \<Rightarrow> string" where
  "conflict_question cs name =
     ''Migration conflict for '' @ name @ '' ('' @
     join_str ''; '' (map ConflictReason (filter (\<lambda>c. ConflictProfile c = name) cs)) @ ''): [r]eplace/[s]kip/[a]bort: ''"

fun resolve_conflicts ::
    "(string \<Rightarrow> string) \<Rightarrow> conflict list \<Rightarrow> string list \<Rightarrow> plan \<Rightarrow> (bool \<times> plan) dialogue" where
  "resolve_conflicts lower cs [] p lines = ([], lines, (True, p))"
| "resolve_conflicts lower cs (name # ns) p lines =
     (case lines of [] \<Rightarrow> ([conflict_question cs name], [], (False, p))
      | line # rest \<Rightarrow>
          let choice = lower (trim_space line) in
          if choice = ''r'' \<or> choice = ''replace'' then
            then_prompt [conflict_question cs name] (resolve_conflicts lower cs ns (resolve_conflict p name True)) rest
          else if choice = ''s'' \<or> choice = ''skip'' then
            then_prompt [conflict_question cs name] (resolve_conflicts lower cs ns (resolve_conflict p name False)) rest
          else ([conflict_question cs name], rest, (False, p)))"

text \<open>\<open>confirmMigration\<close>: \<open>None\<close> is an error of the input.\<close>

definition confirm_migration :: "bool option dialogue" where
  "confirm_migration lines =
     ([''Apply this migration and create backups? [y/N]: ''], tl lines,
      (case lines of [] \<Rightarrow> None
       | line # _ \<Rightarrow> Some (equal_fold (trim_space line) ''y'' \<or> equal_fold (trim_space line) ''yes'')))"

section \<open>The command\<close>

definition talk :: "'a dialogue \<Rightarrow> 'a cli" where
  "talk d s =
     (case d (c_input s) of (texts, rest, r) \<Rightarrow>
        (Inr r, s\<lparr>c_output := c_output s @ map ErrText texts, c_input := rest\<rparr>))"

definition fail_plan :: "'a runtime_scheme \<Rightarrow> plan \<Rightarrow> int cli" where
  "fail_plan r p =
     render_failure_with (renderer.truncate r) ''profile.migrate'' (config_failure_of ErrOther)
       (Some (migration_report_of p))"

definition migrate_apply :: "'a runtime_scheme \<Rightarrow> config \<Rightarrow> plan \<Rightarrow> migration_result cli" where
  "migrate_apply r cfg p =
     cli_disk (apply_migration (ae_faults (rt_env r)) (ae_config (rt_env r)) (\<lambda>_. False) (rt_paths r) (rt_store r)
       cfg p (rt_version r) (rt_txid r) (rt_now r))"

text \<open>The credential decisions: \<open>Inl\<close> is a failure with the plan at that point, \<open>Inr\<close> the plan to apply, or not.\<close>

definition decide_automated ::
    "(string \<Rightarrow> string option) \<Rightarrow> migration_arguments \<Rightarrow> plan \<Rightarrow> (plan + plan \<times> bool) cli" where
  "decide_automated refs a p =
     returnP
       (if \<not> ma_yes a \<or> \<not> validate_decisions p (ma_credentials a) True True then Inl p
        else (case resolve_decisions refs (ma_credentials a) (map MigName (PlanProfiles p)) p of (ok, p') \<Rightarrow>
          if ok then Inr (p', True) else Inl p'))"

definition decide_interactive ::
    "'a runtime_scheme \<Rightarrow> (string \<Rightarrow> string option) \<Rightarrow> migration_arguments \<Rightarrow> plan \<Rightarrow> (plan + plan \<times> bool) cli" where
  "decide_interactive r refs a p =
     (if \<not> validate_decisions p (ma_credentials a) False False then returnP (Inl p)
      else (case resolve_decisions refs (ma_credentials a) (map MigName (PlanProfiles p)) p of (ok, p1) \<Rightarrow>
        if \<not> ok then returnP (Inl p1)
        else
          bindP (talk (resolve_interactive (lower_case (ae_config (rt_env r))) refs [0..<length (PlanProfiles p1)] p1)) (\<lambda>(ok2, p2).
          if \<not> ok2 then returnP (Inl p2)
          else
            bindP (print_human (renderer.truncate r) (''Final credential decisions:'' # migration_profile_lines p2)) (\<lambda>_.
            if ma_yes a then returnP (Inr (p2, True))
            else
              bindP (talk confirm_migration) (\<lambda>c.
              case c of None \<Rightarrow> returnP (Inl p2) | Some yes \<Rightarrow> returnP (Inr (p2, yes)))))))"

definition migrate_decided :: "'a runtime_scheme \<Rightarrow> config \<Rightarrow> plan + plan \<times> bool \<Rightarrow> int cli" where
  "migrate_decided r cfg decided =
     (case decided of
        Inl p \<Rightarrow> fail_plan r p
      | Inr (p, False) \<Rightarrow> render_success (renderer.truncate r) ''profile.migrate'' (plan_data p)
      | Inr (p, True) \<Rightarrow>
          or_report (migrate_apply r cfg p) (\<lambda>_. fail_plan r p) (\<lambda>result.
          bindP (print_human (renderer.truncate r)
                   [''Migrated '' @ nat_dec (length (AppliedProfiles result)) @ '' profile(s); private source backups were preserved.'']) (\<lambda>_.
          render_success (renderer.truncate r) ''profile.migrate'' (DataMigrated True False result))))"

text \<open>The part of \<open>runMigrate\<close> from the preview on.\<close>

definition migrate_new ::
    "'a runtime_scheme \<Rightarrow> (string \<Rightarrow> string option) \<Rightarrow> migration_arguments \<Rightarrow> config \<Rightarrow> plan \<Rightarrow> int cli" where
  "migrate_new r refs a cfg p =
     bindP (print_human (renderer.truncate r) (migration_plan_lines p)) (\<lambda>_.
     if PlanSources p = [] then
       (if ma_credentials a \<noteq> [] then render_failure (renderer.truncate r) ''profile.migrate'' invalid_argument
        else render_success (renderer.truncate r) ''profile.migrate'' (plan_data p))
     else
       (let interactive = (rt_tty r \<and> rd_mode r = OutputHuman) in
        if interactive \<and> \<not> rt_input r
        then render_failure (renderer.truncate r) ''profile.migrate'' (config_failure_of ErrOther)
        else if PlanConflicts p \<noteq> [] \<and> \<not> interactive then fail_plan r p
        else
          bindP (if PlanConflicts p \<noteq> []
                 then talk (resolve_conflicts (lower_case (ae_config (rt_env r))) (PlanConflicts p) (conflict_names p) p)
                 else returnP (True, p)) (\<lambda>(ok, p1).
          if \<not> ok then fail_plan r p1
          else bindP (if interactive then decide_interactive r refs a p1 else decide_automated refs a p1)
                 (migrate_decided r cfg))))"

definition run_migrate :: "'a runtime_scheme \<Rightarrow> (string \<Rightarrow> string option) \<Rightarrow> string list \<Rightarrow> int cli" where
  "run_migrate r refs args =
     (let report = (\<lambda>e. render_failure (renderer.truncate r) ''profile.migrate'' (config_failure_of e));
          faults = ae_faults (rt_env r); en = ae_config (rt_env r) in
      case parse_migration_arguments args of
        None \<Rightarrow> render_failure (renderer.truncate r) ''profile.migrate'' invalid_argument
      | Some a \<Rightarrow>
          or_report (cli_disk (recover_migration faults en (rt_paths r))) report (\<lambda>_.
          or_report (load_config r) report (\<lambda>(cfg, _).
          or_report (cli_disk (build_plan faults en (rt_paths r) cfg)) report (\<lambda>p.
          or_report (cli_disk (migration_already_applied faults en (MigrationMarker (rt_paths r)))) (\<lambda>_. fail_plan r p) (\<lambda>found.
          if found \<noteq> None then
            or_report (migrate_apply r cfg p) (\<lambda>_. fail_plan r p) (\<lambda>result.
            bindP (print_human (renderer.truncate r) [''Migration was already applied and verified; no changes were made.'']) (\<lambda>_.
            render_success (renderer.truncate r) ''profile.migrate'' (DataMigrated False True result)))
          else migrate_new r refs a cfg p)))))"

end
