(* ===== verification/CliRun.thy ===== *)
theory CliRun
  imports CliMigrate
begin

text \<open>
  The commands of \<open>internal/cli/commands.go\<close> on the gateway, their dispatch in the two programs and
  \<open>Execute\<close> (\<open>run.go\<close>), \<open>StartupFailure\<close> (\<open>terminal.go\<close>).  What the QR prompt prints on standard error
  belongs to the interaction of the network, not to the output here.
\<close>

section \<open>Gateway commands\<close>

definition run_status :: "'a runtime_scheme \<Rightarrow> bool \<Rightarrow> int cli" where
  "run_status r no_args =
     or_report (on_app (gw_status (rt_gateway r) (rt_profile r) (rt_bind r)))
       (render_failure (renderer.truncate r) ''status'') (\<lambda>status.
     let wired = to_wire_status status in
     bindP (print_human (renderer.truncate r) (status_lines wired @
       (if no_args then [''Next: configure a profile with \\'ipgw-meta profile add ...\\', then run \\'ipgw-meta login\\'.''] else []))) (\<lambda>_.
     render_success (renderer.truncate r) ''status'' (DataStatus wired)))"

definition terminal_qr_required :: go_error where
  "terminal_qr_required =
     ErrSdk ((new_error CodeInteractionRequired ''login requires human verification'' False None)
       \<lparr>e_interaction := Some
          \<lparr>d_challenge = ChallengeQRApproval, d_origin = MethodTerminalQR,
           d_capability = [CapObservedAnonymous, CapSyntheticCovered, CapLiveUnverified],
           d_session = ''cas_session'', d_resume = ''retry_in_tty'', d_tty = True, d_help = ''AUTH-QR-001''\<rparr>\<rparr>)"

definition password_warning :: string where
  "password_warning =
     ''Warning: --password may be retained in shell history. Migrate this account to keyring, env, file, or prompt credentials.''"

definition login_options_of :: "'a runtime_scheme \<Rightarrow> login_args \<Rightarrow> login_options" where
  "login_options_of r a =
     \<lparr>lo_profile = rt_profile r, lo_bind = rt_bind r, lo_switch = la_switch a, lo_method = la_method a,
      lo_interactions = (la_method a = MethodTerminalQR \<and> rt_tty r \<and> rd_mode r = OutputHuman),
      lo_expected = (case la_username a of None \<Rightarrow> '''' | Some u \<Rightarrow> u),
      lo_credentials = map_option (\<lambda>pw h _. case ae_ctx (rt_env r) (length h) of
          Some c \<Rightarrow> Inl (ErrCtx c) | None \<Rightarrow> Inr pw) (la_password a)\<rparr>"

text \<open>\<open>runLogin\<close> after the loop over its arguments.\<close>

definition login_with :: "'a runtime_scheme \<Rightarrow> login_args \<Rightarrow> int cli" where
  "login_with r a =
     (let bad = render_failure (renderer.truncate r) ''login'' in
      if la_username a = Some '''' then bad invalid_argument
      else
        bindP (if la_password a \<noteq> None then emit_output (ErrText password_warning) else returnP ()) (\<lambda>_.
        if la_password a = Some '''' then bad invalid_argument
        else if la_method a \<noteq> MethodPassword \<and> la_password a \<noteq> None then bad invalid_argument
        else if la_method a = MethodTerminalQR \<and> (rd_mode r = OutputJSON \<or> \<not> rt_tty r) then bad terminal_qr_required
        else
          or_report (on_app (gw_login (rt_gateway r) (login_options_of r a))) bad (\<lambda>result.
          case result of
            None \<Rightarrow> throwP AppStopped
          | Some (outcome, status) \<Rightarrow>
              let wired = to_wire_status status in
              bindP (print_human (renderer.truncate r) ((''Login: '' @ login_outcome_string outcome) # status_lines wired)) (\<lambda>_.
              render_success (renderer.truncate r) ''login'' (DataOutcome (login_outcome_string outcome) wired)))))"

definition run_login :: "'a runtime_scheme \<Rightarrow> string list \<Rightarrow> bool \<Rightarrow> int cli" where
  "run_login r args legacy =
     (case parse_login_args legacy args of
        None \<Rightarrow> render_failure (renderer.truncate r) ''login'' invalid_argument
      | Some a \<Rightarrow> login_with r a)"

definition run_logout :: "'a runtime_scheme \<Rightarrow> int cli" where
  "run_logout r =
     or_report (on_app (gw_logout (rt_gateway r) (rt_profile r) (rt_bind r)))
       (render_failure (renderer.truncate r) ''logout'') (\<lambda>(outcome, status).
     let wired = to_wire_status status in
     bindP (print_human (renderer.truncate r) ((''Logout: '' @ logout_outcome_string outcome) # status_lines wired)) (\<lambda>_.
     render_success (renderer.truncate r) ''logout'' (DataOutcome (logout_outcome_string outcome) wired)))"

definition interface_line :: "bind_interface \<Rightarrow> string" where
  "interface_line i = int_dec (if_index i) @ tab @ if_name i @ tab @ ip_text (if_ip i)"

definition run_network_list :: "'a runtime_scheme \<Rightarrow> int cli" where
  "run_network_list r =
     or_report (on_app (gw_interfaces (rt_gateway r))) (render_failure (renderer.truncate r) ''network.list'') (\<lambda>is.
     bindP (print_human (renderer.truncate r)
       (if is = [] then [''No usable IPv4 interfaces found.''] else map interface_line is)) (\<lambda>_.
     render_success (renderer.truncate r) ''network.list'' (DataInterfaces is)))"

text \<open>The context is looked at before the list, after it, and around every request; \<open>ae_ctx\<close> counts the looks.\<close>

definition check_ctx :: "'a runtime_scheme \<Rightarrow> unit cli" where
  "check_ctx r s =
     ((case ae_ctx (rt_env r) (c_checks s) of None \<Rightarrow> Inr () | Some c \<Rightarrow> Inl (AppError (ErrCtx c))),
      s\<lparr>c_checks := Suc (c_checks s)\<rparr>)"

definition scan_line :: "scan_result \<Rightarrow> string" where
  "scan_line x =
     interface_line (sr_interface x) @ tab @
     (case sr_error x of
        Some e \<Rightarrow> ''error='' @ we_code e
      | None \<Rightarrow>
          (case sr_status x of None \<Rightarrow> ''''
           | Some st \<Rightarrow> ws_network st @ ''/'' @ ws_session st))"

text \<open>A failing request is part of the result, unless it failed by the context.\<close>

definition scan_status :: "'a runtime_scheme \<Rightarrow> bind_interface \<Rightarrow> scan_result cli" where
  "scan_status r i =
     handleP (on_app (gw_status (rt_gateway r) (rt_profile r) (ip_text (if_ip i))))
       (\<lambda>e. case e of
          AppStopped \<Rightarrow> throwP AppStopped
        | AppError g \<Rightarrow>
            if is_context_error g then throwP (AppError g)
            else bindP (check_ctx r) (\<lambda>_.
              case wire_error_of g of (code, retryable, details) \<Rightarrow>
                returnP \<lparr>sr_interface = i, sr_status = None,
                  sr_error = Some (marshal_wire_error
                    \<lparr>we_code = code, we_message = wire_error_message g code, we_retryable = retryable, we_details = details\<rparr>)\<rparr>))
       (\<lambda>status. bindP (check_ctx r) (\<lambda>_.
          returnP \<lparr>sr_interface = i, sr_status = Some (to_wire_status status), sr_error = None\<rparr>))"

fun scan_interfaces :: "'a runtime_scheme \<Rightarrow> bind_interface list \<Rightarrow> scan_result list cli" where
  "scan_interfaces r [] = returnP []"
| "scan_interfaces r (i # is) =
     bindP (check_ctx r) (\<lambda>_.
     bindP (scan_status r i) (\<lambda>x.
     bindP (print_human (renderer.truncate r) [scan_line x]) (\<lambda>_.
     bindP (scan_interfaces r is) (\<lambda>xs. returnP (x # xs)))))"

definition run_network_scan :: "'a runtime_scheme \<Rightarrow> int cli" where
  "run_network_scan r =
     or_report
       (bindP (check_ctx r) (\<lambda>_.
        bindP (on_app (gw_interfaces (rt_gateway r))) (\<lambda>is.
        bindP (check_ctx r) (\<lambda>_.
        bindP (scan_interfaces r is) (\<lambda>xs.
        bindP (check_ctx r) (\<lambda>_. returnP xs))))))
       (render_failure (renderer.truncate r) ''network.scan'')
       (\<lambda>xs. render_success (renderer.truncate r) ''network.scan'' (DataScan xs))"

definition run_version :: "renderer \<Rightarrow> string \<Rightarrow> int cli" where
  "run_version rd version =
     bindP (print_human rd [''IPGW-Meta '' @ version]) (\<lambda>_. render_success rd ''version'' (DataVersion version))"

section \<open>Dispatch\<close>

definition run_profile :: "'a runtime_scheme \<Rightarrow> (string \<Rightarrow> string option) \<Rightarrow> string list \<Rightarrow> int cli" where
  "run_profile r refs args =
     (let bad = (\<lambda>command. render_failure (renderer.truncate r) command invalid_argument) in
      if has_password_argument args then render_failure (renderer.truncate r) ''profile'' password_argument_error
      else (case args of [] \<Rightarrow> bad ''profile''
        | command # rest \<Rightarrow>
            if command = ''list'' then (if rest \<noteq> [] then bad ''profile.list'' else profile_list r)
            else if command = ''show'' then
              (case rest of [] \<Rightarrow> profile_show r (rt_profile r)
               | [name] \<Rightarrow> if has_prefix name ''-'' then bad ''profile.show'' else profile_show r name
               | _ \<Rightarrow> bad ''profile.show'')
            else if command = ''add'' then profile_save r rest
            else if command = ''remove'' then
              (case rest of [name] \<Rightarrow> if has_prefix name ''-'' then bad ''profile.remove'' else profile_remove r name
               | _ \<Rightarrow> bad ''profile.remove'')
            else if command = ''migrate'' then run_migrate r refs rest
            else bad ''profile''))"

definition meta_help :: "string list" where
  "meta_help =
     [''Usage: ipgw-meta [--json|--output human|json] [--profile NAME] [--bind-ip IP] [--version] <status|login|logout|network|profile>'',
      ''  login [--method password|qr] [--switch]'', ''  network <list|scan>'', ''  profile <list|show|add|remove|migrate>'']"

definition legacy_help :: "string list" where
  "legacy_help = [''Usage: ipgw-legacy [--version] <login|logout|test|info|config>; no arguments performs legacy login'']"

definition run_help :: "renderer \<Rightarrow> string list \<Rightarrow> string \<Rightarrow> int cli" where
  "run_help rd texts mode = bindP (print_human rd texts) (\<lambda>_. render_success rd ''help'' (DataMode mode))"

definition run_meta :: "'a runtime_scheme \<Rightarrow> (string \<Rightarrow> string option) \<Rightarrow> string list \<Rightarrow> int cli" where
  "run_meta r refs args =
     (let bad = (\<lambda>command. render_failure (renderer.truncate r) command invalid_argument) in
      case args of [] \<Rightarrow> run_status r True
      | command # rest \<Rightarrow>
          if command = ''status'' then (if rest \<noteq> [] then bad ''status'' else run_status r False)
          else if command = ''login'' then
            (case normalize_meta_login_args rest of None \<Rightarrow> bad ''login'' | Some a \<Rightarrow> run_login r a False)
          else if command = ''logout'' then (if rest \<noteq> [] then bad ''logout'' else run_logout r)
          else if command = ''network'' then
            (if rest = [''list''] then run_network_list r else if rest = [''scan''] then run_network_scan r else bad ''network'')
          else if command = ''profile'' then run_profile r refs rest
          else if command \<in> {''help'', ''--help'', ''-h''} then run_help (renderer.truncate r) meta_help ''meta''
          else bad ''cli'')"

definition run_legacy :: "'a runtime_scheme \<Rightarrow> (string \<Rightarrow> string option) \<Rightarrow> string list \<Rightarrow> int cli" where
  "run_legacy r refs args =
     (let bad = (\<lambda>command. render_failure (renderer.truncate r) command invalid_argument) in
      case args of [] \<Rightarrow> run_login r [] True
      | command # rest \<Rightarrow>
          if legacy_login_flag command then run_login r args True
          else if command = ''login'' then run_login r rest True
          else if command = ''logout'' then (if rest \<noteq> [] then bad ''logout'' else run_logout r)
          else if command = ''test'' \<or> command = ''status'' then (if rest \<noteq> [] then bad ''status'' else run_status r False)
          else if command = ''info'' then
            (if rest = [''-a''] \<or> rest = [''--all''] then run_network_list r
             else if rest = [] then run_status r False else bad ''info'')
          else if command = ''config'' then
            (if rest \<in> {[''account'', ''list''], [''account'', ''ls''], [''account'', ''show'']}
             then run_profile r refs [''list''] else bad ''config'')
          else if command = ''version'' then run_version (renderer.truncate r) (rt_version r)
          else if command \<in> {''help'', ''--help'', ''-h''} then run_help (renderer.truncate r) legacy_help ''legacy''
          else bad ''cli'')"

section \<open>Execute\<close>

datatype cli_mode = ModeMeta | ModeLegacy | ModeOther string

text \<open>\<open>eo_resolve\<close> is the result of \<open>ResolvePaths\<close> when there is one; the rest is the environment of the runtime.\<close>

record exec_options =
  eo_mode :: cli_mode
  eo_args :: "string list"
  eo_paths :: config_paths
  eo_resolve :: "config_paths option option"
  eo_gateway :: "(config_paths \<Rightarrow> gateway) option"
  eo_input :: bool
  eo_stdout_ok :: bool
  eo_tty :: bool
  eo_version :: string
  eo_env :: app_env
  eo_ask :: "string \<Rightarrow> go_error + string"
  eo_random :: "string option"
  eo_txid :: "string option"
  eo_now :: int
  eo_refs :: "string \<Rightarrow> string option"

definition startup_failure :: "string list \<Rightarrow> bool \<Rightarrow> int cli" where
  "startup_failure args stdout_ok =
     render_failure \<lparr>rd_mode = preparse_output_mode args, rd_stdout_ok = stdout_ok\<rparr> ''cli''
       (ErrSdk (new_error CodeConfig ''configuration error'' False None))"

definition exec_runtime :: "exec_options \<Rightarrow> global_options \<Rightarrow> (config_paths \<Rightarrow> gateway) \<Rightarrow> config_paths \<Rightarrow> string \<Rightarrow> runtime" where
  "exec_runtime opts g gw paths version =
     \<lparr>rd_mode = g_output g, rd_stdout_ok = eo_stdout_ok opts, rt_gateway = gw paths, rt_env = eo_env opts,
      rt_store = \<lparr>StorePath = ConfigFile paths, StoreJournal = MigrationJournal paths\<rparr>, rt_paths = paths,
      rt_input = eo_input opts, rt_tty = eo_tty opts, rt_profile = g_profile g, rt_bind = g_bind g, rt_version = version,
      rt_ask = eo_ask opts, rt_random = eo_random opts, rt_txid = eo_txid opts, rt_now = eo_now opts\<rparr>"

definition exec_dispatch :: "exec_options \<Rightarrow> runtime \<Rightarrow> string list \<Rightarrow> int cli" where
  "exec_dispatch opts r args =
     (case eo_mode opts of
        ModeMeta \<Rightarrow> run_meta r (eo_refs opts) args
      | ModeLegacy \<Rightarrow> run_legacy r (eo_refs opts) args
      | ModeOther _ \<Rightarrow> render_failure (renderer.truncate r) ''cli'' invalid_argument)"

definition exec_globals :: "exec_options \<Rightarrow> global_options \<Rightarrow> string list \<Rightarrow> int cli" where
  "exec_globals opts g args =
     (let rd = \<lparr>rd_mode = g_output g, rd_stdout_ok = eo_stdout_ok opts\<rparr>;
          version = (if eo_version opts = '''' then ''dev'' else eo_version opts) in
      if g_version g then (if args \<noteq> [] then render_failure rd ''version'' invalid_argument else run_version rd version)
      else (case eo_gateway opts of
          None \<Rightarrow> render_failure rd ''cli'' internal_error
        | Some gw \<Rightarrow>
            (case eo_resolve opts of
               Some None \<Rightarrow> startup_failure (eo_args opts) (eo_stdout_ok opts)
             | Some (Some paths) \<Rightarrow> exec_dispatch opts (exec_runtime opts g gw (with_config_path paths (g_config g)) version) args
             | None \<Rightarrow> exec_dispatch opts (exec_runtime opts g gw (with_config_path (eo_paths opts) (g_config g)) version) args)))"

definition execute :: "exec_options \<Rightarrow> int cli" where
  "execute opts =
     (let early = \<lparr>rd_mode = preparse_output_mode (eo_args opts), rd_stdout_ok = eo_stdout_ok opts\<rparr> in
      if eo_mode opts = ModeMeta \<and> has_password_argument (eo_args opts)
      then render_failure early ''cli'' password_argument_error
      else (case extract_globals (eo_args opts) of
          None \<Rightarrow> render_failure early ''cli'' invalid_argument
        | Some (g, args) \<Rightarrow> exec_globals opts g args))"

end
