(* ===== verification/CliContract.thy ===== *)
theory CliContract
  imports CliRun
begin

text \<open>
  What the two programs promise of their output and exit status, for every command line, every gateway
  and every state of the disk: one JSON document and nothing else on standard output in JSON mode, an
  exit status from the documented list, and errors of fixed words.  The rules of \<open>says\<close> and \<open>replies\<close>
  follow the structure of the commands.
\<close>

section \<open>Output of a procedure\<close>

definition documents :: "cli_output list \<Rightarrow> envelope list" where
  "documents xs = concat (map (\<lambda>x. case x of OutJson e \<Rightarrow> [e] | _ \<Rightarrow> []) xs)"

definition human_lines :: "cli_output list \<Rightarrow> string list" where
  "human_lines xs = concat (map (\<lambda>x. case x of OutText t \<Rightarrow> [t] | _ \<Rightarrow> []) xs)"

lemma documents_append [simp]: "documents (xs @ ys) = documents xs @ documents ys"
  by (simp add: documents_def)

lemma human_lines_append [simp]: "human_lines (xs @ ys) = human_lines xs @ human_lines ys"
  by (simp add: human_lines_def)

lemma documents_simps [simp]:
  "documents [] = []" "documents (OutJson e # xs) = e # documents xs" "documents (OutText t # xs) = documents xs"
  "documents (ErrText t # xs) = documents xs" "documents (map OutText ts) = []" "documents (map ErrText ts) = []"
  by (simp_all add: documents_def o_def)

lemma human_lines_simps [simp]:
  "human_lines [] = []" "human_lines (OutJson e # xs) = human_lines xs" "human_lines (OutText t # xs) = t # human_lines xs"
  "human_lines (ErrText t # xs) = human_lines xs" "human_lines (map ErrText ts) = []"
  by (simp_all add: human_lines_def o_def)

text \<open>Text before the answer: never a document, and on standard output only for a human.\<close>

definition preamble :: "renderer \<Rightarrow> cli_output list \<Rightarrow> bool" where
  "preamble rd xs \<longleftrightarrow> documents xs = [] \<and> (rd_mode rd = OutputJSON \<longrightarrow> human_lines xs = [])"

definition failed_envelope :: "envelope \<Rightarrow> bool" where
  "failed_envelope e = (case e of Envelope _ _ (Inl _) \<Rightarrow> True | _ \<Rightarrow> False)"

definition exit_statuses :: "int set" where
  "exit_statuses = {0, 1, 2, 3, 4, 5, 6, 7, 130}"

text \<open>The answer of a command: its exit status and its output.\<close>

definition answer :: "renderer \<Rightarrow> int \<Rightarrow> cli_output list \<Rightarrow> bool" where
  "answer rd code xs \<longleftrightarrow>
     code \<in> exit_statuses \<and>
     (if rd_mode rd = OutputJSON then
        human_lines xs = [] \<and>
        (if rd_stdout_ok rd then \<exists>e. documents xs = [e] \<and> (failed_envelope e \<longleftrightarrow> code \<noteq> 0)
         else documents xs = [] \<and> code = 1)
      else documents xs = [])"

lemma preamble_answer: "preamble rd xs \<Longrightarrow> answer rd code ys \<Longrightarrow> answer rd code (xs @ ys)"
  by (auto simp: preamble_def answer_def)

lemma preamble_append: "preamble rd xs \<Longrightarrow> preamble rd ys \<Longrightarrow> preamble rd (xs @ ys)"
  by (simp add: preamble_def)

text \<open>\<open>says rd fails m\<close>: a part of a command, which returns an error only if \<open>fails\<close>; \<open>replies rd m\<close>: a whole one.\<close>

definition says :: "renderer \<Rightarrow> bool \<Rightarrow> 'a cli \<Rightarrow> bool" where
  "says rd fails m \<longleftrightarrow>
     (\<forall>s r s'. m s = (r, s') \<longrightarrow>
        (\<exists>xs. c_output s' = c_output s @ xs \<and> preamble rd xs) \<and> (\<forall>e. r = Inl e \<longrightarrow> fails \<or> e = AppStopped))"

definition replies :: "renderer \<Rightarrow> int cli \<Rightarrow> bool" where
  "replies rd m \<longleftrightarrow>
     (\<forall>s r s'. m s = (r, s') \<longrightarrow>
        (\<exists>xs. c_output s' = c_output s @ xs \<and>
           (case r of Inl e \<Rightarrow> e = AppStopped \<and> preamble rd xs | Inr code \<Rightarrow> answer rd code xs)))"

named_theorems cli_rules \<open>rules that decompose a command for its output\<close>

lemma preamble_Nil: "preamble rd []"
  by (simp add: preamble_def)

lemma says_silent: "(\<And>s r s'. m s = (r, s') \<Longrightarrow> c_output s' = c_output s \<and> (\<forall>e. r = Inl e \<longrightarrow> fails \<or> e = AppStopped)) \<Longrightarrow> says rd fails m"
  unfolding says_def using preamble_Nil by (metis append.right_neutral)

lemma saysD: "says rd fails m \<Longrightarrow> m s = (r, s') \<Longrightarrow> \<exists>xs. c_output s' = c_output s @ xs \<and> preamble rd xs"
  by (simp add: says_def)

lemma says_weaken: "says rd False m \<Longrightarrow> says rd True m"
  by (simp add: says_def)

lemma says_return [cli_rules]: "says rd fails (returnP x)"
  by (rule says_silent) (simp add: returnP_def)

lemma says_fail [cli_rules]: "says rd True (cli_fail e)"
  by (rule says_silent) (simp add: cli_fail_def throwP_def)

lemma says_throw [cli_rules]: "says rd True (throwP e)"
  by (rule says_silent) (simp add: throwP_def)

lemma says_stop [cli_rules]: "says rd fails (throwP AppStopped)"
  by (rule says_silent) (simp add: throwP_def)

lemma says_on_app [cli_rules]: "says rd True (on_app m)"
  by (rule says_silent) (auto simp: on_app_def split: prod.splits)

lemma says_disk [cli_rules]: "says rd True (cli_disk m)"
  by (simp add: cli_disk_def says_on_app)

lemma says_load [cli_rules]: "says rd True (load_config r)"
  by (simp add: load_config_def says_disk)

lemma says_check [cli_rules]: "says rd True (check_ctx r)"
  by (rule says_silent) (auto simp: check_ctx_def)

lemma says_emit [cli_rules]: "says rd fails (emit_output (ErrText t))"
  by (auto simp: says_def emit_output_def modifyP_def preamble_def)

lemma says_talk [cli_rules]: "says rd fails (talk d)"
  by (auto simp: says_def talk_def preamble_def split: prod.splits)

lemma says_human [cli_rules]: "rd_mode rd = rd_mode rd' \<Longrightarrow> says rd fails (print_human rd' ts)"
  by (auto simp: says_def print_human_def modifyP_def returnP_def preamble_def)

lemma says_after:
  assumes "says rd f m" "m s = (r1, s1)" "says rd fails n" "n s1 = (r, s')"
  shows "(\<exists>xs. c_output s' = c_output s @ xs \<and> preamble rd xs) \<and> (\<forall>e. r = Inl e \<longrightarrow> fails \<or> e = AppStopped)"
proof -
  obtain xs where xs: "c_output s1 = c_output s @ xs" "preamble rd xs" using saysD [OF assms(1,2)] by blast
  obtain ys where ys: "c_output s' = c_output s1 @ ys" "preamble rd ys" using saysD [OF assms(3,4)] by blast
  from xs ys have "c_output s' = c_output s @ (xs @ ys)" "preamble rd (xs @ ys)" by (auto intro: preamble_append)
  moreover have "\<forall>e. r = Inl e \<longrightarrow> fails \<or> e = AppStopped" using assms(3,4) by (simp add: says_def)
  ultimately show ?thesis by blast
qed

lemma says_bind [cli_rules]:
  assumes "says rd fails m" "\<And>x. says rd fails (k x)"
  shows "says rd fails (bindP m k)"
  unfolding says_def
proof (intro allI impI)
  fix s r s' assume run: "bindP m k s = (r, s')"
  obtain r1 s1 where m: "m s = (r1, s1)" by (cases "m s")
  show "(\<exists>xs. c_output s' = c_output s @ xs \<and> preamble rd xs) \<and> (\<forall>e. r = Inl e \<longrightarrow> fails \<or> e = AppStopped)"
  proof (cases r1)
    case (Inl e)
    then show ?thesis using run m assms(1) by (auto simp: bindP_def says_def)
  next
    case (Inr x)
    then have "k x s1 = (r, s')" using run m by (simp add: bindP_def)
    then show ?thesis by (rule says_after [OF assms(1) m assms(2)])
  qed
qed

lemma says_handle:
  assumes "says rd True m" "\<And>e. says rd fails (h e)" "\<And>x. says rd fails (k x)"
  shows "says rd fails (handleP m h k)"
  unfolding says_def
proof (intro allI impI)
  fix s r s' assume run: "handleP m h k s = (r, s')"
  obtain r1 s1 where m: "m s = (r1, s1)" by (cases "m s")
  have "\<exists>n. says rd fails n \<and> n s1 = (r, s')"
    using run m assms(2,3) by (cases r1) (auto simp: handleP_def)
  then show "(\<exists>xs. c_output s' = c_output s @ xs \<and> preamble rd xs) \<and> (\<forall>e. r = Inl e \<longrightarrow> fails \<or> e = AppStopped)"
    using says_after [OF assms(1) m] by blast
qed

lemma replies_after:
  assumes "says rd fails m" "m s = (r1, s1)" "replies rd n" "n s1 = (r, s')"
  shows "\<exists>xs. c_output s' = c_output s @ xs \<and>
    (case r of Inl e \<Rightarrow> e = AppStopped \<and> preamble rd xs | Inr code \<Rightarrow> answer rd code xs)"
proof -
  obtain xs where xs: "c_output s1 = c_output s @ xs" "preamble rd xs"
    using saysD [OF assms(1,2)] by blast
  obtain ys where ys: "c_output s' = c_output s1 @ ys"
      "case r of Inl e \<Rightarrow> e = AppStopped \<and> preamble rd ys | Inr code \<Rightarrow> answer rd code ys"
    using assms(3,4) unfolding replies_def by blast
  then show ?thesis using xs
    by (intro exI [of _ "xs @ ys"]) (auto split: sum.splits intro: preamble_append preamble_answer)
qed

lemma replies_bind [cli_rules]:
  assumes "says rd False m" "\<And>x. replies rd (k x)"
  shows "replies rd (bindP m k)"
  unfolding replies_def
proof (intro allI impI)
  fix s r s' assume run: "bindP m k s = (r, s')"
  obtain r1 s1 where m: "m s = (r1, s1)" by (cases "m s")
  show "\<exists>xs. c_output s' = c_output s @ xs \<and>
      (case r of Inl e \<Rightarrow> e = AppStopped \<and> preamble rd xs | Inr code \<Rightarrow> answer rd code xs)"
  proof (cases r1)
    case (Inl e)
    then show ?thesis using run m assms(1) by (auto simp: bindP_def says_def)
  next
    case (Inr x)
    then have "k x s1 = (r, s')" using run m by (simp add: bindP_def)
    then show ?thesis by (rule replies_after [OF assms(1) m assms(2)])
  qed
qed

lemma replies_stop [cli_rules]: "replies rd (throwP AppStopped)"
  by (simp add: replies_def throwP_def preamble_Nil)

lemma replies_or_report [cli_rules]:
  assumes "says rd True m" "\<And>e. replies rd (report e)" "\<And>x. replies rd (k x)"
  shows "replies rd (or_report m report k)"
  unfolding replies_def
proof (intro allI impI)
  fix s r s' assume run: "or_report m report k s = (r, s')"
  obtain r1 s1 where m: "m s = (r1, s1)" by (cases "m s")
  have "\<exists>n. replies rd n \<and> n s1 = (r, s')"
    using run m assms(2,3) replies_stop
    by (cases r1) (auto simp: or_report_def handleP_def split: app_error.splits)
  then show "\<exists>xs. c_output s' = c_output s @ xs \<and>
      (case r of Inl e \<Rightarrow> e = AppStopped \<and> preamble rd xs | Inr code \<Rightarrow> answer rd code xs)"
    using replies_after [OF assms(1) m] by blast
qed

section \<open>Rendering\<close>

lemma exit_code_status: "exit_code e \<in> exit_statuses" "exit_code e \<noteq> 0"
  by (auto simp: exit_code_def exit_statuses_def split: sdk_code.splits)

lemma failed_envelope_marshal:
  "failed_envelope (marshal_envelope command ok data err) \<longleftrightarrow> \<not> (ok \<and> data \<noteq> None)"
  by (auto simp: failed_envelope_def marshal_envelope_def split: option.splits bool.splits)

lemma replies_return: "rd_mode rd = OutputHuman \<Longrightarrow> code \<in> exit_statuses \<Longrightarrow> replies rd (returnP code)"
  by (simp add: replies_def returnP_def answer_def)

lemma replies_encode:
  assumes "rd_mode rd = OutputJSON" "code \<in> exit_statuses" "failed_envelope e \<longleftrightarrow> code \<noteq> 0"
  shows "replies rd (bindP (encode_json rd e) (\<lambda>ok. returnP (if ok then code else 1)))"
  using assms
  by (auto simp: replies_def encode_json_def bindP_def emit_output_def modifyP_def returnP_def answer_def exit_statuses_def)

lemma says_errors [cli_rules]: "says rd fails (modifyP (\<lambda>s. s\<lparr>c_output := c_output s @ map ErrText ts\<rparr>))"
  by (auto simp: says_def modifyP_def preamble_def)

lemma replies_failure_with [cli_rules]: "replies rd (render_failure_with rd command e supplied)"
proof (cases "rd_mode rd")
  case OutputHuman
  then show ?thesis using exit_code_status [of e]
    by (auto simp: render_failure_with_def Let_def split: prod.splits intro!: replies_bind replies_return says_emit says_errors says_return)
next
  case OutputJSON
  then show ?thesis using exit_code_status [of e]
    by (auto simp: render_failure_with_def Let_def failed_envelope_marshal split: prod.splits intro!: replies_encode)
qed

lemma replies_failure [cli_rules]: "replies rd (render_failure rd command e)"
  by (simp add: render_failure_def replies_failure_with)

lemma replies_success [cli_rules]: "replies rd (render_success rd command data)"
proof (cases "rd_mode rd")
  case OutputHuman
  then show ?thesis by (simp add: render_success_def replies_return exit_statuses_def)
next
  case OutputJSON
  then show ?thesis
    by (simp add: render_success_def replies_encode exit_statuses_def failed_envelope_marshal)
qed

section \<open>The commands\<close>

lemma truncate_mode [simp]: "rd_mode (renderer.truncate r) = rd_mode r"
  by (simp add: renderer.truncate_def)

lemma replies_if [cli_rules]: "(b \<Longrightarrow> replies rd m) \<Longrightarrow> (\<not> b \<Longrightarrow> replies rd n) \<Longrightarrow> replies rd (if b then m else n)"
  by simp

lemma says_if [cli_rules]: "(b \<Longrightarrow> says rd f m) \<Longrightarrow> (\<not> b \<Longrightarrow> says rd f n) \<Longrightarrow> says rd f (if b then m else n)"
  by simp

lemma replies_status [cli_rules]: "replies (renderer.truncate r) (run_status r b)"
  unfolding run_status_def Let_def by (intro cli_rules) simp

lemma replies_login [cli_rules]: "replies (renderer.truncate r) (run_login r args legacy)"
  unfolding run_login_def login_with_def Let_def
  by (auto split: option.splits prod.splits intro!: cli_rules)

lemma replies_logout [cli_rules]: "replies (renderer.truncate r) (run_logout r)"
  unfolding run_logout_def Let_def by (auto split: prod.splits intro!: cli_rules)

lemma replies_network_list [cli_rules]: "replies (renderer.truncate r) (run_network_list r)"
  unfolding run_network_list_def by (auto intro!: cli_rules)

lemma says_scan_status: "says (renderer.truncate r) True (scan_status r i)"
  unfolding scan_status_def
  by (auto split: app_error.splits prod.splits intro!: cli_rules says_handle)

lemma says_scan [cli_rules]: "says (renderer.truncate r) True (scan_interfaces r is)"
proof (induction "is")
  case Nil
  show ?case unfolding scan_interfaces.simps by (rule says_return)
next
  case (Cons i "is")
  then show ?case unfolding scan_interfaces.simps by (intro cli_rules says_scan_status) simp_all
qed

lemma replies_network_scan [cli_rules]: "replies (renderer.truncate r) (run_network_scan r)"
  unfolding run_network_scan_def by (intro cli_rules)

lemma replies_version [cli_rules]: "replies rd (run_version rd version)"
  unfolding run_version_def by (intro cli_rules) simp

lemma replies_help [cli_rules]: "replies rd (run_help rd texts mode)"
  unfolding run_help_def by (intro cli_rules) simp

lemma replies_profile_list [cli_rules]: "replies (renderer.truncate r) (profile_list r)"
  unfolding profile_list_def Let_def by (auto intro!: cli_rules)

lemma replies_profile_show [cli_rules]: "replies (renderer.truncate r) (profile_show r name)"
  unfolding profile_show_def Let_def by (auto split: option.splits intro!: cli_rules)

lemma replies_profile_remove [cli_rules]: "replies (renderer.truncate r) (profile_remove r name)"
  unfolding profile_remove_def by (auto intro!: cli_rules)

lemma says_ask [cli_rules]: "says rd True (ask_password r p)"
  unfolding ask_password_def by (auto split: sum.splits intro!: cli_rules)

lemma replies_add_profile [cli_rules]: "replies (renderer.truncate r) (add_profile r name b p)"
  unfolding add_profile_def Let_def by (auto split: prod.splits intro!: cli_rules)

lemma replies_profile_save [cli_rules]: "replies (renderer.truncate r) (profile_save r args)"
  unfolding profile_save_def Let_def by (auto split: list.splits option.splits prod.splits intro!: cli_rules)

lemma replies_fail_plan [cli_rules]: "replies (renderer.truncate r) (fail_plan r p)"
  unfolding fail_plan_def by (intro cli_rules)

lemma says_migrate_apply [cli_rules]: "says rd True (migrate_apply r cfg p)"
  unfolding migrate_apply_def by (intro cli_rules)

lemma replies_migrate_decided [cli_rules]: "replies (renderer.truncate r) (migrate_decided r cfg d)"
  unfolding migrate_decided_def by (auto split: sum.splits prod.splits bool.splits intro!: cli_rules)

lemma says_decide [cli_rules]:
  "says (renderer.truncate r) False (decide_interactive r refs a p)"
  "says (renderer.truncate r) False (decide_automated refs a p)"
  unfolding decide_interactive_def decide_automated_def
  by (auto split: prod.splits option.splits intro!: cli_rules)

lemma replies_migrate_new [cli_rules]: "replies (renderer.truncate r) (migrate_new r refs a cfg p)"
  unfolding migrate_new_def Let_def by (auto split: prod.splits intro!: cli_rules)

lemma replies_migrate [cli_rules]: "replies (renderer.truncate r) (run_migrate r refs args)"
  unfolding run_migrate_def Let_def by (auto split: option.splits prod.splits intro!: cli_rules)

lemma replies_profile [cli_rules]: "replies (renderer.truncate r) (run_profile r refs args)"
  unfolding run_profile_def Let_def by (auto split: list.splits intro!: cli_rules)

lemma replies_meta [cli_rules]: "replies (renderer.truncate r) (run_meta r refs args)"
  unfolding run_meta_def Let_def by (auto split: list.splits option.splits intro!: cli_rules)

lemma replies_legacy [cli_rules]: "replies (renderer.truncate r) (run_legacy r refs args)"
  unfolding run_legacy_def Let_def by (auto split: list.splits intro!: cli_rules)

section \<open>Both programs\<close>

lemma truncate_runtime:
  "renderer.truncate (exec_runtime opts g gw paths version) = \<lparr>rd_mode = g_output g, rd_stdout_ok = eo_stdout_ok opts\<rparr>"
  by (simp add: exec_runtime_def renderer.truncate_def)

lemma replies_dispatch:
  assumes "renderer.truncate r = rd"
  shows "replies rd (exec_dispatch opts r args)"
  using assms unfolding exec_dispatch_def by (auto split: cli_mode.splits intro!: cli_rules)

text \<open>The renderer the command line asks for.\<close>

definition asked_renderer :: "exec_options \<Rightarrow> renderer" where
  "asked_renderer opts = \<lparr>rd_mode = preparse_output_mode (eo_args opts), rd_stdout_ok = eo_stdout_ok opts\<rparr>"

lemma replies_globals:
  assumes "g_output g = preparse_output_mode (eo_args opts)"
  shows "replies (asked_renderer opts) (exec_globals opts g args)"
  using assms unfolding exec_globals_def Let_def asked_renderer_def startup_failure_def
  by (auto split: option.splits intro!: cli_rules replies_dispatch simp: truncate_runtime)

lemma extracted_mode:
  assumes "extract_globals args = Some (g, rest)"
  shows "g_output g = preparse_output_mode args"
proof -
  have "g_output g = OutputJSON \<longleftrightarrow> preparse_output_mode args = OutputJSON"
    using extract_output_mode [OF assms [unfolded extract_globals_def]] by (simp add: no_globals_def)
  then show ?thesis by (metis output_mode.exhaust)
qed

lemma replies_execute: "replies (asked_renderer opts) (execute opts)"
  unfolding execute_def Let_def
  by (auto split: option.splits prod.splits intro!: cli_rules replies_globals extracted_mode
      simp: asked_renderer_def [symmetric])

text \<open>C31: Every run of one of the two programs, whatever the command line, the answers of the gateway, the faults of the
  disk and the typed input, ends with an exit status of the documented list (or the process is ended from outside), and
  never with an unreported error. When the command line asks for JSON, standard output holds exactly one document and
  nothing else, which is an error exactly when the status is not zero; if the document cannot be written the status is 1.
  Otherwise no document is written.\<close>

theorem execute_answers:
  assumes "execute opts s = (r, s')"
  shows "\<exists>xs. c_output s' = c_output s @ xs \<and>
    (case r of
       Inl e \<Rightarrow> e = AppStopped \<and> documents xs = []
     | Inr code \<Rightarrow>
         code \<in> {0, 1, 2, 3, 4, 5, 6, 7, 130} \<and>
         (if preparse_output_mode (eo_args opts) = OutputJSON then
            human_lines xs = [] \<and>
            (if eo_stdout_ok opts then \<exists>e. documents xs = [e] \<and> (failed_envelope e \<longleftrightarrow> code \<noteq> 0)
             else documents xs = [] \<and> code = 1)
          else documents xs = []))"
proof -
  obtain xs where xs: "c_output s' = c_output s @ xs"
      "case r of Inl e \<Rightarrow> e = AppStopped \<and> preamble (asked_renderer opts) xs | Inr code \<Rightarrow> answer (asked_renderer opts) code xs"
    using replies_execute [of opts] assms unfolding replies_def by blast
  show ?thesis
  proof (intro exI conjI)
    show "c_output s' = c_output s @ xs" by (rule xs)
  qed (use xs(2) in \<open>cases r; simp add: answer_def preamble_def asked_renderer_def exit_statuses_def\<close>)
qed

section \<open>Reported errors\<close>

text \<open>The documented codes with their exit statuses.\<close>

definition documented_statuses :: "(string \<times> int) list" where
  "documented_statuses =
     [(''invalid_argument'', 2), (''config'', 2), (''network'', 3), (''authentication'', 4), (''session_conflict'', 5),
      (''protocol_changed'', 6), (''interaction_required'', 7), (''unsupported'', 2), (''internal'', 1)]"

text \<open>The code of an SDK error is one of the declared ones or a string that is none of them.\<close>

definition canonical_error :: "go_error \<Rightarrow> bool" where
  "canonical_error e = (case e of ErrSdk x \<Rightarrow> code_named (code_string (e_code x)) = e_code x | _ \<Rightarrow> True)"

definition closed_interaction :: "interaction_details \<Rightarrow> bool" where
  "closed_interaction d \<longleftrightarrow>
     is_interaction_auth_method (d_origin d) \<and> is_interaction_challenge (d_challenge d) \<and>
     list_all is_interaction_capability (d_capability d) \<and> distinct (d_capability d) \<and>
     d_session d \<in> {'''', ''cas_session''} \<and>
     d_resume d \<in> {'''', ''retry_in_tty'', ''restart'', ''official_portal''} \<and> d_help d \<in> insert '''' (set help_ids)"

definition closed_details :: "string \<Rightarrow> migration_report option \<Rightarrow> wire_details \<Rightarrow> bool" where
  "closed_details code supplied d \<longleftrightarrow>
     (\<forall>i. wd_interaction d = Some i \<longrightarrow> code = ''interaction_required'' \<and> closed_interaction i) \<and>
     (wd_protocol d \<noteq> '''' \<longrightarrow> code = ''protocol_changed'' \<and> wd_protocol d \<in> set protocol_parts) \<and>
     (wd_migration d \<noteq> None \<longrightarrow> code = ''config'' \<and> wd_migration d = supplied)"

lemma code_named_string: "(\<And>s. c \<noteq> CodeOther s) \<Longrightarrow> code_named (code_string c) = c"
proof -
  assume c: "\<And>s. c \<noteq> CodeOther s"
  show ?thesis
  proof (cases c)
    case (CodeOther s)
    then show ?thesis using c by blast
  qed (simp_all add: code_named_def code_string_def)
qed

lemma public_code: "is_public_error_code s \<longleftrightarrow> (\<forall>t. code_named s \<noteq> CodeOther t)"
  by (simp add: is_public_error_code_def split: sdk_code.splits)

lemma code_string_named: "(\<And>t. code_named s \<noteq> CodeOther t) \<Longrightarrow> code_string (code_named s) = s"
  by (auto simp: code_named_def code_string_def [of "CodeOther s"] split: option.splits dest!: find_Some_set)

lemma kept_one: "(if x = c then x else e) \<in> {e, c}"
  by simp

lemma kept_some: "(if x \<in> A then x else e) \<in> insert e A"
  by simp

lemma sanitized_session: "sanitize_session_binding x \<in> {'''', ''cas_session''}"
  unfolding sanitize_session_binding_def by (rule kept_one)

lemma sanitized_resume: "sanitize_resume_mode x \<in> {'''', ''retry_in_tty'', ''restart'', ''official_portal''}"
  unfolding sanitize_resume_mode_def by (rule kept_some)

lemma sanitized_help: "sanitize_help_id x \<in> insert '''' (set help_ids)"
  unfolding sanitize_help_id_def by (rule kept_some)

lemma sanitized_part: "sanitize_protocol_part x \<in> insert '''' (set protocol_parts)"
  unfolding sanitize_protocol_part_def by (rule kept_some)

lemma sanitized_capabilities:
  "list_all is_interaction_capability (dedup_seen id [] (filter is_interaction_capability xs))"
  "distinct (dedup_seen id [] (filter is_interaction_capability xs))"
  using dedup_seen_subset [of id "[]" "filter is_interaction_capability xs"]
    dedup_seen_distinct [of id "[]" "filter is_interaction_capability xs"]
  by (auto simp: list_all_iff)

lemma sanitized_challenge: "is_interaction_challenge (if is_interaction_challenge c then c else ChallengeKindUnknown)"
  by (simp add: is_interaction_challenge_def)

lemma sanitize_interaction_closed:
  assumes "sanitize_interaction v = Some d"
  shows "closed_interaction d"
proof -
  obtain i where i: "v = Some i" "is_interaction_auth_method (d_origin i)"
    using assms unfolding sanitize_interaction_def by (cases v) (auto split: if_splits)
  then have d: "d = \<lparr>d_challenge = (if is_interaction_challenge (d_challenge i) then d_challenge i else ChallengeKindUnknown),
      d_origin = d_origin i, d_capability = dedup_seen id [] (filter is_interaction_capability (d_capability i)),
      d_session = sanitize_session_binding (d_session i), d_resume = sanitize_resume_mode (d_resume i),
      d_tty = d_tty i, d_help = sanitize_help_id (d_help i)\<rparr>"
    using assms unfolding sanitize_interaction_def by simp
  show ?thesis
    unfolding d closed_interaction_def interaction_details.select_convs
    by (intro conjI i(2) sanitized_challenge sanitized_capabilities sanitized_session sanitized_resume sanitized_help)
qed

lemma sanitized_details_closed:
  assumes "code_named code = c" "wd_migration d \<in> {None, supplied}"
  shows "closed_details code supplied (sanitize_wire_details code d)"
proof -
  have code: "code = code_string c" if "\<And>t. c \<noteq> CodeOther t"
    using code_string_named [of code] that assms(1) by simp
  show ?thesis
  proof (cases c)
    case CodeInteractionRequired
    then have "code = ''interaction_required''" using code by (simp add: code_string_def)
    then show ?thesis using CodeInteractionRequired assms sanitize_interaction_closed
      by (simp add: closed_details_def sanitize_wire_details_def no_details_def)
  next
    case CodeProtocolChanged
    then have "code = ''protocol_changed''" using code by (simp add: code_string_def)
    then show ?thesis using CodeProtocolChanged assms sanitized_part [of "wd_protocol d"]
      by (auto simp add: closed_details_def sanitize_wire_details_def no_details_def)
  next
    case CodeConfig
    then have "code = ''config''" using code by (simp add: code_string_def)
    then show ?thesis using CodeConfig assms
      by (auto simp add: closed_details_def sanitize_wire_details_def no_details_def)
  qed (use assms in \<open>simp_all add: closed_details_def sanitize_wire_details_def no_details_def\<close>)
qed

text \<open>The code an error is reported with, and its exit status.\<close>

lemma wire_details_no_migration: "wd_migration (wire_details_of x) = None"
proof -
  have "code_named (code_string CodeInteractionRequired) = CodeInteractionRequired"
      "code_named (code_string CodeProtocolChanged) = CodeProtocolChanged"
    by (rule code_named_string; simp)+
  then show ?thesis
    by (cases "e_code x"; cases "e_interaction x") (simp_all add: wire_details_of_def no_details_def sanitize_wire_details_def)
qed

lemma public_named: "is_public_error_code (code_string c) \<longleftrightarrow> (\<forall>t. c \<noteq> CodeOther t)" if "code_named (code_string c) = c"
  using that public_code by simp

lemma status_of_code:
  "map_of documented_statuses ''network'' = Some 3" "map_of documented_statuses ''internal'' = Some 1"
  by (simp_all add: documented_statuses_def)

lemma status_of_sdk:
  assumes "context_sentinel (ErrSdk x) = None" "\<And>t. e_code x \<noteq> CodeOther t"
  shows "map_of documented_statuses (code_string (e_code x)) = Some (exit_code (ErrSdk x))"
proof -
  have "code_of (Some (ErrSdk x)) = e_code x"
    using assms(1) by (simp add: code_of_def is_redirect_rejected_def is_context_error_def)
  note code = this
  show ?thesis
  proof (cases "e_code x")
    case (CodeOther t)
    then show ?thesis using assms(2) by blast
  qed (use code assms(1) in \<open>simp_all add: exit_code_def documented_statuses_def code_string_def\<close>)
qed

lemma internal_status:
  assumes "context_sentinel e = None" "e \<noteq> ErrRedirect" "\<And>x. e = ErrSdk x \<Longrightarrow> \<exists>t. e_code x = CodeOther t"
  shows "exit_code e = 1"
proof (cases e)
  case (ErrSdk x)
  then obtain t where "e_code x = CodeOther t" using assms(3) by blast
  then show ?thesis using assms(1) ErrSdk
    by (simp add: exit_code_def code_of_def is_redirect_rejected_def is_context_error_def)
qed (use assms(1,2) in \<open>simp_all add: exit_code_def code_of_def is_redirect_rejected_def is_context_error_def\<close>)

lemma wire_error_code:
  assumes "wire_error_of e = (code, retryable, d)" "canonical_error e" "e \<noteq> ErrRedirect"
  shows "is_public_error_code code \<and> wd_migration d = None \<and>
    (if context_sentinel e = Some CtxCanceled then code = ''network'' \<and> exit_code e = 130
     else map_of documented_statuses code = Some (exit_code e))"
proof -
  have net: "is_public_error_code ''network''" "is_public_error_code ''internal''"
    using public_named [of CodeNetwork] public_named [of CodeInternal] code_named_string [of CodeNetwork]
      code_named_string [of CodeInternal] by (simp_all add: code_string_def)
  show ?thesis
  proof (cases "context_sentinel e")
    case (Some c)
    then have "code = ''network''" "d = no_details" using assms(1)
      by (cases c; simp add: wire_error_of_def code_string_def)+
    moreover have "exit_code e = (if c = CtxCanceled then 130 else 3)"
      using Some assms(3) by (cases c) (simp_all add: exit_code_def code_of_def is_redirect_rejected_def is_context_error_def)
    ultimately show ?thesis using Some net status_of_code by (simp add: no_details_def)
  next
    case None
    show ?thesis
    proof (cases "\<exists>x. e = ErrSdk x \<and> (\<forall>t. e_code x \<noteq> CodeOther t)")
      case True
      then obtain x where x: "e = ErrSdk x" "\<And>t. e_code x \<noteq> CodeOther t" by blast
      then have pub: "is_public_error_code (code_string (e_code x))"
        using public_named code_named_string by blast
      then have "code = code_string (e_code x)" "d = wire_details_of x"
        using assms(1) x(1) None by (simp_all add: wire_error_of_def)
      then show ?thesis using pub None x status_of_sdk [of x] wire_details_no_migration by simp
    next
      case False
      then have st: "exit_code e = 1" using internal_status [OF None assms(3)] by blast
      have "code = ''internal'' \<and> d = no_details"
      proof (cases e)
        case (ErrSdk x)
        then have "\<not> is_public_error_code (code_string (e_code x))"
          using False assms(2) public_named [of "e_code x"] by (simp add: canonical_error_def)
        then show ?thesis using assms(1) ErrSdk None by (simp add: wire_error_of_def code_string_def [of CodeInternal])
      qed (use assms(1) None in \<open>simp_all add: wire_error_of_def code_string_def\<close>)
      then show ?thesis using st None net status_of_code by (simp add: no_details_def)
    qed
  qed
qed

text \<open>C32: An error is reported in fixed words. In JSON mode the one document of a failed command has a documented code, the
  message that belongs to the code and not the message of the error, details from a closed vocabulary (an interaction only
  with the code for it, a protocol part from the list, a migration report only for a configuration error and only the one
  of the command), and the exit status that is documented for the code, or 130 after a cancellation; and reporting changes
  nothing else. The errors that wrap a private redirect error never reach the commands.\<close>

theorem reported_error_closed:
  assumes "render_failure_with rd command e supplied s = (Inr code, s')"
    and "rd_mode rd = OutputJSON" "rd_stdout_ok rd" "canonical_error e" "e \<noteq> ErrRedirect"
  shows "\<exists>w. s' = s\<lparr>c_output := c_output s @ [OutJson (Envelope 1 command (Inl w))]\<rparr> \<and>
    (if context_sentinel e = Some CtxCanceled then we_code w = ''network'' \<and> code = 130
     else map_of documented_statuses (we_code w) = Some code) \<and>
    we_message w = safe_wire_message (we_code w) \<and> closed_details (we_code w) supplied (we_details w)"
proof -
  obtain wc rt d where w: "wire_error_of e = (wc, rt, d)" by (cases "wire_error_of e")
  note facts = wire_error_code [OF w assms(4,5)]
  define d' where "d' = (if wc = code_string CodeConfig \<and> supplied \<noteq> None then d\<lparr>wd_migration := supplied\<rparr> else d)"
  define we where "we = marshal_wire_error
    \<lparr>we_code = wc, we_message = wire_error_message e wc, we_retryable = rt, we_details = d'\<rparr>"
  have "render_failure_with rd command e supplied =
      bindP (encode_json rd (Envelope 1 command (Inl we))) (\<lambda>ok. returnP (if ok then exit_code e else 1))"
    using assms(2) w by (simp add: render_failure_with_def Let_def marshal_envelope_def we_def d'_def)
  then have run: "s' = s\<lparr>c_output := c_output s @ [OutJson (Envelope 1 command (Inl we))]\<rparr>" "code = exit_code e"
    using assms(1,3) by (simp_all add: encode_json_def bindP_def emit_output_def modifyP_def returnP_def)
  have we: "we_code we = wc" "we_message we = safe_wire_message wc" "we_details we = sanitize_wire_details wc d'"
    using facts by (simp_all add: we_def marshal_wire_error_def Let_def)
  have closed: "closed_details wc supplied (sanitize_wire_details wc d')"
    using facts by (intro sanitized_details_closed [OF refl]) (auto simp: d'_def)
  have status: "if context_sentinel e = Some CtxCanceled then wc = ''network'' \<and> code = 130
      else map_of documented_statuses wc = Some code"
    using facts run(2) by simp
  from run(1) we closed status show ?thesis by (intro exI [of _ we]) simp
qed

theorem reported_error_closed_witness:
  "\<exists>w. render_failure_with \<lparr>rd_mode = OutputJSON, rd_stdout_ok = True\<rparr> ''login'' terminal_qr_required None
      \<lparr>c_app = \<lparr>a_disk = w_disk, a_history = []\<rparr>, c_output = [], c_input = [], c_checks = 0\<rparr> =
      (Inr 7, \<lparr>c_app = \<lparr>a_disk = w_disk, a_history = []\<rparr>,
         c_output = [OutJson (Envelope 1 ''login'' (Inl w))], c_input = [], c_checks = 0\<rparr>) \<and>
    we_message w = safe_wire_message (we_code w) \<and> closed_details (we_code w) None (we_details w)"
proof -
  let ?rd = "\<lparr>rd_mode = OutputJSON, rd_stdout_ok = True\<rparr>"
  let ?s = "\<lparr>c_app = \<lparr>a_disk = w_disk, a_history = []\<rparr>, c_output = [], c_input = [], c_checks = 0\<rparr> :: cli_state"
  have exit: "exit_code terminal_qr_required = 7"
    by (simp add: exit_code_def terminal_qr_required_def new_error_def context_sentinel_def code_of_def
        is_redirect_rejected_def is_context_error_def)
  have ok: "canonical_error terminal_qr_required" "terminal_qr_required \<noteq> ErrRedirect"
    using code_named_string [of CodeInteractionRequired]
    by (simp_all add: canonical_error_def terminal_qr_required_def new_error_def)
  have "fst (render_failure_with ?rd ''login'' terminal_qr_required None ?s) = Inr 7"
    using exit by (cases "wire_error_of terminal_qr_required")
      (simp add: render_failure_with_def Let_def encode_json_def bindP_def emit_output_def modifyP_def returnP_def)
  then obtain s' where run: "render_failure_with ?rd ''login'' terminal_qr_required None ?s = (Inr 7, s')"
    by (metis eq_fst_iff)
  obtain w where "s' = ?s\<lparr>c_output := c_output ?s @ [OutJson (Envelope 1 ''login'' (Inl w))]\<rparr>"
      "we_message w = safe_wire_message (we_code w)" "closed_details (we_code w) None (we_details w)"
    using reported_error_closed [OF run _ _ ok] by auto
  then show ?thesis using run by auto
qed

section \<open>No password from the command line\<close>

text \<open>Gateways that agree on everything but a login with a password of the caller.\<close>

definition login_agrees :: "gateway \<Rightarrow> gateway \<Rightarrow> bool" where
  "login_agrees gw gw' \<longleftrightarrow>
     gw_status gw = gw_status gw' \<and> gw_logout gw = gw_logout gw' \<and> gw_interfaces gw = gw_interfaces gw' \<and>
     (\<forall>opts. lo_credentials opts = None \<longrightarrow> gw_login gw opts = gw_login gw' opts)"

lemma login_args_switch: "login_args_from False a (''--switch'' # rest) = login_args_from False (a\<lparr>la_switch := True\<rparr>) rest"
  by (simp add: short_value_def)

lemma login_args_method: "login_args_from False a (''--method'' # m # rest) =
   (case login_method_named m of None \<Rightarrow> None | Some k \<Rightarrow> login_args_from False (a\<lparr>la_method := k\<rparr>) rest)"
  by (simp add: short_value_def)

lemma meta_login_no_password:
  assumes "meta_login_from sw me args = Some norm" "login_args_from False a norm = Some a'"
  shows "la_password a' = la_password a"
  using assms
proof (induction sw me args arbitrary: norm a rule: meta_login_from.induct)
  case (2 sw me arg rest)
  then show ?case
    by (auto simp del: login_args_from.simps(2) simp: login_args_switch login_args_method meta_method_def
        split: if_splits list.splits option.splits)
qed simp


text \<open>A command that asks the gateway nothing keeps its meaning when the gateway is exchanged.\<close>

named_theorems other_gateway \<open>commands with the gateway exchanged\<close>

lemma fields_other_gateway [other_gateway]:
  "renderer.truncate (r\<lparr>rt_gateway := gw\<rparr>) = renderer.truncate r" "rd_mode (r\<lparr>rt_gateway := gw\<rparr>) = rd_mode r"
  "rt_env (r\<lparr>rt_gateway := gw\<rparr>) = rt_env r" "rt_store (r\<lparr>rt_gateway := gw\<rparr>) = rt_store r"
  "rt_paths (r\<lparr>rt_gateway := gw\<rparr>) = rt_paths r" "rt_input (r\<lparr>rt_gateway := gw\<rparr>) = rt_input r"
  "rt_tty (r\<lparr>rt_gateway := gw\<rparr>) = rt_tty r" "rt_profile (r\<lparr>rt_gateway := gw\<rparr>) = rt_profile r"
  "rt_bind (r\<lparr>rt_gateway := gw\<rparr>) = rt_bind r" "rt_version (r\<lparr>rt_gateway := gw\<rparr>) = rt_version r"
  "rt_ask (r\<lparr>rt_gateway := gw\<rparr>) = rt_ask r" "rt_random (r\<lparr>rt_gateway := gw\<rparr>) = rt_random r"
  "rt_txid (r\<lparr>rt_gateway := gw\<rparr>) = rt_txid r" "rt_now (r\<lparr>rt_gateway := gw\<rparr>) = rt_now r"
  by (simp_all add: renderer.truncate_def)

lemma disk_other_gateway [other_gateway]:
  "load_config (r\<lparr>rt_gateway := gw\<rparr>) = load_config r" "check_ctx (r\<lparr>rt_gateway := gw\<rparr>) s = check_ctx r s"
  "ask_password (r\<lparr>rt_gateway := gw\<rparr>) p = ask_password r p" "fresh_profile (r\<lparr>rt_gateway := gw\<rparr>) vs = fresh_profile r vs"
  "migrate_apply (r\<lparr>rt_gateway := gw\<rparr>) cfg pl = migrate_apply r cfg pl" "fail_plan (r\<lparr>rt_gateway := gw\<rparr>) pl = fail_plan r pl"
  unfolding load_config_def check_ctx_def ask_password_def fresh_profile_def migrate_apply_def fail_plan_def other_gateway
  by (rule refl)+

lemma check_other_gateway [other_gateway]: "check_ctx (r\<lparr>rt_gateway := gw\<rparr>) = check_ctx r"
  by (rule ext) (rule disk_other_gateway)

lemma profile_other_gateway [other_gateway]:
  "profile_list (r\<lparr>rt_gateway := gw\<rparr>) = profile_list r" "profile_show (r\<lparr>rt_gateway := gw\<rparr>) n = profile_show r n"
  "profile_remove (r\<lparr>rt_gateway := gw\<rparr>) n = profile_remove r n" "add_profile (r\<lparr>rt_gateway := gw\<rparr>) n b p = add_profile r n b p"
  unfolding profile_list_def profile_show_def profile_remove_def add_profile_def other_gateway by (rule refl)+

lemma save_other_gateway [other_gateway]: "profile_save (r\<lparr>rt_gateway := gw\<rparr>) args = profile_save r args"
  unfolding profile_save_def other_gateway by (rule refl)

lemma migrate_other_gateway [other_gateway]:
  "decide_interactive (r\<lparr>rt_gateway := gw\<rparr>) refs a pl = decide_interactive r refs a pl"
  "migrate_decided (r\<lparr>rt_gateway := gw\<rparr>) cfg d = migrate_decided r cfg d"
  unfolding decide_interactive_def migrate_decided_def other_gateway by (rule refl)+

lemma decided_other_gateway [other_gateway]: "migrate_decided (r\<lparr>rt_gateway := gw\<rparr>) cfg = migrate_decided r cfg"
  by (rule ext) (rule migrate_other_gateway)

lemma migrate_new_other_gateway [other_gateway]: "migrate_new (r\<lparr>rt_gateway := gw\<rparr>) refs a cfg pl = migrate_new r refs a cfg pl"
  unfolding migrate_new_def other_gateway by (rule refl)

lemma run_migrate_other_gateway [other_gateway]: "run_migrate (r\<lparr>rt_gateway := gw\<rparr>) refs args = run_migrate r refs args"
  unfolding run_migrate_def other_gateway by (rule refl)

lemma run_profile_other_gateway [other_gateway]: "run_profile (r\<lparr>rt_gateway := gw\<rparr>) refs args = run_profile r refs args"
  unfolding run_profile_def other_gateway by (rule refl)

text \<open>A command that asks the gateway, when the other gateway agrees.\<close>

lemma agreeing_gateway:
  assumes "login_agrees (rt_gateway r) gw"
  shows "gw_status (rt_gateway (r\<lparr>rt_gateway := gw\<rparr>)) = gw_status (rt_gateway r)"
    "gw_logout (rt_gateway (r\<lparr>rt_gateway := gw\<rparr>)) = gw_logout (rt_gateway r)"
    "gw_interfaces (rt_gateway (r\<lparr>rt_gateway := gw\<rparr>)) = gw_interfaces (rt_gateway r)"
  using assms by (simp_all add: login_agrees_def)

lemma gateway_commands_agree:
  assumes "login_agrees (rt_gateway r) gw"
  shows "run_status (r\<lparr>rt_gateway := gw\<rparr>) b = run_status r b" "run_logout (r\<lparr>rt_gateway := gw\<rparr>) = run_logout r"
    "run_network_list (r\<lparr>rt_gateway := gw\<rparr>) = run_network_list r"
    "scan_status (r\<lparr>rt_gateway := gw\<rparr>) i = scan_status r i"
  unfolding run_status_def run_logout_def run_network_list_def scan_status_def agreeing_gateway [OF assms] other_gateway
  by (rule refl)+

lemma scan_agrees:
  assumes "login_agrees (rt_gateway r) gw"
  shows "scan_interfaces (r\<lparr>rt_gateway := gw\<rparr>) is = scan_interfaces r is"
proof (induction "is")
  case Nil
  show ?case by (simp only: scan_interfaces.simps)
next
  case (Cons i "is")
  then show ?case by (simp only: scan_interfaces.simps gateway_commands_agree [OF assms] other_gateway)
qed

lemma network_scan_agrees:
  assumes "login_agrees (rt_gateway r) gw"
  shows "run_network_scan (r\<lparr>rt_gateway := gw\<rparr>) = run_network_scan r"
  unfolding run_network_scan_def scan_agrees [OF assms] agreeing_gateway [OF assms] other_gateway by (rule refl)

lemma login_with_agrees:
  assumes "login_agrees (rt_gateway r) gw" "la_password a = None"
  shows "login_with (r\<lparr>rt_gateway := gw\<rparr>) a = login_with r a"
proof -
  have opts: "login_options_of (r\<lparr>rt_gateway := gw\<rparr>) a = login_options_of r a"
    unfolding login_options_of_def other_gateway by (rule refl)
  have "lo_credentials (login_options_of r a) = None" using assms(2) by (simp add: login_options_of_def)
  then have "gw_login (rt_gateway (r\<lparr>rt_gateway := gw\<rparr>)) (login_options_of (r\<lparr>rt_gateway := gw\<rparr>) a) =
      gw_login (rt_gateway r) (login_options_of r a)"
    using assms(1) opts by (simp add: login_agrees_def)
  note same = this
  show ?thesis unfolding login_with_def same other_gateway by (rule refl)
qed

lemma run_login_agrees:
  assumes "login_agrees (rt_gateway r) gw" "normalize_meta_login_args args = Some norm"
  shows "run_login (r\<lparr>rt_gateway := gw\<rparr>) norm False = run_login r norm False"
proof (cases "parse_login_args False norm")
  case None
  then show ?thesis by (simp add: run_login_def other_gateway)
next
  case (Some a)
  then have "la_password a = None"
    using meta_login_no_password [of False False args norm no_login_args a] assms(2)
    by (simp add: normalize_meta_login_args_def parse_login_args_def no_login_args_def)
  then show ?thesis using Some login_with_agrees [OF assms(1)] by (simp add: run_login_def)
qed

lemma run_meta_agrees:
  assumes "login_agrees (rt_gateway r) gw"
  shows "run_meta (r\<lparr>rt_gateway := gw\<rparr>) refs args = run_meta r refs args"
  unfolding run_meta_def Let_def
  by (auto simp: gateway_commands_agree [OF assms] network_scan_agrees [OF assms] run_login_agrees [OF assms] other_gateway
      split: list.splits option.splits)

lemma exec_runtime_other_gateway:
  "exec_runtime opts g gw' paths version = (exec_runtime opts g gw paths version)\<lparr>rt_gateway := gw' paths\<rparr>"
  by (simp add: exec_runtime_def)

lemma exec_dispatch_agrees:
  assumes "eo_mode opts = ModeMeta" "login_agrees (gw paths) (gw' paths)"
  shows "exec_dispatch opts (exec_runtime opts g gw' paths version) args = exec_dispatch opts (exec_runtime opts g gw paths version) args"
proof -
  have "login_agrees (rt_gateway (exec_runtime opts g gw paths version)) (gw' paths)"
    using assms(2) by (simp add: exec_runtime_def)
  from run_meta_agrees [OF this] show ?thesis
    using assms(1) exec_runtime_other_gateway [of opts g gw' paths version gw] by (simp add: exec_dispatch_def)
qed

text \<open>C33: The modern program never hands a password of its command line to the network: with gateways that differ only in
  how they treat a login with a password supplied by the caller, every command line gives the same result, output and
  state. (A command line with a password argument is refused before anything is done, and the accepted login arguments
  carry no password.)\<close>

theorem meta_never_supplies_password:
  assumes "eo_mode opts = ModeMeta" "eo_gateway opts = Some gw" "\<And>paths. login_agrees (gw paths) (gw' paths)"
  shows "execute (opts\<lparr>eo_gateway := Some gw'\<rparr>) = execute opts"
proof -
  let ?o = "opts\<lparr>eo_gateway := Some gw'\<rparr>"
  have env: "exec_runtime ?o = exec_runtime opts" "exec_dispatch ?o = exec_dispatch opts"
    using assms(1) by (simp_all add: fun_eq_iff exec_runtime_def exec_dispatch_def)
  have same: "exec_dispatch opts (exec_runtime opts g gw' paths version) args =
      exec_dispatch opts (exec_runtime opts g gw paths version) args" for g paths version args
    by (rule exec_dispatch_agrees [OF assms(1)]) (rule assms(3))
  have globals: "exec_globals ?o g args = exec_globals opts g args" for g args
    unfolding exec_globals_def Let_def env
    using same assms(2) by (auto split: option.splits)
  show ?thesis unfolding execute_def Let_def globals
    by (auto split: option.splits prod.splits simp: globals)
qed

section \<open>Runs on a small disk\<close>

definition demo_runtime_options :: "string list \<Rightarrow> exec_options" where
  "demo_runtime_options args =
     \<lparr>eo_mode = ModeMeta, eo_args = args, eo_paths = w_paths, eo_resolve = None,
      eo_gateway = Some (\<lambda>paths. service_gateway demo_app (new_service paths)), eo_input = False, eo_stdout_ok = True,
      eo_tty = False, eo_version = ''1.0'', eo_env = demo_app, eo_ask = (\<lambda>_. Inl ErrOther), eo_random = None,
      eo_txid = None, eo_now = 0, eo_refs = (\<lambda>_. None)\<rparr>"

definition demo_cli_state :: cli_state where
  "demo_cli_state = \<lparr>c_app = \<lparr>a_disk = w_disk, a_history = []\<rparr>, c_output = [], c_input = [], c_checks = 0\<rparr>"

lemma demo_version:
  "execute (demo_runtime_options [''--version'', ''--json'']) demo_cli_state =
     (Inr 0, demo_cli_state\<lparr>c_output := [OutJson (Envelope 1 ''version'' (Inr (DataVersion ''1.0'')))]\<rparr>)"
proof -
  have "extract_globals [''--version'', ''--json''] = Some (no_globals\<lparr>g_output := OutputJSON, g_version := True\<rparr>, [])"
    "\<not> has_password_argument [''--version'', ''--json'']"
    by code_simp+
  then show ?thesis
    by (simp add: execute_def Let_def demo_runtime_options_def exec_globals_def run_version_def print_human_def bindP_def
        returnP_def render_success_def encode_json_def emit_output_def modifyP_def marshal_envelope_def no_globals_def
        demo_cli_state_def)
qed

theorem execute_answers_witness:
  "\<exists>xs. c_output (demo_cli_state\<lparr>c_output := [OutJson (Envelope 1 ''version'' (Inr (DataVersion ''1.0'')))]\<rparr>) =
     c_output demo_cli_state @ xs \<and> human_lines xs = [] \<and> (\<exists>e. documents xs = [e] \<and> \<not> failed_envelope e)"
proof -
  have "preparse_output_mode (eo_args (demo_runtime_options [''--version'', ''--json''])) = OutputJSON"
      "eo_stdout_ok (demo_runtime_options [''--version'', ''--json''])"
    by code_simp+
  then show ?thesis using execute_answers [OF demo_version] by auto
qed

theorem meta_never_supplies_password_witness:
  "execute ((demo_runtime_options [''login''])\<lparr>eo_gateway := Some (\<lambda>paths. (service_gateway demo_app (new_service paths))
      \<lparr>gw_login := (\<lambda>opts. if lo_credentials opts = None then app_login demo_app (new_service paths) opts
         else throwP AppStopped)\<rparr>)\<rparr>) = execute (demo_runtime_options [''login''])"
  by (rule meta_never_supplies_password [where gw = "\<lambda>paths. service_gateway demo_app (new_service paths)"])
    (simp_all add: demo_runtime_options_def login_agrees_def service_gateway_def)

end
