(* ===== verification/LgProduct.thy ===== *)
theory LgProduct
  imports LgReading CliContract
begin

text \<open>
  The program and the gate together.  \<open>document_json\<close> is the tree that the struct tags of \<open>internal/cli/render.go\<close>,
  \<open>internal/cli/profiles.go\<close> and \<open>internal/config/types.go\<close> give to the documents the gate asks for; a text of the
  program is any text that parses to it.  The documents of the status, login and logout commands are read by the executor of
  the gate as what they state, whatever the gateway answers and whatever fails.
\<close>

section \<open>Documents as trees\<close>

definition json_text_option :: "string option \<Rightarrow> json" where
  "json_text_option v = (case v of None \<Rightarrow> JNull | Some s \<Rightarrow> JStr s)"

definition json_int :: "int \<Rightarrow> json" where
  "json_int n = JNum (int_dec n)"

definition omit_empty :: "string \<Rightarrow> string \<Rightarrow> (string \<times> json) list" where
  "omit_empty key s = (if s = '''' then [] else [(key, JStr s)])"

text \<open>A balance is an amount of the only currency the gateway has.\<close>

definition summary_json :: "summary \<Rightarrow> json" where
  "summary_json x =
     JObj [(''traffic_bytes'', json_int (TrafficBytes x)), (''duration_seconds'', json_int (SummaryDuration x)),
       (''balance'', (case BalanceMinor x of None \<Rightarrow> JNull
          | Some m \<Rightarrow> JObj [(''currency'', JStr ''CNY''), (''minor_units'', json_int m)]))]"

text \<open>\<open>stamp\<close> writes an instant as \<open>time.Time\<close> does.\<close>

definition status_json :: "(int \<Rightarrow> string) \<Rightarrow> wire_status \<Rightarrow> json" where
  "status_json stamp s =
     JObj [(''network'', JStr (ws_network s)), (''session'', JStr (ws_session s)),
       (''username'', json_text_option (ws_username s)), (''online_ip'', json_text_option (map_option ip_text (ws_ip s))),
       (''observed_at'', JStr (stamp (ws_observed s))),
       (''summary'', (case ws_summary s of None \<Rightarrow> JNull | Some x \<Rightarrow> summary_json x))]"

definition profile_json :: "profile \<Rightarrow> json" where
  "profile_json p =
     JObj ([(''username'', JStr (ProfileUsername p)),
       (''credential'', JObj ((''provider'', JStr (provider_text (Provider (ProfileCredential p)))) #
          omit_empty ''reference'' (Reference (ProfileCredential p)))),
       (''network'', JObj (omit_empty ''bind_ip'' (BindIP p)))] @ omit_empty ''switch'' (switch_text (ProfileSwitch p)))"

definition named_profile_json :: "named_profile \<Rightarrow> json" where
  "named_profile_json n =
     JObj [(''name'', JStr (np_name n)), (''default'', JBool (np_default n)), (''profile'', profile_json (np_profile n))]"

definition challenge_text :: "challenge_kind \<Rightarrow> string" where
  "challenge_text c =
     (case c of ChallengeSMSOTP \<Rightarrow> ''sms_otp'' | ChallengeDeviceVerification \<Rightarrow> ''device_verification''
      | ChallengeAccountSetup \<Rightarrow> ''account_setup'' | ChallengeQRApproval \<Rightarrow> ''qr_approval''
      | ChallengeKindUnknown \<Rightarrow> ''unknown'' | ChallengeKindOther s \<Rightarrow> s)"

definition method_text :: "sdk_method \<Rightarrow> string" where
  "method_text m =
     (case m of MethodEmpty \<Rightarrow> '''' | MethodPassword \<Rightarrow> ''password'' | MethodTerminalQR \<Rightarrow> ''terminal_qr''
      | MethodOther s \<Rightarrow> s)"

definition capability_text :: "sdk_capability \<Rightarrow> string" where
  "capability_text c =
     (case c of CapObservedAnonymous \<Rightarrow> ''observed_anonymous'' | CapSyntheticCovered \<Rightarrow> ''synthetic_covered''
      | CapLiveUnverified \<Rightarrow> ''live_unverified'' | CapLiveVerified \<Rightarrow> ''live_verified'' | CapSupported \<Rightarrow> ''supported''
      | CapDetectedOnly \<Rightarrow> ''detected_only'' | CapUnknown \<Rightarrow> ''unknown'' | CapOther s \<Rightarrow> s)"

definition interaction_json :: "interaction_details \<Rightarrow> json" where
  "interaction_json d =
     JObj ([(''challenge_kind'', JStr (challenge_text (d_challenge d))), (''origin_method'', JStr (method_text (d_origin d))),
       (''capability_status'', JArr (map (\<lambda>c. JStr (capability_text c)) (d_capability d)))] @
       omit_empty ''session_binding'' (d_session d) @ omit_empty ''resume_mode'' (d_resume d) @
       [(''tty_required'', JBool (d_tty d))] @ omit_empty ''help_id'' (d_help d))"

definition migration_json :: "migration_report \<Rightarrow> json" where
  "migration_json m =
     JObj [(''source_count'', json_int (int (mr_sources m))),
       (''profiles'', JArr (map (\<lambda>p. JObj [(''name'', JStr (wm_name p)), (''source'', JStr (wm_source p)),
          (''credential_status'', JStr (wm_status p)), (''username_configured'', JBool (wm_username p)),
          (''default'', JBool (wm_default p))]) (mr_profiles m))),
       (''conflicts'', JArr (map (\<lambda>(profile, reason). JObj [(''profile'', JStr profile), (''reason'', JStr reason)])
          (mr_conflicts m))),
       (''warnings'', JArr (map JStr (mr_warnings m)))]"

definition error_json :: "wire_error \<Rightarrow> json" where
  "error_json e =
     JObj [(''code'', JStr (we_code e)), (''message'', JStr (we_message e)), (''retryable'', JBool (we_retryable e)),
       (''details'', JObj (
          (case wd_interaction (we_details e) of None \<Rightarrow> [] | Some d \<Rightarrow> [(''interaction'', interaction_json d)]) @
          omit_empty ''protocol_part'' (wd_protocol (we_details e)) @
          (case wd_migration (we_details e) of None \<Rightarrow> [] | Some m \<Rightarrow> [(''migration'', migration_json m)])))]"

text \<open>The data the gate asks for; it never runs the other commands.\<close>

definition data_json :: "(int \<Rightarrow> string) \<Rightarrow> wire_data \<Rightarrow> json option" where
  "data_json stamp x =
     (case x of
        DataStatus s \<Rightarrow> Some (status_json stamp s)
      | DataOutcome w s \<Rightarrow> Some (JObj [(''outcome'', JStr w), (''status'', status_json stamp s)])
      | DataProfile n \<Rightarrow> Some (named_profile_json n)
      | _ \<Rightarrow> None)"

definition document_json :: "(int \<Rightarrow> string) \<Rightarrow> envelope \<Rightarrow> json option" where
  "document_json stamp e =
     (case e of
        Envelope schema command (Inl err) \<Rightarrow>
          Some (JObj [(''schema_version'', json_int schema), (''command'', JStr command), (''ok'', JBool False),
            (''error'', error_json err)])
      | Envelope schema command (Inr data) \<Rightarrow>
          map_option (\<lambda>d. JObj [(''schema_version'', json_int schema), (''command'', JStr command), (''ok'', JBool True),
            (''data'', d)]) (data_json stamp data))"

section \<open>Reading a document\<close>

lemma value_at_object:
  "value_at (JObj ms) (k # ks) = (case map_of ms k of None \<Rightarrow> None | Some w \<Rightarrow> value_at w ks)"
  "value_at (JStr s) (k # ks) = None" "value_at (JNum s) (k # ks) = None" "value_at JNull (k # ks) = None"
  by (simp_all add: value_at.simps(2) child_at_def)

lemma json_int_one: "json_int 1 = JNum ''1''"
  by code_simp

text \<open>What a status of the SDK is for the gate.\<close>

definition gate_session :: "sdk_session \<Rightarrow> session_state" where
  "gate_session s =
     (case s of StNone \<Rightarrow> SessionNone | StOnline \<Rightarrow> SessionOnline | StOffline \<Rightarrow> SessionOffline | StUnknown \<Rightarrow> SessionUnknown)"

definition gate_login :: "login_outcome \<Rightarrow> outcome" where
  "gate_login x = (case x of LoginLoggedIn \<Rightarrow> OutcomeLoggedIn | LoginAlreadyOnline \<Rightarrow> OutcomeAlreadyOnline)"

definition gate_logout :: "logout_outcome \<Rightarrow> outcome" where
  "gate_logout x = (case x of LogoutLoggedOut \<Rightarrow> OutcomeLoggedOut | LogoutAlreadyOffline \<Rightarrow> OutcomeAlreadyOffline)"

lemma session_named_string: "session_named (session_string s) = gate_session s"
  by (cases s) (simp_all add: session_named_def session_string_def gate_session_def)

lemma outcome_named_string:
  "outcome_named (login_outcome_string x) = gate_login x" "outcome_named (logout_outcome_string y) = gate_logout y"
  by (cases x; simp add: outcome_named_def login_outcome_string_def gate_login_def)
    (cases y; simp add: outcome_named_def logout_outcome_string_def gate_logout_def)

lemma valid_gate_names:
  "s \<noteq> StNone \<Longrightarrow> valid_process_session (gate_session s)"
  "valid_process_outcome (gate_login x)" "valid_process_outcome (gate_logout y)"
  by (cases s; simp add: valid_process_session_def gate_session_def)
    (simp_all add: valid_process_outcome_def gate_login_def gate_logout_def split: login_outcome.split logout_outcome.split)

definition status_observation :: "outcome \<Rightarrow> bool \<Rightarrow> string \<Rightarrow> sdk_status \<Rightarrow> observation" where
  "status_observation x identify expected st = zero_observation\<lparr>OutcomeOf := x, Session := gate_session (s_session st),
     IdentityMatches := (identify \<and> s_session st = StOnline \<and> s_username st = expected)\<rparr>"

lemma gate_session_online: "gate_session s = SessionOnline \<longleftrightarrow> s = StOnline"
  by (cases s) (simp_all add: gate_session_def)

lemma status_members:
  "value_at (status_json stamp (to_wire_status st)) [''session''] = Some (JStr (session_string (s_session st)))"
  "value_at (status_json stamp (to_wire_status st)) [''username''] =
     Some (if s_username st = '''' then JNull else JStr (s_username st))"
  "node_of (status_json stamp w) = NodeObject"
  by (simp_all add: status_json_def value_at_object to_wire_status_def json_text_option_def node_of_def)

lemma status_document:
  assumes "document_json stamp (Envelope 1 ''status'' (Inr (DataStatus (to_wire_status st)))) = Some v"
    and "s_session st \<noteq> StNone" "expected \<noteq> ''''"
  shows "observation_says ''status'' expected v (status_observation OutcomeNone True expected st)"
proof -
  let ?w = "status_json stamp (to_wire_status st)"
  have v: "v = JObj [(''schema_version'', json_int 1), (''command'', JStr ''status''), (''ok'', JBool True), (''data'', ?w)]"
    using assms(1) by (simp add: document_json_def data_json_def)
  have at: "value_at v (''data'' # ks) = value_at ?w ks" for ks by (simp add: v value_at_object)
  have env: "envelope_says v ''status'' True"
    by (simp add: envelope_says_def v value_at_object json_int_one node_of_def member_of_def status_members)
      (simp add: status_json_def)
  show ?thesis
    using valid_gate_names(1) [OF assms(2)] assms(3)
    by (auto simp: observation_says_def success_says_def env status_path_def at status_members member_of_def
        status_observation_def zero_observation_def session_named_string gate_session_online)
qed

lemma change_document:
  assumes "document_json stamp (Envelope 1 command (Inr (DataOutcome w (to_wire_status st)))) = Some v"
    and "command = ''login'' \<or> command = ''logout''" "outcome_named w = x" "valid_process_outcome x"
    and "s_session st \<noteq> StNone" "expected \<noteq> ''''"
  shows "observation_says command expected v (status_observation x (command \<noteq> ''logout'') expected st)"
proof -
  let ?w = "status_json stamp (to_wire_status st)"
  have v: "v = JObj [(''schema_version'', json_int 1), (''command'', JStr command), (''ok'', JBool True),
      (''data'', JObj [(''outcome'', JStr w), (''status'', ?w)])]"
    using assms(1) by (simp add: document_json_def data_json_def)
  have at: "value_at v [''data'', ''outcome''] = Some (JStr w)" "value_at v (''data'' # ''status'' # ks) = value_at ?w ks" for ks
    by (simp_all add: v value_at_object)
  have env: "envelope_says v command True"
    by (simp add: envelope_says_def v value_at_object json_int_one node_of_def member_of_def)
  have path: "status_path command = [''data'', ''status'']" "command \<noteq> ''status''" using assms(2) by (auto simp: status_path_def)
  show ?thesis
    using valid_gate_names(1) [OF assms(5)] assms(3,4,6)
    by (auto simp: observation_says_def success_says_def env path at status_members member_of_def
        status_observation_def zero_observation_def session_named_string gate_session_online)
qed

lemma error_document:
  assumes "document_json stamp (Envelope 1 command (Inl w)) = Some v"
    and "error_code_valid (error_named (we_code w))" "valid_exit_error status (Some (error_named (we_code w)))"
  shows "observation_says command expected v
    (zero_observation\<lparr>ObsExitCode := status, ObsErrorCode := Some (error_named (we_code w))\<rparr>)"
proof -
  have v: "v = JObj [(''schema_version'', json_int 1), (''command'', JStr command), (''ok'', JBool False),
      (''error'', error_json w)]"
    using assms(1) by (simp add: document_json_def)
  have env: "envelope_says v command False"
    by (simp add: envelope_says_def v value_at_object json_int_one node_of_def member_of_def error_json_def)
  have "value_at v [''error'', ''code''] = Some (JStr (we_code w))" by (simp add: v value_at_object error_json_def)
  moreover have "status \<noteq> 0" using valid_exit_error_status [OF assms(3)] by auto
  ultimately show ?thesis using env assms(2,3)
    by (auto simp: observation_says_def failure_says_def zero_observation_def)
qed

section \<open>The commands of the program\<close>

text \<open>What the commands get from the gateway: known sessions, and errors with a code of the list or none of it.\<close>

definition reported_error :: "go_error \<Rightarrow> bool" where
  "reported_error e \<longleftrightarrow> canonical_error e \<and> e \<noteq> ErrRedirect"

definition answers_well :: "('a \<Rightarrow> bool) \<Rightarrow> 'a app \<Rightarrow> bool" where
  "answers_well good m \<longleftrightarrow>
     (\<forall>a. case fst (m a) of Inl (AppError e) \<Rightarrow> reported_error e | Inl AppStopped \<Rightarrow> True | Inr x \<Rightarrow> good x)"

definition gateway_answers_well :: "gateway \<Rightarrow> bool" where
  "gateway_answers_well gw \<longleftrightarrow>
     (\<forall>p b. answers_well (\<lambda>st. s_session st \<noteq> StNone) (gw_status gw p b)) \<and>
     (\<forall>opts. answers_well (\<lambda>x. \<forall>w st. x = Some (w, st) \<longrightarrow> s_session st \<noteq> StNone) (gw_login gw opts)) \<and>
     (\<forall>p b. answers_well (\<lambda>(w, st). s_session st \<noteq> StNone) (gw_logout gw p b))"

text \<open>The documents of a command that the gate reads as an observation.\<close>

definition gate_document :: "string \<Rightarrow> envelope \<Rightarrow> int \<Rightarrow> bool" where
  "gate_document command e code \<longleftrightarrow>
     (\<exists>w. e = Envelope 1 command (Inl w) \<and> error_code_valid (error_named (we_code w)) \<and>
        valid_exit_error code (Some (error_named (we_code w)))) \<or>
     code = 0 \<and> (\<exists>st. s_session st \<noteq> StNone \<and>
       (command = ''status'' \<and> e = Envelope 1 command (Inr (DataStatus (to_wire_status st))) \<or>
        command = ''login'' \<and> (\<exists>x. e = Envelope 1 command (Inr (DataOutcome (login_outcome_string x) (to_wire_status st)))) \<or>
        command = ''logout'' \<and> (\<exists>x. e = Envelope 1 command (Inr (DataOutcome (logout_outcome_string x) (to_wire_status st))))))"

text \<open>The codes of the program with their statuses are the ones the gate accepts.\<close>

lemma documented_codes_valid:
  assumes "map_of documented_statuses c = Some status \<or> c = ''network'' \<and> status = 130"
  shows "error_code_valid (error_named c) \<and> valid_exit_error status (Some (error_named c))"
proof -
  have all: "list_all (\<lambda>(c, status). error_code_valid (error_named c) \<and> valid_exit_error status (Some (error_named c)))
      ((''network'', 130) # documented_statuses)"
    by code_simp
  have "(c, status) \<in> set ((''network'', 130) # documented_statuses)" using assms by (auto dest: map_of_SomeD)
  then show ?thesis using all unfolding list_all_iff by blast
qed

abbreviation json_renderer :: renderer where "json_renderer \<equiv> \<lparr>rd_mode = OutputJSON, rd_stdout_ok = True\<rparr>"

text \<open>\<open>reports command m\<close>: whenever \<open>m\<close> ends, it has written one document for the gate and nothing else.\<close>

definition reports :: "string \<Rightarrow> int cli \<Rightarrow> bool" where
  "reports command m \<longleftrightarrow>
     (\<forall>s code s'. m s = (Inr code, s') \<longrightarrow>
        (\<exists>e. c_output s' = c_output s @ [OutJson e] \<and> gate_document command e code))"

lemma reports_failure:
  assumes "reported_error e"
  shows "reports command (render_failure json_renderer command e)"
proof -
  obtain wc rt d where w: "wire_error_of e = (wc, rt, d)" by (cases "wire_error_of e")
  note facts = wire_error_code [OF w] assms [unfolded reported_error_def]
  define we where "we = marshal_wire_error \<lparr>we_code = wc, we_message = wire_error_message e wc, we_retryable = rt, we_details = d\<rparr>"
  have code: "we_code we = wc" using facts by (simp add: we_def marshal_wire_error_def Let_def)
  have "gate_document command (Envelope 1 command (Inl we)) (exit_code e)"
    using facts documented_codes_valid [of wc "exit_code e"] code
    by (auto simp: gate_document_def split: if_splits)
  then show ?thesis
    using w by (auto simp: reports_def render_failure_def render_failure_with_def Let_def marshal_envelope_def we_def
        encode_json_def bindP_def emit_output_def modifyP_def returnP_def)
qed

lemma reports_success:
  "gate_document command (Envelope 1 command (Inr data)) 0 \<Longrightarrow> reports command (render_success json_renderer command data)"
  by (auto simp: reports_def render_success_def encode_json_def bindP_def emit_output_def modifyP_def returnP_def
      marshal_envelope_def)

lemma reports_or_report:
  assumes "answers_well good m" "\<And>e. reported_error e \<Longrightarrow> reports command (report e)" "\<And>x. good x \<Longrightarrow> reports command (k x)"
  shows "reports command (or_report (on_app m) report k)"
  unfolding reports_def
proof (intro allI impI)
  fix s code s' assume run: "or_report (on_app m) report k s = (Inr code, s')"
  obtain r a where m: "m (c_app s) = (r, a)" by (cases "m (c_app s)")
  have good: "case r of Inl (AppError e) \<Rightarrow> reported_error e | Inl AppStopped \<Rightarrow> True | Inr x \<Rightarrow> good x"
    using assms(1) m unfolding answers_well_def by (metis fst_conv)
  let ?s = "s\<lparr>c_app := a\<rparr>"
  have "\<exists>n. reports command n \<and> n ?s = (Inr code, s')"
  proof (cases r)
    case (Inl e)
    then obtain g where "e = AppError g" using run m by (cases e) (auto simp: or_report_def handleP_def on_app_def throwP_def)
    then show ?thesis using Inl run m good assms(2) by (auto simp: or_report_def handleP_def on_app_def)
  next
    case (Inr x)
    then show ?thesis using run m good assms(3) by (auto simp: or_report_def handleP_def on_app_def)
  qed
  then obtain n where n: "reports command n" "n ?s = (Inr code, s')" by blast
  then show "\<exists>e. c_output s' = c_output s @ [OutJson e] \<and> gate_document command e code"
    unfolding reports_def by (metis (no_types, lifting) cli_state.select_convs(2) cli_state.surjective cli_state.update_convs(1))
qed

lemma json_human_silent: "bindP (print_human json_renderer texts) k = k ()"
  by (simp add: fun_eq_iff bindP_def print_human_def returnP_def)

lemma canonical_codes: "reported_error invalid_argument" "reported_error terminal_qr_required"
  using code_named_string [of CodeInvalidArgument] code_named_string [of CodeInteractionRequired]
  by (simp_all add: reported_error_def canonical_error_def invalid_argument_def terminal_qr_required_def new_error_def)

lemma gate_document_login:
  "s_session st \<noteq> StNone \<Longrightarrow>
     gate_document ''login'' (Envelope 1 ''login'' (Inr (DataOutcome (login_outcome_string x) (to_wire_status st)))) 0"
  unfolding gate_document_def by blast

lemma gate_document_logout:
  "s_session st \<noteq> StNone \<Longrightarrow>
     gate_document ''logout'' (Envelope 1 ''logout'' (Inr (DataOutcome (logout_outcome_string x) (to_wire_status st)))) 0"
  unfolding gate_document_def by blast

lemma reports_status:
  assumes "gateway_answers_well (rt_gateway r)" "renderer.truncate r = json_renderer"
  shows "reports ''status'' (run_status r b)"
  unfolding run_status_def assms(2) Let_def json_human_silent
  using assms(1)
  by (intro reports_or_report [where good = "\<lambda>st. s_session st \<noteq> StNone"] reports_failure reports_success)
    (auto simp: gateway_answers_well_def gate_document_def)

lemma reports_logout:
  assumes "gateway_answers_well (rt_gateway r)" "renderer.truncate r = json_renderer"
  shows "reports ''logout'' (run_logout r)"
  unfolding run_logout_def assms(2) Let_def json_human_silent
  using assms(1)
  by (intro reports_or_report [where good = "\<lambda>(w, st). s_session st \<noteq> StNone"])
    (auto simp: gateway_answers_well_def intro!: reports_failure reports_success gate_document_logout)

lemma reports_stop: "reports command (throwP AppStopped)"
  by (simp add: reports_def throwP_def)

lemma reports_login:
  assumes "gateway_answers_well (rt_gateway r)" "renderer.truncate r = json_renderer"
    and "parse_login_args False args = Some a" "la_password a = None"
  shows "reports ''login'' (run_login r args False)"
proof -
  let ?bad = "render_failure json_renderer ''login''"
  have bad: "reports ''login'' (?bad invalid_argument)" "reports ''login'' (?bad terminal_qr_required)"
    using canonical_codes by (auto intro: reports_failure)
  let ?good = "\<lambda>x. \<forall>w st. x = Some (w, st) \<longrightarrow> s_session st \<noteq> StNone"
  have well: "answers_well ?good (gw_login (rt_gateway r) (login_options_of r a))"
    using assms(1) by (simp add: gateway_answers_well_def)
  have answered: "reports ''login'' (case x of None \<Rightarrow> throwP AppStopped
      | Some (outcome, status) \<Rightarrow>
          render_success json_renderer ''login'' (DataOutcome (login_outcome_string outcome) (to_wire_status status)))"
    if "?good x" for x
    using that by (auto split: option.splits simp: reports_stop intro!: reports_success gate_document_login)
  note ask = reports_or_report [OF well reports_failure answered]
  have silent: "bindP (returnP ()) k = k ()" for k :: "unit \<Rightarrow> int cli"
    by (simp add: fun_eq_iff bindP_def returnP_def)
  have "run_login r args False = login_with r a" by (simp add: run_login_def assms(3))
  moreover have "reports ''login'' (login_with r a)"
    unfolding login_with_def Let_def assms(2) json_human_silent assms(4) using bad ask by (simp add: silent)
  ultimately show ?thesis by simp
qed

text \<open>The arguments of the gate, less the global options, in the modern program.\<close>

lemma gate_login_args:
  "\<exists>args a. normalize_meta_login_args [''--method'', ''password''] = Some args \<and> parse_login_args False args = Some a \<and>
     la_password a = None"
proof -
  have "(case normalize_meta_login_args [''--method'', ''password''] of None \<Rightarrow> False
    | Some args \<Rightarrow> (case parse_login_args False args of None \<Rightarrow> False | Some a \<Rightarrow> la_password a = None))"
    by code_simp
  then show ?thesis by (auto split: option.splits)
qed

lemma json_action_shape:
  assumes "json_action ex act = Some (''--json'' # ''--profile'' # px_profile ex # rest, command, stdin)"
  shows "rest = [''status''] \<and> command = ''status'' \<or> rest = [''login'', ''--method'', ''password''] \<and> command = ''login'' \<or>
    rest = [''logout''] \<and> command = ''logout''"
  using assms by (cases act) (auto simp: json_action_def split: if_splits)

lemma run_meta_for_gate:
  assumes "json_action ex act = Some (''--json'' # ''--profile'' # px_profile ex # rest, command, stdin)"
    and "gateway_answers_well (rt_gateway r)" "renderer.truncate r = json_renderer"
  shows "reports command (run_meta r refs rest)"
proof -
  consider "rest = [''status'']" "command = ''status''" | "rest = [''login'', ''--method'', ''password'']" "command = ''login''"
    | "rest = [''logout'']" "command = ''logout''"
    using json_action_shape [OF assms(1)] by blast
  then show ?thesis
  proof cases
    case 1
    then show ?thesis using reports_status [OF assms(2,3)] by (simp add: run_meta_def)
  next
    case 2
    obtain args a where "normalize_meta_login_args [''--method'', ''password''] = Some args"
        "parse_login_args False args = Some a" "la_password a = None"
      using gate_login_args by blast
    then show ?thesis using 2 reports_login [OF assms(2,3)] by (simp add: run_meta_def)
  next
    case 3
    then show ?thesis using reports_logout [OF assms(2,3)] by (simp add: run_meta_def)
  qed
qed

text \<open>The observation of a document, in the words of the document.\<close>

definition reads_as :: "string \<Rightarrow> string \<Rightarrow> envelope \<Rightarrow> int \<Rightarrow> observation \<Rightarrow> bool" where
  "reads_as command expected e code obs \<longleftrightarrow>
     \<not> RunnerFault obs \<and> ObsExitCode obs = code \<and>
     (case e of
        Envelope _ _ (Inl w) \<Rightarrow> code \<noteq> 0 \<and> ObsErrorCode obs = Some (error_named (we_code w))
      | Envelope _ _ (Inr (DataStatus st)) \<Rightarrow>
          code = 0 \<and> ObsErrorCode obs = None \<and> Session obs = session_named (ws_session st) \<and>
          (IdentityMatches obs \<longleftrightarrow> ws_session st = ''online'' \<and> ws_username st = Some expected)
      | Envelope _ _ (Inr (DataOutcome w st)) \<Rightarrow>
          code = 0 \<and> ObsErrorCode obs = None \<and> Session obs = session_named (ws_session st) \<and>
          OutcomeOf obs = outcome_named w \<and>
          (IdentityMatches obs \<longleftrightarrow> command = ''login'' \<and> ws_session st = ''online'' \<and> ws_username st = Some expected)
      | _ \<Rightarrow> False)"

lemma session_string_online: "session_string s = ''online'' \<longleftrightarrow> s = StOnline"
  by (cases s) (simp_all add: session_string_def)

lemma status_observation_reads:
  assumes "s_session st \<noteq> StNone" "expected \<noteq> ''''"
  shows "reads_as command expected (Envelope 1 command (Inr (DataStatus (to_wire_status st)))) 0
      (status_observation x True expected st)"
    and "outcome_named w = x \<Longrightarrow> identify = (command = ''login'') \<Longrightarrow>
      reads_as command expected (Envelope 1 command (Inr (DataOutcome w (to_wire_status st)))) 0
        (status_observation x identify expected st)"
  using assms
  by (auto simp: reads_as_def status_observation_def zero_observation_def to_wire_status_def session_named_string
      session_string_online)

lemma gate_document_observed:
  assumes "gate_document command e code" "expected \<noteq> ''''"
  shows "\<exists>v obs. document_json stamp e = Some v \<and> observation_says command expected v obs \<and> reads_as command expected e code obs"
proof (cases "\<exists>w. e = Envelope 1 command (Inl w)")
  case True
  then obtain w where w: "e = Envelope 1 command (Inl w)" "error_code_valid (error_named (we_code w))"
      "valid_exit_error code (Some (error_named (we_code w)))"
    using assms(1) by (auto simp: gate_document_def)
  obtain v where v: "document_json stamp e = Some v" by (simp add: w(1) document_json_def)
  have "code \<noteq> 0" using valid_exit_error_status [OF w(3)] by auto
  then have "reads_as command expected e code (zero_observation\<lparr>ObsExitCode := code, ObsErrorCode := Some (error_named (we_code w))\<rparr>)"
    by (simp add: reads_as_def w(1) zero_observation_def)
  then show ?thesis using v error_document [OF v [unfolded w(1)] w(2,3)] by blast
next
  case False
  then obtain st where st: "code = 0" "s_session st \<noteq> StNone"
      "command = ''status'' \<and> e = Envelope 1 command (Inr (DataStatus (to_wire_status st))) \<or>
       command = ''login'' \<and> (\<exists>x. e = Envelope 1 command (Inr (DataOutcome (login_outcome_string x) (to_wire_status st)))) \<or>
       command = ''logout'' \<and> (\<exists>x. e = Envelope 1 command (Inr (DataOutcome (logout_outcome_string x) (to_wire_status st))))"
    using assms(1) unfolding gate_document_def by blast
  obtain v where v: "document_json stamp e = Some v" using st(3) by (auto simp: document_json_def data_json_def)
  from st(3) show ?thesis
  proof (elim disjE conjE exE)
    assume e: "command = ''status''" "e = Envelope 1 command (Inr (DataStatus (to_wire_status st)))"
    then show ?thesis
      using v status_document [OF v [unfolded e(2) e(1)] st(2) assms(2)] status_observation_reads(1) [OF st(2) assms(2)] st(1)
      by blast
  next
    fix x assume e: "command = ''login''" "e = Envelope 1 command (Inr (DataOutcome (login_outcome_string x) (to_wire_status st)))"
    have says: "observation_says command expected v (status_observation (gate_login x) (command \<noteq> ''logout'') expected st)"
      by (rule change_document [OF v [unfolded e(2)]])
        (use e(1) st(2) assms(2) outcome_named_string valid_gate_names(2) in simp_all)
    have "reads_as command expected e 0 (status_observation (gate_login x) (command \<noteq> ''logout'') expected st)"
      unfolding e(2) by (rule status_observation_reads(2) [OF st(2) assms(2)]) (use e(1) outcome_named_string in simp_all)
    then show ?thesis using v says st(1) by blast
  next
    fix x assume e: "command = ''logout''" "e = Envelope 1 command (Inr (DataOutcome (logout_outcome_string x) (to_wire_status st)))"
    have says: "observation_says command expected v (status_observation (gate_logout x) (command \<noteq> ''logout'') expected st)"
      by (rule change_document [OF v [unfolded e(2)]])
        (use e(1) st(2) assms(2) outcome_named_string valid_gate_names(3) in simp_all)
    have "reads_as command expected e 0 (status_observation (gate_logout x) (command \<noteq> ''logout'') expected st)"
      unfolding e(2) by (rule status_observation_reads(2) [OF st(2) assms(2)]) (use e(1) outcome_named_string in simp_all)
    then show ?thesis using v says st(1) by blast
  qed
qed

text \<open>C37: The gate understands the program it tests. For every status, login or logout command that the gate starts, with a
  gateway that reports known sessions and documented errors, the modern program that ends normally has written exactly one
  document; and every text that parses to it within the bounds of the gate, with the exit status of the program, is read
  by the executor without a fault as exactly that document: the status, the error code of a failure, or the session, the
  outcome and whether the expected user is the one online.\<close>

theorem gate_reads_program:
  assumes "px_expected ex \<noteq> ''''" "valid_process_configuration (px_candidate ex) (px_profile ex)" "px_stderr ex"
    and "json_action ex act = Some (''--json'' # ''--profile'' # px_profile ex # rest, command, stdin)"
    and "gateway_answers_well (rt_gateway r)" "renderer.truncate r = \<lparr>rd_mode = OutputJSON, rd_stdout_ok = True\<rparr>"
    and "run_meta r refs rest s = (Inr code, s')"
  shows "\<exists>e v. c_output s' = c_output s @ [OutJson e] \<and> document_json stamp e = Some v \<and>
    (\<forall>start answer. answer = start (px_candidate ex) (''--json'' # ''--profile'' # px_profile ex # rest) stdin \<and>
       acceptable_document (pa_stdout answer) v \<and> pa_exit answer = code \<and> (pa_failed answer \<longrightarrow> code \<noteq> 0) \<and>
       \<not> pa_canceled answer \<longrightarrow>
       reads_as command (px_expected ex) e code (process_execute ex start act))"
proof -
  obtain e where e: "c_output s' = c_output s @ [OutJson e]" "gate_document command e code"
    using run_meta_for_gate [OF assms(4-6)] assms(7) unfolding reports_def by blast
  obtain v obs where v: "document_json stamp e = Some v" "observation_says command (px_expected ex) v obs"
      "reads_as command (px_expected ex) e code obs"
    using gate_document_observed [OF e(2) assms(1)] by blast
  have "process_execute ex start act = obs"
    if a: "answer = start (px_candidate ex) (''--json'' # ''--profile'' # px_profile ex # rest) stdin"
      "acceptable_document (pa_stdout answer) v" "pa_exit answer = code" "pa_failed answer \<longrightarrow> code \<noteq> 0" "\<not> pa_canceled answer"
    for start answer
  proof -
    have "act \<noteq> ActionQRLogin" using assms(4) by (auto simp: json_action_def Let_def)
    then have "process_execute ex start act = observe_answer command (px_expected ex) answer"
      using assms(1-4) a(1) by (simp add: process_execute_def)
    moreover have "ObsExitCode obs = code" using v(3) by (simp add: reads_as_def)
    then have "observe_answer command (px_expected ex) answer = obs"
      using observe_answer_says [OF assms(1) json_action_commands [OF assms(4)] a(5)] a(2-4) v(2) by metis
    ultimately show ?thesis by simp
  qed
  then show ?thesis using e(1) v(1,3) by blast
qed

section \<open>A program that is online\<close>

definition demo_gate_status :: sdk_status where
  "demo_gate_status = \<lparr>s_session = StOnline, s_username = ''20250001'', s_ip = None, s_observed = 0, s_summary = None\<rparr>"

definition demo_gate_gateway :: gateway where
  "demo_gate_gateway =
     \<lparr>gw_status = (\<lambda>_ _. returnP demo_gate_status), gw_login = (\<lambda>_. returnP (Some (LoginAlreadyOnline, demo_gate_status))),
      gw_logout = (\<lambda>_ _. throwP (AppError invalid_argument)), gw_interfaces = returnP []\<rparr>"

definition demo_gate_runtime :: runtime where
  "demo_gate_runtime =
     \<lparr>rd_mode = OutputJSON, rd_stdout_ok = True, rt_gateway = demo_gate_gateway, rt_env = demo_app, rt_store = w_store,
      rt_paths = w_paths, rt_input = False, rt_tty = False, rt_profile = ''gate'', rt_bind = '''', rt_version = ''1.0'',
      rt_ask = (\<lambda>_. Inl ErrOther), rt_random = None, rt_txid = None, rt_now = 0\<rparr>"

definition demo_gate_envelope :: envelope where
  "demo_gate_envelope = Envelope 1 ''status'' (Inr (DataStatus (to_wire_status demo_gate_status)))"

definition demo_stamp :: "int \<Rightarrow> string" where
  "demo_stamp t = ''2026-08-28T00:00:00Z''"

definition demo_gate_text :: string where
  "demo_gate_text = map (\<lambda>c. if c = CHR ''_'' then dquote else c)
     (''{_schema'' @ [CHR 0x5C] @ ''u005fversion_:1,_command_:_status_,_ok_:true,_data_:{_network_:_reachable_,_session_:_online_,''
        @ ''_username_:_20250001_,_online'' @ [CHR 0x5C] @ ''u005fip_:null,_observed'' @ [CHR 0x5C]
        @ ''u005fat_:_2026-08-28T00:00:00Z_,_summary_:null}}'')"

definition demo_gate_start :: process_run where
  "demo_gate_start path args stdin = \<lparr>pa_stdout = demo_gate_text, pa_exit = 0, pa_failed = False, pa_canceled = False\<rparr>"

lemma demo_gate_run:
  "run_meta demo_gate_runtime (\<lambda>_. None) [''status''] demo_cli_state =
     (Inr 0, demo_cli_state\<lparr>c_output := c_output demo_cli_state @ [OutJson demo_gate_envelope]\<rparr>)"
  by (simp add: run_meta_def run_status_def Let_def or_report_def handleP_def on_app_def demo_gate_runtime_def
      demo_gate_gateway_def returnP_def renderer.truncate_def bindP_def print_human_def render_success_def encode_json_def
      emit_output_def modifyP_def marshal_envelope_def demo_gate_envelope_def demo_cli_state_def)

lemma demo_gateway_well: "gateway_answers_well (rt_gateway demo_gate_runtime)"
  using canonical_codes
  by (simp add: gateway_answers_well_def answers_well_def demo_gate_runtime_def demo_gate_gateway_def returnP_def throwP_def
      demo_gate_status_def)

lemma demo_gate_document:
  "document_json demo_stamp demo_gate_envelope = Some v \<Longrightarrow> acceptable_document demo_gate_text v"
proof -
  assume v: "document_json demo_stamp demo_gate_envelope = Some v"
  have "length demo_gate_text < 1000" "valid_utf8 demo_gate_text"
      "parse_json demo_gate_text = document_json demo_stamp demo_gate_envelope"
      "list_all (acceptable_below 0) (case document_json demo_stamp demo_gate_envelope of None \<Rightarrow> [] | Some v \<Rightarrow> [v])"
    by code_simp+
  then show ?thesis using v by (simp add: acceptable_document_def MaxCandidateJSONBytes_def)
qed

theorem gate_reads_program_witness:
  "reads_as ''status'' ''20250001'' demo_gate_envelope 0 (process_execute demo_executor demo_gate_start ActionFinalStatus)"
proof -
  have ok: "px_expected demo_executor \<noteq> ''''" "px_stderr demo_executor" "px_expected demo_executor = ''20250001''"
      "valid_process_configuration (px_candidate demo_executor) (px_profile demo_executor)"
      "json_action demo_executor ActionFinalStatus =
         Some (''--json'' # ''--profile'' # px_profile demo_executor # [''status''], ''status'', False)"
    by code_simp+
  have trunc: "renderer.truncate demo_gate_runtime = \<lparr>rd_mode = OutputJSON, rd_stdout_ok = True\<rparr>"
    by (simp add: demo_gate_runtime_def renderer.truncate_def)
  obtain e v where e: "c_output (demo_cli_state\<lparr>c_output := c_output demo_cli_state @ [OutJson demo_gate_envelope]\<rparr>) =
        c_output demo_cli_state @ [OutJson e]" "document_json demo_stamp e = Some v"
      "\<forall>start answer. answer = start (px_candidate demo_executor)
         (''--json'' # ''--profile'' # px_profile demo_executor # [''status'']) False \<and>
       acceptable_document (pa_stdout answer) v \<and> pa_exit answer = 0 \<and> (pa_failed answer \<longrightarrow> (0 :: int) \<noteq> 0) \<and>
       \<not> pa_canceled answer \<longrightarrow>
       reads_as ''status'' (px_expected demo_executor) e 0 (process_execute demo_executor start ActionFinalStatus)"
    using gate_reads_program [OF ok(1,4,2,5) demo_gateway_well trunc demo_gate_run, of demo_stamp] by blast
  have "e = demo_gate_envelope" using e(1) by simp
  moreover have "acceptable_document demo_gate_text v"
    using demo_gate_document e(2) \<open>e = demo_gate_envelope\<close> by blast
  ultimately show ?thesis
    using e(3) [rule_format, of "demo_gate_start (px_candidate demo_executor)
      (''--json'' # ''--profile'' # px_profile demo_executor # [''status'']) False" demo_gate_start] ok(3)
    by (simp add: demo_gate_start_def)
qed

end
