(* ===== verification/CasWire.thy ===== *)
theory CasWire
  imports SdkClient
begin

text \<open>
  The structured answers of the CAS: \<open>internal/cas/qr.go\<close> and the part of \<open>challenge.go\<close> that reads
  JSON and plain text.  HTML pages are read with \<open>goquery\<close>, outside the repository: what it finds in
  a page is the parameter \<open>html_reader\<close>.  \<open>strings.ToLower\<close> maps the bytes of an ASCII text; for
  other texts it uses Unicode tables, the parameter \<open>lower\<close>.
\<close>

section \<open>Texts\<close>

definition is_ascii :: "string \<Rightarrow> bool" where
  "is_ascii s = list_all (\<lambda>c. byte c < 128) s"

definition to_lower :: "(string \<Rightarrow> string) \<Rightarrow> string \<Rightarrow> string" where
  "to_lower lower s = (if is_ascii s then map lower_char s else lower s)"

definition utf8 :: "nat list \<Rightarrow> string" where
  "utf8 ps = concat (map utf8_encode ps)"

definition contains_any :: "string \<Rightarrow> string list \<Rightarrow> bool" where
  "contains_any value candidates = list_ex (contains_str value) candidates"

definition normalize_identifier :: "(string \<Rightarrow> string) \<Rightarrow> string \<Rightarrow> string" where
  "normalize_identifier lower value =
     filter (\<lambda>c. c \<notin> {CHR ''_'', CHR ''-'', CHR '' '', CHR ''.''}) (to_lower lower value)"

definition normalize_poll_word :: "(string \<Rightarrow> string) \<Rightarrow> string \<Rightarrow> string" where
  "normalize_poll_word lower value =
     filter (\<lambda>c. c \<notin> {CHR ''_'', CHR ''-'', CHR '' ''}) (to_lower lower (trim_space value))"

definition normalize_response_text :: "string \<Rightarrow> string" where
  "normalize_response_text data = trim_space (trim_prefix data (utf8 [0xFEFF]))"

definition looks_structured :: "string \<Rightarrow> bool" where
  "looks_structured value =
     (case value of [] \<Rightarrow> False
      | c # _ \<Rightarrow>
          c = CHR ''{'' \<or> c = CHR ''['' \<or> c = CHR 0x22 \<or>
          (case cut_char (CHR ''('') value of (before, after, found) \<Rightarrow>
             found \<and> before \<noteq> [] \<and> contains_str after ''{''))"

section \<open>Challenges\<close>

definition challenge_from_text :: "(string \<Rightarrow> string) \<Rightarrow> string \<Rightarrow> cas_challenge" where
  "challenge_from_text lower value =
     (let t = to_lower lower value in
      if contains_any t
           [utf8 [0x624B, 0x673A, 0x9A8C, 0x8BC1, 0x7801], utf8 [0x77ED, 0x4FE1, 0x9A8C, 0x8BC1, 0x7801],
            ''smscode'', ''sms_code'', ''otpcode'', ''otp_code'']
      then CasSMSOTP
      else if contains_any t
           [utf8 [0x8BBE, 0x5907, 0x9A8C, 0x8BC1], utf8 [0x53EF, 0x4FE1, 0x8BBE, 0x5907],
            ''device verification'', ''trustdevice'']
      then CasDevice
      else if contains_any t
           [utf8 [0x5B8C, 0x5584, 0x8D26, 0x53F7], utf8 [0x7ED1, 0x5B9A, 0x624B, 0x673A, 0x53F7],
            ''account setup'']
      then CasSetup
      else CasNone)"

definition authentication_failure_from_text :: "(string \<Rightarrow> string) \<Rightarrow> string \<Rightarrow> bool" where
  "authentication_failure_from_text lower value =
     contains_any (to_lower lower value)
       [utf8 [0x5BC6, 0x7801, 0x9519, 0x8BEF],
        utf8 [0x8D26, 0x53F7, 0x6216, 0x5BC6, 0x7801, 0x9519, 0x8BEF],
        utf8 [0x7528, 0x6237, 0x540D, 0x6216, 0x5BC6, 0x7801, 0x9519, 0x8BEF],
        utf8 [0x8D26, 0x53F7, 0x6216, 0x5BC6, 0x7801, 0x4E0D, 0x6B63, 0x786E],
        utf8 [0x7528, 0x6237, 0x540D, 0x6216, 0x5BC6, 0x7801, 0x4E0D, 0x6B63, 0x786E],
        ''invalid credential'', ''invalid username or password'', ''bad credential'',
        ''authentication failed'']"

definition challenge_from_kind :: "(string \<Rightarrow> string) \<Rightarrow> string \<Rightarrow> cas_challenge" where
  "challenge_from_kind lower value =
     (let n = normalize_identifier lower value in
      if n = '''' then CasNone
      else if n \<in> {''smsotp'', ''smscode'', ''otpcode''} then CasSMSOTP
      else if n \<in> {''deviceverification'', ''trustdevice''} then CasDevice
      else if n \<in> {''accountsetup'', ''bindphone''} then CasSetup
      else CasUnknown)"

definition challengeFields :: "string list" where
  "challengeFields = [''message'', ''msg'', ''description'', ''error'', ''status'', ''result'']"

text \<open>A field that must be a string where it is present; \<open>None\<close> is the error.\<close>

definition string_field :: "wire_object \<Rightarrow> string \<Rightarrow> string option option" where
  "string_field obj name =
     (case raw obj name of None \<Rightarrow> Some None
      | Some j \<Rightarrow> (case unmarshal_string j of None \<Rightarrow> None | Some v \<Rightarrow> Some (Some v)))"

text \<open>\<open>aliasedString\<close> and \<open>aliasedExactString\<close>, which differ in how they compare the aliases.\<close>

fun aliased_text :: "(string \<Rightarrow> string) \<Rightarrow> wire_object \<Rightarrow> string option \<Rightarrow> string list \<Rightarrow> string option option" where
  "aliased_text norm obj found [] = Some found"
| "aliased_text norm obj found (name # ns) =
     (case string_field obj name of
        None \<Rightarrow> None
      | Some None \<Rightarrow> aliased_text norm obj found ns
      | Some (Some v) \<Rightarrow>
          (case found of
             Some r \<Rightarrow> if norm r \<noteq> norm v then None else aliased_text norm obj (Some v) ns
           | None \<Rightarrow> aliased_text norm obj (Some v) ns))"

definition aliased_string :: "(string \<Rightarrow> string) \<Rightarrow> wire_object \<Rightarrow> string list \<Rightarrow> string option option" where
  "aliased_string lower obj ns = aliased_text (normalize_identifier lower) obj None ns"

definition aliased_exact_string :: "wire_object \<Rightarrow> string list \<Rightarrow> string option option" where
  "aliased_exact_string obj ns = aliased_text id obj None ns"

definition merge_challenge :: "cas_challenge \<Rightarrow> cas_challenge \<Rightarrow> cas_challenge option" where
  "merge_challenge found candidate =
     (if candidate = CasNone then Some found
      else if found \<noteq> CasNone \<and> found \<noteq> candidate then None
      else Some candidate)"

fun merge_names :: "(string \<Rightarrow> string) \<Rightarrow> cas_challenge \<Rightarrow> string list \<Rightarrow> cas_challenge option" where
  "merge_names lower found [] = Some found"
| "merge_names lower found (name # ns) =
     (if normalize_identifier lower name \<in> {''smscode'', ''otpcode'', ''mobilecode''}
      then do { f \<leftarrow> merge_challenge found CasSMSOTP; merge_names lower f ns }
      else merge_names lower found ns)"

fun merge_fields :: "(string \<Rightarrow> string) \<Rightarrow> wire_object \<Rightarrow> cas_challenge \<Rightarrow> string list \<Rightarrow> cas_challenge option" where
  "merge_fields lower obj found [] = Some found"
| "merge_fields lower obj found (name # ns) =
     (case string_field obj name of
        None \<Rightarrow> None
      | Some None \<Rightarrow> merge_fields lower obj found ns
      | Some (Some v) \<Rightarrow>
          do { f \<leftarrow> merge_challenge found (challenge_from_text lower v); merge_fields lower obj f ns })"

definition structured_challenge :: "(string \<Rightarrow> string) \<Rightarrow> wire_object \<Rightarrow> cas_challenge option" where
  "structured_challenge lower obj = do {
     found \<leftarrow> merge_names lower CasNone (names obj);
     kind \<leftarrow> aliased_string lower obj [''challenge_kind'', ''challenge'', ''type''];
     found \<leftarrow> (case kind of None \<Rightarrow> Some found
                | Some k \<Rightarrow> merge_challenge found (challenge_from_kind lower k));
     merge_fields lower obj found challengeFields
   }"

record html_reader =
  html_challenge :: "string \<Rightarrow> cas_challenge option"
  html_failure :: "string \<Rightarrow> bool option"

definition detect_challenge :: "(string \<Rightarrow> string) \<Rightarrow> html_reader \<Rightarrow> string \<Rightarrow> cas_challenge option" where
  "detect_challenge lower html data =
     (let trimmed = normalize_response_text data in
      if trimmed = '''' then Some CasNone
      else if has_prefix trimmed ''<'' then html_challenge html trimmed
      else if looks_structured trimmed
        then do { obj \<leftarrow> decode_object_or_jsonp trimmed; structured_challenge lower obj }
      else Some (challenge_from_text lower trimmed))"

fun failure_in_fields :: "(string \<Rightarrow> string) \<Rightarrow> wire_object \<Rightarrow> string list \<Rightarrow> bool option" where
  "failure_in_fields lower obj [] = Some False"
| "failure_in_fields lower obj (name # ns) =
     (case string_field obj name of
        None \<Rightarrow> None
      | Some None \<Rightarrow> failure_in_fields lower obj ns
      | Some (Some v) \<Rightarrow>
          if authentication_failure_from_text lower v then Some True else failure_in_fields lower obj ns)"

definition detect_authentication_failure :: "(string \<Rightarrow> string) \<Rightarrow> html_reader \<Rightarrow> string \<Rightarrow> bool option" where
  "detect_authentication_failure lower html data =
     (let trimmed = normalize_response_text data in
      if trimmed = '''' then Some False
      else if has_prefix trimmed ''<'' then html_failure html trimmed
      else if looks_structured trimmed
        then do { obj \<leftarrow> decode_object_or_jsonp trimmed; failure_in_fields lower obj challengeFields }
      else Some (authentication_failure_from_text lower trimmed))"

section \<open>QR polling\<close>

definition is_pending_poll_word :: "(string \<Rightarrow> string) \<Rightarrow> string \<Rightarrow> bool" where
  "is_pending_poll_word lower value \<longleftrightarrow>
     List.member
       [''pending'', ''waiting'', ''wait'', ''waitingscan'', ''awaitingscan'', utf8 [0x7B49, 0x5F85],
        utf8 [0x7B49, 0x5F85, 0x626B, 0x7801], utf8 [0x672A, 0x626B, 0x63CF],
        utf8 [0x4E8C, 0x7EF4, 0x7801, 0x672A, 0x626B, 0x63CF], utf8 [0x5DF2, 0x626B, 0x7801],
        utf8 [0x4E8C, 0x7EF4, 0x7801, 0x5DF2, 0x626B, 0x7801]]
       (normalize_poll_word lower value)"

definition is_expired_poll_word :: "(string \<Rightarrow> string) \<Rightarrow> string \<Rightarrow> bool" where
  "is_expired_poll_word lower value \<longleftrightarrow>
     List.member
       [''expired'', ''timeout'', ''timedout'', ''qrcodeexpired'', utf8 [0x8FC7, 0x671F],
        utf8 [0x4E8C, 0x7EF4, 0x7801, 0x5DF2, 0x8FC7, 0x671F], utf8 [0x8D85, 0x65F6],
        utf8 [0x4E8C, 0x7EF4, 0x7801, 0x5DF2, 0x8D85, 0x65F6]]
       (normalize_poll_word lower value)"

datatype poll_state = StatePending | StateConfirmed | StateExpired | StateChallenge

definition pollMessageFields :: "string list" where
  "pollMessageFields = [''message'', ''msg'', ''description'', ''status'', ''result'']"

definition redirectFields :: "string list" where
  "redirectFields = [''redirect_url'', ''redirectUrl'', ''url'']"

text \<open>The states one message stands for; \<open>None\<close> for a message that is not recognized.\<close>

definition message_states :: "(string \<Rightarrow> string) \<Rightarrow> string \<Rightarrow> poll_state list option" where
  "message_states lower value =
     (let expired = is_expired_poll_word lower value; pending = is_pending_poll_word lower value in
      if challenge_from_text lower value \<noteq> CasNone \<or> expired \<or> pending
      then Some ((if expired then [StateExpired] else []) @ (if pending then [StatePending] else []))
      else None)"

fun poll_messages ::
    "(string \<Rightarrow> string) \<Rightarrow> wire_object \<Rightarrow> poll_state list \<Rightarrow> string list \<Rightarrow> poll_state list option" where
  "poll_messages lower obj states [] = Some states"
| "poll_messages lower obj states (name # ns) =
     (case string_field obj name of
        None \<Rightarrow> None
      | Some None \<Rightarrow> poll_messages lower obj states ns
      | Some (Some v) \<Rightarrow>
          if v = '''' then poll_messages lower obj states ns
          else do { more \<leftarrow> message_states lower v;
                    poll_messages lower obj (fold List.insert more states) ns })"

definition parse_poll :: "(string \<Rightarrow> string) \<Rightarrow> string \<Rightarrow> cas_poll option" where
  "parse_poll lower data =
     (if data = '''' then Some PollPending
      else do {
        obj \<leftarrow> decode_object_or_jsonp data;
        redirect \<leftarrow> aliased_exact_string obj redirectFields;
        ch \<leftarrow> structured_challenge lower obj;
        states \<leftarrow> poll_messages lower obj
          ((if ch \<noteq> CasNone then [StateChallenge] else []) @
           (case redirect of Some r \<Rightarrow> if r \<noteq> '''' then [StateConfirmed] else [] | None \<Rightarrow> []))
          pollMessageFields;
        (case states of
           [s] \<Rightarrow> (case s of StateConfirmed \<Rightarrow> map_option PollConfirmed redirect
                   | StateChallenge \<Rightarrow> Some (PollChallenge ch)
                   | StateExpired \<Rightarrow> Some PollExpired | StatePending \<Rightarrow> Some PollPending)
         | _ \<Rightarrow> None)
      })"

section \<open>One state, and all evidence for it\<close>

definition field_says :: "wire_object \<Rightarrow> string list \<Rightarrow> (string \<Rightarrow> bool) \<Rightarrow> bool" where
  "field_says obj ns P \<longleftrightarrow> (\<exists>n \<in> set ns. \<exists>v. string_field obj n = Some (Some v) \<and> P v)"

lemma field_says_simps [simp]:
  "field_says obj [] P = False"
  "field_says obj (n # ns) P = ((\<exists>v. string_field obj n = Some (Some v) \<and> P v) \<or> field_says obj ns P)"
  by (auto simp: field_says_def)

text \<open>What in an answer speaks for a state.\<close>

definition evidence :: "(string \<Rightarrow> string) \<Rightarrow> wire_object \<Rightarrow> poll_state \<Rightarrow> bool" where
  "evidence lower obj s =
     (case s of
        StateConfirmed \<Rightarrow> field_says obj redirectFields (\<lambda>v. v \<noteq> '''')
      | StateChallenge \<Rightarrow> structured_challenge lower obj \<noteq> Some CasNone
      | StateExpired \<Rightarrow> field_says obj pollMessageFields (\<lambda>v. v \<noteq> '''' \<and> is_expired_poll_word lower v)
      | StatePending \<Rightarrow> field_says obj pollMessageFields (\<lambda>v. v \<noteq> '''' \<and> is_pending_poll_word lower v))"

lemma aliased_text_found: "aliased_text norm obj (Some f) ns = Some r \<Longrightarrow> \<exists>v. r = Some v \<and> norm v = norm f"
  by (induction ns arbitrary: f) (force split: option.splits if_splits)+

lemma aliased_text_agree:
  "aliased_text norm obj found ns = Some r \<Longrightarrow> n \<in> set ns \<Longrightarrow> string_field obj n = Some (Some v) \<Longrightarrow>
     \<exists>u. r = Some u \<and> norm u = norm v"
proof (induction ns arbitrary: found)
  case (Cons m ms)
  then show ?case
    using aliased_text_found [of norm obj v ms r]
    by (cases "n = m") (auto split: option.splits if_splits)
qed simp

lemma aliased_text_from:
  "aliased_text norm obj None ns = Some (Some u) \<Longrightarrow> \<exists>n \<in> set ns. string_field obj n = Some (Some u)"
proof -
  have "aliased_text norm obj found ns = Some (Some u) \<Longrightarrow>
      found = Some u \<or> (\<exists>n \<in> set ns. string_field obj n = Some (Some u))" for found
    by (induction ns arbitrary: found) (auto split: option.splits if_splits)
  then show "aliased_text norm obj None ns = Some (Some u) \<Longrightarrow> ?thesis" by blast
qed

lemma set_fold_insert: "set (fold List.insert xs ys) = set xs \<union> set ys"
  by (induction xs arbitrary: ys) auto

lemma distinct_fold_insert: "distinct ys \<Longrightarrow> distinct (fold List.insert xs ys)"
  by (induction xs arbitrary: ys) (auto simp: distinct_insert)

lemma message_states_set:
  "message_states lower v = Some ms \<Longrightarrow>
     set ms = {s. s = StateExpired \<and> is_expired_poll_word lower v \<or> s = StatePending \<and> is_pending_poll_word lower v}"
  by (auto simp: message_states_def Let_def split: if_splits)

lemma poll_messages_set:
  assumes "poll_messages lower obj states ns = Some r" and "distinct states"
  shows "distinct r \<and> set r = set states \<union>
    {s. s = StateExpired \<and> field_says obj ns (\<lambda>v. v \<noteq> '''' \<and> is_expired_poll_word lower v) \<or>
        s = StatePending \<and> field_says obj ns (\<lambda>v. v \<noteq> '''' \<and> is_pending_poll_word lower v)}"
  using assms
proof (induction ns arbitrary: states)
  case (Cons n ns)
  show ?case
  proof (cases "\<exists>v. string_field obj n = Some (Some v) \<and> v \<noteq> ''''")
    case True
    then obtain v ms where v: "string_field obj n = Some (Some v)" "v \<noteq> ''''"
      and ms: "message_states lower v = Some ms"
      and rest: "poll_messages lower obj (fold List.insert ms states) ns = Some r"
      using Cons.prems by (auto simp: bind_eq_Some_conv)
    show ?thesis
      using Cons.IH [OF rest] Cons.prems(2) v message_states_set [OF ms]
      by (auto simp: set_fold_insert distinct_fold_insert)
  next
    case False
    then have "poll_messages lower obj states ns = Some r"
      using Cons.prems by (auto split: option.splits if_splits)
    then show ?thesis using Cons.IH Cons.prems(2) False by auto
  qed
qed simp

lemma parse_pollD: "parse_poll lower data = Some r \<Longrightarrow> data \<noteq> '''' \<Longrightarrow>
  \<exists>obj redirect ch states. decode_object_or_jsonp data = Some obj \<and>
    aliased_exact_string obj redirectFields = Some redirect \<and> structured_challenge lower obj = Some ch \<and>
    poll_messages lower obj
          ((if ch \<noteq> CasNone then [StateChallenge] else []) @
           (case redirect of Some r \<Rightarrow> if r \<noteq> '''' then [StateConfirmed] else [] | None \<Rightarrow> []))
          pollMessageFields = Some states \<and>
    (case states of
           [s] \<Rightarrow> (case s of StateConfirmed \<Rightarrow> map_option PollConfirmed redirect
                   | StateChallenge \<Rightarrow> Some (PollChallenge ch)
                   | StateExpired \<Rightarrow> Some PollExpired | StatePending \<Rightarrow> Some PollPending)
         | _ \<Rightarrow> None) = Some r"
  unfolding parse_poll_def by (auto simp: bind_eq_Some_conv simp del: poll_messages.simps)

lemma redirect_evidence:
  assumes "aliased_exact_string obj redirectFields = Some redirect"
  shows "evidence lower obj StateConfirmed \<longleftrightarrow> (\<exists>u. redirect = Some u \<and> u \<noteq> '''')"
    and "redirect = Some u \<Longrightarrow> n \<in> set redirectFields \<Longrightarrow> string_field obj n = Some (Some v) \<Longrightarrow> v = u"
proof -
  note agreed = assms [unfolded aliased_exact_string_def]
  show agree: "redirect = Some u \<Longrightarrow> n \<in> set redirectFields \<Longrightarrow> string_field obj n = Some (Some v) \<Longrightarrow> v = u"
    for u n v
    using aliased_text_agree [OF agreed] by fastforce
  show "evidence lower obj StateConfirmed \<longleftrightarrow> (\<exists>u. redirect = Some u \<and> u \<noteq> '''')"
  proof
    assume "evidence lower obj StateConfirmed"
    then obtain n v where "n \<in> set redirectFields" "string_field obj n = Some (Some v)" "v \<noteq> ''''"
      by (auto simp: evidence_def field_says_def)
    then show "\<exists>u. redirect = Some u \<and> u \<noteq> ''''" using aliased_text_agree [OF agreed] by fastforce
  next
    assume "\<exists>u. redirect = Some u \<and> u \<noteq> ''''"
    then show "evidence lower obj StateConfirmed"
      using aliased_text_from agreed unfolding evidence_def field_says_def by fastforce
  qed
qed

text \<open>The states an answer collects are those it has evidence for.\<close>

lemma collected_states:
  assumes redirect: "aliased_exact_string obj redirectFields = Some redirect" and ch: "structured_challenge lower obj = Some ch"
    and states: "poll_messages lower obj
          ((if ch \<noteq> CasNone then [StateChallenge] else []) @
           (case redirect of Some r \<Rightarrow> if r \<noteq> '''' then [StateConfirmed] else [] | None \<Rightarrow> []))
          pollMessageFields = Some states"
  shows "set states = {t. evidence lower obj t}"
proof (rule set_eqI)
  fix t
  have "t \<in> set states \<longleftrightarrow>
      t = StateChallenge \<and> ch \<noteq> CasNone \<or> t = StateConfirmed \<and> (\<exists>u. redirect = Some u \<and> u \<noteq> '''') \<or>
      t = StateExpired \<and> evidence lower obj StateExpired \<or> t = StatePending \<and> evidence lower obj StatePending"
    using poll_messages_set [OF states] by (auto simp: evidence_def split: option.splits)
  also have "\<dots> \<longleftrightarrow> evidence lower obj t"
    unfolding redirect_evidence(1) [OF redirect, of lower, symmetric]
    using ch by (cases t) (auto simp: evidence_def)
  finally show "t \<in> set states \<longleftrightarrow> t \<in> {t. evidence lower obj t}" by simp
qed

text \<open>All aliases of the redirect agree.\<close>

lemma aliases_agree:
  assumes redirect: "aliased_exact_string obj redirectFields = Some (Some u)"
  shows "list_all (\<lambda>n. string_field obj n \<in> {Some None, Some (Some u)}) redirectFields"
  unfolding list_all_iff
proof
  fix n assume n: "n \<in> set redirectFields"
  have "aliased_text norm obj found ns \<noteq> None \<Longrightarrow> n \<in> set ns \<Longrightarrow> string_field obj n \<noteq> None" for norm found ns
    by (induction ns arbitrary: found) (auto split: option.splits if_splits)
  then have "string_field obj n \<noteq> None" using redirect n unfolding aliased_exact_string_def by fastforce
  then obtain f where "string_field obj n = Some f" by blast
  then show "string_field obj n \<in> {Some None, Some (Some u)}"
    using redirect_evidence(2) [OF redirect refl n] by (cases f) auto
qed

text \<open>C15: a QR polling answer stands for exactly one state.  Whenever a non-empty answer is
  accepted, the redirect fields, the challenge fields and the messages all speak for the same single
  state and none of them for another; a confirmation carries the one redirect all its aliases
  agree on, a challenge the one the structured fields agree on.\<close>

theorem parse_poll_single_state:
  assumes "parse_poll lower data = Some r" and "data \<noteq> ''''"
  shows "\<exists>obj s. decode_object_or_jsonp data = Some obj \<and> (\<forall>t. evidence lower obj t \<longleftrightarrow> t = s) \<and>
    (case r of
       PollConfirmed u \<Rightarrow> s = StateConfirmed \<and> u \<noteq> '''' \<and>
         list_all (\<lambda>n. string_field obj n \<in> {Some None, Some (Some u)}) redirectFields
     | PollChallenge ch \<Rightarrow> s = StateChallenge \<and> structured_challenge lower obj = Some ch \<and> ch \<noteq> CasNone
     | PollExpired \<Rightarrow> s = StateExpired
     | PollPending \<Rightarrow> s = StatePending)"
proof -
  obtain obj redirect ch states where obj: "decode_object_or_jsonp data = Some obj"
    and redirect: "aliased_exact_string obj redirectFields = Some redirect"
    and ch: "structured_challenge lower obj = Some ch"
    and states: "poll_messages lower obj
          ((if ch \<noteq> CasNone then [StateChallenge] else []) @
           (case redirect of Some r \<Rightarrow> if r \<noteq> '''' then [StateConfirmed] else [] | None \<Rightarrow> []))
          pollMessageFields = Some states"
    and result: "(case states of
           [s] \<Rightarrow> (case s of StateConfirmed \<Rightarrow> map_option PollConfirmed redirect
                   | StateChallenge \<Rightarrow> Some (PollChallenge ch)
                   | StateExpired \<Rightarrow> Some PollExpired | StatePending \<Rightarrow> Some PollPending)
         | _ \<Rightarrow> None) = Some r"
    using parse_pollD [OF assms] by blast
  from result obtain s where s: "states = [s]" by (auto split: list.splits)
  note all = collected_states [OF redirect ch states]
  have ev: "evidence lower obj t \<longleftrightarrow> t = s" for t using all s by auto
  have "list_all (\<lambda>n. string_field obj n \<in> {Some None, Some (Some u)}) redirectFields" if "redirect = Some u" for u
    using aliases_agree redirect that by simp
  moreover have "s = StateConfirmed \<Longrightarrow> \<exists>u. redirect = Some u \<and> u \<noteq> ''''"
    using ev redirect_evidence(1) [OF redirect] by blast
  moreover have "s = StateChallenge \<Longrightarrow> ch \<noteq> CasNone"
    using ev [of StateChallenge] ch by (simp add: evidence_def)
  ultimately show ?thesis
    using result s obj ev ch by (intro exI [of _ obj] exI [of _ s]) (auto split: poll_state.splits)
qed

theorem parse_poll_single_state_witness:
  "\<exists>obj s. decode_object_or_jsonp ''cb({\"url\":\"/tpass/x\"})'' = Some obj \<and>
     (\<forall>t. evidence id obj t \<longleftrightarrow> t = s) \<and> s = StateConfirmed"
proof -
  have "parse_poll id ''cb({\"url\":\"/tpass/x\"})'' = Some (PollConfirmed ''/tpass/x'')" by code_simp
  from parse_poll_single_state [OF this] show ?thesis by auto
qed

section \<open>The parsers of a session\<close>

text \<open>The parsers a session uses, with the page parser and the HTML reader left open.\<close>

definition code_parsers ::
    "(string \<Rightarrow> string) \<Rightarrow> html_reader \<Rightarrow> (url \<Rightarrow> string \<Rightarrow> cas_page option) \<Rightarrow> (string \<Rightarrow> string) \<Rightarrow> cas_parsers" where
  "code_parsers lower html page key =
     \<lparr>cas_parse_page = page, cas_detect_challenge = detect_challenge lower html,
      cas_auth_failure = detect_authentication_failure lower html, cas_extract_key = key,
      cas_parse_poll = parse_poll lower\<rparr>"

end
