(* ===== verification/MigDemo.thy ===== *)
theory MigDemo
  imports MigLive
begin

text \<open>
  The small world of \<open>MigLive\<close>: the migration from end to end, a transaction that stopped after its secrets
  were stored and its recovery, and a snapshot that a crash cut short.
\<close>

lemma bind_flags [simp]:
  "m d = (Inr True, d') \<Longrightarrow> bindP m k d = k True d'" "m d = (Inr False, d') \<Longrightarrow> bindP m k d = k False d'"
  by (simp_all only: bind_works)

lemma w_put_files [simp]:
  "d_files (put_file p node d) = (d_files d)(p := node)" "d_files (put_keyring r v d) = d_files d"
  "d_keyring (put_keyring r v d) = (d_keyring d)(r := v)" "d_keyring (put_file p node d) = d_keyring d"
  by (simp_all add: put_file_def put_keyring_def)

lemma w_backup_more [simp]: "''/h/s'' \<noteq> w_backup" "''/h/c.lock'' \<noteq> w_backup"
  by (simp_all add: w_backup_def)

lemma w_saved_files [simp]:
  "p \<notin> {w_backup, ''/h/r''} \<Longrightarrow> d_files w_saved p = d_files w_start p"
  "d_files w_saved ''/h/r'' = Some (PlainFile Private ''C'')" "d_files w_saved w_backup = Some (PlainFile Private ''Y'')"
  "d_files w_keyed = d_files w_saved"
  by (simp_all add: w_saved_def w_keyed_def)

lemma w_small [simp]: "length (''N'') \<le> maxConfigBytes" "length (''M'') \<le> maxConfigBytes" "length (''C'') \<le> maxConfigBytes"
  by (simp_all add: maxConfigBytes_def)

lemma w_save_config:
  "\<exists>k. save_config works w_env (\<lambda>_. False) ''/h/j'' ''/h/c'' w_transaction (tick n (w_stage PhaseKeyring w_keyed)) =
     (Inr (), tick k (w_stage PhaseConfig (put_file ''/h/c'' (Some (PlainFile Private ''N'')) w_keyed)))"
  by (simp add: save_config_def w_advance_stage maxConfigBytes_def del: w_advance) blast

lemma w_load_marker [simp]:
  "d_files d ''/h/m'' = Some (PlainFile Private ''M'') \<Longrightarrow> load_marker works w_env ''/h/m'' d = (Inr (Some w_marker), tick 4 d)"
  "d_files d ''/h/m'' = None \<Longrightarrow> load_marker works w_env ''/h/m'' d = (Inr None, tick 1 d)"
proof -
  have dir: "path_dir ''/h/m'' = ''/h''" by code_simp
  show "d_files d ''/h/m'' = Some (PlainFile Private ''M'') \<Longrightarrow> load_marker works w_env ''/h/m'' d = (Inr (Some w_marker), tick 4 d)"
    using w_marker_valid by (simp add: load_marker_def dir maxConfigBytes_def)
  show "d_files d ''/h/m'' = None \<Longrightarrow> load_marker works w_env ''/h/m'' d = (Inr None, tick 1 d)"
    by (simp add: load_marker_def)
qed

lemma w_marker_tx [simp]: "MarkerTransaction w_marker = w_tx"
  by (simp add: w_marker_def)

lemma w_save_marker:
  "\<exists>k. save_marker works w_env (\<lambda>_. False) ''/h/j'' w_transaction
      (tick n (w_stage PhaseConfig (put_file ''/h/c'' (Some (PlainFile Private ''N'')) w_keyed))) =
     (Inr (), tick k (w_stage PhaseMarkerVerified w_done))"
  by (simp add: save_marker_def w_advance_stage maxConfigBytes_def w_done_def del: w_advance) blast

definition w_final :: disk where
  "w_final = put_file ''/h/r'' None w_done"

lemma w_done_files [simp]:
  "p \<notin> {''/h/m'', ''/h/c''} \<Longrightarrow> d_files w_done p = d_files w_saved p"
  "d_files w_done ''/h/m'' = Some (PlainFile Private ''M'')" "d_files w_done ''/h/c'' = Some (PlainFile Private ''N'')"
  by (simp_all add: w_done_def)

lemma w_final_apart: "d_files w_final ''/h/j'' = None"
  by (simp add: w_final_def)

lemma w_complete:
  "\<exists>k. complete_journal works w_env ''/h/j'' w_tx (tick n (w_stage PhaseMarkerVerified w_done)) =
     (Inr (), tick k w_final)"
proof -
  have gone: "put_file ''/h/j'' None w_final = w_final"
    using w_final_apart by (simp add: put_file_def fun_upd_idem)
  have load: "load_journal works w_env ''/h/j'' (tick n (w_stage PhaseMarkerVerified w_done)) =
      (Inr (w_at PhaseMarkerVerified), tick (n + 3) (w_stage PhaseMarkerVerified w_done))"
    using w_load_journal [of PhaseMarkerVerified "tick n (w_stage PhaseMarkerVerified w_done)"] by simp
  show ?thesis
    by (simp add: complete_journal_def load maxConfigBytes_def gone w_final_def [symmetric]) blast
qed

lemma w_steps:
  "\<exists>k. transaction_steps works w_env (\<lambda>_. False) ''/h/j'' ''/h/c'' w_transaction (tick n (w_stage PhasePrepared w_start)) =
     (Inr (), tick k w_final)"
proof -
  obtain k1 where 1: "save_before works w_env (\<lambda>_. False) ''/h/j'' w_transaction (tick n (w_stage PhasePrepared w_start)) =
     (Inr (), tick k1 (w_stage PhaseBackups w_saved))" using w_save_before by blast
  obtain k2 where 2: "save_secrets works w_env (\<lambda>_. False) ''/h/j'' w_transaction (tick k1 (w_stage PhaseBackups w_saved)) =
     (Inr (), tick k2 (w_stage PhaseKeyring w_keyed))" using w_save_secrets by blast
  let ?d = "put_file ''/h/c'' (Some (PlainFile Private ''N'')) w_keyed"
  obtain k3 where 3: "save_config works w_env (\<lambda>_. False) ''/h/j'' ''/h/c'' w_transaction (tick k2 (w_stage PhaseKeyring w_keyed)) =
     (Inr (), tick k3 (w_stage PhaseConfig ?d))" using w_save_config by blast
  obtain k4 where 4: "save_marker works w_env (\<lambda>_. False) ''/h/j'' w_transaction (tick k3 (w_stage PhaseConfig ?d)) =
     (Inr (), tick k4 (w_stage PhaseMarkerVerified w_done))" using w_save_marker by blast
  show ?thesis
    using w_complete [of k4] by (simp add: transaction_steps_def 1 2 3 4)
qed

lemma w_run:
  "\<exists>k. run_transaction works w_env (\<lambda>_. False) ''/h/j'' ''/h/c'' w_transaction (tick n w_start) =
     (Inr (TxResult w_transaction), tick k w_final)"
proof -
  obtain k1 where 1: "begin_journal works w_env ''/h/j'' w_journal (tick n w_start) = (Inr (), tick k1 (w_stage PhasePrepared w_start))"
    using w_begin by blast
  obtain k2 where 2: "transaction_steps works w_env (\<lambda>_. False) ''/h/j'' ''/h/c'' w_transaction
      (tick k1 (w_stage PhasePrepared w_start)) = (Inr (), tick k2 w_final)"
    using w_steps by blast
  show ?thesis
    by (simp add: run_transaction_def 1 2) blast
qed

lemma w_apply_locked:
  "\<exists>k. apply_locked works w_env (\<lambda>_. False) w_paths ''/h/c'' default_config w_plan ''t'' (Some w_tx) 1 (tick n w_start) =
     (Inr (TxResult w_transaction), tick k w_final)"
proof -
  obtain m where recover: "recover_if_present works w_env w_paths (tick n w_start) = (Inr (), tick m w_start)"
    by (simp add: recover_if_present_def inspect_orphans_def)
  obtain k where run: "run_transaction works w_env (\<lambda>_. False) ''/h/j'' ''/h/c'' w_transaction
      (tick (15 + Suc m) w_start) = (Inr (TxResult w_transaction), tick k w_final)"
    using w_run by blast
  show ?thesis
    using run w_prepare [of "Suc m"] by (simp add: apply_locked_def recover) blast
qed

lemma w_apply:
  "\<exists>k. apply_migration works w_env (\<lambda>_. False) w_paths w_store default_config w_plan ''t'' (Some w_tx) 1 w_disk =
     (Inr (TxResult w_transaction), tick k w_final)"
proof -
  have checks: "\<not> PlanClosed w_plan" "path_clean (StorePath w_store) = path_clean (ConfigFile w_paths)"
    "valid_journal_text ''t'' 128" "path_clean (StoreJournal w_store) = path_clean (MigrationJournal w_paths)"
    by code_simp+
  have same: "unchanged_since w_env default_config w_plan"
    by (simp add: unchanged_since_def w_plan_def)
  have marker: "load_marker works w_env ''/h/m'' w_disk = (Inr None, tick 1 w_disk)"
    by (rule w_load_marker) (simp add: w_disk_def)
  have source: "verify_plan_sources works w_env w_plan (tick (Suc 0) w_disk) =
      (Inr ([(hex64 (CHR ''a''), ''Y'')], [w_stamp]), tick 3 w_disk)"
    using w_source [of "tick 1 w_disk"] by (simp add: w_disk_def numeral_3_eq_3)
  have lockp: "lock_path ''/h/c'' = ''/h/c.lock''" by code_simp
  obtain k where run: "apply_locked works w_env (\<lambda>_. False) w_paths ''/h/c'' default_config w_plan ''t'' (Some w_tx) 1
      (tick 10 w_start) = (Inr (TxResult w_transaction), tick k w_final)"
    using w_apply_locked by blast
  have "with_lock works ''/h/c'' (apply_locked works w_env (\<lambda>_. False) w_paths ''/h/c'' default_config w_plan ''t'' (Some w_tx) 1)
      (tick 3 w_disk) = (Inr (TxResult w_transaction), tick 1 (tick k w_final))"
    by (rule lock_works(2)) (use run in \<open>simp_all add: lockp w_start_def w_disk_def\<close>)
  then show ?thesis
    using checks by (simp add: apply_migration_def Let_def same marker source with_mutation_lock_def w_path_facts) blast
qed

text \<open>The migration of the small world succeeds, and its result is the committed transaction.\<close>

theorem migration_all_or_nothing_witness:
  "\<exists>result d' tx x.
     apply_migration works w_env (\<lambda>_. False) w_paths w_store default_config w_plan ''t'' (Some w_tx) 1 w_disk = (Inr result, d') \<and>
     migration_from w_env w_paths w_plan ''t'' w_tx 1 w_disk tx x \<and> committed x d' \<and> result = TxResult tx \<and>
     d_files d' ''/h/c'' = Some (PlainFile Private ''N'') \<and> d_keyring d' w_ref = Some ''pw''"
proof -
  obtain k where run: "apply_migration works w_env (\<lambda>_. False) w_paths w_store default_config w_plan ''t'' (Some w_tx) 1 w_disk =
     (Inr (TxResult w_transaction), tick k w_final)"
    using w_apply by blast
  have "\<not> only_locked w_paths w_disk (tick k w_final)"
    by (simp add: only_locked_def w_final_def w_done_def w_keyed_def w_saved_def w_start_def w_disk_def fun_eq_iff)
  then obtain tx x where "migration_from w_env w_paths w_plan ''t'' w_tx 1 w_disk tx x" "committed x (tick k w_final)"
      "TxResult w_transaction = TxResult tx"
    using migration_all_or_nothing [OF run w_normal w_ready] by auto
  then show ?thesis
    using run by (intro exI [of _ "TxResult w_transaction"] exI [of _ "tick k w_final"] exI [of _ tx] exI [of _ x])
      (simp add: w_final_def w_done_def w_keyed_def)
qed


text \<open>A recovery that finds nothing to do.\<close>

lemma w_idle:
  assumes "d_files d ''/h/j'' = None" "d_files d ''/h/r'' = None" "d_files d ''/h/s'' = None"
  shows "recover_migration works w_env w_paths d = (Inr (), tick 3 d)"
  using assms by (simp add: recover_migration_def Let_def inspect_orphans_def numeral_3_eq_3)

theorem migration_crash_safe_witness:
  "\<exists>d1 d2 tx x. (\<exists>r. apply_migration works w_env (\<lambda>_. False) w_paths w_store default_config w_plan ''t'' (Some w_tx) 1 w_disk = (r, d1)) \<and>
     recoveries w_env w_paths d1 d2 \<and> migration_from w_env w_paths w_plan ''t'' w_tx 1 w_disk tx x \<and> interrupted w_env x d2"
proof -
  obtain k where run: "apply_migration works w_env (\<lambda>_. False) w_paths w_store default_config w_plan ''t'' (Some w_tx) 1 w_disk =
     (Inr (TxResult w_transaction), tick k w_final)"
    using w_apply by blast
  have "recover_migration works w_env w_paths (tick k w_final) = (Inr (), tick 3 (tick k w_final))"
    by (rule w_idle) (simp_all add: w_final_def)
  then have rec: "recoveries w_env w_paths (tick k w_final) (tick 3 (tick k w_final))"
    by (rule recoveries.more [OF recoveries.none])
  have "\<not> only_locked w_paths w_disk (tick 3 (tick k w_final))"
    by (simp add: only_locked_def w_final_def w_done_def w_keyed_def w_saved_def w_start_def w_disk_def fun_eq_iff)
  with migration_crash_safe [OF run rec w_normal w_ready] obtain tx x where
      "migration_from w_env w_paths w_plan ''t'' w_tx 1 w_disk tx x" "interrupted w_env x (tick 3 (tick k w_final))"
    by blast
  with run rec show ?thesis by blast
qed

text \<open>The situation of the small world, and a transaction that stopped after the secrets were stored.\<close>

definition w_x :: situation where
  "w_x = situation_of w_env ''/h/j'' (d_files w_start) (d_keyring w_start) w_transaction"

lemma w_lock_files: "lock_files ''/h/c'' (d_files w_disk) (d_files w_start)"
proof -
  have "lock_path ''/h/c'' = ''/h/c.lock''" by code_simp
  then show ?thesis by (simp add: lock_files_def w_start_def w_disk_def)
qed

lemma w_migration_from: "migration_from w_env w_paths w_plan ''t'' w_tx 1 w_disk w_transaction w_x"
proof -
  have "apply_ready w_env w_paths w_plan w_tx (d_files w_disk)" "lock_apart w_paths w_tx w_plan"
    using w_ready by (simp_all add: migration_ready_def)
  then have ready: "apply_ready w_env w_paths w_plan w_tx (d_files w_start)"
    by (rule apply_ready_locked) (use w_lock_files in simp)
  have law: "prefix_law w_env ''/h/j''"
    using w_ready by (simp add: migration_ready_def)
  have "still (d_files w_start) (d_keyring w_start) w_start" by simp
  from triple_resultD [OF looks_prepare_transaction [unfolded looks_def, of "d_files w_start" w_paths "d_keyring w_start" works w_env
          default_config w_plan "''t''" w_tx 1] this, of w_transaction "tick 15 w_start"]
  have prep: "prepared w_env w_paths w_plan ''t'' w_tx 1 (d_files w_start) (d_keyring w_start) w_transaction"
    using w_prepare [of 0] by simp
  have "enacts w_env w_x w_transaction"
    unfolding w_x_def
    by (rule prepared_enacts [OF prep]) (use ready law w_valid in \<open>simp_all add: apply_ready_def\<close>)
  then have "carries_out w_env w_paths w_plan ''t'' w_tx 1 (d_files w_start) (d_keyring w_start) w_transaction w_x"
    using prep by (simp add: carries_out_def w_x_def)
  moreover have "d_keyring w_start = d_keyring w_disk"
    by (simp add: w_start_def)
  ultimately show ?thesis
    using w_lock_files by (auto simp: migration_from_def)
qed

lemma w_enacts: "enacts w_env w_x w_transaction"
  using w_migration_from by (auto simp: migration_from_def carries_out_def)

lemma w_recoverable: "recoverable w_paths w_env w_x"
  using migration_recoverable [OF w_migration_from w_ready] .

lemma w_path [simp]: "s_path w_x = ''/h/j''"
  using w_recoverable by (simp add: recoverable_def)

lemma w_kept_stage:
  "\<exists>k. kept_stage w_x w_transaction False False (tick k (w_stage PhaseKeyring w_keyed)) \<and>
     journal_at w_env w_x (at_phase w_transaction PhaseKeyring) (tick k (w_stage PhaseKeyring w_keyed))"
proof -
  have x: "d_files w_start = s_files w_x \<and> d_keyring w_start = s_keyring w_x"
    by (simp add: w_x_def situation_of_def Let_def)
  have begun: "beginnings w_env w_x (TxJournal w_transaction)"
    using prepared_beginnings [OF w_enacts w_x_def] w_ready by (simp add: migration_ready_def)
  obtain k1 where 1: "begin_journal works w_env ''/h/j'' w_journal w_start = (Inr (), tick k1 (w_stage PhasePrepared w_start))"
    using w_begin [of 0] by auto
  have s1: "fresh_stage w_x w_transaction (tick k1 (w_stage PhasePrepared w_start)) \<and>
      journal_at w_env w_x (at_phase w_transaction PhasePrepared) (tick k1 (w_stage PhasePrepared w_start))"
    using triple_resultD [OF triple_begin [OF w_enacts w_codec begun] x, of works "()"] 1 by simp
  obtain k2 where 2: "save_before works w_env (\<lambda>_. False) ''/h/j'' w_transaction (tick k1 (w_stage PhasePrepared w_start)) =
     (Inr (), tick k2 (w_stage PhaseBackups w_saved))" using w_save_before by blast
  have s2: "saved_stage w_x w_transaction (tick k2 (w_stage PhaseBackups w_saved)) \<and>
      journal_at w_env w_x (at_phase w_transaction PhaseBackups) (tick k2 (w_stage PhaseBackups w_saved))"
    using triple_resultD [OF triple_save_before [OF w_enacts w_codec] s1, of works _ "()"] 2 by simp
  obtain k3 where 3: "save_secrets works w_env (\<lambda>_. False) ''/h/j'' w_transaction (tick k2 (w_stage PhaseBackups w_saved)) =
     (Inr (), tick k3 (w_stage PhaseKeyring w_keyed))" using w_save_secrets by blast
  have "kept_stage w_x w_transaction False False (tick k3 (w_stage PhaseKeyring w_keyed)) \<and>
      journal_at w_env w_x (at_phase w_transaction PhaseKeyring) (tick k3 (w_stage PhaseKeyring w_keyed))"
    using triple_resultD [OF triple_save_secrets [OF w_enacts w_codec] s2, of works _ "()"] 3 by simp
  then show ?thesis by blast
qed

lemma w_resumable: "\<exists>k. resumable w_env w_x (tick k (w_stage PhaseKeyring w_keyed))"
  using w_kept_stage resumable_stages(3) [OF w_enacts] by blast

lemma w_pending:
  "\<exists>k. pending w_env w_x (at_phase w_transaction PhaseKeyring) (tick k (w_stage PhaseKeyring w_keyed))"
proof -
  obtain k where "kept_stage w_x w_transaction False False (tick k (w_stage PhaseKeyring w_keyed))"
      "journal_at w_env w_x (at_phase w_transaction PhaseKeyring) (tick k (w_stage PhaseKeyring w_keyed))"
    using w_kept_stage by blast
  then have "pending w_env w_x (at_phase w_transaction PhaseKeyring) (tick k (w_stage PhaseKeyring w_keyed))"
    by (auto simp: kept_stage_def pending_def unused_def)
  then show ?thesis by blast
qed

lemma w_journal_of: "journal_of w_env w_x (at_phase w_transaction PhaseKeyring)"
  by (rule journal_of_phase [OF w_enacts]) simp


text \<open>The recovery of that transaction takes the backup, the secret and the snapshot back.\<close>

lemma w_held_lock: "d_files d (lock_path ''/h/c'') = d_files d ''/h/c.lock''"
proof -
  have "lock_path ''/h/c'' = ''/h/c.lock''" by code_simp
  then show ?thesis by simp
qed

definition w_back :: disk where
  "w_back = put_file ''/h/r'' None (put_file w_backup None (put_keyring w_ref None w_keyed))"

lemma w_keyed_files:
  "d_files (tick n (w_stage PhaseKeyring w_keyed)) ''/h/m'' = None"
  "d_files (tick n (w_stage PhaseKeyring w_keyed)) ''/h/c'' = Some (PlainFile Private ''C'')"
  "d_files (tick n (w_stage PhaseKeyring w_keyed)) w_backup = Some (PlainFile Private ''Y'')"
  by simp_all

lemma w_inspect:
  "inspect_artifact works w_env (MarkerArtifact (w_at PhaseKeyring)) (tick n (w_stage PhaseKeyring w_keyed)) =
     (Inr False, tick (Suc n) (w_stage PhaseKeyring w_keyed))"
  "inspect_artifact works w_env (ConfigArtifact (w_at PhaseKeyring)) (tick n (w_stage PhaseKeyring w_keyed)) =
     (Inr False, tick (n + 4) (w_stage PhaseKeyring w_keyed))"
proof -
  have m: "read_regular works ''/h/m'' (tick n (w_stage PhaseKeyring w_keyed)) = (Inr None, tick (Suc n) (w_stage PhaseKeyring w_keyed))"
    by simp
  show "inspect_artifact works w_env (MarkerArtifact (w_at PhaseKeyring)) (tick n (w_stage PhaseKeyring w_keyed)) =
     (Inr False, tick (Suc n) (w_stage PhaseKeyring w_keyed))"
    by (simp add: inspect_artifact_def m)
  have c: "read_regular works ''/h/c'' (tick n (w_stage PhaseKeyring w_keyed)) = (Inr (Some ''C''), tick (n + 4) (w_stage PhaseKeyring w_keyed))"
    by (simp add: maxConfigBytes_def)
  show "inspect_artifact works w_env (ConfigArtifact (w_at PhaseKeyring)) (tick n (w_stage PhaseKeyring w_keyed)) =
     (Inr False, tick (n + 4) (w_stage PhaseKeyring w_keyed))"
    by (simp add: inspect_artifact_def c)
qed

lemma w_roll_back:
  "\<exists>k. roll_back works w_env ''/h/j'' (w_at PhaseKeyring) (tick n (w_stage PhaseKeyring w_keyed)) =
     (Inr (), tick k w_back)"
proof -
  let ?d = "w_stage PhaseKeyring w_keyed"
  have gone: "put_file ''/h/j'' None w_back = w_back"
    by (simp add: put_file_def fun_upd_idem w_back_def)
  show ?thesis
    unfolding roll_back_def
    by (simp add: w_inspect [simplified] rollback_artifact_def maxConfigBytes_def gone w_back_def [symmetric]) blast
qed

lemma w_recover:
  "\<exists>k. recover_migration works w_env w_paths (tick n (w_stage PhaseKeyring w_keyed)) = (Inr (), tick k w_back)"
proof -
  have load: "load_journal works w_env ''/h/j'' (tick m (w_stage PhaseKeyring w_keyed)) =
      (Inr (w_at PhaseKeyring), tick (m + 3) (w_stage PhaseKeyring w_keyed))" for m
    using w_load_journal [of PhaseKeyring "tick m (w_stage PhaseKeyring w_keyed)"] by simp
  obtain k where roll: "roll_back works w_env ''/h/j'' (w_at PhaseKeyring) (tick (12 + n) (w_stage PhaseKeyring w_keyed)) =
     (Inr (), tick k w_back)"
    using w_roll_back by blast
  have pending: "recover_pending works w_env ''/h/j'' (tick (9 + n) (w_stage PhaseKeyring w_keyed)) = (Inr False, tick k w_back)"
    unfolding recover_pending_def using load [of "9 + n"] roll by (simp add: add.commute)
  have run: "recover_if_present works w_env w_paths (tick 7 (tick (n + 1) (w_stage PhaseKeyring w_keyed))) = (Inr (), tick k w_back)"
    using pending by (simp add: recover_if_present_def)
  have "with_lock works ''/h/c'' (recover_if_present works w_env w_paths) (tick (n + 1) (w_stage PhaseKeyring w_keyed)) =
      (Inr (), tick 1 (tick k w_back))"
    by (rule lock_works(1)) (use run in \<open>simp_all add: w_held_lock w_start_def\<close>)
  moreover have "resolved_path w_env \<lparr>StorePath = ''/h/c'', StoreJournal = ''/h/j''\<rparr> = Some ''/h/c''"
    "resolved_journal w_env \<lparr>StorePath = ''/h/c'', StoreJournal = ''/h/j''\<rparr> ''/h/c'' = Some ''/h/j''"
    using w_path_facts by (simp_all add: w_store_def)
  ultimately show ?thesis
    by (simp add: recover_migration_def Let_def with_mutation_lock_def) blast
qed

theorem recovery_settles_witness:
  "\<exists>d j d'. journal_of w_env w_x j \<and> Phase j \<noteq> PhaseMarkerVerified \<and> pending w_env w_x j d \<and>
     d_keyring d w_ref = Some ''pw'' \<and> recover_migration works w_env w_paths d = (Inr (), d') \<and>
     restored w_x d' \<and> d_keyring d' w_ref = None"
proof -
  let ?j = "at_phase w_transaction PhaseKeyring"
  obtain k where start: "pending w_env w_x ?j (tick k (w_stage PhaseKeyring w_keyed))" using w_pending by blast
  obtain m where run: "recover_migration works w_env w_paths (tick k (w_stage PhaseKeyring w_keyed)) = (Inr (), tick m w_back)"
    using w_recover by blast
  have "restored w_x (tick m w_back)"
    using recovery_settles [OF run w_journal_of _ w_recoverable w_normal] start by simp
  with start run w_journal_of show ?thesis
    by (intro exI [of _ "tick k (w_stage PhaseKeyring w_keyed)"] exI [of _ ?j] exI [of _ "tick m w_back"])
      (simp add: w_back_def w_keyed_def)
qed

text \<open>The journal has been written, and of the snapshot nothing yet.\<close>

definition w_cut :: disk where
  "w_cut = w_stage PhasePrepared (put_file ''/h/r'' (Some (PlainFile Private '''')) w_start)"

lemma w_cut_short: "cut_short w_env ''/h/j'' w_journal (phase_text PhasePrepared) '''' w_cut"
  using w_valid w_at_text(1) [of PhasePrepared]
  by (simp add: cut_short_def w_cut_def w_digest_def hex64_def)

theorem cut_snapshot_blocks_recovery_witness:
  "cut_short w_env ''/h/j'' w_journal (phase_text PhasePrepared) '''' w_cut \<and>
   (\<exists>e d'. recover_migration works w_env w_paths w_cut = (Inl e, d') \<and>
      cut_short w_env ''/h/j'' w_journal (phase_text PhasePrepared) '''' d')"
proof -
  obtain r d' where run: "recover_migration works w_env w_paths w_cut = (r, d')" by fastforce
  have lock: "lock_path ''/h/c'' = ''/h/c.lock''" by code_simp
  have "(\<exists>e. r = Inl e) \<and> cut_short w_env (MigrationJournal w_paths) w_journal (phase_text PhasePrepared) '''' d'"
    by (rule cut_snapshot_blocks_recovery [OF _ recoveries.none run w_normal])
      (use w_cut_short w_path_facts in \<open>simp_all add: lock\<close>)
  with run w_cut_short show ?thesis by auto
qed

end
