(* ===== verification/MigRestart.thy ===== *)
theory MigRestart
  imports MigDemo
begin

text \<open>
  Recovery does not get stuck.  When no system call fails and the files of an interrupted migration are whole, a
  recovery ends with success, so by the safety of recovery everything is restored or everything is in place.
\<close>

section \<open>Runs that succeed\<close>

definition goes :: "(disk \<Rightarrow> bool) \<Rightarrow> 'a fsop \<Rightarrow> ('a \<Rightarrow> disk \<Rightarrow> bool) \<Rightarrow> bool" where
  "goes P m Q \<longleftrightarrow> (\<forall>d. P d \<longrightarrow> (\<exists>x d'. m d = (Inr x, d') \<and> Q x d'))"

lemma goesI: "(\<And>d. P d \<Longrightarrow> \<exists>x d'. m d = (Inr x, d') \<and> Q x d') \<Longrightarrow> goes P m Q"
  by (simp add: goes_def)

lemma goes_bind:
  assumes "goes P m Q" "\<And>x. goes (Q x) (k x) R"
  shows "goes P (bindP m k) R"
proof (rule goesI)
  fix d assume "P d"
  then obtain x d1 where m: "m d = (Inr x, d1)" "Q x d1" using assms(1) unfolding goes_def by blast
  then show "\<exists>y d'. bindP m k d = (Inr y, d') \<and> R y d'" using assms(2) [of x] by (simp add: goes_def)
qed

lemma goes_return: "(\<And>d. P d \<Longrightarrow> Q x d) \<Longrightarrow> goes P (returnP x) Q"
  by (auto simp: goes_def)

lemma goes_if: "(b \<Longrightarrow> goes P m Q) \<Longrightarrow> (\<not> b \<Longrightarrow> goes P n Q) \<Longrightarrow> goes P (if b then m else n) Q"
  by simp

lemma goes_weaken:
  assumes "goes P m Q" "\<And>d. P' d \<Longrightarrow> P d" "\<And>x d. Q x d \<Longrightarrow> Q' x d"
  shows "goes P' m Q'"
  using assms unfolding goes_def by metis

lemma goes_each_do:
  assumes "\<And>y ys. goes (I (y # ys)) (f y) (\<lambda>_. I ys)"
  shows "goes (I ys) (each_do f ys) (\<lambda>_. I [])"
proof (induction ys)
  case Nil
  show ?case unfolding each_do.simps by (rule goes_return)
next
  case (Cons y ys)
  show ?case unfolding each_do.simps by (rule goes_bind [OF assms]) (rule Cons.IH)
qed

section \<open>Whole files\<close>

definition regular :: "node option \<Rightarrow> bool" where
  "regular node \<longleftrightarrow> (case node of Some (OtherNode _) \<Rightarrow> False | _ \<Rightarrow> True)"

definition bounded :: "node option \<Rightarrow> bool" where
  "bounded node \<longleftrightarrow> (case node of None \<Rightarrow> True | Some (PlainFile _ s) \<Rightarrow> length s \<le> maxConfigBytes | Some (OtherNode _) \<Rightarrow> False)"

text \<open>The files of the transaction are regular and not too long, and the snapshot was written completely or not at all.\<close>

definition intact :: "situation \<Rightarrow> disk \<Rightarrow> bool" where
  "intact x d \<longleftrightarrow> (\<forall>p \<in> touched x. bounded (d_files d p)) \<and> (snap_none x d \<or> snap_ok x d)"

text \<open>What the stages of a rollback keep: the journal, removable backups, and a snapshot that can be loaded or is gone.\<close>

definition snapshot_whole :: "'e config_env_scheme \<Rightarrow> snapshot \<Rightarrow> disk \<Rightarrow> bool" where
  "snapshot_whole en sn d \<longleftrightarrow>
     (\<exists>s. d_files d (SnapshotPath sn) = Some (PlainFile Private s) \<and> length s \<le> maxConfigBytes \<and> digest en s = SnapshotDigest sn)"

definition snapshot_fine :: "'e config_env_scheme \<Rightarrow> snapshot \<Rightarrow> disk \<Rightarrow> bool" where
  "snapshot_fine en sn d \<longleftrightarrow> (Existed sn \<longrightarrow> d_files d (SnapshotPath sn) = None \<or> snapshot_whole en sn d)"

definition still_there :: "'e config_env_scheme \<Rightarrow> situation \<Rightarrow> backup_record list \<Rightarrow> disk \<Rightarrow> bool" where
  "still_there en x bs d \<longleftrightarrow>
     (\<exists>a s. d_files d (s_path x) = Some (PlainFile a s)) \<and> (\<forall>b \<in> set bs. regular (d_files d (BackupPath b))) \<and>
     snapshot_fine en (Before (s_config x)) d"

lemma still_there_tick [simp]:
  "still_there en x bs (tick n d) = still_there en x bs d" "snapshot_fine en sn (tick n d) = snapshot_fine en sn d"
  "snapshot_whole en sn (tick n d) = snapshot_whole en sn d"
  by (simp_all add: still_there_def snapshot_fine_def snapshot_whole_def)

lemma still_there_put:
  assumes "situation_ok en x" "p = s_target x \<or> p = s_mtarget x" "BackupPath ` set bs \<subseteq> s_backups x"
  shows "still_there en x bs (put_file p node d) = still_there en x bs d"
proof -
  have "p \<noteq> s_path x" "\<And>b. b \<in> set bs \<Longrightarrow> BackupPath b \<noteq> p"
    using situation_paths(1-6) [OF assms(1)] not_snap(4-6) [OF assms(1)] assms(2,3) by auto
  moreover have "Existed (Before (s_config x)) \<Longrightarrow> s_snap x \<noteq> p"
    using not_snap(1-3) [OF assms(1)] assms(2) by (auto simp: snap_paths_def)
  ultimately show ?thesis by (auto simp: still_there_def snapshot_fine_def snapshot_whole_def)
qed

lemma still_there_keyring: "still_there en x bs (put_keyring r v d) = still_there en x bs d"
  by (simp add: still_there_def snapshot_fine_def snapshot_whole_def)

section \<open>Rolling back\<close>

definition valid_snapshot :: "snapshot \<Rightarrow> bool" where
  "valid_snapshot sn \<longleftrightarrow>
     (if Existed sn then clean_file_path (SnapshotPath sn) \<and> valid_sha256 (SnapshotDigest sn) else absent_ok sn)"

text \<open>An artifact in the state before or after the transaction.\<close>

definition artifact_known :: "'e config_env_scheme \<Rightarrow> artifact \<Rightarrow> disk \<Rightarrow> bool" where
  "artifact_known en a d \<longleftrightarrow>
     (case d_files d (TargetPath a) of
        None \<Rightarrow> \<not> Existed (Before a)
      | Some (PlainFile _ s) \<Rightarrow>
          length s \<le> maxConfigBytes \<and>
          (Existed (Before a) \<and> digest en s = SnapshotDigest (Before a) \<or>
           digest en s = AfterDigest a \<and> (Existed (Before a) \<longrightarrow> snapshot_whole en (Before a) d))
      | Some (OtherNode _) \<Rightarrow> False)"

definition can_roll_back :: "'e config_env_scheme \<Rightarrow> artifact \<Rightarrow> disk \<Rightarrow> bool" where
  "can_roll_back en a d \<longleftrightarrow>
     (\<exists>m s. d_files d (TargetPath a) = Some (PlainFile m s)) \<and> (Existed (Before a) \<longrightarrow> snapshot_whole en (Before a) d)"

lemma load_whole:
  assumes "valid_snapshot sn" "Existed sn" "snapshot_whole en sn d"
  obtains s where "load_snapshot works en sn d = (Inr (Some s), tick 3 d)" "length s \<le> maxConfigBytes"
    "digest en s = SnapshotDigest sn"
  using assms that load_snapshot_works(2) [of sn d _ en] by (auto simp: valid_snapshot_def snapshot_whole_def)

lemma inspect_known:
  assumes "artifact_known en a d" "valid_snapshot (Before a)"
  obtains b k where "inspect_artifact works en a d = (Inr b, tick k d)" "b \<Longrightarrow> can_roll_back en a d"
proof (cases "d_files d (TargetPath a)")
  case None
  then show ?thesis using assms(1) that [of False 1] by (simp add: artifact_known_def inspect_artifact_def)
next
  case (Some node)
  then obtain m s where f: "d_files d (TargetPath a) = Some (PlainFile m s)" "length s \<le> maxConfigBytes"
    using assms(1) by (cases node) (auto simp: artifact_known_def)
  show ?thesis
  proof (cases "Existed (Before a) \<and> digest en s = SnapshotDigest (Before a)")
    case True
    then show ?thesis using f that [of False 4] by (simp add: inspect_artifact_def)
  next
    case False
    then have after: "digest en s = AfterDigest a" "Existed (Before a) \<Longrightarrow> snapshot_whole en (Before a) d"
      using assms(1) f by (auto simp: artifact_known_def)
    have can: "can_roll_back en a d" using f after(2) by (auto simp: can_roll_back_def)
    show ?thesis
    proof (cases "Existed (Before a)")
      case True
      have "snapshot_whole en (Before a) (tick 4 d)" using after(2) [OF True] by simp
      then obtain t where "load_snapshot works en (Before a) (tick 4 d) = (Inr (Some t), tick 3 (tick 4 d))"
        by (rule load_whole [OF assms(2) True]) 
      then show ?thesis using f False True after(1) can that [of True 7] by (simp add: inspect_artifact_def)
    next
      case gone: False
      then show ?thesis using f after(1) can that [of True 4] by (simp add: inspect_artifact_def)
    qed
  qed
qed

lemma rollback_possible:
  assumes "b \<Longrightarrow> can_roll_back en a d" "valid_snapshot (Before a)"
  obtains node k where "rollback_artifact works en a b d = (Inr (), tick k (put_file (TargetPath a) node d))"
proof (cases b)
  case False
  have "put_file (TargetPath a) (d_files d (TargetPath a)) d = d" by (simp add: put_file_def)
  then show ?thesis using False that [of 0 "d_files d (TargetPath a)"] by (simp add: rollback_artifact_def)
next
  case True
  then obtain m s where f: "d_files d (TargetPath a) = Some (PlainFile m s)" using assms(1) by (auto simp: can_roll_back_def)
  show ?thesis
  proof (cases "Existed (Before a)")
    case existed: True
    have "snapshot_whole en (Before a) d" using assms(1) True existed by (simp add: can_roll_back_def)
    then obtain t where t: "load_snapshot works en (Before a) d = (Inr (Some t), tick 3 d)" "length t \<le> maxConfigBytes"
        "digest en t = SnapshotDigest (Before a)"
      by (rule load_whole [OF assms(2) existed])
    then show ?thesis using True existed that [of 17 "Some (PlainFile Private t)"] by (simp add: rollback_artifact_def)
  next
    case gone: False
    then show ?thesis using True f that [of 3 None] by (simp add: rollback_artifact_def)
  qed
qed

lemma artifact_known_tick [simp]:
  "artifact_known en a (tick n d) = artifact_known en a d" "can_roll_back en a (tick n d) = can_roll_back en a d"
  by (auto simp: artifact_known_def can_roll_back_def split: option.split node.split)

lemma goes_remove_snapshot:
  assumes "valid_snapshot sn" "\<And>d. P d \<Longrightarrow> snapshot_fine en sn d"
    "\<And>d n. P d \<Longrightarrow> P (tick n d)" "\<And>d. Existed sn \<Longrightarrow> P d \<Longrightarrow> P (put_file (SnapshotPath sn) None d)"
  shows "goes P (remove_snapshot works en sn) (\<lambda>_. P)"
proof (rule goesI)
  fix d assume P: "P d"
  consider "\<not> Existed sn" | "Existed sn" "d_files d (SnapshotPath sn) = None" | "Existed sn" "snapshot_whole en sn d"
    using assms(2) [OF P] by (auto simp: snapshot_fine_def)
  then show "\<exists>y d'. remove_snapshot works en sn d = (Inr y, d') \<and> P d'"
  proof cases
    case 1
    then show ?thesis using P assms(1) by (simp add: valid_snapshot_def)
  next
    case 2
    then show ?thesis using P assms(3) by simp
  next
    case 3
    then obtain s where "d_files d (SnapshotPath sn) = Some (PlainFile Private s)" "length s \<le> maxConfigBytes"
        "digest en s = SnapshotDigest sn"
      by (auto simp: snapshot_whole_def)
    then show ?thesis using 3(1) P assms(1,3,4) by (simp add: valid_snapshot_def)
  qed
qed

lemma goes_remove_regular:
  assumes "\<And>d. P d \<Longrightarrow> (\<exists>a s. d_files d p = Some (PlainFile a s)) \<or> missing \<and> d_files d p = None"
    "\<And>d n. P d \<Longrightarrow> Q (tick n (put_file p None d))"
  shows "goes P (remove_regular works p missing) (\<lambda>_. Q)"
proof (rule goesI)
  fix d assume P: "P d"
  show "\<exists>y d'. remove_regular works p missing d = (Inr y, d') \<and> Q d'"
  proof (cases "d_files d p")
    case None
    then have "put_file p None d = d" by (simp add: put_file_def fun_upd_idem)
    moreover have missing using assms(1) [OF P] None by auto
    ultimately show ?thesis using None assms(2) [OF P, of 1] by simp
  next
    case (Some node)
    then obtain a s where "d_files d p = Some (PlainFile a s)" using assms(1) [OF P] by auto
    then show ?thesis using assms(2) [OF P, of 3] by simp
  qed
qed

lemma goes_rollback:
  assumes "valid_snapshot (Before a)" "\<And>d. P d \<Longrightarrow> b \<longrightarrow> can_roll_back en a d"
    "\<And>d k node. P d \<Longrightarrow> Q (tick k (put_file (TargetPath a) node d))"
  shows "goes P (rollback_artifact works en a b) (\<lambda>_. Q)"
proof (rule goesI)
  fix d assume P: "P d"
  obtain node k where "rollback_artifact works en a b d = (Inr (), tick k (put_file (TargetPath a) node d))"
    by (rule rollback_possible [OF _ assms(1), of b en d]) (use assms(2) [OF P] in auto)
  then show "\<exists>y d'. rollback_artifact works en a b d = (Inr y, d') \<and> Q d'" using assms(3) [OF P] by auto
qed

lemma goes_inspect:
  assumes "valid_snapshot (Before a)" "\<And>d. P d \<Longrightarrow> artifact_known en a d" "\<And>d k. P d \<Longrightarrow> P (tick k d)"
  shows "goes P (inspect_artifact works en a) (\<lambda>b d. P d \<and> (b \<longrightarrow> can_roll_back en a d))"
proof (rule goesI)
  fix d assume P: "P d"
  obtain b k where "inspect_artifact works en a d = (Inr b, tick k d)" "b \<Longrightarrow> can_roll_back en a d"
    by (rule inspect_known [OF assms(2) [OF P] assms(1)]) blast
  then show "\<exists>b d'. inspect_artifact works en a d = (Inr b, d') \<and> P d' \<and> (b \<longrightarrow> can_roll_back en a d')"
    using assms(3) [OF P] by auto
qed

lemma goes_delete:
  assumes "\<And>d k r. P d \<Longrightarrow> P (tick k (put_keyring r None d))"
  shows "goes P (each_do (keyring_delete works) rs) (\<lambda>_. P)"
  by (rule goes_each_do [where I = "\<lambda>_. P"]) (use assms in \<open>auto intro!: goesI\<close>)

lemma goes_roll_back:
  assumes "situation_ok en x" "journal_of en x j" "valid_snapshot (Before (s_config x))" "valid_snapshot (Before (s_marker x))"
  shows "goes (\<lambda>d. still_there en x (Backups j) d \<and> artifact_known en (s_config x) d \<and> artifact_known en (s_marker x) d)
    (roll_back works en (s_path x) j) (\<lambda>_ _. True)"
proof -
  let ?K = "still_there en x (Backups j)"
  have j: "ConfigArtifact j = s_config x" "MarkerArtifact j = s_marker x" "BackupPath ` set (Backups j) \<subseteq> s_backups x"
    using assms(2) by (simp_all add: journal_of_def)
  have no_marker: "\<not> Existed (Before (s_marker x))" using assms(1) by (simp add: situation_ok_def)
  note put = still_there_put [OF assms(1) _ j(3)]
  note paths = situation_paths [OF assms(1)] not_snap [OF assms(1)]
  have config_stays: "can_roll_back en (s_config x) (put_file (s_mtarget x) node d) = can_roll_back en (s_config x) d" for node d
    using paths(3) not_snap(3) [OF assms(1)] by (auto simp: can_roll_back_def snapshot_whole_def snap_paths_def)
  have "goes (\<lambda>d. still_there en x (Backups j) d \<and> BackupPath ` set (Backups j) \<subseteq> s_backups x)
      (each_do (\<lambda>b. remove_regular works (BackupPath b) True) (Backups j))
      (\<lambda>_ d. still_there en x [] d \<and> BackupPath ` set ([] :: backup_record list) \<subseteq> s_backups x)"
  proof (rule goes_each_do [where I = "\<lambda>bs d. still_there en x bs d \<and> BackupPath ` set bs \<subseteq> s_backups x"])
    fix b bs
    have stays: "still_there en x bs (put_file (BackupPath b) None d)"
      if "still_there en x (b # bs) d" "BackupPath b \<in> s_backups x" for d
      using that paths(8) not_snap(4) [OF assms(1)]
      by (auto simp: still_there_def snapshot_fine_def snapshot_whole_def regular_def snap_paths_def)
    show "goes (\<lambda>d. still_there en x (b # bs) d \<and> BackupPath ` set (b # bs) \<subseteq> s_backups x) (remove_regular works (BackupPath b) True)
        (\<lambda>_ d. still_there en x bs d \<and> BackupPath ` set bs \<subseteq> s_backups x)"
      by (rule goes_remove_regular) (use stays in \<open>auto simp: still_there_def regular_def split: option.splits node.splits\<close>)
  qed
  then have backups: "goes ?K (each_do (\<lambda>b. remove_regular works (BackupPath b) True) (Backups j)) (\<lambda>_. still_there en x [])"
    by (rule goes_weaken) (use j(3) in auto)
  have snap: "goes (still_there en x []) (remove_snapshot works en (Before (s_config x))) (\<lambda>_. still_there en x [])"
    by (rule goes_remove_snapshot [OF assms(3)])
      (use not_snap(1) [OF assms(1)] in \<open>auto simp: still_there_def snapshot_fine_def snap_paths_def\<close>)
  have no_snap: "goes (still_there en x []) (remove_snapshot works en (Before (s_marker x))) (\<lambda>_. still_there en x [])"
    by (rule goes_remove_snapshot [OF assms(4)]) (use no_marker in \<open>simp_all add: snapshot_fine_def\<close>)
  have last: "goes (still_there en x []) (remove_regular works (s_path x) False) (\<lambda>_ _. True)"
    by (rule goes_remove_regular) (auto simp: still_there_def)
  have keyring: "goes ?K (if Phase j \<noteq> PhasePrepared then each_do (keyring_delete works) (NewKeyringRefs j) else returnP ()) (\<lambda>_. ?K)"
    by (intro goes_if goes_delete goes_return) (simp_all add: still_there_keyring)
  note rest = goes_bind [OF keyring goes_bind [OF backups goes_bind [OF no_snap goes_bind [OF snap last]]]]
  have config: "goes (\<lambda>d. ?K d \<and> (c \<longrightarrow> can_roll_back en (s_config x) d)) (rollback_artifact works en (s_config x) c) (\<lambda>_. ?K)" for c
    by (rule goes_rollback [OF assms(3)]) (simp_all add: put)
  have marker: "goes (\<lambda>d. ((?K d \<and> artifact_known en (s_config x) d \<and> artifact_known en (s_marker x) d) \<and>
        (b \<longrightarrow> can_roll_back en (s_marker x) d)) \<and> (c \<longrightarrow> can_roll_back en (s_config x) d))
      (rollback_artifact works en (s_marker x) b) (\<lambda>_ d. ?K d \<and> (c \<longrightarrow> can_roll_back en (s_config x) d))" for b c
    by (rule goes_rollback [OF assms(4)]) (auto simp: put config_stays)
  show ?thesis
    unfolding roll_back_def j(1,2)
    by (rule goes_bind [OF goes_inspect [OF assms(4)] goes_bind [OF goes_inspect [OF assms(3)] goes_bind [OF marker goes_bind [OF config rest]]]])
      simp_all
qed

section \<open>A recovery on whole files\<close>

lemma valid_artifact_snapshot: "validate_artifact en a base seen = Some new \<Longrightarrow> valid_snapshot (Before a)"
  by (auto simp: validate_artifact_def valid_snapshot_def absent_ok_def add_path_def inside_base_def require_def
      split: if_splits option.splits bind_splits)

lemma journal_snapshots:
  assumes "journal_of en x j" "situation_ok en x"
  shows "valid_snapshot (Before (s_config x))" "valid_snapshot (Before (s_marker x))"
proof -
  show "valid_snapshot (Before (s_config x))"
    using assms(1) by (auto simp: journal_of_def validate_journal_def journal_paths_ok_def Let_def split: option.splits
        dest: valid_artifact_snapshot)
  show "valid_snapshot (Before (s_marker x))" using assms(2) by (simp add: situation_ok_def valid_snapshot_def)
qed

lemma whole_snapshot:
  assumes "before_ok en x" "Existed (Before (s_config x))" "snap_ok x d"
  shows "snapshot_whole en (Before (s_config x)) d"
  using assms by (auto simp: before_ok_def snap_ok_def snapshot_whole_def split: option.splits node.splits)

lemma intact_known:
  assumes "situation_ok en x" "intact x d" "config_before x d \<or> config_after x d \<and> snap_ok x d"
  shows "artifact_known en (s_config x) d"
proof -
  have b: "before_ok en x" "AfterDigest (s_config x) = digest en (s_config_data x)" "bounded (d_files d (s_target x))"
    using assms(1,2) by (simp_all add: situation_ok_def intact_def)
  from assms(3) show ?thesis
  proof
    assume "config_before x d"
    then show ?thesis using b(1) by (auto simp: config_before_def before_ok_def artifact_known_def split: option.splits node.splits)
  next
    assume "config_after x d \<and> snap_ok x d"
    then show ?thesis using b whole_snapshot [OF b(1)] by (simp add: config_after_def artifact_known_def bounded_def)
  qed
qed

lemma intact_marker_known:
  assumes "situation_ok en x" "intact x d" "marker_none x d \<or> marker_after x d"
  shows "artifact_known en (s_marker x) d"
proof -
  have "bounded (d_files d (s_mtarget x))" using assms(2) by (simp add: intact_def)
  then show ?thesis using assms(1,3)
    by (auto simp: situation_ok_def marker_none_def marker_after_def artifact_known_def bounded_def)
qed

lemma intact_snapshot: "situation_ok en x \<Longrightarrow> intact x d \<Longrightarrow> snapshot_fine en (Before (s_config x)) d"
  using whole_snapshot [OF situation_before] by (auto simp: intact_def snapshot_fine_def snap_none_def snap_paths_def)

lemma intact_still_there:
  assumes "situation_ok en x" "intact x d" "journal_of en x j" "journal_at en x j d"
  shows "still_there en x (Backups j) d"
proof -
  have "regular (d_files d (BackupPath b))" if "b \<in> set (Backups j)" for b
  proof -
    have "BackupPath b \<in> touched x" using assms(3) that by (auto simp: journal_of_def)
    then have "bounded (d_files d (BackupPath b))" using assms(2) by (simp add: intact_def)
    then show ?thesis by (auto simp: bounded_def regular_def split: option.splits node.splits)
  qed
  then show ?thesis
    using intact_snapshot [OF assms(1,2)] assms(4) by (auto simp: still_there_def journal_at_def)
qed

lemma intact_tick [simp]: "intact x (tick n d) = intact x d"
  by (simp add: intact_def tick_def)

lemma cells_tick [simp]: "resumable en x (tick n d) = resumable en x d"
  by (simp add: resumable_def pending_def verified_def tick_def)

lemma intact_load:
  assumes "intact x d" "journal_of en x j" "journal_at en x j d"
  shows "load_journal works en (s_path x) d = (Inr j, tick 3 d)"
proof -
  obtain s where s: "d_files d (s_path x) = Some (PlainFile Private s)" "decode_journal en s = Some j"
    using assms(3) by (auto simp: journal_at_def)
  have "bounded (d_files d (s_path x))" using assms(1) by (simp add: intact_def)
  moreover have "validate_journal en j (s_path x)" using assms(2) by (simp add: journal_of_def)
  moreover have "clean_file_path (s_path x)" using calculation(2) by (simp add: validate_journal_def)
  ultimately show ?thesis using s by (intro load_journal_works) (simp_all add: bounded_def)
qed

lemma complete_goes:
  assumes ok: "situation_ok en x" "intact x d" and j: "journal_of en x j" "Phase j = PhaseMarkerVerified" "verified en x j d"
  shows "\<exists>d'. complete_journal works en (s_path x) (TransactionID j) d = (Inr (), d')"
proof -
  have at: "journal_at en x j d" "config_after x d" "marker_after x d" using j(3) by (simp_all add: verified_def)
  obtain s where s: "d_files d (s_path x) = Some (PlainFile Private s)" using at(1) by (auto simp: journal_at_def)
  have sizes: "length (s_config_data x) \<le> maxConfigBytes" "length (s_marker_data x) \<le> maxConfigBytes"
    using ok(2) at(2,3) by (auto simp: intact_def bounded_def config_after_def marker_after_def dest: bspec [of _ _ "s_target x"] bspec [of _ _ "s_mtarget x"])
  have journal: "TargetPath (ConfigArtifact j) = s_target x" "AfterDigest (ConfigArtifact j) = digest en (s_config_data x)"
      "TargetPath (MarkerArtifact j) = s_mtarget x" "AfterDigest (MarkerArtifact j) = digest en (s_marker_data x)"
      "Before (ConfigArtifact j) = Before (s_config x)" "Before (MarkerArtifact j) = Before (s_marker x)"
      "valid_transaction_id (TransactionID j)"
    using j(1) ok(1) by (simp_all add: journal_of_def situation_ok_def validate_journal_def)
  have verify: "verify_artifact works en (s_target x) (digest en (s_config_data x)) (tick k d) = (Inr (), tick (k + 4) d)"
      "verify_artifact works en (s_mtarget x) (digest en (s_marker_data x)) (tick k d) = (Inr (), tick (k + 4) d)" for k
    using at(2,3) sizes by (simp_all add: config_after_def marker_after_def)
  let ?P = "\<lambda>d. d_files d (s_path x) = Some (PlainFile Private s) \<and> snapshot_fine en (Before (s_config x)) d"
  have "goes ?P (remove_snapshot works en (Before (s_config x))) (\<lambda>_. ?P)"
    by (rule goes_remove_snapshot [OF journal_snapshots(1) [OF j(1) ok(1)]])
      (use not_snap(1) [OF ok(1)] in \<open>auto simp: snapshot_fine_def snap_paths_def\<close>)
  moreover have "goes ?P (remove_snapshot works en (Before (s_marker x))) (\<lambda>_. ?P)"
    by (rule goes_remove_snapshot [OF journal_snapshots(2) [OF j(1) ok(1)]])
      (use ok(1) in \<open>simp_all add: snapshot_fine_def situation_ok_def\<close>)
  moreover have "goes ?P (remove_regular works (s_path x) False) (\<lambda>_ _. True)"
    by (rule goes_remove_regular) simp_all
  ultimately have rest: "goes ?P (bindP (remove_snapshot works en (Before (s_config x))) (\<lambda>_.
      bindP (remove_snapshot works en (Before (s_marker x))) (\<lambda>_. remove_regular works (s_path x) False))) (\<lambda>_ _. True)"
    by (rule goes_bind [OF _ goes_bind])
  have "?P (tick 11 d)" using s intact_snapshot [OF ok] by simp
  then show ?thesis
    using rest j(2) journal intact_load [OF ok(2) j(1) at(1)] verify
    unfolding complete_journal_def goes_def by simp
qed

lemma recover_pending_goes:
  assumes "situation_ok en x" "intact x d" "resumable en x d"
  shows "\<exists>c d'. recover_pending works en (s_path x) d = (Inr c, d')"
proof -
  obtain j where j: "journal_of en x j" "if Phase j = PhaseMarkerVerified then verified en x j d else pending en x j d"
    using assms(3) by (auto simp: resumable_def)
  have at: "journal_at en x j d" using j(2) by (auto simp: verified_def pending_def split: if_splits)
  note load = intact_load [OF assms(2) j(1) at]
  show ?thesis
  proof (cases "Phase j = PhaseMarkerVerified")
    case True
    then have "verified en x j (tick 3 d)" using j(2) by (simp add: verified_def tick_def)
    then obtain d' where "complete_journal works en (s_path x) (TransactionID j) (tick 3 d) = (Inr (), d')"
      using complete_goes [OF assms(1) _ j(1) True, of "tick 3 d"] assms(2) by auto
    then have "recover_pending works en (s_path x) d = (Inr True, d')" using True load by (simp add: recover_pending_def)
    then show ?thesis by blast
  next
    case False
    then have p: "pending en x j d" using j(2) by simp
    have "still_there en x (Backups j) d" "artifact_known en (s_config x) d" "artifact_known en (s_marker x) d"
      using intact_still_there [OF assms(1,2) j(1) at] intact_known [OF assms(1,2)] intact_marker_known [OF assms(1,2)] p
      by (auto simp: pending_def)
    then have "\<exists>u d'. roll_back works en (s_path x) j (tick 3 d) = (Inr u, d')"
      using goes_roll_back [OF assms(1) j(1) journal_snapshots [OF j(1) assms(1)], unfolded goes_def, rule_format, of "tick 3 d"]
      by simp
    then obtain d' where "roll_back works en (s_path x) j (tick 3 d) = (Inr (), d')" by auto
    then have "recover_pending works en (s_path x) d = (Inr False, d')" using False load by (simp add: recover_pending_def)
    then show ?thesis by blast
  qed
qed

text \<open>C40: Recovery does not get stuck. Whenever a migration stopped with its journal on the disk, at any call of the
  transaction or of an earlier recovery, and its files are regular, within the size limit, and the snapshot of the
  configuration is whole or not there, one recovery in which the system calls work succeeds, and it leaves the starting
  point restored or the migration in place.\<close>

theorem recovery_succeeds:
  assumes "resumable en x d" "intact x d" "recoverable paths en x" "normalize_paths paths0 = paths"
  shows "\<exists>d'. recover_migration works en paths0 d = (Inr (), d') \<and> (restored x d' \<or> committed x d')"
proof -
  note r = assms(3) [unfolded recoverable_def]
  let ?st = "\<lparr>StorePath = ConfigFile paths, StoreJournal = MigrationJournal paths\<rparr>"
  have cells: "d_files d (MigrationJournal paths) \<noteq> None" "\<exists>s. d_files d (lock_path (ConfigFile paths)) = Some (PlainFile Private s)"
    using resumable_cells [OF assms(1)] frame_lock r by auto
  obtain c d1 where "recover_pending works en (s_path x) (tick 9 d) = (Inr c, d1)"
    using recover_pending_goes [of en x "tick 9 d"] assms(1,2) r by auto
  then have "recover_if_present works en paths (tick 7 (tick 1 d)) = (Inr (), d1)"
    using cells(1) r by (simp add: recover_if_present_def)
  then have lock: "with_lock works (ConfigFile paths) (recover_if_present works en paths) (tick 1 d) = (Inr (), tick 1 d1)"
    using cells(2) by (auto intro: lock_works(1))
  have path: "resolved_path en ?st = Some (ConfigFile paths)" using r resolved_self by blast
  have "resolved_journal en ?st (ConfigFile paths) \<noteq> None"
    using r by (auto simp: resolved_journal_def path_abs_def path_is_abs_def)
  then obtain journal where journal: "resolved_journal en ?st (ConfigFile paths) = Some journal" by blast
  have run: "recover_migration works en paths0 d = (Inr (), tick 1 d1)"
    using lock path journal cells(1) unfolding recover_migration_def assms(4) Let_def with_mutation_lock_def by auto
  then show ?thesis
    using triple_recover_resumable [OF assms(3,4), of works] assms(1) by (auto simp: triple_def dest!: spec [of _ d])
qed

lemma w_bounded: "bounded (d_files (w_stage PhaseKeyring w_keyed) p)"
  by (simp add: w_stage_def w_keyed_def w_saved_def w_start_def w_disk_def bounded_def maxConfigBytes_def phase_text_def)

lemma w_intact: "intact w_x (tick k (w_stage PhaseKeyring w_keyed))"
proof -
  have x: "s_target w_x = ''/h/c''" "s_snap w_x = ''/h/r''" "s_files w_x = d_files w_start"
    by (simp_all add: w_x_def situation_of_def Let_def)
  have "d_files (w_stage PhaseKeyring w_keyed) ''/h/r'' = Some (PlainFile Private ''C'')"
    by (simp add: w_keyed_def w_saved_def)
  then have "snap_ok w_x (w_stage PhaseKeyring w_keyed)" by (simp add: snap_ok_def x)
  then have "intact w_x (w_stage PhaseKeyring w_keyed)" using w_bounded by (simp add: intact_def)
  then show ?thesis by simp
qed

theorem recovery_succeeds_witness:
  "\<exists>d. resumable w_env w_x d \<and> intact w_x d \<and> d_keyring d w_ref = Some ''pw'' \<and>
     (\<exists>d'. recover_migration works w_env w_paths d = (Inr (), d') \<and> (restored w_x d' \<or> committed w_x d'))"
proof -
  obtain k where start: "resumable w_env w_x (tick k (w_stage PhaseKeyring w_keyed))" using w_resumable by blast
  show ?thesis
    using recovery_succeeds [OF start w_intact w_recoverable w_normal] start w_intact
    by (intro exI [of _ "tick k (w_stage PhaseKeyring w_keyed)"]) (simp add: w_keyed_def)
qed

end
