(* ===== verification/Launcher.thy ===== *)
theory Launcher
  imports CliContract
begin

text \<open>
  \<open>internal/launcher/launcher.go\<close>: the program \<open>ipgw\<close>, which answers a version request itself and otherwise
  chooses one of the two programs and runs it.  Everything the launcher asks of its surroundings or prints
  is an event; the answers (environment variable, directories, the file with its YAML decoder, the exit
  status of the program that is run) are parameters.
\<close>

section \<open>Surroundings\<close>

datatype launcher_mode = LaunchMeta | LaunchLegacy

datatype failure_kind = FailureInvalidArguments | FailureConfiguration | FailureStartup

record launcher_state =
  ls_schema :: int
  ls_mode :: string
  ls_cohort :: string
  ls_chosen :: int

datatype launcher_file = FileMissing | FileUnreadable | FileData string

datatype launcher_event =
    AskedMode | AskedConfigDir | ReadLauncherFile string | AskedExecutable | RanProgram string "string list"
  | LaunchText string | LaunchVersion string | LaunchFailure string string | LaunchError string

type_synonym 'a launch = "(launcher_event list, failure_kind, 'a) proc"

text \<open>
  \<open>le_lower\<close> is \<open>strings.ToLower\<close>, \<open>le_mode\<close> the variable \<open>IPGW_MODE\<close>, \<open>le_cwd\<close> the working directory,
  \<open>le_run\<close> the exit status of a program, if it can be started.
\<close>

record launcher_env =
  le_lower :: "string \<Rightarrow> string"
  le_mode :: "string option"
  le_config_dir :: "string option"
  le_file :: "string \<Rightarrow> launcher_file"
  le_decode :: "string \<Rightarrow> launcher_state option"
  le_executable :: "string option"
  le_cwd :: "string option"
  le_run :: "string \<Rightarrow> string list \<Rightarrow> int option"
  le_stdout_ok :: bool

record launcher_options =
  lao_args :: "string list"
  lao_default :: string
  lao_version :: string

definition log_event :: "launcher_event \<Rightarrow> unit launch" where
  "log_event e = modifyP (\<lambda>s. s @ [e])"

definition launcherSchemaVersion :: int where "launcherSchemaVersion = 1"
definition maxLauncherBytes :: nat where "maxLauncherBytes = 64 * 1024"

section \<open>Arguments\<close>

definition split_launcher_flag :: "string \<Rightarrow> string \<times> string \<times> bool" where
  "split_launcher_flag arg =
     (case cut_char (CHR ''='') arg of (before, after, found) \<Rightarrow>
        if has_prefix arg ''--'' \<and> found \<and> 2 < length before then (before, after, True) else (arg, '''', False))"

definition launcher_password_argument :: "string \<Rightarrow> bool" where
  "launcher_password_argument arg \<longleftrightarrow>
     arg = ''--password'' \<or> has_prefix arg ''--password='' \<or> arg = ''-p'' \<or> has_prefix arg ''-p'' \<and> 2 < length arg"

definition mode_text :: "launcher_mode \<Rightarrow> string" where
  "mode_text m = (case m of LaunchMeta \<Rightarrow> ''meta'' | LaunchLegacy \<Rightarrow> ''legacy'')"

definition parse_mode :: "(string \<Rightarrow> string) \<Rightarrow> string \<Rightarrow> launcher_mode option" where
  "parse_mode lower s =
     (let v = lower (trim_space s) in
      if v = ''meta'' then Some LaunchMeta else if v = ''legacy'' then Some LaunchLegacy else None)"

text \<open>\<open>preparseJSON\<close>.\<close>

fun launcher_preparse_json :: "string list \<Rightarrow> bool" where
  "launcher_preparse_json [] = False"
| "launcher_preparse_json (arg # rest) =
     (if arg = ''--'' then False
      else if arg = ''--json'' \<or> arg = ''--output=json'' then True
      else if arg = ''--output'' \<and> (case rest of [] \<Rightarrow> False | v # _ \<Rightarrow> v = ''json'') then True
      else launcher_preparse_json rest)"

text \<open>The first loop of \<open>parseVersionRequest\<close>.\<close>

fun version_requested :: "string list \<Rightarrow> bool" where
  "version_requested [] = False"
| "version_requested (arg # rest) =
     (if arg = ''--'' then False
      else fst (split_launcher_flag arg) = ''--version'' \<or> version_requested rest)"

record version_request =
  vr_json :: bool
  vr_output_seen :: bool
  vr_mode_seen :: bool
  vr_version_seen :: bool

definition no_version_request :: version_request where
  "no_version_request = \<lparr>vr_json = False, vr_output_seen = False, vr_mode_seen = False, vr_version_seen = False\<rparr>"

text \<open>A flag with a value in its second loop.\<close>

definition version_value :: "(string \<Rightarrow> string) \<Rightarrow> string \<Rightarrow> string \<Rightarrow> version_request \<Rightarrow> version_request option" where
  "version_value lower name v q =
     (if launcher_password_argument v then None
      else if name = ''--output'' then
        (if vr_output_seen q \<or> v \<noteq> ''human'' \<and> v \<noteq> ''json'' then None
         else Some (q\<lparr>vr_output_seen := True, vr_json := (v = ''json'')\<rparr>))
      else if name = ''--mode'' then
        (if vr_mode_seen q \<or> parse_mode lower v = None then None else Some (q\<lparr>vr_mode_seen := True\<rparr>))
      else Some q)"

definition launcher_value_flags :: "string list" where
  "launcher_value_flags = [''--output'', ''--mode'', ''--config'', ''--profile'', ''--bind-ip'']"

fun version_from :: "(string \<Rightarrow> string) \<Rightarrow> version_request \<Rightarrow> string list \<Rightarrow> version_request option" where
  "version_from lower q [] = Some q"
| "version_from lower q (arg # rest) =
     (if arg = ''--'' then (if rest \<noteq> [] then None else Some q)
      else (case split_launcher_flag arg of (name, value, inline) \<Rightarrow>
        if name = ''--version'' then
          (if inline \<or> vr_version_seen q then None else version_from lower (q\<lparr>vr_version_seen := True\<rparr>) rest)
        else if name = ''--json'' then
          (if inline \<or> vr_output_seen q then None
           else version_from lower (q\<lparr>vr_output_seen := True, vr_json := True\<rparr>) rest)
        else if name \<notin> set launcher_value_flags then None
        else if inline then
          (case version_value lower name value q of None \<Rightarrow> None | Some q' \<Rightarrow> version_from lower q' rest)
        else
          (case rest of [] \<Rightarrow> None
           | v # rest' \<Rightarrow>
               if has_prefix v ''--'' then None
               else (case version_value lower name v q of None \<Rightarrow> None | Some q' \<Rightarrow> version_from lower q' rest'))))"

text \<open>\<open>parseVersionRequest\<close>: not requested, refused, or whether JSON is asked for.\<close>

definition parse_version_request :: "(string \<Rightarrow> string) \<Rightarrow> string list \<Rightarrow> bool option option" where
  "parse_version_request lower args =
     (if \<not> version_requested args then None else Some (map_option vr_json (version_from lower no_version_request args)))"

text \<open>\<open>extractMode\<close>.\<close>

fun extract_mode_from ::
    "(string \<Rightarrow> string) \<Rightarrow> launcher_mode option \<Rightarrow> string list \<Rightarrow> (launcher_mode option \<times> string list) option" where
  "extract_mode_from lower found [] = Some (found, [])"
| "extract_mode_from lower found (arg # rest) =
     (if arg = ''--'' then Some (found, arg # rest)
      else if arg = ''--mode'' then
        (case rest of [] \<Rightarrow> None
         | v # rest' \<Rightarrow>
             if has_prefix v ''--'' \<or> parse_mode lower v = None \<or> found \<noteq> None then None
             else extract_mode_from lower (parse_mode lower v) rest')
      else if has_prefix arg ''--mode='' then
        (let m = parse_mode lower (trim_prefix arg ''--mode='') in
         if m = None \<or> found \<noteq> None then None else extract_mode_from lower m rest)
      else map_option (apsnd ((#) arg)) (extract_mode_from lower found rest))"

definition extract_mode :: "(string \<Rightarrow> string) \<Rightarrow> string list \<Rightarrow> (launcher_mode option \<times> string list) option" where
  "extract_mode lower args = extract_mode_from lower None args"

section \<open>Choosing and running the program\<close>

definition load_configured_mode :: "launcher_env \<Rightarrow> string \<Rightarrow> launcher_mode option launch" where
  "load_configured_mode en path =
     bindP (log_event (ReadLauncherFile path)) (\<lambda>_.
     case le_file en path of
       FileMissing \<Rightarrow> returnP None
     | FileUnreadable \<Rightarrow> throwP FailureConfiguration
     | FileData data \<Rightarrow>
         if maxLauncherBytes < length data then throwP FailureConfiguration
         else (case le_decode en data of
             None \<Rightarrow> throwP FailureConfiguration
           | Some st \<Rightarrow>
               if ls_schema st \<noteq> launcherSchemaVersion then throwP FailureConfiguration
               else if ls_mode st = ''meta'' then returnP (Some LaunchMeta)
               else if ls_mode st = ''legacy'' then returnP (Some LaunchLegacy)
               else throwP FailureConfiguration))"

definition configured_or_default :: "launcher_env \<Rightarrow> string \<Rightarrow> launcher_mode launch" where
  "configured_or_default en fallback =
     bindP (log_event AskedConfigDir) (\<lambda>_.
     case le_config_dir en of
       None \<Rightarrow> throwP FailureConfiguration
     | Some dir \<Rightarrow>
         if dir = '''' then throwP FailureConfiguration
         else
           bindP (load_configured_mode en (path_join [dir, ''ipgw-meta'', ''launcher.yaml''])) (\<lambda>configured.
           case configured of
             Some m \<Rightarrow> returnP m
           | None \<Rightarrow>
               (case parse_mode (le_lower en) fallback of None \<Rightarrow> throwP FailureStartup | Some m \<Rightarrow> returnP m)))"

definition resolve_mode :: "launcher_env \<Rightarrow> launcher_options \<Rightarrow> (launcher_mode \<times> string list) launch" where
  "resolve_mode en opts =
     (case extract_mode (le_lower en) (lao_args opts) of
        None \<Rightarrow> throwP FailureInvalidArguments
      | Some (Some m, remaining) \<Rightarrow> returnP (m, remaining)
      | Some (None, remaining) \<Rightarrow>
          bindP (log_event AskedMode) (\<lambda>_.
          case le_mode en of
            Some v \<Rightarrow>
              if trim_space v \<noteq> '''' then
                (case parse_mode (le_lower en) v of
                   None \<Rightarrow> throwP FailureInvalidArguments | Some m \<Rightarrow> returnP (m, remaining))
              else bindP (configured_or_default en (lao_default opts)) (\<lambda>m. returnP (m, remaining))
          | None \<Rightarrow> bindP (configured_or_default en (lao_default opts)) (\<lambda>m. returnP (m, remaining))))"

text \<open>\<open>filepath.Abs\<close>, \<open>filepath.Ext\<close> and \<open>siblingExecutable\<close>.\<close>

definition launcher_abs :: "launcher_env \<Rightarrow> string \<Rightarrow> string option" where
  "launcher_abs en path =
     (if path_is_abs path then Some (path_clean path) else map_option (\<lambda>dir. path_join [dir, path]) (le_cwd en))"

fun path_ext_from :: "string option \<Rightarrow> string \<Rightarrow> string" where
  "path_ext_from found [] = (case found of None \<Rightarrow> '''' | Some e \<Rightarrow> e)"
| "path_ext_from found (c # cs) =
     (if c = CHR ''/'' then path_ext_from None cs
      else if c = CHR ''.'' then path_ext_from (Some (c # cs)) cs
      else path_ext_from found cs)"

definition path_ext :: "string \<Rightarrow> string" where
  "path_ext path = path_ext_from None path"

definition sibling_executable :: "launcher_env \<Rightarrow> string \<Rightarrow> launcher_mode \<Rightarrow> string option" where
  "sibling_executable en exe m =
     (if exe = '''' then None
      else map_option (\<lambda>absolute.
        path_join [path_dir absolute,
          ''ipgw-'' @ mode_text m @ (if equal_fold (path_ext absolute) ''.exe'' then ''.exe'' else '''')]) (launcher_abs en exe))"

definition failure_contract :: "failure_kind \<Rightarrow> string \<times> string \<times> int" where
  "failure_contract k =
     (case k of
        FailureInvalidArguments \<Rightarrow> (''invalid_argument'', ''invalid launcher arguments'', 2)
      | FailureConfiguration \<Rightarrow> (''config'', ''launcher configuration error'', 2)
      | FailureStartup \<Rightarrow> (''internal'', ''launcher could not start selected mode'', 1))"

definition launcher_encode :: "launcher_env \<Rightarrow> launcher_event \<Rightarrow> int \<Rightarrow> int launch" where
  "launcher_encode en document code =
     (if le_stdout_ok en then bindP (log_event document) (\<lambda>_. returnP code)
      else bindP (log_event (LaunchError ''Error: unable to write JSON output'')) (\<lambda>_. returnP 1))"

definition launcher_failure :: "launcher_env \<Rightarrow> bool \<Rightarrow> failure_kind \<Rightarrow> int launch" where
  "launcher_failure en json k =
     (case failure_contract k of (code, message, status) \<Rightarrow>
        if json then launcher_encode en (LaunchFailure code message) status
        else bindP (log_event (LaunchError (''Error: '' @ message))) (\<lambda>_. returnP status))"

definition launcher_version :: "launcher_env \<Rightarrow> bool \<Rightarrow> string \<Rightarrow> int launch" where
  "launcher_version en json version =
     (if \<not> json then bindP (log_event (LaunchText (''IPGW-Meta '' @ version))) (\<lambda>_. returnP 0)
      else launcher_encode en (LaunchVersion version) 0)"

definition run_selected :: "launcher_env \<Rightarrow> launcher_mode \<times> string list \<Rightarrow> int launch" where
  "run_selected en chosen =
     bindP (log_event AskedExecutable) (\<lambda>_.
     case le_executable en of
       None \<Rightarrow> throwP FailureStartup
     | Some exe \<Rightarrow>
         (case sibling_executable en exe (fst chosen) of
            None \<Rightarrow> throwP FailureStartup
          | Some target \<Rightarrow>
              bindP (log_event (RanProgram target (snd chosen))) (\<lambda>_.
              case le_run en target (snd chosen) of None \<Rightarrow> throwP FailureStartup | Some code \<Rightarrow> returnP code)))"

text \<open>\<open>Execute\<close> with the defaults of \<open>withDefaults\<close>.\<close>

definition launcher_execute :: "launcher_env \<Rightarrow> launcher_options \<Rightarrow> int launch" where
  "launcher_execute en opts =
     (let version = (if lao_version opts = '''' then ''dev'' else lao_version opts);
          json = launcher_preparse_json (lao_args opts) in
      case parse_version_request (le_lower en) (lao_args opts) of
        Some None \<Rightarrow> launcher_failure en json FailureInvalidArguments
      | Some (Some as_json) \<Rightarrow> launcher_version en as_json version
      | None \<Rightarrow> handleP (bindP (resolve_mode en opts) (run_selected en)) (launcher_failure en json) returnP)"

section \<open>A version request is answered as the program would\<close>

lemma split_launcher_flag_eq: "split_launcher_flag = split_long_flag"
  by (simp add: fun_eq_iff split_launcher_flag_def split_long_flag_def)

lemma launcher_password_eq: "launcher_password_argument = is_password_argument"
  by (simp add: fun_eq_iff launcher_password_argument_def is_password_argument_def)

lemma launcher_preparse_eq: "launcher_preparse_json args \<longleftrightarrow> preparse_output_mode args = OutputJSON"
  by (induction args rule: launcher_preparse_json.induct) (simp_all add: preparse_output_mode.simps)

declare version_from.simps(2) [simp del] extract_mode_from.simps(2) [simp del] extract_from.simps(2) [simp del]

lemma split_flag_cut:
  assumes "has_prefix arg (flag @ ''='')" "has_prefix flag ''--''" "2 < length flag" "CHR ''='' \<notin> set flag"
  shows "fst (split_long_flag arg) = flag"
proof -
  obtain v where arg: "arg = flag @ CHR ''='' # v" using assms(1) by (auto simp: has_prefix_iff)
  have "cut_char (CHR ''='') (flag @ CHR ''='' # v) = (flag, v, True)"
    using assms(4) by (induction flag) auto
  moreover have "has_prefix arg ''--''" using assms(2) arg by (auto simp: has_prefix_iff)
  ultimately show ?thesis using assms(3) arg by (simp add: split_long_flag_def)
qed

lemma split_flag_password:
  assumes "is_password_argument arg"
  shows "fst (split_long_flag arg) = ''--password'' \<or> fst (split_long_flag arg) = arg \<and> \<not> has_prefix arg ''--''"
proof -
  consider "arg = ''--password''" | "has_prefix arg ''--password=''" | "has_prefix arg ''-p''"
    using assms by (auto simp: is_password_argument_def has_prefix_iff)
  then show ?thesis
  proof cases
    case 1
    then show ?thesis by (simp add: split_long_flag_def)
  next
    case 2
    then have "has_prefix arg (''--password'' @ ''='')" by simp
    then have "fst (split_long_flag arg) = ''--password''"
      by (rule split_flag_cut) simp_all
    then show ?thesis ..
  next
    case 3
    then have "\<not> has_prefix arg ''--''" by (auto simp: has_prefix_iff)
    then show ?thesis by (simp add: split_long_flag_def split: prod.splits)
  qed
qed

lemma known_flag_not_password:
  assumes "fst (split_long_flag arg) \<in> insert ''--version'' (insert ''--json'' (set launcher_value_flags))"
  shows "\<not> is_password_argument arg"
proof
  assume "is_password_argument arg"
  from split_flag_password [OF this] show False
    using assms by (auto simp: launcher_value_flags_def)
qed

lemma extract_mode_skip:
  assumes "arg \<noteq> ''--''" "fst (split_long_flag arg) \<noteq> ''--mode''"
  shows "extract_mode_from lower found (arg # rest) = map_option (apsnd ((#) arg)) (extract_mode_from lower found rest)"
proof -
  have "arg \<noteq> ''--mode''" using assms(2) by (auto simp: split_long_flag_def)
  moreover have "\<not> has_prefix arg ''--mode=''"
    using split_flag_cut [of arg "''--mode''"] assms(2) by auto
  ultimately show ?thesis using assms(1) by (simp add: extract_mode_from.simps(2))
qed

lemma extract_mode_value:
  assumes "\<not> has_prefix v ''--''"
  shows "extract_mode_from lower found (v # rest) = map_option (apsnd ((#) v)) (extract_mode_from lower found rest)"
proof (rule extract_mode_skip)
  show "v \<noteq> ''--''" using assms by auto
  show "fst (split_long_flag v) \<noteq> ''--mode''"
    using assms by (auto simp: split_long_flag_def split: prod.splits if_splits)
qed

text \<open>What the two parsers have in common after the same arguments.\<close>

definition same_request :: "version_request \<Rightarrow> global_options \<Rightarrow> bool" where
  "same_request q g \<longleftrightarrow> g_version g = vr_version_seen q \<and> (g_output g = OutputJSON) = vr_json q"

definition child_accepts ::
    "(string \<Rightarrow> string) \<Rightarrow> launcher_mode option \<Rightarrow> global_options \<times> bool \<Rightarrow> string list \<Rightarrow> version_request \<Rightarrow> bool" where
  "child_accepts lower found gs args q' \<longleftrightarrow>
     (\<exists>found' rem g'. extract_mode_from lower found args = Some (found', rem) \<and>
        extract_from gs rem = Some (g', []) \<and> same_request q' g' \<and> list_all (\<lambda>a. \<not> is_password_argument a) rem)"

lemma child_accepts_Nil: "same_request q g \<Longrightarrow> child_accepts lower found (g, seen) [] q"
  by (simp add: child_accepts_def)

lemma child_accepts_end: "same_request q g \<Longrightarrow> child_accepts lower found (g, seen) [''--''] q"
  by (simp add: child_accepts_def extract_mode_from.simps(2) extract_from.simps(2) is_password_argument_def)

text \<open>A flag without a value, one with a value behind it, and the mode of the launcher.\<close>

lemma child_accepts_flag:
  assumes "arg \<noteq> ''--''" "fst (split_long_flag arg) \<noteq> ''--mode''" "\<not> is_password_argument arg"
    and "\<And>rem g'. extract_from gs' rem = Some (g', []) \<Longrightarrow> extract_from gs (arg # rem) = Some (g', [])"
    and "child_accepts lower found gs' rest q'"
  shows "child_accepts lower found gs (arg # rest) q'"
  using assms(3-5) extract_mode_skip [OF assms(1,2)]
  by (fastforce simp: child_accepts_def)

lemma child_accepts_value:
  assumes "arg \<noteq> ''--''" "fst (split_long_flag arg) \<noteq> ''--mode''" "\<not> is_password_argument arg"
    and "\<not> has_prefix v ''--''" "\<not> is_password_argument v"
    and "\<And>rem g'. extract_from gs' rem = Some (g', []) \<Longrightarrow> extract_from gs (arg # v # rem) = Some (g', [])"
    and "child_accepts lower found gs' rest q'"
  shows "child_accepts lower found gs (arg # v # rest) q'"
  using assms(3,5-7) extract_mode_skip [OF assms(1,2)] extract_mode_value [OF assms(4)]
  by (fastforce simp: child_accepts_def)

lemma child_accepts_mode:
  assumes "parse_mode lower v \<noteq> None" "\<not> has_prefix v ''--''"
    and "child_accepts lower (parse_mode lower v) gs rest q'"
  shows "child_accepts lower None gs (''--mode'' # v # rest) q'"
  using assms by (auto simp: child_accepts_def extract_mode_from.simps(2))

lemma child_accepts_inline_mode:
  assumes "split_long_flag arg = (''--mode'', v, True)" "parse_mode lower v \<noteq> None"
    and "child_accepts lower (parse_mode lower v) gs rest q'"
  shows "child_accepts lower None gs (arg # rest) q'"
proof -
  obtain before after where cut: "cut_char (CHR ''='') arg = (before, after, True)" "before = ''--mode''" "after = v"
    using assms(1) by (auto simp: split_long_flag_def split: prod.splits if_splits)
  then have "arg = ''--mode'' @ CHR ''='' # v" using cut_char_found by blast
  then show ?thesis using assms(2,3)
    by (auto simp: child_accepts_def extract_mode_from.simps(2) trim_prefix_def)
qed

text \<open>One value flag: what the two parsers do with it.\<close>

definition set_value_flag :: "string \<Rightarrow> string \<Rightarrow> global_options \<times> bool \<Rightarrow> global_options \<times> bool" where
  "set_value_flag name v gs = (case set_global name v gs of None \<Rightarrow> gs | Some gs' \<Rightarrow> gs')"

lemma version_value_global:
  assumes "version_value lower name v q = Some q'" "name \<in> set value_flags" "same_request q g"
  shows "\<not> is_password_argument v \<and> set_global name v (g, vr_output_seen q) = Some (set_value_flag name v (g, vr_output_seen q)) \<and>
    (\<exists>g'. set_value_flag name v (g, vr_output_seen q) = (g', vr_output_seen q') \<and> same_request q' g') \<and>
    vr_mode_seen q' = vr_mode_seen q \<and> (name = ''--output'' \<longrightarrow> \<not> vr_output_seen q)"
  using assms
  by (auto simp: version_value_def launcher_password_eq value_flags_def set_value_flag_def set_global_def same_request_def
      split: if_splits)

lemma version_value_mode:
  assumes "version_value lower ''--mode'' v q = Some q'" "same_request q g"
  shows "\<not> vr_mode_seen q \<and> parse_mode lower v \<noteq> None \<and> vr_mode_seen q' \<and> vr_output_seen q' = vr_output_seen q \<and>
    same_request q' g"
  using assms by (auto simp: version_value_def same_request_def split: if_splits)

lemma value_flags_plain: "name \<in> set value_flags \<Longrightarrow> name \<noteq> ''--json'' \<and> name \<noteq> ''--version''"
  by (auto simp: value_flags_def)

lemma extract_inline:
  assumes "arg \<noteq> ''--''" "split_long_flag arg = (name, v, True)" "name \<in> set value_flags"
    "set_global name v (g, seen) = Some gs'" "name = ''--output'' \<longrightarrow> \<not> seen"
  shows "extract_from (g, seen) (arg # rem) = extract_from gs' rem"
  using assms value_flags_plain [OF assms(3)] by (cases "name = ''--output''") (simp_all add: extract_from.simps(2))

lemma extract_spaced:
  assumes "arg \<noteq> ''--''" "split_long_flag arg = (name, x, False)" "name \<in> set value_flags" "\<not> has_prefix v ''--''"
    "set_global name v (g, seen) = Some gs'" "name = ''--output'' \<longrightarrow> \<not> seen"
  shows "extract_from (g, seen) (arg # v # rem) = extract_from gs' rem"
  using assms value_flags_plain [OF assms(3)] by (cases "name = ''--output''") (simp_all add: extract_from.simps(2))

lemma extract_version:
  assumes "arg \<noteq> ''--''" "split_long_flag arg = (''--version'', x, False)" "\<not> g_version g"
  shows "extract_from (g, seen) (arg # rem) = extract_from (g\<lparr>g_version := True\<rparr>, seen) rem"
  using assms by (simp add: extract_from.simps(2))

lemma extract_json:
  assumes "arg \<noteq> ''--''" "split_long_flag arg = (''--json'', x, False)"
  shows "extract_from (g, False) (arg # rem) = extract_from (g\<lparr>g_output := OutputJSON\<rparr>, True) rem"
  using assms by (simp add: extract_from.simps(2))

lemma split_no_inline: "split_long_flag arg = (name, x, False) \<Longrightarrow> arg = name"
  by (auto simp: split_long_flag_def split: prod.splits if_splits)

lemma launcher_flags_cases:
  "name \<in> set launcher_value_flags \<longleftrightarrow> name = ''--mode'' \<or> name \<in> set value_flags"
  by (auto simp: launcher_value_flags_def value_flags_def)

lemma value_flags_not_mode: "name \<in> set value_flags \<Longrightarrow> name \<noteq> ''--mode''"
  by (auto simp: value_flags_def)

lemma version_from_child:
  assumes "version_from lower q args = Some q'" "vr_mode_seen q \<longleftrightarrow> found \<noteq> None" "same_request q g"
  shows "child_accepts lower found (g, vr_output_seen q) args q'"
  using assms
proof (induction lower q args arbitrary: found g rule: version_from.induct)
  case (1 lower q)
  then show ?case by (simp add: child_accepts_Nil)
next
  case (2 lower q arg rest)
  obtain name v inline where split: "split_long_flag arg = (name, v, inline)" by (cases "split_long_flag arg")
  note parse = "2.prems"(1) [unfolded version_from.simps(2) split_launcher_flag_eq split prod.case]
  show ?case
  proof (cases "arg = ''--''")
    case True
    then show ?thesis using parse "2.prems"(3) by (auto intro: child_accepts_end split: if_splits)
  next
    case dashes: False
    note IH = "2.IH" [OF dashes, unfolded split_launcher_flag_eq split, OF refl refl]
    have pw: "\<not> is_password_argument arg" if "name \<in> insert ''--version'' (insert ''--json'' (set launcher_value_flags))"
      using known_flag_not_password [of arg] that split by simp
    consider "name = ''--version''" | "name = ''--json''" | "name \<noteq> ''--version''" "name \<noteq> ''--json''" "name \<in> set launcher_value_flags"
      using parse dashes by (auto split: if_splits)
    then show ?thesis
    proof cases
      case 1
      let ?q = "q\<lparr>vr_version_seen := True\<rparr>" and ?g = "g\<lparr>g_version := True\<rparr>"
      have run: "version_from lower ?q rest = Some q'" "\<not> inline" "\<not> vr_version_seen q"
        using parse dashes 1 by (auto split: if_splits)
      have "child_accepts lower found (?g, vr_output_seen ?q) rest q'"
        using IH(1) [OF 1 _ run(1)] run "2.prems"(2,3) by (simp add: same_request_def)
      moreover have "\<not> g_version g" "split_long_flag arg = (''--version'', v, False)"
        using run split 1 "2.prems"(3) by (simp_all add: same_request_def)
      note skip = extract_version [OF dashes this(2,1)]
      ultimately show ?thesis
        using child_accepts_flag [OF dashes _ _ _, of "(?g, vr_output_seen q)" "(g, vr_output_seen q)"] skip split 1 pw by simp
    next
      case 2
      let ?q = "q\<lparr>vr_output_seen := True, vr_json := True\<rparr>" and ?g = "g\<lparr>g_output := OutputJSON\<rparr>"
      have run: "version_from lower ?q rest = Some q'" "\<not> inline" "\<not> vr_output_seen q"
        using parse dashes 2 by (auto split: if_splits)
      have "child_accepts lower found (?g, vr_output_seen ?q) rest q'"
        using IH(2) [OF _ 2 _ run(1)] 2 run "2.prems"(2,3) by (simp add: same_request_def)
      moreover have "split_long_flag arg = (''--json'', v, False)" using run split 2 by simp
      note skip = extract_json [OF dashes this]
      ultimately show ?thesis
        using child_accepts_flag [OF dashes _ _ _, of "(?g, True)" "(g, False)"] skip split 2 pw run(3) by simp
    next
      case 3
      have flag: "name \<noteq> ''--version''" "name \<noteq> ''--json''" "name \<in> set launcher_value_flags" by (fact 3)+
      show ?thesis
      proof (cases inline)
        case True
        then obtain q1 where q1: "version_value lower name v q = Some q1" "version_from lower q1 rest = Some q'"
          using parse dashes flag by (auto split: option.splits)
        have sp: "split_long_flag arg = (name, v, True)" using split True by simp
        note IH3 = IH(3) [OF flag(1,2) _ True q1(1,2)]
        show ?thesis
        proof (cases "name = ''--mode''")
          case True
          note mode = version_value_mode [OF q1(1) [unfolded True] "2.prems"(3)]
          then have "child_accepts lower (parse_mode lower v) (g, vr_output_seen q1) rest q'"
            using IH3 flag by simp
          then show ?thesis
            using child_accepts_inline_mode [of arg v lower] sp True mode "2.prems"(2) by simp
        next
          case False
          then have val: "name \<in> set value_flags" using flag launcher_flags_cases by blast
          note glob = version_value_global [OF q1(1) val "2.prems"(3)]
          then obtain g' where g': "set_value_flag name v (g, vr_output_seen q) = (g', vr_output_seen q1)" "same_request q1 g'" by blast
          have "child_accepts lower found (g', vr_output_seen q1) rest q'"
            using IH3 flag glob g' "2.prems"(2) by simp
          then show ?thesis
            using child_accepts_flag [OF dashes _ _ _, of "(g', vr_output_seen q1)" "(g, vr_output_seen q)"]
              extract_inline [OF dashes sp val, of g "vr_output_seen q"] sp False pw flag glob g'(1) by simp
        qed
      next
        case False
        then obtain w rest' q1 where q1: "rest = w # rest'" "\<not> has_prefix w ''--''"
            "version_value lower name w q = Some q1" "version_from lower q1 rest' = Some q'"
          using parse dashes flag by (auto split: option.splits list.splits if_splits)
        have sp: "split_long_flag arg = (name, v, False)" using split False by simp
        note IH4 = IH(4) [OF flag(1,2) _ False q1(1,2,3,4)]
        show ?thesis
        proof (cases "name = ''--mode''")
          case True
          note mode = version_value_mode [OF q1(3) [unfolded True] "2.prems"(3)]
          then have "child_accepts lower (parse_mode lower w) (g, vr_output_seen q1) rest' q'"
            using IH4 flag by simp
          then show ?thesis
            using child_accepts_mode [of lower w] q1(1,2) split_no_inline [OF sp] True mode "2.prems"(2) by simp
        next
          case no: False
          then have val: "name \<in> set value_flags" using flag launcher_flags_cases by blast
          note glob = version_value_global [OF q1(3) val "2.prems"(3)]
          then obtain g' where g': "set_value_flag name w (g, vr_output_seen q) = (g', vr_output_seen q1)" "same_request q1 g'" by blast
          have "child_accepts lower found (g', vr_output_seen q1) rest' q'"
            using IH4 flag glob g' "2.prems"(2) by simp
          then show ?thesis
            using child_accepts_value [OF dashes _ _ q1(2), of "(g', vr_output_seen q1)" "(g, vr_output_seen q)"]
              extract_spaced [OF dashes sp val q1(2), of g "vr_output_seen q"] sp no pw flag glob g'(1) q1(1) by simp
        qed
      qed
    qed
  qed
qed

lemma no_password_arguments: "list_all (\<lambda>a. \<not> is_password_argument a) args \<Longrightarrow> \<not> has_password_argument args"
  by (auto simp: has_password_argument_def list_all_iff list_ex_iff)

lemma version_value_seen: "version_value lower name v q = Some q1 \<Longrightarrow> vr_version_seen q1 = vr_version_seen q"
  by (auto simp: version_value_def split: if_splits)

lemma plain_value_not_version: "\<not> has_prefix v ''--'' \<Longrightarrow> version_requested (v # rest) \<longleftrightarrow> version_requested rest"
  by (auto simp: split_launcher_flag_def split: prod.splits)

lemma version_from_seen:
  "version_from lower q args = Some q' \<Longrightarrow> vr_version_seen q \<or> version_requested args \<Longrightarrow> vr_version_seen q'"
proof (induction lower q args rule: version_from.induct)
  case (2 lower q arg rest)
  obtain name v inline where split: "split_launcher_flag arg = (name, v, inline)" by (cases "split_launcher_flag arg")
  note parse = "2.prems"(1) [unfolded version_from.simps(2) split prod.case]
  show ?case
  proof (cases "arg = ''--''")
    case True
    then show ?thesis using parse "2.prems"(2) by (auto split: if_splits)
  next
    case dashes: False
    note IH = "2.IH" [OF dashes, unfolded split, OF refl refl]
    have seen: "vr_version_seen q \<or> name = ''--version'' \<or> version_requested rest" using "2.prems"(2) dashes split by simp
    consider "name = ''--version''" "version_from lower (q\<lparr>vr_version_seen := True\<rparr>) rest = Some q'" "\<not> (inline \<or> vr_version_seen q)"
      | "name \<noteq> ''--version''" "name = ''--json''" "\<not> (inline \<or> vr_output_seen q)"
          "version_from lower (q\<lparr>vr_output_seen := True, vr_json := True\<rparr>) rest = Some q'"
      | q1 where "name \<noteq> ''--version''" "name \<noteq> ''--json''" "\<not> name \<notin> set launcher_value_flags" inline
          "version_value lower name v q = Some q1" "version_from lower q1 rest = Some q'"
      | w rest' q1 where "name \<noteq> ''--version''" "name \<noteq> ''--json''" "\<not> name \<notin> set launcher_value_flags" "\<not> inline"
          "rest = w # rest'" "\<not> has_prefix w ''--''" "version_value lower name w q = Some q1" "version_from lower q1 rest' = Some q'"
      using parse dashes by (auto split: if_splits option.splits list.splits)
    then show ?thesis
    proof cases
      case 1
      then show ?thesis using IH(1) by simp
    next
      case 2
      then show ?thesis using IH(2) seen by simp
    next
      case (3 q1)
      then show ?thesis using IH(3) [OF 3] seen version_value_seen [OF 3(5)] by simp
    next
      case (4 w rest' q1)
      then show ?thesis using IH(4) [OF 4] seen version_value_seen [OF 4(7)] plain_value_not_version [OF 4(6)] by auto
    qed
  qed
qed simp

text \<open>What a launcher event is on the output of the programs.\<close>

definition as_cli_output :: "launcher_event \<Rightarrow> cli_output" where
  "as_cli_output e =
     (case e of
        LaunchText t \<Rightarrow> OutText t
      | LaunchVersion v \<Rightarrow> OutJson (Envelope 1 ''version'' (Inr (DataVersion v)))
      | LaunchError t \<Rightarrow> ErrText t
      | _ \<Rightarrow> ErrText '''')"

lemma launcher_version_output:
  "\<exists>code xs. launcher_version en json version h = (Inr code, h @ xs) \<and>
     run_version \<lparr>rd_mode = (if json then OutputJSON else OutputHuman), rd_stdout_ok = le_stdout_ok en\<rparr> version s =
       (Inr code, s\<lparr>c_output := c_output s @ map as_cli_output xs\<rparr>)"
  by (auto simp: launcher_version_def launcher_encode_def log_event_def modifyP_def bindP_def returnP_def run_version_def
      print_human_def render_success_def encode_json_def emit_output_def marshal_envelope_def as_cli_output_def)

text \<open>C34: A version request that the launcher accepts is answered exactly as the program it would start answers it. After the
  mode options are taken out, either program accepts the remaining arguments as a version request, and with the same
  version string the output and the exit status are the ones of the launcher, which has asked its surroundings nothing.\<close>

theorem launcher_version_as_child:
  assumes "parse_version_request (le_lower en) (lao_args opts) = Some (Some json)"
  shows "\<exists>found rem code xs. extract_mode (le_lower en) (lao_args opts) = Some (found, rem) \<and>
    launcher_execute en opts [] = (Inr code, xs) \<and> set xs \<subseteq> range LaunchText \<union> range LaunchVersion \<union> range LaunchError \<and>
    (\<forall>child s. eo_args child = rem \<and> eo_mode child \<in> {ModeMeta, ModeLegacy} \<and> eo_version child = lao_version opts \<and>
       eo_stdout_ok child = le_stdout_ok en \<longrightarrow>
       execute child s = (Inr code, s\<lparr>c_output := c_output s @ map as_cli_output xs\<rparr>))"
proof -
  obtain q' where q': "version_from (le_lower en) no_version_request (lao_args opts) = Some q'" "vr_json q' = json"
      "version_requested (lao_args opts)"
    using assms by (auto simp: parse_version_request_def split: if_splits)
  have "child_accepts (le_lower en) None (no_globals, vr_output_seen no_version_request) (lao_args opts) q'"
    by (rule version_from_child [OF q'(1)]) (simp_all add: no_version_request_def no_globals_def same_request_def)
  then obtain found rem g where child: "extract_mode (le_lower en) (lao_args opts) = Some (found, rem)"
      "extract_globals rem = Some (g, [])" "same_request q' g" "\<not> has_password_argument rem"
    using no_password_arguments by (auto simp: child_accepts_def extract_mode_def extract_globals_def no_version_request_def)
  have "vr_version_seen q'" using version_from_seen [OF q'(1)] q'(3) by blast
  then have g: "g_version g" "g_output g = (if json then OutputJSON else OutputHuman)"
    using child(3) q'(2) by (auto simp: same_request_def intro: output_mode.exhaust [of "g_output g"])
  define version where "version = (if lao_version opts = '''' then ''dev'' else lao_version opts)"
  have launch: "launcher_execute en opts h = launcher_version en json version h" for h
    using assms by (simp add: launcher_execute_def version_def)
  obtain code xs where out: "launcher_version en json version [] = (Inr code, xs)"
    using launcher_version_output [of en json version "[]" undefined] by auto
  have only: "set xs \<subseteq> range LaunchText \<union> range LaunchVersion \<union> range LaunchError"
    using out by (auto simp: launcher_version_def launcher_encode_def log_event_def modifyP_def bindP_def returnP_def split: if_splits)
  have "execute c s = (Inr code, s\<lparr>c_output := c_output s @ map as_cli_output xs\<rparr>)"
    if c: "eo_args c = rem" "eo_version c = lao_version opts" "eo_stdout_ok c = le_stdout_ok en" for c s
  proof -
    have "execute c s = run_version \<lparr>rd_mode = g_output g, rd_stdout_ok = le_stdout_ok en\<rparr> version s"
      using c child g by (simp add: execute_def Let_def exec_globals_def version_def)
    then show ?thesis using launcher_version_output [of en json version "[]" s] out g by auto
  qed
  then show ?thesis using child(1) launch out only by auto
qed

section \<open>What the launcher starts\<close>

definition started :: "launcher_event list \<Rightarrow> (string \<times> string list) list" where
  "started h = concat (map (\<lambda>e. case e of RanProgram p args \<Rightarrow> [(p, args)] | _ \<Rightarrow> []) h)"

lemma started_simps [simp]:
  "started [] = []" "started (h @ h') = started h @ started h'" "started [AskedMode] = []" "started [AskedConfigDir] = []"
  "started [ReadLauncherFile p] = []" "started [AskedExecutable] = []" "started [RanProgram p args] = [(p, args)]"
  "started [LaunchText t] = []" "started [LaunchVersion t] = []" "started [LaunchFailure c m] = []" "started [LaunchError t] = []"
  by (simp_all add: started_def)

text \<open>The documented order of precedence: the argument, the variable unless it is blank, the file, the default of the installation.\<close>

definition mode_chosen :: "launcher_env \<Rightarrow> launcher_options \<Rightarrow> launcher_mode option \<Rightarrow> launcher_mode \<Rightarrow> bool" where
  "mode_chosen en opts found m \<longleftrightarrow>
     (case found of
        Some f \<Rightarrow> m = f
      | None \<Rightarrow>
          if \<exists>v. le_mode en = Some v \<and> trim_space v \<noteq> ''''
          then parse_mode (le_lower en) (the (le_mode en)) = Some m
          else \<exists>dir. le_config_dir en = Some dir \<and> dir \<noteq> '''' \<and>
            (let file = le_file en (path_join [dir, ''ipgw-meta'', ''launcher.yaml'']) in
             (\<exists>data st. file = FileData data \<and> length data \<le> maxLauncherBytes \<and> le_decode en data = Some st \<and>
                ls_schema st = launcherSchemaVersion \<and> ls_mode st = mode_text m) \<or>
             file = FileMissing \<and> parse_mode (le_lower en) (lao_default opts) = Some m))"

lemma load_configured_run:
  obtains r where "load_configured_mode en path h = (r, h @ [ReadLauncherFile path])"
    "\<And>m. r = Inr (Some m) \<Longrightarrow> \<exists>data st. le_file en path = FileData data \<and> length data \<le> maxLauncherBytes \<and>
       le_decode en data = Some st \<and> ls_schema st = launcherSchemaVersion \<and> ls_mode st = mode_text m"
    "r = Inr None \<Longrightarrow> le_file en path = FileMissing"
proof
  show "load_configured_mode en path h = (fst (load_configured_mode en path h), h @ [ReadLauncherFile path])"
    by (auto simp: load_configured_mode_def log_event_def modifyP_def bindP_def throwP_def returnP_def
        split: launcher_file.splits option.splits if_splits)
  show "\<exists>data st. le_file en path = FileData data \<and> length data \<le> maxLauncherBytes \<and>
       le_decode en data = Some st \<and> ls_schema st = launcherSchemaVersion \<and> ls_mode st = mode_text m"
    if "fst (load_configured_mode en path h) = Inr (Some m)" for m
    using that by (cases "le_file en path")
      (auto simp: load_configured_mode_def log_event_def modifyP_def bindP_def throwP_def returnP_def mode_text_def
        split: option.splits if_splits)
  show "le_file en path = FileMissing" if "fst (load_configured_mode en path h) = Inr None"
    using that by (cases "le_file en path")
      (auto simp: load_configured_mode_def log_event_def modifyP_def bindP_def throwP_def returnP_def
        split: option.splits if_splits)
qed

definition only_asked :: "launcher_event list \<Rightarrow> bool" where
  "only_asked xs \<longleftrightarrow> set xs \<subseteq> {AskedMode, AskedConfigDir} \<union> range ReadLauncherFile"

lemma configured_run:
  obtains r xs where "configured_or_default en fallback h = (r, h @ xs)" "only_asked xs"
    "\<And>m. r = Inr m \<Longrightarrow> \<exists>dir. le_config_dir en = Some dir \<and> dir \<noteq> '''' \<and>
       (let file = le_file en (path_join [dir, ''ipgw-meta'', ''launcher.yaml'']) in
        (\<exists>data st. file = FileData data \<and> length data \<le> maxLauncherBytes \<and> le_decode en data = Some st \<and>
           ls_schema st = launcherSchemaVersion \<and> ls_mode st = mode_text m) \<or>
        file = FileMissing \<and> parse_mode (le_lower en) fallback = Some m)"
proof (cases "le_config_dir en = None \<or> le_config_dir en = Some ''''")
  case True
  then show ?thesis
    by (intro that [of "Inl FailureConfiguration" "[AskedConfigDir]"])
      (auto simp: configured_or_default_def log_event_def modifyP_def bindP_def throwP_def only_asked_def)
next
  case False
  then obtain dir where dir: "le_config_dir en = Some dir" "dir \<noteq> ''''" by auto
  let ?path = "path_join [dir, ''ipgw-meta'', ''launcher.yaml'']"
  obtain r where r: "load_configured_mode en ?path (h @ [AskedConfigDir]) = (r, (h @ [AskedConfigDir]) @ [ReadLauncherFile ?path])"
      "\<And>m. r = Inr (Some m) \<Longrightarrow> \<exists>data st. le_file en ?path = FileData data \<and> length data \<le> maxLauncherBytes \<and>
       le_decode en data = Some st \<and> ls_schema st = launcherSchemaVersion \<and> ls_mode st = mode_text m"
      "r = Inr None \<Longrightarrow> le_file en ?path = FileMissing"
    using load_configured_run by blast
  have run: "configured_or_default en fallback h =
      (case r of Inl e \<Rightarrow> Inl e | Inr (Some m) \<Rightarrow> Inr m
         | Inr None \<Rightarrow> (case parse_mode (le_lower en) fallback of None \<Rightarrow> Inl FailureStartup | Some m \<Rightarrow> Inr m),
       h @ [AskedConfigDir, ReadLauncherFile ?path])"
    using dir r(1) by (auto simp: configured_or_default_def log_event_def modifyP_def bindP_def throwP_def returnP_def
        split: sum.splits option.splits)
  show ?thesis
    by (rule that [OF run]) (use dir r(2,3) in \<open>auto simp: only_asked_def Let_def split: sum.splits option.splits\<close>)
qed

lemma resolve_found:
  "extract_mode (le_lower en) (lao_args opts) = Some (Some m, rem) \<Longrightarrow> resolve_mode en opts h = (Inr (m, rem), h)"
  by (simp add: resolve_mode_def returnP_def)

lemma resolve_variable:
  assumes "extract_mode (le_lower en) (lao_args opts) = Some (None, rem)" "le_mode en = Some v" "trim_space v \<noteq> ''''"
  shows "resolve_mode en opts h =
    (case parse_mode (le_lower en) v of None \<Rightarrow> Inl FailureInvalidArguments | Some m \<Rightarrow> Inr (m, rem), h @ [AskedMode])"
  using assms by (simp add: resolve_mode_def bindP_def log_event_def modifyP_def throwP_def returnP_def split: option.split)

lemma resolve_configured:
  assumes "extract_mode (le_lower en) (lao_args opts) = Some (None, rem)" "\<not> (\<exists>v. le_mode en = Some v \<and> trim_space v \<noteq> '''')"
    and "configured_or_default en (lao_default opts) (h @ [AskedMode]) = (r, h')"
  shows "resolve_mode en opts h = (case r of Inl e \<Rightarrow> Inl e | Inr m \<Rightarrow> Inr (m, rem), h')"
proof (cases "le_mode en")
  case None
  then show ?thesis using assms(1,3)
    by (simp add: resolve_mode_def bindP_def log_event_def modifyP_def returnP_def split: sum.split)
next
  case (Some v)
  then have "trim_space v = ''''" using assms(2) by blast
  then show ?thesis using assms(1,3) Some
    by (simp add: resolve_mode_def bindP_def log_event_def modifyP_def returnP_def split: sum.split)
qed

text \<open>What a resolution gives: the questions it asked, and the mode with the remaining arguments.\<close>

definition resolution_ok ::
    "launcher_env \<Rightarrow> launcher_options \<Rightarrow> launcher_event list \<Rightarrow> failure_kind + launcher_mode \<times> string list \<Rightarrow> bool" where
  "resolution_ok en opts xs r \<longleftrightarrow>
     only_asked xs \<and>
     (\<forall>m rem. r = Inr (m, rem) \<longrightarrow> (\<exists>found. extract_mode (le_lower en) (lao_args opts) = Some (found, rem) \<and>
        mode_chosen en opts found m \<and> (found \<noteq> None \<longrightarrow> xs = [])))"

lemma resolve_run: "\<exists>r xs. resolve_mode en opts h = (r, h @ xs) \<and> resolution_ok en opts xs r"
proof (cases "extract_mode (le_lower en) (lao_args opts)")
  case None
  then have "resolve_mode en opts h = (Inl FailureInvalidArguments, h @ [])" by (simp add: resolve_mode_def throwP_def)
  then show ?thesis by (auto simp: resolution_ok_def only_asked_def)
next
  case (Some fr)
  obtain found rem where fr: "fr = (found, rem)" by (cases fr)
  show ?thesis
  proof (cases found)
    case found: (Some m)
    have "resolution_ok en opts [] (Inr (m, rem))"
      using Some fr found by (simp add: resolution_ok_def only_asked_def mode_chosen_def)
    then show ?thesis using resolve_found [of en opts m rem h] Some fr found by (metis append.right_neutral)
  next
    case found: None
    show ?thesis
    proof (cases "\<exists>v. le_mode en = Some v \<and> trim_space v \<noteq> ''''")
      case True
      then obtain v where v: "le_mode en = Some v" "trim_space v \<noteq> ''''" by blast
      let ?r = "case parse_mode (le_lower en) v of None \<Rightarrow> Inl FailureInvalidArguments | Some m \<Rightarrow> Inr (m, rem)"
      have "mode_chosen en opts None m" if "parse_mode (le_lower en) v = Some m" for m
        using that v True by (simp add: mode_chosen_def)
      then have "resolution_ok en opts [AskedMode] ?r"
        using Some fr found by (simp add: resolution_ok_def only_asked_def split: option.split)
      then show ?thesis using resolve_variable [of en opts rem v h] Some fr found v by blast
    next
      case False
      obtain r xs where r: "configured_or_default en (lao_default opts) (h @ [AskedMode]) = (r, (h @ [AskedMode]) @ xs)" "only_asked xs"
        "\<And>m. r = Inr m \<Longrightarrow> \<exists>dir. le_config_dir en = Some dir \<and> dir \<noteq> '''' \<and>
           (let file = le_file en (path_join [dir, ''ipgw-meta'', ''launcher.yaml'']) in
            (\<exists>data st. file = FileData data \<and> length data \<le> maxLauncherBytes \<and> le_decode en data = Some st \<and>
               ls_schema st = launcherSchemaVersion \<and> ls_mode st = mode_text m) \<or>
            file = FileMissing \<and> parse_mode (le_lower en) (lao_default opts) = Some m)"
        using configured_run by blast
      let ?r = "case r of Inl e \<Rightarrow> Inl e | Inr m \<Rightarrow> Inr (m, rem)"
      have "mode_chosen en opts None m" if "r = Inr m" for m
        unfolding mode_chosen_def option.case if_not_P [OF False] by (rule r(3) [OF that])
      then have "resolution_ok en opts (AskedMode # xs) ?r"
        using Some fr found r(2) by (simp add: resolution_ok_def only_asked_def split: sum.split)
      moreover have "resolve_mode en opts h = (?r, h @ AskedMode # xs)"
        using resolve_configured [OF _ False r(1)] Some fr found by simp
      ultimately show ?thesis by blast
    qed
  qed
qed

lemma started_asked: "only_asked xs \<Longrightarrow> started xs = []"
  by (auto simp: only_asked_def started_def)

text \<open>Events that ask nothing about the mode.\<close>

definition no_question :: "launcher_event list \<Rightarrow> bool" where
  "no_question xs \<longleftrightarrow> AskedMode \<notin> set xs \<and> AskedConfigDir \<notin> set xs \<and> (\<forall>p. ReadLauncherFile p \<notin> set xs)"

lemma started_failure:
  "\<exists>code xs. launcher_failure en json k h = (Inr code, h @ xs) \<and> started xs = [] \<and> no_question xs \<and> code \<in> {1, 2}"
  by (cases k; cases json) (auto simp: launcher_failure_def failure_contract_def launcher_encode_def log_event_def modifyP_def
      bindP_def returnP_def no_question_def)

text \<open>
  The program of a mode beside the launcher: in the directory of its executable, under the name of the mode, with the
  suffix of a Windows program when the launcher has it, in upper or lower case.
\<close>

definition exe_suffix :: "string \<Rightarrow> string" where
  "exe_suffix p = (if map lower_char (drop (length p - 4) p) = ''.exe'' then ''.exe'' else '''')"

definition sibling_of :: "launcher_env \<Rightarrow> launcher_mode \<Rightarrow> string \<Rightarrow> bool" where
  "sibling_of en m target \<longleftrightarrow>
     (\<exists>exe absolute. le_executable en = Some exe \<and> exe \<noteq> '''' \<and> launcher_abs en exe = Some absolute \<and>
        target = path_join [path_dir absolute,
          (case m of LaunchMeta \<Rightarrow> ''ipgw-meta'' | LaunchLegacy \<Rightarrow> ''ipgw-legacy'') @ exe_suffix absolute])"

text \<open>The extension of a path is what follows its last dot, unless a slash comes later.\<close>

lemma path_ext_tail: "path_ext_from acc p = e \<Longrightarrow> acc = Some e \<or> e = '''' \<or> (\<exists>stem. p = stem @ e)"
proof (induction acc p rule: path_ext_from.induct)
  case (1 acc)
  then show ?case by (cases acc) simp_all
next
  case (2 acc c cs)
  have tail: "(\<exists>stem. cs = stem @ e) \<Longrightarrow> \<exists>stem. c # cs = stem @ e" by (metis append_Cons)
  consider "c = CHR ''/''" | "c = CHR ''.''" | "c \<noteq> CHR ''/''" "c \<noteq> CHR ''.''" by blast
  then show ?case
  proof cases
    case 1
    then show ?thesis using 2 tail by auto
  next
    case 2
    then have "Some (c # cs) = Some e \<or> e = '''' \<or> (\<exists>stem. cs = stem @ e)" using "2.IH"(2) "2.prems" by simp
    then show ?thesis using tail by (metis append_Nil option.inject)
  next
    case 3
    then show ?thesis using 2 tail by auto
  qed
qed

lemma path_ext_plain: "CHR ''/'' \<notin> set e \<Longrightarrow> CHR ''.'' \<notin> set e \<Longrightarrow> path_ext_from (Some x) e = x"
  by (induction e) auto

lemma path_ext_append:
  assumes "CHR ''/'' \<notin> set e" "CHR ''.'' \<notin> set e"
  shows "path_ext_from acc (stem @ CHR ''.'' # e) = CHR ''.'' # e"
  using assms by (induction stem arbitrary: acc) (simp_all add: path_ext_plain)

lemma fold_lower:
  assumes "set t \<inter> {CHR ''k'', CHR ''s'', CHR 0xE2, CHR 0xC5} = {}"
  shows "fold_ascii e = t \<longleftrightarrow> map lower_char e = t"
  using assms
proof (induction e arbitrary: t rule: fold_ascii.induct)
  case 1
  then show ?case by simp
next
  case (2 c cs)
  show ?case
  proof (cases "find (\<lambda>p. has_prefix (c # cs) (fst p) \<and> fst p \<noteq> []) fold_seqs")
    case None
    then show ?thesis using "2.IH" "2.prems" by (cases t) auto
  next
    case (Some p)
    then have "p \<in> set fold_seqs" "has_prefix (c # cs) (fst p)" by (auto simp: find_Some_iff)
    then have "snd p \<in> {CHR ''k'', CHR ''s''}" "c \<in> {CHR 0xE2, CHR 0xC5}"
      by (auto simp: fold_seqs_def)
    moreover from this have "lower_char c = c"
      by (auto simp: lower_char_def is_upper_def in_range_def)
    ultimately show ?thesis using Some "2.prems" by auto
  qed
qed

lemma exe_extension: "equal_fold (path_ext p) ''.exe'' \<longleftrightarrow> exe_suffix p = ''.exe''"
proof -
  have word: "set ''.exe'' \<inter> {CHR ''k'', CHR ''s'', CHR 0xE2, CHR 0xC5} = {}" by simp
  have self: "fold_ascii ''.exe'' = ''.exe''" by code_simp
  have fold: "equal_fold e ''.exe'' \<longleftrightarrow> map lower_char e = ''.exe''" for e
    unfolding equal_fold_def self by (rule fold_lower [OF word])
  have same: "lower_char c = CHR ''.'' \<longleftrightarrow> c = CHR ''.''" for c
    by (cases "is_upper c") (auto simp: lower_char_def is_upper_def in_range_def dest!: arg_cong [where f = byte])
  have slash: "lower_char (CHR ''/'') = CHR ''/''" "lower_char (CHR ''.'') = CHR ''.''" by code_simp+
  show ?thesis
  proof
    assume "equal_fold (path_ext p) ''.exe''"
    then have e: "map lower_char (path_ext p) = ''.exe''" by (simp add: fold)
    then obtain stem where stem: "p = stem @ path_ext p"
      using path_ext_tail [of None p "path_ext p"] by (auto simp: path_ext_def)
    have "length (path_ext p) = 4" using arg_cong [OF e, of length] by simp
    then have "drop (length p - 4) p = path_ext p" by (subst (2) stem, subst stem) simp
    then show "exe_suffix p = ''.exe''" using e by (simp add: exe_suffix_def)
  next
    assume "exe_suffix p = ''.exe''"
    then have e: "map lower_char (drop (length p - 4) p) = ''.exe''" by (simp add: exe_suffix_def split: if_splits)
    then obtain d x where d: "drop (length p - 4) p = d # x" "d = CHR ''.''" "map lower_char x = ''exe''"
      by (cases "drop (length p - 4) p") (auto simp: same)
    have lowered: "lower_char c \<in> set ''exe''" if "c \<in> set x" for c
    proof -
      have "lower_char c \<in> set (map lower_char x)" using that by simp
      then show ?thesis unfolding d(3) .
    qed
    have "CHR ''/'' \<notin> set x" "CHR ''.'' \<notin> set x"
      using lowered [of "CHR ''/''"] lowered [of "CHR ''.''"] slash by auto
    then have "path_ext p = CHR ''.'' # x"
      using path_ext_append [of x None "take (length p - 4) p"] d(1,2) append_take_drop_id [of "length p - 4" p]
      by (simp add: path_ext_def)
    then show "equal_fold (path_ext p) ''.exe''" using e d by (simp add: fold)
  qed
qed

lemma sibling_iff: "sibling_of en m target \<longleftrightarrow> (\<exists>exe. le_executable en = Some exe \<and> sibling_executable en exe m = Some target)"
proof -
  have suffix: "(if equal_fold (path_ext p) ''.exe'' then ''.exe'' else '''') = exe_suffix p" for p
    unfolding exe_extension by (auto simp: exe_suffix_def)
  have name: "''ipgw-'' @ mode_text m = (case m of LaunchMeta \<Rightarrow> ''ipgw-meta'' | LaunchLegacy \<Rightarrow> ''ipgw-legacy'')"
    by (cases m) (simp_all add: mode_text_def)
  show ?thesis
    unfolding sibling_of_def sibling_executable_def suffix name [symmetric] by auto
qed

definition run_ok :: "launcher_env \<Rightarrow> launcher_mode \<Rightarrow> string list \<Rightarrow> launcher_event list \<Rightarrow> failure_kind + int \<Rightarrow> bool" where
  "run_ok en m rem xs r \<longleftrightarrow>
     no_question xs \<and>
     (started xs = [] \<and> r = Inl FailureStartup \<or>
      (\<exists>target. started xs = [(target, rem)] \<and> sibling_of en m target \<and>
         r = (case le_run en target rem of None \<Rightarrow> Inl FailureStartup | Some code \<Rightarrow> Inr code)))"

lemma selected_run: "\<exists>r xs. run_selected en (m, rem) h = (r, h @ xs) \<and> run_ok en m rem xs r"
proof (cases "\<exists>target. sibling_of en m target")
  case True
  then obtain exe target where t: "le_executable en = Some exe" "sibling_executable en exe m = Some target"
    by (auto simp: sibling_iff)
  let ?r = "case le_run en target rem of None \<Rightarrow> Inl FailureStartup | Some code \<Rightarrow> Inr code"
  have "started [AskedExecutable, RanProgram target rem] = [(target, rem)]"
    using started_simps(2) [of "[AskedExecutable]" "[RanProgram target rem]"] by simp
  then have "run_ok en m rem [AskedExecutable, RanProgram target rem] ?r"
    using t by (auto simp: run_ok_def no_question_def sibling_iff)
  moreover have "run_selected en (m, rem) h = (?r, h @ [AskedExecutable, RanProgram target rem])"
    using t by (simp add: run_selected_def bindP_def log_event_def modifyP_def returnP_def throwP_def split: option.split)
  ultimately show ?thesis by blast
next
  case False
  then have "run_selected en (m, rem) h = (Inl FailureStartup, h @ [AskedExecutable])"
    by (auto simp: run_selected_def bindP_def log_event_def modifyP_def throwP_def sibling_iff split: option.split)
  then show ?thesis by (auto simp: run_ok_def no_question_def)
qed

lemma selected_ended:
  "\<exists>code ws. handleP (run_selected en (m, rem)) (launcher_failure en json) returnP xs = (Inr code, xs @ ws) \<and> no_question ws \<and>
     (started ws = [] \<and> code \<in> {1, 2} \<or>
      (\<exists>target. sibling_of en m target \<and> started ws = [(target, rem)] \<and>
         (\<forall>status. le_run en target rem = Some status \<longrightarrow> code = status)))"
proof -
  obtain r ys where r: "run_selected en (m, rem) xs = (r, xs @ ys)" "run_ok en m rem ys r"
    using selected_run by blast
  obtain fc zs where fail: "launcher_failure en json FailureStartup (xs @ ys) = (Inr fc, (xs @ ys) @ zs)" "started zs = []"
      "no_question zs" "fc \<in> {1, 2}"
    using started_failure by blast
  show ?thesis
  proof (cases r)
    case (Inl k)
    then have "k = FailureStartup" using r(2) by (auto simp: run_ok_def split: option.splits)
    then have "handleP (run_selected en (m, rem)) (launcher_failure en json) returnP xs = (Inr fc, xs @ ys @ zs)"
      using r(1) Inl fail(1) by (simp add: handleP_def)
    moreover have "no_question (ys @ zs)" using r(2) fail(3) by (auto simp: run_ok_def no_question_def)
    ultimately show ?thesis using r(2) Inl fail(2,4)
      by (intro exI [of _ fc] exI [of _ "ys @ zs"]) (auto simp: run_ok_def split: option.splits)
  next
    case (Inr code)
    then have "handleP (run_selected en (m, rem)) (launcher_failure en json) returnP xs = (Inr code, xs @ ys)"
      using r(1) by (simp add: handleP_def returnP_def)
    then show ?thesis using r(2) Inr by (intro exI [of _ code] exI [of _ ys]) (auto simp: run_ok_def split: option.splits)
  qed
qed

lemma version_request_starts_nothing:
  assumes "launcher_execute en opts [] = (r, h)" "parse_version_request (le_lower en) (lao_args opts) = Some request"
  shows "\<exists>code. r = Inr code \<and> started h = []"
proof (cases request)
  case None
  then show ?thesis using assms started_failure [of en "launcher_preparse_json (lao_args opts)" FailureInvalidArguments "[]"]
    by (auto simp: launcher_execute_def)
next
  case req: (Some json)
  define version where "version = (if lao_version opts = '''' then ''dev'' else lao_version opts)"
  have "launcher_version en json version [] = (r, h)" using req assms by (simp add: launcher_execute_def version_def)
  then show ?thesis
    by (auto simp: launcher_version_def launcher_encode_def log_event_def modifyP_def bindP_def returnP_def split: if_splits)
qed

text \<open>C35: The launcher always ends with an exit status and starts at most one program: the sibling of its own executable for
  the mode that the documented order of precedence gives (argument, variable, file, default of the installation), with the
  arguments of the user less the mode options; the status of the program is then the one of the launcher. With a mode among
  the arguments nothing else is consulted, and a version request starts nothing.\<close>

theorem launcher_starts_sibling:
  assumes "launcher_execute en opts [] = (r, h)"
  shows "\<exists>code. r = Inr code \<and>
    (started h = [] \<and> (parse_version_request (le_lower en) (lao_args opts) = None \<longrightarrow> code \<in> {1, 2}) \<or>
     parse_version_request (le_lower en) (lao_args opts) = None \<and>
     (\<exists>found m rem target. extract_mode (le_lower en) (lao_args opts) = Some (found, rem) \<and> mode_chosen en opts found m \<and>
        sibling_of en m target \<and> started h = [(target, rem)] \<and>
        (\<forall>status. le_run en target rem = Some status \<longrightarrow> code = status) \<and>
        (found \<noteq> None \<longrightarrow> no_question h)))"
proof (cases "parse_version_request (le_lower en) (lao_args opts)")
  case (Some request)
  then show ?thesis using version_request_starts_nothing [OF assms Some] by auto
next
  case None
  let ?fail = "launcher_failure en (launcher_preparse_json (lao_args opts))"
  have run: "launcher_execute en opts = handleP (bindP (resolve_mode en opts) (run_selected en)) ?fail returnP"
    using None by (simp add: launcher_execute_def)
  obtain r1 xs where r1: "resolve_mode en opts [] = (r1, [] @ xs)" "resolution_ok en opts xs r1"
    using resolve_run by blast
  have xs: "started xs = []" using r1(2) started_asked by (simp add: resolution_ok_def)
  show ?thesis
  proof (cases r1)
    case (Inl k)
    then show ?thesis using run assms r1(1) xs started_failure [of en "launcher_preparse_json (lao_args opts)" k xs] None
      by (auto simp: handleP_def bindP_def)
  next
    case (Inr chosen)
    obtain m rem where chosen: "chosen = (m, rem)" by (cases chosen)
    obtain found where found: "extract_mode (le_lower en) (lao_args opts) = Some (found, rem)" "mode_chosen en opts found m"
        "found \<noteq> None \<longrightarrow> xs = []"
      using r1(2) Inr chosen by (auto simp: resolution_ok_def)
    have "launcher_execute en opts [] = handleP (run_selected en (m, rem)) ?fail returnP xs"
      using run r1(1) Inr chosen by (simp add: handleP_def bindP_def)
    then obtain code ws where e: "r = Inr code" "h = xs @ ws" "no_question ws"
        "started ws = [] \<and> code \<in> {1, 2} \<or> (\<exists>target. sibling_of en m target \<and> started ws = [(target, rem)] \<and>
           (\<forall>status. le_run en target rem = Some status \<longrightarrow> code = status))"
      using selected_ended [of en m rem "launcher_preparse_json (lao_args opts)" xs] assms by auto
    moreover have "found \<noteq> None \<longrightarrow> no_question h" using found(3) e(2,3) by auto
    ultimately show ?thesis using None found(1,2) xs by auto
  qed
qed

section \<open>Runs\<close>

definition demo_launcher :: launcher_env where
  "demo_launcher =
     \<lparr>le_lower = (\<lambda>s. s), le_mode = None, le_config_dir = Some ''/home/u/.config'', le_file = (\<lambda>_. FileMissing),
      le_decode = (\<lambda>_. None), le_executable = Some ''/opt/ipgw'', le_cwd = None, le_run = (\<lambda>_ _. Some 3),
      le_stdout_ok = True\<rparr>"

definition demo_launch :: "string list \<Rightarrow> launcher_options" where
  "demo_launch args = \<lparr>lao_args = args, lao_default = ''meta'', lao_version = ''1.0''\<rparr>"

theorem launcher_version_as_child_witness:
  "\<exists>rem. extract_mode (\<lambda>s. s) [''--mode'', ''legacy'', ''--version'', ''--output'', ''json''] = Some (Some LaunchLegacy, rem) \<and>
     rem = [''--version'', ''--output'', ''json'']"
proof -
  have "parse_version_request (le_lower demo_launcher)
      (lao_args (demo_launch [''--mode'', ''legacy'', ''--version'', ''--output'', ''json''])) = Some (Some True)"
    by code_simp
  from launcher_version_as_child [OF this]
  have "extract_mode (\<lambda>s. s) [''--mode'', ''legacy'', ''--version'', ''--output'', ''json''] \<noteq> None"
    by (auto simp: demo_launcher_def demo_launch_def)
  moreover have "extract_mode (\<lambda>s. s) [''--mode'', ''legacy'', ''--version'', ''--output'', ''json''] =
      Some (Some LaunchLegacy, [''--version'', ''--output'', ''json''])"
    by code_simp
  ultimately show ?thesis by simp
qed

theorem launcher_starts_sibling_witness:
  "launcher_execute demo_launcher (demo_launch [''login'', ''--switch'']) [] =
     (Inr 3, [AskedMode, AskedConfigDir, ReadLauncherFile ''/home/u/.config/ipgw-meta/launcher.yaml'', AskedExecutable,
        RanProgram ''/opt/ipgw-meta'' [''login'', ''--switch'']]) \<and>
   sibling_of demo_launcher LaunchMeta ''/opt/ipgw-meta''"
proof -
  have run: "launcher_execute demo_launcher (demo_launch [''login'', ''--switch'']) [] =
     (Inr 3, [AskedMode, AskedConfigDir, ReadLauncherFile ''/home/u/.config/ipgw-meta/launcher.yaml'', AskedExecutable,
        RanProgram ''/opt/ipgw-meta'' [''login'', ''--switch'']])"
    by code_simp
  have "sibling_of demo_launcher m t \<Longrightarrow> t = ''/opt/ipgw-meta'' \<Longrightarrow> m = LaunchMeta" for m t
  proof -
    have "sibling_executable demo_launcher ''/opt/ipgw'' LaunchLegacy = Some ''/opt/ipgw-legacy''" by code_simp
    then show "sibling_of demo_launcher m t \<Longrightarrow> t = ''/opt/ipgw-meta'' \<Longrightarrow> m = LaunchMeta"
      by (cases m) (simp_all add: sibling_iff demo_launcher_def)
  qed
  note only = this
  have "started [AskedMode, AskedConfigDir, ReadLauncherFile ''/home/u/.config/ipgw-meta/launcher.yaml'', AskedExecutable,
        RanProgram ''/opt/ipgw-meta'' [''login'', ''--switch'']] = [(''/opt/ipgw-meta'', [''login'', ''--switch''])]"
    by (simp add: started_def)
  then show ?thesis using launcher_starts_sibling [OF run] run only by auto
qed

end
