(* ===== verification/Spec2Isabelle.thy ===== *)
theory Spec2Isabelle
  imports LgGate LgProduct CasWire MigRestart Launcher
begin

text \<open>
  A verification of IPGW-Meta, a Go client for the network login of a campus: an Srun gateway behind a CAS single
  sign-on.  This theory only collects the library; every theory opens with what it holds.

  \<^bold>\<open>The program\<close>

  The SDK (package \<open>ipgw\<close>, the files at the top of \<open>src/\<close>) asks the gateway for the status of the session, logs in with
  a password or with a QR code that a phone confirms, and logs out.  The configuration (\<open>internal/config\<close>) holds profiles
  without secrets, providers of passwords, and the migration of older configurations.  The service (\<open>internal/app\<close>) joins
  both for the commands (\<open>internal/cli\<close>), which two programs offer; the third, \<open>ipgw\<close>, is the launcher
  (\<open>internal/launcher\<close>) that starts one of the two.  The live validation gate (\<open>internal/livegate\<close>) runs a release candidate
  of the command line program against the real network and publishes evidence of what it saw.

  \<^bold>\<open>How the program is represented\<close>

  A component has its data as records and datatypes with the fields and cases of the source, and one definition per
  function.  A string is the list of its bytes.  An error a function returns is a value: \<open>None\<close> or \<open>Inl\<close>; a procedure
  that has effects is a function from the state to an outcome and the next state (\<open>proc\<close> of \<open>Prelude\<close>).  What the program
  asks of its surroundings is an event of a history or a call on a disk, and the surroundings are a parameter that answers
  from what has happened so far, so that a theorem holds for every course of answers, failures, cancellations and, on the
  disk, for a process that ends in the middle of any call.  Integers are unbounded where the code only compares them;
  durations saturate at 64 bits where it subtracts times (\<open>elapsed_seconds\<close>).  Names that clash with HOL have a suffix.

  \<^bold>\<open>The standard library\<close>

  \<open>GoStrings\<close> (\<open>strings\<close>, \<open>strconv\<close>, \<open>unicode\<close>), \<open>GoUrl\<close> (\<open>net/url\<close>), \<open>GoJson\<close> (\<open>encoding/json\<close>: scanner, unquoting, the
  depth limit and what \<open>Unmarshal\<close> stores), \<open>GoBase64\<close> (\<open>encoding/base64\<close>), as far as the source uses them, with the laws
  the components rely on: round trips of numbers, escapes, queries and encodings.  The JSON parser has fuel; \<open>json_limit\<close>
  is always enough (\<open>parse_json_total\<close>): a byte of the input is worth at most two units of it.

  \<^bold>\<open>The SDK\<close>

  \<open>Wirejson\<close> is \<open>internal/wirejson/object.go\<close>, \<open>Srun\<close> is \<open>internal/srun\<close>, \<open>CasWire\<close> is \<open>qr.go\<close> and the JSON and text part of
  \<open>challenge.go\<close> of \<open>internal/cas\<close>; \<open>SdkErrors\<close> is \<open>errors.go\<close>; \<open>SdkClient\<close> is \<open>client.go\<close> and \<open>status.go\<close>, one event for every
  request that reaches the wire; \<open>SdkAuth\<close> is \<open>auth.go\<close>; \<open>SdkNet\<close> is \<open>options.go\<close>, \<open>interfaces.go\<close> and the RSA envelope of a
  password.  The theorems about answers: a status is read as online only with a valid identity, balances are exact to the
  cent, a QR answer has one state; the interfaces listed are exactly those a caller may bind to.  About sessions (\<open>SdkSafety\<close>, \<open>SdkLogin\<close>): requests go only to the campus hosts and
  without credentials in the URL, no login step is taken while the last known status is not offline, a login or logout
  that reports success was verified on the gateway afterwards, an online session of somebody else is left alone unless
  the caller asked to replace it.  They are proved once in locales over the events of a session (\<open>event_law\<close>,
  \<open>login_events\<close>, \<open>status_events\<close>, \<open>session_events\<close>) and interpreted on the procedures of \<open>auth.go\<close> for each reading of a
  history.  \<open>SdkDemo\<close> is a small campus in which the concrete sessions run.

  The loop that polls the QR login has no bound in the code but the lifetime of the QR code; here it has fuel.  With the
  lifetime of three minutes and a wait of three seconds after each pending answer, 61 turns are enough, if the clock does
  not run backwards and a wait takes as long as asked: \<open>qr_login_terminates\<close>.

  \<^bold>\<open>The configuration\<close>

  \<open>ConfigTypes\<close> is \<open>types.go\<close> and \<open>paths.go\<close>; \<open>ConfigFs\<close> the disk and the calls on it, each of which may fail or be the last
  one; \<open>ConfigStore\<close> is \<open>store.go\<close> with its Unix lock; \<open>Credentials\<close> is \<open>credentials.go\<close>.  A save either keeps the old
  configuration or puts the new one in place, or says that it does not know; an update applies its change to what was
  there; what was written can be loaded again; a keyring entry of somebody else is never overwritten.

  The migration (\<open>migration.go\<close>, \<open>migration_journal.go\<close>) is \<open>MigJournal\<close>, \<open>MigSource\<close>, \<open>MigPlan\<close> and \<open>MigApply\<close>.  Its specification
  is the \<open>situation\<close> of \<open>MigRecover\<close>: what a transaction started from, what it puts in place, and what it may touch.
  \<open>MigForward\<close> and \<open>MigRecover\<close> show that every stage of the transaction and of a recovery leads from one state of the
  situation to the next whatever ends it, \<open>MigSafety\<close> that a migration with any number of interruptions and recoveries
  leaves the starting point, the finished migration, a journal that describes how to reach one of them, or the beginning
  of a journal and nothing else changed; that the phase of the journal decides which end a recovery leads to, through any
  number of failed ones; and that a snapshot cut short by a crash blocks every recovery.  \<open>MigLive\<close> has the calls that do not fail,
  \<open>MigDemo\<close> a migration from end to end, an interrupted one and its recovery, and \<open>MigRestart\<close> shows that a recovery
  with working calls succeeds when the files it finds are whole.

  \<^bold>\<open>The commands\<close>

  \<open>AppService\<close> is \<open>internal/app/service.go\<close>: the profile of a login is never guessed, a login that succeeds is online as that
  profile's account, and without the policy to switch a session that is there is kept.  Of \<open>internal/cli\<close>, \<open>CliArgs\<close> has the command lines, \<open>CliRender\<close> is \<open>render.go\<close>,
  \<open>CliProfiles\<close> is \<open>profiles.go\<close>, \<open>CliMigrate\<close> and \<open>CliRun\<close> are \<open>commands.go\<close> and \<open>run.go\<close>.  \<open>CliContract\<close> is what they promise together: in
  JSON mode exactly one document on standard output, a documented exit status that agrees with it, error texts of fixed
  words, and in the modern program no password that comes from its command line.  \<open>Launcher\<close>: the launcher answers a
  version request as the program it would start does, and starts at most the sibling program that the order of
  precedence selects.

  \<^bold>\<open>The gate\<close>

  \<open>LgSchema\<close> is \<open>schema.go\<close>, \<open>LgRunner\<close> the state machine of \<open>runner.go\<close>, \<open>LgProcess\<close> is \<open>stream_json.go\<close> and \<open>process.go\<close>,
  \<open>LgCandidate\<close> is \<open>manifest.go\<close> and \<open>candidate.go\<close>, \<open>LgExecute\<close> is \<open>execute.go\<close>.  The theorems go from the parts to the
  whole: a run has steps that the schema accepts, executes the actions of its suite in order, cleans up a session it
  owns, and passes only if every step was confirmed; an observation states what the document of the program says
  (\<open>LgReading\<close>); the documents the commands print are read as what they mean (\<open>LgProduct\<close>, which joins \<open>CliRender\<close> with
  \<open>LgProcess\<close>); a candidate is the same file before and after (\<open>LgCandidate\<close>); and the exit status of the gate answers for
  all of it (\<open>LgGate\<close>).

  \<^bold>\<open>Parameters\<close>

  The YAML decoder and encoder, digests, the lower case of Unicode text, what \<open>goquery\<close> finds in an HTML page, what a
  keyring returns, the answers of the gateway and of the CAS, random numbers, clocks and contexts, the terminal of the
  launcher and of the gate, the process under test, the opening of a private file on the platform of the gate, the
  publication of a bundle.  A theorem that needs a law of one of them has it as a hypothesis, and its witness has a concrete
  function for it.

  \<^bold>\<open>What is not modelled\<close>

  The HTTP transport and TLS (\<open>internal/transport\<close>), except its fixed hosts; \<open>internal/cas/page.go\<close>, which is calls of an HTML
  library; the raw terminal input of prompts; the Windows and other-platform variants of private files, locks and
  replacement (the Unix ones are modelled); \<open>bundle.go\<close> and the JSON codec of the evidence; the packaging of candidates
  (\<open>internal/candidate\<close>), which is archives, \<open>git\<close> and the file system; the checks of documents, workflows and installers
  (\<open>doccheck\<close>, \<open>workflowguard\<close>, \<open>installtest\<close>), which check the repository and not the product; the \<open>main\<close> functions and the
  scripts.  Directories and temporary files of the configuration are not represented.  An error keeps the distinctions the
  code makes on it; texts nobody inspects are shortened.  The concurrent reading of the output of the process is the
  parse of the whole text.  What the QR prompt draws is part of the interaction, not of the output.  The gate is given a
  context and an executor; its answers to their absence, which its \<open>main\<close> function cannot cause, are left out.  Restricted
  credential files are read by path, without the second look at the open handle (\<open>Credentials\<close>).
\<close>

end
